(* ===== verification/Py_Prelude.thy ===== *)
theory Py_Prelude
  imports Main "HOL-Library.AList" "HOL-Library.Char_ord" "HOL-Library.List_Lexorder"
begin

text \<open>
  The shared prelude: Python exceptions as values, the sequencing of fallible steps, and the
  string and container operations of the Python standard library that the scripts use.

  A function that can raise has the result type \<open>'a py = exn + 'a\<close>. The constructors of
  \<open>exn\<close> are the exception classes the scripts raise or catch; the predicates below say which
  of them an \<open>except\<close> clause catches (in the scripts \<open>ReportsError\<close> and
  \<open>SummaryError\<close> derive from \<open>ValueError\<close>, the others from \<open>RuntimeError\<close>).
  A Python \<open>str\<close> is a \<open>string\<close>; code points above 255 are not modelled.
\<close>

section \<open>Exceptions\<close>

datatype exn =
    KeyError string
  | TypeError
  | IndexError
  | AttributeError
  | ValueError string
  | OSError string
  | OverflowError
  | ZeroDivisionError
  | StopIteration
  | LaneError string
  | ReportsError string
  | SummaryError string
  | BenchmarkError string
  | BuildError string
  | DependencyError string
  | CampaignError string
  | ParseError string
  | Interrupted
  | SystemExit \<comment> \<open>\<open>argparse\<close> rejecting the command line\<close>

type_synonym 'a py = "exn + 'a"

definition is_value_error :: "exn \<Rightarrow> bool" where
  "is_value_error e = (case e of
      ValueError _ \<Rightarrow> True | ReportsError _ \<Rightarrow> True | SummaryError _ \<Rightarrow> True | _ \<Rightarrow> False)"

definition is_exception :: "exn \<Rightarrow> bool" where
  \<comment> \<open>\<open>except Exception\<close>: everything but \<open>KeyboardInterrupt\<close> and \<open>SystemExit\<close>\<close>
  "is_exception e = (e \<noteq> Interrupted \<and> e \<noteq> SystemExit)"

fun exn_text :: "exn \<Rightarrow> string" where
  \<comment> \<open>\<open>str(error)\<close>; a missing key is shown in quotes\<close>
  "exn_text (KeyError k) = CHR 0x27 # k @ [CHR 0x27]"
| "exn_text TypeError = ''unsupported operand or argument type''"
| "exn_text IndexError = ''list index out of range''"
| "exn_text AttributeError = ''object has no such attribute''"
| "exn_text (ValueError m) = m"
| "exn_text (OSError m) = m"
| "exn_text OverflowError = ''int too large to convert to float''"
| "exn_text ZeroDivisionError = ''division by zero''"
| "exn_text StopIteration = []"
| "exn_text (LaneError m) = m"
| "exn_text (ReportsError m) = m"
| "exn_text (SummaryError m) = m"
| "exn_text (BenchmarkError m) = m"
| "exn_text (BuildError m) = m"
| "exn_text (DependencyError m) = m"
| "exn_text (CampaignError m) = m"
| "exn_text (ParseError m) = m"
| "exn_text Interrupted = []"
| "exn_text SystemExit = ''2''"

section \<open>Sequencing of fallible steps\<close>

named_theorems pyE \<open>inversion of steps that did not raise\<close>

definition bindE :: "'a py \<Rightarrow> ('a \<Rightarrow> 'b py) \<Rightarrow> 'b py" where
  "bindE m f = (case m of Inl e \<Rightarrow> Inl e | Inr x \<Rightarrow> f x)"

lemma bindE_simps [simp]:
  "bindE (Inl e) f = Inl e"
  "bindE (Inr x) f = f x"
  by (simp_all add: bindE_def)

lemma bindE_Inr_iff [pyE]: "bindE m f = Inr y \<longleftrightarrow> (\<exists>x. m = Inr x \<and> f x = Inr y)"
  by (cases m) auto

lemma bindE_Inl_iff: "bindE m f = Inl e \<longleftrightarrow> m = Inl e \<or> (\<exists>x. m = Inr x \<and> f x = Inl e)"
  by (cases m) auto

lemma bindE_assoc: "bindE (bindE m f) g = bindE m (\<lambda>x. bindE (f x) g)"
  by (cases m) auto

lemma bindE_return [simp]: "bindE m Inr = m"
  by (cases m) auto

lemma bindE_cong [fundef_cong]:
  "m = m' \<Longrightarrow> (\<And>x. m' = Inr x \<Longrightarrow> f x = f' x) \<Longrightarrow> bindE m f = bindE m' f'"
  by (cases m') auto

definition raise_if :: "bool \<Rightarrow> exn \<Rightarrow> unit py" where
  "raise_if b e = (if b then Inl e else Inr ())"

lemma raise_if_Inr_iff [pyE]: "raise_if b e = Inr u \<longleftrightarrow> \<not> b"
  by (simp add: raise_if_def)

lemma raise_if_simps [simp]:
  "raise_if True e = Inl e"
  "raise_if False e = Inr ()"
  by (simp_all add: raise_if_def)

lemma if_raise_Inr_iff [pyE]: "(if b then Inl e else m) = Inr x \<longleftrightarrow> \<not> b \<and> m = Inr x"
  by simp

lemma bindE_InrE: "bindE m f = Inr y \<Longrightarrow> (\<And>x. m = Inr x \<Longrightarrow> f x = Inr y \<Longrightarrow> P) \<Longrightarrow> P"
  by (auto simp: bindE_Inr_iff)

lemma if_InlE: "(if b then Inl e else m) = Inr x \<Longrightarrow> (\<not> b \<Longrightarrow> m = Inr x \<Longrightarrow> P) \<Longrightarrow> P"
  by (auto split: if_splits)

lemma check_InrE:
  "bindE m (\<lambda>b. if b then Inl e else k) = Inr y \<Longrightarrow> (m = Inr False \<Longrightarrow> k = Inr y \<Longrightarrow> P) \<Longrightarrow> P"
  by (auto simp: bindE_Inr_iff split: if_splits)

definition catchE :: "'a py \<Rightarrow> (exn \<Rightarrow> bool) \<Rightarrow> (exn \<Rightarrow> 'a py) \<Rightarrow> 'a py" where
  "catchE m p h = (case m of Inl e \<Rightarrow> (if p e then h e else Inl e) | Inr x \<Rightarrow> Inr x)"

lemma catchE_simps [simp]:
  "catchE (Inr x) p h = Inr x"
  "catchE (Inl e) p h = (if p e then h e else Inl e)"
  by (simp_all add: catchE_def)

lemma catchE_Inr_iff: "catchE m p h = Inr y \<longleftrightarrow> m = Inr y \<or> (\<exists>e. m = Inl e \<and> p e \<and> h e = Inr y)"
  by (cases m) auto

text \<open>Which exceptions a step can raise.\<close>

definition raises :: "(exn \<Rightarrow> bool) \<Rightarrow> 'a py \<Rightarrow> bool" where
  "raises P m = (case m of Inl e \<Rightarrow> P e | Inr _ \<Rightarrow> True)"

lemma raises_Inl: "raises P m \<Longrightarrow> m = Inl e \<Longrightarrow> P e"
  by (simp add: raises_def)

lemma raises_intros [intro]:
  "raises P (Inr x)"
  "P e \<Longrightarrow> raises P (Inl e)"
  "P e \<Longrightarrow> raises P (raise_if b e)"
  "raises P m \<Longrightarrow> raises P m' \<Longrightarrow> raises P (if b then m else m')"
  by (simp_all add: raises_def raise_if_def)

lemma raises_bind [intro]: "raises P m \<Longrightarrow> (\<And>x. raises P (f x)) \<Longrightarrow> raises P (bindE m f)"
  by (cases m) (simp_all add: raises_def)

text \<open>The loops: \<open>forE\<close> runs a check on every item, \<open>mapE\<close> collects a result for every
  item, both stop at the first exception; \<open>anyE\<close> is the short-circuit \<open>or\<close>.\<close>

fun forE :: "('a \<Rightarrow> unit py) \<Rightarrow> 'a list \<Rightarrow> unit py" where
  "forE f [] = Inr ()"
| "forE f (x # xs) = bindE (f x) (\<lambda>_. forE f xs)"

fun mapE :: "('a \<Rightarrow> 'b py) \<Rightarrow> 'a list \<Rightarrow> 'b list py" where
  "mapE f [] = Inr []"
| "mapE f (x # xs) = bindE (f x) (\<lambda>y. bindE (mapE f xs) (\<lambda>ys. Inr (y # ys)))"

fun anyE :: "bool py list \<Rightarrow> bool py" where
  "anyE [] = Inr False"
| "anyE (m # ms) = bindE m (\<lambda>b. if b then Inr True else anyE ms)"

fun filterE :: "('a \<Rightarrow> bool py) \<Rightarrow> 'a list \<Rightarrow> 'a list py" where
  "filterE p [] = Inr []"
| "filterE p (x # xs) = bindE (p x) (\<lambda>b. bindE (filterE p xs) (\<lambda>ys. Inr (if b then x # ys else ys)))"

fun foldE :: "('a \<Rightarrow> 's \<Rightarrow> 's py) \<Rightarrow> 'a list \<Rightarrow> 's \<Rightarrow> 's py" where
  "foldE f [] st = Inr st"
| "foldE f (x # xs) st = bindE (f x st) (foldE f xs)"

lemma forE_Inr_iff [pyE]: "forE f xs = Inr u \<longleftrightarrow> (\<forall>x \<in> set xs. f x = Inr ())"
  by (induction xs) (auto simp: bindE_Inr_iff)

lemma mapE_Inr_iff [pyE]: "mapE f xs = Inr ys \<longleftrightarrow> list_all2 (\<lambda>x y. f x = Inr y) xs ys"
  by (induction xs arbitrary: ys) (auto simp: bindE_Inr_iff list_all2_Cons1)

lemma mapE_left: "mapE f xs = Inr ys \<Longrightarrow> x \<in> set xs \<Longrightarrow> \<exists>y \<in> set ys. f x = Inr y"
  by (induction xs arbitrary: ys) (auto simp: bindE_Inr_iff)

lemma mapE_right: "mapE f xs = Inr ys \<Longrightarrow> y \<in> set ys \<Longrightarrow> \<exists>x \<in> set xs. f x = Inr y"
  by (induction xs arbitrary: ys) (auto simp: bindE_Inr_iff)

lemma mapE_length: "mapE f xs = Inr ys \<Longrightarrow> length ys = length xs"
  by (induction xs arbitrary: ys) (auto simp: bindE_Inr_iff)

lemma mapE_total: "(\<And>x. x \<in> set xs \<Longrightarrow> f x = Inr (g x)) \<Longrightarrow> mapE f xs = Inr (map g xs)"
  by (induction xs) auto

lemma filterE_total: "(\<And>x. x \<in> set xs \<Longrightarrow> p x = Inr (q x)) \<Longrightarrow> filterE p xs = Inr (filter q xs)"
  by (induction xs) auto

lemma filterE_set: "filterE p xs = Inr ys \<Longrightarrow> set ys \<subseteq> set xs"
  by (induction xs arbitrary: ys) (auto simp: bindE_Inr_iff split: if_splits)

lemma filterE_Nil_iff: "filterE p xs = Inr [] \<longleftrightarrow> (\<forall>x \<in> set xs. p x = Inr False)"
  by (induction xs) (auto simp: bindE_Inr_iff)

lemma foldE_invariant:
  assumes "foldE f xs st = Inr st'" "P st" "\<And>x st st'. x \<in> set xs \<Longrightarrow> P st \<Longrightarrow> f x st = Inr st' \<Longrightarrow> P st'"
  shows "P st'"
  using assms by (induction xs arbitrary: st) (auto simp: bindE_Inr_iff)

lemma anyE_False_iff [pyE]: "anyE ms = Inr False \<longleftrightarrow> (\<forall>m \<in> set ms. m = Inr False)"
  by (induction ms) (auto simp: bindE_Inr_iff)

declare anyE.simps [simp del]

section \<open>Steps with visible effects\<close>

text \<open>
  A run that leaves a trace: the events it caused, in order, and how it ended. An exception keeps
  the events before it.
\<close>

type_synonym ('ev, 'a) act = "'ev list \<times> 'a py"

definition bindA :: "('ev, 'a) act \<Rightarrow> ('a \<Rightarrow> ('ev, 'b) act) \<Rightarrow> ('ev, 'b) act" where
  "bindA m f = (case snd m of
      Inl e \<Rightarrow> (fst m, Inl e)
    | Inr x \<Rightarrow> (case f x of (evs, r) \<Rightarrow> (fst m @ evs, r)))"

definition pureA :: "'a py \<Rightarrow> ('ev, 'a) act" where
  "pureA m = ([], m)"

definition emitA :: "'ev \<Rightarrow> ('ev, unit) act" where
  "emitA ev = ([ev], Inr ())"

lemma bindA_simps [simp]:
  "bindA (evs, Inl e) f = (evs, Inl e)"
  "bindA (evs, Inr x) f = (evs @ fst (f x), snd (f x))"
  by (simp_all add: bindA_def split: prod.split)

lemma bindA_Inr_iff: "bindA m f = (evs, Inr y) \<longleftrightarrow>
    (\<exists>evs1 x evs2. m = (evs1, Inr x) \<and> f x = (evs2, Inr y) \<and> evs = evs1 @ evs2)"
  by (cases m; cases "snd m") (auto simp: bindA_def prod_eq_iff split: prod.splits)

lemma pureA_Inr_iff [simp]: "pureA m = (evs, r) \<longleftrightarrow> evs = [] \<and> m = r"
  by (auto simp: pureA_def)

lemma emitA_iff [simp]: "emitA ev = (evs, r) \<longleftrightarrow> evs = [ev] \<and> r = Inr ()"
  by (auto simp: emitA_def)

lemma bindA_pure_Inr [simp]: "bindA (pureA (Inr x)) f = f x"
  by (simp add: pureA_def)

lemma list_all_bindA:
  "list_all P (fst m) \<Longrightarrow> (\<And>x. snd m = Inr x \<Longrightarrow> list_all P (fst (f x))) \<Longrightarrow> list_all P (fst (bindA m f))"
  by (cases m; cases "snd m") auto

lemma fst_actA [simp]: "fst (pureA m) = []" "fst (emitA ev) = [ev]" "snd (pureA m) = m" "snd (emitA ev) = Inr ()"
  by (simp_all add: pureA_def emitA_def)

section \<open>Steps that may not return\<close>

text \<open>
  A loop with no bound of its own is a \<open>partial_function\<close>: \<open>None\<close> stands for a run that does
  not end, and sequencing passes it on.
\<close>

type_synonym ('ev, 'a) loop = "('ev, 'a) act option"

definition bindO :: "('ev, 'a) loop \<Rightarrow> ('a \<Rightarrow> ('ev, 'b) loop) \<Rightarrow> ('ev, 'b) loop" where
  "bindO m f = (case m of
      None \<Rightarrow> None
    | Some (evs, Inl e) \<Rightarrow> Some (evs, Inl e)
    | Some (evs, Inr x) \<Rightarrow> (case f x of None \<Rightarrow> None | Some (evs', r) \<Rightarrow> Some (evs @ evs', r)))"

abbreviation pureO :: "'a py \<Rightarrow> ('ev, 'a) loop" where
  "pureO m \<equiv> Some (pureA m)"

lemma bindO_simps [simp]:
  "bindO None f = None"
  "bindO (Some (evs, Inl e)) f = Some (evs, Inl e)"
  "bindO (Some (evs, Inr x)) f = (case f x of None \<Rightarrow> None | Some (evs', r) \<Rightarrow> Some (evs @ evs', r))"
  by (simp_all add: bindO_def)

lemma bindO_mono [partial_function_mono]:
  fixes B :: "('x \<Rightarrow> 'y option) \<Rightarrow> ('ev, 'a) loop"
  assumes mb: "mono_option B" and mc: "\<And>y. mono_option (\<lambda>f. C y f)"
  shows "mono_option (\<lambda>f. bindO (B f) (\<lambda>y. C y f))"
proof (rule monotoneI)
  fix f g :: "'x \<Rightarrow> 'y option"
  assume fg: "fun_ord option_ord f g"
  have b: "option_ord (B f) (B g)" using monotoneD [OF mb] fg by blast
  have c: "option_ord (C y f) (C y g)" for y using monotoneD [OF mc] fg by blast
  show "option_ord (bindO (B f) (\<lambda>y. C y f)) (bindO (B g) (\<lambda>y. C y g))"
  proof (cases "B f")
    case None
    then show ?thesis by (simp add: flat_ord_def)
  next
    case (Some m)
    with b have "B g = Some m" by (simp add: flat_ord_def)
    obtain evs r where m: "m = (evs, r)" by (cases m)
    show ?thesis
    proof (cases r)
      case (Inr x)
      show ?thesis using c [of x] \<open>B g = Some m\<close> Some
        by (cases "C x f") (auto simp: m Inr flat_ord_def)
    qed (simp add: \<open>B g = Some m\<close> Some m flat_ord_def)
  qed
qed

lemma bindO_returns:
  "m \<noteq> None \<Longrightarrow> (\<And>evs x. m = Some (evs, Inr x) \<Longrightarrow> f x \<noteq> None) \<Longrightarrow> bindO m f \<noteq> None"
  by (auto simp: bindO_def split: sum.splits)

lemma bindO_Inr_iff: "bindO m f = Some (evs, Inr y) \<longleftrightarrow>
    (\<exists>evs1 x evs2. m = Some (evs1, Inr x) \<and> f x = Some (evs2, Inr y) \<and> evs = evs1 @ evs2)"
  by (auto simp: bindO_def split: option.splits sum.splits)

lemma bindO_InrE:
  assumes "bindO m f = Some (evs, Inr y)"
  obtains evs1 x evs2 where "m = Some (evs1, Inr x)" "f x = Some (evs2, Inr y)" "evs = evs1 @ evs2"
  using assms by (auto simp: bindO_Inr_iff)

lemma bindO_return [simp]: "bindO m (\<lambda>x. pureO (Inr x)) = m"
  by (auto simp: bindO_def pureA_def split: option.splits sum.splits)

fun mapO :: "('a \<Rightarrow> ('ev, 'b) loop) \<Rightarrow> 'a list \<Rightarrow> ('ev, 'b list) loop" where
  "mapO f [] = pureO (Inr [])"
| "mapO f (x # xs) = bindO (f x) (\<lambda>y. bindO (mapO f xs) (\<lambda>ys. pureO (Inr (y # ys))))"

lemma mapO_returns: "list_all (\<lambda>x. f x \<noteq> None) xs \<Longrightarrow> mapO f xs \<noteq> None"
proof (induction xs)
  case (Cons x xs)
  then have "f x \<noteq> None" "mapO f xs \<noteq> None" by simp_all
  then show ?case unfolding mapO.simps by (intro bindO_returns) simp_all
qed simp

section \<open>Dictionaries and ordered containers\<close>

definition py_item :: "(string \<rightharpoonup> 'v) \<Rightarrow> string \<Rightarrow> 'v py" where
  \<comment> \<open>\<open>d[k]\<close>\<close>
  "py_item d k = (case d k of None \<Rightarrow> Inl (KeyError k) | Some v \<Rightarrow> Inr v)"

definition py_get :: "('k \<rightharpoonup> 'v) \<Rightarrow> 'k \<Rightarrow> 'v \<Rightarrow> 'v" where
  \<comment> \<open>\<open>d.get(k, default)\<close>\<close>
  "py_get d k v = (case d k of None \<Rightarrow> v | Some w \<Rightarrow> w)"

lemma py_item_Inr_iff [pyE]: "py_item d k = Inr v \<longleftrightarrow> d k = Some v"
  by (auto simp: py_item_def split: option.splits)

lemma py_item_simps [simp]: "d k = Some v \<Longrightarrow> py_item d k = Inr v"
  by (simp add: py_item_def)

lemma py_get_simps [simp]:
  "d k = None \<Longrightarrow> py_get d k v = v"
  "d k = Some w \<Longrightarrow> py_get d k v = w"
  by (simp_all add: py_get_def)

definition fromkeys :: "'a list \<Rightarrow> 'a list" where
  \<comment> \<open>\<open>list(dict.fromkeys(xs))\<close>: the first occurrence of every value, in order\<close>
  "fromkeys xs = rev (remdups (rev xs))"

lemma set_fromkeys [simp]: "set (fromkeys xs) = set xs"
  by (simp add: fromkeys_def)

lemma distinct_fromkeys [simp]: "distinct (fromkeys xs)"
  by (simp add: fromkeys_def)

lemma fromkeys_Nil [simp]: "fromkeys [] = []"
  by (simp add: fromkeys_def)

lemma distinct_fromkeys_id [simp]: "distinct xs \<Longrightarrow> fromkeys xs = xs"
  by (simp add: fromkeys_def distinct_remdups_id)

definition count_if :: "('a \<Rightarrow> bool) \<Rightarrow> 'a list \<Rightarrow> nat" where
  \<comment> \<open>\<open>sum(p(x) for x in xs)\<close> and the entries of a \<open>Counter\<close>\<close>
  "count_if p xs = length (filter p xs)"

lemma count_if_simps [simp]:
  "count_if p [] = 0"
  "count_if p (x # xs) = (if p x then Suc (count_if p xs) else count_if p xs)"
  "count_if p (xs @ ys) = count_if p xs + count_if p ys"
  by (simp_all add: count_if_def)

lemma count_if_0_iff: "count_if p xs = 0 \<longleftrightarrow> (\<forall>x \<in> set xs. \<not> p x)"
  by (induction xs) auto

lemma count_if_le: "count_if p xs \<le> length xs"
  by (simp add: count_if_def)

lemma count_if_cong: "(\<And>x. x \<in> set xs \<Longrightarrow> p x = q x) \<Longrightarrow> count_if p xs = count_if q xs"
  by (induction xs) auto

text \<open>A list whose every element falls in exactly one of two classes is counted by the two.\<close>

lemma count_if_split: "count_if p xs = count_if (\<lambda>x. p x \<and> q x) xs + count_if (\<lambda>x. p x \<and> \<not> q x) xs"
  by (induction xs) auto

lemma count_if_compl: "count_if p xs + count_if (\<lambda>x. \<not> p x) xs = length xs"
  by (induction xs) auto

lemma distinct_pairs:
  "distinct xs \<Longrightarrow> distinct (map f ys) \<Longrightarrow>
     distinct (concat (map (\<lambda>e. map (\<lambda>c. (e, f c)) ys) xs))"
proof (induction xs)
  case (Cons e xs)
  have "distinct (map (\<lambda>c. (e, f c)) ys)"
    using Cons.prems(2) by (auto simp: distinct_map inj_on_def)
  with Cons show ?case by auto
qed simp

section \<open>Strings\<close>

definition startswith :: "string \<Rightarrow> string \<Rightarrow> bool" where
  "startswith s p = (take (length p) s = p)"

definition endswith :: "string \<Rightarrow> string \<Rightarrow> bool" where
  "endswith s p = startswith (rev s) (rev p)"

lemma startswith_append [simp]: "startswith (p @ s) p"
  by (simp add: startswith_def)

lemma startswith_iff: "startswith s p \<longleftrightarrow> (\<exists>t. s = p @ t)"
  by (metis append_eq_conv_conj append_take_drop_id startswith_def)

fun split_on :: "char \<Rightarrow> string \<Rightarrow> string list" where
  \<comment> \<open>\<open>s.split(c)\<close> for a one-character separator\<close>
  "split_on c [] = [[]]"
| "split_on c (x # xs) =
     (if x = c then [] # split_on c xs
      else case split_on c xs of [] \<Rightarrow> [[x]] | w # ws \<Rightarrow> (x # w) # ws)"

fun join :: "string \<Rightarrow> string list \<Rightarrow> string" where
  "join sep [] = []"
| "join sep [x] = x"
| "join sep (x # xs) = x @ sep @ join sep xs"

lemma split_on_not_Nil [simp]: "split_on c s \<noteq> []"
  by (induction s) (auto split: list.splits)

lemma split_on_free: "c \<notin> set s \<Longrightarrow> split_on c s = [s]"
  by (induction s) auto

lemma split_on_append: "c \<notin> set w \<Longrightarrow> split_on c (w @ c # s) = w # split_on c s"
  by (induction w) auto

lemma split_on_join:
  "xs \<noteq> [] \<Longrightarrow> \<forall>x \<in> set xs. c \<notin> set x \<Longrightarrow> split_on c (join [c] xs) = xs"
  by (induction "[c]" xs rule: join.induct) (auto simp: split_on_free split_on_append)

lemma join_split_on: "join [c] (split_on c s) = s"
proof (induction s)
  case (Cons x s)
  then show ?case by (cases "split_on c s"; cases "tl (split_on c s)") auto
qed simp

definition is_space :: "char \<Rightarrow> bool" where
  \<comment> \<open>\<open>str.isspace\<close> below 256: tab to carriage return, the four separators, space, NEL, NBSP\<close>
  "is_space c = (let n = of_char c :: nat in
     9 \<le> n \<and> n \<le> 13 \<or> 28 \<le> n \<and> n \<le> 32 \<or> n = 133 \<or> n = 160)"

fun words_acc :: "string \<Rightarrow> string \<Rightarrow> string list" where
  "words_acc w [] = (if w = [] then [] else [rev w])"
| "words_acc w (c # s) =
     (if is_space c then (if w = [] then words_acc [] s else rev w # words_acc [] s)
      else words_acc (c # w) s)"

definition py_words :: "string \<Rightarrow> string list" where
  \<comment> \<open>\<open>s.split()\<close>\<close>
  "py_words s = words_acc [] s"

definition strip :: "string \<Rightarrow> string" where
  "strip s = rev (dropWhile is_space (rev (dropWhile is_space s)))"

definition is_line_break :: "char \<Rightarrow> bool" where
  "is_line_break c = (let n = of_char c :: nat in
     10 \<le> n \<and> n \<le> 13 \<or> 28 \<le> n \<and> n \<le> 30 \<or> n = 133)"

fun lines_acc :: "string \<Rightarrow> string \<Rightarrow> string list" where
  "lines_acc w [] = (if w = [] then [] else [rev w])"
| "lines_acc w [c] = (if is_line_break c then [rev w] else [rev (c # w)])"
| "lines_acc w (c # d # s) =
     (if c = CHR 0x0D \<and> d = CHR 0x0A then rev w # lines_acc [] s
      else if is_line_break c then rev w # lines_acc [] (d # s)
      else lines_acc (c # w) (d # s))"

definition splitlines :: "string \<Rightarrow> string list" where
  "splitlines s = lines_acc [] s"

abbreviation tab :: char where
  "tab \<equiv> CHR 0x09"

abbreviation newline :: char where
  "newline \<equiv> CHR 0x0A"

definition py_in :: "'a \<Rightarrow> 'a list \<Rightarrow> bool" where
  \<comment> \<open>\<open>x in {...}\<close> and \<open>x in (...)\<close> for the displayed values\<close>
  "py_in x xs = (x \<in> set xs)"

lemma py_in_simps [simp]:
  "py_in x [] = False"
  "py_in x (y # ys) = (x = y \<or> py_in x ys)"
  by (auto simp: py_in_def)

fun digits_of :: "nat \<Rightarrow> string" where
  "digits_of n = (if n < 10 then [char_of (48 + n)] else digits_of (n div 10) @ [char_of (48 + n mod 10)])"

declare digits_of.simps [simp del]

definition show_int :: "int \<Rightarrow> string" where
  \<comment> \<open>\<open>str(n)\<close>\<close>
  "show_int n = (if n < 0 then CHR ''-'' # digits_of (nat (- n)) else digits_of (nat n))"

definition is_hex :: "nat \<Rightarrow> string \<Rightarrow> bool" where
  \<comment> \<open>\<open>re.fullmatch(r"[0-9a-f]{n}", s)\<close>\<close>
  "is_hex n s = (length s = n \<and> (\<forall>c \<in> set s. c \<in> set ''0123456789abcdef''))"

definition hex_digit :: "nat \<Rightarrow> char" where
  "hex_digit n = ''0123456789abcdef'' ! (n mod 16)"

definition hex_byte :: "nat \<Rightarrow> string" where
  \<comment> \<open>\<open>"%02x" % n\<close> for a byte\<close>
  "hex_byte n = [hex_digit (n div 16), hex_digit n]"

definition repr_char :: "char \<Rightarrow> char \<Rightarrow> string" where
  "repr_char q c = (let n = of_char c :: nat in
     if c = q \<or> c = CHR 0x5C then [CHR 0x5C, c]
     else if n = 9 then [CHR 0x5C, CHR ''t''] else if n = 10 then [CHR 0x5C, CHR ''n'']
     else if n = 13 then [CHR 0x5C, CHR ''r'']
     else if n < 32 \<or> 127 \<le> n \<and> n \<le> 160 \<or> n = 173 then [CHR 0x5C, CHR ''x''] @ hex_byte n
     else [c])"

definition py_repr :: "string \<Rightarrow> string" where
  \<comment> \<open>\<open>repr(s)\<close>: single quotes, unless only double quotes avoid an escape\<close>
  "py_repr s = (let q = (if CHR 0x27 \<in> set s \<and> CHR 0x22 \<notin> set s then CHR 0x22 else CHR 0x27) in
     [q] @ concat (map (repr_char q) s) @ [q])"

end
