(* ===== verification/W3C_Profile.thy ===== *)
theory W3C_Profile
  imports Py_Prelude
begin

text \<open>
  The W3C test profile of \<open>scripts/run_w3c_conformance.py\<close>: which verdict a catalog entry
  requires and whether the entry lies in the profile (\<open>expectation\<close>), and the lane an entry
  outside the profile runs in with \<open>--all-cases\<close> (\<open>out_of_profile_lane\<close>). The attributes
  of a \<open>TEST\<close> element are a finite map from names to values.
\<close>

type_synonym attributes = "string \<rightharpoonup> string"

definition profile_recommendations :: "string list" where
  "profile_recommendations =
     [''XML1.0'', ''XML1.0-errata2e'', ''XML1.0-errata3e'', ''XML1.0-errata4e'', ''NS1.0'', ''NS1.0-errata1e'']"

definition verdict_of_kind :: "string \<Rightarrow> string" where
  "verdict_of_kind kind = (if kind = ''not-wf'' then ''REJECT'' else ''ACCEPT'')"

definition is_version_11 :: "attributes \<Rightarrow> bool" where
  "is_version_11 attributes =
     (let recommendation = py_get attributes ''RECOMMENDATION'' ''XML1.0'' in
      startswith recommendation ''XML1.1'' \<or> startswith recommendation ''NS1.1'')"

definition lists_without :: "attributes \<Rightarrow> string \<Rightarrow> string \<Rightarrow> bool" where
  \<comment> \<open>\<open>name in attributes and item not in attributes[name].split()\<close>\<close>
  "lists_without attributes name item =
     (case attributes name of None \<Rightarrow> False | Some v \<Rightarrow> item \<notin> set (py_words v))"

definition expectation :: "attributes \<Rightarrow> (string \<times> string) py" where
  "expectation attributes =
     bindE (py_item attributes ''TYPE'') (\<lambda>kind.
     if \<not> py_in kind [''valid'', ''invalid'', ''not-wf'', ''error''] then
       Inl (ValueError (''Unknown test TYPE: '' @ kind))
     else let expected = verdict_of_kind kind;
              recommendation = py_get attributes ''RECOMMENDATION'' ''XML1.0'' in
     if is_version_11 attributes then
       Inr (expected, ''XML 1.1 / Namespaces 1.1 is outside this profile'')
     else if \<not> py_in recommendation profile_recommendations then
       Inl (ValueError (''Unknown RECOMMENDATION: '' @ recommendation))
     else if lists_without attributes ''VERSION'' ''1.0'' then
       Inr (expected, ''Case does not apply to XML 1.0'')
     else if lists_without attributes ''EDITION'' ''5'' then
       Inr (expected, ''Case does not apply to XML 1.0 fifth edition'')
     else if kind = ''error'' then
       Inr (''unspecified'', ''Optional error detection has no required binary verdict'')
     else let ents = py_get attributes ''ENTITIES'' ''none'' in
     if \<not> py_in ents [''none'', ''general'', ''parameter'', ''both''] then
       Inl (ValueError (''Unknown ENTITIES: '' @ ents))
     else Inr (expected, []))"

definition out_of_profile_lane :: "attributes \<Rightarrow> (string \<times> string) py" where
  "out_of_profile_lane attributes =
     bindE (py_item attributes ''TYPE'') (\<lambda>kind.
     if is_version_11 attributes \<or> lists_without attributes ''VERSION'' ''1.0'' then
       Inr (''xml-1.1'', ''ANY'')
     else if kind = ''error'' then Inr (''optional-error'', ''ANY'')
     else let expected = verdict_of_kind kind in
     if lists_without attributes ''EDITION'' ''5'' then Inr (''legacy-names'', expected)
     else Inr (''external-entities'', expected))"

section \<open>Inversion of the profile decision\<close>

text \<open>The profile decision taken apart: the conditions under which \<open>expectation\<close> returns.\<close>

lemma expectation_Inr_cases:
  assumes "expectation attributes = Inr (v, reason)"
  obtains kind where "attributes ''TYPE'' = Some kind"
    and "kind \<in> {''valid'', ''invalid'', ''not-wf'', ''error''}"
    and "reason \<noteq> [] \<and> (is_version_11 attributes \<or> lists_without attributes ''VERSION'' ''1.0''
           \<or> lists_without attributes ''EDITION'' ''5'' \<or> kind = ''error'') \<or>
         reason = [] \<and> \<not> is_version_11 attributes \<and> \<not> lists_without attributes ''VERSION'' ''1.0''
           \<and> \<not> lists_without attributes ''EDITION'' ''5'' \<and> kind \<noteq> ''error''
           \<and> v = verdict_of_kind kind"
  using assms unfolding expectation_def
  by (auto simp: pyE Let_def split: if_splits)

lemma verdict_of_kind_cases [simp]:
  "verdict_of_kind kind = ''REJECT'' \<longleftrightarrow> kind = ''not-wf''"
  "verdict_of_kind kind = ''ACCEPT'' \<longleftrightarrow> kind \<noteq> ''not-wf''"
  "verdict_of_kind kind \<in> {''ACCEPT'', ''REJECT''}"
  by (auto simp: verdict_of_kind_def)

lemma expectation_not_ANY: "expectation attributes = Inr (v, reason) \<Longrightarrow> v \<noteq> ''ANY''"
  unfolding expectation_def verdict_of_kind_def by (auto simp: pyE Let_def split: if_splits)

lemma expectation_in_profile:
  assumes "expectation attributes = Inr (v, [])"
  shows "v \<in> {''ACCEPT'', ''REJECT''}"
  using assms by (elim expectation_Inr_cases) auto

lemma lane_of_excluded:
  assumes "expectation attributes = Inr (v, reason)" and "reason \<noteq> []"
  shows "\<exists>lane lv. out_of_profile_lane attributes = Inr (lane, lv)
           \<and> lane \<in> {''xml-1.1'', ''optional-error'', ''legacy-names''}
           \<and> lv \<in> {''ANY'', ''ACCEPT'', ''REJECT''}"
  using assms(1)
proof (elim expectation_Inr_cases)
  fix kind
  assume kind: "attributes ''TYPE'' = Some kind"
    and alt: "reason \<noteq> [] \<and> (is_version_11 attributes \<or> lists_without attributes ''VERSION'' ''1.0''
           \<or> lists_without attributes ''EDITION'' ''5'' \<or> kind = ''error'') \<or>
         reason = [] \<and> \<not> is_version_11 attributes \<and> \<not> lists_without attributes ''VERSION'' ''1.0''
           \<and> \<not> lists_without attributes ''EDITION'' ''5'' \<and> kind \<noteq> ''error''
           \<and> v = verdict_of_kind kind"
  with assms(2) show ?thesis
    using verdict_of_kind_cases(3) [of kind]
    by (auto simp: out_of_profile_lane_def Let_def)
qed

section \<open>Properties\<close>

text \<open>
  A case is in the profile (no exclusion reason) exactly when its attributes are recognised,
  it applies to XML 1.0 fifth edition and it is not an optional-error case; the required verdict
  is then REJECT for \<open>not-wf\<close> and ACCEPT otherwise.
\<close>

theorem expectation_in_profile_iff:
  "expectation attributes = Inr (v, []) \<longleftrightarrow>
     (\<exists>kind. attributes ''TYPE'' = Some kind \<and> kind \<in> {''valid'', ''invalid'', ''not-wf''}
        \<and> v = (if kind = ''not-wf'' then ''REJECT'' else ''ACCEPT''))
     \<and> py_get attributes ''RECOMMENDATION'' ''XML1.0'' \<in> set profile_recommendations
     \<and> (attributes ''VERSION'' = None \<or> ''1.0'' \<in> set (py_words (the (attributes ''VERSION''))))
     \<and> (attributes ''EDITION'' = None \<or> ''5'' \<in> set (py_words (the (attributes ''EDITION''))))
     \<and> py_get attributes ''ENTITIES'' ''none'' \<in> {''none'', ''general'', ''parameter'', ''both''}"
proof -
  have "\<not> is_version_11 attributes"
    if "py_get attributes ''RECOMMENDATION'' ''XML1.0'' \<in> set profile_recommendations"
    using that by (auto simp: is_version_11_def profile_recommendations_def startswith_def)
  then show ?thesis
    unfolding expectation_def lists_without_def verdict_of_kind_def
    by (cases "attributes ''TYPE''"; cases "attributes ''VERSION''"; cases "attributes ''EDITION''")
       (auto simp: py_item_def py_in_def Let_def split: if_splits)
qed

end
