(* ===== verification/W3C_Catalog.thy ===== *)
theory W3C_Catalog
  imports W3C_Profile
begin

text \<open>
  Loading of the W3C catalog in \<open>scripts/run_w3c_conformance.py\<close>: the \<open>Case\<close> record, the
  containment checks \<open>contained_path\<close> and \<open>local_uri\<close>, the member checks of
  \<open>extract_archive\<close> and the walk over the parsed catalog tree (\<open>visit\<close>, \<open>load_catalog\<close>).

  A resolved path is the list of its components. The functions of the host (the URL library, path
  resolution, file contents by their SHA-256) are the fields of a \<open>host\<close> record: every lemma
  holds for any host, except where a hypothesis on \<open>resolve\<close> is stated. The catalog tree is
  the result of the expat parser, which is outside the repository.
\<close>

section \<open>Paths and the host\<close>

type_synonym path = "string list"

record uri =
  scheme :: string
  netloc :: string
  uri_path :: string
  query :: string
  fragment :: string

record host =
  urljoin :: "string \<Rightarrow> string \<Rightarrow> string"
  urlsplit :: "string \<Rightarrow> uri"
  url2pathname :: "string \<Rightarrow> path"
  as_uri :: "path \<Rightarrow> string"
  resolve :: "path \<Rightarrow> path"
  is_file :: "path \<Rightarrow> bool"
  is_dir :: "path \<Rightarrow> bool"
  file_sha256 :: "path \<Rightarrow> string"

definition is_relative_to :: "path \<Rightarrow> path \<Rightarrow> bool" where
  "is_relative_to p root = (take (length root) p = root)"

definition relative_to :: "path \<Rightarrow> path \<Rightarrow> path py" where
  "relative_to p root =
     (if is_relative_to p root then Inr (drop (length root) p)
      else Inl (ValueError ''path is not in the subpath''))"

definition as_posix :: "path \<Rightarrow> string" where
  "as_posix p = join ''/'' p"

definition contained_path :: "host \<Rightarrow> path \<Rightarrow> path \<Rightarrow> path py" where
  "contained_path h root candidate =
     (let resolved = resolve h candidate in
      if \<not> is_relative_to resolved (resolve h root) then
        Inl (ValueError (''Path escapes suite directory: '' @ as_posix candidate))
      else Inr resolved)"

definition local_uri :: "host \<Rightarrow> path \<Rightarrow> string \<Rightarrow> string \<Rightarrow> path py" where
  "local_uri h root base reference =
     (let u = urlsplit h (urljoin h base reference) in
      if scheme u \<noteq> ''file'' \<or> netloc u \<noteq> [] \<or> query u \<noteq> [] \<or> fragment u \<noteq> [] then
        Inl (ValueError (''Only local suite files are allowed: '' @ reference))
      else contained_path h root (url2pathname h (uri_path u)))"

lemma contained_path_Inr [pyE]:
  "contained_path h root c = Inr p \<longleftrightarrow> p = resolve h c \<and> is_relative_to p (resolve h root)"
  by (auto simp: contained_path_def Let_def)

lemma local_uri_contained:
  "local_uri h root base reference = Inr p \<Longrightarrow> is_relative_to p (resolve h root)"
  by (auto simp: local_uri_def Let_def pyE split: if_splits)

section \<open>The archive\<close>

record member =
  filename :: string
  member_path :: path
  external_attr :: nat

definition check_member :: "host \<Rightarrow> path \<Rightarrow> member \<Rightarrow> unit py" where
  "check_member h destination item =
     (if CHR 0x5C \<in> set (filename item) \<or> CHR '':'' \<in> set (filename item) then
        Inl (ValueError (''Invalid archive member: '' @ filename item))
      else bindE (contained_path h destination (destination @ member_path item)) (\<lambda>_.
        raise_if (Bit_Operations.and (drop_bit 16 (external_attr item)) 0xF000 = (0xA000 :: nat))
          (ValueError (''Archive contains a symbolic link: '' @ filename item))))"

definition extract_archive :: "host \<Rightarrow> member list \<Rightarrow> path \<Rightarrow> member list py" where
  \<comment> \<open>the members given to \<open>extractall\<close>, once every member passed its checks\<close>
  "extract_archive h infolist destination =
     bindE (forE (check_member h destination) infolist) (\<lambda>_. Inr infolist)"

section \<open>Catalog elements and cases\<close>

datatype element =
  Element (tag: string) (attrib: "(string \<times> string) list") (text_of: "string option")
    (tail_of: "string option") (children: "element list")

record case_ =
  c_id :: string
  c_path :: path
  c_kind :: string
  c_namespaces :: bool
  c_expected :: string
  c_skip_reason :: string
  c_description :: string
  c_recommendation :: string
  c_lane :: string
  c_lane_expected :: string
  c_entities :: bool
  c_catalog_expected :: string
  c_expectation_adjustment :: string

definition ROOT_CATALOG_SHA256 :: string where
  "ROOT_CATALOG_SHA256 = ''a10d3fc409fc0de5ea1758d2e4fe6efcbc51df6d1942c80f299dbbe085b2fd52''"

definition FORWARD_VERSION_CASE_ID :: string where
  "FORWARD_VERSION_CASE_ID = ''rmt-e2e-38''"

definition FORWARD_VERSION_DOCUMENT :: string where
  "FORWARD_VERSION_DOCUMENT = ''eduni/errata-2e/E38.xml''"

definition FORWARD_VERSION_DOCUMENT_SHA256 :: string where
  "FORWARD_VERSION_DOCUMENT_SHA256 = ''b6be7039a5dfeaad8eaad16eb3976c754888985bdd598b518a81a0f9547e3cf6''"

definition FORWARD_VERSION_ENTITY :: path where
  "FORWARD_VERSION_ENTITY = [''eduni'', ''errata-2e'', ''E38.ent'']"

definition FORWARD_VERSION_ENTITY_SHA256 :: string where
  "FORWARD_VERSION_ENTITY_SHA256 = ''028229ed9dda8481d7996ef03a1e17300255abef2bf082011312f09b28623eef''"

definition FORWARD_VERSION_REASON :: string where
  "FORWARD_VERSION_REASON =
     ''XML 1.0 fifth edition permits this 1.1 text declaration without non-1.0 features; '' @
     ''fourth-edition erratum E10 reverses second-edition E38: '' @
     ''https://www.w3.org/XML/xml-V10-4e-errata#E10''"

definition some_text :: "string option \<Rightarrow> string list" where
  "some_text t = (case t of Some (c # s) \<Rightarrow> [c # s] | _ \<Rightarrow> [])"

fun itertext :: "element \<Rightarrow> string list" where
  "itertext (Element _ _ t _ cs) = some_text t @ concat (map (\<lambda>c. itertext c @ some_text (tail_of c)) cs)"

definition forward_version :: "host \<Rightarrow> path \<Rightarrow> attributes \<Rightarrow> string \<Rightarrow> string \<Rightarrow> string \<Rightarrow> path \<Rightarrow> bool py" where
  \<comment> \<open>the condition under which the reviewed E38 bytes change the catalog verdict\<close>
  "forward_version h root attributes skip_reason identifier namespace path =
     (let entity_path = root @ FORWARD_VERSION_ENTITY in
      if skip_reason = [] \<and> identifier = FORWARD_VERSION_CASE_ID
         \<and> attributes ''TYPE'' = Some ''not-wf''
         \<and> py_get attributes ''RECOMMENDATION'' ''XML1.0'' = ''XML1.0-errata2e''
         \<and> py_get attributes ''ENTITIES'' ''none'' = ''general''
         \<and> namespace = ''yes''
      then bindE (relative_to path root) (\<lambda>rel. Inr (
         as_posix rel = FORWARD_VERSION_DOCUMENT
         \<and> is_file h path \<and> is_relative_to (resolve h entity_path) root \<and> is_file h entity_path
         \<and> file_sha256 h path = FORWARD_VERSION_DOCUMENT_SHA256
         \<and> file_sha256 h entity_path = FORWARD_VERSION_ENTITY_SHA256))
      else Inr False)"

type_synonym catalog = "case_ list \<times> string list"

definition case_lane :: "attributes \<Rightarrow> string \<Rightarrow> string \<Rightarrow> (string \<times> string) py" where
  "case_lane attributes expected skip_reason =
     (if skip_reason \<noteq> [] then out_of_profile_lane attributes else Inr (''core'', expected))"

definition make_case :: "element \<Rightarrow> string \<Rightarrow> path \<Rightarrow> string \<Rightarrow> string \<Rightarrow> string \<Rightarrow> string \<Rightarrow> string \<Rightarrow> string \<Rightarrow> bool \<Rightarrow> case_" where
  "make_case e identifier path kind namespace expected skip_reason lane lane_expected adjusted =
     (let attributes = map_of (attrib e) in
      \<lparr>c_id = identifier, c_path = path, c_kind = kind,
       c_namespaces = (namespace = ''yes''),
       c_expected = (if adjusted then ''ACCEPT'' else expected),
       c_skip_reason = skip_reason,
       c_description = strip (join '' '' (itertext e)),
       c_recommendation = py_get attributes ''RECOMMENDATION'' ''XML1.0'',
       c_lane = lane, c_lane_expected = lane_expected,
       c_entities = (py_get attributes ''ENTITIES'' ''none'' \<noteq> ''none''),
       c_catalog_expected = expected,
       c_expectation_adjustment = (if adjusted then FORWARD_VERSION_REASON else [])\<rparr>)"

lemma make_case_simps [simp]:
  "c_id (make_case e i p kind ns v reason lane lv adjusted) = i"
  "c_path (make_case e i p kind ns v reason lane lv adjusted) = p"
  "c_expected (make_case e i p kind ns v reason lane lv adjusted) = (if adjusted then ''ACCEPT'' else v)"
  "c_skip_reason (make_case e i p kind ns v reason lane lv adjusted) = reason"
  "c_lane (make_case e i p kind ns v reason lane lv adjusted) = lane"
  "c_lane_expected (make_case e i p kind ns v reason lane lv adjusted) = lv"
  "c_catalog_expected (make_case e i p kind ns v reason lane lv adjusted) = v"
  "c_expectation_adjustment (make_case e i p kind ns v reason lane lv adjusted)
     = (if adjusted then FORWARD_VERSION_REASON else [])"
  by (simp_all add: make_case_def Let_def)

definition visit_test :: "host \<Rightarrow> path \<Rightarrow> element \<Rightarrow> string \<Rightarrow> catalog \<Rightarrow> catalog py" where
  "visit_test h root e current_base st =
     (let attributes = map_of (attrib e); (cases, identifiers) = st in
      bindE (py_item attributes ''ID'') (\<lambda>identifier.
      if identifier \<in> set identifiers then Inl (ValueError (''Duplicate test ID: '' @ identifier))
      else bindE (expectation attributes) (\<lambda>(expected, skip_reason).
      bindE (case_lane attributes expected skip_reason) (\<lambda>(lane, lane_expected).
      let namespace = py_get attributes ''NAMESPACE'' ''yes'' in
      if \<not> py_in namespace [''yes'', ''no''] then
        Inl (ValueError (''Unknown NAMESPACE for '' @ identifier @ '': '' @ namespace))
      else bindE (py_item attributes ''URI'') (\<lambda>reference.
      bindE (local_uri h root current_base reference) (\<lambda>path.
      bindE (forward_version h root attributes skip_reason identifier namespace path) (\<lambda>adjusted.
      bindE (py_item attributes ''TYPE'') (\<lambda>kind.
      Inr (cases @ [make_case e identifier path kind namespace expected skip_reason lane lane_expected adjusted],
           identifiers @ [identifier])))))))))"

definition child_base :: "host \<Rightarrow> bool \<Rightarrow> element \<Rightarrow> string \<Rightarrow> string" where
  "child_base h pinned_root e base =
     (let reference = py_get (map_of (attrib e)) ''xml:base'' [] in
      urljoin h base (if pinned_root \<and> reference = ''eduni/namespaces/misc/''
                      then ''eduni/misc/'' else reference))"

fun visit :: "host \<Rightarrow> path \<Rightarrow> bool \<Rightarrow> element \<Rightarrow> string \<Rightarrow> catalog \<Rightarrow> catalog py"
and visit_children :: "host \<Rightarrow> path \<Rightarrow> bool \<Rightarrow> element list \<Rightarrow> string \<Rightarrow> catalog \<Rightarrow> catalog py" where
  "visit h root pinned_root (Element t a tx tail cs) base st =
     (let current_base = child_base h pinned_root (Element t a tx tail cs) base in
      bindE (local_uri h root current_base []) (\<lambda>_.
      bindE (if t = ''TEST'' then visit_test h root (Element t a tx tail cs) current_base st else Inr st) (\<lambda>st'.
      visit_children h root pinned_root cs current_base st')))"
| "visit_children h root pinned_root [] base st = Inr st"
| "visit_children h root pinned_root (c # cs) base st =
     bindE (visit h root pinned_root c base st) (\<lambda>st'. visit_children h root pinned_root cs base st')"

definition load_catalog :: "host \<Rightarrow> path \<Rightarrow> element \<Rightarrow> case_ list py" where
  "load_catalog h suite_dir tree =
     (let root = resolve h suite_dir;
          catalog = root @ [''xmlconf.xml''];
          pinned_root = (file_sha256 h catalog = ROOT_CATALOG_SHA256) in
      bindE (visit h root pinned_root tree (as_uri h catalog) ([], [])) (\<lambda>(cases, identifiers).
      if cases = [] then Inl (ValueError ''W3C catalog contains no test cases'')
      else Inr cases))"

section \<open>The catalog invariant\<close>

definition good_case :: "host \<Rightarrow> path \<Rightarrow> case_ \<Rightarrow> bool" where
  "good_case h root c \<longleftrightarrow>
     is_relative_to (c_path c) (resolve h root) \<and> c_expected c \<noteq> ''ANY''
     \<and> (c_skip_reason c = [] \<longrightarrow> c_lane c = ''core'' \<and> c_expected c \<in> {''ACCEPT'', ''REJECT''})
     \<and> (c_skip_reason c \<noteq> [] \<longrightarrow>
          c_lane c \<in> {''xml-1.1'', ''optional-error'', ''legacy-names''}
          \<and> c_lane_expected c \<in> {''ANY'', ''ACCEPT'', ''REJECT''}
          \<and> c_expectation_adjustment c = [])
     \<and> (c_expectation_adjustment c \<noteq> [] \<longrightarrow>
          c_id c = FORWARD_VERSION_CASE_ID \<and> c_catalog_expected c = ''REJECT'' \<and> c_expected c = ''ACCEPT''
          \<and> file_sha256 h (c_path c) = FORWARD_VERSION_DOCUMENT_SHA256)
     \<and> (c_expectation_adjustment c = [] \<longrightarrow> c_catalog_expected c = c_expected c)"

definition catalog_inv :: "host \<Rightarrow> path \<Rightarrow> catalog \<Rightarrow> bool" where
  "catalog_inv h root st \<longleftrightarrow>
     map c_id (fst st) = snd st \<and> distinct (snd st) \<and> (\<forall>c \<in> set (fst st). good_case h root c)"

fun test_elements :: "element \<Rightarrow> element list" where
  \<comment> \<open>the \<open>TEST\<close> elements of a catalog, in document order\<close>
  "test_elements (Element t a tx tail cs) =
     (if t = ''TEST'' then [Element t a tx tail cs] else []) @ concat (map test_elements cs)"

definition test_id :: "element \<Rightarrow> string" where
  "test_id e = py_get (map_of (attrib e)) ''ID'' []"

lemma forward_version_True:
  assumes "forward_version h root attributes skip_reason identifier namespace path = Inr True"
  shows "skip_reason = []" "identifier = FORWARD_VERSION_CASE_ID"
    "attributes ''TYPE'' = Some ''not-wf''"
    "file_sha256 h path = FORWARD_VERSION_DOCUMENT_SHA256"
  using assms by (auto simp: forward_version_def Let_def pyE split: if_splits)

lemma FORWARD_VERSION_REASON_nonempty [simp]: "FORWARD_VERSION_REASON \<noteq> []"
  by (simp add: FORWARD_VERSION_REASON_def)

lemma visit_test_Inr:
  assumes "visit_test h root e b (cases, ids) = Inr st"
  obtains i v reason lane lv ns reference p adjusted kind where
    "map_of (attrib e) ''ID'' = Some i" "i \<notin> set ids"
    "expectation (map_of (attrib e)) = Inr (v, reason)"
    "case_lane (map_of (attrib e)) v reason = Inr (lane, lv)"
    "local_uri h root b reference = Inr p"
    "forward_version h root (map_of (attrib e)) reason i ns p = Inr adjusted"
    "st = (cases @ [make_case e i p kind ns v reason lane lv adjusted], ids @ [i])"
  using assms unfolding visit_test_def Let_def by (clarsimp simp: pyE)

lemma good_case_make:
  assumes ex: "expectation (map_of (attrib e)) = Inr (v, reason)"
    and lane: "case_lane (map_of (attrib e)) v reason = Inr (lane, lv)"
    and p: "local_uri h root b reference = Inr p"
    and adj: "forward_version h root (map_of (attrib e)) reason i ns p = Inr adjusted"
  shows "good_case h root (make_case e i p kind ns v reason lane lv adjusted)"
proof (cases adjusted)
  case True
  from adj True have "forward_version h root (map_of (attrib e)) reason i ns p = Inr True" by simp
  note fv = forward_version_True [OF this]
  from ex fv(1,3) have "v = ''REJECT''" by (auto elim!: expectation_Inr_cases)
  with True fv lane local_uri_contained [OF p] show ?thesis
    by (simp add: good_case_def case_lane_def)
next
  case False
  have "reason \<noteq> [] \<Longrightarrow> lane \<in> {''xml-1.1'', ''optional-error'', ''legacy-names''}
      \<and> lv \<in> {''ANY'', ''ACCEPT'', ''REJECT''}"
    using lane_of_excluded [OF ex] lane by (auto simp: case_lane_def)
  moreover have "reason = [] \<Longrightarrow> lane = ''core'' \<and> v \<in> {''ACCEPT'', ''REJECT''}"
    using lane expectation_in_profile [of "map_of (attrib e)" v] ex by (auto simp: case_lane_def)
  ultimately show ?thesis
    using False local_uri_contained [OF p] expectation_not_ANY [OF ex] by (simp add: good_case_def)
qed

lemma visit_test_step:
  assumes "visit_test h root e b (cases, ids) = Inr st"
  shows "\<exists>c. st = (cases @ [c], ids @ [c_id c]) \<and> c_id c \<notin> set ids \<and> good_case h root c
    \<and> c_id c = test_id e"
  using assms
proof (rule visit_test_Inr)
  fix i v reason lane lv ns reference p adjusted kind
  assume "map_of (attrib e) ''ID'' = Some i" and "i \<notin> set ids" and "expectation (map_of (attrib e)) = Inr (v, reason)"
    and "case_lane (map_of (attrib e)) v reason = Inr (lane, lv)"
    and "local_uri h root b reference = Inr p"
    and "forward_version h root (map_of (attrib e)) reason i ns p = Inr adjusted"
    and "st = (cases @ [make_case e i p kind ns v reason lane lv adjusted], ids @ [i])"
  then show ?thesis
    using good_case_make [of e v reason lane lv h root b reference p i ns adjusted kind]
    by (auto simp: test_id_def)
qed

lemma visit_extends:
  "visit h root pinned e base st = Inr st' \<Longrightarrow> catalog_inv h root st \<Longrightarrow>
     catalog_inv h root st' \<and> map c_id (fst st') = map c_id (fst st) @ map test_id (test_elements e)"
  "visit_children h root pinned es base st = Inr st' \<Longrightarrow> catalog_inv h root st \<Longrightarrow>
     catalog_inv h root st' \<and> map c_id (fst st') = map c_id (fst st) @ map test_id (concat (map test_elements es))"
proof (induction h root pinned e base st and h root pinned es base st
    arbitrary: st' and st' rule: visit_visit_children.induct)
  case (1 h root pinned t a tx tail cs base st)
  let ?e = "Element t a tx tail cs"
  let ?b = "child_base h pinned ?e base"
  obtain cases ids where st: "st = (cases, ids)" by (cases st)
  from "1.prems"(1) obtain u st1 where
    u: "local_uri h root ?b [] = Inr u" and
    s1: "(if t = ''TEST'' then visit_test h root ?e ?b st else Inr st) = Inr st1" and
    s2: "visit_children h root pinned cs ?b st1 = Inr st'"
    by (auto simp: Let_def pyE)
  have inv: "catalog_inv h root st1 \<and> map c_id (fst st1) = map c_id (fst st) @ map test_id (if t = ''TEST'' then [?e] else [])"
    using s1 "1.prems"(2) visit_test_step [of h root ?e ?b cases ids st1] st
    by (auto simp: catalog_inv_def split: if_splits)
  then have "catalog_inv h root st' \<and> map c_id (fst st') = map c_id (fst st1) @ map test_id (concat (map test_elements cs))"
    using "1.IH" u s1 s2 by blast
  with inv show ?case by simp
next
  case (2 h root pinned base st)
  then show ?case by simp
next
  case (3 h root pinned c cs base st)
  from "3.prems"(1) obtain st1 where
    s1: "visit h root pinned c base st = Inr st1" and
    s2: "visit_children h root pinned cs base st1 = Inr st'"
    by (auto simp: pyE)
  from "3.IH"(1) [OF s1 "3.prems"(2)] "3.IH"(2) [OF s1 s2] show ?case by simp
qed

lemma load_catalog_inv:
  assumes "load_catalog h suite_dir tree = Inr cases"
  shows "catalog_inv h (resolve h suite_dir) (cases, map c_id cases)"
    and "map c_id cases = map test_id (test_elements tree)" and "cases \<noteq> []"
proof -
  let ?root = "resolve h suite_dir"
  from assms obtain pinned b ids where
    v: "visit h ?root pinned tree b ([], []) = Inr (cases, ids)" and ne: "cases \<noteq> []"
    by (auto simp: load_catalog_def Let_def pyE split: if_splits)
  have "catalog_inv h ?root ([], [])" by (simp add: catalog_inv_def)
  from visit_extends(1) [OF v this]
  show "catalog_inv h ?root (cases, map c_id cases)" "map c_id cases = map test_id (test_elements tree)"
    by (auto simp: catalog_inv_def)
  from ne show "cases \<noteq> []" .
qed

section \<open>Properties\<close>

text \<open>A host and a small catalog on which the theorems below are exercised: resolution is the
  identity, and a URL is the list of its components joined by slashes.\<close>

definition sample_host :: host where
  "sample_host = \<lparr>urljoin = (\<lambda>b r. if r = [] then b else b @ ''/'' @ r),
     urlsplit = (\<lambda>u. \<lparr>scheme = ''file'', netloc = [], uri_path = u, query = [], fragment = []\<rparr>),
     url2pathname = split_on CHR ''/'', as_uri = (\<lambda>p. as_posix (butlast p)), resolve = (\<lambda>p. p),
     is_file = (\<lambda>p. True), is_dir = (\<lambda>p. True), file_sha256 = (\<lambda>p. [])\<rparr>"

definition sample_tree :: element where
  "sample_tree = Element ''TESTSUITE'' [] None None
     [Element ''TESTCASES'' [(''xml:base'', ''xmltest'')] None None
       [Element ''TEST'' [(''ID'', ''t1''), (''TYPE'', ''not-wf''), (''URI'', ''001.xml'')] (Some ''bad'') None [],
        Element ''TEST'' [(''ID'', ''t2''), (''TYPE'', ''valid''), (''URI'', ''002.xml''), (''EDITION'', ''1 2 3 4'')]
          None None []]]"

definition sample_cases :: "case_ list" where
  "sample_cases =
     [\<lparr>c_id = ''t1'', c_path = [''suite'', ''xmltest'', ''001.xml''], c_kind = ''not-wf'', c_namespaces = True,
       c_expected = ''REJECT'', c_skip_reason = [], c_description = ''bad'', c_recommendation = ''XML1.0'',
       c_lane = ''core'', c_lane_expected = ''REJECT'', c_entities = False, c_catalog_expected = ''REJECT'',
       c_expectation_adjustment = []\<rparr>,
      \<lparr>c_id = ''t2'', c_path = [''suite'', ''xmltest'', ''002.xml''], c_kind = ''valid'', c_namespaces = True,
       c_expected = ''ACCEPT'', c_skip_reason = ''Case does not apply to XML 1.0 fifth edition'',
       c_description = [], c_recommendation = ''XML1.0'', c_lane = ''legacy-names'',
       c_lane_expected = ''ACCEPT'', c_entities = False, c_catalog_expected = ''ACCEPT'',
       c_expectation_adjustment = []\<rparr>]"

lemma sample_load: "load_catalog sample_host [''suite''] sample_tree = Inr sample_cases"
  by code_simp

text \<open>
  A loaded catalog has one case per \<open>TEST\<close> element, in document order and under pairwise
  distinct identifiers.
\<close>

theorem load_catalog_complete:
  assumes "load_catalog h suite_dir tree = Inr cases"
  shows "map c_id cases = map test_id (test_elements tree) \<and> distinct (map c_id cases) \<and> cases \<noteq> []"
  using load_catalog_inv [OF assms] unfolding catalog_inv_def fst_conv snd_conv by blast

theorem load_catalog_complete_witness:
  "map c_id sample_cases = map test_id (test_elements sample_tree) \<and> distinct (map c_id sample_cases)"
  using load_catalog_complete [OF sample_load] by blast

text \<open>
  Path safety: every input a loaded catalog names lies below the resolved suite directory,
  whatever the URIs and inherited bases of the catalog are.
\<close>

theorem load_catalog_contained:
  assumes "load_catalog h suite_dir tree = Inr cases" and "c \<in> set cases"
    and "\<And>p. resolve h (resolve h p) = resolve h p"
  shows "\<exists>rel. c_path c = resolve h suite_dir @ rel"
proof -
  have "good_case h (resolve h suite_dir) c"
    using load_catalog_inv(1) [OF assms(1)] assms(2) by (auto simp: catalog_inv_def)
  then have "is_relative_to (c_path c) (resolve h suite_dir)"
    using assms(3) by (simp add: good_case_def)
  then show ?thesis
    unfolding is_relative_to_def by (metis append_take_drop_id)
qed

theorem load_catalog_contained_witness:
  "\<exists>rel. c_path (hd sample_cases) = [''suite''] @ rel"
proof -
  have "hd sample_cases \<in> set sample_cases" by (simp add: sample_cases_def)
  moreover have "resolve sample_host (resolve sample_host p) = resolve sample_host p" for p
    by (simp add: sample_host_def)
  ultimately show ?thesis
    using load_catalog_contained [OF sample_load, of "hd sample_cases"]
    by (simp add: sample_host_def)
qed

text \<open>
  Every case is either in the profile, in the \<open>core\<close> lane with a required verdict, or
  excluded with a reason and assigned to one of three lanes; the \<open>external-entities\<close> lane,
  which the documentation still counts 247 cases for, is never assigned.
\<close>

theorem load_catalog_lanes:
  assumes "load_catalog h suite_dir tree = Inr cases" and "c \<in> set cases"
  shows "(if c_skip_reason c = [] then c_lane c = ''core'' \<and> c_expected c \<in> {''ACCEPT'', ''REJECT''}
          else c_lane c \<in> {''xml-1.1'', ''optional-error'', ''legacy-names''}
            \<and> c_lane_expected c \<in> {''ANY'', ''ACCEPT'', ''REJECT''})
         \<and> c_lane c \<noteq> ''external-entities''"
proof -
  have "good_case h (resolve h suite_dir) c"
    using load_catalog_inv(1) [OF assms(1)] assms(2) by (auto simp: catalog_inv_def)
  then show ?thesis by (cases "c_skip_reason c = []") (auto simp: good_case_def)
qed

theorem load_catalog_lanes_witness:
  "c_lane (hd sample_cases) = ''core'' \<and> c_lane (last sample_cases) = ''legacy-names''
     \<and> c_lane (last sample_cases) \<noteq> ''external-entities''"
  using load_catalog_lanes [OF sample_load, of "last sample_cases"]
  by (simp add: sample_cases_def)

text \<open>
  The only verdict that differs from the catalog is the reviewed edition correction: the case
  is \<open>rmt-e2e-38\<close>, its document has the reviewed bytes, and REJECT becomes ACCEPT.
\<close>

theorem load_catalog_adjustment:
  assumes "load_catalog h suite_dir tree = Inr cases" and "c \<in> set cases"
    and "c_expected c \<noteq> c_catalog_expected c"
  shows "c_id c = FORWARD_VERSION_CASE_ID \<and> c_catalog_expected c = ''REJECT'' \<and> c_expected c = ''ACCEPT''
    \<and> c_expectation_adjustment c \<noteq> [] \<and> file_sha256 h (c_path c) = FORWARD_VERSION_DOCUMENT_SHA256"
proof -
  have "good_case h (resolve h suite_dir) c"
    using load_catalog_inv(1) [OF assms(1)] assms(2) by (auto simp: catalog_inv_def)
  with assms(3) show ?thesis by (auto simp: good_case_def)
qed

definition forward_host :: host where
  "forward_host = sample_host\<lparr>file_sha256 := (\<lambda>p. if p = [''suite'', ''eduni'', ''errata-2e'', ''E38.xml'']
      then FORWARD_VERSION_DOCUMENT_SHA256 else FORWARD_VERSION_ENTITY_SHA256)\<rparr>"

definition forward_tree :: element where
  "forward_tree = Element ''TEST''
     [(''ID'', ''rmt-e2e-38''), (''TYPE'', ''not-wf''), (''URI'', ''eduni/errata-2e/E38.xml''),
      (''RECOMMENDATION'', ''XML1.0-errata2e''), (''ENTITIES'', ''general'')] None None []"

lemma forward_load:
  "\<exists>c. load_catalog forward_host [''suite''] forward_tree = Inr [c]
     \<and> c_expected c = ''ACCEPT'' \<and> c_catalog_expected c = ''REJECT''"
proof -
  have "(case load_catalog forward_host [''suite''] forward_tree of
      Inr [c] \<Rightarrow> c_expected c = ''ACCEPT'' \<and> c_catalog_expected c = ''REJECT'' | _ \<Rightarrow> False)"
    by code_simp
  then show ?thesis by (auto split: sum.splits list.splits)
qed

theorem load_catalog_adjustment_witness:
  "\<exists>c. c_id c = FORWARD_VERSION_CASE_ID \<and> c_expectation_adjustment c \<noteq> []
     \<and> load_catalog forward_host [''suite''] forward_tree = Inr [c]"
proof -
  from forward_load obtain c where
    l: "load_catalog forward_host [''suite''] forward_tree = Inr [c]" and
    e: "c_expected c = ''ACCEPT''" "c_catalog_expected c = ''REJECT''" by blast
  then show ?thesis using load_catalog_adjustment [OF l, of c] by auto
qed

end
