(* ===== verification/W3C_Run.thy ===== *)
theory W3C_Run
  imports W3C_Catalog Complex_Main
begin

text \<open>
  Running the catalog cases in \<open>scripts/run_w3c_conformance.py\<close>: the \<open>Result\<close> record and
  \<open>run_case\<close>, and the list of known failures (\<open>load_known_failures\<close>,
  \<open>apply_known_failures\<close>, \<open>write_known_failures\<close>) with the exit status.

  The engine is a process outside the model: \<open>run\<close> maps the command line to its outcome, with
  the decoded output. \<open>elapsed\<close> is the measured time and \<open>timeout_text\<close> the timeout as the
  message shows it.
\<close>

section \<open>Results\<close>

record result =
  r_engine :: string
  r_case_id :: string
  r_path :: string
  r_kind :: string
  r_expected :: string
  r_actual :: string
  r_status :: string
  r_elapsed_ms :: rat
  r_message :: string
  r_known :: string
  r_exit_code :: "int option"
  r_lane :: string
  r_catalog_expected :: string
  r_expectation_adjustment :: string

datatype outcome =
    Completed int string string
  | TimeoutExpired string string
  | LaunchError string

record diagnostic =
  d_stdout :: string
  d_stderr :: string
  d_command :: "string list"
  d_result :: result

definition or_else :: "string \<Rightarrow> string \<Rightarrow> string" where
  \<comment> \<open>\<open>a or b\<close> on strings\<close>
  "or_else a b = (if a \<noteq> [] then a else b)"

definition result_of :: "case_ \<Rightarrow> string \<Rightarrow> result" where
  \<comment> \<open>the result before the case has run\<close>
  "result_of c engine =
     \<lparr>r_engine = engine, r_case_id = c_id c, r_path = as_posix (c_path c), r_kind = c_kind c,
      r_expected = c_expected c, r_actual = ''not-run'', r_status = ''skipped'', r_elapsed_ms = 0,
      r_message = [], r_known = [], r_exit_code = None, r_lane = c_lane c,
      r_catalog_expected = or_else (c_catalog_expected c) (c_expected c),
      r_expectation_adjustment = c_expectation_adjustment c\<rparr>"

definition marker :: string where
  "marker = ''XPACT_CONFORMANCE'' @ [tab]"

definition last_chars :: "nat \<Rightarrow> string \<Rightarrow> string" where
  \<comment> \<open>\<open>s[-n:]\<close>\<close>
  "last_chars n s = drop (length s - n) s"

definition verdict :: "int \<Rightarrow> string \<Rightarrow> string option" where
  \<comment> \<open>the verdict of a completed process: a single marker line that agrees with the exit code\<close>
  "verdict returncode stdout =
     (let markers = filter (\<lambda>line. startswith line marker) (splitlines stdout) in
      if markers = [marker @ ''ACCEPT''] \<and> returncode = 0 then Some ''ACCEPT''
      else if markers = [marker @ ''REJECT''] \<and> returncode = 1 then Some ''REJECT''
      else None)"

fun judge_outcome :: "case_ \<Rightarrow> string \<Rightarrow> result \<Rightarrow> outcome \<Rightarrow> result" where
  "judge_outcome c timeout_text r (Completed returncode stdout stderr) =
     (let message = strip (last_chars 12000 (stdout @ stderr));
          r = r\<lparr>r_exit_code := Some returncode, r_message := message\<rparr> in
      case verdict returncode stdout of
        None \<Rightarrow> r\<lparr>r_status := ''error'', r_actual := ''process-error'',
          r_message := ''Exit code '' @ show_int returncode @ ''; missing or inconsistent verdict.'' @ [newline] @ message\<rparr>
      | Some actual \<Rightarrow>
          if c_expected c = actual \<or> c_expected c = ''ANY''
          then r\<lparr>r_actual := actual, r_status := ''passed''\<rparr>
          else r\<lparr>r_actual := actual, r_status := ''failed'',
            r_message := ''Expected '' @ c_expected c @ '', got '' @ actual @ ''. '' @ c_description c @ [newline] @ message\<rparr>)"
| "judge_outcome c timeout_text r (TimeoutExpired stdout stderr) =
     r\<lparr>r_status := ''error'', r_actual := ''timeout'',
       r_message := ''Parser exceeded the per-case timeout of '' @ timeout_text @ '' seconds''\<rparr>"
| "judge_outcome c timeout_text r (LaunchError text) =
     r\<lparr>r_status := ''error'', r_actual := ''process-error'', r_message := text\<rparr>"

fun output_of :: "outcome \<Rightarrow> string \<times> string" where
  "output_of (Completed _ stdout stderr) = (stdout, stderr)"
| "output_of (TimeoutExpired stdout stderr) = (stdout, stderr)"
| "output_of (LaunchError _) = ([], [])"

definition suite_arguments :: "host \<Rightarrow> case_ \<Rightarrow> path option \<Rightarrow> string list option" where
  "suite_arguments h c suite_root =
     (case suite_root of None \<Rightarrow> Some []
      | Some suite \<Rightarrow>
          let suite = resolve h suite in
          if \<not> is_dir h suite \<or> \<not> is_relative_to (resolve h (c_path c)) suite then None
          else Some [''--suite-root'', as_posix suite])"

definition run_case :: "host \<Rightarrow> (string list \<Rightarrow> outcome) \<Rightarrow> rat \<Rightarrow> string \<Rightarrow> case_ \<Rightarrow> string \<Rightarrow> string
    \<Rightarrow> bool \<Rightarrow> path option \<Rightarrow> string list \<Rightarrow> result \<times> diagnostic option" where
  "run_case h run elapsed timeout_text c engine executable diagnostics suite_root extra_arguments =
     (let r = result_of c engine in
      if c_skip_reason c \<noteq> [] then (r\<lparr>r_message := c_skip_reason c\<rparr>, None)
      else if \<not> is_file h (c_path c) then
        (r\<lparr>r_status := ''error'', r_message := ''Catalog input file is missing''\<rparr>, None)
      else case suite_arguments h c suite_root of
        None \<Rightarrow> (r\<lparr>r_status := ''error'',
          r_message := ''Catalog input is outside an existing local suite root''\<rparr>, None)
      | Some suite_args \<Rightarrow>
          let command = [executable, ''--conformance-file'', as_posix (c_path c)] @ suite_args
                @ (if c_namespaces c then [''--namespaces''] else []) @ extra_arguments;
              out = run command;
              r = (judge_outcome c timeout_text r out)\<lparr>r_elapsed_ms := elapsed\<rparr> in
          (r, if diagnostics
              then Some \<lparr>d_stdout = fst (output_of out), d_stderr = snd (output_of out),
                     d_command = command, d_result = r\<rparr>
              else None))"

section \<open>What a result says\<close>

definition result_wf :: "result \<Rightarrow> bool" where
  \<comment> \<open>the type invariant of a result: status, observed verdict and exit code agree\<close>
  "result_wf r \<longleftrightarrow>
     (r_status r = ''skipped'' \<and> r_actual r = ''not-run'' \<and> r_exit_code r = None)
     \<or> (r_status r = ''error'' \<and> r_actual r \<in> {''not-run'', ''process-error'', ''timeout''})
     \<or> (r_status r \<in> {''passed'', ''failed''} \<and> r_actual r \<in> {''ACCEPT'', ''REJECT''}
        \<and> r_exit_code r = Some (if r_actual r = ''ACCEPT'' then 0 else 1)
        \<and> (r_status r = ''passed'' \<longleftrightarrow> r_expected r \<in> {r_actual r, ''ANY''}))"

lemma verdict_Some:
  "verdict rc out = Some v \<Longrightarrow> v \<in> {''ACCEPT'', ''REJECT''} \<and> rc = (if v = ''ACCEPT'' then 0 else 1)
     \<and> filter (\<lambda>line. startswith line marker) (splitlines out) = [marker @ v]"
  by (auto simp: verdict_def Let_def split: if_splits)

lemma judge_outcome_frame [simp]:
  "r_engine (judge_outcome c t r out) = r_engine r"
  "r_case_id (judge_outcome c t r out) = r_case_id r"
  "r_kind (judge_outcome c t r out) = r_kind r"
  "r_expected (judge_outcome c t r out) = r_expected r"
  "r_known (judge_outcome c t r out) = r_known r"
  "r_lane (judge_outcome c t r out) = r_lane r"
  "r_catalog_expected (judge_outcome c t r out) = r_catalog_expected r"
  "r_expectation_adjustment (judge_outcome c t r out) = r_expectation_adjustment r"
  by (cases out; simp add: Let_def split: option.split)+

lemma judge_outcome_wf:
  "r_expected r = c_expected c \<Longrightarrow> result_wf (judge_outcome c t r out)"
  by (cases out) (auto simp: result_wf_def Let_def dest!: verdict_Some split: option.splits)

lemma judge_outcome_not_skipped: "r_status (judge_outcome c t r out) \<noteq> ''skipped''"
  by (cases out) (simp_all add: Let_def split: option.split)

lemma result_of_simps [simp]:
  "r_engine (result_of c e) = e"
  "r_case_id (result_of c e) = c_id c"
  "r_kind (result_of c e) = c_kind c"
  "r_expected (result_of c e) = c_expected c"
  "r_actual (result_of c e) = ''not-run''"
  "r_status (result_of c e) = ''skipped''"
  "r_message (result_of c e) = []"
  "r_known (result_of c e) = []"
  "r_exit_code (result_of c e) = None"
  "r_lane (result_of c e) = c_lane c"
  "r_catalog_expected (result_of c e) = or_else (c_catalog_expected c) (c_expected c)"
  "r_expectation_adjustment (result_of c e) = c_expectation_adjustment c"
  by (simp_all add: result_of_def)

lemma run_case_frame:
  assumes "run_case h run elapsed t c engine exe diag suite extra = (r, d)"
  shows "r_engine r = engine" "r_case_id r = c_id c" "r_kind r = c_kind c" "r_expected r = c_expected c"
    "r_known r = []" "r_lane r = c_lane c"
    "r_catalog_expected r = or_else (c_catalog_expected c) (c_expected c)"
    "r_expectation_adjustment r = c_expectation_adjustment c"
  using assms by (auto simp: run_case_def Let_def split: if_splits option.splits)

lemma run_case_wf:
  assumes "run_case h run elapsed t c engine exe diag suite extra = (r, d)"
  shows "result_wf r"
proof -
  have "result_wf (q\<lparr>r_elapsed_ms := x\<rparr>) = result_wf q" for q x by (simp add: result_wf_def)
  then show ?thesis
    using assms judge_outcome_wf [of "result_of c engine" c t]
    by (auto simp: run_case_def Let_def result_wf_def [of "result_of c engine\<lparr>r_message := m\<rparr>" for m]
        result_wf_def [of "result_of c engine\<lparr>r_status := s, r_message := m\<rparr>" for s m]
        split: if_splits option.splits)
qed

lemma run_case_skipped:
  assumes "run_case h run elapsed t c engine exe diag suite extra = (r, d)"
  shows "c_skip_reason c \<noteq> [] \<Longrightarrow> r_status r = ''skipped'' \<and> r_actual r = ''not-run'' \<and> r_message r = c_skip_reason c"
    and "c_skip_reason c = [] \<Longrightarrow> r_status r \<noteq> ''skipped''"
  using assms judge_outcome_not_skipped
  by (auto simp: run_case_def Let_def split: if_splits option.splits)

end
