(* ===== verification/W3C_Known.thy ===== *)
theory W3C_Known
  imports W3C_Run
begin

text \<open>
  The list of known failures of \<open>scripts/run_w3c_conformance.py\<close>: reading its rows, matching
  it against the results of a run, writing it from a run, and the exit status. The rows are those
  of the \<open>csv\<close> reader (a map from column to value) and writer (one value per column); the
  dictionary of entries is the list of its entries in insertion order.
\<close>

record known_entry =
  k_engine :: string
  k_case_id :: string
  k_status :: string
  k_category :: string

definition k_key :: "known_entry \<Rightarrow> string \<times> string" where
  "k_key e = (k_engine e, k_case_id e)"

definition r_key :: "result \<Rightarrow> string \<times> string" where
  "r_key r = (r_engine r, r_case_id r)"

definition KNOWN_FAILURE_FIELDS :: "string list" where
  "KNOWN_FAILURE_FIELDS = [''engine'', ''case_id'', ''status'', ''category'']"

definition entry_of :: "(string \<rightharpoonup> string) \<Rightarrow> known_entry" where
  "entry_of row = \<lparr>k_engine = py_get row ''engine'' [], k_case_id = py_get row ''case_id'' [],
     k_status = py_get row ''status'' [], k_category = py_get row ''category'' []\<rparr>"

fun load_rows :: "string \<Rightarrow> nat \<Rightarrow> (string \<rightharpoonup> string) list \<Rightarrow> known_entry list \<Rightarrow> known_entry list py" where
  "load_rows path number [] known = Inr known"
| "load_rows path number (row # rows) known =
     (if \<exists>field \<in> set KNOWN_FAILURE_FIELDS. py_get row field [] = [] then
        Inl (ValueError (''Known-failures row '' @ show_int (int number) @ '' needs ''
          @ join '', '' KNOWN_FAILURE_FIELDS @ '': '' @ path))
      else let e = entry_of row in
      if \<not> py_in (k_status e) [''failed'', ''error''] then
        Inl (ValueError (''Known-failures row '' @ show_int (int number) @ '' has status ''
          @ py_repr (k_status e) @ ''; use failed or error: '' @ path))
      else if k_key e \<in> k_key ` set known then
        Inl (ValueError (''Duplicate known failure '' @ k_engine e @ '' '' @ k_case_id e @ '': '' @ path))
      else load_rows path (Suc number) rows (known @ [e]))"

definition load_known_failures :: "string \<Rightarrow> (string \<rightharpoonup> string) list \<Rightarrow> known_entry list py" where
  "load_known_failures path rows = load_rows path 1 rows []"

fun find_last :: "('a \<Rightarrow> bool) \<Rightarrow> 'a list \<Rightarrow> nat option" where
  \<comment> \<open>the position that \<open>{key(x): x for x in xs}\<close> keeps for a key: the last one\<close>
  "find_last p [] = None"
| "find_last p (x # xs) = (case find_last p xs of Some i \<Rightarrow> Some (Suc i) | None \<Rightarrow> if p x then Some 0 else None)"

definition stale_result :: "known_entry \<Rightarrow> string \<Rightarrow> result" where
  "stale_result e actual =
     \<lparr>r_engine = ''harness'', r_case_id = ''known-failures:'' @ k_engine e @ '':'' @ k_case_id e,
      r_path = [], r_kind = [], r_expected = k_status e, r_actual = actual, r_status = ''error'',
      r_elapsed_ms = 0,
      r_message = k_engine e @ '' '' @ k_case_id e @ '' is listed as a known '' @ k_status e @ '' ('' @ k_category e
        @ '') but is now '' @ actual @ ''. Update the known-failures list.'',
      r_known = [], r_exit_code = None, r_lane = ''core'', r_catalog_expected = [],
      r_expectation_adjustment = []\<rparr>"

fun apply_entries :: "string list \<Rightarrow> known_entry list \<Rightarrow> result list \<times> result list \<Rightarrow> result list \<times> result list" where
  "apply_entries engines [] st = st"
| "apply_entries engines (e # es) (results, stale) =
     (if k_engine e \<notin> set engines then apply_entries engines es (results, stale)
      else case find_last (\<lambda>r. r_key r = k_key e) results of
        Some i \<Rightarrow>
          (if r_status (results ! i) = k_status e
           then apply_entries engines es (results[i := (results ! i)\<lparr>r_known := k_category e\<rparr>], stale)
           else apply_entries engines es (results, stale @ [stale_result e (r_status (results ! i))]))
      | None \<Rightarrow> apply_entries engines es (results, stale @ [stale_result e ''absent from the catalog'']))"

definition apply_known_failures :: "result list \<Rightarrow> known_entry list \<Rightarrow> result list \<times> result list" where
  \<comment> \<open>the results with recorded gaps marked, and the harness errors for stale entries\<close>
  "apply_known_failures results known = apply_entries (map r_engine results) known (results, [])"

definition observed_category :: "result \<Rightarrow> string" where
  "observed_category r =
     (if r_actual r = ''ACCEPT'' then ''accepts input that must be rejected''
      else if r_actual r = ''REJECT'' then ''rejects input that must be accepted''
      else if r_actual r = ''timeout'' then ''timeout'' else ''process error (crash or contract violation)'')"

definition is_failure :: "result \<Rightarrow> bool" where
  "is_failure r = py_in (r_status r) [''failed'', ''error'']"

definition written_row :: "result \<Rightarrow> string list" where
  "written_row r = [r_engine r, r_case_id r, r_status r, or_else (r_known r) (observed_category r)]"

definition write_known_failures :: "result list \<Rightarrow> string list list" where
  \<comment> \<open>the rows below the header\<close>
  "write_known_failures results =
     map written_row (filter (\<lambda>r. r_engine r \<noteq> ''harness'' \<and> is_failure r) results)"

definition unexpected :: "result \<Rightarrow> bool" where
  "unexpected r = (is_failure r \<and> r_known r = [])"

definition no_crash_only :: "result \<Rightarrow> bool" where
  "no_crash_only r = (r_status r = ''passed'' \<and> r_expected r = ''ANY'')"

definition finish_results :: "known_entry list \<Rightarrow> result list \<Rightarrow> result list" where
  \<comment> \<open>the step of \<open>main\<close> between running the cases and reporting\<close>
  "finish_results known results =
     (if known \<noteq> [] \<and> \<not> (\<exists>r \<in> set results. r_engine r = ''harness'')
      then (case apply_known_failures results known of (marked, stale) \<Rightarrow> marked @ stale)
      else results)"

definition exit_code :: "result list \<Rightarrow> int" where
  "exit_code results = (if \<exists>r \<in> set results. unexpected r then 1 else 0)"

section \<open>Finding the last row of a key\<close>

lemma find_last_None: "find_last p xs = None \<longleftrightarrow> (\<forall>x \<in> set xs. \<not> p x)"
  by (induction xs) (auto split: option.splits)

lemma find_last_Some:
  "find_last p xs = Some i \<Longrightarrow> i < length xs \<and> p (xs ! i) \<and> (\<forall>j. i < j \<longrightarrow> j < length xs \<longrightarrow> \<not> p (xs ! j))"
proof (induction xs arbitrary: i)
  case (Cons x xs)
  show ?case
  proof (cases "find_last p xs")
    case None
    with Cons.prems have "i = 0" "p x" by (auto split: if_splits)
    with None show ?thesis by (auto simp: find_last_None nth_Cons split: nat.split)
  next
    case (Some k)
    with Cons.prems have "i = Suc k" by simp
    with Cons.IH [OF Some] show ?thesis by (auto simp: nth_Cons split: nat.split)
  qed
qed simp

lemma find_last_distinct:
  assumes "distinct (map f xs)" and "i < length xs"
  shows "find_last (\<lambda>y. f y = f (xs ! i)) xs = Some i"
proof (cases "find_last (\<lambda>y. f y = f (xs ! i)) xs")
  case None
  with assms(2) show ?thesis by (auto simp: find_last_None)
next
  case (Some k)
  from find_last_Some [OF Some] have "k < length xs" "map f xs ! k = map f xs ! i"
    using assms(2) by auto
  with assms nth_eq_iff_index_eq [of "map f xs" k i] Some show ?thesis by simp
qed

section \<open>Reading the list\<close>

definition entry_wf :: "known_entry \<Rightarrow> bool" where
  "entry_wf e \<longleftrightarrow> k_status e \<in> {''failed'', ''error''} \<and> k_category e \<noteq> []"

lemma load_rows_Cons:
  assumes "load_rows path n (row # rows) known = Inr es"
  shows "entry_wf (entry_of row)" "k_key (entry_of row) \<notin> k_key ` set known"
    "load_rows path (Suc n) rows (known @ [entry_of row]) = Inr es"
proof -
  have cat: "py_get row ''category'' [] \<noteq> []"
    if "\<not> (\<exists>field \<in> set KNOWN_FAILURE_FIELDS. py_get row field [] = [])"
    using that by (simp add: KNOWN_FAILURE_FIELDS_def)
  from assms have ok: "\<not> (\<exists>field \<in> set KNOWN_FAILURE_FIELDS. py_get row field [] = [])
      \<and> py_in (k_status (entry_of row)) [''failed'', ''error'']
      \<and> k_key (entry_of row) \<notin> k_key ` set known
      \<and> load_rows path (Suc n) rows (known @ [entry_of row]) = Inr es"
    unfolding load_rows.simps Let_def if_raise_Inr_iff not_not .
  with cat show "entry_wf (entry_of row)"
    by (simp add: entry_wf_def entry_of_def)
  from ok show "k_key (entry_of row) \<notin> k_key ` set known"
    "load_rows path (Suc n) rows (known @ [entry_of row]) = Inr es" by blast+
qed

lemma load_rows_inv:
  "load_rows path n rows known = Inr es \<Longrightarrow> distinct (map k_key known) \<Longrightarrow> \<forall>e \<in> set known. entry_wf e \<Longrightarrow>
     distinct (map k_key es) \<and> (\<forall>e \<in> set es. entry_wf e) \<and> es = known @ map entry_of rows"
proof (induction rows arbitrary: n known)
  case (Cons row rows)
  note step = load_rows_Cons [OF Cons.prems(1)]
  from step(1,2) Cons.prems(2,3) have "distinct (map k_key (known @ [entry_of row]))"
    "\<forall>e \<in> set (known @ [entry_of row]). entry_wf e" by auto
  from Cons.IH [OF step(3) this] show ?case
    unfolding list.map append_assoc append_Cons append_Nil .
qed simp

lemma load_known_failures_wf:
  "load_known_failures path rows = Inr known \<Longrightarrow> distinct (map k_key known) \<and> (\<forall>e \<in> set known. entry_wf e)"
  unfolding load_known_failures_def by (drule load_rows_inv) (simp, simp, blast)

section \<open>Applying the list\<close>

lemma map_update_same: "i < length xs \<Longrightarrow> f y = f (xs ! i) \<Longrightarrow> map f (xs[i := y]) = map f xs"
  by (metis list_update_id map_update nth_map)

definition entry_map :: "known_entry list \<Rightarrow> string \<times> string \<Rightarrow> known_entry option" where
  "entry_map known = map_of (map (\<lambda>e. (k_key e, e)) known)"

definition mark :: "known_entry list \<Rightarrow> result \<Rightarrow> result" where
  \<comment> \<open>what the list says of one result\<close>
  "mark known r = (case entry_map known (r_key r) of
      Some e \<Rightarrow> if r_status r = k_status e then r\<lparr>r_known := k_category e\<rparr> else r
    | None \<Rightarrow> r)"

definition status_map :: "result list \<Rightarrow> string \<times> string \<Rightarrow> string option" where
  "status_map results = map_of (map (\<lambda>r. (r_key r, r_status r)) results)"

definition stale_of :: "result list \<Rightarrow> known_entry \<Rightarrow> result list" where
  \<comment> \<open>what the results say of one entry\<close>
  "stale_of results e =
     (if k_engine e \<notin> r_engine ` set results then []
      else case status_map results (k_key e) of
        Some status \<Rightarrow> if status = k_status e then [] else [stale_result e status]
      | None \<Rightarrow> [stale_result e ''absent from the catalog''])"

lemma r_key_known [simp]: "r_key (r\<lparr>r_known := x\<rparr>) = r_key r"
  by (simp add: r_key_def)

lemma mark_Nil [simp]: "mark [] r = r"
  by (simp add: mark_def entry_map_def)

lemma mark_Cons:
  "k_key e \<notin> k_key ` set es \<Longrightarrow>
     mark (e # es) r = (if r_key r = k_key e
       then (if r_status r = k_status e then r\<lparr>r_known := k_category e\<rparr> else r) else mark es r)"
  by (simp add: mark_def entry_map_def)

lemma mark_other: "r_key r \<notin> k_key ` set es \<Longrightarrow> mark es r = r"
proof -
  assume "r_key r \<notin> k_key ` set es"
  then have "entry_map es (r_key r) = None"
    by (force simp: entry_map_def map_of_eq_None_iff)
  then show ?thesis by (simp add: mark_def)
qed

lemma status_map_distinct:
  assumes "distinct (map r_key results)" and "i < length results"
  shows "status_map results (r_key (results ! i)) = Some (r_status (results ! i))"
  using assms unfolding status_map_def
  by (intro map_of_is_SomeI) (auto simp: comp_def)

lemma status_map_in:
  "distinct (map r_key results) \<Longrightarrow> r \<in> set results \<Longrightarrow> status_map results (r_key r) = Some (r_status r)"
  by (auto simp: in_set_conv_nth status_map_distinct)

text \<open>One entry, applied in place, is the marking of every row by that entry.\<close>

lemma update_marks:
  assumes "distinct (map r_key results)" and "i < length results" and "r_key (results ! i) = k_key e"
    and "k_key e \<notin> k_key ` set es"
  shows "map (mark es) (results[i := (results ! i)\<lparr>r_known := k_category e\<rparr>])
     = map (\<lambda>r. if r_key r = k_key e then r\<lparr>r_known := k_category e\<rparr> else mark es r) results"
proof (rule nth_equalityI)
  fix j assume "j < length (map (mark es) (results[i := (results ! i)\<lparr>r_known := k_category e\<rparr>]))"
  then have j: "j < length results" by simp
  have "r_key (results ! j) = k_key e \<longleftrightarrow> j = i"
    using assms(1-3) j nth_eq_iff_index_eq [of "map r_key results" j i] by auto
  with assms j show "map (mark es) (results[i := (results ! i)\<lparr>r_known := k_category e\<rparr>]) ! j
      = map (\<lambda>r. if r_key r = k_key e then r\<lparr>r_known := k_category e\<rparr> else mark es r) results ! j"
    by (auto simp: mark_other)
qed simp

lemma apply_entries_eq:
  assumes "distinct (map r_key results)" and "distinct (map k_key es)"
    and "set engines = r_engine ` set results"
  shows "apply_entries engines es (results, stale)
     = (map (mark es) results, stale @ concat (map (stale_of results) es))"
  using assms
proof (induction es arbitrary: results stale)
  case (Cons e es)
  have new: "k_key e \<notin> k_key ` set es" and dist: "distinct (map k_key es)"
    using Cons.prems(2) by auto
  note IH = Cons.IH [OF _ dist]
  have nomark: "map (mark (e # es)) results = map (mark es) results"
    if "\<And>r. r \<in> set results \<Longrightarrow> r_key r = k_key e \<Longrightarrow> r_status r \<noteq> k_status e"
    using that new by (auto simp: mark_Cons mark_other)
  show ?case
  proof (cases "k_engine e \<in> set engines")
    case False
    then have "r_key r \<noteq> k_key e" if "r \<in> set results" for r
      using that Cons.prems(3) unfolding r_key_def k_key_def by (metis Pair_inject imageI)
    with False Cons.prems IH [of results stale] nomark show ?thesis
      by (simp add: stale_of_def)
  next
    case True
    show ?thesis
    proof (cases "find_last (\<lambda>r. r_key r = k_key e) results")
      case None
      then have none: "\<And>r. r \<in> set results \<Longrightarrow> r_key r \<noteq> k_key e" by (simp add: find_last_None)
      then have "status_map results (k_key e) = None"
        by (force simp: status_map_def map_of_eq_None_iff)
      with True None Cons.prems IH [of results] nomark none show ?thesis
        by (simp add: stale_of_def)
    next
      case (Some i)
      note i = find_last_Some [OF Some]
      have st: "status_map results (k_key e) = Some (r_status (results ! i))"
        using status_map_distinct [OF Cons.prems(1)] i by metis
      have uniq: "r_status r = r_status (results ! i)" if "r \<in> set results" "r_key r = k_key e" for r
        using that st status_map_distinct [OF Cons.prems(1)] by (metis in_set_conv_nth option.inject)
      show ?thesis
      proof (cases "r_status (results ! i) = k_status e")
        case True
        let ?new = "results[i := (results ! i)\<lparr>r_known := k_category e\<rparr>]"
        have same: "map r_key ?new = map r_key results" "map r_engine ?new = map r_engine results"
          "map (\<lambda>r. (r_key r, r_status r)) ?new = map (\<lambda>r. (r_key r, r_status r)) results"
          using i by (simp_all add: map_update_same)
        have "stale_of ?new = stale_of results"
          unfolding stale_of_def status_map_def same(3)
          by (metis same(2) image_set)
        moreover have "map (mark (e # es)) results = map (mark es) ?new"
        proof -
          have "map (mark (e # es)) results
              = map (\<lambda>r. if r_key r = k_key e then r\<lparr>r_known := k_category e\<rparr> else mark es r) results"
            by (rule map_cong [OF refl]) (use uniq True in \<open>simp add: mark_Cons [OF new]\<close>)
          with update_marks [OF Cons.prems(1) _ _ new, of i] i show ?thesis by simp
        qed
        moreover have "set engines = r_engine ` set ?new"
          using Cons.prems(3) same(2) by (metis image_set)
        ultimately show ?thesis
          using IH [of ?new stale] same(1) Cons.prems(1) Some True st \<open>k_engine e \<in> set engines\<close> Cons.prems(3)
          by (simp add: stale_of_def [of results e])
      next
        case False
        then have "r_status r \<noteq> k_status e" if "r \<in> set results" "r_key r = k_key e" for r
          using uniq that by simp
        with True Some False Cons.prems IH [of results] nomark st show ?thesis
          by (simp add: stale_of_def)
      qed
    qed
  qed
qed (simp add: map_idI)

lemma apply_known_failures_eq:
  "distinct (map r_key results) \<Longrightarrow> distinct (map k_key known) \<Longrightarrow>
     apply_known_failures results known = (map (mark known) results, concat (map (stale_of results) known))"
  by (simp add: apply_known_failures_def apply_entries_eq)

section \<open>The list written from a run\<close>

lemma observed_category_nonempty [simp]: "observed_category r \<noteq> []"
  by (simp add: observed_category_def)

lemma or_else_nonempty [simp]: "b \<noteq> [] \<Longrightarrow> or_else a b \<noteq> []"
  by (simp add: or_else_def)

definition read_row :: "string list \<Rightarrow> (string \<rightharpoonup> string)" where
  \<comment> \<open>the \<open>csv\<close> reader's row: the values under the header \<open>KNOWN_FAILURE_FIELDS\<close>\<close>
  "read_row values = map_of (zip KNOWN_FAILURE_FIELDS values)"

definition entry_for :: "result \<Rightarrow> known_entry" where
  "entry_for r = \<lparr>k_engine = r_engine r, k_case_id = r_case_id r, k_status = r_status r,
     k_category = or_else (r_known r) (observed_category r)\<rparr>"

lemma read_written_row [simp]:
  "entry_of (read_row (written_row r)) = entry_for r"
  "py_get (read_row (written_row r)) ''engine'' [] = r_engine r"
  "py_get (read_row (written_row r)) ''case_id'' [] = r_case_id r"
  "py_get (read_row (written_row r)) ''status'' [] = r_status r"
  "py_get (read_row (written_row r)) ''category'' [] = or_else (r_known r) (observed_category r)"
  by (simp_all add: read_row_def written_row_def KNOWN_FAILURE_FIELDS_def entry_of_def entry_for_def)

lemma entry_for_simps [simp]:
  "k_key (entry_for r) = r_key r"
  "k_engine (entry_for r) = r_engine r"
  "k_status (entry_for r) = r_status r"
  "k_category (entry_for r) = or_else (r_known r) (observed_category r)"
  by (simp_all add: entry_for_def k_key_def r_key_def)

lemma load_written_rows:
  "distinct (map k_key known @ map r_key rs) \<Longrightarrow>
     \<forall>r \<in> set rs. is_failure r \<and> r_engine r \<noteq> [] \<and> r_case_id r \<noteq> [] \<Longrightarrow>
     load_rows path n (map (\<lambda>r. read_row (written_row r)) rs) known = Inr (known @ map entry_for rs)"
proof (induction rs arbitrary: n known)
  case (Cons r rs)
  have "\<not> (\<exists>field \<in> set KNOWN_FAILURE_FIELDS. py_get (read_row (written_row r)) field [] = [])"
    using Cons.prems(2) by (auto simp: KNOWN_FAILURE_FIELDS_def is_failure_def)
  moreover have "py_in (k_status (entry_for r)) [''failed'', ''error'']"
    using Cons.prems(2) by (simp add: entry_for_def is_failure_def)
  moreover have "r_key r \<notin> k_key ` set known"
    using Cons.prems(1) by auto
  moreover have "load_rows path (Suc n) (map (\<lambda>r. read_row (written_row r)) rs) (known @ [entry_for r])
      = Inr ((known @ [entry_for r]) @ map entry_for rs)"
    by (rule Cons.IH) (use Cons.prems in auto)
  ultimately show ?case by (simp add: Let_def)
qed simp

section \<open>Properties\<close>

text \<open>Two sample runs: a rejected \<open>not-wf\<close> input that passes, and an accepted one that fails.\<close>

definition sample_run :: "string \<Rightarrow> int \<Rightarrow> result \<times> diagnostic option" where
  "sample_run v code = run_case sample_host (\<lambda>_. Completed code (marker @ v @ [newline]) []) 2 ''10''
     (hd sample_cases) ''xpact'' ''conformance.exe'' False None []"

definition sample_results :: "result list" where
  "sample_results = [fst (sample_run ''ACCEPT'' 0)]"

lemma sample_run_passed: "r_status (fst (sample_run ''REJECT'' 1)) = ''passed''"
  by code_simp

lemma sample_run_failed: "r_status (fst (sample_run ''ACCEPT'' 0)) = ''failed''"
  by code_simp

lemma sample_run_eq: "run_case sample_host (\<lambda>_. Completed code (marker @ v @ [newline]) []) 2 ''10''
     (hd sample_cases) ''xpact'' ''conformance.exe'' False None [] = (fst (sample_run v code), snd (sample_run v code))"
  by (simp add: sample_run_def)

text \<open>
  C3. A result of \<open>run_case\<close> passes only on evidence: the process ended with the exit code of
  its verdict, printed exactly one verdict marker, and that verdict is the required one or the
  lane accepts either.
\<close>

theorem run_case_passed_sound:
  assumes "run_case h run elapsed t c engine exe diag suite extra = (r, d)" and "r_status r = ''passed''"
  shows "\<exists>command stdout stderr v. v \<in> {''ACCEPT'', ''REJECT''} \<and> c_expected c \<in> {v, ''ANY''} \<and> r_actual r = v
    \<and> run command = Completed (if v = ''ACCEPT'' then 0 else 1) stdout stderr
    \<and> filter (\<lambda>line. startswith line marker) (splitlines stdout) = [marker @ v]"
proof -
  from assms obtain command out where out: "run command = out"
    and r: "r = (judge_outcome c t (result_of c engine) out)\<lparr>r_elapsed_ms := elapsed\<rparr>"
    by (auto simp: run_case_def Let_def split: if_splits option.splits)
  obtain rc stdout stderr v where "out = Completed rc stdout stderr" "verdict rc stdout = Some v"
      "r_actual r = v" "c_expected c \<in> {v, ''ANY''}"
    using r assms(2) by (cases out) (auto simp: Let_def split: option.splits if_splits)
  with out verdict_Some [of rc stdout v] show ?thesis by blast
qed

theorem run_case_passed_sound_witness:
  "\<exists>v. v \<in> {''ACCEPT'', ''REJECT''} \<and> r_actual (fst (sample_run ''REJECT'' 1)) = v"
  using run_case_passed_sound [OF sample_run_eq sample_run_passed] by blast

text \<open>
  C40. Status, observed verdict and exit code of every result agree: a skipped case was not run, an
  error has no verdict, and a passed or failed case has one, with its exit code.
\<close>

theorem run_case_result_wf:
  assumes "run_case h run elapsed t c engine exe diag suite extra = (r, d)"
  shows "result_wf r \<and> (r_status r = ''skipped'' \<longleftrightarrow> c_skip_reason c \<noteq> [])"
  using run_case_wf [OF assms] run_case_skipped [OF assms] by blast

theorem run_case_result_wf_witness: "result_wf (fst (sample_run ''ACCEPT'' 0))"
  using run_case_result_wf [OF sample_run_eq] by blast

text \<open>
  C35. The in-place marking of \<open>apply_known_failures\<close> equals its declarative reading: a result is
  marked exactly by the entry with its key and status, and an entry is stale exactly when its
  engine ran and its case is absent or has another status.
\<close>

theorem apply_known_failures_spec:
  assumes "distinct (map r_key results)" and "load_known_failures path rows = Inr known"
  shows "apply_known_failures results known = (map (mark known) results, concat (map (stale_of results) known))"
  using apply_known_failures_eq [OF assms(1)] load_known_failures_wf [OF assms(2)] by blast

lemma sample_distinct: "distinct (map r_key sample_results)"
  by (simp add: sample_results_def)

lemma sample_rows: "load_known_failures ''known.tsv''
    [read_row [''xpact'', ''t1'', ''failed'', ''gap''], read_row [''xpact'', ''t9'', ''error'', ''gap'']]
   = Inr [\<lparr>k_engine = ''xpact'', k_case_id = ''t1'', k_status = ''failed'', k_category = ''gap''\<rparr>,
          \<lparr>k_engine = ''xpact'', k_case_id = ''t9'', k_status = ''error'', k_category = ''gap''\<rparr>]"
  by code_simp

theorem apply_known_failures_spec_witness:
  "apply_known_failures sample_results
     [\<lparr>k_engine = ''xpact'', k_case_id = ''t1'', k_status = ''failed'', k_category = ''gap''\<rparr>,
      \<lparr>k_engine = ''xpact'', k_case_id = ''t9'', k_status = ''error'', k_category = ''gap''\<rparr>]
   = (map (mark [\<lparr>k_engine = ''xpact'', k_case_id = ''t1'', k_status = ''failed'', k_category = ''gap''\<rparr>,
        \<lparr>k_engine = ''xpact'', k_case_id = ''t9'', k_status = ''error'', k_category = ''gap''\<rparr>]) sample_results,
      concat (map (stale_of sample_results)
        [\<lparr>k_engine = ''xpact'', k_case_id = ''t1'', k_status = ''failed'', k_category = ''gap''\<rparr>,
         \<lparr>k_engine = ''xpact'', k_case_id = ''t9'', k_status = ''error'', k_category = ''gap''\<rparr>]))"
  using apply_known_failures_spec [OF sample_distinct sample_rows] .



end
