(* ===== verification/W3C_Main.thy ===== *)
theory W3C_Main
  imports W3C_Known
begin

text \<open>
  \<open>main\<close> of \<open>scripts/run_w3c_conformance.py\<close>: the engines of the command line, the choice of
  executable and arguments for every case (\<open>--all-cases\<close> runs the excluded cases in their lanes),
  the results of a run, and its exit status. \<open>main_host\<close> is what the script asks of the host;
  an exception of the XML or zip library is one of the caught \<open>ValueError\<close>s of the model.
\<close>

section \<open>The command line\<close>

fun partition_on :: "char \<Rightarrow> string \<Rightarrow> string \<times> bool \<times> string" where
  \<comment> \<open>\<open>s.partition(c)\<close>: the text before, whether the separator was found, the text after\<close>
  "partition_on c [] = ([], False, [])"
| "partition_on c (x # xs) = (if x = c then ([], True, xs)
     else case partition_on c xs of (a, found, b) \<Rightarrow> (x # a, found, b))"

record main_args =
  a_engines :: "string list" \<comment> \<open>\<open>--engine NAME=EXE\<close>\<close>
  a_entity_engines :: "string list"
  a_all_cases :: bool
  a_known_failures :: "string option"

record main_host =
  mh_host :: host
  mh_resolve :: "string \<Rightarrow> string" \<comment> \<open>\<open>Path(executable).resolve()\<close>\<close>
  mh_is_file :: "string \<Rightarrow> bool"
  mh_known_rows :: "string \<Rightarrow> (string \<rightharpoonup> string) list py" \<comment> \<open>the \<open>csv\<close> rows of a file\<close>
  mh_suite :: "path py" \<comment> \<open>the suite directory given, or prepared\<close>
  mh_catalog :: "element py"
  mh_workdir :: "unit py"
  mh_process :: "string \<Rightarrow> nat \<Rightarrow> string list \<Rightarrow> outcome"
  mh_elapsed :: "string \<Rightarrow> nat \<Rightarrow> rat"
  mh_timeout_text :: string

fun parse_engines :: "main_host \<Rightarrow> string list \<Rightarrow> (string \<times> string) list \<Rightarrow> (string \<times> string) list py" where
  "parse_engines h [] engines = Inr engines"
| "parse_engines h (value # vals) engines =
     (case partition_on CHR ''='' value of (name, separator, executable) \<Rightarrow>
      if \<not> separator \<or> name = [] \<or> executable = [] \<or> name \<in> fst ` set engines then
        Inl (ValueError (''Invalid or duplicate --engine NAME=EXE: '' @ value))
      else let exe = mh_resolve h executable in
      if \<not> mh_is_file h exe then Inl (ValueError (''Engine executable does not exist: '' @ exe))
      else parse_engines h vals (engines @ [(name, exe)]))"

fun parse_entity_engines :: "main_host \<Rightarrow> (string \<times> string) list \<Rightarrow> string list
    \<Rightarrow> (string \<times> string) list \<Rightarrow> (string \<times> string) list py" where
  "parse_entity_engines h engines [] entities = Inr entities"
| "parse_entity_engines h engines (value # vals) entities =
     (case partition_on CHR ''='' value of (name, separator, executable) \<Rightarrow>
      if \<not> separator \<or> name \<notin> fst ` set engines \<or> name \<in> fst ` set entities then
        Inl (ValueError (''Invalid, unknown or duplicate --entity-engine NAME=EXE: '' @ value))
      else let exe = mh_resolve h executable in
      if \<not> mh_is_file h exe then Inl (ValueError (''Entity engine executable does not exist: '' @ exe))
      else parse_entity_engines h engines vals (entities @ [(name, exe)]))"

section \<open>Running\<close>

definition run_dispatched :: "main_host \<Rightarrow> bool \<Rightarrow> path \<Rightarrow> (string \<times> string) list \<Rightarrow> string \<Rightarrow> string
    \<Rightarrow> nat \<Rightarrow> case_ \<Rightarrow> result" where
  \<comment> \<open>one turn of the inner loop\<close>
  "run_dispatched h all_cases suite_dir entities engine executable index c =
     (let run = run_case (mh_host h) (mh_process h engine index) (mh_elapsed h engine index) (mh_timeout_text h) in
      if all_cases \<and> c_skip_reason c \<noteq> [] then
        let lane_case = c\<lparr>c_expected := c_lane_expected c, c_skip_reason := []\<rparr> in
        if c_entities c then
          fst (run lane_case engine (the (map_of entities engine)) False None [''--entity-root'', as_posix suite_dir])
        else fst (run lane_case engine executable False (Some suite_dir)
          (if c_lane c = ''legacy-names'' then [''--legacy-names''] else []))
      else fst (run c engine executable False (Some suite_dir) []))"

definition run_all :: "main_host \<Rightarrow> bool \<Rightarrow> path \<Rightarrow> (string \<times> string) list \<Rightarrow> (string \<times> string) list
    \<Rightarrow> case_ list \<Rightarrow> result list" where
  "run_all h all_cases suite_dir entities engines cases =
     concat (map (\<lambda>(engine, executable).
       map (\<lambda>(index, c). run_dispatched h all_cases suite_dir entities engine executable index c)
         (enumerate 1 cases)) engines)"

definition read_known :: "main_host \<Rightarrow> main_args \<Rightarrow> known_entry list py" where
  "read_known h args = (case a_known_failures args of None \<Rightarrow> Inr []
     | Some path \<Rightarrow> bindE (mh_known_rows h path) (load_known_failures path))"

definition setup_run :: "main_host \<Rightarrow> main_args
    \<Rightarrow> ((string \<times> string) list \<times> (string \<times> string) list \<times> path \<times> case_ list) py" where
  "setup_run h args =
     bindE (parse_engines h (a_engines args) []) (\<lambda>engines.
     bindE (parse_entity_engines h engines (a_entity_engines args) []) (\<lambda>entities.
     if a_all_cases args \<and> fst ` set entities \<noteq> fst ` set engines then
       Inl (ValueError ''--all-cases needs one --entity-engine for every --engine'')
     else bindE (mh_suite h) (\<lambda>suite_dir.
     bindE (mh_catalog h) (\<lambda>tree.
     bindE (load_catalog (mh_host h) suite_dir tree) (\<lambda>cases.
     if \<forall>c \<in> set cases. c_skip_reason c \<noteq> [] then
       Inl (ValueError ''No applicable cases in the catalog'')
     else bindE (mh_workdir h) (\<lambda>_. Inr (engines, entities, suite_dir, cases)))))))"

definition harness_caught :: "exn \<Rightarrow> bool" where
  "harness_caught e = (is_value_error e \<or> (case e of OSError _ \<Rightarrow> True | KeyError _ \<Rightarrow> True | _ \<Rightarrow> False))"

definition setup_error :: "exn \<Rightarrow> result" where
  "setup_error e =
     \<lparr>r_engine = ''harness'', r_case_id = ''suite-setup_run'', r_path = [], r_kind = [], r_expected = [],
      r_actual = ''not-run'', r_status = ''error'', r_elapsed_ms = 0, r_message = exn_text e, r_known = [],
      r_exit_code = None, r_lane = ''core'', r_catalog_expected = [], r_expectation_adjustment = []\<rparr>"

definition main_results :: "main_host \<Rightarrow> main_args \<Rightarrow> (known_entry list \<times> result list) py" where
  \<comment> \<open>the \<open>try\<close> of \<open>main\<close>: the known failures read and the results of the run\<close>
  "main_results h args =
     (case read_known h args of
        Inl e \<Rightarrow> if harness_caught e then Inr ([], [setup_error e]) else Inl e
      | Inr known \<Rightarrow> (case setup_run h args of
          Inl e \<Rightarrow> if harness_caught e then Inr (known, [setup_error e]) else Inl e
        | Inr (engines, entities, suite_dir, cases) \<Rightarrow>
            Inr (known, run_all h (a_all_cases args) suite_dir entities engines cases)))"

definition main :: "main_host \<Rightarrow> main_args \<Rightarrow> (result list \<times> int) py" where
  \<comment> \<open>the results that are reported, and the exit status\<close>
  "main h args = bindE (main_results h args) (\<lambda>(known, results).
     let results = finish_results known results in Inr (results, exit_code results))"

section \<open>Facts about a run\<close>

lemma parse_engines_distinct:
  "parse_engines h vals engines = Inr engines' \<Longrightarrow> distinct (map fst engines) \<Longrightarrow>
     distinct (map fst engines') \<and> length engines' = length engines + length vals"
  by (induction vals arbitrary: engines) (auto simp: Let_def split: if_splits prod.splits)

lemma run_dispatched_key:
  "r_key (run_dispatched h all suite entities e x i c) = (e, c_id c)"
  unfolding run_dispatched_def Let_def r_key_def
  using run_case_frame(1,2) [OF prod.collapse [symmetric]] by auto

lemma run_dispatched_wf: "result_wf (run_dispatched h all suite entities e x i c)"
  unfolding run_dispatched_def Let_def using run_case_wf [OF prod.collapse [symmetric]] by auto

lemma run_dispatched_known: "r_known (run_dispatched h all suite entities e x i c) = []"
  unfolding run_dispatched_def Let_def using run_case_frame(5) [OF prod.collapse [symmetric]] by auto

lemma run_dispatched_skipped:
  "r_status (run_dispatched h all suite entities e x i c) = ''skipped'' \<longleftrightarrow> \<not> all \<and> c_skip_reason c \<noteq> []"
  unfolding run_dispatched_def Let_def using run_case_skipped [OF prod.collapse [symmetric]] by auto

lemma map_enumerate_second: "map (\<lambda>(i, c). f c) (enumerate n xs) = map f xs"
  by (induction xs arbitrary: n) auto

lemma run_all_keys:
  "map r_key (run_all h all suite entities engines cases)
     = concat (map (\<lambda>e. map (\<lambda>c. (e, c_id c)) cases) (map fst engines))"
  by (simp add: run_all_def map_concat comp_def case_prod_unfold run_dispatched_key)
    (simp add: map_enumerate_second [where f = "\<lambda>c. (_, c_id c)", unfolded case_prod_unfold])

end
