(* ===== verification/W3C_Main_Claims.thy ===== *)
theory W3C_Main_Claims
  imports W3C_Main
begin

text \<open>
  What the exit status of the conformance run says: 0 means that every case ran on every engine and
  every deviation is a recorded one; with \<open>--all-cases\<close> nothing is skipped.
\<close>

lemma run_all_in:
  assumes "(e, x) \<in> set engines" and "k < length cases"
  shows "run_dispatched h all suite entities e x (Suc k) (cases ! k) \<in> set (run_all h all suite entities engines cases)"
proof -
  have "(Suc k, cases ! k) \<in> set (enumerate 1 cases)"
    using assms(2) by (auto simp: in_set_conv_nth nth_enumerate_eq intro!: exI [of _ k])
  with assms(1) show ?thesis unfolding run_all_def by fastforce
qed

lemma enumerate_second: "(i, c) \<in> set (enumerate n xs) \<Longrightarrow> c \<in> set xs"
  by (induction xs arbitrary: n) auto

lemma run_all_cases:
  assumes "r \<in> set (run_all h all suite entities engines cases)"
  obtains e x i c where "(e, x) \<in> set engines" "c \<in> set cases" "r = run_dispatched h all suite entities e x i c"
  using assms enumerate_second unfolding run_all_def by fastforce

lemma setup_run_Inr:
  assumes "setup_run h args = Inr (engines, entities, suite_dir, cases)"
  obtains tree where "distinct (map fst engines)" "length engines = length (a_engines args)"
    "mh_catalog h = Inr tree" "load_catalog (mh_host h) suite_dir tree = Inr cases" "distinct (map c_id cases)"
    "a_all_cases args \<Longrightarrow> fst ` set entities = fst ` set engines"
proof -
  from assms obtain tree where p: "parse_engines h (a_engines args) [] = Inr engines"
    "a_all_cases args \<Longrightarrow> fst ` set entities = fst ` set engines"
    "mh_catalog h = Inr tree" "load_catalog (mh_host h) suite_dir tree = Inr cases"
    by (auto simp: setup_run_def bindE_Inr_iff split: if_splits)
  from parse_engines_distinct [OF p(1)] have "distinct (map fst engines)" "length engines = length (a_engines args)"
    by simp_all
  moreover have "distinct (map c_id cases)"
    using load_catalog_inv [OF p(4)] by (auto simp: catalog_inv_def)
  ultimately show ?thesis using that p by blast
qed

lemma setup_error_unexpected [simp]: "unexpected (setup_error e)" "r_engine (setup_error e) = ''harness''"
  by (simp_all add: setup_error_def unexpected_def is_failure_def)

lemma finish_setup_error: "exit_code (finish_results known [setup_error e]) = 1"
  by (simp add: finish_results_def exit_code_def)

lemma main_Inr_0:
  assumes "main h args = Inr (results, 0)"
  obtains known engines entities suite_dir cases where "read_known h args = Inr known"
    "setup_run h args = Inr (engines, entities, suite_dir, cases)"
    "results = finish_results known (run_all h (a_all_cases args) suite_dir entities engines cases)"
    "exit_code results = 0"
  using assms unfolding main_def main_results_def
  by (auto simp: bindE_Inr_iff Let_def finish_setup_error split: sum.splits if_splits)

lemma mark_not_unexpected:
  assumes "\<not> unexpected (mark known r)" and "r_known r = []"
  shows "\<not> is_failure r \<or> (\<exists>n \<in> set known. k_key n = r_key r \<and> k_status n = r_status r)"
proof (cases "entry_map known (r_key r)")
  case None
  with assms show ?thesis by (simp add: mark_def unexpected_def)
next
  case (Some n)
  then have n: "n \<in> set known" "k_key n = r_key r" unfolding entry_map_def by (auto dest!: map_of_SomeD)
  show ?thesis
  proof (cases "k_status n = r_status r")
    case False
    with assms Some show ?thesis by (simp add: mark_def unexpected_def split: if_splits)
  qed (use n in blast)
qed

lemma no_stale:
  assumes "exit_code (finish_results known results) = 0" and "load_known_failures path rows = Inr known"
    and "distinct (map r_key results)" and "\<forall>r \<in> set results. r_engine r \<noteq> ''harness''"
    and "n \<in> set known" and "k_engine n \<in> r_engine ` set results"
  shows "\<exists>r \<in> set results. r_key r = k_key n \<and> r_status r = k_status n"
proof -
  from assms(2) have dk: "distinct (map k_key known)" using load_known_failures_wf by blast
  from assms(4,5) have "finish_results known results = map (mark known) results @ concat (map (stale_of results) known)"
    by (auto simp: finish_results_def apply_known_failures_eq [OF assms(3) dk])
  moreover have "unexpected (stale_result e a)" for e a
    by (simp add: stale_result_def unexpected_def is_failure_def)
  ultimately have "stale_of results n = []"
    using assms(1,5) by (fastforce simp: exit_code_def stale_of_def split: if_splits option.splits)
  with assms(6) have "status_map results (k_key n) = Some (k_status n)"
    by (auto simp: stale_of_def split: if_splits option.splits)
  then show ?thesis unfolding status_map_def by (auto dest!: map_of_SomeD) blast
qed

text \<open>
  C4. Exit status 0 is trustworthy: the set-up did not fail, every \<open>--engine\<close> ran every case of
  the catalog, and each of these results either is no failure or is listed, with the status it has
  now, in the known-failures file.
\<close>

theorem main_exit_zero:
  assumes "main h args = Inr (results, 0)"
  shows "\<exists>known engines entities suite_dir cases. read_known h args = Inr known
     \<and> setup_run h args = Inr (engines, entities, suite_dir, cases)
     \<and> length engines = length (a_engines args)
     \<and> (\<forall>(e, x) \<in> set engines. \<forall>k < length cases.
          let r = run_dispatched h (a_all_cases args) suite_dir entities e x (Suc k) (cases ! k) in
          \<not> is_failure r \<or> (\<exists>n \<in> set known. k_key n = (e, c_id (cases ! k)) \<and> k_status n = r_status r))"
proof -
  from assms obtain known engines entities suite_dir cases where
    k: "read_known h args = Inr known" and s: "setup_run h args = Inr (engines, entities, suite_dir, cases)"
    and res: "results = finish_results known (run_all h (a_all_cases args) suite_dir entities engines cases)"
      "exit_code results = 0"
    by (rule main_Inr_0)
  from s obtain tree where se: "distinct (map fst engines)" "length engines = length (a_engines args)"
    "mh_catalog h = Inr tree" "load_catalog (mh_host h) suite_dir tree = Inr cases" "distinct (map c_id cases)"
    by (rule setup_run_Inr)
  let ?rs = "run_all h (a_all_cases args) suite_dir entities engines cases"
  have dr: "distinct (map r_key ?rs)" unfolding run_all_keys by (rule distinct_pairs [OF se(1,5)])
  have dk: "distinct (map k_key known)" using k load_known_failures_wf
    by (auto simp: read_known_def bindE_Inr_iff split: option.splits)
  have unmarked: "\<forall>r \<in> set ?rs. r_known r = []"
    using run_dispatched_known by (fastforce elim: run_all_cases)
  have "\<not> is_failure r \<or> (\<exists>n \<in> set known. k_key n = r_key r \<and> k_status n = r_status r)" if r: "r \<in> set ?rs" for r
  proof (cases "finish_results known ?rs = ?rs")
    case True
    with res r have "\<not> unexpected r" by (auto simp: exit_code_def split: if_splits)
    with unmarked r show ?thesis by (simp add: unexpected_def)
  next
    case False
    then have "finish_results known ?rs = map (mark known) ?rs @ concat (map (stale_of ?rs) known)"
      by (auto simp: finish_results_def apply_known_failures_eq [OF dr dk] split: if_splits)
    with res r have "\<not> unexpected (mark known r)" by (auto simp: exit_code_def split: if_splits)
    with unmarked r show ?thesis by (intro mark_not_unexpected) auto
  qed
  with run_all_in show ?thesis using k s se(2)
    by (intro exI [of _ known] exI [of _ engines] exI [of _ entities] exI [of _ suite_dir] exI [of _ cases])
      (fastforce simp: Let_def run_dispatched_key)
qed

definition sample_main :: "main_host" where
  \<comment> \<open>every process rejects its input\<close>
  "sample_main = \<lparr>mh_host = sample_host, mh_resolve = (\<lambda>x. x), mh_is_file = (\<lambda>_. True),
     mh_known_rows = (\<lambda>_. Inr [read_row [''own'', ''t2'', ''failed'', ''gap'']]),
     mh_suite = Inr [''suite''], mh_catalog = Inr sample_tree, mh_workdir = Inr (),
     mh_process = (\<lambda>_ _ _. Completed 1 (marker @ ''REJECT'' @ [newline]) []), mh_elapsed = (\<lambda>_ _. 0),
     mh_timeout_text = ''10''\<rparr>"

definition sample_args :: "bool \<Rightarrow> main_args" where
  "sample_args all_cases = \<lparr>a_engines = [''own=own.exe''], a_entity_engines = (if all_cases then [''own=dll.exe''] else []),
     a_all_cases = all_cases, a_known_failures = (if all_cases then Some ''known.tsv'' else None)\<rparr>"

lemma sample_main_0: "map_sum id snd (main sample_main (sample_args True)) = Inr 0"
  by code_simp

theorem main_exit_zero_witness:
  "\<exists>engines entities suite_dir cases.
     setup_run sample_main (sample_args True) = Inr (engines, entities, suite_dir, cases) \<and> length engines = 1"
proof -
  from sample_main_0 obtain results where "main sample_main (sample_args True) = Inr (results, 0)"
    by (cases "main sample_main (sample_args True)") (auto simp: prod_eq_iff)
  from main_exit_zero [OF this] show ?thesis by (auto simp: sample_args_def)
qed

text \<open>
  A case is skipped exactly when the catalog excludes it and \<open>--all-cases\<close> is off; with
  \<open>--all-cases\<close> an excluded case is executed and judged by the verdict of its lane.
\<close>

theorem run_all_lanes:
  assumes "setup_run h args = Inr (engines, entities, suite_dir, cases)"
    and "r \<in> set (run_all h (a_all_cases args) suite_dir entities engines cases)"
  shows "\<exists>c \<in> set cases. r_case_id r = c_id c
     \<and> (r_status r = ''skipped'' \<longleftrightarrow> c_skip_reason c \<noteq> [] \<and> \<not> a_all_cases args)
     \<and> r_lane r = c_lane c
     \<and> r_expected r = (if a_all_cases args \<and> c_skip_reason c \<noteq> [] then c_lane_expected c else c_expected c)"
proof -
  from assms(2) obtain e x i c where c: "(e, x) \<in> set engines" "c \<in> set cases"
    "r = run_dispatched h (a_all_cases args) suite_dir entities e x i c" by (rule run_all_cases)
  have "r_expected r = (if a_all_cases args \<and> c_skip_reason c \<noteq> [] then c_lane_expected c else c_expected c)"
    "r_lane r = c_lane c" "r_case_id r = c_id c"
    unfolding c(3) run_dispatched_def Let_def using run_case_frame(2,4,6) [OF prod.collapse [symmetric]] by auto
  moreover have "r_status r = ''skipped'' \<longleftrightarrow> c_skip_reason c \<noteq> [] \<and> \<not> a_all_cases args"
    unfolding c(3) run_dispatched_skipped by blast
  ultimately show ?thesis using c(2) by blast
qed

lemma sample_setup: "setup_run sample_main (sample_args True)
    = Inr ([(''own'', ''own.exe'')], [(''own'', ''dll.exe'')], [''suite''], sample_cases)"
  by code_simp

definition sample_lane_result :: result where
  \<comment> \<open>the second sample case, excluded from the profile, in its lane\<close>
  "sample_lane_result = run_dispatched sample_main True [''suite''] [(''own'', ''dll.exe'')] ''own'' ''own.exe''
     (Suc 1) (sample_cases ! 1)"

lemma sample_lane_in: "sample_lane_result \<in> set (run_all sample_main (a_all_cases (sample_args True)) [''suite'']
    [(''own'', ''dll.exe'')] [(''own'', ''own.exe'')] sample_cases)"
  using run_all_in [of "''own''" "''own.exe''" "[(''own'', ''own.exe'')]" 1 sample_cases]
  by (simp add: sample_lane_result_def sample_args_def sample_cases_def)

theorem run_all_lanes_witness: "r_status sample_lane_result \<noteq> ''skipped'' \<and> a_all_cases (sample_args True)"
  using run_all_lanes [OF sample_setup sample_lane_in] by (auto simp: sample_args_def)

end
