(* ===== verification/Py_Value.thy ===== *)
theory Py_Value
  imports Py_Prelude Complex_Main
begin

text \<open>
  JSON values as the scripts handle them after \<open>json.loads\<close>: the dynamically typed values, the
  exceptions that indexing and \<open>.get\<close> raise on values of the wrong shape, and Python's equality,
  under which \<open>True == 1\<close> and \<open>1 == 1.0\<close>. Floats are the rational they denote, or one of
  the three values that are not finite.
\<close>

datatype fl = Fin rat | PInf | NInf | NaN

datatype json =
    JNull
  | JBool bool
  | JInt int
  | JFloat fl
  | JStr string
  | JList "json list"
  | JObj "(string \<times> json) list"

fun num_of :: "json \<Rightarrow> fl option" where
  "num_of (JBool b) = Some (Fin (of_bool b))"
| "num_of (JInt i) = Some (Fin (of_int i))"
| "num_of (JFloat f) = Some f"
| "num_of _ = None"

definition fl_eq :: "fl \<Rightarrow> fl \<Rightarrow> bool" where
  "fl_eq a b = (a = b \<and> a \<noteq> NaN)"

definition obj_lookup :: "(string \<times> json) list \<Rightarrow> string \<Rightarrow> json option" where
  "obj_lookup m k = map_of m k"

text \<open>\<open>a == b\<close>, on scalars and strings; the scripts compare nothing else of a report.\<close>

fun py_eq :: "json \<Rightarrow> json \<Rightarrow> bool" where
  "py_eq (JStr a) (JStr b) = (a = b)"
| "py_eq JNull JNull = True"
| "py_eq a b = (case (num_of a, num_of b) of (Some x, Some y) \<Rightarrow> fl_eq x y | _ \<Rightarrow> a = b)"

lemma py_eq_str [simp]: "py_eq v (JStr s) = (v = JStr s)"
  by (cases v) auto

lemma py_eq_bool_True: "py_eq (JInt 1) (JBool True)"
  by (simp add: fl_eq_def)

definition j_item :: "json \<Rightarrow> string \<Rightarrow> json py" where
  \<comment> \<open>\<open>v[k]\<close> with a string key\<close>
  "j_item v k = (case v of
      JObj m \<Rightarrow> (case obj_lookup m k of None \<Rightarrow> Inl (KeyError k) | Some w \<Rightarrow> Inr w)
    | _ \<Rightarrow> Inl TypeError)"

definition j_getd :: "json \<Rightarrow> string \<Rightarrow> json \<Rightarrow> json py" where
  \<comment> \<open>\<open>v.get(k, d)\<close>\<close>
  "j_getd v k d = (case v of
      JObj m \<Rightarrow> Inr (case obj_lookup m k of None \<Rightarrow> d | Some w \<Rightarrow> w)
    | _ \<Rightarrow> Inl AttributeError)"

abbreviation j_get :: "json \<Rightarrow> string \<Rightarrow> json py" where
  "j_get v k \<equiv> j_getd v k JNull"

definition j_iter :: "json \<Rightarrow> json list py" where
  \<comment> \<open>\<open>for x in v\<close>\<close>
  "j_iter v = (case v of
      JList xs \<Rightarrow> Inr xs
    | JObj m \<Rightarrow> Inr (map (JStr \<circ> fst) m)
    | JStr s \<Rightarrow> Inr (map (\<lambda>c. JStr [c]) s)
    | _ \<Rightarrow> Inl TypeError)"

definition j_len :: "json \<Rightarrow> nat py" where
  "j_len v = bindE (j_iter v) (\<lambda>xs. Inr (length xs))"

definition j_items :: "json \<Rightarrow> (string \<times> json) list py" where
  "j_items v = (case v of JObj m \<Rightarrow> Inr m | _ \<Rightarrow> Inl AttributeError)"

definition truthy :: "json \<Rightarrow> bool" where
  "truthy v = (case v of JNull \<Rightarrow> False | JBool b \<Rightarrow> b | JInt i \<Rightarrow> i \<noteq> 0
     | JFloat f \<Rightarrow> f \<noteq> Fin 0 | JStr s \<Rightarrow> s \<noteq> [] | JList xs \<Rightarrow> xs \<noteq> [] | JObj m \<Rightarrow> m \<noteq> [])"

definition j_str :: "json \<Rightarrow> string py" where
  \<comment> \<open>use as a \<open>str\<close> where the library raises \<open>TypeError\<close> on anything else\<close>
  "j_str v = (case v of JStr s \<Rightarrow> Inr s | _ \<Rightarrow> Inl TypeError)"

definition j_hex :: "nat \<Rightarrow> json \<Rightarrow> bool py" where
  "j_hex n v = bindE (j_str v) (\<lambda>s. Inr (is_hex n s))"

definition item_ne :: "json \<Rightarrow> string \<Rightarrow> string \<Rightarrow> bool py" where
  \<comment> \<open>\<open>v[k] != s\<close>\<close>
  "item_ne v k s = bindE (j_item v k) (\<lambda>w. Inr (\<not> py_eq w (JStr s)))"

definition get_ne :: "json \<Rightarrow> string \<Rightarrow> string \<Rightarrow> bool py" where
  \<comment> \<open>\<open>v.get(k) != s\<close>\<close>
  "get_ne v k s = bindE (j_get v k) (\<lambda>w. Inr (\<not> py_eq w (JStr s)))"

definition get_is_not :: "json \<Rightarrow> string \<Rightarrow> bool \<Rightarrow> bool py" where
  \<comment> \<open>\<open>v.get(k) is not b\<close>\<close>
  "get_is_not v k b = bindE (j_get v k) (\<lambda>w. Inr (w \<noteq> JBool b))"

definition item_is_not :: "json \<Rightarrow> string \<Rightarrow> bool \<Rightarrow> bool py" where
  \<comment> \<open>\<open>v[k] is not b\<close>\<close>
  "item_is_not v k b = bindE (j_item v k) (\<lambda>w. Inr (w \<noteq> JBool b))"

definition hashable :: "json \<Rightarrow> bool" where
  "hashable v = (case v of JList _ \<Rightarrow> False | JObj _ \<Rightarrow> False | _ \<Rightarrow> True)"

definition j_set_is :: "json list \<Rightarrow> string list \<Rightarrow> bool py" where
  \<comment> \<open>\<open>set(xs) == {...}\<close> for a set of strings\<close>
  "j_set_is xs names = (if \<forall>x \<in> set xs. hashable x then Inr (set xs = JStr ` set names) else Inl TypeError)"

definition path_item :: "json \<Rightarrow> string list \<Rightarrow> json py" where
  \<comment> \<open>\<open>v[k1][k2]...\<close>\<close>
  "path_item v ks = foldl (\<lambda>m k. bindE m (\<lambda>w. j_item w k)) (Inr v) ks"

section \<open>Texts of values\<close>

text \<open>\<open>fr\<close> is \<open>repr\<close> of a float; it only occurs in messages.\<close>

fun py_show :: "(fl \<Rightarrow> string) \<Rightarrow> json \<Rightarrow> string" where
  \<comment> \<open>\<open>repr(v)\<close>\<close>
  "py_show fr JNull = ''None''"
| "py_show fr (JBool b) = (if b then ''True'' else ''False'')"
| "py_show fr (JInt i) = show_int i"
| "py_show fr (JFloat f) = fr f"
| "py_show fr (JStr s) = py_repr s"
| "py_show fr (JList vs) = ''['' @ join '', '' (map (py_show fr) vs) @ '']''"
| "py_show fr (JObj m) = ''{'' @ join '', '' (map (\<lambda>(k, v). py_repr k @ '': '' @ py_show fr v) m) @ ''}''"

definition py_str :: "(fl \<Rightarrow> string) \<Rightarrow> json \<Rightarrow> string" where
  "py_str fr v = (case v of JStr s \<Rightarrow> s | _ \<Rightarrow> py_show fr v)"

section \<open>Field access on values of the right shape\<close>

definition field :: "json \<Rightarrow> string \<Rightarrow> json option" where
  "field v k = (case v of JObj m \<Rightarrow> obj_lookup m k | _ \<Rightarrow> None)"

lemma j_item_Inr_iff [pyE]: "j_item v k = Inr w \<longleftrightarrow> field v k = Some w"
  by (auto simp: j_item_def field_def split: json.splits option.splits)

lemma item_ne_False_iff [pyE]: "item_ne v k s = Inr False \<longleftrightarrow> field v k = Some (JStr s)"
  by (auto simp: item_ne_def pyE)

lemma get_ne_False_iff [pyE]: "get_ne v k s = Inr False \<longleftrightarrow> field v k = Some (JStr s)"
  by (auto simp: get_ne_def j_getd_def field_def bindE_Inr_iff split: json.splits option.splits)

lemma get_is_not_False_iff [pyE]: "get_is_not v k b = Inr False \<longleftrightarrow> field v k = Some (JBool b)"
  by (auto simp: get_is_not_def j_getd_def field_def bindE_Inr_iff split: json.splits option.splits)

lemma item_is_not_False_iff [pyE]: "item_is_not v k b = Inr False \<longleftrightarrow> field v k = Some (JBool b)"
  by (auto simp: item_is_not_def pyE)

lemma j_set_is_True_iff [pyE]: "j_set_is xs names = Inr True \<longleftrightarrow> set xs = JStr ` set names"
  by (auto simp: j_set_is_def hashable_def)

lemma path_item_simps [simp]:
  "path_item v [] = Inr v"
  "path_item v [k] = j_item v k"
  "path_item v [k, l] = bindE (j_item v k) (\<lambda>w. j_item w l)"
  by (simp_all add: path_item_def)

lemma j_item_field: "field v k = Some w \<Longrightarrow> j_item v k = Inr w"
  by (simp add: pyE)

lemma j_str_Inr_iff [pyE]: "j_str v = Inr s \<longleftrightarrow> v = JStr s"
  by (auto simp: j_str_def split: json.splits)

lemma j_hex_True_iff [pyE]: "j_hex n v = Inr True \<longleftrightarrow> (\<exists>s. v = JStr s \<and> is_hex n s)"
  by (auto simp: j_hex_def pyE)

lemma j_item_JObj: "j_item (JObj m) k = (case map_of m k of None \<Rightarrow> Inl (KeyError k) | Some w \<Rightarrow> Inr w)"
  by (simp add: j_item_def obj_lookup_def)

lemma j_getd_JObj: "j_getd (JObj m) k d = Inr (case map_of m k of None \<Rightarrow> d | Some w \<Rightarrow> w)"
  by (simp add: j_getd_def obj_lookup_def)

lemmas dict_simps = j_item_JObj j_getd_JObj

lemma field_JObj [simp]: "field (JObj m) k = map_of m k"
  by (simp add: field_def obj_lookup_def)

end
