(* ===== verification/Py_Number.thy ===== *)
theory Py_Number
  imports Py_Value
begin

text \<open>
  Reading and writing numbers as the scripts do: \<open>int(s)\<close>, \<open>float(s)\<close>, \<open>round(x, n)\<close> and the
  format \<open>:.nf\<close>. A float is the rational it denotes: the conversions are exact, the rounding of
  a value to 53 bits is not modelled.
\<close>

section \<open>Digits\<close>

definition is_digit :: "char \<Rightarrow> bool" where
  "is_digit c = (CHR ''0'' \<le> c \<and> c \<le> CHR ''9'')"

definition digit_value :: "char \<Rightarrow> nat" where
  "digit_value c = of_char c - 48"

definition nat_of_digits :: "string \<Rightarrow> nat" where
  "nat_of_digits s = foldl (\<lambda>n c. 10 * n + digit_value c) 0 s"

definition digit_part :: "string \<Rightarrow> string option" where
  \<comment> \<open>digits, with single underscores between them\<close>
  "digit_part s = (let parts = split_on CHR ''_'' s in
     if \<forall>p \<in> set parts. p \<noteq> [] \<and> (\<forall>c \<in> set p. is_digit c) then Some (concat parts) else None)"

definition split_sign :: "string \<Rightarrow> bool \<times> string" where
  \<comment> \<open>whether there is a minus sign, and the rest\<close>
  "split_sign s = (case s of
      CHR ''-'' # t \<Rightarrow> (True, t) | CHR ''+'' # t \<Rightarrow> (False, t) | _ \<Rightarrow> (False, s))"

definition py_int :: "string \<Rightarrow> int py" where
  \<comment> \<open>\<open>int(s)\<close>\<close>
  "py_int s = (case split_sign (strip s) of (neg, t) \<Rightarrow>
     (case digit_part t of
        None \<Rightarrow> Inl (ValueError (''invalid literal for int() with base 10: '' @ py_repr s))
      | Some d \<Rightarrow> Inr (if neg then - int (nat_of_digits d) else int (nat_of_digits d))))"

section \<open>Floats\<close>

definition lower_char :: "char \<Rightarrow> char" where
  "lower_char c = (if CHR ''A'' \<le> c \<and> c \<le> CHR ''Z'' then char_of (of_char c + 32 :: nat) else c)"

definition lower :: "string \<Rightarrow> string" where
  \<comment> \<open>\<open>s.lower()\<close> for ASCII letters\<close>
  "lower s = map lower_char s"

definition contains :: "string \<Rightarrow> string \<Rightarrow> bool" where
  \<comment> \<open>\<open>needle in s\<close>\<close>
  "contains s needle = list_ex (\<lambda>i. startswith (drop i s) needle) [0..<Suc (length s)]"

definition max_double_bound :: rat where
  \<comment> \<open>a magnitude from here on rounds to infinity\<close>
  "max_double_bound = 2 ^ 1024 - 2 ^ 970"

definition to_double :: "bool \<Rightarrow> rat \<Rightarrow> fl" where
  "to_double neg q = (if q < max_double_bound then Fin (if neg then - q else q)
     else if neg then NInf else PInf)"

definition mantissa :: "string \<Rightarrow> rat option" where
  \<comment> \<open>\<open>digits [. [digits]]\<close> or \<open>. digits\<close>\<close>
  "mantissa s = (case split_on CHR ''.'' s of
      [w] \<Rightarrow> map_option (\<lambda>d. of_nat (nat_of_digits d)) (digit_part w)
    | [w, f] \<Rightarrow>
        if w = [] \<and> f = [] then None
        else (case (if w = [] then Some [] else digit_part w, if f = [] then Some [] else digit_part f) of
            (Some d, Some e) \<Rightarrow> Some (of_nat (nat_of_digits (d @ e)) / 10 ^ length e)
          | _ \<Rightarrow> None)
    | _ \<Rightarrow> None)"

definition exponent :: "string \<Rightarrow> rat option" where
  "exponent s = (case split_sign s of (neg, t) \<Rightarrow>
     map_option (\<lambda>d. if neg then 1 / 10 ^ nat_of_digits d else 10 ^ nat_of_digits d) (digit_part t))"

definition py_float :: "string \<Rightarrow> fl py" where
  \<comment> \<open>\<open>float(s)\<close>\<close>
  "py_float s = (case split_sign (strip s) of (neg, t) \<Rightarrow>
     (let u = map lower_char t;
          bad = Inl (ValueError (''could not convert string to float: '' @ py_repr s)) in
      if u = ''inf'' \<or> u = ''infinity'' then Inr (if neg then NInf else PInf)
      else if u = ''nan'' then Inr NaN
      else case split_on CHR ''e'' u of
          [m] \<Rightarrow> (case mantissa m of None \<Rightarrow> bad | Some q \<Rightarrow> Inr (to_double neg q))
        | [m, e] \<Rightarrow> (case (mantissa m, exponent e) of
              (Some q, Some x) \<Rightarrow> Inr (to_double neg (q * x)) | _ \<Rightarrow> bad)
        | _ \<Rightarrow> bad))"

definition is_finite :: "fl \<Rightarrow> bool" where
  "is_finite x = (case x of Fin _ \<Rightarrow> True | _ \<Rightarrow> False)"

fun fl_less :: "fl \<Rightarrow> fl \<Rightarrow> bool" where
  \<comment> \<open>\<open>a < b\<close>\<close>
  "fl_less (Fin a) (Fin b) = (a < b)"
| "fl_less NInf b = (b \<noteq> NInf \<and> b \<noteq> NaN)"
| "fl_less a PInf = (a \<noteq> PInf \<and> a \<noteq> NaN)"
| "fl_less _ _ = False"

definition half_even :: "rat \<Rightarrow> int" where
  "half_even q = (let f = \<lfloor>q\<rfloor>; r = q - of_int f in
     if r < 1 / 2 then f else if r > 1 / 2 then f + 1 else if even f then f else f + 1)"

definition py_round :: "nat \<Rightarrow> rat \<Rightarrow> rat" where
  \<comment> \<open>\<open>round(x, n)\<close>\<close>
  "py_round n q = of_int (half_even (q * 10 ^ n)) / 10 ^ n"

definition median :: "rat list \<Rightarrow> rat" where
  \<comment> \<open>\<open>statistics.median\<close> of a nonempty sequence\<close>
  "median xs = (let ys = sort xs; n = length ys in
     if odd n then ys ! (n div 2) else (ys ! (n div 2 - 1) + ys ! (n div 2)) / 2)"

definition isclose :: "rat \<Rightarrow> rat \<Rightarrow> rat \<Rightarrow> bool" where
  \<comment> \<open>\<open>math.isclose(a, b, rel_tol=t)\<close>\<close>
  "isclose t a b = (\<bar>a - b\<bar> \<le> t * max \<bar>a\<bar> \<bar>b\<bar>)"

definition pad :: "nat \<Rightarrow> string \<Rightarrow> string" where
  "pad n s = replicate (n - length s) CHR ''0'' @ s"

definition fixed :: "nat \<Rightarrow> rat \<Rightarrow> string" where
  \<comment> \<open>\<open>f"{x:.nf}"\<close> for \<open>n > 0\<close>\<close>
  "fixed n q = (let m = nat (half_even (\<bar>q\<bar> * 10 ^ n)) in
     (if q < 0 then ''-'' else []) @ digits_of (m div 10 ^ n) @ ''.'' @ pad n (digits_of (m mod 10 ^ n)))"

section \<open>What is written is read back\<close>

lemma digit_char: "d < 10 \<Longrightarrow> is_digit (char_of (48 + d :: nat)) \<and> digit_value (char_of (48 + d :: nat)) = d"
proof -
  assume "d < 10"
  then have "d \<in> set [0, 1, 2, 3, 4, 5, 6, 7, 8, 9]" by auto
  moreover have "\<forall>d \<in> set [0, 1, 2, 3, 4, 5, 6, 7, 8, 9]. is_digit (char_of (48 + d :: nat)) \<and> digit_value (char_of (48 + d :: nat)) = d"
    by code_simp
  ultimately show ?thesis by blast
qed

lemma nat_of_digits_snoc: "nat_of_digits (s @ [c]) = 10 * nat_of_digits s + digit_value c"
  by (simp add: nat_of_digits_def)

lemma digits_of_digits: "c \<in> set (digits_of n) \<Longrightarrow> is_digit c"
proof (induction n rule: digits_of.induct)
  case (1 n)
  then show ?case
    by (subst (asm) digits_of.simps) (auto simp: digit_char split: if_splits)
qed

lemma nat_of_digits_of [simp]: "nat_of_digits (digits_of n) = n"
proof (induction n rule: digits_of.induct)
  case (1 n)
  then show ?case
    using digit_char [of n] digit_char [of "n mod 10"]
    by (subst digits_of.simps) (auto simp: nat_of_digits_snoc nat_of_digits_def [of "[_]"])
qed

lemma digits_of_nonempty [simp]: "digits_of n \<noteq> []"
  by (subst digits_of.simps) simp

lemma digits_of_length: "n < 10 ^ Suc k \<Longrightarrow> length (digits_of n) \<le> Suc k"
proof (induction k arbitrary: n)
  case (Suc k)
  have "n div 10 < 10 ^ Suc k" using Suc.prems by auto
  from Suc.IH [OF this] show ?case by (subst digits_of.simps) simp
qed (subst digits_of.simps, simp)

definition digits :: "string \<Rightarrow> bool" where
  "digits s \<longleftrightarrow> (\<forall>c \<in> set s. is_digit c)"

lemma digits_simps [simp]: "digits []" "digits (c # s) \<longleftrightarrow> is_digit c \<and> digits s"
  "digits (s @ t) \<longleftrightarrow> digits s \<and> digits t" "digits (digits_of n)"
  by (auto simp: digits_def dest: digits_of_digits)

lemma is_digit_range: "is_digit c \<longleftrightarrow> 48 \<le> (of_char c :: nat) \<and> (of_char c :: nat) \<le> 57"
  by (simp add: is_digit_def less_eq_char_def)

lemma is_digit_char:
  assumes "is_digit c"
  shows "\<not> is_space c" "lower_char c = c" "c \<noteq> CHR ''_''" "c \<noteq> CHR ''.''" "c \<noteq> CHR ''e''" "c \<noteq> CHR ''-''"
    "c \<noteq> CHR ''+''" "c \<noteq> CHR ''i''" "c \<noteq> CHR ''n''"
  using assms by (auto simp: is_digit_range is_space_def lower_char_def Let_def less_eq_char_def)

lemma digits_free:
  assumes "digits s"
  shows "CHR ''_'' \<notin> set s" "CHR ''.'' \<notin> set s" "CHR ''e'' \<notin> set s" "map lower_char s = s"
    "\<forall>c \<in> set s. \<not> is_space c"
proof -
  have all: "\<And>c. c \<in> set s \<Longrightarrow> is_digit c" using assms by (simp add: digits_def)
  show "CHR ''_'' \<notin> set s" "CHR ''.'' \<notin> set s" "CHR ''e'' \<notin> set s" "\<forall>c \<in> set s. \<not> is_space c"
    using is_digit_char(1,3,4,5) all by blast+
  show "map lower_char s = s" using is_digit_char(2) all by (simp add: map_idI)
qed

lemma digit_part_digits [simp]: "digits s \<Longrightarrow> s \<noteq> [] \<Longrightarrow> digit_part s = Some s"
  by (simp add: digit_part_def split_on_free digits_free) (simp add: digits_def)

lemma dropWhile_none: "\<forall>c \<in> set s. \<not> p c \<Longrightarrow> dropWhile p s = s"
  by (cases s) auto

lemma strip_id: "\<forall>c \<in> set s. \<not> is_space c \<Longrightarrow> strip s = s"
  by (simp add: strip_def dropWhile_none)

lemma split_sign_digit: "is_digit c \<Longrightarrow> split_sign (c # s) = (False, c # s)"
proof -
  assume "is_digit c"
  then have "c \<noteq> CHR ''-''" "c \<noteq> CHR ''+''" using is_digit_char by blast+
  moreover have "c \<noteq> CHR ''-'' \<Longrightarrow> c \<noteq> CHR ''+'' \<Longrightarrow> split_sign (c # s) = (False, c # s)"
    by (simp add: split_sign_def split: char.split bool.split)
  ultimately show ?thesis by blast
qed

lemma py_int_digits_of [simp]: "py_int (digits_of n) = Inr (int n)"
proof -
  obtain c s where d: "digits_of n = c # s" by (cases "digits_of n") auto
  have "digits (c # s)" using d digits_simps(4) [of n] by simp
  then have "split_sign (digits_of n) = (False, digits_of n)" "strip (digits_of n) = digits_of n"
    using digits_free(5) [OF \<open>digits (c # s)\<close>] unfolding d by (simp_all add: split_sign_digit strip_id)
  then show ?thesis by (simp add: py_int_def)
qed

lemma py_int_show_int [simp]: "py_int (show_int (int n)) = Inr (int n)"
  by (simp add: show_int_def)

lemma nat_of_digits_zeros [simp]: "nat_of_digits (replicate k CHR ''0'' @ s) = nat_of_digits s"
  by (induction k) (simp_all add: nat_of_digits_def digit_value_def)

lemma digits_pad [simp]: "digits s \<Longrightarrow> digits (pad n s)"
  by (auto simp: pad_def digits_def is_digit_def)

lemma pad_length: "length s \<le> n \<Longrightarrow> length (pad n s) = n"
  by (simp add: pad_def)

lemma nat_of_digits_append: "nat_of_digits (s @ t) = nat_of_digits s * 10 ^ length t + nat_of_digits t"
proof (induction t rule: rev_induct)
  case (snoc c t)
  have "nat_of_digits (s @ t @ [c]) = 10 * nat_of_digits (s @ t) + digit_value c"
    using nat_of_digits_snoc [of "s @ t" c] by simp
  with snoc show ?case by (simp add: nat_of_digits_snoc algebra_simps)
qed (simp add: nat_of_digits_def)

lemma mantissa_fixed:
  assumes "digits w" "w \<noteq> []" "digits f" "f \<noteq> []"
  shows "mantissa (w @ ''.'' @ f) = Some (of_nat (nat_of_digits (w @ f)) / 10 ^ length f)"
proof -
  have "split_on CHR ''.'' (w @ ''.'' @ f) = [w, f]"
    using split_on_append [of "CHR ''.''" w f] by (simp add: digits_free assms split_on_free)
  then show ?thesis using assms by (simp add: mantissa_def)
qed

lemma py_float_decimal:
  assumes "digits w" "w \<noteq> []" "digits f" "f \<noteq> []"
  shows "py_float (w @ ''.'' @ f) = Inr (to_double False (of_nat (nat_of_digits (w @ f)) / 10 ^ length f))"
proof -
  let ?s = "w @ ''.'' @ f"
  obtain c v where w: "w = c # v" using assms(2) by (cases w) auto
  have c: "is_digit c" using assms(1) w by simp
  have "strip ?s = ?s"
    by (rule strip_id) (use digits_free(5) [OF assms(1)] digits_free(5) [OF assms(3)] in \<open>auto simp: is_space_def\<close>)
  moreover have "split_sign ?s = (False, ?s)" using split_sign_digit [OF c] w by simp
  moreover have lower: "map lower_char ?s = ?s"
    by (simp add: digits_free assms) (simp add: lower_char_def less_eq_char_def)
  moreover have "?s \<noteq> ''inf'' \<and> ?s \<noteq> ''infinity'' \<and> ?s \<noteq> ''nan''" using is_digit_char [OF c] w by auto
  moreover have "split_on CHR ''e'' ?s = [?s]"
    by (rule split_on_free) (use digits_free(3) assms in auto)
  ultimately show ?thesis
    using mantissa_fixed [OF assms] unfolding py_float_def by simp
qed

lemma half_even_nonneg: "0 \<le> q \<Longrightarrow> 0 \<le> half_even q"
  by (auto simp: half_even_def Let_def)

text \<open>A nonnegative number written with a fixed number of decimals reads back as the rounded number.\<close>

lemma py_float_fixed:
  assumes "0 \<le> q" and "0 < n"
  shows "py_float (fixed n q) = Inr (to_double False (py_round n q))"
proof -
  let ?m = "nat (half_even (q * 10 ^ n))" and ?b = "10 ^ n :: nat"
  let ?w = "digits_of (?m div ?b)" and ?f = "pad n (digits_of (?m mod ?b))"
  obtain k where n: "n = Suc k" using assms(2) by (cases n) auto
  have len: "length ?f = n"
    unfolding n by (rule pad_length, rule digits_of_length) simp
  have "?f \<noteq> []" using len assms(2) by auto
  then have "py_float (?w @ ''.'' @ ?f) = Inr (to_double False (of_nat (nat_of_digits (?w @ ?f)) / 10 ^ length ?f))"
    by (intro py_float_decimal) simp_all
  moreover have "nat_of_digits (?w @ ?f) = ?m"
  proof -
    have "nat_of_digits ?f = ?m mod ?b" by (simp add: pad_def)
    then show ?thesis by (simp only: nat_of_digits_append len nat_of_digits_of div_mult_mod_eq)
  qed
  moreover have "of_nat ?m = (of_int (half_even (q * 10 ^ n)) :: rat)"
    using half_even_nonneg [of "q * 10 ^ n"] assms(1) by simp
  moreover have "fixed n q = ?w @ ''.'' @ ?f" using assms(1) by (simp add: fixed_def Let_def)
  ultimately show ?thesis using len by (simp add: py_round_def)
qed

lemma py_round_nonneg: "0 \<le> q \<Longrightarrow> 0 \<le> py_round n q"
  by (simp add: py_round_def half_even_nonneg)

end
