(* ===== verification/W3C_Report.thy ===== *)
theory W3C_Report
  imports W3C_Known Py_Number
begin

text \<open>
  The reports of \<open>scripts/run_w3c_conformance.py\<close>: the JUnit suites (\<open>add_junit_suite\<close>), the
  engine summaries, the rows of \<open>results.tsv\<close>, the adjustments and the lines of
  \<open>summary.md\<close> (\<open>write_reports\<close>). An XML element is the \<open>element\<close> of the catalog
  theory. Times are exact rationals (see \<open>Py_Number\<close>).
\<close>

section \<open>JUnit\<close>

definition xml_char :: "char \<Rightarrow> char" where
  "xml_char c = (let n = of_char c :: nat in if n = 9 \<or> n = 10 \<or> n = 13 \<or> 32 \<le> n then c else CHR ''?'')"

definition xml_text :: "string \<Rightarrow> string" where
  "xml_text s = map xml_char s"

definition property_element :: "string \<Rightarrow> string \<Rightarrow> element" where
  "property_element name content = Element ''property'' [(''name'', name), (''value'', content)] None None []"

definition status_tag :: "string \<Rightarrow> string option" where
  "status_tag = map_of [(''failed'', ''failure''), (''error'', ''error''), (''skipped'', ''skipped'')]"

definition detail_element :: "result \<Rightarrow> element list" where
  \<comment> \<open>the child that reports a failure, an error or a skip\<close>
  "detail_element r = (case status_tag (r_status r) of
      None \<Rightarrow> []
    | Some t \<Rightarrow>
        let text = (if r_known r \<noteq> [] then ''[known: '' @ r_known r @ ''] '' @ r_message r else r_message r) in
        [Element t [(''message'', xml_text (if text \<noteq> [] then hd (splitlines text) else r_status r))]
          (Some (xml_text text)) None []])"

definition adjustment_element :: "result \<Rightarrow> element list" where
  "adjustment_element r =
     (if r_expectation_adjustment r = [] then []
      else [Element ''properties'' [] None None
        [property_element ''catalog_expected'' (xml_text (r_catalog_expected r)),
         property_element ''profile_expected'' (xml_text (r_expected r)),
         property_element ''expectation_adjustment'' (xml_text (r_expectation_adjustment r))]])"

definition class_name :: "result \<Rightarrow> string" where
  "class_name r = ''w3c.xml.'' @ r_engine r @ (if r_lane r = ''core'' then [] else ''.'' @ r_lane r)"

definition testcase_element :: "result \<Rightarrow> element" where
  "testcase_element r = Element ''testcase''
     [(''classname'', class_name r), (''name'', r_case_id r),
      (''time'', fixed 6 (r_elapsed_ms r / 1000)), (''file'', r_path r)]
     None None (adjustment_element r @ detail_element r)"

definition status_count :: "string \<Rightarrow> result list \<Rightarrow> nat" where
  \<comment> \<open>\<open>Counter(row.status for row in rows)[status]\<close>\<close>
  "status_count status rows = count_if (\<lambda>r. r_status r = status) rows"

definition elapsed_sum :: "result list \<Rightarrow> rat" where
  "elapsed_sum rows = py_round 3 (sum_list (map r_elapsed_ms rows))"

definition show_nat :: "nat \<Rightarrow> string" where
  "show_nat n = show_int (int n)"

definition add_junit_suite :: "string \<Rightarrow> result list \<Rightarrow> string \<Rightarrow> element" where
  \<comment> \<open>the \<open>testsuite\<close> element that is added\<close>
  "add_junit_suite name rows profile = Element ''testsuite''
     [(''name'', name), (''tests'', show_nat (length rows)),
      (''failures'', show_nat (status_count ''failed'' rows)), (''errors'', show_nat (status_count ''error'' rows)),
      (''skipped'', show_nat (status_count ''skipped'' rows)), (''time'', fixed 6 (elapsed_sum rows / 1000))]
     None None
     (Element ''properties'' [] None None [property_element ''profile'' profile] # map testcase_element rows)"

section \<open>Summaries\<close>

record report_totals =
  m_engine :: string
  m_total :: nat
  m_passed :: int
  m_no_crash_only :: nat
  m_failed :: nat
  m_errors :: nat
  m_skipped :: nat
  m_accepted :: nat
  m_rejected :: nat
  m_known :: nat
  m_unexpected :: nat
  m_elapsed_ms :: rat

definition rows_of :: "string \<Rightarrow> result list \<Rightarrow> result list" where
  "rows_of engine results = filter (\<lambda>r. r_engine r = engine) results"

definition report_summary :: "result list \<Rightarrow> string \<Rightarrow> report_totals" where
  "report_summary results engine =
     (let rows = rows_of engine results; robust = count_if no_crash_only rows in
      \<lparr>m_engine = engine, m_total = length rows,
       m_passed = int (status_count ''passed'' rows) - int robust, m_no_crash_only = robust,
       m_failed = status_count ''failed'' rows, m_errors = status_count ''error'' rows,
       m_skipped = status_count ''skipped'' rows,
       m_accepted = count_if (\<lambda>r. r_actual r = ''ACCEPT'') rows,
       m_rejected = count_if (\<lambda>r. r_actual r = ''REJECT'') rows,
       m_known = count_if (\<lambda>r. r_known r \<noteq> []) rows, m_unexpected = count_if unexpected rows,
       m_elapsed_ms = elapsed_sum rows\<rparr>)"

definition PROFILE :: string where
  "PROFILE = ''XML 1.0 fifth edition; namespaces unless NAMESPACE=no; nonvalidating; '' @
     ''external-resource cases included; local suite root supplied to each engine; binary verdicts only''"

definition engine_suites :: "result list \<Rightarrow> string \<Rightarrow> element list" where
  "engine_suites results engine =
     (let rows = rows_of engine results; any_rows = filter (\<lambda>r. r_expected r = ''ANY'') rows in
      add_junit_suite (''w3c-xml-'' @ engine) (filter (\<lambda>r. r_expected r \<noteq> ''ANY'') rows) PROFILE
      # (if any_rows = [] then []
         else [add_junit_suite (''w3c-xml-'' @ engine @ ''-no-crash-only'') any_rows
           ''either verdict is allowed; only a crash, timeout or missing verdict fails'']))"

definition engines_of :: "result list \<Rightarrow> string list" where
  \<comment> \<open>\<open>dict.fromkeys(row.engine for row in results)\<close>\<close>
  "engines_of results = fromkeys (map r_engine results)"

definition junit_document :: "result list \<Rightarrow> element" where
  "junit_document results = Element ''testsuites'' [] None None
     (concat (map (engine_suites results) (engines_of results)))"

definition nul_free :: "string \<Rightarrow> string" where
  "nul_free s = map (\<lambda>c. if c = CHR 0x00 then CHR ''?'' else c) s"

definition tsv_row :: "result \<Rightarrow> result" where
  "tsv_row r = r\<lparr>r_engine := nul_free (r_engine r), r_case_id := nul_free (r_case_id r), r_path := nul_free (r_path r),
     r_kind := nul_free (r_kind r), r_expected := nul_free (r_expected r), r_actual := nul_free (r_actual r),
     r_status := nul_free (r_status r), r_message := nul_free (r_message r), r_known := nul_free (r_known r),
     r_lane := nul_free (r_lane r), r_catalog_expected := nul_free (r_catalog_expected r),
     r_expectation_adjustment := nul_free (r_expectation_adjustment r)\<rparr>"

definition adjustment_rows :: "result list \<Rightarrow> (string \<times> string \<times> string \<times> string) list" where
  \<comment> \<open>the dictionary by case identifier: the first position and the last value of every key\<close>
  "adjustment_rows results =
     (let rows = filter (\<lambda>r. r_expectation_adjustment r \<noteq> []) results;
          last_of = map_of (rev (map (\<lambda>r. (r_case_id r, r)) rows)) in
      map (\<lambda>i. (case last_of i of
          Some r \<Rightarrow> (i, r_catalog_expected r, r_expected r, r_expectation_adjustment r)
        | None \<Rightarrow> (i, [], [], []))) (fromkeys (map r_case_id rows)))"

record w3c_report =
  rp_engines :: "report_totals list"
  rp_adjustments :: "(string \<times> string \<times> string \<times> string) list"
  rp_junit :: element
  rp_results :: "result list"

definition write_reports :: "result list \<Rightarrow> w3c_report" where
  "write_reports results =
     \<lparr>rp_engines = map (report_summary results) (engines_of results),
      rp_adjustments = adjustment_rows results,
      rp_junit = junit_document results, rp_results = map tsv_row results\<rparr>"

end
