(* ===== verification/Lane_Runner.thy ===== *)
theory Lane_Runner
  imports Py_Value
begin

text \<open>
  How a lane runs: it owns a fresh run directory, records its status in \<open>run.json\<close>, writes its
  final reports only at the end, and on any exception removes them again, records \<open>failed\<close> and
  re-raises (\<open>run_lane\<close> and \<open>publish_reports\<close> of \<open>scripts/run_dual_w3c.py\<close> and
  \<open>scripts/run_dual_catalog.py\<close>). A run is the list of what it did to the files that readers
  look at, and its value or exception. Removing a file is taken to succeed.
\<close>

datatype event =
    RunJson string \<comment> \<open>\<open>run.json\<close> now has this status\<close>
  | Report string \<comment> \<open>a final report file now exists\<close>
  | Removed string \<comment> \<open>this report file does not exist any more\<close>
  | Cleared \<comment> \<open>no final report file exists any more\<close>

type_synonym 'a lane = "(event, 'a) act"

section \<open>The files after a run\<close>

fun report_step :: "event \<Rightarrow> string list \<Rightarrow> string list" where
  "report_step (RunJson _) files = files"
| "report_step (Report name) files = files @ [name]"
| "report_step (Removed name) files = filter (\<lambda>f. f \<noteq> name) files"
| "report_step Cleared files = []"

definition reports :: "event list \<Rightarrow> string list" where
  \<comment> \<open>the final reports on disk, in the order they were written\<close>
  "reports evs = fold report_step evs []"

fun status_step :: "event \<Rightarrow> string option \<Rightarrow> string option" where
  "status_step (RunJson s) _ = Some s"
| "status_step _ s = s"

definition run_status :: "event list \<Rightarrow> string option" where
  "run_status evs = fold status_step evs None"

lemma reports_snoc [simp]: "reports (evs @ [ev]) = report_step ev (reports evs)"
  by (simp add: reports_def)

lemma run_status_snoc [simp]: "run_status (evs @ [ev]) = status_step ev (run_status evs)"
  by (simp add: run_status_def)

lemma reports_simps [simp]: "reports [] = []" "reports [ev] = report_step ev []"
  by (simp_all add: reports_def)

lemma run_status_simps [simp]: "run_status [] = None" "run_status [ev] = status_step ev None"
  by (simp_all add: run_status_def)

lemma reports_Cleared [simp]: "reports (evs @ Cleared # evs') = reports evs'"
  by (simp add: reports_def)

definition silent :: "event list \<Rightarrow> bool" where
  \<comment> \<open>no final report is written\<close>
  "silent evs \<longleftrightarrow> (\<forall>ev \<in> set evs. \<exists>s. ev = RunJson s)"

lemma silent_simps [simp]: "silent []" "silent (RunJson s # evs) = silent evs"
  "silent (evs @ evs') \<longleftrightarrow> silent evs \<and> silent evs'"
  by (auto simp: silent_def)

lemma silent_reports: "silent evs \<Longrightarrow> reports (evs @ evs') = reports evs'"
proof -
  have "silent evs \<Longrightarrow> fold report_step evs fs = fs" for fs
    by (induction evs) (auto simp: silent_def)
  then show "silent evs \<Longrightarrow> reports (evs @ evs') = reports evs'"
    by (simp add: reports_def)
qed

section \<open>Steps\<close>

definition write_run :: "(string \<Rightarrow> unit py) \<Rightarrow> string \<Rightarrow> unit lane" where
  \<comment> \<open>\<open>write_json_atomic(run_root / "run.json", state)\<close>: the old file stays when it raises\<close>
  "write_run write status = bindA (pureA (write status)) (\<lambda>_. emitA (RunJson status))"

definition write_atomic :: "(string \<Rightarrow> unit py) \<Rightarrow> string \<Rightarrow> unit lane" where
  \<comment> \<open>a temporary file that replaces the report once it is complete\<close>
  "write_atomic write name = bindA (pureA (write name)) (\<lambda>_. emitA (Report name))"

definition write_text :: "(string \<Rightarrow> unit py) \<Rightarrow> string \<Rightarrow> unit lane" where
  \<comment> \<open>a file that exists as soon as it is opened, whether or not the write completes\<close>
  "write_text write name = bindA (emitA (Report name)) (\<lambda>_. pureA (write name))"

fun seqA :: "unit lane list \<Rightarrow> unit lane" where
  "seqA [] = pureA (Inr ())"
| "seqA (m # ms) = bindA m (\<lambda>_. seqA ms)"

definition or_clear :: "'a lane \<Rightarrow> 'a lane" where
  \<comment> \<open>\<open>except BaseException: clear_reports(run_root); raise\<close>\<close>
  "or_clear m = (case m of
      (evs, Inl e) \<Rightarrow> (evs @ [Cleared], Inl e)
    | (evs, Inr x) \<Rightarrow> (evs, Inr x))"

definition guard_lane :: "(string \<Rightarrow> unit py) \<Rightarrow> 'a lane \<Rightarrow> 'a lane" where
  \<comment> \<open>the outer handler: clear the reports, record \<open>failed\<close>, re-raise\<close>
  "guard_lane write m = (case m of
      (evs, Inl e) \<Rightarrow> bindA (evs @ [Cleared], Inr ()) (\<lambda>_. bindA (write_run write ''failed'') (\<lambda>_. pureA (Inl e)))
    | (evs, Inr x) \<Rightarrow> (evs, Inr x))"

lemma write_run_cases:
  "write_run write s = (evs, r) \<Longrightarrow> evs = (if write s = Inr () then [RunJson s] else []) \<and> r = write s"
  by (cases "write s") (auto simp: write_run_def pureA_def emitA_def)

lemma write_atomic_Inr: "write_atomic write n = (evs, Inr u) \<longleftrightarrow> evs = [Report n] \<and> write n = Inr ()"
  by (auto simp: write_atomic_def bindA_Inr_iff)

lemma write_text_Inr: "write_text write n = (evs, Inr u) \<longleftrightarrow> evs = [Report n] \<and> write n = Inr ()"
  by (auto simp: write_text_def bindA_Inr_iff)

lemma write_run_Inr: "write_run write s = (evs, Inr u) \<longleftrightarrow> evs = [RunJson s] \<and> write s = Inr ()"
  by (auto simp: write_run_def bindA_Inr_iff)

lemmas write_Inr = write_atomic_Inr write_text_Inr write_run_Inr

lemma or_clear_Inr: "or_clear m = (evs, Inr x) \<longleftrightarrow> m = (evs, Inr x)"
  by (auto simp: or_clear_def split: prod.splits sum.splits)

lemma or_clear_Inl: "or_clear m = (evs, Inl e) \<Longrightarrow> reports evs = []"
  by (auto simp: or_clear_def split: prod.splits sum.splits)

lemma guard_lane_Inr: "guard_lane write m = (evs, Inr x) \<longleftrightarrow> m = (evs, Inr x)"
  by (cases m; cases "snd m"; cases "write ''failed''")
    (auto simp: guard_lane_def write_run_def pureA_def emitA_def bindA_def)

lemma guard_lane_Inl:
  assumes "guard_lane write m = (evs, Inl e)"
  shows "reports evs = []" "write ''failed'' = Inr () \<Longrightarrow> run_status evs = Some ''failed'' \<and> snd m = Inl e"
proof -
  obtain evs0 e0 where m: "m = (evs0, Inl e0)"
    using assms by (cases m; cases "snd m") (auto simp: guard_lane_def)
  show "reports evs = []"
    using assms by (cases "write ''failed''") (auto simp: m guard_lane_def write_run_def pureA_def emitA_def)
  show "run_status evs = Some ''failed'' \<and> snd m = Inl e" if "write ''failed'' = Inr ()"
  proof -
    have "evs = (evs0 @ [Cleared]) @ [RunJson ''failed'']" "e = e0"
      using assms that by (auto simp: m guard_lane_def write_run_def pureA_def emitA_def)
    then show ?thesis unfolding m by (simp only: run_status_snoc) simp
  qed
qed

section \<open>The contract of a lane\<close>

locale lane_contract =
  fixes run :: "'i \<Rightarrow> 'r lane"
    and status_of :: "'r \<Rightarrow> string"
    and finals :: "'r \<Rightarrow> string list"
  assumes finals_nonempty: "finals r \<noteq> []"
    and raised: "run i = (evs, Inl e) \<Longrightarrow> reports evs = []"
    and returned: "run i = (evs, Inr r) \<Longrightarrow> reports evs = finals r \<and> run_status evs = Some (status_of r)"
begin

lemma outcome:
  "case run i of
     (evs, Inr r) \<Rightarrow> reports evs = finals r \<and> run_status evs = Some (status_of r)
   | (evs, Inl e) \<Rightarrow> reports evs = []"
  using raised [of i] returned [of i] by (cases "run i"; cases "snd (run i)") auto

lemma all_or_nothing: "reports (fst (run i)) = [] \<or> (\<exists>r. snd (run i) = Inr r \<and> reports (fst (run i)) = finals r)"
  using outcome [of i] by (auto split: prod.splits sum.splits)

lemma reports_iff_returned: "reports (fst (run i)) \<noteq> [] \<longleftrightarrow> (\<exists>r. snd (run i) = Inr r)"
  using outcome [of i] finals_nonempty by (auto split: prod.splits sum.splits)

lemma report_has_status:
  assumes "name \<in> set (reports (fst (run i)))"
  shows "\<exists>r. snd (run i) = Inr r \<and> run_status (fst (run i)) = Some (status_of r)"
proof -
  from assms have "reports (fst (run i)) \<noteq> []" by auto
  then obtain r where "snd (run i) = Inr r" unfolding reports_iff_returned by blast
  then show ?thesis using returned [of i "fst (run i)" r] by (simp add: prod_eq_iff)
qed

end

end
