(* ===== verification/Dual_Lane.thy ===== *)
theory Dual_Lane
  imports Py_Value
begin

text \<open>
  What the two dual lanes, \<open>scripts/run_dual_catalog.py\<close> and \<open>scripts/run_dual_w3c.py\<close>,
  share: the build gate (\<open>validate_build\<close>, \<open>verify_artifact\<close>, \<open>verify_sources\<close>) and
  the protocol of the qualification executables (\<open>validate_qualification\<close>). An artifact is
  the JSON value of \<open>build.json\<close>; \<open>sha\<close> hashes a file of the host.
\<close>

definition implementations :: "string list" where
  "implementations = [''xpact'', ''xpact-core'']"

definition GC_POLICIES :: "(string \<times> string) list" where
  "GC_POLICIES = [(''xpact'', ''normal''), (''xpact-core'', ''core-managed-off-full-collect'')]"

definition configuration_name :: "bool \<Rightarrow> string" where
  "configuration_name assertions = ''finalized/assertions-'' @ (if assertions then ''on'' else ''off'') @ ''/msvc-x64''"

section \<open>Builds\<close>

definition build_mismatch :: "string \<Rightarrow> json \<Rightarrow> string \<Rightarrow> bool \<Rightarrow> bool py" where
  "build_mismatch profile artifact implementation assertions =
     anyE [get_ne artifact ''status'' ''verified'',
       get_ne artifact ''profile'' profile,
       get_ne artifact ''implementation'' implementation,
       bindE (py_item (map_of GC_POLICIES) implementation) (\<lambda>p. get_ne artifact ''gc_policy'' p),
       bindE (j_getd artifact ''build'' (JObj [])) (\<lambda>b. get_ne b ''configuration'' (configuration_name assertions)),
       bindE (j_item artifact ''build'') (\<lambda>b. get_ne b ''mode'' ''finalized''),
       bindE (j_item artifact ''build'') (\<lambda>b. get_is_not b ''assertions'' assertions)]"

definition verify_artifact :: "string \<Rightarrow> (string \<Rightarrow> string py) \<Rightarrow> json \<Rightarrow> unit py" where
  "verify_artifact message sha artifact =
     bindE (j_item artifact ''executable'') (\<lambda>e. bindE (j_str e) (\<lambda>file. bindE (sha file) (\<lambda>digest.
     bindE (item_ne artifact ''executable_sha256'' digest) (\<lambda>bad.
     raise_if bad (LaneError message)))))"

definition catalog_verify_artifact :: "(string \<Rightarrow> string py) \<Rightarrow> json \<Rightarrow> unit py" where
  "catalog_verify_artifact = verify_artifact ''Executable changed after its build was verified''"

definition w3c_verify_artifact :: "(string \<Rightarrow> string py) \<Rightarrow> json \<Rightarrow> unit py" where
  "w3c_verify_artifact = verify_artifact ''W3C executable changed after build verification''"

definition catalog_validate_build :: "(string \<Rightarrow> string py) \<Rightarrow> json \<Rightarrow> string \<Rightarrow> bool \<Rightarrow> unit py" where
  "catalog_validate_build sha metadata implementation assertions =
     bindE (build_mismatch ''catalog'' metadata implementation assertions) (\<lambda>bad.
     if bad then Inl (LaneError ''Build manifest does not describe the requested catalog configuration'')
     else catalog_verify_artifact sha metadata)"

definition w3c_validate_build :: "(string \<Rightarrow> string py) \<Rightarrow> json \<Rightarrow> string \<Rightarrow> bool \<Rightarrow> unit py" where
  "w3c_validate_build sha artifact implementation assertions =
     bindE (build_mismatch ''w3c'' artifact implementation assertions) (\<lambda>bad.
     if bad then Inl (LaneError ''W3C build does not match the requested configuration'')
     else w3c_verify_artifact sha artifact)"

definition items_differ :: "json \<Rightarrow> json \<Rightarrow> string \<Rightarrow> bool py" where
  \<comment> \<open>\<open>a[k] != b[k]\<close>\<close>
  "items_differ a b k = bindE (j_item a k) (\<lambda>x. bindE (j_item b k) (\<lambda>y. Inr (\<not> py_eq x y)))"

definition source_differs :: "json \<Rightarrow> json \<Rightarrow> string \<Rightarrow> bool py" where
  "source_differs a b k =
     bindE (j_item a ''source'') (\<lambda>x. bindE (j_item x k) (\<lambda>v.
     bindE (j_item b ''source'') (\<lambda>y. bindE (j_item y k) (\<lambda>w. Inr (\<not> py_eq v w)))))"

definition snapshots_differ :: "json \<Rightarrow> json \<Rightarrow> bool py" where
  "snapshots_differ audit artifact =
     anyE [items_differ audit artifact ''build_inputs_sha256'',
           source_differs audit artifact ''revision'',
           source_differs audit artifact ''source_sha256'']"

definition verify_sources :: "(string \<Rightarrow> string) \<Rightarrow> (string \<Rightarrow> string) \<Rightarrow> (string \<Rightarrow> string py)
    \<Rightarrow> (string \<times> json) list \<Rightarrow> (string \<times> json) list \<Rightarrow> unit py" where
  \<comment> \<open>\<open>fingerprint\<close> is \<open>builds.source_fingerprint(repo_root, _, profile=...)\<close>\<close>
  "verify_sources different changed fingerprint audits artifacts =
     forE (\<lambda>(implementation, artifact).
       bindE (py_item (map_of audits) implementation) (\<lambda>audit.
       bindE (snapshots_differ audit artifact) (\<lambda>bad.
       if bad then Inl (LaneError (different implementation))
       else bindE (fingerprint implementation) (\<lambda>current.
         bindE (item_ne artifact ''build_inputs_sha256'' current) (\<lambda>bad.
         raise_if bad (LaneError (changed implementation))))))) artifacts"

definition catalog_verify_sources :: "(string \<Rightarrow> string py) \<Rightarrow> (string \<times> json) list \<Rightarrow> (string \<times> json) list \<Rightarrow> unit py" where
  "catalog_verify_sources = verify_sources
     (\<lambda>i. ''Audit and benchmark used different source snapshots: '' @ i)
     (\<lambda>i. ''Catalog source inputs changed after building: '' @ i)"

definition w3c_verify_sources :: "(string \<Rightarrow> string py) \<Rightarrow> (string \<times> json) list \<Rightarrow> (string \<times> json) list \<Rightarrow> unit py" where
  "w3c_verify_sources = verify_sources
     (\<lambda>i. ''Audit and primary W3C builds used different source snapshots'')
     (\<lambda>i. ''W3C build inputs changed during the campaign'')"

definition build_matches :: "string \<Rightarrow> json \<Rightarrow> string \<Rightarrow> bool \<Rightarrow> bool" where
  \<comment> \<open>the configuration a gated artifact describes\<close>
  "build_matches profile artifact implementation assertions \<longleftrightarrow>
     field artifact ''status'' = Some (JStr ''verified'')
     \<and> field artifact ''profile'' = Some (JStr profile)
     \<and> field artifact ''implementation'' = Some (JStr implementation)
     \<and> (\<exists>p. map_of GC_POLICIES implementation = Some p \<and> field artifact ''gc_policy'' = Some (JStr p))
     \<and> (\<exists>b. field artifact ''build'' = Some b
          \<and> field b ''configuration'' = Some (JStr (configuration_name assertions))
          \<and> field b ''mode'' = Some (JStr ''finalized'') \<and> field b ''assertions'' = Some (JBool assertions))"

lemma j_getd_obj_Inr: "j_getd v k (JObj []) = Inr b \<Longrightarrow> field v k = Some b \<or> field v k = None \<and> b = JObj []"
  by (auto simp: j_getd_def field_def split: json.splits option.splits)

lemma build_mismatch_False:
  assumes "build_mismatch profile artifact implementation assertions = Inr False"
  shows "build_matches profile artifact implementation assertions"
proof -
  from assms obtain p b b' where
    "field artifact ''status'' = Some (JStr ''verified'')" "field artifact ''profile'' = Some (JStr profile)"
    "field artifact ''implementation'' = Some (JStr implementation)"
    "map_of GC_POLICIES implementation = Some p" "field artifact ''gc_policy'' = Some (JStr p)"
    and b: "field artifact ''build'' = Some b" "field b ''mode'' = Some (JStr ''finalized'')"
    "field b ''assertions'' = Some (JBool assertions)"
    and b': "j_getd artifact ''build'' (JObj []) = Inr b'"
    "field b' ''configuration'' = Some (JStr (configuration_name assertions))"
    unfolding build_mismatch_def by (auto simp: anyE_False_iff pyE)
  moreover have "b' = b" using j_getd_obj_Inr [OF b'(1)] b(1) by auto
  ultimately show ?thesis by (auto simp: build_matches_def)
qed

section \<open>Qualification output\<close>

record control =
  ctl_id :: string
  ctl_status :: string
  ctl_detail :: string

definition identity_line :: "string \<Rightarrow> json \<Rightarrow> string py" where
  "identity_line tag metadata =
     bindE (bindE (j_item metadata ''implementation'') j_str) (\<lambda>implementation.
     bindE (bindE (bindE (j_item metadata ''source'') (\<lambda>s. j_item s ''revision'')) j_str) (\<lambda>revision.
     bindE (bindE (bindE (j_item metadata ''build'') (\<lambda>b. j_item b ''configuration'')) j_str) (\<lambda>configuration.
     bindE (bindE (j_item metadata ''gc_policy'') j_str) (\<lambda>gc_policy.
     Inr (join [tab] [tag, implementation, revision, configuration, gc_policy])))))"

fun parse_control :: "(string list \<Rightarrow> bool) \<Rightarrow> string \<Rightarrow> string \<Rightarrow> control py" where
  "parse_control valid message line =
     (let cells = split_on tab line in
      if length cells \<noteq> 4 \<or> \<not> valid cells then Inl (LaneError (message @ py_repr line))
      else Inr \<lparr>ctl_id = cells ! 1, ctl_status = cells ! 2, ctl_detail = cells ! 3\<rparr>)"

definition matrix_ok :: "string list \<Rightarrow> string list \<Rightarrow> bool" where
  \<comment> \<open>\<open>len(names) == len(expected) and set(names) == set(expected)\<close>\<close>
  "matrix_ok names expected = (length names = length expected \<and> set names = set expected)"

definition CATALOG_CASES :: "string list" where
  "CATALOG_CASES = [''catalog_observed'', ''catalog_noop'', ''observed_reuse_recovery'',
     ''noop_reuse_recovery'', ''gc_restoration'']"

definition W3C_CASES :: "string list" where
  "W3C_CASES = [''raw_utf8'', ''raw_utf16'', ''namespace_switch'', ''reuse_recovery'', ''gc_restoration'']"

definition catalog_line_ok :: "string list \<Rightarrow> bool" where
  "catalog_line_ok cells = (cells ! 0 = ''XPACT_CATALOG_CASE'' \<and> cells ! 3 \<noteq> [])"

definition catalog_validate_qualification :: "string \<Rightarrow> json \<Rightarrow> control list py" where
  "catalog_validate_qualification output metadata =
     bindE (identity_line ''XPACT_CATALOG_IDENTITY'' metadata) (\<lambda>expected.
     let lines = splitlines output in
     if lines = [] \<or> hd lines \<noteq> expected then
       Inl (LaneError ''Qualification identity does not match the built executable'')
     else bindE (mapE (parse_control catalog_line_ok ''Invalid qualification case output: '') (tl lines)) (\<lambda>cases.
     if \<not> matrix_ok (map ctl_id cases) CATALOG_CASES then
       Inl (LaneError ''Qualification must report every expected case exactly once'')
     else if \<exists>c \<in> set cases. ctl_status c \<noteq> ''PASS'' then
       Inl (LaneError ''At least one catalog qualification case failed'')
     else Inr cases))"

definition w3c_line_ok :: "string list \<Rightarrow> bool" where
  "w3c_line_ok cells =
     (cells ! 0 = ''XPACT_W3C_CASE'' \<and> py_in (cells ! 2) [''PASS'', ''FAIL''] \<and> cells ! 3 \<noteq> [])"

definition w3c_validate_qualification :: "string \<Rightarrow> json \<Rightarrow> int \<Rightarrow> control list py" where
  "w3c_validate_qualification output metadata returncode =
     bindE (identity_line ''XPACT_W3C_IDENTITY'' metadata) (\<lambda>expected.
     let lines = splitlines output in
     if lines = [] \<or> hd lines \<noteq> expected then
       Inl (LaneError ''W3C qualification identity does not match the build'')
     else bindE (mapE (parse_control w3c_line_ok ''Invalid W3C qualification output: '') (tl lines)) (\<lambda>rows.
     if \<not> matrix_ok (map ctl_id rows) W3C_CASES then
       Inl (LaneError ''W3C qualification must report each named control exactly once'')
     else if returncode \<noteq> (if \<exists>r \<in> set rows. ctl_status r = ''FAIL'' then 1 else 0) then
       Inl (LaneError ''W3C qualification exit status contradicts its case results'')
     else Inr rows))"

section \<open>The contract of a control matrix\<close>

text \<open>
  Both validators promise a complete matrix. What follows from that is proved once: every named
  control is reported exactly once, and nothing else is.
\<close>

locale control_matrix =
  fixes validate :: "'i \<Rightarrow> control list py"
    and expected :: "string list"
  assumes expected_distinct: "distinct expected"
    and validate_matrix: "validate i = Inr rows \<Longrightarrow> matrix_ok (map ctl_id rows) expected"
begin

lemma reported_distinct:
  assumes "validate i = Inr rows"
  shows "distinct (map ctl_id rows)"
proof -
  from validate_matrix [OF assms] have "length (map ctl_id rows) = length expected"
    "set (map ctl_id rows) = set expected" by (auto simp: matrix_ok_def)
  then show ?thesis using expected_distinct
    by (metis card_distinct distinct_card)
qed

lemma reported_once:
  assumes "validate i = Inr rows" and "name \<in> set expected"
  shows "\<exists>!row. row \<in> set rows \<and> ctl_id row = name"
proof -
  from validate_matrix [OF assms(1)] assms(2) have "name \<in> ctl_id ` set rows"
    by (auto simp: matrix_ok_def)
  with reported_distinct [OF assms(1)] show ?thesis
    by (auto simp: distinct_map inj_on_def)
qed

lemma reported_only: "validate i = Inr rows \<Longrightarrow> row \<in> set rows \<Longrightarrow> ctl_id row \<in> set expected"
  using validate_matrix by (auto simp: matrix_ok_def)

end

interpretation catalog_matrix: control_matrix "\<lambda>(output, metadata). catalog_validate_qualification output metadata"
    CATALOG_CASES
  by unfold_locales
    (auto simp: CATALOG_CASES_def [THEN arg_cong [where f = distinct]] catalog_validate_qualification_def
      Let_def bindE_Inr_iff split: if_splits)

interpretation w3c_matrix: control_matrix
    "\<lambda>(output, metadata, returncode). w3c_validate_qualification output metadata returncode" W3C_CASES
  by unfold_locales
    (auto simp: W3C_CASES_def [THEN arg_cong [where f = distinct]] w3c_validate_qualification_def
      Let_def bindE_Inr_iff split: if_splits)

end
