(* ===== verification/Dual_W3C.thy ===== *)
theory Dual_W3C
  imports Dual_Lane W3C_Known
begin

text \<open>
  The dual W3C lane, \<open>scripts/run_dual_w3c.py\<close>: the comparison of the two engines' results
  (\<open>comparison_rows\<close>), the summaries and the lane status, and the lane itself (\<open>run_lane\<close>)
  with the status values it publishes in \<open>run.json\<close> and the moments at which reports exist.
\<close>

section \<open>Comparison\<close>

record comparison =
  cmp_case_id :: string
  cmp_kind :: string
  cmp_namespaces :: bool
  cmp_expected :: string
  cmp_skip_reason :: string
  cmp_catalog_expected :: string
  cmp_adjustment :: string
  cmp_xpact_status :: string
  cmp_xpact_actual :: string
  cmp_xpact_exit_code :: "int option"
  cmp_core_status :: string
  cmp_core_actual :: string
  cmp_core_exit_code :: "int option"
  cmp_agreement :: bool

definition check_result :: "case_ \<Rightarrow> result \<Rightarrow> unit py" where
  "check_result c r =
     (if r_expected r \<noteq> c_expected c \<or> r_kind r \<noteq> c_kind c \<or> r_known r \<noteq> [] then
        Inl (LaneError ''W3C result expectations changed or a failure was suppressed'')
      else if or_else (r_catalog_expected r) (r_expected r) \<noteq> or_else (c_catalog_expected c) (c_expected c)
          \<or> r_expectation_adjustment r \<noteq> c_expectation_adjustment c then
        Inl (LaneError ''W3C catalog expectation adjustment changed for one implementation'')
      else if c_skip_reason c \<noteq> [] then
        raise_if (r_status r \<noteq> ''skipped'' \<or> r_actual r \<noteq> ''not-run'' \<or> r_message r \<noteq> c_skip_reason c)
          (LaneError ''W3C profile exclusion changed for one implementation'')
      else if \<not> py_in (r_status r) [''passed'', ''failed'', ''error''] then
        Inl (LaneError ''An applicable W3C case was not executed'')
      else if py_in (r_status r) [''passed'', ''failed''] then
        raise_if (\<not> py_in (r_actual r) [''ACCEPT'', ''REJECT'']
            \<or> (r_status r = ''passed'') \<noteq> (r_actual r = c_expected c)
            \<or> r_exit_code r \<noteq> Some (if r_actual r = ''ACCEPT'' then 0 else 1))
          (LaneError ''W3C verdict, status and process exit code are inconsistent'')
      else Inr ())"

definition comparison_row :: "case_ \<Rightarrow> result \<Rightarrow> result \<Rightarrow> comparison" where
  "comparison_row c own core =
     \<lparr>cmp_case_id = c_id c, cmp_kind = c_kind c, cmp_namespaces = c_namespaces c,
      cmp_expected = c_expected c, cmp_skip_reason = c_skip_reason c,
      cmp_catalog_expected = or_else (c_catalog_expected c) (c_expected c),
      cmp_adjustment = c_expectation_adjustment c,
      cmp_xpact_status = r_status own, cmp_xpact_actual = r_actual own, cmp_xpact_exit_code = r_exit_code own,
      cmp_core_status = r_status core, cmp_core_actual = r_actual core, cmp_core_exit_code = r_exit_code core,
      cmp_agreement = (r_status own = r_status core \<and> r_actual own = r_actual core)\<rparr>"

definition indexed :: "result list \<Rightarrow> string \<times> string \<Rightarrow> result option" where
  \<comment> \<open>\<open>{(row.engine, row.case_id): row for row in results}\<close>: a later row replaces an earlier one\<close>
  "indexed results = map_of (rev (map (\<lambda>r. (r_key r, r)) results))"

definition compare_case :: "(string \<times> string \<Rightarrow> result option) \<Rightarrow> case_ \<Rightarrow> comparison py" where
  "compare_case index c =
     (case (index (''xpact'', c_id c), index (''xpact-core'', c_id c)) of
        (Some own, Some core) \<Rightarrow>
          bindE (forE (check_result c) [own, core]) (\<lambda>_. Inr (comparison_row c own core))
      | _ \<Rightarrow> Inl (KeyError (c_id c)))"

definition comparison_rows :: "case_ list \<Rightarrow> result list \<Rightarrow> comparison list py" where
  "comparison_rows cases results =
     (if \<not> distinct (map r_key results)
         \<or> set (map r_key results) \<noteq> set implementations \<times> set (map c_id cases) then
        Inl (LaneError ''W3C result matrix is incomplete or contains duplicate/extra cases'')
      else mapE (compare_case (indexed results)) cases)"

section \<open>Summaries and status\<close>

record engine_totals =
  s_engine :: string
  s_total :: nat
  s_passed :: nat
  s_failed :: nat
  s_errors :: nat
  s_skipped :: nat

definition engine_summary :: "result list \<Rightarrow> string \<Rightarrow> engine_totals" where
  "engine_summary results implementation =
     (let rows = filter (\<lambda>r. r_engine r = implementation) results in
      \<lparr>s_engine = implementation, s_total = length rows,
       s_passed = count_if (\<lambda>r. r_status r = ''passed'') rows,
       s_failed = count_if (\<lambda>r. r_status r = ''failed'') rows,
       s_errors = count_if (\<lambda>r. r_status r = ''error'') rows,
       s_skipped = count_if (\<lambda>r. r_status r = ''skipped'') rows\<rparr>)"

record build_row =
  b_implementation :: string
  b_assertions :: bool
  b_status :: string
  b_error :: "string option"
  b_qualification_error :: "string option"
  b_cases :: "control list"

definition lane_failures :: "result list \<Rightarrow> build_row list \<Rightarrow> bool" where
  "lane_failures results qualification =
     ((\<exists>r \<in> set results. is_failure r)
      \<or> (\<exists>q \<in> set qualification. b_qualification_error q \<notin> {None, Some []})
      \<or> (\<exists>q \<in> set qualification. \<exists>c \<in> set (b_cases q). ctl_status c = ''FAIL''))"

definition lane_status :: "result list \<Rightarrow> build_row list \<Rightarrow> string" where
  "lane_status results qualification =
     (if lane_failures results qualification then ''complete_with_failures'' else ''complete'')"

section \<open>Running both engines over the catalog\<close>

definition engine_results :: "(string \<Rightarrow> case_ \<Rightarrow> result) \<Rightarrow> string list \<Rightarrow> case_ list \<Rightarrow> result list" where
  \<comment> \<open>the order in which the lane appends results: engine by engine, case by case\<close>
  "engine_results run engines cases = concat (map (\<lambda>e. map (run e) cases) engines)"

definition faithful_run :: "(string \<Rightarrow> case_ \<Rightarrow> result) \<Rightarrow> bool" where
  \<comment> \<open>every result is what \<open>run_case\<close> gives for its engine and case, for some process outcome\<close>
  "faithful_run run \<longleftrightarrow> (\<forall>e c. \<exists>h p elapsed t exe diag suite extra d.
     run_case h p elapsed t c e exe diag suite extra = (run e c, d))"

lemma faithful_runE:
  assumes "faithful_run run"
  shows "r_key (run e c) = (e, c_id c)" "r_engine (run e c) = e" "result_wf (run e c)"
    "r_expected (run e c) = c_expected c" "r_kind (run e c) = c_kind c" "r_known (run e c) = []"
    "r_catalog_expected (run e c) = or_else (c_catalog_expected c) (c_expected c)"
    "r_expectation_adjustment (run e c) = c_expectation_adjustment c"
    "c_skip_reason c \<noteq> [] \<Longrightarrow> r_status (run e c) = ''skipped'' \<and> r_actual (run e c) = ''not-run''
       \<and> r_message (run e c) = c_skip_reason c"
    "c_skip_reason c = [] \<Longrightarrow> r_status (run e c) \<noteq> ''skipped''"
proof -
  from assms obtain h p elapsed t exe diag suite extra d where
    r: "run_case h p elapsed t c e exe diag suite extra = (run e c, d)"
    unfolding faithful_run_def by blast
  note frame = run_case_frame [OF r] run_case_wf [OF r] run_case_skipped [OF r]
  show "r_key (run e c) = (e, c_id c)" using frame(1,2) by (simp add: r_key_def)
  from frame show "r_engine (run e c) = e" "result_wf (run e c)" "r_expected (run e c) = c_expected c"
    "r_kind (run e c) = c_kind c" "r_known (run e c) = []"
    "r_catalog_expected (run e c) = or_else (c_catalog_expected c) (c_expected c)"
    "r_expectation_adjustment (run e c) = c_expectation_adjustment c"
    "c_skip_reason c \<noteq> [] \<Longrightarrow> r_status (run e c) = ''skipped'' \<and> r_actual (run e c) = ''not-run''
       \<and> r_message (run e c) = c_skip_reason c"
    "c_skip_reason c = [] \<Longrightarrow> r_status (run e c) \<noteq> ''skipped''"
    by blast+
qed

definition case_judged :: "case_ \<Rightarrow> bool" where
  \<comment> \<open>an applicable case has a required verdict (what \<open>load_catalog\<close> guarantees)\<close>
  "case_judged c \<longleftrightarrow> c_skip_reason c = [] \<longrightarrow> c_expected c \<in> {''ACCEPT'', ''REJECT''}"

lemma or_else_idem [simp]: "or_else (or_else a b) b = or_else a b"
  by (simp add: or_else_def)

lemma check_result_run:
  assumes "faithful_run run" and "case_judged c"
  shows "check_result c (run e c) = Inr ()"
proof -
  note f = faithful_runE [OF assms(1), where e = e and c = c]
  show ?thesis
  proof (cases "c_skip_reason c = []")
    case True
    with f(10) f(3) f(4) assms(2) show ?thesis
      unfolding check_result_def result_wf_def case_judged_def by (auto simp: f)
  next
    case False
    with f(9) show ?thesis by (simp add: check_result_def f)
  qed
qed

lemma keys_engine_results:
  "faithful_run run \<Longrightarrow> map r_key (engine_results run engines cases)
     = concat (map (\<lambda>e. map (\<lambda>c. (e, c_id c)) cases) engines)"
  by (simp add: engine_results_def map_concat comp_def faithful_runE(1))

lemma indexed_engine_results:
  assumes "faithful_run run" and "distinct engines" and "distinct (map c_id cases)"
    and "e \<in> set engines" and "c \<in> set cases"
  shows "indexed (engine_results run engines cases) (e, c_id c) = Some (run e c)"
proof -
  let ?rs = "engine_results run engines cases"
  have "distinct (map r_key ?rs)"
    using assms by (simp add: keys_engine_results distinct_pairs)
  then have "distinct (map fst (rev (map (\<lambda>r. (r_key r, r)) ?rs)))"
    by (simp add: rev_map [symmetric] comp_def)
  moreover have "(r_key (run e c), run e c) \<in> set (rev (map (\<lambda>r. (r_key r, r)) ?rs))"
    using assms(4,5) by (auto simp: engine_results_def)
  ultimately show ?thesis
    unfolding indexed_def faithful_runE(1) [OF assms(1)] by (rule map_of_is_SomeI)
qed

lemma comparison_rows_run:
  assumes "faithful_run run" and "distinct (map c_id cases)" and "\<forall>c \<in> set cases. case_judged c"
  shows "comparison_rows cases (engine_results run implementations cases)
     = Inr (map (\<lambda>c. comparison_row c (run ''xpact'' c) (run ''xpact-core'' c)) cases)"
proof -
  let ?rs = "engine_results run implementations cases"
  have d: "distinct implementations" by (simp add: implementations_def)
  have keys: "distinct (map r_key ?rs)" "set (map r_key ?rs) = set implementations \<times> set (map c_id cases)"
    unfolding keys_engine_results [OF assms(1)] using distinct_pairs [OF d assms(2)] by auto
  have "compare_case (indexed ?rs) c = Inr (comparison_row c (run ''xpact'' c) (run ''xpact-core'' c))"
    if "c \<in> set cases" for c
    using that assms(3) indexed_engine_results [OF assms(1) d assms(2) _ that] check_result_run [OF assms(1)]
    by (simp add: compare_case_def implementations_def)
  with keys show ?thesis
    unfolding comparison_rows_def by (simp add: mapE_total)
qed

end
