(* ===== verification/Dual_W3C_Lane.thy ===== *)
theory Dual_W3C_Lane
  imports Lane_Runner Dual_W3C
begin

text \<open>
  The dual W3C lane itself, \<open>run_lane\<close> of \<open>scripts/run_dual_w3c.py\<close>: what it asks of the
  host is the record \<open>w3c_host\<close>, indexed by the moment of the run at which it is asked, so that
  files may change while the lane runs; what it leaves behind is the trace of \<open>Lane_Runner\<close>.
\<close>

section \<open>The suite\<close>

record walk_entry =
  we_path :: string
  we_file :: bool
  we_link :: bool
  we_sha :: "string py"

record snapshot =
  sn_sha256 :: string
  sn_files :: "(string \<times> string) list"

fun snapshot_files :: "walk_entry list \<Rightarrow> (string \<times> string) list py" where
  "snapshot_files [] = Inr []"
| "snapshot_files (e # es) =
     (if we_link e then Inl (LaneError (''W3C suite contains a link or junction: '' @ we_path e))
      else if we_file e then
        bindE (we_sha e) (\<lambda>digest. bindE (snapshot_files es) (\<lambda>files. Inr ((we_path e, digest) # files)))
      else snapshot_files es)"

definition suite_snapshot :: "((string \<times> string) list \<Rightarrow> string) \<Rightarrow> walk_entry list \<Rightarrow> snapshot py" where
  \<comment> \<open>\<open>digest\<close> hashes the JSON text of the sorted map from relative paths to file hashes\<close>
  "suite_snapshot digest walk =
     bindE (snapshot_files walk) (\<lambda>files.
     Inr \<lparr>sn_sha256 = digest (sort_key fst files), sn_files = files\<rparr>)"

definition same_snapshot :: "snapshot \<Rightarrow> snapshot \<Rightarrow> bool" where
  \<comment> \<open>equality of the two dictionaries: the order of the walk does not count\<close>
  "same_snapshot a b = (sn_sha256 a = sn_sha256 b \<and> set (sn_files a) = set (sn_files b))"

definition verify_case_input :: "(path \<Rightarrow> string option py) \<Rightarrow> case_ \<Rightarrow> path \<Rightarrow> snapshot \<Rightarrow> unit py" where
  \<comment> \<open>\<open>sha\<close> is the hash of a file, \<open>None\<close> where there is none\<close>
  "verify_case_input sha c suite snapshot =
     bindE (relative_to (c_path c) suite) (\<lambda>relative.
     bindE (sha (c_path c)) (\<lambda>actual.
     raise_if (actual \<noteq> map_of (sn_files snapshot) (as_posix relative))
       (LaneError (''W3C input bytes changed during execution: '' @ c_id c))))"

record manifest_entry =
  mr_case_id :: string
  mr_path :: string
  mr_kind :: string
  mr_namespaces :: bool
  mr_expected :: string
  mr_skip_reason :: string
  mr_catalog_expected :: string
  mr_adjustment :: string
  mr_input_sha256 :: "string option"

definition manifest_row :: "path \<Rightarrow> snapshot \<Rightarrow> case_ \<Rightarrow> manifest_entry py" where
  "manifest_row suite before c =
     bindE (relative_to (c_path c) suite) (\<lambda>relative.
     Inr \<lparr>mr_case_id = c_id c, mr_path = as_posix relative, mr_kind = c_kind c,
          mr_namespaces = c_namespaces c, mr_expected = c_expected c, mr_skip_reason = c_skip_reason c,
          mr_catalog_expected = or_else (c_catalog_expected c) (c_expected c),
          mr_adjustment = c_expectation_adjustment c,
          mr_input_sha256 = map_of (sn_files before) (as_posix relative)\<rparr>)"

definition SUITE_SHA256 :: string where
  "SUITE_SHA256 = ''f9510b3532926e1b4c2e54855b021e4b8a66ec98a5337dcf4ff07e8a41968deb''"

definition verify_archive :: "string \<Rightarrow> unit py" where
  "verify_archive digest =
     raise_if (digest \<noteq> SUITE_SHA256)
       (ValueError (''W3C archive SHA-256 mismatch: '' @ digest @ ''; expected '' @ SUITE_SHA256))"

definition w3c_prepare_suite :: "host \<Rightarrow> path \<Rightarrow> bool \<Rightarrow> string py \<Rightarrow> string \<Rightarrow> member list \<Rightarrow> path py" where
  \<comment> \<open>\<open>fetched\<close> is the digest of a fresh download, \<open>digest\<close> the digest of the archive in the cache\<close>
  "w3c_prepare_suite h cache_dir cached fetched digest infolist =
     bindE (if cached then Inr () else bindE fetched verify_archive) (\<lambda>_.
     bindE (verify_archive digest) (\<lambda>_.
     bindE (extract_archive h infolist cache_dir) (\<lambda>_. Inr (cache_dir @ [''xmlconf'']))))"

record provenance =
  source_mode :: string
  archive_sha256 :: "string option"

definition prepare_suite :: "host \<Rightarrow> path \<Rightarrow> path option \<Rightarrow> bool \<Rightarrow> path \<Rightarrow> string py \<Rightarrow> unit py
    \<Rightarrow> member list py \<Rightarrow> path py \<Rightarrow> (path \<times> provenance) py" where
  \<comment> \<open>\<open>digest\<close> is the hash of the cached archive, \<open>mkdir\<close> the new suite
    directory, \<open>infolist\<close> the archive's members, \<open>download\<close> the online preparation\<close>
  "prepare_suite h run_root suite_dir offline archive digest mkdir infolist download =
     (case suite_dir of
        Some supplied \<Rightarrow> Inr (resolve h supplied, \<lparr>source_mode = ''local-directory'', archive_sha256 = None\<rparr>)
      | None \<Rightarrow>
          let target = run_root @ [''suite'']; pinned = \<lparr>source_mode = ''verified-archive'', archive_sha256 = Some SUITE_SHA256\<rparr> in
          if is_file h archive then
            bindE (bindE digest verify_archive) (\<lambda>_. bindE mkdir (\<lambda>_. bindE infolist (\<lambda>members.
            bindE (extract_archive h members target) (\<lambda>_. Inr (target @ [''xmlconf''], pinned)))))
          else if offline then
            Inl (LaneError ''Pinned W3C archive is not cached; provide --suite-dir or prepare it online once'')
          else bindE download (\<lambda>suite. Inr (suite, pinned)))"

section \<open>The host\<close>

datatype moment =
    Building string bool \<comment> \<open>while one implementation is built, with or without assertions\<close>
  | Qualified string bool
  | Gate \<comment> \<open>after the builds\<close>
  | Prepared \<comment> \<open>when the suite is in place\<close>
  | Starting string
  | Before string nat \<comment> \<open>before one engine runs the case at a position\<close>
  | After string nat
  | Finish

record w3c_host =
  wh_host :: host
  wh_timeout :: fl
  wh_timeout_text :: string
  wh_suite_dir :: "path option"
  wh_run_root :: path
  wh_mkdir :: "string \<Rightarrow> unit py" \<comment> \<open>creating a directory below the run directory\<close>
  wh_write :: "string \<Rightarrow> unit py" \<comment> \<open>writing a report file\<close>
  wh_run_json :: "string \<Rightarrow> unit py" \<comment> \<open>writing \<open>run.json\<close> with a status\<close>
  wh_prepared :: "(path \<times> provenance) py" \<comment> \<open>\<open>prepare_suite\<close>\<close>
  wh_catalog :: "element py" \<comment> \<open>the parsed \<open>xmlconf.xml\<close>\<close>
  wh_walk :: "moment \<Rightarrow> walk_entry list"
  wh_digest :: "(string \<times> string) list \<Rightarrow> string"
  wh_toolchain :: "unit py"
  wh_build :: "string \<Rightarrow> bool \<Rightarrow> json py" \<comment> \<open>\<open>build_one\<close> and the \<open>build.json\<close> it names\<close>
  wh_qualify :: "string \<Rightarrow> bool \<Rightarrow> outcome" \<comment> \<open>the process \<open>executable --qualify\<close>\<close>
  wh_sha :: "moment \<Rightarrow> string \<Rightarrow> string py" \<comment> \<open>hash of an executable\<close>
  wh_fingerprint :: "moment \<Rightarrow> string \<Rightarrow> string py" \<comment> \<open>\<open>source_fingerprint\<close>\<close>
  wh_input :: "moment \<Rightarrow> path \<Rightarrow> string option py" \<comment> \<open>hash of a catalog input\<close>
  wh_process :: "string \<Rightarrow> nat \<Rightarrow> string list \<Rightarrow> outcome" \<comment> \<open>one conformance process\<close>
  wh_elapsed :: "string \<Rightarrow> nat \<Rightarrow> rat"

section \<open>Builds and directed controls\<close>

definition run_qualification :: "outcome \<Rightarrow> (string \<times> int) py" where
  "run_qualification out = (case out of
      Completed code stdout stderr \<Rightarrow> Inr (stdout, code)
    | TimeoutExpired stdout stderr \<Rightarrow> Inl (LaneError ''Cannot complete W3C qualification: timed out after 30 seconds'')
    | LaunchError text \<Rightarrow> Inl (LaneError (''Cannot complete W3C qualification: '' @ text)))"

definition caught :: "exn \<Rightarrow> bool" where
  \<comment> \<open>\<open>except (BuildError, DependencyError, LaneError, OSError, ValueError, KeyError)\<close>\<close>
  "caught e = (is_value_error e \<or> (case e of BuildError _ \<Rightarrow> True | DependencyError _ \<Rightarrow> True
     | LaneError _ \<Rightarrow> True | OSError _ \<Rightarrow> True | KeyError _ \<Rightarrow> True | _ \<Rightarrow> False))"

definition run_controls :: "w3c_host \<Rightarrow> string \<Rightarrow> bool \<Rightarrow> json \<Rightarrow> (string option \<times> control list) py" where
  \<comment> \<open>the inner \<open>try\<close>: a \<open>LaneError\<close> of the controls is recorded, anything else escapes\<close>
  "run_controls w implementation assertions artifact =
     (case bindE (j_item artifact ''executable'') (\<lambda>_.
        bindE (run_qualification (wh_qualify w implementation assertions)) (\<lambda>(output, code).
        w3c_validate_qualification output artifact code)) of
       Inl (LaneError message) \<Rightarrow> Inr (Some message, [])
     | Inl e \<Rightarrow> Inl e
     | Inr controls \<Rightarrow> Inr (None, controls))"

definition gated_build :: "w3c_host \<Rightarrow> string \<Rightarrow> bool \<Rightarrow> json py" where
  "gated_build w implementation assertions =
     bindE (wh_build w implementation assertions) (\<lambda>artifact.
     bindE (w3c_validate_build (wh_sha w (Building implementation assertions)) artifact implementation assertions)
       (\<lambda>_. Inr artifact))"

record builds =
  bs_rows :: "build_row list" \<comment> \<open>\<open>state["builds"]\<close>\<close>
  bs_qualification :: "build_row list"
  bs_audits :: "(string \<times> json) list"
  bs_artifacts :: "(string \<times> json) list"

definition build_row_of :: "string \<Rightarrow> bool \<Rightarrow> string \<Rightarrow> string option \<Rightarrow> string option \<Rightarrow> control list \<Rightarrow> build_row" where
  "build_row_of implementation assertions status error qualification_error cases =
     \<lparr>b_implementation = implementation, b_assertions = assertions, b_status = status, b_error = error,
      b_qualification_error = qualification_error, b_cases = cases\<rparr>"

definition build_failed :: "string \<Rightarrow> bool \<Rightarrow> string option \<Rightarrow> builds \<Rightarrow> exn \<Rightarrow> builds py" where
  "build_failed implementation assertions qualification_error st e =
     (if caught e
      then Inr (st\<lparr>bs_rows := bs_rows st
        @ [build_row_of implementation assertions ''failed'' (Some (exn_text e)) qualification_error []]\<rparr>)
      else Inl e)"

definition build_step :: "w3c_host \<Rightarrow> bool \<Rightarrow> string \<Rightarrow> builds \<Rightarrow> builds py" where
  "build_step w assertions implementation st =
     (case gated_build w implementation assertions of
        Inl e \<Rightarrow> build_failed implementation assertions None st e
      | Inr artifact \<Rightarrow>
     (case run_controls w implementation assertions artifact of
        Inl e \<Rightarrow> build_failed implementation assertions None st e
      | Inr (qualification_error, controls) \<Rightarrow>
     (case w3c_verify_artifact (wh_sha w (Qualified implementation assertions)) artifact of
        Inl e \<Rightarrow> build_failed implementation assertions qualification_error st e
      | Inr _ \<Rightarrow>
          let row = build_row_of implementation assertions ''executed'' None qualification_error controls in
          Inr (if assertions
            then st\<lparr>bs_rows := bs_rows st @ [row], bs_qualification := bs_qualification st @ [row],
                    bs_audits := bs_audits st @ [(implementation, artifact)]\<rparr>
            else st\<lparr>bs_rows := bs_rows st @ [row], bs_qualification := bs_qualification st @ [row],
                    bs_artifacts := bs_artifacts st @ [(implementation, artifact)]\<rparr>))))"

fun build_steps :: "w3c_host \<Rightarrow> bool \<Rightarrow> string list \<Rightarrow> builds \<Rightarrow> builds py" where
  "build_steps w assertions [] st = Inr st"
| "build_steps w assertions (i # is) st = bindE (build_step w assertions i st) (build_steps w assertions is)"

definition build_phase :: "w3c_host \<Rightarrow> bool \<Rightarrow> builds \<Rightarrow> builds py" where
  "build_phase w assertions st =
     bindE (wh_mkdir w (if assertions then ''audit'' else ''primary'')) (\<lambda>_.
     build_steps w assertions implementations st)"

definition build_all :: "w3c_host \<Rightarrow> builds py" where
  "build_all w =
     bindE (build_phase w True \<lparr>bs_rows = [], bs_qualification = [], bs_audits = [], bs_artifacts = []\<rparr>) (\<lambda>st.
     bindE (build_phase w False st) (\<lambda>st.
     if \<exists>row \<in> set (bs_rows st). b_status row \<noteq> ''executed''
     then Inl (LaneError ''W3C build/identity gate failed; see run.json'')
     else bindE (w3c_verify_sources (wh_fingerprint w Gate) (bs_audits st) (bs_artifacts st)) (\<lambda>_. Inr st)))"

section \<open>Executing the catalog\<close>

definition check_snapshot :: "w3c_host \<Rightarrow> moment \<Rightarrow> snapshot \<Rightarrow> string \<Rightarrow> unit py" where
  "check_snapshot w m before message =
     bindE (suite_snapshot (wh_digest w) (wh_walk w m)) (\<lambda>now.
     raise_if (\<not> same_snapshot now before) (LaneError message))"

definition executable_of :: "json \<Rightarrow> string py" where
  "executable_of artifact = bindE (j_item artifact ''executable'') j_str"

definition run_indexed :: "w3c_host \<Rightarrow> path \<Rightarrow> snapshot \<Rightarrow> string \<Rightarrow> json \<Rightarrow> nat \<Rightarrow> case_ \<Rightarrow> result py" where
  \<comment> \<open>one turn of the inner loop\<close>
  "run_indexed w suite before implementation artifact index c =
     bindE (if c_skip_reason c = [] then wh_mkdir w (''work/'' @ implementation @ ''/'' @ c_id c) else Inr ()) (\<lambda>_.
     bindE (verify_case_input (wh_input w (Before implementation index)) c suite before) (\<lambda>_.
     bindE (executable_of artifact) (\<lambda>executable.
     let r = fst (run_case (wh_host w) (wh_process w implementation index) (wh_elapsed w implementation index)
                   (wh_timeout_text w) c implementation executable True (Some suite) []) in
     bindE (verify_case_input (wh_input w (After implementation index)) c suite before) (\<lambda>_. Inr r))))"

definition run_engine :: "w3c_host \<Rightarrow> path \<Rightarrow> snapshot \<Rightarrow> case_ list \<Rightarrow> string \<times> json \<Rightarrow> result list py" where
  "run_engine w suite before cases = (\<lambda>(implementation, artifact).
     bindE (w3c_verify_artifact (wh_sha w (Starting implementation)) artifact) (\<lambda>_.
     bindE (check_snapshot w (Starting implementation) before ''W3C suite bytes changed before engine execution'') (\<lambda>_.
     bindE (wh_mkdir w (''work/'' @ implementation)) (\<lambda>_.
     mapE (\<lambda>(index, c). run_indexed w suite before implementation artifact index c) (enumerate 1 cases)))))"

definition run_engines :: "w3c_host \<Rightarrow> path \<Rightarrow> snapshot \<Rightarrow> case_ list \<Rightarrow> (string \<times> json) list \<Rightarrow> result list py" where
  "run_engines w suite before cases artifacts =
     bindE (mapE (run_engine w suite before cases) artifacts) (\<lambda>groups. Inr (concat groups))"

section \<open>The report\<close>

record lane_report =
  lr_status :: string
  lr_provenance :: provenance
  lr_suite_sha256 :: string
  lr_catalog_cases :: nat
  lr_adjustments :: "(string \<times> string \<times> string \<times> string) list"
  lr_artifacts :: "(string \<times> json) list"
  lr_qualification :: "build_row list"
  lr_engines :: "engine_totals list"
  lr_same_outcome :: nat
  lr_different_outcome :: nat

definition adjustments_of :: "case_ list \<Rightarrow> (string \<times> string \<times> string \<times> string) list" where
  "adjustments_of cases =
     map (\<lambda>c. (c_id c, c_catalog_expected c, c_expected c, c_expectation_adjustment c))
       (filter (\<lambda>c. c_expectation_adjustment c \<noteq> []) cases)"

definition make_report :: "provenance \<Rightarrow> snapshot \<Rightarrow> case_ list \<Rightarrow> builds \<Rightarrow> result list \<Rightarrow> comparison list \<Rightarrow> lane_report" where
  "make_report source before cases st results rows =
     \<lparr>lr_status = lane_status results (bs_qualification st), lr_provenance = source,
      lr_suite_sha256 = sn_sha256 before, lr_catalog_cases = length cases,
      lr_adjustments = adjustments_of cases, lr_artifacts = bs_artifacts st,
      lr_qualification = bs_qualification st, lr_engines = map (engine_summary results) implementations,
      lr_same_outcome = count_if cmp_agreement rows,
      lr_different_outcome = count_if (\<lambda>row. \<not> cmp_agreement row) rows\<rparr>"

definition FINAL_REPORTS :: "string list" where
  \<comment> \<open>in the order they are written; \<open>conformance\<close> stands for the four files of \<open>write_reports\<close>\<close>
  "FINAL_REPORTS = [''conformance'', ''comparison.tsv'', ''suite-manifest.json'', ''report.json'', ''summary.md'']"

definition w3c_publish_reports :: "(string \<Rightarrow> unit py) \<Rightarrow> comparison list \<Rightarrow> unit lane" where
  \<comment> \<open>\<open>list(rows[0])\<close> raises when there is no row\<close>
  "w3c_publish_reports write rows = or_clear (seqA
     [write_text write ''conformance'',
      pureA (if rows = [] then Inl IndexError else Inr ()),
      write_text write ''comparison.tsv'',
      write_atomic write ''suite-manifest.json'',
      write_atomic write ''report.json'',
      write_text write ''summary.md''])"

section \<open>The lane\<close>

definition positive_timeout :: "fl \<Rightarrow> bool" where
  \<comment> \<open>\<open>math.isfinite(t) and t > 0\<close>\<close>
  "positive_timeout t = (case t of Fin x \<Rightarrow> x > 0 | _ \<Rightarrow> False)"

definition separate_inputs :: "w3c_host \<Rightarrow> bool" where
  "separate_inputs w = (case wh_suite_dir w of None \<Rightarrow> True
     | Some d \<Rightarrow> (let supplied = resolve (wh_host w) d; run_root = resolve (wh_host w) (wh_run_root w) in
         \<not> is_relative_to run_root supplied \<and> \<not> is_relative_to supplied run_root))"

definition load_cases :: "w3c_host \<Rightarrow> path \<Rightarrow> case_ list py" where
  "load_cases w suite =
     bindE (wh_catalog w) (\<lambda>tree.
     bindE (load_catalog (wh_host w) suite tree) (\<lambda>cases.
     if \<forall>c \<in> set cases. c_skip_reason c \<noteq> []
     then Inl (LaneError ''W3C catalog contains no applicable cases'') else Inr cases))"

definition prepare_run :: "w3c_host \<Rightarrow> (path \<times> provenance \<times> snapshot \<times> case_ list \<times> builds) py" where
  \<comment> \<open>from \<open>prepare_suite\<close> to the gate after the builds\<close>
  "prepare_run w =
     bindE (wh_prepared w) (\<lambda>(suite, source).
     bindE (suite_snapshot (wh_digest w) (wh_walk w Prepared)) (\<lambda>before.
     bindE (load_cases w suite) (\<lambda>cases.
     bindE (mapE (manifest_row suite before) cases) (\<lambda>_.
     bindE (wh_toolchain w) (\<lambda>_.
     bindE (build_all w) (\<lambda>st. Inr (suite, source, before, cases, st)))))))"

definition execute_run :: "w3c_host \<Rightarrow> path \<Rightarrow> snapshot \<Rightarrow> case_ list \<Rightarrow> builds \<Rightarrow> (result list \<times> comparison list) py" where
  \<comment> \<open>from the engine loop to the last check before the report\<close>
  "execute_run w suite before cases st =
     bindE (run_engines w suite before cases (bs_artifacts st)) (\<lambda>results.
     bindE (comparison_rows cases results) (\<lambda>rows.
     bindE (check_snapshot w Finish before ''W3C suite bytes changed during execution'') (\<lambda>_.
     bindE (w3c_verify_sources (wh_fingerprint w Finish) (bs_audits st) (bs_artifacts st)) (\<lambda>_.
     bindE (forE (\<lambda>(i, artifact). w3c_verify_artifact (wh_sha w Finish) artifact) (bs_artifacts st)) (\<lambda>_.
     Inr (results, rows))))))"

definition lane_body :: "w3c_host \<Rightarrow> lane_report lane" where
  "lane_body w =
     bindA (write_run (wh_run_json w) ''running'') (\<lambda>_.
     bindA (pureA (prepare_run w)) (\<lambda>(suite, source, before, cases, st).
     bindA (write_run (wh_run_json w) ''executing'') (\<lambda>_.
     bindA (pureA (execute_run w suite before cases st)) (\<lambda>(results, rows).
     let report = make_report source before cases st results rows in
     bindA (w3c_publish_reports (wh_write w) rows) (\<lambda>_.
     bindA (write_run (wh_run_json w) (lr_status report)) (\<lambda>_.
     pureA (Inr report)))))))"

definition run_lane :: "w3c_host \<Rightarrow> lane_report lane" where
  "run_lane w =
     bindA (pureA (bindE
       (raise_if (\<not> positive_timeout (wh_timeout w)) (LaneError ''Per-case timeout must be positive and finite'')) (\<lambda>_.
       bindE (raise_if (\<not> separate_inputs w) (LaneError ''W3C inputs and run output must be separate directories'')) (\<lambda>_.
       wh_mkdir w [])))) (\<lambda>_.
     guard_lane (wh_run_json w) (lane_body w))"

definition main_status :: "lane_report py \<Rightarrow> int py" where
  \<comment> \<open>the exit status of the script\<close>
  "main_status r = (case r of
      Inl e \<Rightarrow> if caught e then Inr 2 else Inl e
    | Inr report \<Rightarrow> Inr (if lr_status report = ''complete'' then 0 else 1))"

end
