(* ===== verification/Dual_W3C_Proofs.thy ===== *)
theory Dual_W3C_Proofs
  imports Dual_W3C_Lane
begin

section \<open>What a finished lane went through\<close>

lemma publish_reports_Inr:
  "w3c_publish_reports write rows = (evs, Inr u) \<Longrightarrow> evs = map Report FINAL_REPORTS"
  by (auto simp: w3c_publish_reports_def or_clear_Inr bindA_Inr_iff write_Inr FINAL_REPORTS_def)

lemma lane_body_Inr:
  assumes "lane_body w = (evs, Inr rep)"
  obtains suite source before cases st results rows where
    "prepare_run w = Inr (suite, source, before, cases, st)"
    "execute_run w suite before cases st = Inr (results, rows)"
    "rep = make_report source before cases st results rows"
    "evs = [RunJson ''running'', RunJson ''executing''] @ map Report FINAL_REPORTS @ [RunJson (lr_status rep)]"
  using assms unfolding lane_body_def bindA_Inr_iff Let_def
  by (auto simp: bindA_Inr_iff write_Inr dest!: publish_reports_Inr)

lemma run_lane_Inr:
  assumes "run_lane w = (evs, Inr rep)"
  obtains "positive_timeout (wh_timeout w)" "separate_inputs w" "lane_body w = (evs, Inr rep)"
  using assms unfolding run_lane_def bindA_Inr_iff by (auto simp: guard_lane_Inr pyE)

lemma bindA_pure_Inl:
  "bindA (pureA m) f = (evs, Inl e) \<Longrightarrow> evs = [] \<or> (\<exists>x. f x = (evs, Inl e))"
  by (cases m) (auto simp: pureA_def)

lemma run_lane_Inl: "run_lane w = (evs, Inl e) \<Longrightarrow> reports evs = []"
  unfolding run_lane_def by (drule bindA_pure_Inl) (auto dest: guard_lane_Inl)

interpretation w3c_lane: lane_contract run_lane lr_status "\<lambda>_. FINAL_REPORTS"
proof unfold_locales
  show "FINAL_REPORTS \<noteq> []" by (simp add: FINAL_REPORTS_def)
  show "reports evs = []" if "run_lane w = (evs, Inl e)" for w evs e
    using that by (rule run_lane_Inl)
  show "reports evs = FINAL_REPORTS \<and> run_status evs = Some (lr_status rep)"
    if "run_lane w = (evs, Inr rep)" for w evs rep
    using that by (auto elim!: run_lane_Inr lane_body_Inr simp: reports_def run_status_def FINAL_REPORTS_def)
qed

section \<open>Builds\<close>

definition all_match :: "bool \<Rightarrow> (string \<times> json) list \<Rightarrow> bool" where
  "all_match assertions artifacts \<longleftrightarrow> (\<forall>(i, a) \<in> set artifacts. build_matches ''w3c'' a i assertions)"

lemma all_match_simps [simp]:
  "all_match b []"
  "all_match b (xs @ [(i, a)]) \<longleftrightarrow> all_match b xs \<and> build_matches ''w3c'' a i b"
  by (auto simp: all_match_def)

definition builds_inv :: "builds \<Rightarrow> bool" where
  "builds_inv st \<longleftrightarrow> filter (\<lambda>row. b_status row = ''executed'') (bs_rows st) = bs_qualification st
     \<and> map b_implementation (filter b_assertions (bs_qualification st)) = map fst (bs_audits st)
     \<and> map b_implementation (filter (\<lambda>row. \<not> b_assertions row) (bs_qualification st)) = map fst (bs_artifacts st)
     \<and> all_match False (bs_artifacts st)
     \<and> all_match True (bs_audits st)"

lemma w3c_validate_build_matches:
  "w3c_validate_build sha a i assertions = Inr u \<Longrightarrow> build_matches ''w3c'' a i assertions"
  by (auto simp: w3c_validate_build_def bindE_Inr_iff intro: build_mismatch_False split: if_splits)

lemma gated_build_matches:
  "gated_build w i assertions = Inr a \<Longrightarrow> build_matches ''w3c'' a i assertions"
  by (auto simp: gated_build_def bindE_Inr_iff dest: w3c_validate_build_matches)

lemma build_row_of_simps [simp]:
  "b_implementation (build_row_of i a s err q cs) = i"
  "b_assertions (build_row_of i a s err q cs) = a"
  "b_status (build_row_of i a s err q cs) = s"
  "b_error (build_row_of i a s err q cs) = err"
  "b_qualification_error (build_row_of i a s err q cs) = q"
  "b_cases (build_row_of i a s err q cs) = cs"
  by (simp_all add: build_row_of_def)

lemma build_step_rows:
  assumes "build_step w assertions i st = Inr st'"
  shows "\<exists>row. bs_rows st' = bs_rows st @ [row] \<and> b_implementation row = i \<and> b_assertions row = assertions"
  using assms by (auto simp: build_step_def build_failed_def Let_def split: sum.splits if_splits)

lemma build_step_inv:
  assumes "build_step w assertions i st = Inr st'" and "builds_inv st"
  shows "builds_inv st'"
  using assms
  by (auto simp: build_step_def build_failed_def Let_def builds_inv_def split: sum.splits if_splits)
    (erule gated_build_matches)+

lemma build_steps_inv:
  "build_steps w assertions is st = Inr st' \<Longrightarrow> builds_inv st \<Longrightarrow> builds_inv st'
     \<and> (\<exists>new. bs_rows st' = bs_rows st @ new
          \<and> map (\<lambda>row. (b_implementation row, b_assertions row)) new = map (\<lambda>i. (i, assertions)) is)"
proof (induction "is" arbitrary: st)
  case (Cons i "is")
  from Cons.prems(1) obtain st1 where st1: "build_step w assertions i st = Inr st1"
    "build_steps w assertions is st1 = Inr st'" by (auto simp: bindE_Inr_iff)
  from Cons.IH [OF st1(2) build_step_inv [OF st1(1) Cons.prems(2)]] build_step_rows [OF st1(1)]
  show ?case by fastforce
qed simp

lemma build_all_Inr:
  assumes "build_all w = Inr st"
  shows "builds_inv st" "map (\<lambda>q. (b_implementation q, b_assertions q)) (bs_qualification st)
           = [(''xpact'', True), (''xpact-core'', True), (''xpact'', False), (''xpact-core'', False)]"
    "map fst (bs_artifacts st) = implementations" "map fst (bs_audits st) = implementations"
proof -
  let ?init = "\<lparr>bs_rows = [], bs_qualification = [], bs_audits = [], bs_artifacts = []\<rparr>"
  from assms obtain st1 where st1: "build_steps w True implementations ?init = Inr st1"
    "build_steps w False implementations st1 = Inr st"
    and ok: "\<forall>row \<in> set (bs_rows st). b_status row = ''executed''"
    by (auto simp: build_all_def build_phase_def bindE_Inr_iff split: if_splits)
  have "builds_inv ?init" by (simp add: builds_inv_def)
  from build_steps_inv [OF st1(1) this] obtain new1 where 1: "builds_inv st1" "bs_rows st1 = new1"
    "map (\<lambda>row. (b_implementation row, b_assertions row)) new1 = map (\<lambda>i. (i, True)) implementations" by auto
  from build_steps_inv [OF st1(2) 1(1)] obtain new2 where 2: "builds_inv st" "bs_rows st = new1 @ new2"
    "map (\<lambda>row. (b_implementation row, b_assertions row)) new2 = map (\<lambda>i. (i, False)) implementations"
    using 1(2) by auto
  have q: "bs_qualification st = bs_rows st" using 2(1) ok by (simp add: builds_inv_def filter_id_conv)
  show "builds_inv st" by (rule 2(1))
  show m: "map (\<lambda>q. (b_implementation q, b_assertions q)) (bs_qualification st)
           = [(''xpact'', True), (''xpact-core'', True), (''xpact'', False), (''xpact-core'', False)]"
    unfolding q 2(2) map_append 1(3) 2(3) by (simp add: implementations_def)
  have fl: "map b_implementation (filter (\<lambda>row. P (b_assertions row)) qs)
      = map fst (filter (\<lambda>x. P (snd x)) (map (\<lambda>q. (b_implementation q, b_assertions q)) qs))" for P qs
    by (induction qs) auto
  show "map fst (bs_artifacts st) = implementations" "map fst (bs_audits st) = implementations"
    using 2(1) fl [of "\<lambda>b. b" "bs_qualification st"] fl [of Not "bs_qualification st"]
    unfolding m by (auto simp: builds_inv_def implementations_def)
qed

section \<open>Results\<close>

definition position_of :: "case_ list \<Rightarrow> case_ \<Rightarrow> nat" where
  \<comment> \<open>the number the loop gives to a case\<close>
  "position_of cases c = Suc (length (takeWhile (\<lambda>d. c_id d \<noteq> c_id c) cases))"

definition executable_for :: "(string \<times> json) list \<Rightarrow> string \<Rightarrow> string" where
  "executable_for artifacts implementation =
     (case map_of artifacts implementation of None \<Rightarrow> []
      | Some a \<Rightarrow> (case executable_of a of Inl _ \<Rightarrow> [] | Inr x \<Rightarrow> x))"

definition lane_run :: "w3c_host \<Rightarrow> path \<Rightarrow> case_ list \<Rightarrow> (string \<times> json) list \<Rightarrow> string \<Rightarrow> case_ \<Rightarrow> result" where
  \<comment> \<open>what one engine's process for one case is judged to be\<close>
  "lane_run w suite cases artifacts e c =
     fst (run_case (wh_host w) (wh_process w e (position_of cases c)) (wh_elapsed w e (position_of cases c))
       (wh_timeout_text w) c e (executable_for artifacts e) True (Some suite) [])"

lemma faithful_lane_run: "faithful_run (lane_run w suite cases artifacts)"
  unfolding faithful_run_def lane_run_def by (metis prod.collapse)

lemma position_of_nth:
  assumes "distinct (map c_id cases)" and "k < length cases"
  shows "position_of cases (cases ! k) = Suc k"
proof -
  have "takeWhile (\<lambda>d. c_id d \<noteq> c_id (cases ! k)) cases = take k cases"
    by (rule takeWhile_eq_take_P_nth) (use assms nth_eq_iff_index_eq [OF assms(1)] in auto)
  then show ?thesis using assms(2) by (simp add: position_of_def)
qed

lemma run_indexed_Inr:
  assumes "run_indexed w suite before e a index c = Inr r"
  obtains x where "executable_of a = Inr x"
    "r = fst (run_case (wh_host w) (wh_process w e index) (wh_elapsed w e index) (wh_timeout_text w) c e x True (Some suite) [])"
    "verify_case_input (wh_input w (Before e index)) c suite before = Inr ()"
    "verify_case_input (wh_input w (After e index)) c suite before = Inr ()"
  using assms by (auto simp: run_indexed_def Let_def bindE_Inr_iff)

lemma run_engine_Inr:
  assumes "run_engine w suite before cases (e, a) = Inr grp"
  shows "length grp = length cases"
    "k < length cases \<Longrightarrow> run_indexed w suite before e a (Suc k) (cases ! k) = Inr (grp ! k)"
  using assms
  by (auto simp: run_engine_def bindE_Inr_iff mapE_Inr_iff list_all2_conv_all_nth nth_enumerate_eq)

lemma run_engine_eq:
  assumes "run_engine w suite before cases (e, a) = Inr grp" and "distinct (map c_id cases)"
    and "map_of artifacts e = Some a"
  shows "grp = map (lane_run w suite cases artifacts e) cases"
proof (rule nth_equalityI)
  show "length grp = length (map (lane_run w suite cases artifacts e) cases)"
    using run_engine_Inr [OF assms(1)] by simp
next
  fix k assume "k < length grp"
  then have k: "k < length cases" using run_engine_Inr [OF assms(1)] by simp
  from run_indexed_Inr [OF run_engine_Inr(2) [OF assms(1) k]] obtain x where
    x: "executable_of a = Inr x" "grp ! k = fst (run_case (wh_host w) (wh_process w e (Suc k)) (wh_elapsed w e (Suc k))
      (wh_timeout_text w) (cases ! k) e x True (Some suite) [])" by metis
  have "executable_for artifacts e = x" using x(1) assms(3) by (simp add: executable_for_def)
  then show "grp ! k = map (lane_run w suite cases artifacts e) cases ! k"
    using k x(2) position_of_nth [OF assms(2) k] by (simp add: lane_run_def)
qed

lemma run_engines_eq:
  assumes "run_engines w suite before cases artifacts = Inr results" and "distinct (map c_id cases)"
    and "distinct (map fst artifacts)"
  shows "results = engine_results (lane_run w suite cases artifacts) (map fst artifacts) cases"
proof -
  from assms(1) obtain groups where groups: "results = concat groups"
    "list_all2 (\<lambda>x grp. run_engine w suite before cases x = Inr grp) artifacts groups"
    by (auto simp: run_engines_def bindE_Inr_iff mapE_Inr_iff)
  have "groups = map (\<lambda>e. map (lane_run w suite cases artifacts e) cases) (map fst artifacts)"
  proof (rule nth_equalityI)
    show "length groups = length (map (\<lambda>e. map (lane_run w suite cases artifacts e) cases) (map fst artifacts))"
      using list_all2_lengthD [OF groups(2)] by simp
    fix k assume "k < length groups"
    then have k: "k < length artifacts" using list_all2_lengthD [OF groups(2)] by simp
    obtain e a where ea: "artifacts ! k = (e, a)" by (cases "artifacts ! k")
    have "map_of artifacts e = Some a"
      using assms(3) ea k by (metis map_of_eq_Some_iff nth_mem)
    moreover have "run_engine w suite before cases (e, a) = Inr (groups ! k)"
      using list_all2_nthD [OF groups(2) k] ea by simp
    ultimately show "groups ! k = map (\<lambda>e. map (lane_run w suite cases artifacts e) cases) (map fst artifacts) ! k"
      using run_engine_eq [OF _ assms(2)] k ea by simp
  qed
  with groups(1) show ?thesis by (simp add: engine_results_def)
qed

lemma good_case_judged: "good_case h base c \<Longrightarrow> case_judged c"
  by (auto simp: good_case_def case_judged_def)

lemma load_cases_Inr:
  assumes "load_cases w suite = Inr cases"
  obtains tree where "wh_catalog w = Inr tree" "load_catalog (wh_host w) suite tree = Inr cases"
    "distinct (map c_id cases)" "\<forall>c \<in> set cases. case_judged c" "\<exists>c \<in> set cases. c_skip_reason c = []"
proof -
  from assms obtain tree where t: "wh_catalog w = Inr tree" "load_catalog (wh_host w) suite tree = Inr cases"
    "\<exists>c \<in> set cases. c_skip_reason c = []" by (auto simp: load_cases_def bindE_Inr_iff split: if_splits)
  from load_catalog_inv [OF t(2)] have "distinct (map c_id cases)" "\<forall>c \<in> set cases. case_judged c"
    by (auto simp: catalog_inv_def intro: good_case_judged)
  with t show ?thesis using that by blast
qed

text \<open>A lane that returned, seen as the functions above: the catalog it read, the judged runs it
  compared, and the report made of them.\<close>

lemma run_lane_returned:
  assumes "run_lane w = (evs, Inr rep)"
  obtains tree suite source before cases st where
    "wh_catalog w = Inr tree" "load_catalog (wh_host w) suite tree = Inr cases"
    "build_all w = Inr st" "distinct (map c_id cases)" "\<forall>c \<in> set cases. case_judged c"
    "rep = make_report source before cases st
       (engine_results (lane_run w suite cases (bs_artifacts st)) implementations cases)
       (map (\<lambda>c. comparison_row c (lane_run w suite cases (bs_artifacts st) ''xpact'' c)
                                   (lane_run w suite cases (bs_artifacts st) ''xpact-core'' c)) cases)"
    "run_engines w suite before cases (bs_artifacts st)
       = Inr (engine_results (lane_run w suite cases (bs_artifacts st)) implementations cases)"
    "suite_snapshot (wh_digest w) (wh_walk w Prepared) = Inr before"
    "forE (\<lambda>(i, a). w3c_verify_artifact (wh_sha w Finish) a) (bs_artifacts st) = Inr ()"
proof -
  from assms obtain suite source before cases st results rows where
    p: "prepare_run w = Inr (suite, source, before, cases, st)"
    and x: "execute_run w suite before cases st = Inr (results, rows)"
    and rep: "rep = make_report source before cases st results rows"
    by (elim run_lane_Inr lane_body_Inr) blast
  from p have before: "suite_snapshot (wh_digest w) (wh_walk w Prepared) = Inr before"
    and lc: "load_cases w suite = Inr cases" and b: "build_all w = Inr st"
    unfolding prepare_run_def by (auto simp: bindE_Inr_iff)
  from load_cases_Inr [OF lc] obtain tree where t: "wh_catalog w = Inr tree"
    "load_catalog (wh_host w) suite tree = Inr cases" "distinct (map c_id cases)"
    "\<forall>c \<in> set cases. case_judged c" by blast
  note arts = build_all_Inr(3) [OF b]
  from x have e: "run_engines w suite before cases (bs_artifacts st) = Inr results"
    and rows: "comparison_rows cases results = Inr rows"
    and fin: "forE (\<lambda>(i, a). w3c_verify_artifact (wh_sha w Finish) a) (bs_artifacts st) = Inr ()"
    unfolding execute_run_def by (auto simp: bindE_Inr_iff)
  have "distinct (map fst (bs_artifacts st))" unfolding arts by (simp add: implementations_def)
  from run_engines_eq [OF e t(3) this] have results: "results =
      engine_results (lane_run w suite cases (bs_artifacts st)) implementations cases" unfolding arts .
  from rows have "rows = map (\<lambda>c. comparison_row c (lane_run w suite cases (bs_artifacts st) ''xpact'' c)
      (lane_run w suite cases (bs_artifacts st) ''xpact-core'' c)) cases"
    unfolding results comparison_rows_run [OF faithful_lane_run t(3,4)] by simp
  with that [OF t(1,2) b t(3,4) _ _ before fin] rep e results show ?thesis by blast
qed

section \<open>Summaries\<close>

lemma statuses_counted:
  assumes "\<forall>r \<in> set rs. r_status r \<in> {''passed'', ''failed'', ''error'', ''skipped''}"
  shows "count_if (\<lambda>r. r_status r = ''passed'') rs + count_if (\<lambda>r. r_status r = ''failed'') rs
    + count_if (\<lambda>r. r_status r = ''error'') rs + count_if (\<lambda>r. r_status r = ''skipped'') rs = length rs"
  using assms by (induction rs) auto

lemma filter_engine_results:
  assumes "faithful_run run" and "distinct engines" and "e \<in> set engines"
  shows "filter (\<lambda>r. r_engine r = e) (engine_results run engines cases) = map (run e) cases"
proof -
  have *: "filter (\<lambda>r. r_engine r = e) (map (run d) cases) = (if d = e then map (run e) cases else [])" for d
    using faithful_runE(2) [OF assms(1)] by (induction cases) auto
  have "filter (\<lambda>r. r_engine r = e) (engine_results run engines cases)
      = concat (map (\<lambda>d. if d = e then map (run e) cases else []) engines)"
    unfolding engine_results_def filter_concat map_map comp_def * ..
  also have "\<dots> = map (run e) cases"
    using assms(2,3) by (induction engines) auto
  finally show ?thesis .
qed

lemma engine_summary_run:
  assumes "faithful_run run" and "e \<in> set implementations"
    and s: "s = engine_summary (engine_results run implementations cases) e"
  shows "s_engine s = e" "s_total s = length cases"
    "s_skipped s = count_if (\<lambda>c. c_skip_reason c \<noteq> []) cases"
    "s_passed s + s_failed s + s_errors s + s_skipped s = length cases"
proof -
  have "distinct implementations" by (simp add: implementations_def)
  note rows = filter_engine_results [OF assms(1) this assms(2)]
  show "s_engine s = e" "s_total s = length cases"
    by (simp_all add: s engine_summary_def rows Let_def)
  have skipped: "(r_status (run e c) = ''skipped'') = (c_skip_reason c \<noteq> [])" for c
    using faithful_runE(9,10) [OF assms(1)] by blast
  have "count_if (\<lambda>r. r_status r = ''skipped'') (map (run e) cases) = count_if (\<lambda>c. c_skip_reason c \<noteq> []) cases"
    by (induction cases) (simp_all only: list.map count_if_simps skipped)
  then show "s_skipped s = count_if (\<lambda>c. c_skip_reason c \<noteq> []) cases"
    by (simp add: s engine_summary_def rows Let_def)
  have "r_status (run e c) \<in> {''passed'', ''failed'', ''error'', ''skipped''}" for c
    using faithful_runE(3) [OF assms(1), of e c] unfolding result_wf_def by blast
  then have "\<forall>r \<in> set (map (run e) cases). r_status r \<in> {''passed'', ''failed'', ''error'', ''skipped''}" by simp
  from statuses_counted [OF this] show "s_passed s + s_failed s + s_errors s + s_skipped s = length cases"
    by (simp add: s engine_summary_def rows Let_def)
qed

end
