(* ===== verification/Jenkins_Reports.thy ===== *)
theory Jenkins_Reports
  imports Lane_Runner Py_Number Dual_Lane
begin

text \<open>
  \<open>scripts/dual_jenkins_reports.py\<close>: which lane reports may supply plot values
  (\<open>validate_artifacts\<close>, \<open>validate_controls\<close>, \<open>catalog_plots\<close>, \<open>w3c_plots\<close>),
  and the publication of the plot files with the manifest last (\<open>publish_reports\<close>). A report
  is the JSON value read from disk. The HTML page is rendered by the host: whether that succeeds is
  an input.
\<close>

section \<open>Numbers\<close>

definition CATALOG_CONTROLS :: "string list" where
  "CATALOG_CONTROLS = [''catalog_observed'', ''catalog_noop'', ''observed_reuse_recovery'',
     ''noop_reuse_recovery'', ''gc_restoration'']"

definition W3C_CONTROLS :: "string list" where
  "W3C_CONTROLS = [''raw_utf8'', ''raw_utf16'', ''namespace_switch'', ''reuse_recovery'', ''gc_restoration'']"

definition PLOT_IDS :: "string list" where
  "PLOT_IDS = [''dual-catalog-ms-per-1000-documents'', ''dual-catalog-mib-per-second'',
     ''dual-w3c-passed'', ''dual-w3c-wrong-verdicts'', ''dual-w3c-errors'', ''dual-w3c-excluded'']"

definition positive_number :: "json \<Rightarrow> rat py" where
  \<comment> \<open>\<open>math.isfinite\<close> of an integer outside the range of floats overflows\<close>
  "positive_number v =
     (let bad = Inl (ReportsError ''Catalog measurements must be finite positive numbers'') in
      case v of
        JInt i \<Rightarrow> if of_int \<bar>i\<bar> \<ge> max_double_bound then Inl OverflowError
                 else if i > 0 then Inr (of_int i) else bad
      | JFloat (Fin q) \<Rightarrow> if q > 0 then Inr q else bad
      | _ \<Rightarrow> bad)"

definition case_count :: "bool \<Rightarrow> json \<Rightarrow> int py" where
  \<comment> \<open>\<open>count(value, positive=...)\<close>; a \<open>bool\<close> is not an \<open>int\<close> here\<close>
  "case_count positive v =
     (case v of JInt n \<Rightarrow> if n < (if positive then 1 else 0)
          then Inl (ReportsError ''Case counts must be nonnegative integers'') else Inr n
      | _ \<Rightarrow> Inl (ReportsError ''Case counts must be nonnegative integers''))"

lemma case_count_Inr_iff: "case_count positive v = Inr n \<longleftrightarrow> v = JInt n \<and> (if positive then 1 else 0) \<le> n"
  by (cases v) (auto simp: case_count_def)

section \<open>Provenance\<close>

definition artifact_differs :: "string \<Rightarrow> string \<Rightarrow> json \<Rightarrow> bool py" where
  "artifact_differs profile engine artifact =
     anyE [item_ne artifact ''status'' ''verified'',
       item_ne artifact ''profile'' profile,
       item_ne artifact ''implementation'' engine,
       bindE (py_item (map_of GC_POLICIES) engine) (\<lambda>p. item_ne artifact ''gc_policy'' p),
       bindE (j_item artifact ''build'') (\<lambda>b. item_ne b ''configuration'' ''finalized/assertions-off/msvc-x64''),
       bindE (j_item artifact ''build'') (\<lambda>b. item_ne b ''mode'' ''finalized''),
       bindE (j_item artifact ''build'') (\<lambda>b. item_is_not b ''assertions'' False)]"

definition not_hex :: "nat \<Rightarrow> json py \<Rightarrow> bool py" where
  "not_hex n m = bindE (bindE m (j_hex n)) (\<lambda>b. Inr (\<not> b))"

definition unidentified :: "json \<Rightarrow> bool py" where
  "unidentified artifact =
     anyE [not_hex 40 (path_item artifact [''source'', ''revision'']),
           not_hex 64 (j_item artifact ''executable_sha256''),
           not_hex 64 (j_item artifact ''build_inputs_sha256'')]"

definition validate_artifact :: "string \<Rightarrow> string \<times> json \<Rightarrow> unit py" where
  "validate_artifact profile = (\<lambda>(engine, artifact).
     bindE (artifact_differs profile engine artifact) (\<lambda>bad.
     if bad then Inl (ReportsError ''Plot artifact differs from the selected finalized configuration'')
     else bindE (unidentified artifact) (\<lambda>bad.
       raise_if bad (ReportsError ''Plot provenance lacks source or executable identity''))))"

definition validate_artifacts :: "json \<Rightarrow> string \<Rightarrow> unit py" where
  "validate_artifacts report profile =
     bindE (j_item report ''artifacts'') (\<lambda>artifacts.
     bindE (bindE (j_iter artifacts) (\<lambda>keys. j_set_is keys implementations)) (\<lambda>same.
     if \<not> same then Inl (ReportsError ''Both implementation artifacts are required'')
     else bindE (j_items artifacts) (forE (validate_artifact profile))))"

section \<open>Directed controls\<close>

definition control_matrix_bad :: "(json \<times> json) list \<Rightarrow> bool py" where
  \<comment> \<open>the condition on the pairs of implementation and assertion mode\<close>
  "control_matrix_bad keys =
     (if length keys \<noteq> 4 then Inr True
      else if \<exists>(i, a) \<in> set keys. \<not> hashable i \<or> \<not> hashable a then Inl TypeError
      else Inr (set keys \<noteq> set (map (\<lambda>(e, b). (JStr e, JBool b)) (List.product implementations [True, False]))))"

definition control_outcome_bad :: "json \<Rightarrow> bool py" where
  "control_outcome_bad c = bindE (j_item c ''status'') (\<lambda>s. Inr (s \<notin> {JStr ''PASS'', JStr ''FAIL''}))"

definition control_row :: "string \<Rightarrow> json \<Rightarrow> bool py" where
  \<comment> \<open>whether one row of directed controls has a failure\<close>
  "control_row profile row =
     bindE (item_ne row ''status'' (if profile = ''catalog'' then ''qualified'' else ''executed'')) (\<lambda>bad.
     if bad then Inl (ReportsError ''Directed controls were not executed'')
     else bindE (j_get row ''qualification_error'') (\<lambda>qerror.
     if truthy qerror then
       (if profile = ''catalog'' then Inl (ReportsError ''Control process errors cannot supply passing qualification'')
        else bindE (j_item row ''cases'') (\<lambda>cases.
          if truthy cases then Inl (ReportsError ''Control process errors cannot supply passing qualification'')
          else Inr True))
     else bindE (j_item row ''cases'') (\<lambda>cases. bindE (j_iter cases) (\<lambda>cases.
       bindE (mapE (\<lambda>c. j_item c ''case_id'') cases) (\<lambda>names.
       let expected = (if profile = ''catalog'' then CATALOG_CONTROLS else W3C_CONTROLS) in
       bindE (if length names \<noteq> length expected then Inr False else j_set_is names expected) (\<lambda>same.
       if \<not> same then Inl (ReportsError ''Directed control matrix is incomplete or duplicated'')
       else bindE (anyE (map control_outcome_bad cases)) (\<lambda>bad.
       if bad then Inl (ReportsError ''Invalid directed control outcome'')
       else anyE (map (\<lambda>c. bindE (j_item c ''status'') (\<lambda>s. Inr (s = JStr ''FAIL''))) cases))))))))"

definition validate_controls :: "json \<Rightarrow> string \<Rightarrow> bool py" where
  "validate_controls report profile =
     bindE (j_item report ''qualification'') (\<lambda>q. bindE (j_iter q) (\<lambda>rows.
     bindE (mapE (\<lambda>row. bindE (j_item row ''implementation'') (\<lambda>i.
                        bindE (j_item row ''assertions'') (\<lambda>a. Inr (i, a)))) rows) (\<lambda>keys.
     bindE (control_matrix_bad keys) (\<lambda>bad.
     if bad then
       Inl (ReportsError ''Directed controls must cover both assertion modes for both implementations'')
     else bindE (mapE (control_row profile) rows) (\<lambda>failures.
     let has_failures = (True \<in> set failures) in
     if profile = ''catalog'' \<and> has_failures then
       Inl (ReportsError ''A failed catalog correctness gate cannot supply benchmark values'')
     else Inr has_failures)))))"

section \<open>Plots\<close>

record plot =
  sp_token :: string
  sp_group :: string
  sp_title :: string
  sp_yaxis :: string
  sp_values :: "rat list"

definition plot_spec :: "string \<Rightarrow> string \<Rightarrow> string \<Rightarrow> string \<Rightarrow> rat list \<Rightarrow> plot" where
  "plot_spec token group_name title yaxis content =
     \<lparr>sp_token = token, sp_group = group_name, sp_title = title, sp_yaxis = yaxis, sp_values = content\<rparr>"

record pair_row =
  pr_iterations :: int
  pr_baseline_ms :: rat
  pr_candidate_ms :: rat
  pr_baseline_rate :: rat
  pr_candidate_rate :: rat

definition order_of :: "nat \<Rightarrow> string" where
  \<comment> \<open>which executable starts pair \<open>n\<close>\<close>
  "order_of n = (if odd n then ''AB'' else ''BA'')"

definition item_is_int :: "json \<Rightarrow> string \<Rightarrow> int \<Rightarrow> bool py" where
  "item_is_int v k n = bindE (j_item v k) (\<lambda>w. Inr (py_eq w (JInt n)))"

definition notE :: "bool py \<Rightarrow> bool py" where
  "notE m = bindE m (\<lambda>b. Inr (\<not> b))"

definition measurement :: "json \<Rightarrow> string \<Rightarrow> int \<Rightarrow> int \<Rightarrow> (rat \<times> rat) py" where
  \<comment> \<open>elapsed time and rate of one executable, checked against each other\<close>
  "measurement row prefix document_bytes iterations =
     bindE (bindE (j_item row (prefix @ ''ElapsedMs'')) positive_number) (\<lambda>elapsed.
     bindE (bindE (j_item row (prefix @ ''MiBPerSecond'')) positive_number) (\<lambda>rate.
     let computed = of_int (document_bytes * iterations) / (1024 * 1024) / (elapsed / 1000) in
     if \<not> isclose (1 / 10 ^ 9) rate computed then
       Inl (ReportsError ''Catalog throughput contradicts elapsed time and document count'')
     else Inr (elapsed, rate)))"

definition catalog_row :: "int \<Rightarrow> nat \<times> json \<Rightarrow> pair_row py" where
  "catalog_row document_bytes = (\<lambda>(index, row).
     bindE (bindE (j_item row ''Iterations'') (case_count True)) (\<lambda>iterations.
     bindE (anyE [item_ne row ''Workload'' ''catalog'',
                  notE (item_is_int row ''Pair'' (int index)),
                  item_ne row ''Order'' (order_of index),
                  notE (item_is_int row ''DocumentBytes'' document_bytes)]) (\<lambda>bad.
     if bad then Inl (ReportsError ''Catalog plot data changed workload, input or pair sequence'')
     else bindE (measurement row ''Baseline'' document_bytes iterations) (\<lambda>(bms, brate).
       bindE (measurement row ''Candidate'' document_bytes iterations) (\<lambda>(cms, crate).
       Inr \<lparr>pr_iterations = iterations, pr_baseline_ms = bms, pr_candidate_ms = cms,
            pr_baseline_rate = brate, pr_candidate_rate = crate\<rparr>)))))"

definition normalized :: "(pair_row \<Rightarrow> rat) \<Rightarrow> pair_row list \<Rightarrow> rat" where
  "normalized ms rows = median (map (\<lambda>row. ms row / of_int (pr_iterations row) * 1000) rows)"

definition catalog_plots :: "json \<Rightarrow> plot list py" where
  "catalog_plots report =
     bindE (anyE [item_ne report ''status'' ''complete'',
                  item_ne report ''lane'' ''catalog-finalized-assertions-off'']) (\<lambda>bad.
     if bad then Inl (ReportsError ''An incomplete catalog campaign cannot supply plot values'')
     else bindE (validate_artifacts report ''catalog'') (\<lambda>_.
     bindE (validate_controls report ''catalog'') (\<lambda>_.
     bindE (j_item report ''comparison'') (\<lambda>comparison.
     bindE (j_item comparison ''results'') (\<lambda>results.
     bindE (bindE (path_item comparison [''metadata'', ''pairs'']) (case_count True)) (\<lambda>pairs.
     bindE (j_iter results) (\<lambda>rows.
     if int (length rows) \<noteq> pairs then Inl (ReportsError ''Catalog measurement pairs are incomplete'')
     else bindE (bindE (path_item report [''input'', ''bytes'']) (case_count True)) (\<lambda>document_bytes.
     bindE (mapE (catalog_row document_bytes) (enumerate 1 rows)) (\<lambda>pairs.
     if card (pr_iterations ` set pairs) \<noteq> 1 then
       Inl (ReportsError ''Catalog pairs use different iteration counts'')
     else Inr
       [plot_spec ''dual-catalog-ms-per-1000-documents'' ''Dual catalog''
          ''Catalog finalized, assertions discarded: time per 1,000 documents''
          ''Median ms per 1,000 documents'' [normalized pr_baseline_ms pairs, normalized pr_candidate_ms pairs],
        plot_spec ''dual-catalog-mib-per-second'' ''Dual catalog''
          ''Catalog finalized, assertions discarded: throughput'' ''Median MiB/s''
          [median (map pr_baseline_rate pairs), median (map pr_candidate_rate pairs)]])))))))))"

record engine_row =
  ec_engine :: json
  ec_total :: int
  ec_passed :: int
  ec_failed :: int
  ec_errors :: int
  ec_skipped :: int

definition engine_counts :: "int \<Rightarrow> json \<Rightarrow> engine_row py" where
  "engine_counts case_total row =
     bindE (j_item row ''engine'') (\<lambda>engine.
     bindE (bindE (j_item row ''total'') (case_count False)) (\<lambda>t.
     bindE (bindE (j_item row ''passed'') (case_count False)) (\<lambda>p.
     bindE (bindE (j_item row ''failed'') (case_count False)) (\<lambda>f.
     bindE (bindE (j_item row ''errors'') (case_count False)) (\<lambda>e.
     bindE (bindE (j_item row ''skipped'') (case_count False)) (\<lambda>s.
     if t \<noteq> case_total \<or> p + f + e + s \<noteq> case_total then Inl (ReportsError ''W3C case totals do not reconcile'')
     else Inr \<lparr>ec_engine = engine, ec_total = t, ec_passed = p, ec_failed = f, ec_errors = e, ec_skipped = s\<rparr>))))))"

definition counts_of :: "engine_row list \<Rightarrow> string \<Rightarrow> engine_row" where
  \<comment> \<open>\<open>{row["engine"]: row for row in rows}[engine]\<close>\<close>
  "counts_of rows engine = the (map_of (rev (map (\<lambda>r. (ec_engine r, r)) rows)) (JStr engine))"

definition w3c_plot_kinds :: "(string \<times> string \<times> (engine_row \<Rightarrow> int)) list" where
  "w3c_plot_kinds = [(''passed'', ''passed'', ec_passed), (''wrong-verdicts'', ''wrong verdicts'', ec_failed),
     (''errors'', ''process errors and timeouts'', ec_errors), (''excluded'', ''profile exclusions'', ec_skipped)]"

definition w3c_specs :: "engine_row \<Rightarrow> engine_row \<Rightarrow> plot list" where
  "w3c_specs own core = map (\<lambda>(token, title, value).
     plot_spec (''dual-w3c-'' @ token) ''Dual W3C conformance''
       (''W3C finalized, assertions discarded: '' @ title) ''Cases'' [of_int (value own), of_int (value core)])
     w3c_plot_kinds"

lemma w3c_specs_values: "map sp_values (w3c_specs own core) =
    map (\<lambda>value. [of_int (value own), of_int (value core)]) [ec_passed, ec_failed, ec_errors, ec_skipped]"
  by (simp add: w3c_specs_def w3c_plot_kinds_def plot_spec_def)

definition w3c_plots :: "json \<Rightarrow> plot list py" where
  "w3c_plots report =
     bindE (anyE [bindE (item_ne report ''status'' ''complete'') (\<lambda>b.
                    if b then item_ne report ''status'' ''complete_with_failures'' else Inr False),
                  item_ne report ''lane'' ''w3c-finalized-assertions-off'']) (\<lambda>bad.
     if bad then Inl (ReportsError ''An incomplete W3C campaign cannot supply plot values'')
     else bindE (validate_artifacts report ''w3c'') (\<lambda>_.
     bindE (validate_controls report ''w3c'') (\<lambda>control_failures.
     bindE (bindE (j_item report ''engines'') j_iter) (\<lambda>rows.
     bindE (if length rows \<noteq> 2 then Inr False
            else bindE (mapE (\<lambda>row. j_item row ''engine'') rows) (\<lambda>names. j_set_is names implementations)) (\<lambda>same.
     if \<not> same then Inl (ReportsError ''W3C counts must cover each implementation exactly once'')
     else bindE (bindE (path_item report [''source'', ''catalog_cases'']) (case_count True)) (\<lambda>case_total.
     bindE (mapE (engine_counts case_total) rows) (\<lambda>counts.
     let has_failures = control_failures \<or> (\<exists>c \<in> set counts. ec_failed c > 0 \<or> ec_errors c > 0);
         own = counts_of counts ''xpact''; core = counts_of counts ''xpact-core'' in
     if ec_skipped own \<noteq> ec_skipped core then
       Inl (ReportsError ''W3C profile exclusions differ between implementations'')
     else bindE (item_ne report ''status'' ''complete_with_failures'') (\<lambda>differs.
     if (\<not> differs) \<noteq> has_failures then
       Inl (ReportsError ''W3C campaign status contradicts its outcomes'')
     else Inr (w3c_specs own core)))))))))"

section \<open>Lane states\<close>

text \<open>The terminal states of a lane, ordered by severity.\<close>

datatype lane_state = Complete | CompleteWithFailures | Failed

fun state_name :: "lane_state \<Rightarrow> string" where
  "state_name Complete = ''complete''"
| "state_name CompleteWithFailures = ''complete_with_failures''"
| "state_name Failed = ''failed''"

fun severity :: "lane_state \<Rightarrow> nat" where
  "severity Complete = 0"
| "severity CompleteWithFailures = 1"
| "severity Failed = 2"

instantiation lane_state :: linorder
begin

definition less_eq_lane_state :: "lane_state \<Rightarrow> lane_state \<Rightarrow> bool" where
  "less_eq_lane_state a b = (severity a \<le> severity b)"

definition less_lane_state :: "lane_state \<Rightarrow> lane_state \<Rightarrow> bool" where
  "less_lane_state a b = (severity a < severity b)"

instance
proof
  fix a b :: lane_state
  show "a \<le> b \<Longrightarrow> b \<le> a \<Longrightarrow> a = b"
    by (cases a; cases b) (simp_all add: less_eq_lane_state_def)
qed (auto simp: less_eq_lane_state_def less_lane_state_def)

end

definition overall_state :: "string list \<Rightarrow> string" where
  \<comment> \<open>\<open>expected_status\<close>\<close>
  "overall_state states =
     (if ''failed'' \<in> set states then ''failed''
      else if ''complete_with_failures'' \<in> set states then ''complete_with_failures''
      else ''complete'')"

lemma inj_state_name: "inj state_name"
  by (rule injI, rename_tac a b, case_tac a; case_tac b; simp)

lemma overall_state_Max:
  assumes "states \<noteq> []"
  shows "overall_state (map state_name states) = state_name (Max (set states))"
proof -
  have "Max (set states) = (if Failed \<in> set states then Failed
      else if CompleteWithFailures \<in> set states then CompleteWithFailures else Complete)"
  proof (rule Max_eqI)
    show "y \<le> (if Failed \<in> set states then Failed
      else if CompleteWithFailures \<in> set states then CompleteWithFailures else Complete)" if "y \<in> set states" for y
      by (cases y; use that in \<open>simp add: less_eq_lane_state_def\<close>)
    show "(if Failed \<in> set states then Failed
      else if CompleteWithFailures \<in> set states then CompleteWithFailures else Complete) \<in> set states"
    proof -
      obtain x where "x \<in> set states" using assms by (cases states) auto
      then show ?thesis by (cases "x = Complete"; cases "x = Failed") (use lane_state.exhaust [of x] in auto)
    qed
  qed simp
  moreover have "(''failed'' \<in> set (map state_name states)) = (Failed \<in> set states)"
    "(''complete_with_failures'' \<in> set (map state_name states)) = (CompleteWithFailures \<in> set states)"
    using inj_image_mem_iff [OF inj_state_name, of Failed "set states"]
      inj_image_mem_iff [OF inj_state_name, of CompleteWithFailures "set states"] by simp_all
  ultimately show ?thesis unfolding overall_state_def by simp
qed

section \<open>Publication\<close>

definition MANIFEST :: string where
  "MANIFEST = ''plots.tsv''"

definition HTML_REPORT :: string where
  "HTML_REPORT = ''dual-implementation-plots.html''"

definition plot_file :: "plot \<Rightarrow> string" where
  "plot_file spec = sp_token spec @ ''.csv''"

record publication =
  pb_manifest_rows :: "string list list"
  pb_plots :: nat

definition manifest_line :: "(string \<Rightarrow> string) \<Rightarrow> plot \<Rightarrow> string list" where
  \<comment> \<open>\<open>source\<close> is the path of a published file as the manifest names it\<close>
  "manifest_line source spec =
     [source (plot_file spec), ''plot-'' @ plot_file spec, sp_group spec, sp_title spec, sp_yaxis spec]"

definition lane_plots :: "(string \<times> json) list \<Rightarrow> string \<times> json \<Rightarrow> plot list py" where
  "lane_plots lane_reports = (\<lambda>(lane, row).
     bindE (bindE (item_ne row ''status'' ''complete'') (\<lambda>b.
       if b then item_ne row ''status'' ''complete_with_failures'' else Inr False)) (\<lambda>incomplete.
     case (incomplete, map_of lane_reports lane) of
       (False, None) \<Rightarrow> Inl (ReportsError ''Completed lane evidence is missing or has a different status'')
     | (False, Some report) \<Rightarrow>
         bindE (bindE (j_item report ''status'') (\<lambda>a. bindE (j_item row ''status'') (\<lambda>b. Inr (py_eq a b)))) (\<lambda>same.
         if \<not> same then Inl (ReportsError ''Completed lane evidence is missing or has a different status'')
         else if lane = ''catalog'' then catalog_plots report else w3c_plots report)
     | (True, Some report) \<Rightarrow> Inl (ReportsError ''An incomplete lane cannot supply numeric plot values'')
     | (True, None) \<Rightarrow> bindE (item_ne row ''status'' ''failed'') (\<lambda>bad.
         if bad then Inl (ReportsError ''An incomplete lane cannot supply numeric plot values'') else Inr [])))"

definition status_text :: "json \<Rightarrow> string" where
  "status_text v = (case v of JStr s \<Rightarrow> s | _ \<Rightarrow> [])"

definition collect_plots :: "json \<Rightarrow> (string \<times> json) list \<Rightarrow> plot list py" where
  \<comment> \<open>every check before the first file is written\<close>
  "collect_plots state lane_reports =
     bindE (j_item state ''build_id'') (\<lambda>build_id.
     if \<not> (\<exists>s. build_id = JStr s \<and> s \<noteq> []) then Inl (ReportsError ''A Jenkins build owner is required'')
     else bindE (j_item state ''status'') (\<lambda>status.
     if status \<notin> JStr ` {''complete'', ''complete_with_failures'', ''failed''} then
       Inl (ReportsError ''Only terminal campaign states can publish plot values'')
     else bindE (j_item state ''lanes'') (\<lambda>lanes.
     bindE (bindE (j_iter lanes) (\<lambda>keys. j_set_is keys [''catalog'', ''w3c''])) (\<lambda>same.
     if \<not> same \<or> \<not> fst ` set lane_reports \<subseteq> {''catalog'', ''w3c''} then
       Inl (ReportsError ''Unknown or missing dual campaign lane'')
     else bindE (j_items lanes) (\<lambda>rows.
     bindE (mapE (lane_plots lane_reports) rows) (\<lambda>plots.
     bindE (mapE (\<lambda>(lane, row). j_item row ''status'') rows) (\<lambda>states.
     if status \<noteq> JStr (overall_state (map status_text states)) then
       Inl (ReportsError ''Overall campaign status contradicts lane states'')
     else Inr (concat plots))))))))"

definition converted :: "exn \<Rightarrow> exn" where
  \<comment> \<open>\<open>except (KeyError, TypeError, IndexError)\<close>\<close>
  "converted e = (case e of
      KeyError _ \<Rightarrow> ReportsError (''Invalid completed lane report: '' @ exn_text e)
    | TypeError \<Rightarrow> ReportsError (''Invalid completed lane report: '' @ exn_text e)
    | IndexError \<Rightarrow> ReportsError (''Invalid completed lane report: '' @ exn_text e)
    | _ \<Rightarrow> e)"

definition publish_body :: "(string \<Rightarrow> unit py) \<Rightarrow> (string \<Rightarrow> string) \<Rightarrow> unit py \<Rightarrow> plot list py
    \<Rightarrow> publication lane" where
  \<comment> \<open>\<open>html\<close> is the rendering of the page\<close>
  "publish_body write source html checked =
     bindA (pureA checked) (\<lambda>plots.
     bindA (seqA (map (\<lambda>spec. write_atomic write (plot_file spec)) plots)) (\<lambda>_.
     bindA (pureA html) (\<lambda>_.
     bindA (write_atomic write HTML_REPORT) (\<lambda>_.
     bindA (write_atomic write MANIFEST) (\<lambda>_.
     pureA (Inr \<lparr>pb_manifest_rows = map (manifest_line source) plots, pb_plots = length plots\<rparr>))))))"

definition jenkins_publish_reports :: "(string \<Rightarrow> unit py) \<Rightarrow> (string \<Rightarrow> string) \<Rightarrow> unit py \<Rightarrow> json
    \<Rightarrow> (string \<times> json) list \<Rightarrow> publication lane" where
  "jenkins_publish_reports write source html state lane_reports =
     bindA (emitA Cleared) (\<lambda>_.
     case or_clear (publish_body write source html (collect_plots state lane_reports)) of
       (evs, r) \<Rightarrow> (evs, map_sum converted id r))"

end
