(* ===== verification/Report_Bridge.thy ===== *)
theory Report_Bridge
  imports Dual_W3C_Proofs Jenkins_Reports
begin

text \<open>
  From the lane to its readers: the JSON value of the report that \<open>run_lane\<close> of
  \<open>scripts/run_dual_w3c.py\<close> writes to \<open>report.json\<close>, and what its rows of directed
  controls satisfy, so that the readers' checks can be compared with what the lane produces.
\<close>

section \<open>The report as JSON\<close>

definition control_json :: "control \<Rightarrow> json" where
  "control_json c = JObj [(''case_id'', JStr (ctl_id c)), (''status'', JStr (ctl_status c)), (''detail'', JStr (ctl_detail c))]"

definition build_row_json :: "(string \<Rightarrow> bool \<Rightarrow> string) \<Rightarrow> build_row \<Rightarrow> json" where
  \<comment> \<open>an executed row; \<open>manifest\<close> names the \<open>build.json\<close> of a build\<close>
  "build_row_json manifest q = JObj
     ([(''implementation'', JStr (b_implementation q)), (''assertions'', JBool (b_assertions q)),
       (''status'', JStr (b_status q))]
      @ (case b_qualification_error q of None \<Rightarrow> [] | Some m \<Rightarrow> [(''qualification_error'', JStr m)])
      @ [(''manifest'', JStr (manifest (b_implementation q) (b_assertions q))),
         (''cases'', JList (map control_json (b_cases q)))])"

definition engine_json :: "engine_totals \<Rightarrow> json" where
  "engine_json s = JObj [(''engine'', JStr (s_engine s)), (''total'', JInt (int (s_total s))),
     (''passed'', JInt (int (s_passed s))), (''failed'', JInt (int (s_failed s))),
     (''errors'', JInt (int (s_errors s))), (''skipped'', JInt (int (s_skipped s)))]"

definition source_json :: "lane_report \<Rightarrow> json" where
  "source_json rep = JObj
     [(''source_mode'', JStr (source_mode (lr_provenance rep))),
      (''archive_sha256'', case archive_sha256 (lr_provenance rep) of None \<Rightarrow> JNull | Some d \<Rightarrow> JStr d),
      (''suite_sha256'', JStr (lr_suite_sha256 rep)), (''catalog_cases'', JInt (int (lr_catalog_cases rep))),
      (''expectation_adjustments'', JList (map (\<lambda>(i, catalog, expected, reason).
         JObj [(''case_id'', JStr i), (''catalog_expected'', JStr catalog), (''expected'', JStr expected),
               (''reason'', JStr reason)]) (lr_adjustments rep)))]"

definition report_json :: "(string \<Rightarrow> bool \<Rightarrow> string) \<Rightarrow> lane_report \<Rightarrow> json" where
  "report_json manifest rep = JObj
     [(''schema_version'', JInt 1), (''status'', JStr (lr_status rep)),
      (''lane'', JStr ''w3c-finalized-assertions-off''), (''source'', source_json rep),
      (''artifacts'', JObj (lr_artifacts rep)),
      (''qualification'', JList (map (build_row_json manifest) (lr_qualification rep))),
      (''engines'', JList (map engine_json (lr_engines rep))),
      (''agreement'', JObj [(''same_outcome'', JInt (int (lr_same_outcome rep))),
         (''different_outcome'', JInt (int (lr_different_outcome rep)))])]"

section \<open>Rows of directed controls\<close>

definition control_ok :: "control \<Rightarrow> bool" where
  "control_ok c \<longleftrightarrow> ctl_status c \<in> {''PASS'', ''FAIL''}"

definition controls_wf :: "build_row \<Rightarrow> bool" where
  \<comment> \<open>either the control process failed and there is no case, or every named control has an outcome\<close>
  "controls_wf q \<longleftrightarrow> b_status q = ''executed'' \<and>
     (case b_qualification_error q of
        Some m \<Rightarrow> m \<noteq> [] \<and> b_cases q = []
      | None \<Rightarrow> matrix_ok (map ctl_id (b_cases q)) W3C_CASES \<and> (\<forall>c \<in> set (b_cases q). control_ok c))"

lemma identity_line_not_LaneError: "identity_line t m \<noteq> Inl (LaneError x)"
  by (auto simp: identity_line_def bindE_Inl_iff j_item_def j_str_def split: json.splits option.splits)

lemma parse_control_status:
  "parse_control w3c_line_ok m line = Inr c \<Longrightarrow> control_ok c"
  by (auto simp: w3c_line_ok_def control_ok_def Let_def split: if_splits)

lemma w3c_validate_qualification_Inr:
  assumes "w3c_validate_qualification output metadata code = Inr rows"
  shows "matrix_ok (map ctl_id rows) W3C_CASES" "\<forall>c \<in> set rows. control_ok c"
proof -
  from assms have l: "list_all2 (\<lambda>line c. parse_control w3c_line_ok ''Invalid W3C qualification output: '' line = Inr c)
      (tl (splitlines output)) rows" and m: "matrix_ok (map ctl_id rows) W3C_CASES"
    by (auto simp: w3c_validate_qualification_def Let_def bindE_Inr_iff mapE_Inr_iff simp del: parse_control.simps
        split: if_splits)
  show "matrix_ok (map ctl_id rows) W3C_CASES" by (rule m)
  show "\<forall>c \<in> set rows. control_ok c"
  proof
    fix c assume "c \<in> set rows"
    then obtain i where "i < length rows" "rows ! i = c" by (auto simp: in_set_conv_nth)
    with list_all2_nthD2 [OF l, of i] show "control_ok c" by (auto intro: parse_control_status)
  qed
qed

lemma w3c_validate_qualification_LaneError:
  "w3c_validate_qualification output metadata code = Inl (LaneError m) \<Longrightarrow> m \<noteq> []"
proof -
  have p: "parse_control w3c_line_ok (c # pre) line = Inl (LaneError m) \<Longrightarrow> m \<noteq> []" for c pre line m
    by (auto simp: Let_def split: if_splits)
  have mp: "mapE (parse_control w3c_line_ok (c # pre)) ls = Inl (LaneError m) \<Longrightarrow> m \<noteq> []" for c pre ls m
    by (induction ls) (auto simp: bindE_Inl_iff simp del: parse_control.simps dest: p)
  show "w3c_validate_qualification output metadata code = Inl (LaneError m) \<Longrightarrow> m \<noteq> []"
    by (auto simp: w3c_validate_qualification_def Let_def bindE_Inl_iff identity_line_not_LaneError
        simp del: parse_control.simps dest: mp split: if_splits)
qed

lemma run_controls_wf:
  assumes "run_controls w i assertions artifact = Inr (q, cs)"
  shows "controls_wf (build_row_of i assertions ''executed'' None q cs)"
proof -
  let ?m = "bindE (j_item artifact ''executable'') (\<lambda>_.
        bindE (run_qualification (wh_qualify w i assertions)) (\<lambda>(output, code).
        w3c_validate_qualification output artifact code))"
  have "m \<noteq> []" if "?m = Inl (LaneError m)" for m
    using that w3c_validate_qualification_LaneError
    by (auto simp: bindE_Inl_iff j_item_def run_qualification_def split: json.splits option.splits outcome.splits)
  moreover have "matrix_ok (map ctl_id rows) W3C_CASES \<and> (\<forall>c \<in> set rows. control_ok c)"
    if "?m = Inr rows" for rows
    using that w3c_validate_qualification_Inr by (auto simp: bindE_Inr_iff)
  ultimately show ?thesis using assms unfolding run_controls_def controls_wf_def
    by (auto split: sum.splits exn.splits)
qed

lemma build_step_controls:
  assumes "build_step w assertions i st = Inr st'" and "\<forall>q \<in> set (bs_qualification st). controls_wf q"
  shows "\<forall>q \<in> set (bs_qualification st'). controls_wf q"
  using assms by (auto simp: build_step_def build_failed_def Let_def split: sum.splits if_splits)
    (erule run_controls_wf)+

lemma build_steps_controls:
  "build_steps w assertions is st = Inr st' \<Longrightarrow> \<forall>q \<in> set (bs_qualification st). controls_wf q \<Longrightarrow>
     \<forall>q \<in> set (bs_qualification st'). controls_wf q"
  by (induction "is" arbitrary: st) (auto simp: bindE_Inr_iff dest!: build_step_controls)

lemma build_all_controls:
  "build_all w = Inr st \<Longrightarrow> \<forall>q \<in> set (bs_qualification st). controls_wf q"
  unfolding build_all_def build_phase_def
  by (auto simp: bindE_Inr_iff split: if_splits dest!: build_steps_controls)

section \<open>The plot publisher accepts what the lane reports\<close>

lemma control_json_fields [simp]:
  "j_item (control_json c) ''case_id'' = Inr (JStr (ctl_id c))"
  "j_item (control_json c) ''status'' = Inr (JStr (ctl_status c))"
  by (simp_all add: control_json_def j_item_def obj_lookup_def)

lemma build_row_json_fields [simp]:
  "j_item (build_row_json m q) ''implementation'' = Inr (JStr (b_implementation q))"
  "j_item (build_row_json m q) ''assertions'' = Inr (JBool (b_assertions q))"
  "j_item (build_row_json m q) ''status'' = Inr (JStr (b_status q))"
  "j_item (build_row_json m q) ''cases'' = Inr (JList (map control_json (b_cases q)))"
  "j_get (build_row_json m q) ''qualification_error''
     = Inr (case b_qualification_error q of None \<Rightarrow> JNull | Some e \<Rightarrow> JStr e)"
  by (simp_all add: build_row_json_def j_item_def j_getd_def obj_lookup_def split: option.split)

lemma mapE_map: "mapE f (map g xs) = mapE (\<lambda>x. f (g x)) xs"
  by (induction xs) auto

lemma mapE_Inr [simp]: "mapE (\<lambda>x. Inr (g x)) xs = Inr (map g xs)"
  by (induction xs) auto

lemma anyE_total: "anyE (map (\<lambda>x. Inr (p x)) xs) = Inr (\<exists>x \<in> set xs. p x)"
  by (induction xs) (auto simp: anyE.simps)

lemma j_set_is_strings: "j_set_is (map (\<lambda>x. JStr (g x)) xs) names = Inr (set (map g xs) = set names)"
proof -
  have "(set (map (\<lambda>x. JStr (g x)) xs) = JStr ` set names) = (JStr ` set (map g xs) = JStr ` set names)"
    by (simp add: image_image)
  also have "\<dots> = (set (map g xs) = set names)" by (rule inj_image_eq_iff) (simp add: inj_def)
  finally show ?thesis by (simp add: j_set_is_def hashable_def)
qed

definition row_failed :: "build_row \<Rightarrow> bool" where
  \<comment> \<open>the control process or one of its controls failed\<close>
  "row_failed q \<longleftrightarrow> b_qualification_error q \<notin> {None, Some []} \<or> (\<exists>c \<in> set (b_cases q). ctl_status c = ''FAIL'')"

lemma control_row_json:
  assumes "controls_wf q"
  shows "control_row ''w3c'' (build_row_json m q) = Inr (row_failed q)"
proof (cases "b_qualification_error q")
  case (Some e)
  with assms show ?thesis
    by (simp add: controls_wf_def control_row_def item_ne_def truthy_def row_failed_def)
next
  case None
  with assms have q: "b_status q = ''executed''" "matrix_ok (map ctl_id (b_cases q)) W3C_CASES"
    "\<forall>c \<in> set (b_cases q). control_ok c" by (simp_all add: controls_wf_def)
  have names: "mapE (\<lambda>c. j_item c ''case_id'') (map control_json (b_cases q)) = Inr (map (\<lambda>c. JStr (ctl_id c)) (b_cases q))"
    by (simp add: mapE_map)
  have ok: "anyE (map control_outcome_bad (map control_json (b_cases q))) = Inr False"
    using q(3) unfolding anyE_False_iff by (auto simp: control_outcome_bad_def control_ok_def)
  have failed: "anyE (map (\<lambda>c. bindE (j_item c ''status'') (\<lambda>s. Inr (s = JStr ''FAIL''))) (map control_json (b_cases q)))
      = Inr (row_failed q)"
    by (simp add: map_map comp_def anyE_total None row_failed_def)
  have "W3C_CONTROLS = W3C_CASES" by (simp add: W3C_CONTROLS_def W3C_CASES_def)
  with q(2) have "length (b_cases q) = length W3C_CONTROLS" "set (map ctl_id (b_cases q)) = set W3C_CONTROLS"
    by (simp_all add: matrix_ok_def)
  then show ?thesis
    unfolding control_row_def
    by (simp add: None q(1) item_ne_def truthy_def j_iter_def names Let_def j_set_is_strings ok failed
        del: set_map list.map_comp map_map)
qed

lemma report_json_fields [simp]:
  "j_item (report_json m rep) ''status'' = Inr (JStr (lr_status rep))"
  "j_item (report_json m rep) ''lane'' = Inr (JStr ''w3c-finalized-assertions-off'')"
  "j_item (report_json m rep) ''artifacts'' = Inr (JObj (lr_artifacts rep))"
  "j_item (report_json m rep) ''qualification'' = Inr (JList (map (build_row_json m) (lr_qualification rep)))"
  "j_item (report_json m rep) ''engines'' = Inr (JList (map engine_json (lr_engines rep)))"
  "j_item (report_json m rep) ''source'' = Inr (source_json rep)"
  "j_item (source_json rep) ''catalog_cases'' = Inr (JInt (int (lr_catalog_cases rep)))"
  by (simp_all add: report_json_def source_json_def j_item_def obj_lookup_def)

lemma engine_json_fields [simp]:
  "j_item (engine_json s) ''engine'' = Inr (JStr (s_engine s))"
  "j_item (engine_json s) ''total'' = Inr (JInt (int (s_total s)))"
  "j_item (engine_json s) ''passed'' = Inr (JInt (int (s_passed s)))"
  "j_item (engine_json s) ''failed'' = Inr (JInt (int (s_failed s)))"
  "j_item (engine_json s) ''errors'' = Inr (JInt (int (s_errors s)))"
  "j_item (engine_json s) ''skipped'' = Inr (JInt (int (s_skipped s)))"
  by (simp_all add: engine_json_def j_item_def obj_lookup_def)

lemma artifact_differs_False:
  assumes "build_matches profile a e False"
  shows "artifact_differs profile e a = Inr False"
  using assms unfolding build_matches_def artifact_differs_def
  by (auto simp: anyE_False_iff pyE configuration_name_def)

lemma validate_artifacts_ok:
  assumes "j_item v ''artifacts'' = Inr (JObj artifacts)" and "map fst artifacts = implementations"
    and "\<And>e a. (e, a) \<in> set artifacts \<Longrightarrow> build_matches profile a e False \<and> unidentified a = Inr False"
  shows "validate_artifacts v profile = Inr ()"
proof -
  have "j_set_is (map (JStr \<circ> fst) artifacts) implementations = Inr True"
    using j_set_is_strings [of fst artifacts implementations] assms(2) by (simp add: comp_def del: set_map)
  moreover have "forE (validate_artifact profile) artifacts = Inr ()"
    unfolding forE_Inr_iff validate_artifact_def using assms(3) artifact_differs_False by fastforce
  ultimately show ?thesis by (simp add: validate_artifacts_def j_iter_def j_items_def assms(1))
qed

lemma validate_artifacts_json:
  assumes "map fst (lr_artifacts rep) = implementations"
    and "\<And>e a. (e, a) \<in> set (lr_artifacts rep) \<Longrightarrow> build_matches ''w3c'' a e False \<and> unidentified a = Inr False"
  shows "validate_artifacts (report_json m rep) ''w3c'' = Inr ()"
  by (rule validate_artifacts_ok [OF _ assms]) simp

definition CONTROL_KEYS :: "(string \<times> bool) list" where
  "CONTROL_KEYS = [(''xpact'', True), (''xpact-core'', True), (''xpact'', False), (''xpact-core'', False)]"

lemma control_matrix_ok: "control_matrix_bad (map (\<lambda>(i, a). (JStr i, JBool a)) CONTROL_KEYS) = Inr False"
proof -
  have "set (map (\<lambda>(e, b). (JStr e, JBool b)) (List.product implementations [True, False]))
      = set (map (\<lambda>(i, a). (JStr i, JBool a)) CONTROL_KEYS)"
    by (auto simp: implementations_def CONTROL_KEYS_def)
  then show ?thesis unfolding control_matrix_bad_def by (auto simp: hashable_def CONTROL_KEYS_def)
qed

lemma validate_controls_json:
  assumes "map (\<lambda>q. (b_implementation q, b_assertions q)) (lr_qualification rep)
      = [(''xpact'', True), (''xpact-core'', True), (''xpact'', False), (''xpact-core'', False)]"
    and "\<forall>q \<in> set (lr_qualification rep). controls_wf q"
  shows "validate_controls (report_json m rep) ''w3c'' = Inr (\<exists>q \<in> set (lr_qualification rep). row_failed q)"
proof -
  have "map (\<lambda>q. (JStr (b_implementation q), JBool (b_assertions q))) (lr_qualification rep)
      = map (\<lambda>(i, a). (JStr i, JBool a)) CONTROL_KEYS"
    unfolding CONTROL_KEYS_def assms(1) [symmetric] map_map comp_def by simp
  moreover have "mapE (control_row ''w3c'') (map (build_row_json m) (lr_qualification rep))
      = Inr (map row_failed (lr_qualification rep))"
    unfolding mapE_map by (rule mapE_total) (use assms(2) control_row_json in blast)
  ultimately show ?thesis
    by (auto simp: validate_controls_def j_iter_def mapE_map Let_def control_matrix_ok)
qed

definition summary_counts :: "engine_totals \<Rightarrow> engine_row" where
  "summary_counts s = \<lparr>ec_engine = JStr (s_engine s), ec_total = int (s_total s), ec_passed = int (s_passed s),
     ec_failed = int (s_failed s), ec_errors = int (s_errors s), ec_skipped = int (s_skipped s)\<rparr>"

lemma engine_counts_json:
  assumes "s_total s = n" and "s_passed s + s_failed s + s_errors s + s_skipped s = n"
  shows "engine_counts (int n) (engine_json s) = Inr (summary_counts s)"
  using assms by (auto simp: engine_counts_def case_count_def summary_counts_def)

lemma w3c_plots_json:
  assumes "lr_status rep = (if fails then ''complete_with_failures'' else ''complete'')"
    and "validate_artifacts (report_json m rep) ''w3c'' = Inr ()"
    and "validate_controls (report_json m rep) ''w3c'' = Inr cfails"
    and "lr_engines rep = [own, core]" "s_engine own = ''xpact''" "s_engine core = ''xpact-core''"
    and "\<And>s. s \<in> {own, core} \<Longrightarrow> s_total s = lr_catalog_cases rep
      \<and> s_passed s + s_failed s + s_errors s + s_skipped s = lr_catalog_cases rep"
    and "s_skipped own = s_skipped core" "lr_catalog_cases rep > 0"
    and "fails = (cfails \<or> (\<exists>s \<in> {own, core}. s_failed s > 0 \<or> s_errors s > 0))"
  shows "w3c_plots (report_json m rep) = Inr (w3c_specs (summary_counts own) (summary_counts core))"
proof -
  have counts: "engine_counts (int (lr_catalog_cases rep)) (engine_json s) = Inr (summary_counts s)"
    if "s \<in> {own, core}" for s
    using assms(7) [OF that] by (simp add: engine_counts_json)
  note counts = counts [of own, simplified] counts [of core, simplified]
  have ec: "ec_engine (summary_counts s) = JStr (s_engine s)" "ec_skipped (summary_counts s) = int (s_skipped s)"
    "ec_failed (summary_counts s) = int (s_failed s)" "ec_errors (summary_counts s) = int (s_errors s)" for s
    by (simp_all add: summary_counts_def)
  have by_name: "counts_of [summary_counts own, summary_counts core] ''xpact'' = summary_counts own"
    "counts_of [summary_counts own, summary_counts core] ''xpact-core'' = summary_counts core"
    using assms(5,6) by (simp_all add: counts_of_def ec)
  have same: "j_set_is [JStr ''xpact'', JStr ''xpact-core''] implementations = Inr True"
    by (auto simp: pyE implementations_def)
  have st: "anyE [bindE (item_ne (report_json m rep) ''status'' ''complete'') (\<lambda>b.
                    if b then item_ne (report_json m rep) ''status'' ''complete_with_failures'' else Inr False),
                  item_ne (report_json m rep) ''lane'' ''w3c-finalized-assertions-off''] = Inr False"
    using assms(1) by (simp add: anyE.simps item_ne_def)
  have differs: "item_ne (report_json m rep) ''status'' ''complete_with_failures'' = Inr (\<not> fails)"
    using assms(1) by (simp add: item_ne_def)
  have total: "case_count True (JInt (int (lr_catalog_cases rep))) = Inr (int (lr_catalog_cases rep))"
    using assms(9) by (simp add: case_count_def)
  have fails: "(cfails \<or> (\<exists>c \<in> set [summary_counts own, summary_counts core]. 0 < ec_failed c \<or> 0 < ec_errors c)) = fails"
    using assms(10) by (simp add: ec)
  show ?thesis
    unfolding w3c_plots_def st bindE_simps if_False assms(2,3)
    by (simp add: j_iter_def assms(4) assms(5,6) same total counts by_name ec(2) assms(8) differs fails
        Let_def del: list.set)
qed

end
