(* ===== verification/Dual_W3C_Sample.thy ===== *)
theory Dual_W3C_Sample
  imports Report_Bridge
begin

text \<open>
  A concrete run of the dual W3C lane over the two sample cases of \<open>W3C_Catalog\<close>: two engines
  that both reject, four builds with their directed controls. It returns and its status is
  \<open>complete\<close>; the properties of the lane and of its readers are witnessed on it.
\<close>

definition sample_digest :: string where
  "sample_digest = replicate 64 CHR ''a''"

definition sample_artifact :: "string \<Rightarrow> bool \<Rightarrow> json" where
  "sample_artifact implementation assertions = JObj
     [(''status'', JStr ''verified''), (''profile'', JStr ''w3c''), (''implementation'', JStr implementation),
      (''gc_policy'', JStr (the (map_of GC_POLICIES implementation))),
      (''executable'', JStr ''w3c.exe''), (''executable_sha256'', JStr sample_digest),
      (''build_inputs_sha256'', JStr sample_digest),
      (''source'', JObj [(''revision'', JStr (take 40 sample_digest)), (''source_sha256'', JStr ''s1'')]),
      (''build'', JObj [(''configuration'', JStr (configuration_name assertions)),
        (''mode'', JStr ''finalized''), (''assertions'', JBool assertions)])]"

definition sample_controls :: "string \<Rightarrow> bool \<Rightarrow> string" where
  "sample_controls implementation assertions = join [newline]
     (join [tab] [''XPACT_W3C_IDENTITY'', implementation, take 40 sample_digest, configuration_name assertions,
        the (map_of GC_POLICIES implementation)]
      # map (\<lambda>name. join [tab] [''XPACT_W3C_CASE'', name, ''PASS'', ''ok'']) W3C_CASES)"

definition sample_w3c :: "(string \<Rightarrow> string) \<Rightarrow> w3c_host" where
  \<comment> \<open>a run over the two sample cases; \<open>v\<close> is the verdict of each engine on the first\<close>
  "sample_w3c v =
     \<lparr>wh_host = sample_host, wh_timeout = Fin 10, wh_timeout_text = ''10'', wh_suite_dir = None,
      wh_run_root = [''run''], wh_mkdir = (\<lambda>_. Inr ()), wh_write = (\<lambda>_. Inr ()), wh_run_json = (\<lambda>_. Inr ()),
      wh_prepared = Inr ([''suite''], \<lparr>source_mode = ''local-directory'', archive_sha256 = None\<rparr>),
      wh_catalog = Inr sample_tree,
      wh_walk = (\<lambda>_. [\<lparr>we_path = ''xmltest/001.xml'', we_file = True, we_link = False, we_sha = Inr ''h1''\<rparr>]),
      wh_digest = (\<lambda>_. ''d1''), wh_toolchain = Inr (),
      wh_build = (\<lambda>i a. Inr (sample_artifact i a)),
      wh_qualify = (\<lambda>i a. Completed 0 (sample_controls i a) []),
      wh_sha = (\<lambda>_ _. Inr sample_digest), wh_fingerprint = (\<lambda>_ _. Inr sample_digest),
      wh_input = (\<lambda>_ p. Inr (if p = c_path (hd sample_cases) then Some ''h1'' else None)),
      wh_process = (\<lambda>e _ _. Completed (if v e = ''ACCEPT'' then 0 else 1) (marker @ v e @ [newline]) []),
      wh_elapsed = (\<lambda>_ _. 0)\<rparr>"

definition sample_before :: snapshot where
  "sample_before = \<lparr>sn_sha256 = ''d1'', sn_files = [(''xmltest/001.xml'', ''h1'')]\<rparr>"

definition sample_control_rows :: "control list" where
  "sample_control_rows = map (\<lambda>name. \<lparr>ctl_id = name, ctl_status = ''PASS'', ctl_detail = ''ok''\<rparr>) W3C_CASES"

definition sample_build_rows :: "bool \<Rightarrow> build_row list" where
  "sample_build_rows assertions =
     map (\<lambda>i. build_row_of i assertions ''executed'' None None sample_control_rows) implementations"

definition sample_artifacts :: "bool \<Rightarrow> (string \<times> json) list" where
  "sample_artifacts assertions = map (\<lambda>i. (i, sample_artifact i assertions)) implementations"

definition sample_builds :: builds where
  "sample_builds = \<lparr>bs_rows = sample_build_rows True @ sample_build_rows False,
     bs_qualification = sample_build_rows True @ sample_build_rows False,
     bs_audits = sample_artifacts True, bs_artifacts = sample_artifacts False\<rparr>"

definition sample_lane :: w3c_host where
  "sample_lane = sample_w3c (\<lambda>_. ''REJECT'')"

section \<open>Evaluation, part by part\<close>

lemma sample_gated:
  "gated_build sample_lane ''xpact'' True = Inr (sample_artifact ''xpact'' True)"
  "gated_build sample_lane ''xpact-core'' True = Inr (sample_artifact ''xpact-core'' True)"
  "gated_build sample_lane ''xpact'' False = Inr (sample_artifact ''xpact'' False)"
  "gated_build sample_lane ''xpact-core'' False = Inr (sample_artifact ''xpact-core'' False)"
  by code_simp+

lemma sample_run_controls:
  "run_controls sample_lane ''xpact'' True (sample_artifact ''xpact'' True) = Inr (None, sample_control_rows)"
  "run_controls sample_lane ''xpact-core'' True (sample_artifact ''xpact-core'' True) = Inr (None, sample_control_rows)"
  "run_controls sample_lane ''xpact'' False (sample_artifact ''xpact'' False) = Inr (None, sample_control_rows)"
  "run_controls sample_lane ''xpact-core'' False (sample_artifact ''xpact-core'' False) = Inr (None, sample_control_rows)"
  by code_simp+

lemma sample_verified: "w3c_verify_artifact (wh_sha sample_lane m) (sample_artifact i a) = Inr ()"
  by (simp add: w3c_verify_artifact_def verify_artifact_def sample_artifact_def j_item_def obj_lookup_def
      j_str_def item_ne_def sample_lane_def sample_w3c_def)

lemma sample_mkdir [simp]: "wh_mkdir sample_lane d = Inr ()" "wh_toolchain sample_lane = Inr ()"
  "wh_write sample_lane n = Inr ()" "wh_run_json sample_lane st = Inr ()"
  "wh_prepared sample_lane = Inr ([''suite''], \<lparr>source_mode = ''local-directory'', archive_sha256 = None\<rparr>)"
  by (simp_all add: sample_lane_def sample_w3c_def)

lemma sample_sources: "w3c_verify_sources (wh_fingerprint sample_lane m) (sample_artifacts True) (sample_artifacts False) = Inr ()"
proof -
  have "w3c_verify_sources (\<lambda>_. Inr sample_digest) (sample_artifacts True) (sample_artifacts False) = Inr ()"
    by code_simp
  then show ?thesis by (simp add: sample_lane_def sample_w3c_def)
qed

lemma sample_build_all: "build_all sample_lane = Inr sample_builds"
  unfolding build_all_def build_phase_def
  by (simp add: implementations_def build_step_def sample_gated sample_run_controls sample_verified Let_def
      sample_builds_def sample_build_rows_def sample_artifacts_def
      sample_sources [unfolded sample_artifacts_def implementations_def, simplified])

lemma sample_snapshot: "suite_snapshot (wh_digest sample_lane) (wh_walk sample_lane m) = Inr sample_before"
  by (simp add: sample_lane_def sample_w3c_def suite_snapshot_def sample_before_def)

lemma sample_load_cases: "load_cases sample_lane [''suite''] = Inr sample_cases"
  unfolding load_cases_def using sample_load
  by (simp add: sample_lane_def sample_w3c_def) (simp add: sample_cases_def)

lemma sample_prepare: "prepare_run sample_lane = Inr ([''suite''], \<lparr>source_mode = ''local-directory'', archive_sha256 = None\<rparr>,
    sample_before, sample_cases, sample_builds)"
proof -
  obtain rows where "mapE (manifest_row [''suite''] sample_before) sample_cases = Inr rows"
    by (auto simp: sample_cases_def manifest_row_def relative_to_def is_relative_to_def)
  then show ?thesis
    by (simp add: prepare_run_def sample_snapshot sample_load_cases sample_build_all)
qed

lemma sample_engine_runs:
  "\<exists>rs. run_engine sample_lane [''suite''] sample_before sample_cases (i, sample_artifact i False) = Inr rs"
  if "i \<in> set implementations"
proof -
  have "\<forall>i \<in> set implementations. \<not> isl (run_engine sample_lane [''suite''] sample_before sample_cases (i, sample_artifact i False))"
    by code_simp
  with that show ?thesis by (metis isl_def sum.exhaust_sel)
qed

lemma sample_cases_ok: "distinct (map c_id sample_cases)" "\<forall>c \<in> set sample_cases. case_judged c"
  by (simp_all add: sample_cases_def case_judged_def)

definition sample_engine_results :: "result list" where
  "sample_engine_results = engine_results (lane_run sample_lane [''suite''] sample_cases (sample_artifacts False))
     implementations sample_cases"

lemma sample_run_engines: "run_engines sample_lane [''suite''] sample_before sample_cases (sample_artifacts False)
    = Inr sample_engine_results"
proof -
  obtain rs where rs: "run_engines sample_lane [''suite''] sample_before sample_cases (sample_artifacts False) = Inr rs"
    using sample_engine_runs [of "''xpact''"] sample_engine_runs [of "''xpact-core''"]
    by (auto simp: run_engines_def sample_artifacts_def implementations_def)
  moreover have "map fst (sample_artifacts False) = implementations"
    by (simp add: sample_artifacts_def comp_def)
  ultimately show ?thesis unfolding sample_engine_results_def
    using run_engines_eq [OF rs sample_cases_ok(1)] by (simp add: implementations_def)
qed

lemma sample_no_failure: "\<forall>r \<in> set sample_engine_results. \<not> is_failure r"
  by code_simp

definition sample_rows :: "comparison list" where
  "sample_rows = map (\<lambda>c. comparison_row c
     (lane_run sample_lane [''suite''] sample_cases (sample_artifacts False) ''xpact'' c)
     (lane_run sample_lane [''suite''] sample_cases (sample_artifacts False) ''xpact-core'' c)) sample_cases"

lemma sample_compared: "comparison_rows sample_cases sample_engine_results = Inr sample_rows"
  unfolding sample_engine_results_def sample_rows_def
  by (rule comparison_rows_run [OF faithful_lane_run sample_cases_ok])

lemma sample_execute:
  "execute_run sample_lane [''suite''] sample_before sample_cases sample_builds = Inr (sample_engine_results, sample_rows)"
proof -
  have "bs_artifacts sample_builds = sample_artifacts False" "bs_audits sample_builds = sample_artifacts True"
    by (simp_all add: sample_builds_def)
  moreover have "check_snapshot sample_lane m sample_before t = Inr ()" for m t
    by (simp add: check_snapshot_def sample_snapshot same_snapshot_def)
  moreover have "forE (\<lambda>(i, artifact). w3c_verify_artifact (wh_sha sample_lane Finish) artifact) (sample_artifacts False) = Inr ()"
    by (auto simp: forE_Inr_iff sample_artifacts_def sample_verified)
  ultimately show ?thesis
    by (simp add: execute_run_def sample_run_engines sample_compared sample_sources)
qed

definition sample_report :: lane_report where
  "sample_report = make_report \<lparr>source_mode = ''local-directory'', archive_sha256 = None\<rparr> sample_before sample_cases
     sample_builds sample_engine_results sample_rows"

lemma sample_body: "\<exists>evs. lane_body sample_lane = (evs, Inr sample_report)"
proof -
  have "sample_rows \<noteq> []" by (simp add: sample_rows_def sample_cases_def)
  then show ?thesis
    by (simp add: lane_body_def write_run_def pureA_def emitA_def sample_prepare sample_execute Let_def
        w3c_publish_reports_def or_clear_def write_text_def write_atomic_def sample_report_def)
qed

lemma sample_returned: "\<exists>evs. run_lane sample_lane = (evs, Inr sample_report)"
proof -
  have "positive_timeout (wh_timeout sample_lane)" "separate_inputs sample_lane"
    by (simp_all add: sample_lane_def sample_w3c_def positive_timeout_def separate_inputs_def)
  then show ?thesis using sample_body by (auto simp: run_lane_def pureA_def guard_lane_def)
qed

lemma sample_complete: "lr_status sample_report = ''complete''"
proof -
  have "\<not> lane_failures sample_engine_results (sample_build_rows True @ sample_build_rows False)"
    using sample_no_failure
    by (auto simp: lane_failures_def sample_build_rows_def sample_control_rows_def)
  then show ?thesis
    by (simp add: sample_report_def make_report_def sample_builds_def lane_status_def)
qed

lemma sample_identified: "(i, a) \<in> set (lr_artifacts sample_report) \<Longrightarrow> unidentified a = Inr False"
proof -
  have "\<forall>(i, a) \<in> set (sample_artifacts False). unidentified a = Inr False"
    by code_simp
  then show "(i, a) \<in> set (lr_artifacts sample_report) \<Longrightarrow> unidentified a = Inr False"
    by (auto simp: sample_report_def make_report_def sample_builds_def)
qed

end
