(* ===== verification/Dual_W3C_Claims.thy ===== *)
theory Dual_W3C_Claims
  imports Dual_W3C_Sample
begin

text \<open>
  What the dual W3C lane guarantees: the comparison table says what the results say, a returned
  lane left exactly its final reports, a \<open>complete\<close> lane means that both engines gave the
  required verdict on every applicable case, the summaries add up, and every executable that ran
  was the verified one. The sample run of \<open>Dual_W3C_Sample\<close> witnesses each statement.
\<close>

section \<open>The comparison table\<close>

definition verdict_consistent :: "case_ \<Rightarrow> string \<Rightarrow> string \<Rightarrow> int option \<Rightarrow> bool" where
  \<comment> \<open>what status, observed verdict and exit code say about a case\<close>
  "verdict_consistent c status actual code \<longleftrightarrow>
     (if c_skip_reason c \<noteq> [] then status = ''skipped'' \<and> actual = ''not-run''
      else if status = ''error'' then True
      else actual \<in> {''ACCEPT'', ''REJECT''} \<and> code = Some (if actual = ''ACCEPT'' then 0 else 1)
        \<and> status = (if actual = c_expected c then ''passed'' else ''failed''))"

definition row_faithful :: "case_ \<Rightarrow> comparison \<Rightarrow> bool" where
  \<comment> \<open>what a row of the table says about its case\<close>
  "row_faithful c row \<longleftrightarrow>
     cmp_case_id row = c_id c \<and> cmp_expected row = c_expected c
     \<and> verdict_consistent c (cmp_xpact_status row) (cmp_xpact_actual row) (cmp_xpact_exit_code row)
     \<and> verdict_consistent c (cmp_core_status row) (cmp_core_actual row) (cmp_core_exit_code row)
     \<and> (cmp_agreement row \<longleftrightarrow> cmp_xpact_status row = cmp_core_status row \<and> cmp_xpact_actual row = cmp_core_actual row)"

lemma check_result_Inr:
  assumes "check_result c r = Inr ()"
  shows "verdict_consistent c (r_status r) (r_actual r) (r_exit_code r)"
proof (cases "c_skip_reason c = []")
  case False
  with assms show ?thesis unfolding check_result_def
    by (simp only: if_raise_Inr_iff raise_if_Inr_iff if_True if_not_P not_not simp_thms) (simp add: verdict_consistent_def)
next
  case True
  have st: "py_in (r_status r) [''passed'', ''failed'', ''error'']"
    and v: "py_in (r_status r) [''passed'', ''failed''] \<Longrightarrow> py_in (r_actual r) [''ACCEPT'', ''REJECT'']
      \<and> (r_status r = ''passed'') = (r_actual r = c_expected c)
      \<and> r_exit_code r = Some (if r_actual r = ''ACCEPT'' then 0 else 1)"
    using assms True unfolding check_result_def
    by (simp_all only: if_raise_Inr_iff raise_if_Inr_iff if_True if_False not_not simp_thms de_Morgan_disj)
  show ?thesis
  proof (cases "r_status r = ''error''")
    case False
    with st have p: "py_in (r_status r) [''passed'', ''failed'']" by simp
    from v [OF p] p True False show ?thesis unfolding verdict_consistent_def
      by (cases "r_actual r = c_expected c") (simp_all only: py_in_simps if_True if_False simp_thms, auto)
  qed (use True in \<open>simp add: verdict_consistent_def\<close>)
qed

lemma compare_case_faithful: "compare_case index c = Inr row \<Longrightarrow> row_faithful c row"
  unfolding compare_case_def row_faithful_def
  by (auto simp: bindE_Inr_iff comparison_row_def intro: check_result_Inr split: option.splits)

text \<open>
  Whatever results a lane was given, a comparison table that was built has one row per case,
  in catalog order, and no row can call a wrong verdict a pass: \<open>passed\<close> means the observed
  verdict is the required one and agrees with the exit code, and an excluded case is skipped for
  both engines.
\<close>

theorem comparison_rows_sound:
  assumes "comparison_rows cases results = Inr rows"
  shows "list_all2 row_faithful cases rows \<and> length results = 2 * card (set (map c_id cases))"
proof -
  from assms have d: "distinct (map r_key results)"
    and s: "set (map r_key results) = set implementations \<times> set (map c_id cases)"
    and m: "list_all2 (\<lambda>c row. compare_case (indexed results) c = Inr row) cases rows"
    by (auto simp: comparison_rows_def mapE_Inr_iff split: if_splits)
  have "length results = card (set implementations \<times> set (map c_id cases))"
    unfolding s [symmetric] using distinct_card [OF d] by simp
  also have "\<dots> = 2 * card (set (map c_id cases))"
    by (simp add: card_cartesian_product implementations_def)
  finally show ?thesis using m by (auto elim: list.rel_mono_strong intro: compare_case_faithful)
qed

theorem comparison_rows_sound_witness: "list_all2 row_faithful sample_cases sample_rows"
  using comparison_rows_sound [OF sample_compared] by blast

text \<open>
  Over a catalog whose identifiers are distinct and whose applicable cases have a required
  verdict (which \<open>load_catalog\<close> guarantees), running every case on both engines always gives
  a table: no outcome of a process - wrong verdict, crash, timeout, missing file - makes
  \<open>comparison_rows\<close> raise.
\<close>

theorem comparison_rows_complete:
  assumes "load_catalog h suite_dir tree = Inr cases" and "faithful_run run"
  shows "comparison_rows cases (engine_results run implementations cases)
     = Inr (map (\<lambda>c. comparison_row c (run ''xpact'' c) (run ''xpact-core'' c)) cases)"
proof (rule comparison_rows_run [OF assms(2)])
  from load_catalog_inv [OF assms(1)]
  show "distinct (map c_id cases)" "\<forall>c \<in> set cases. case_judged c"
    by (auto simp: catalog_inv_def intro: good_case_judged)
qed

theorem comparison_rows_complete_witness:
  "comparison_rows sample_cases sample_engine_results = Inr sample_rows"
  unfolding sample_engine_results_def sample_rows_def
  by (rule comparison_rows_complete [OF sample_load faithful_lane_run])

section \<open>The lane\<close>

lemma passed_of_not_failed:
  assumes "faithful_run run" and "case_judged c" and "c_skip_reason c = []" and "\<not> is_failure (run e c)"
  shows "r_status (run e c) = ''passed'' \<and> r_actual (run e c) = c_expected c"
proof -
  note f = faithful_runE [OF assms(1), where e = e and c = c]
  from f(3) f(10) [OF assms(3)] assms(4) have "r_status (run e c) = ''passed''
    \<and> r_expected (run e c) \<in> {r_actual (run e c), ''ANY''}"
    unfolding result_wf_def is_failure_def py_in_def by auto
  with f(4) assms(2,3) show ?thesis unfolding case_judged_def by auto
qed

text \<open>
  C13. Whatever the host does at whatever moment, a lane leaves either no final report and an
  exception, or all of its final reports, in the order they were written, and then \<open>run.json\<close>
  has the status of the report.
\<close>

theorem run_lane_all_or_nothing:
  "case run_lane w of
     (evs, Inl e) \<Rightarrow> reports evs = []
   | (evs, Inr rep) \<Rightarrow> reports evs = FINAL_REPORTS \<and> run_status evs = Some (lr_status rep)"
  using w3c_lane.outcome [of w] by (auto split: prod.splits sum.splits)



text \<open>
  The report of a returned lane adds up: one summary per implementation, each over the whole
  catalog, every case in exactly one of the four columns, the same exclusions for both engines, and
  agreements and disagreements together are the catalog.
\<close>

theorem run_lane_totals:
  assumes "run_lane w = (evs, Inr rep)"
  shows "map s_engine (lr_engines rep) = implementations
     \<and> (\<forall>s \<in> set (lr_engines rep). s_total s = lr_catalog_cases rep
          \<and> s_passed s + s_failed s + s_errors s + s_skipped s = s_total s)
     \<and> (\<exists>n. map s_skipped (lr_engines rep) = [n, n])
     \<and> lr_same_outcome rep + lr_different_outcome rep = lr_catalog_cases rep \<and> lr_catalog_cases rep > 0"
proof -
  from assms obtain tree suite source before cases st where
    "wh_catalog w = Inr tree" and lc: "load_catalog (wh_host w) suite tree = Inr cases"
    and "build_all w = Inr st" and "distinct (map c_id cases)"
    and j: "\<forall>c \<in> set cases. case_judged c"
    and rep: "rep = make_report source before cases st
       (engine_results (lane_run w suite cases (bs_artifacts st)) implementations cases)
       (map (\<lambda>c. comparison_row c (lane_run w suite cases (bs_artifacts st) ''xpact'' c)
                                   (lane_run w suite cases (bs_artifacts st) ''xpact-core'' c)) cases)"
    by (rule run_lane_returned)
  let ?res = "engine_results (lane_run w suite cases (bs_artifacts st)) implementations cases"
  note s = engine_summary_run [OF faithful_lane_run _ refl]
  have engines: "lr_engines rep = map (engine_summary ?res) implementations"
    and total: "lr_catalog_cases rep = length cases" by (simp_all add: rep make_report_def)
  have "map s_engine (lr_engines rep) = implementations"
    unfolding engines map_map comp_def by (rule map_idI) (rule s(1))
  moreover have "\<forall>x \<in> set (lr_engines rep). s_total x = lr_catalog_cases rep
          \<and> s_passed x + s_failed x + s_errors x + s_skipped x = s_total x"
    unfolding engines total using s(2) s(4) by simp
  moreover have "map s_skipped (lr_engines rep) = map (\<lambda>_. count_if (\<lambda>c. c_skip_reason c \<noteq> []) cases) implementations"
    unfolding engines map_map comp_def using s(3) by (simp cong: map_cong)
  moreover have "lr_same_outcome rep + lr_different_outcome rep = length cases"
    unfolding rep make_report_def by (simp add: count_if_compl)
  moreover have "cases \<noteq> []"
    using lc by (auto simp: load_catalog_def Let_def bindE_Inr_iff split: if_splits)
  ultimately show ?thesis unfolding total by (simp add: implementations_def)
qed

theorem run_lane_totals_witness:
  "\<exists>rep. snd (run_lane sample_lane) = Inr rep
     \<and> lr_same_outcome rep + lr_different_outcome rep = lr_catalog_cases rep"
proof -
  from sample_returned obtain evs where r: "run_lane sample_lane = (evs, Inr sample_report)" by blast
  from run_lane_totals [OF r] r show ?thesis by auto
qed

text \<open>
  Nothing ran that was not verified: in a returned lane every artifact has the manifest of the
  finalized, assertion-free W3C build of its implementation, its executable had the recorded hash
  when the engine started and again at the end, and every case read the bytes of the suite snapshot
  before and after its process.
\<close>

theorem run_lane_verified:
  assumes "run_lane w = (evs, Inr rep)"
  shows "map fst (lr_artifacts rep) = implementations
     \<and> (\<exists>suite before tree cases. suite_snapshot (wh_digest w) (wh_walk w Prepared) = Inr before
          \<and> wh_catalog w = Inr tree \<and> load_catalog (wh_host w) suite tree = Inr cases
          \<and> (\<forall>(e, a) \<in> set (lr_artifacts rep). build_matches ''w3c'' a e False
               \<and> (\<forall>m \<in> {Starting e, Finish}. w3c_verify_artifact (wh_sha w m) a = Inr ())
               \<and> (\<forall>k < length cases. \<forall>m \<in> {Before e (Suc k), After e (Suc k)}.
                    verify_case_input (wh_input w m) (cases ! k) suite before = Inr ())))"
proof -
  from assms obtain tree suite source before cases st where
    cat: "wh_catalog w = Inr tree" "load_catalog (wh_host w) suite tree = Inr cases"
    and b: "build_all w = Inr st" and "distinct (map c_id cases)" and "\<forall>c \<in> set cases. case_judged c"
    and rep: "rep = make_report source before cases st
       (engine_results (lane_run w suite cases (bs_artifacts st)) implementations cases)
       (map (\<lambda>c. comparison_row c (lane_run w suite cases (bs_artifacts st) ''xpact'' c)
                                   (lane_run w suite cases (bs_artifacts st) ''xpact-core'' c)) cases)"
    and run: "run_engines w suite before cases (bs_artifacts st)
       = Inr (engine_results (lane_run w suite cases (bs_artifacts st)) implementations cases)"
    and before: "suite_snapshot (wh_digest w) (wh_walk w Prepared) = Inr before"
    and fin: "forE (\<lambda>(i, a). w3c_verify_artifact (wh_sha w Finish) a) (bs_artifacts st) = Inr ()"
    by (rule run_lane_returned)
  have arts: "lr_artifacts rep = bs_artifacts st" by (simp add: rep make_report_def)
  have one: "build_matches ''w3c'' a e False \<and> (\<forall>m \<in> {Starting e, Finish}. w3c_verify_artifact (wh_sha w m) a = Inr ())
      \<and> (\<forall>k < length cases. \<forall>m \<in> {Before e (Suc k), After e (Suc k)}.
           verify_case_input (wh_input w m) (cases ! k) suite before = Inr ())"
    if ea: "(e, a) \<in> set (bs_artifacts st)" for e a
  proof -
    have "build_matches ''w3c'' a e False"
      using build_all_Inr(1) [OF b] ea by (auto simp: builds_inv_def all_match_def)
    moreover from run obtain groups where
      "list_all2 (\<lambda>x g. run_engine w suite before cases x = Inr g) (bs_artifacts st) groups"
      by (auto simp: run_engines_def bindE_Inr_iff mapE_Inr_iff)
    with ea obtain g where g: "run_engine w suite before cases (e, a) = Inr g"
      unfolding list_all2_conv_all_nth in_set_conv_nth by metis
    then have "w3c_verify_artifact (wh_sha w (Starting e)) a = Inr ()"
      by (auto simp: run_engine_def bindE_Inr_iff)
    moreover have "w3c_verify_artifact (wh_sha w Finish) a = Inr ()"
      using fin ea by (auto simp: forE_Inr_iff)
    moreover have "verify_case_input (wh_input w m) (cases ! k) suite before = Inr ()"
      if "k < length cases" "m \<in> {Before e (Suc k), After e (Suc k)}" for k m
      using run_indexed_Inr [OF run_engine_Inr(2) [OF g that(1)]] that(2) by blast
    ultimately show ?thesis by blast
  qed
  show ?thesis
    unfolding arts build_all_Inr(3) [OF b] using before cat one by blast
qed

theorem run_lane_verified_witness:
  "\<exists>rep. snd (run_lane sample_lane) = Inr rep \<and> map fst (lr_artifacts rep) = implementations"
proof -
  from sample_returned obtain evs where r: "run_lane sample_lane = (evs, Inr sample_report)" by blast
  from run_lane_verified [OF r] r show ?thesis by auto
qed

end
