(* ===== verification/Jenkins_Proofs.thy ===== *)
theory Jenkins_Proofs
  imports Report_Bridge
begin

text \<open>
  Facts of the plot publisher that its properties and those of the campaign share: the report of a
  returned W3C lane is accepted, and what a publication writes, in which order.
\<close>

section \<open>The report of a returned W3C lane\<close>

lemma lane_failures_counts:
  assumes "\<And>e. e \<in> set implementations \<Longrightarrow> filter (\<lambda>r. r_engine r = e) results = rows e"
    and "r_engine ` set results \<subseteq> set implementations"
  shows "(\<exists>r \<in> set results. is_failure r) \<longleftrightarrow>
    (\<exists>s \<in> set (map (engine_summary results) implementations). s_failed s > 0 \<or> s_errors s > 0)"
proof -
  have "(s_failed (engine_summary results e) > 0 \<or> s_errors (engine_summary results e) > 0)
      = (\<exists>r \<in> set results. r_engine r = e \<and> is_failure r)" for e
  proof -
    have "(count_if p rs > 0) = (\<exists>r \<in> set rs. p r)" for p and rs :: "result list"
      using count_if_0_iff [of p rs] by auto
    then show ?thesis by (auto simp: engine_summary_def Let_def is_failure_def)
  qed
  with assms(2) show ?thesis by auto
qed

lemma engine_results_engines:
  assumes "faithful_run run"
  shows "r_engine ` set (engine_results run engines cases) \<subseteq> set engines"
  using faithful_runE(2) [OF assms] by (auto simp: engine_results_def)

lemma lane_report_accepted:
  assumes "run_lane w = (evs, Inr rep)"
    and "\<And>e a. (e, a) \<in> set (lr_artifacts rep) \<Longrightarrow> unidentified a = Inr False"
  obtains own core where "lr_engines rep = [own, core]"
    "w3c_plots (report_json manifest rep) = Inr (w3c_specs (summary_counts own) (summary_counts core))"
proof -
  from assms(1) obtain tree suite source before cases st where
    lc: "wh_catalog w = Inr tree" "load_catalog (wh_host w) suite tree = Inr cases"
    and b: "build_all w = Inr st" and "distinct (map c_id cases)" and "\<forall>c \<in> set cases. case_judged c"
    and rep: "rep = make_report source before cases st
       (engine_results (lane_run w suite cases (bs_artifacts st)) implementations cases)
       (map (\<lambda>c. comparison_row c (lane_run w suite cases (bs_artifacts st) ''xpact'' c)
                                   (lane_run w suite cases (bs_artifacts st) ''xpact-core'' c)) cases)"
    by (rule run_lane_returned)
  let ?run = "lane_run w suite cases (bs_artifacts st)"
  let ?res = "engine_results ?run implementations cases"
  let ?own = "engine_summary ?res ''xpact''" and ?core = "engine_summary ?res ''xpact-core''"
  have parts: "lr_artifacts rep = bs_artifacts st" "lr_qualification rep = bs_qualification st"
    "lr_engines rep = [?own, ?core]" "lr_catalog_cases rep = length cases"
    "lr_status rep = lane_status ?res (bs_qualification st)"
    by (simp_all add: rep make_report_def implementations_def)
  have impl: "''xpact'' \<in> set implementations" "''xpact-core'' \<in> set implementations" "distinct implementations"
    by (simp_all add: implementations_def)
  note own = engine_summary_run [OF faithful_lane_run impl(1) refl, of w suite cases "bs_artifacts st" cases]
  note core = engine_summary_run [OF faithful_lane_run impl(2) refl, of w suite cases "bs_artifacts st" cases]
  have arts: "validate_artifacts (report_json manifest rep) ''w3c'' = Inr ()"
  proof (rule validate_artifacts_json)
    show "map fst (lr_artifacts rep) = implementations" using build_all_Inr(3) [OF b] parts(1) by simp
    show "build_matches ''w3c'' a e False \<and> unidentified a = Inr False" if "(e, a) \<in> set (lr_artifacts rep)" for e a
      using that assms(2) build_all_Inr(1) [OF b] parts(1) by (auto simp: builds_inv_def all_match_def)
  qed
  have ctl: "validate_controls (report_json manifest rep) ''w3c'' = Inr (\<exists>q \<in> set (bs_qualification st). row_failed q)"
    using validate_controls_json [of rep] build_all_Inr(2) [OF b] build_all_controls [OF b] parts(2) by simp
  have "(\<exists>r \<in> set ?res. is_failure r) = (\<exists>s \<in> {?own, ?core}. s_failed s > 0 \<or> s_errors s > 0)"
    using lane_failures_counts [OF filter_engine_results [OF faithful_lane_run impl(3)]
      engine_results_engines [OF faithful_lane_run]] by (simp add: implementations_def)
  then have fails: "lane_failures ?res (bs_qualification st) = ((\<exists>q \<in> set (bs_qualification st). row_failed q)
      \<or> (\<exists>s \<in> {?own, ?core}. s_failed s > 0 \<or> s_errors s > 0))"
    unfolding lane_failures_def row_failed_def by blast
  have pos: "lr_catalog_cases rep > 0"
    using lc(2) parts(4) by (auto simp: load_catalog_def Let_def bindE_Inr_iff split: if_splits)
  have sums: "s_total s = lr_catalog_cases rep \<and> s_passed s + s_failed s + s_errors s + s_skipped s = lr_catalog_cases rep"
    if "s \<in> {?own, ?core}" for s using that own(2,4) core(2,4) parts(4) by auto
  have "w3c_plots (report_json manifest rep) = Inr (w3c_specs (summary_counts ?own) (summary_counts ?core))"
    by (rule w3c_plots_json [OF _ arts ctl parts(3) own(1) core(1) sums _ pos fails])
      (use parts(5) own(3) core(3) in \<open>simp_all add: lane_status_def\<close>)
  with that parts(3) show ?thesis by blast
qed

section \<open>The files of a publication\<close>

lemma plot_file_not_manifest: "plot_file spec \<noteq> MANIFEST" "HTML_REPORT \<noteq> MANIFEST"
proof
  assume "plot_file spec = MANIFEST"
  then have "rev (plot_file spec) = rev MANIFEST" by simp
  then show False by (simp add: plot_file_def MANIFEST_def)
qed (simp add: HTML_REPORT_def MANIFEST_def)

lemma write_atomic_cases:
  "write_atomic write n = (if write n = Inr () then ([Report n], Inr ()) else ([], write n))"
  by (cases "write n") (simp_all add: write_atomic_def pureA_def emitA_def)

lemma write_files:
  "case seqA (map (\<lambda>x. write_atomic wr (f x)) xs) of
     (evs, Inl e) \<Rightarrow> set evs \<subseteq> (\<lambda>x. Report (f x)) ` set xs
   | (evs, Inr u) \<Rightarrow> evs = map (\<lambda>x. Report (f x)) xs"
proof (induction xs)
  case (Cons x xs)
  then show ?case
    by (cases "wr (f x)"; cases "seqA (map (\<lambda>x. write_atomic wr (f x)) xs)")
      (auto simp: write_atomic_cases split: sum.splits)
qed (simp add: pureA_def)

lemma publish_body_cases:
  assumes "publish_body write source html (Inr plots) = (evs, r)"
  shows "(\<exists>e. r = Inl e \<and> Report MANIFEST \<notin> set evs) \<or>
    (r = Inr \<lparr>pb_manifest_rows = map (manifest_line source) plots, pb_plots = length plots\<rparr>
     \<and> evs = map (\<lambda>s. Report (plot_file s)) plots @ [Report HTML_REPORT, Report MANIFEST])"
proof -
  obtain evs1 r1 where fw: "seqA (map (\<lambda>spec. write_atomic write (plot_file spec)) plots) = (evs1, r1)"
    by fastforce
  have no: "Report MANIFEST \<notin> (\<lambda>s. Report (plot_file s)) ` set plots"
    using plot_file_not_manifest(1) by (auto simp: eq_commute)
  show ?thesis
  proof (cases r1)
    case (Inl e)
    with fw write_files [where f = plot_file and xs = plots and wr = "write"] have "set evs1 \<subseteq> (\<lambda>s. Report (plot_file s)) ` set plots" by simp
    with no assms Inl fw show ?thesis by (auto simp: publish_body_def pureA_def)
  next
    case (Inr u)
    with fw write_files [where f = plot_file and xs = plots and wr = "write"] have e: "evs1 = map (\<lambda>s. Report (plot_file s)) plots" by simp
    from assms no e Inr plot_file_not_manifest(2) fw show ?thesis
      by (cases html; cases "write HTML_REPORT"; cases "write MANIFEST")
        (auto simp: publish_body_def pureA_def write_atomic_cases)
  qed
qed

lemma reports_in: "n \<in> set (reports evs) \<Longrightarrow> Report n \<in> set evs"
proof -
  have "n \<in> set (fold report_step evs fs) \<Longrightarrow> Report n \<in> set evs \<or> n \<in> set fs" for fs
  proof (induction evs arbitrary: fs)
    case (Cons ev evs)
    from Cons.IH [of "report_step ev fs"] Cons.prems show ?case by (cases ev) auto
  qed simp
  then show "n \<in> set (reports evs) \<Longrightarrow> Report n \<in> set evs" unfolding reports_def by fastforce
qed

lemma reports_of_reports: "reports (Cleared # map (\<lambda>x. Report (f x)) xs @ map Report ns) = map f xs @ ns"
proof -
  have "fold report_step (map Report ns) fs = fs @ ns" for fs ns by (induction ns arbitrary: fs) auto
  moreover have "map (\<lambda>x. Report (f x)) xs = map Report (map f xs)" by simp
  ultimately show ?thesis by (simp add: reports_def del: map_map)
qed

end
