(* ===== verification/Jenkins_Claims.thy ===== *)
theory Jenkins_Claims
  imports Dual_W3C_Sample Jenkins_Proofs
begin

text \<open>
  What the plot publisher guarantees: a report it accepts is complete and adds up, the report of a
  returned W3C lane is accepted, and a consumer that sees the manifest sees every file it names.
\<close>

lemma sample_accepted: "\<exists>plots. w3c_plots (report_json m sample_report) = Inr plots"
proof -
  from sample_returned obtain evs where r: "run_lane sample_lane = (evs, Inr sample_report)" by blast
  show ?thesis by (rule lane_report_accepted [OF r sample_identified]) (assumption, blast)
qed

text \<open>
  C16. The two halves fit: the report of any returned W3C lane whose artifacts carry hexadecimal
  identities is accepted by \<open>w3c_plots\<close>, with failures or without, and the plotted values are the
  counts of the two summaries.
\<close>

theorem w3c_plots_of_lane:
  assumes "run_lane w = (evs, Inr rep)"
    and "\<And>e a. (e, a) \<in> set (lr_artifacts rep) \<Longrightarrow> unidentified a = Inr False"
  shows "\<exists>own core. lr_engines rep = [own, core] \<and>
     map_sum id (map sp_values) (w3c_plots (report_json manifest rep)) = Inr
       [[of_nat (s_passed own), of_nat (s_passed core)], [of_nat (s_failed own), of_nat (s_failed core)],
        [of_nat (s_errors own), of_nat (s_errors core)], [of_nat (s_skipped own), of_nat (s_skipped core)]]"
proof -
  obtain own core where "lr_engines rep = [own, core]"
    "w3c_plots (report_json manifest rep) = Inr (w3c_specs (summary_counts own) (summary_counts core))"
    by (rule lane_report_accepted [OF assms])
  then show ?thesis by (simp add: w3c_specs_values summary_counts_def)
qed

theorem w3c_plots_of_lane_witness:
  "\<exists>own core. lr_engines sample_report = [own, core]
     \<and> map_sum id (map sp_values) (w3c_plots (report_json (\<lambda>i a. i) sample_report)) = Inr
       [[of_nat (s_passed own), of_nat (s_passed core)], [of_nat (s_failed own), of_nat (s_failed core)],
        [of_nat (s_errors own), of_nat (s_errors core)], [of_nat (s_skipped own), of_nat (s_skipped core)]]"
proof -
  from sample_returned obtain evs where r: "run_lane sample_lane = (evs, Inr sample_report)" by blast
  show ?thesis by (rule w3c_plots_of_lane [OF r sample_identified])
qed

section \<open>What an accepted report says\<close>

lemma engine_counts_Inr:
  assumes "engine_counts n row = Inr c"
  shows "j_item row ''engine'' = Inr (ec_engine c)" "ec_total c = n"
    "ec_passed c + ec_failed c + ec_errors c + ec_skipped c = n"
    "0 \<le> ec_passed c" "0 \<le> ec_failed c" "0 \<le> ec_errors c" "0 \<le> ec_skipped c"
  using assms by (auto simp: engine_counts_def case_count_def bindE_Inr_iff split: if_splits json.splits)

definition counts_reconcile :: "int \<Rightarrow> engine_row \<Rightarrow> bool" where
  "counts_reconcile n c \<longleftrightarrow> ec_total c = n \<and> ec_passed c + ec_failed c + ec_errors c + ec_skipped c = n
     \<and> 0 \<le> ec_passed c \<and> 0 \<le> ec_failed c \<and> 0 \<le> ec_errors c \<and> 0 \<le> ec_skipped c"

lemma counts_of_in:
  assumes "JStr engine \<in> ec_engine ` set counts"
  shows "counts_of counts engine \<in> set counts \<and> ec_engine (counts_of counts engine) = JStr engine"
proof -
  let ?m = "map_of (rev (map (\<lambda>r. (ec_engine r, r)) counts)) (JStr engine)"
  have "?m \<noteq> None" using assms by (auto simp: map_of_eq_None_iff image_image)
  then obtain c where c: "?m = Some c" by blast
  from map_of_SomeD [OF c] show ?thesis unfolding counts_of_def c by auto
qed

text \<open>
  Plot values are only taken from a report that is complete: both implementations are counted
  once over the whole, nonempty catalog with the same exclusions, the columns of each add up to the
  catalog, the artifacts are the identified finalized builds, and a report that calls itself
  \<open>complete\<close> has neither wrong verdicts nor errors.
\<close>

theorem w3c_plots_sound:
  assumes "w3c_plots report = Inr plots"
  shows "\<exists>n own core. n > 0 \<and> counts_reconcile n own \<and> counts_reconcile n core
     \<and> ec_skipped own = ec_skipped core \<and> validate_artifacts report ''w3c'' = Inr ()
     \<and> map sp_values plots = map (\<lambda>value. [of_int (value own), of_int (value core)])
         [ec_passed, ec_failed, ec_errors, ec_skipped]
     \<and> (field report ''status'' = Some (JStr ''complete'') \<longrightarrow>
          ec_failed own = 0 \<and> ec_errors own = 0 \<and> ec_failed core = 0 \<and> ec_errors core = 0)"
proof -
  from assms obtain cf rows nv n counts differs same where
    art: "validate_artifacts report ''w3c'' = Inr ()"
    and same: "(if length rows \<noteq> 2 then Inr False
        else bindE (mapE (\<lambda>row. j_item row ''engine'') rows) (\<lambda>names. j_set_is names implementations)) = Inr same"
      "\<not> \<not> same"
    and n: "case_count True nv = Inr n"
    and counts: "mapE (engine_counts n) rows = Inr counts"
    and skipped: "\<not> ec_skipped (counts_of counts ''xpact'') \<noteq> ec_skipped (counts_of counts ''xpact-core'')"
    and differs: "item_ne report ''status'' ''complete_with_failures'' = Inr differs"
      "\<not> (\<not> differs) \<noteq> (cf \<or> (\<exists>c \<in> set counts. ec_failed c > 0 \<or> ec_errors c > 0))"
    and plots: "Inr (w3c_specs (counts_of counts ''xpact'') (counts_of counts ''xpact-core'')) = (Inr plots :: plot list py)"
    unfolding w3c_plots_def Let_def
    by (elim bindE_InrE if_InlE) (rule that, simp, assumption+)
  note plots = plots [THEN sum.inject(2) [THEN iffD1], symmetric]
  from same obtain names where names: "mapE (\<lambda>row. j_item row ''engine'') rows = Inr names"
    "j_set_is names implementations = Inr True" by (auto simp: bindE_Inr_iff split: if_splits)
  have pos: "n > 0" using n by (auto simp: bindE_Inr_iff case_count_def split: json.splits if_splits)
  have l: "list_all2 (\<lambda>row c. engine_counts n row = Inr c) rows counts" using counts by (simp add: mapE_Inr_iff)
  have ok: "counts_reconcile n c" if "c \<in> set counts" for c
    using that l engine_counts_Inr unfolding counts_reconcile_def list_all2_conv_all_nth in_set_conv_nth by metis
  have "ec_engine ` set counts = set names"
  proof -
    have "mapE (\<lambda>row. j_item row ''engine'') rows = Inr (map ec_engine counts)"
      using l by (auto simp: mapE_Inr_iff list_all2_conv_all_nth engine_counts_Inr(1))
    with names(1) show ?thesis by (metis list.set_map sum.inject(2))
  qed
  with names(2) have "JStr e \<in> ec_engine ` set counts" if "e \<in> set implementations" for e
    using that by (auto simp: j_set_is_True_iff)
  then have in_counts: "counts_of counts ''xpact'' \<in> set counts" "counts_of counts ''xpact-core'' \<in> set counts"
    using counts_of_in by (auto simp: implementations_def)
  have "differs" if "field report ''status'' = Some (JStr ''complete'')"
    using differs(1) that by (auto simp: item_ne_def bindE_Inr_iff pyE)
  with differs(2) in_counts have "field report ''status'' = Some (JStr ''complete'') \<Longrightarrow>
      \<not> ec_failed (counts_of counts e) > 0 \<and> \<not> ec_errors (counts_of counts e) > 0" if "e \<in> set implementations" for e
    using that by (auto simp: implementations_def)
  then have zero: "field report ''status'' = Some (JStr ''complete'') \<Longrightarrow>
      ec_failed (counts_of counts e) = 0 \<and> ec_errors (counts_of counts e) = 0" if "e \<in> set implementations" for e
    using that ok in_counts by (fastforce simp: counts_reconcile_def implementations_def)
  show ?thesis
    by (intro exI [of _ n] exI [of _ "counts_of counts ''xpact''"] exI [of _ "counts_of counts ''xpact-core''"])
      (use pos ok in_counts skipped art zero in \<open>simp add: plots w3c_specs_values implementations_def\<close>)
qed

theorem w3c_plots_sound_witness:
  "\<exists>plots n own core. w3c_plots (report_json (\<lambda>i a. i) sample_report) = Inr plots
     \<and> counts_reconcile n own \<and> counts_reconcile n core"
proof -
  obtain plots where p: "w3c_plots (report_json (\<lambda>i a. i) sample_report) = Inr plots"
    using sample_accepted by blast
  from w3c_plots_sound [OF p] p show ?thesis by blast
qed

section \<open>The manifest comes last\<close>

text \<open>
  C14. A consumer that starts from the manifest never sees a partial export: at no moment of a
  publication, whichever write fails, does the manifest exist unless the publication has returned
  and every plot file the manifest names, and the page, are on disk.
\<close>

theorem publish_manifest_last:
  assumes "jenkins_publish_reports write source html state lane_reports = (evs1 @ evs2, r)"
    and "MANIFEST \<in> set (reports evs1)"
  shows "\<exists>plots pub. collect_plots state lane_reports = Inr plots \<and> r = Inr pub \<and> evs2 = []
     \<and> pb_manifest_rows pub = map (manifest_line source) plots
     \<and> reports evs1 = map plot_file plots @ [HTML_REPORT, MANIFEST]"
proof -
  let ?checked = "collect_plots state lane_reports"
  have m: "Report MANIFEST \<in> set evs1" using assms(2) by (rule reports_in)
  obtain evs r0 where b: "publish_body write source html ?checked = (evs, r0)" by fastforce
  show ?thesis
  proof (cases "?checked")
    case (Inl e)
    with b assms(1) m show ?thesis
      by (auto simp: jenkins_publish_reports_def or_clear_def publish_body_def emitA_def pureA_def append_eq_Cons_conv
          Cons_eq_append_conv)
  next
    case (Inr plots)
    from publish_body_cases [OF b [unfolded Inr]] show ?thesis
    proof (elim disjE exE conjE)
      fix e assume "r0 = Inl e" "Report MANIFEST \<notin> set evs"
      with b assms(1) have "evs1 @ evs2 = Cleared # evs @ [Cleared]"
        by (simp add: jenkins_publish_reports_def or_clear_def emitA_def)
      then have "Report MANIFEST \<in> set (Cleared # evs @ [Cleared])" using m by (metis UnI1 set_append)
      with \<open>Report MANIFEST \<notin> set evs\<close> show ?thesis by simp
    next
      let ?pub = "\<lparr>pb_manifest_rows = map (manifest_line source) plots, pb_plots = length plots\<rparr>"
      assume r0: "r0 = Inr ?pub"
        and evs: "evs = map (\<lambda>s. Report (plot_file s)) plots @ [Report HTML_REPORT, Report MANIFEST]"
      let ?init = "Cleared # map (\<lambda>s. Report (plot_file s)) plots @ [Report HTML_REPORT]"
      from b assms(1) r0 evs have all: "evs1 @ evs2 = ?init @ [Report MANIFEST]" and r: "r = Inr ?pub"
        by (simp_all add: jenkins_publish_reports_def or_clear_def emitA_def)
      have "Report MANIFEST \<notin> set ?init" using plot_file_not_manifest by (auto simp: eq_commute)
      with m all have e2: "evs2 = []"
        by (metis append_butlast_last_id butlast_append butlast_snoc in_set_conv_decomp not_Cons_self2
            append_self_conv in_set_butlastD Un_iff set_append)
      with all have "evs1 = Cleared # map (\<lambda>s. Report (plot_file s)) plots @ map Report [HTML_REPORT, MANIFEST]" by simp
      then have "reports evs1 = map plot_file plots @ [HTML_REPORT, MANIFEST]" by (simp only: reports_of_reports)
      with Inr r e2 show ?thesis by simp
    qed
  qed
qed

definition sample_state :: json where
  \<comment> \<open>the catalog lane failed, the W3C lane is the sample run\<close>
  "sample_state = JObj [(''build_id'', JStr ''b7''), (''status'', JStr ''failed''),
     (''lanes'', JObj [(''catalog'', JObj [(''status'', JStr ''failed'')]),
                       (''w3c'', JObj [(''status'', JStr ''complete'')])])]"

lemma sample_collected:
  "\<exists>plots. collect_plots sample_state [(''w3c'', report_json m sample_report)] = Inr plots"
proof -
  obtain plots where p: "w3c_plots (report_json m sample_report) = Inr plots"
    using sample_accepted by blast
  have "collect_plots sample_state [(''w3c'', report_json m sample_report)] = Inr plots"
    unfolding sample_state_def
    by (simp add: collect_plots_def j_item_JObj j_iter_def j_set_is_def hashable_def j_items_def
        lane_plots_def item_ne_def overall_state_def status_text_def insert_commute sample_complete p)
  then show ?thesis by blast
qed

theorem publish_manifest_last_witness:
  "\<exists>pub evs. jenkins_publish_reports (\<lambda>_. Inr ()) id (Inr ()) sample_state [(''w3c'', report_json (\<lambda>i a. i) sample_report)]
     = (evs, Inr pub) \<and> MANIFEST = last (reports evs)"
proof -
  obtain plots where p: "collect_plots sample_state [(''w3c'', report_json (\<lambda>i a. i) sample_report)] = Inr plots"
    using sample_collected by blast
  have "seqA (map (\<lambda>x. write_atomic (\<lambda>_. Inr ()) (plot_file x)) xs) = (map (\<lambda>x. Report (plot_file x)) xs, Inr ())" for xs
    by (induction xs) (simp_all add: pureA_def write_atomic_cases)
  then have run: "jenkins_publish_reports (\<lambda>_. Inr ()) id (Inr ()) sample_state [(''w3c'', report_json (\<lambda>i a. i) sample_report)]
      = ((Cleared # map (\<lambda>s. Report (plot_file s)) plots @ map Report [HTML_REPORT, MANIFEST]) @ [],
         Inr \<lparr>pb_manifest_rows = map (manifest_line id) plots, pb_plots = length plots\<rparr>)"
    by (simp add: jenkins_publish_reports_def publish_body_def p pureA_def emitA_def write_atomic_cases or_clear_def)
  have "MANIFEST \<in> set (reports (Cleared # map (\<lambda>s. Report (plot_file s)) plots @ map Report [HTML_REPORT, MANIFEST]))"
    by (simp only: reports_of_reports) simp
  from publish_manifest_last [OF run this] run show ?thesis by auto
qed

section \<open>The campaign's status\<close>

text \<open>
  The overall status a publication insists on is the most severe of the lane states, in the
  order complete, complete with failures, failed.
\<close>

theorem overall_state_is_max:
  assumes "states \<noteq> []"
  shows "overall_state (map state_name states) = state_name (Max (set states))"
  using assms by (rule overall_state_Max)

theorem overall_state_is_max_witness:
  "overall_state (map state_name [Complete, CompleteWithFailures]) = state_name (Max {Complete, CompleteWithFailures})"
  using overall_state_is_max [of "[Complete, CompleteWithFailures]"] by simp

section \<open>Catalog measurements\<close>

lemma median_pos:
  assumes "xs \<noteq> []" and "\<forall>x \<in> set xs. 0 < x"
  shows "0 < median xs"
proof -
  have pos: "0 < sort xs ! k" if "k < length xs" for k
    using assms(2) that by (metis length_sort nth_mem set_sort)
  have "0 < length xs" using assms(1) by simp
  moreover from this have "length xs div 2 - 1 < length xs" by linarith
  ultimately show ?thesis
    using pos [of "length xs div 2"] pos [of "length xs div 2 - 1"] by (simp add: median_def Let_def)
qed

definition pair_row_ok :: "pair_row \<Rightarrow> bool" where
  "pair_row_ok p \<longleftrightarrow> 0 < pr_iterations p \<and> 0 < pr_baseline_ms p \<and> 0 < pr_candidate_ms p
     \<and> 0 < pr_baseline_rate p \<and> 0 < pr_candidate_rate p"

lemma positive_number_pos: "positive_number v = Inr q \<Longrightarrow> 0 < q"
  by (auto simp: positive_number_def Let_def split: json.splits fl.splits if_splits)

lemma measurement_pos: "measurement row prefix b i = Inr (ms, rate) \<Longrightarrow> 0 < ms \<and> 0 < rate"
  unfolding measurement_def Let_def by (elim bindE_InrE if_InlE) (auto dest: positive_number_pos)

lemma catalog_row_Inr:
  assumes "catalog_row b (k, row) = Inr p"
  shows "pair_row_ok p \<and> field row ''Order'' = Some (JStr (order_of k))
    \<and> field row ''Iterations'' = Some (JInt (pr_iterations p)) \<and> field row ''Workload'' = Some (JStr ''catalog'')"
proof -
  from assms obtain its bad bms brate cms crate where
    its: "bindE (j_item row ''Iterations'') (case_count True) = Inr its"
    and bad: "anyE [item_ne row ''Workload'' ''catalog'', notE (item_is_int row ''Pair'' (int k)),
                  item_ne row ''Order'' (order_of k), notE (item_is_int row ''DocumentBytes'' b)] = Inr False"
    and m: "measurement row ''Baseline'' b its = Inr (bms, brate)" "measurement row ''Candidate'' b its = Inr (cms, crate)"
    and p: "p = \<lparr>pr_iterations = its, pr_baseline_ms = bms, pr_candidate_ms = cms,
            pr_baseline_rate = brate, pr_candidate_rate = crate\<rparr>"
    unfolding catalog_row_def by (auto simp: bindE_Inr_iff split: if_splits)
  have "field row ''Iterations'' = Some (JInt its)" "0 < its"
    using its by (auto simp: pyE case_count_Inr_iff)
  with bad m [THEN measurement_pos] p show ?thesis
    by (auto simp: anyE_False_iff pyE pair_row_ok_def)
qed

text \<open>
  Benchmark values are only plotted for a complete catalog report without any failed control:
  its pairs are numbered without a gap, alternate which engine runs first, and use one iteration
  count, and every plotted median is positive.
\<close>

theorem catalog_plots_sound:
  assumes "catalog_plots report = Inr plots"
  shows "validate_controls report ''catalog'' = Inr False
     \<and> (\<exists>rows its. its > 0 \<and> rows \<noteq> [] \<and> (\<exists>v. path_item report [''comparison'', ''results''] = Inr v \<and> j_iter v = Inr rows)
          \<and> (\<forall>k < length rows. field (rows ! k) ''Order'' = Some (JStr (if even k then ''AB'' else ''BA''))
               \<and> field (rows ! k) ''Iterations'' = Some (JInt its)))
     \<and> length plots = 2 \<and> (\<forall>s \<in> set plots. length (sp_values s) = 2 \<and> (\<forall>x \<in> set (sp_values s). 0 < x))"
proof -
  from assms obtain hf comparison results rows b pv pairs pairs_n where
    ctl: "validate_controls report ''catalog'' = Inr hf"
    and path: "j_item report ''comparison'' = Inr comparison" "j_item comparison ''results'' = Inr results"
      "j_iter results = Inr rows"
    and n: "case_count True pv = Inr pairs_n" "\<not> int (length rows) \<noteq> pairs_n"
    and pairs: "mapE (catalog_row b) (enumerate 1 rows) = Inr pairs"
    and one: "\<not> card (pr_iterations ` set pairs) \<noteq> 1"
    and plots: "length plots = 2"
      "map sp_values plots = [[normalized pr_baseline_ms pairs, normalized pr_candidate_ms pairs],
         [median (map pr_baseline_rate pairs), median (map pr_candidate_rate pairs)]]"
    unfolding catalog_plots_def
    by (elim bindE_InrE if_InlE) (rule that, assumption+, simp_all add: plot_spec_def sum.inject(2), auto)
  have hf: "hf = False" using ctl unfolding validate_controls_def Let_def
    by (elim bindE_InrE if_InlE) auto
  have "rows \<noteq> []" using n by (auto simp: case_count_def split: json.splits if_splits)
  have l: "length pairs = length rows" "\<And>k. k < length rows \<Longrightarrow> catalog_row b (Suc k, rows ! k) = Inr (pairs ! k)"
    using pairs by (auto simp: mapE_Inr_iff list_all2_conv_all_nth nth_enumerate_eq)
  have ok: "\<forall>p \<in> set pairs. pair_row_ok p"
    using l catalog_row_Inr by (metis in_set_conv_nth)
  from one obtain its where its: "pr_iterations ` set pairs = {its}" by (auto simp: card_1_singleton_iff)
  have rows: "field (rows ! k) ''Order'' = Some (JStr (if even k then ''AB'' else ''BA''))
      \<and> field (rows ! k) ''Iterations'' = Some (JInt its)" if k: "k < length rows" for k
  proof -
    have "pr_iterations (pairs ! k) = its" using its k l(1) by (metis image_eqI nth_mem singletonD)
    with catalog_row_Inr [OF l(2) [OF k]] show ?thesis by (simp add: order_of_def)
  qed
  have "pairs \<noteq> []" using \<open>rows \<noteq> []\<close> l(1) by auto
  then have "0 < its" using its ok by (cases pairs) (auto simp: pair_row_ok_def)
  have pos: "0 < median (map f pairs)" if "\<And>p. pair_row_ok p \<Longrightarrow> 0 < f p" for f
    using that ok \<open>pairs \<noteq> []\<close> by (intro median_pos) auto
  have "\<forall>vs \<in> set (map sp_values plots). length vs = 2 \<and> (\<forall>x \<in> set vs. 0 < x)"
    unfolding plots(2) normalized_def by (auto intro!: pos simp: pair_row_ok_def)
  moreover have "path_item report [''comparison'', ''results''] = Inr results" using path by simp
  ultimately show ?thesis using ctl hf plots(1) \<open>0 < its\<close> \<open>rows \<noteq> []\<close> path(3) rows by auto
qed

definition sample_catalog_artifact :: "string \<Rightarrow> json" where
  "sample_catalog_artifact engine = JObj
     [(''status'', JStr ''verified''), (''profile'', JStr ''catalog''), (''implementation'', JStr engine),
      (''gc_policy'', JStr (the (map_of GC_POLICIES engine))),
      (''executable_sha256'', JStr sample_digest), (''build_inputs_sha256'', JStr sample_digest),
      (''source'', JObj [(''revision'', JStr (take 40 sample_digest))]),
      (''build'', JObj [(''configuration'', JStr (configuration_name False)), (''mode'', JStr ''finalized''),
        (''assertions'', JBool False)])]"

definition sample_measurement :: json where
  \<comment> \<open>one pair over one MiB: half a second against one second\<close>
  "sample_measurement = JObj
     [(''Workload'', JStr ''catalog''), (''Pair'', JInt 1), (''Order'', JStr ''AB''), (''DocumentBytes'', JInt 1048576),
      (''Iterations'', JInt 1), (''BaselineElapsedMs'', JFloat (Fin 500)), (''CandidateElapsedMs'', JFloat (Fin 1000)),
      (''BaselineMiBPerSecond'', JFloat (Fin 2)), (''CandidateMiBPerSecond'', JFloat (Fin 1))]"

definition sample_catalog_row :: "string \<times> bool \<Rightarrow> json" where
  "sample_catalog_row = (\<lambda>(e, b). JObj
     [(''implementation'', JStr e), (''assertions'', JBool b), (''status'', JStr ''qualified''),
      (''cases'', JList (map (\<lambda>n. JObj [(''case_id'', JStr n), (''status'', JStr ''PASS'')]) CATALOG_CONTROLS))])"

definition sample_catalog_report :: json where
  "sample_catalog_report = JObj
     [(''status'', JStr ''complete''), (''lane'', JStr ''catalog-finalized-assertions-off''),
      (''artifacts'', JObj (map (\<lambda>e. (e, sample_catalog_artifact e)) implementations)),
      (''qualification'', JList (map sample_catalog_row
         [(''xpact'', True), (''xpact-core'', True), (''xpact'', False), (''xpact-core'', False)])),
      (''input'', JObj [(''bytes'', JInt 1048576)]),
      (''comparison'', JObj [(''metadata'', JObj [(''pairs'', JInt 1)]), (''results'', JList [sample_measurement])])]"

lemma sample_hex: "is_hex 64 sample_digest" "is_hex 40 (take 40 sample_digest)"
  by (simp_all add: is_hex_def sample_digest_def take_replicate)

lemma sample_catalog_identified: "unidentified (sample_catalog_artifact e) = Inr False"
  by (simp add: unidentified_def anyE.simps not_hex_def sample_catalog_artifact_def j_item_JObj j_hex_def j_str_def
      sample_hex)

lemma sample_catalog_artifacts: "validate_artifacts sample_catalog_report ''catalog'' = Inr ()"
proof -
  have "artifact_differs ''catalog'' e (sample_catalog_artifact e) = Inr False" if "e \<in> set implementations" for e
    using that by (auto simp: artifact_differs_def anyE_False_iff pyE sample_catalog_artifact_def implementations_def
        GC_POLICIES_def configuration_name_def)
  then have "forE (validate_artifact ''catalog'') (map (\<lambda>e. (e, sample_catalog_artifact e)) implementations) = Inr ()"
    by (auto simp: forE_Inr_iff validate_artifact_def sample_catalog_identified)
  moreover have "j_set_is (map JStr implementations) implementations = Inr True"
    by (auto simp: pyE)
  ultimately show ?thesis
    by (simp add: validate_artifacts_def sample_catalog_report_def j_item_JObj j_iter_def j_items_def comp_def)
qed

lemma sample_control_row: "control_row ''catalog'' (sample_catalog_row (e, b)) = Inr False"
proof -
  let ?cases = "map (\<lambda>n. JObj [(''case_id'', JStr n), (''status'', JStr ''PASS'')]) CATALOG_CONTROLS"
  have "mapE (\<lambda>c. j_item c ''case_id'') ?cases = Inr (map JStr CATALOG_CONTROLS)"
    by (simp add: mapE_map j_item_JObj)
  moreover have "anyE (map control_outcome_bad ?cases) = Inr False"
    "anyE (map (\<lambda>c. bindE (j_item c ''status'') (\<lambda>s. Inr (s = JStr ''FAIL''))) ?cases) = Inr False"
    unfolding anyE_False_iff by (auto simp: control_outcome_bad_def j_item_JObj)
  moreover have "j_set_is (map JStr CATALOG_CONTROLS) CATALOG_CONTROLS = Inr True" by (auto simp: pyE)
  ultimately show ?thesis
    by (simp add: control_row_def sample_catalog_row_def j_item_JObj item_ne_def j_getd_def obj_lookup_def truthy_def
        j_iter_def Let_def del: map_map list.map_comp)
qed

lemma sample_catalog_controls: "validate_controls sample_catalog_report ''catalog'' = Inr False"
proof -
  let ?rows = "map sample_catalog_row [(''xpact'', True), (''xpact-core'', True), (''xpact'', False), (''xpact-core'', False)]"
  have "mapE (\<lambda>row. bindE (j_item row ''implementation'') (\<lambda>i. bindE (j_item row ''assertions'') (\<lambda>a. Inr (i, a)))) ?rows
      = Inr (map (\<lambda>(e, b). (JStr e, JBool b)) [(''xpact'', True), (''xpact-core'', True), (''xpact'', False), (''xpact-core'', False)])"
    by (simp add: sample_catalog_row_def j_item_JObj)
  moreover have "control_matrix_bad (map (\<lambda>(e, b). (JStr e, JBool b))
      [(''xpact'', True), (''xpact-core'', True), (''xpact'', False), (''xpact-core'', False)]) = Inr False"
    by (auto simp: control_matrix_bad_def hashable_def implementations_def)
  moreover have "mapE (control_row ''catalog'') ?rows = Inr [False, False, False, False]"
    by (simp add: sample_control_row)
  ultimately show ?thesis
    by (simp add: validate_controls_def sample_catalog_report_def j_item_JObj j_iter_def Let_def
        del: list.map list.simps(9))
qed

lemma sample_catalog_pair: "\<exists>p. catalog_row 1048576 (Suc 0, sample_measurement) = Inr p"
  by (simp add: catalog_row_def sample_measurement_def j_item_JObj case_count_def anyE.simps item_ne_def notE_def
      item_is_int_def fl_eq_def order_of_def measurement_def positive_number_def isclose_def)

lemma sample_catalog_plots: "\<exists>plots. catalog_plots sample_catalog_report = Inr plots"
proof -
  obtain p where p: "catalog_row 1048576 (Suc 0, sample_measurement) = Inr p"
    using sample_catalog_pair by blast
  have items: "j_item sample_catalog_report ''status'' = Inr (JStr ''complete'')"
    "j_item sample_catalog_report ''lane'' = Inr (JStr ''catalog-finalized-assertions-off'')"
    "path_item sample_catalog_report [''input'', ''bytes''] = Inr (JInt 1048576)"
    "j_item sample_catalog_report ''comparison''
       = Inr (JObj [(''metadata'', JObj [(''pairs'', JInt 1)]), (''results'', JList [sample_measurement])])"
    by (simp_all add: sample_catalog_report_def j_item_JObj)
  show ?thesis
    unfolding catalog_plots_def items sample_catalog_artifacts sample_catalog_controls
    by (simp add: anyE.simps item_ne_def j_item_JObj j_iter_def case_count_def p items)
qed

theorem catalog_plots_sound_witness:
  "\<exists>plots. catalog_plots sample_catalog_report = Inr plots \<and> length plots = 2"
proof -
  obtain plots where p: "catalog_plots sample_catalog_report = Inr plots" using sample_catalog_plots by blast
  from catalog_plots_sound [OF p] p show ?thesis by blast
qed

end
