(* ===== verification/Jenkins_Summary.thy ===== *)
theory Jenkins_Summary
  imports Lane_Runner Dual_Lane W3C_Report
begin

text \<open>
  The summary of our own tests that Jenkins shows (\<open>scripts/jenkins_xpact_summary.py\<close>):
  which controls and which W3C suite of a finished lane are accepted as evidence
  (\<open>_control_suites\<close>, \<open>_w3c_suite\<close>), how the JUnit document and the summary are counted
  (\<open>_case_counts\<close>, \<open>_publish_summary\<close>), and how they are published. Files, hashes and the
  parsed JUnit file are functions of the host; \<open>sh_float\<close> is \<open>repr\<close> of a float, which only
  occurs in message texts. Times are exact rationals.
\<close>

section \<open>Constants and the host\<close>

definition JUNIT_FILE :: string where
  "JUNIT_FILE = ''xpact-junit.xml''"

definition SUMMARY_FILE :: string where
  "SUMMARY_FILE = ''xpact-summary.json''"

definition CONTROLS :: "(string \<times> string list) list" where
  "CONTROLS =
     [(''catalog'', [''catalog_observed'', ''catalog_noop'', ''observed_reuse_recovery'',
                     ''noop_reuse_recovery'', ''gc_restoration'']),
      (''w3c'', [''raw_utf8'', ''raw_utf16'', ''namespace_switch'', ''reuse_recovery'', ''gc_restoration''])]"

definition CATALOG_CORE_GATE :: string where
  "CATALOG_CORE_GATE = ''Catalog correctness/build gate failed; see per-build errors in run.json''"

record summary_host =
  sh_json :: "string \<Rightarrow> json py" \<comment> \<open>\<open>json.loads(Path(p).read_text())\<close>\<close>
  sh_sha :: "string \<Rightarrow> string py" \<comment> \<open>\<open>file_sha256\<close>\<close>
  sh_fingerprint :: "(string \<Rightarrow> string py) option" \<comment> \<open>\<open>source_fingerprint\<close> by lane; \<open>None\<close>: no \<open>repo_root\<close>\<close>
  sh_junit :: "string \<Rightarrow> element py" \<comment> \<open>\<open>ET.parse(p).getroot()\<close>\<close>
  sh_write :: "string \<Rightarrow> unit py"
  sh_float :: "fl \<Rightarrow> string"

section \<open>Texts and elements\<close>

definition summary_text :: "string \<Rightarrow> string" where
  \<comment> \<open>\<open>_text\<close>\<close>
  "summary_text s = map (\<lambda>c. let n = of_char c :: nat in
     if n = 9 \<or> n = 10 \<or> n = 13 \<or> 32 \<le> n then c else CHR ''?'') s"

definition new_element :: "string \<Rightarrow> (string \<times> string) list \<Rightarrow> element list \<Rightarrow> element" where
  "new_element name attributes content = Element name attributes None None content"

definition outcome_element :: "string \<Rightarrow> string \<Rightarrow> string \<Rightarrow> element" where
  "outcome_element name message content = Element name [(''message'', message)] (Some (summary_text content)) None []"

definition testcase :: "string \<Rightarrow> string \<Rightarrow> element list \<Rightarrow> element" where
  "testcase classname name outcomes =
     new_element ''testcase'' [(''classname'', classname), (''name'', name), (''time'', ''0'')] outcomes"

definition set_attribute :: "string \<Rightarrow> string \<Rightarrow> element \<Rightarrow> element" where
  \<comment> \<open>\<open>e.set(k, v)\<close>\<close>
  "set_attribute k v e = (case e of Element t a x y cs \<Rightarrow> Element t (AList.update k v a) x y cs)"

definition attribute :: "element \<Rightarrow> string \<Rightarrow> string option" where
  "attribute e k = map_of (attrib e) k"

definition attribute_or :: "element \<Rightarrow> string \<Rightarrow> string \<Rightarrow> string" where
  "attribute_or e k d = (case attribute e k of None \<Rightarrow> d | Some v \<Rightarrow> v)"

definition findall :: "string \<Rightarrow> element \<Rightarrow> element list" where
  "findall name e = filter (\<lambda>c. tag c = name) (children e)"

fun descendants :: "element \<Rightarrow> element list" where
  "descendants (Element t a x y cs) = concat (map (\<lambda>c. c # descendants c) cs)"

definition find_below :: "string \<Rightarrow> element \<Rightarrow> element list" where
  \<comment> \<open>\<open>findall(".//name")\<close>\<close>
  "find_below name e = filter (\<lambda>c. tag c = name) (descendants e)"

definition error_suite :: "string \<Rightarrow> string \<Rightarrow> string \<Rightarrow> element py" where
  \<comment> \<open>\<open>_error_suite\<close>; \<open>splitlines()[0]\<close> raises when the error has no text\<close>
  "error_suite lane ctx error = (let name = ''xpact.'' @ lane @ ''.infrastructure'' in
     case splitlines error of
       [] \<Rightarrow> Inl IndexError
     | line # _ \<Rightarrow> Inr (new_element ''testsuite'' [(''name'', name)]
         [testcase name ctx [outcome_element ''error'' (summary_text line) error]]))"

section \<open>Directed controls\<close>

definition get_is :: "json \<Rightarrow> string \<Rightarrow> string \<Rightarrow> bool py" where
  \<comment> \<open>\<open>v.get(k) == s\<close>\<close>
  "get_is v k s = bindE (j_get v k) (\<lambda>w. Inr (py_eq w (JStr s)))"

definition is_bool :: "json \<Rightarrow> bool" where
  "is_bool v = (case v of JBool _ \<Rightarrow> True | _ \<Rightarrow> False)"

definition own_controls :: "json \<Rightarrow> json list py" where
  "own_controls rows =
     bindE (j_iter rows) (\<lambda>rs. bindE (filterE (\<lambda>row. get_is row ''implementation'' ''xpact'') rs) (\<lambda>own.
     bindE (mapE (\<lambda>row. j_get row ''assertions'') own) (\<lambda>keys.
     if length own \<noteq> 2 \<or> (\<exists>v \<in> set keys. \<not> is_bool v) \<or> set keys \<noteq> {JBool True, JBool False}
     then Inl (SummaryError ''Own directed controls must cover assertions on and off exactly once'')
     else Inr own)))"

definition own_build_mismatch :: "string \<Rightarrow> json \<Rightarrow> json \<Rightarrow> bool py" where
  "own_build_mismatch lane artifact assertions =
     anyE [get_ne artifact ''status'' ''verified'',
       get_ne artifact ''implementation'' ''xpact'',
       get_ne artifact ''profile'' lane,
       bindE (j_getd artifact ''build'' (JObj [])) (\<lambda>b. get_ne b ''configuration'' (configuration_name (truthy assertions))),
       bindE (j_item artifact ''build'') (\<lambda>b. get_ne b ''mode'' ''finalized''),
       bindE (j_item artifact ''build'') (\<lambda>b. bindE (j_get b ''assertions'') (\<lambda>w. Inr (w \<noteq> assertions)))]"

definition own_not_hex :: "nat \<Rightarrow> json \<Rightarrow> bool py" where
  \<comment> \<open>\<open>not re.fullmatch(...)\<close>\<close>
  "own_not_hex n v = bindE (j_hex n v) (\<lambda>b. Inr (\<not> b))"

definition own_bytes_changed :: "(string \<Rightarrow> string py) \<Rightarrow> json \<Rightarrow> bool py" where
  "own_bytes_changed sha artifact =
     anyE [bindE (j_item artifact ''executable'') (\<lambda>e. bindE (j_str e) (\<lambda>file. bindE (sha file) (\<lambda>digest.
         item_ne artifact ''executable_sha256'' digest))),
       bindE (j_item artifact ''build_inputs_sha256'') (own_not_hex 64),
       bindE (path_item artifact [''source'', ''revision'']) (own_not_hex 40)]"

definition own_artifact :: "summary_host \<Rightarrow> string \<Rightarrow> json \<Rightarrow> json py" where
  \<comment> \<open>the verified \<open>build.json\<close> of one row\<close>
  "own_artifact h lane row =
     bindE (j_item row ''manifest'') (\<lambda>m. bindE (j_str m) (\<lambda>file. bindE (sh_json h file) (\<lambda>artifact.
     bindE (j_item row ''assertions'') (\<lambda>assertions.
     bindE (own_build_mismatch lane artifact assertions) (\<lambda>bad.
     if bad then Inl (SummaryError ''Own directed-control build identity/configuration is not verified'')
     else bindE (own_bytes_changed (sh_sha h) artifact) (\<lambda>bad.
     if bad then Inl (SummaryError ''Own build bytes or identity changed after verification'')
     else Inr artifact))))))"

definition own_inputs_changed :: "summary_host \<Rightarrow> string \<Rightarrow> json \<Rightarrow> bool py" where
  "own_inputs_changed h lane artifact = (case sh_fingerprint h of
      None \<Rightarrow> Inr False
    | Some fingerprint \<Rightarrow> bindE (fingerprint lane) (\<lambda>current. item_ne artifact ''build_inputs_sha256'' current))"

definition verify_builds :: "summary_host \<Rightarrow> json list \<Rightarrow> string \<Rightarrow> unit py" where
  \<comment> \<open>\<open>_verify_builds\<close>; \<open>rows\<close> are the two rows of \<open>own_controls\<close>\<close>
  "verify_builds h rows lane =
     bindE (mapE (own_artifact h lane) rows) (\<lambda>metadata. case metadata of
       a # b # _ \<Rightarrow>
         bindE (items_differ a b ''build_inputs_sha256'') (\<lambda>bad.
         if bad then Inl (SummaryError ''Own assertion configurations use different source snapshots'')
         else bindE (anyE (map (source_differs a b) [''revision'', ''source_sha256''])) (\<lambda>bad.
         if bad then Inl (SummaryError ''Own assertion configurations use different source identities'')
         else bindE (own_inputs_changed h lane a) (\<lambda>bad.
         raise_if bad (SummaryError ''Own source inputs changed after directed-control execution''))))
     | _ \<Rightarrow> Inl IndexError)"

definition core_gate_failed :: "json \<Rightarrow> bool py" where
  \<comment> \<open>\<open>any(row.get("implementation") == "xpact-core" and row.get("status") == "failed")\<close>\<close>
  "core_gate_failed rows = bindE (j_iter rows) (\<lambda>rs. anyE (map (\<lambda>row. bindE (get_is row ''implementation'' ''xpact-core'') (\<lambda>b.
     if b then get_is row ''status'' ''failed'' else Inr False)) rs))"

definition other_incompleteness :: "string \<Rightarrow> json \<Rightarrow> json \<Rightarrow> bool py" where
  \<comment> \<open>the incomplete lane did not stop at the gate of the other implementation\<close>
  "other_incompleteness lane state rows =
     anyE [Inr (lane \<noteq> ''catalog''), get_ne state ''status'' ''failed'', get_ne state ''error'' CATALOG_CORE_GATE,
       bindE (j_get state ''comparison_arguments'') (\<lambda>v. Inr (truthy v)),
       bindE (core_gate_failed rows) (\<lambda>b. Inr (\<not> b))]"

definition control_rows :: "summary_host \<Rightarrow> string \<Rightarrow> string \<Rightarrow> json option \<Rightarrow> json py" where
  "control_rows h directory lane report = (case report of
      Some r \<Rightarrow> j_item r ''qualification''
    | None \<Rightarrow>
        bindE (sh_json h (directory @ ''/run.json'')) (\<lambda>state.
        bindE (j_item state ''builds'') (\<lambda>rows.
        bindE (other_incompleteness lane state rows) (\<lambda>bad.
        if bad then Inl (SummaryError (''Own validation cannot be established from the incomplete '' @ lane @ '' lane''))
        else Inr rows))))"

definition mode_name :: "json \<Rightarrow> string" where
  "mode_name assertions = (if truthy assertions then ''on'' else ''off'')"

definition control_case :: "summary_host \<Rightarrow> string \<Rightarrow> string \<Rightarrow> json \<Rightarrow> element py" where
  "control_case h lane mode c =
     bindE (j_item c ''status'') (\<lambda>status.
     if \<not> (py_eq status (JStr ''PASS'') \<or> py_eq status (JStr ''FAIL''))
     then Inl (SummaryError ''Own directed control has an invalid outcome'')
     else bindE (j_item c ''case_id'') (\<lambda>i.
       let name = ''assertions-'' @ mode @ ''/'' @ py_str (sh_float h) i; classname = ''xpact.'' @ lane @ ''.controls'' in
       if py_eq status (JStr ''FAIL'') then
         bindE (j_getd c ''detail'' (JStr ''FAIL'')) (\<lambda>detail.
         Inr (testcase classname name
           [outcome_element ''failure'' ''Own directed control failed'' (py_str (sh_float h) detail)]))
       else Inr (testcase classname name [])))"

definition own_control_matrix :: "string \<Rightarrow> json list \<Rightarrow> unit py" where
  "own_control_matrix lane cases =
     bindE (mapE (\<lambda>c. j_item c ''case_id'') cases) (\<lambda>names.
     bindE (py_item (map_of CONTROLS) lane) (\<lambda>controls.
     bindE (anyE [Inr (length names \<noteq> length controls),
       bindE (j_set_is names controls) (\<lambda>same. Inr (\<not> same))]) (\<lambda>bad.
     raise_if bad (SummaryError (''Own '' @ lane @ '' directed-control case matrix is incomplete or duplicated'')))))"

definition named_suite :: "string \<Rightarrow> string \<Rightarrow> element list \<Rightarrow> element" where
  "named_suite lane mode tests =
     new_element ''testsuite'' [(''name'', ''xpact.'' @ lane @ ''.controls.assertions-'' @ mode)] tests"

definition process_error :: "string \<Rightarrow> string \<Rightarrow> string \<Rightarrow> element" where
  "process_error lane mode error =
     testcase (''xpact.'' @ lane @ ''.controls'') (''assertions-'' @ mode @ ''/control-process'')
       [outcome_element ''error'' ''Own directed control process failed'' error]"

definition control_suite :: "summary_host \<Rightarrow> string \<Rightarrow> json \<Rightarrow> element py" where
  "control_suite h lane row =
     bindE (j_item row ''assertions'') (\<lambda>assertions.
     bindE (j_get row ''qualification_error'') (\<lambda>error.
     if truthy error then
       Inr (named_suite lane (mode_name assertions) [process_error lane (mode_name assertions) (py_str (sh_float h) error)])
     else
       bindE (bindE (j_item row ''cases'') j_iter) (\<lambda>cases.
       bindE (own_control_matrix lane cases) (\<lambda>_.
       bindE (mapE (control_case h lane (mode_name assertions)) cases) (\<lambda>tests.
       Inr (named_suite lane (mode_name assertions) tests))))))"

definition expected_status :: "string \<Rightarrow> string" where
  "expected_status lane = (if lane = ''catalog'' then ''qualified'' else ''executed'')"

definition control_suites :: "summary_host \<Rightarrow> string \<Rightarrow> string \<Rightarrow> json option \<Rightarrow> element list py" where
  "control_suites h directory lane report =
     bindE (control_rows h directory lane report) (\<lambda>rows.
     bindE (own_controls rows) (\<lambda>own.
     bindE (anyE (map (\<lambda>row. get_ne row ''status'' (expected_status lane)) own)) (\<lambda>bad.
     if bad then Inl (SummaryError (''Own '' @ lane @ '' build or directed controls did not complete''))
     else bindE (verify_builds h own lane) (\<lambda>_. mapE (control_suite h lane) own))))"

section \<open>Counting cases\<close>

record case_counts =
  k_tests :: int
  k_failures :: int
  k_errors :: int
  k_skipped :: int
  k_passed :: int

definition outcomes_of :: "element \<Rightarrow> string list" where
  "outcomes_of test = filter (\<lambda>t. py_in t [''failure'', ''error'', ''skipped'']) (map tag (children test))"

definition add_outcome :: "string list \<Rightarrow> case_counts \<Rightarrow> case_counts" where
  "add_outcome outcomes k = (case outcomes of
      [] \<Rightarrow> k
    | t # _ \<Rightarrow>
        if t = ''failure'' then k\<lparr>k_failures := k_failures k + 1\<rparr>
        else if t = ''error'' then k\<lparr>k_errors := k_errors k + 1\<rparr>
        else k\<lparr>k_skipped := k_skipped k + 1\<rparr>)"

definition finite_duration :: "fl \<Rightarrow> rat option" where
  \<comment> \<open>not \<open>not math.isfinite(duration) or duration < 0\<close>\<close>
  "finite_duration d = (case d of Fin x \<Rightarrow> if x < 0 then None else Some x | _ \<Rightarrow> None)"

fun count_tests :: "element list \<Rightarrow> case_counts \<Rightarrow> rat \<Rightarrow> (case_counts \<times> rat) py" where
  "count_tests [] k elapsed = Inr (k, elapsed)"
| "count_tests (test # tests) k elapsed =
     (let outcomes = outcomes_of test in
      if 1 < length outcomes then Inl (SummaryError ''Own JUnit case has contradictory outcomes'')
      else bindE (py_float (attribute_or test ''time'' ''0'')) (\<lambda>d. case finite_duration d of
          None \<Rightarrow> Inl (SummaryError ''Own JUnit case duration is invalid'')
        | Some x \<Rightarrow> count_tests tests (add_outcome outcomes k) (elapsed + x)))"

definition case_counts_of :: "element \<Rightarrow> (case_counts \<times> rat) py" where
  \<comment> \<open>\<open>_case_counts\<close>\<close>
  "case_counts_of suite =
     (let tests = findall ''testcase'' suite; names = map (\<lambda>t. attribute t ''name'') tests in
      if (\<exists>n \<in> set names. n = None \<or> n = Some []) \<or> \<not> distinct names
      then Inl (SummaryError ''Own JUnit case matrix has missing or duplicate names'')
      else bindE (count_tests tests \<lparr>k_tests = int (length tests), k_failures = 0, k_errors = 0, k_skipped = 0,
          k_passed = 0\<rparr> 0) (\<lambda>(k, elapsed).
        Inr (k\<lparr>k_passed := k_tests k - k_failures k - k_errors k - k_skipped k\<rparr>, elapsed)))"

section \<open>The W3C suite\<close>

definition case_number :: "json \<Rightarrow> int py" where
  \<comment> \<open>\<open>_number\<close>: a non-negative \<open>int\<close>, not a \<open>bool\<close>\<close>
  "case_number v = (case v of
      JInt n \<Rightarrow> if n < 0 then Inl (SummaryError ''Own W3C report contains an invalid case count'') else Inr n
    | _ \<Rightarrow> Inl (SummaryError ''Own W3C report contains an invalid case count''))"

definition engine_number :: "json \<Rightarrow> string \<Rightarrow> int py" where
  "engine_number own k = bindE (j_item own k) case_number"

definition own_engine :: "json \<Rightarrow> json py" where
  "own_engine report =
     bindE (j_item report ''engines'') (\<lambda>e. bindE (j_iter e) (\<lambda>rows.
     bindE (filterE (\<lambda>row. get_is row ''engine'' ''xpact'') rows) (\<lambda>own. case own of
       [row] \<Rightarrow> Inr row
     | _ \<Rightarrow> Inl (SummaryError ''Own full W3C engine summary is missing or duplicated''))))"

definition own_numbers :: "json \<Rightarrow> case_counts py" where
  \<comment> \<open>the five counts of the report, reconciled with each other and with the catalog\<close>
  "own_numbers report =
     bindE (own_engine report) (\<lambda>own.
     bindE (engine_number own ''total'') (\<lambda>total. bindE (engine_number own ''passed'') (\<lambda>passed.
     bindE (engine_number own ''failed'') (\<lambda>failed. bindE (engine_number own ''errors'') (\<lambda>errors.
     bindE (engine_number own ''skipped'') (\<lambda>skipped.
     if total \<le> 0 \<or> total \<noteq> passed + failed + errors + skipped
     then Inl (SummaryError ''Own W3C summary counts do not reconcile'')
     else bindE (bindE (path_item report [''source'', ''catalog_cases'']) case_number) (\<lambda>cases.
     if total \<noteq> cases then Inl (SummaryError ''Own W3C summary does not cover the selected catalog'')
     else Inr \<lparr>k_tests = total, k_failures = failed, k_errors = errors, k_skipped = skipped, k_passed = passed\<rparr>)))))))"

definition own_class :: "element \<Rightarrow> bool" where
  "own_class test = (let c = attribute_or test ''classname'' [] in c = ''w3c.xml.xpact'' \<or> startswith c ''w3c.xml.xpact.'')"

definition declared_mismatch :: "element \<Rightarrow> string \<times> int \<Rightarrow> unit py" where
  "declared_mismatch suite = (\<lambda>(k, n). bindE (py_int (attribute_or suite k ''-1'')) (\<lambda>declared.
     raise_if (declared \<noteq> n) (SummaryError ''Own W3C JUnit declared counts contradict its cases'')))"

definition named_counts :: "case_counts \<Rightarrow> (string \<times> int) list" where
  "named_counts k = [(''tests'', k_tests k), (''failures'', k_failures k), (''errors'', k_errors k), (''skipped'', k_skipped k)]"

definition w3c_evidence :: "json option \<Rightarrow> json py" where
  "w3c_evidence report = (case report of
      None \<Rightarrow> Inl (SummaryError ''Own full W3C catalog results are unavailable'')
    | Some r \<Rightarrow> bindE (j_get r ''status'') (\<lambda>s.
        if py_eq s (JStr ''complete'') \<or> py_eq s (JStr ''complete_with_failures'') then Inr r
        else Inl (SummaryError ''Own full W3C catalog results are unavailable'')))"

definition w3c_own_suite :: "element \<Rightarrow> case_counts \<Rightarrow> element py" where
  \<comment> \<open>the checks on the JUnit document\<close>
  "w3c_own_suite document numbers =
     (case filter (\<lambda>s. attribute s ''name'' = Some ''w3c-xml-xpact'') (findall ''testsuite'' document) of
       [suite] \<Rightarrow>
         if find_below ''testsuite'' suite \<noteq> [] \<or> length (find_below ''testcase'' suite) \<noteq> length (findall ''testcase'' suite)
         then Inl (SummaryError ''Nested JUnit suites or testcases cannot enter own W3C results'')
         else if \<exists>test \<in> set (findall ''testcase'' suite). \<not> own_class test
         then Inl (SummaryError ''Foreign implementation testcase found inside own W3C suite'')
         else bindE (case_counts_of suite) (\<lambda>(counts, elapsed).
           if counts \<noteq> numbers then Inl (SummaryError ''Own W3C JUnit results contradict the engine summary'')
           else bindE (forE (declared_mismatch suite) (named_counts counts)) (\<lambda>_.
           Inr (set_attribute ''time'' (fixed 6 elapsed) suite)))
     | _ \<Rightarrow> Inl (SummaryError ''Own full W3C JUnit suite is missing or duplicated''))"

definition w3c_suite :: "summary_host \<Rightarrow> string \<Rightarrow> json option \<Rightarrow> element py" where
  "w3c_suite h directory report =
     bindE (w3c_evidence report) (\<lambda>r. bindE (own_numbers r) (\<lambda>numbers.
     bindE (sh_junit h (directory @ ''/conformance/junit.xml'')) (\<lambda>document. w3c_own_suite document numbers)))"

section \<open>The summary\<close>

record own_summary =
  os_status :: string
  os_counts :: case_counts

definition control_errors :: "exn \<Rightarrow> bool" where
  \<comment> \<open>\<open>except (SummaryError, OSError, ValueError, KeyError, TypeError)\<close>\<close>
  "control_errors e = (is_value_error e \<or> (case e of OSError _ \<Rightarrow> True | KeyError _ \<Rightarrow> True | TypeError \<Rightarrow> True | _ \<Rightarrow> False))"

definition catalog_errors :: "exn \<Rightarrow> bool" where
  \<comment> \<open>the same and \<open>ET.ParseError\<close>\<close>
  "catalog_errors e = (control_errors e \<or> (case e of ParseError _ \<Rightarrow> True | _ \<Rightarrow> False))"

definition or_error_suite :: "string \<Rightarrow> string \<Rightarrow> (exn \<Rightarrow> bool) \<Rightarrow> element list py \<Rightarrow> (element list \<times> bool) py" where
  \<comment> \<open>the suites and whether they report an infrastructure error\<close>
  "or_error_suite lane ctx handled m = (case m of
      Inr suites \<Rightarrow> Inr (suites, False)
    | Inl e \<Rightarrow> if handled e then bindE (error_suite lane ctx (exn_text e)) (\<lambda>s. Inr ([s], True)) else Inl e)"

definition state_disagrees :: "json \<Rightarrow> json \<Rightarrow> bool py" where
  "state_disagrees row report =
     bindE (j_get row ''status'') (\<lambda>a. bindE (j_get report ''status'') (\<lambda>b.
     Inr (\<not> py_eq a b \<or> \<not> (py_eq b (JStr ''complete'') \<or> py_eq b (JStr ''complete_with_failures'')))))"

definition accepted_report :: "string \<Rightarrow> json \<Rightarrow> json option \<Rightarrow> (json option \<times> element list) py" where
  \<comment> \<open>a report that contradicts the campaign state is dropped and reported\<close>
  "accepted_report lane row report = (case report of
      None \<Rightarrow> Inr (None, [])
    | Some r \<Rightarrow> bindE (state_disagrees row r) (\<lambda>bad.
        if bad then bindE (error_suite lane ''campaign-evidence'' ''Own campaign state and completed report disagree'')
          (\<lambda>s. Inr (None, [s]))
        else Inr (Some r, [])))"

definition lane_suites :: "summary_host \<Rightarrow> (string \<Rightarrow> string) \<Rightarrow> (string \<rightharpoonup> json) \<Rightarrow> (string \<rightharpoonup> json) \<Rightarrow> string
    \<Rightarrow> (element list \<times> bool) py" where
  \<comment> \<open>one turn of the loop over the lanes\<close>
  "lane_suites h directory lane_reports lane_states lane =
     bindE (accepted_report lane (py_get lane_states lane (JObj [])) (lane_reports lane)) (\<lambda>(report, disagreement).
     bindE (or_error_suite lane ''directed-controls'' control_errors (control_suites h (directory lane) lane report)) (\<lambda>(controls, bad1).
     bindE (if lane = ''w3c'' then or_error_suite lane ''full-catalog'' catalog_errors
              (bindE (w3c_suite h (directory lane) report) (\<lambda>s. Inr [s])) else Inr ([], False)) (\<lambda>(catalog, bad2).
     Inr (disagreement @ controls @ catalog, disagreement \<noteq> [] \<or> bad1 \<or> bad2))))"

definition set_counts :: "case_counts \<Rightarrow> element \<Rightarrow> element" where
  "set_counts k e = fold (\<lambda>(name, n). set_attribute name (show_int n)) (named_counts k) e"

definition add_counts :: "case_counts \<Rightarrow> case_counts \<Rightarrow> case_counts" where
  "add_counts a b = \<lparr>k_tests = k_tests a + k_tests b, k_failures = k_failures a + k_failures b,
     k_errors = k_errors a + k_errors b, k_skipped = k_skipped a + k_skipped b, k_passed = k_passed a + k_passed b\<rparr>"

definition no_counts :: case_counts where
  "no_counts = \<lparr>k_tests = 0, k_failures = 0, k_errors = 0, k_skipped = 0, k_passed = 0\<rparr>"

fun total_suites :: "element list \<Rightarrow> case_counts \<Rightarrow> rat \<Rightarrow> (element list \<times> case_counts \<times> rat) py" where
  "total_suites [] totals elapsed = Inr ([], totals, elapsed)"
| "total_suites (suite # suites) totals elapsed =
     bindE (case_counts_of suite) (\<lambda>(counts, duration).
     bindE (total_suites suites (add_counts totals counts) (elapsed + duration)) (\<lambda>(rest, result).
     Inr (set_attribute ''time'' (fixed 6 duration) (set_counts counts suite) # rest, result)))"

definition summary_status :: "bool \<Rightarrow> case_counts \<Rightarrow> string" where
  "summary_status infrastructure totals = (if infrastructure then ''failed''
     else if k_failures totals \<noteq> 0 \<or> k_errors totals \<noteq> 0 then ''complete_with_failures'' else ''complete'')"

definition lane_directory :: "string \<Rightarrow> (string \<times> string) list \<Rightarrow> string \<Rightarrow> string" where
  "lane_directory output_dir lane_directories lane =
     (case map_of lane_directories lane of Some d \<Rightarrow> d | None \<Rightarrow> output_dir @ ''/'' @ lane)"

definition known_selection :: "string list \<Rightarrow> bool" where
  "known_selection selected \<longleftrightarrow>
     selected \<noteq> [] \<and> distinct selected \<and> (\<forall>lane \<in> set selected. lane \<in> set (map fst CONTROLS))"

definition own_document :: "element list \<Rightarrow> case_counts \<Rightarrow> rat \<Rightarrow> element" where
  "own_document suites totals elapsed =
     set_attribute ''time'' (fixed 6 elapsed) (set_counts totals (new_element ''testsuites'' [] suites))"

definition collect_summary :: "summary_host \<Rightarrow> string \<Rightarrow> (string \<times> string) list \<Rightarrow> (string \<rightharpoonup> json) \<Rightarrow> (string \<rightharpoonup> json)
    \<Rightarrow> string list \<Rightarrow> (element \<times> own_summary) py" where
  \<comment> \<open>\<open>_publish_summary\<close> up to the first write: the JUnit document and the summary\<close>
  "collect_summary h output_dir lane_directories lane_reports lane_states selected =
     (if \<not> known_selection selected then Inl (SummaryError ''Select catalog and/or W3C exactly once'')
      else
        bindE (mapE (lane_suites h (lane_directory output_dir lane_directories) lane_reports lane_states) selected) (\<lambda>lanes.
        bindE (total_suites (concat (map fst lanes)) no_counts 0) (\<lambda>(suites, totals, elapsed).
        Inr (own_document suites totals elapsed,
             \<lparr>os_status = summary_status (list_ex snd lanes) totals, os_counts = totals\<rparr>))))"

definition clear_summary :: "unit lane" where
  "clear_summary = emitA Cleared"

definition replace_text :: "(string \<Rightarrow> unit py) \<Rightarrow> string \<Rightarrow> unit lane" where
  \<comment> \<open>a staged file that replaces the target once it is complete\<close>
  "replace_text write name = write_atomic write name"

definition summary_body :: "summary_host \<Rightarrow> (element \<times> own_summary) py \<Rightarrow> (element \<times> own_summary) lane" where
  "summary_body h collected =
     bindA (pureA collected) (\<lambda>summary.
     or_clear (bindA (replace_text (sh_write h) JUNIT_FILE) (\<lambda>_.
       bindA (replace_text (sh_write h) SUMMARY_FILE) (\<lambda>_. pureA (Inr summary)))))"

definition publish_summary :: "summary_host \<Rightarrow> string \<Rightarrow> (string \<times> string) list \<Rightarrow> (string \<rightharpoonup> json) \<Rightarrow> (string \<rightharpoonup> json)
    \<Rightarrow> string list \<Rightarrow> (element \<times> own_summary) lane" where
  "publish_summary h output_dir lane_directories lane_reports lane_states selected =
     or_clear (summary_body h (collect_summary h output_dir lane_directories lane_reports lane_states selected))"

section \<open>The script\<close>

record summary_args =
  sa_output :: string
  sa_lane :: string
  sa_is_file :: "string \<Rightarrow> bool" \<comment> \<open>\<open>is_file\<close>\<close>

definition read_optional :: "summary_host \<Rightarrow> summary_args \<Rightarrow> string \<Rightarrow> json \<Rightarrow> json py" where
  "read_optional h a name absent = (let path = sa_output a @ ''/'' @ name in
     if sa_is_file a path then sh_json h path else Inr absent)"

definition summary_try :: "summary_host \<Rightarrow> summary_args \<Rightarrow> (element \<times> own_summary) lane" where
  \<comment> \<open>the \<open>try\<close> block of \<open>main\<close>\<close>
  "summary_try h a =
     bindA (pureA (read_optional h a ''report.json'' JNull)) (\<lambda>report.
     bindA (pureA (read_optional h a ''run.json'' (JObj [(''status'', JStr ''failed'')]))) (\<lambda>state.
     publish_summary h (sa_output a) [(sa_lane a, sa_output a)]
       (if truthy report then [sa_lane a \<mapsto> report] else Map.empty) [sa_lane a \<mapsto> state] [sa_lane a]))"

definition summary_exit :: "string \<Rightarrow> int py" where
  "summary_exit status = (case map_of [(''complete'', 0), (''complete_with_failures'', 1), (''failed'', 2)] status of
     Some n \<Rightarrow> Inr n | None \<Rightarrow> Inl (KeyError status))"

definition summary_main :: "summary_host \<Rightarrow> summary_args \<Rightarrow> int lane" where
  "summary_main h a = (case summary_try h a of
      (evs, Inr (document, summary)) \<Rightarrow> (evs, summary_exit (os_status summary))
    | (evs, Inl e) \<Rightarrow> if is_exception e then bindA (evs, Inr ()) (\<lambda>_. bindA clear_summary (\<lambda>_. pureA (Inr 2))) else (evs, Inl e))"

end
