(* ===== verification/Summary_Proofs.thy ===== *)
theory Summary_Proofs
  imports Jenkins_Summary
begin

text \<open>
  Lemmas on the Jenkins summary: what is on disk after a publication, what \<open>count_tests\<close> counts,
  and what an accepted lane and a summary without failures say about the directed controls.
\<close>

section \<open>Publication\<close>

lemma or_clear_Inl_fold: "or_clear m = (evs, Inl e) \<Longrightarrow> fold report_step evs fs = []"
  by (auto simp: or_clear_def split: prod.splits sum.splits)

lemma summary_body_Inr:
  assumes "summary_body h collected = (evs, Inr x)"
  shows "collected = Inr x \<and> evs = [Report JUNIT_FILE, Report SUMMARY_FILE]"
  using assms by (auto simp: summary_body_def replace_text_def bindA_Inr_iff or_clear_Inr write_Inr)

lemma publish_summary_cases:
  assumes "publish_summary h out dirs reps states sel = (evs, r)"
  shows "case r of
      Inl e \<Rightarrow> fold report_step evs fs = []
    | Inr x \<Rightarrow> collect_summary h out dirs reps states sel = Inr x
        \<and> fold report_step evs fs = fs @ [JUNIT_FILE, SUMMARY_FILE]"
proof (cases r)
  case (Inl e)
  with assms show ?thesis by (simp add: publish_summary_def or_clear_Inl_fold)
next
  case (Inr x)
  with assms show ?thesis
    by (auto simp: publish_summary_def or_clear_Inr dest!: summary_body_Inr)
qed

section \<open>Counting\<close>

lemma outcomes_of_cases:
  "\<not> 1 < length (outcomes_of t) \<Longrightarrow>
     outcomes_of t = [] \<or> outcomes_of t = [''failure''] \<or> outcomes_of t = [''error''] \<or> outcomes_of t = [''skipped'']"
proof -
  assume "\<not> 1 < length (outcomes_of t)"
  then consider "outcomes_of t = []" | x where "outcomes_of t = [x]"
    by (cases "outcomes_of t"; cases "tl (outcomes_of t)") auto
  then show ?thesis
  proof cases
    case (2 x)
    then have "x \<in> set (outcomes_of t)" by simp
    then have "py_in x [''failure'', ''error'', ''skipped'']" by (simp add: outcomes_of_def)
    with 2 show ?thesis by (simp only: py_in_simps) blast
  qed simp
qed

definition ends_as :: "string \<Rightarrow> element list \<Rightarrow> int" where
  "ends_as name tests = int (count_if (\<lambda>t. outcomes_of t = [name]) tests)"

lemma ends_as_simps [simp]:
  "ends_as name [] = 0"
  "ends_as name (t # ts) = of_bool (outcomes_of t = [name]) + ends_as name ts"
  by (simp_all add: ends_as_def)

lemma ends_as_nonneg [simp]: "0 \<le> ends_as name ts"
  by (simp add: ends_as_def)

lemma add_outcome_simps [simp]:
  "add_outcome [] k = k"
  "add_outcome [''failure''] k = k\<lparr>k_failures := k_failures k + 1\<rparr>"
  "add_outcome [''error''] k = k\<lparr>k_errors := k_errors k + 1\<rparr>"
  "add_outcome [''skipped''] k = k\<lparr>k_skipped := k_skipped k + 1\<rparr>"
  by (simp_all add: add_outcome_def)

lemma count_tests_Inr:
  "count_tests ts k x = Inr (k', y) \<Longrightarrow>
     k' = k\<lparr>k_failures := k_failures k + ends_as ''failure'' ts, k_errors := k_errors k + ends_as ''error'' ts,
             k_skipped := k_skipped k + ends_as ''skipped'' ts\<rparr>"
proof (induction ts k x rule: count_tests.induct)
  case (2 t ts k x)
  from 2(2) have short: "\<not> 1 < length (outcomes_of t)" by (auto simp: Let_def split: if_splits)
  with 2(2) obtain d z where
    "py_float (attribute_or t ''time'' ''0'') = Inr d" "finite_duration d = Some z"
    "count_tests ts (add_outcome (outcomes_of t) k) (x + z) = Inr (k', y)"
    by (auto simp: Let_def bindE_Inr_iff split: option.splits)
  from 2(1) [OF refl short this] outcomes_of_cases [OF short] show ?case
    by (elim disjE) (simp_all add: add.assoc)
qed simp

lemma case_counts_of_Inr:
  assumes "case_counts_of suite = Inr (k, x)"
  shows "k_tests k = int (length (findall ''testcase'' suite))"
    "k_failures k = ends_as ''failure'' (findall ''testcase'' suite)"
    "k_errors k = ends_as ''error'' (findall ''testcase'' suite)"
  using assms by (auto simp: case_counts_of_def Let_def bindE_Inr_iff dest!: count_tests_Inr split: if_splits)

lemma total_suites_Inr:
  "total_suites suites k x = Inr (out, k', y) \<Longrightarrow>
     k_failures k' = k_failures k + (\<Sum>s\<leftarrow>suites. ends_as ''failure'' (findall ''testcase'' s))
   \<and> k_errors k' = k_errors k + (\<Sum>s\<leftarrow>suites. ends_as ''error'' (findall ''testcase'' s))"
proof (induction suites arbitrary: k x out)
  case (Cons s suites)
  then obtain c d rest where c: "case_counts_of s = Inr (c, d)"
    and "total_suites suites (add_counts k c) (x + d) = Inr (rest, k', y)"
    by (auto simp: bindE_Inr_iff)
  from Cons.IH [OF this(2)] case_counts_of_Inr [OF c] show ?case
    by (simp add: add_counts_def)
qed simp

lemma no_failure_in_suite:
  assumes "(\<Sum>s\<leftarrow>suites. ends_as name (findall ''testcase'' s)) = 0" "s \<in> set suites" "t \<in> set (findall ''testcase'' s)"
  shows "outcomes_of t \<noteq> [name]"
proof -
  have "\<forall>n \<in> set (map (\<lambda>s. ends_as name (findall ''testcase'' s)) suites). n = 0"
    using assms(1) by (subst (asm) sum_list_nonneg_eq_0_iff) auto
  with assms(2) have "ends_as name (findall ''testcase'' s) = 0" by auto
  then show ?thesis using assms(3) by (auto simp: ends_as_def count_if_0_iff)
qed

lemma total_suites_no_failure:
  assumes "total_suites suites no_counts 0 = Inr (out, k, y)" "k_failures k = 0" "k_errors k = 0"
    and "s \<in> set suites" "t \<in> set (findall ''testcase'' s)"
  shows "outcomes_of t \<noteq> [''failure''] \<and> outcomes_of t \<noteq> [''error'']"
proof -
  have "(\<Sum>s\<leftarrow>suites. ends_as ''failure'' (findall ''testcase'' s)) = 0"
    "(\<Sum>s\<leftarrow>suites. ends_as ''error'' (findall ''testcase'' s)) = 0"
    using total_suites_Inr [OF assms(1)] assms(2,3) by (simp_all add: no_counts_def)
  then show ?thesis using no_failure_in_suite assms(4,5) by blast
qed

section \<open>Controls\<close>

lemma outcome_of_testcase [simp]: "outcomes_of (testcase c n []) = []"
  by (simp add: outcomes_of_def testcase_def new_element_def)

lemma outcome_of_failure [simp]: "outcomes_of (testcase c n [outcome_element ''failure'' m d]) = [''failure'']"
  by (simp add: outcomes_of_def testcase_def new_element_def outcome_element_def)

lemma outcome_of_error [simp]: "outcomes_of (testcase c n [outcome_element ''error'' m d]) = [''error'']"
  by (simp add: outcomes_of_def testcase_def new_element_def outcome_element_def)

lemma tag_testcase [simp]: "tag (testcase c n out) = ''testcase''"
  by (simp add: testcase_def new_element_def)

lemma findall_all: "(\<forall>c \<in> set cs. tag c = name) \<Longrightarrow> findall name (new_element s a cs) = cs"
  by (simp add: findall_def new_element_def)

lemma findall_named_suite [simp]:
  "\<forall>c \<in> set tests. tag c = ''testcase'' \<Longrightarrow> findall ''testcase'' (named_suite lane mode tests) = tests"
  by (simp add: named_suite_def findall_all)

lemma process_error_simps [simp]:
  "tag (process_error lane mode e) = ''testcase''" "outcomes_of (process_error lane mode e) = [''error'']"
  by (simp_all add: process_error_def)

lemma control_case_Inr:
  assumes "control_case h lane mode c = Inr t"
  shows "tag t = ''testcase''" "outcomes_of t \<noteq> [''failure''] \<Longrightarrow> field c ''status'' = Some (JStr ''PASS'')"
  using assms by (auto simp: control_case_def Let_def pyE split: if_splits)

definition controls_of :: "string \<Rightarrow> string list" where
  "controls_of lane = (case map_of CONTROLS lane of Some cs \<Rightarrow> cs | None \<Rightarrow> [])"

definition controls_passed :: "string \<Rightarrow> json \<Rightarrow> bool" where
  \<comment> \<open>every directed control of the lane, once, with the verdict PASS\<close>
  "controls_passed lane row = (case field row ''cases'' of
      Some (JList cs) \<Rightarrow>
        length cs = length (controls_of lane) \<and> (\<forall>c \<in> set cs. field c ''status'' = Some (JStr ''PASS''))
        \<and> (\<forall>name \<in> set (controls_of lane). \<exists>c \<in> set cs. field c ''case_id'' = Some (JStr name))
    | _ \<Rightarrow> False)"

lemma mapE_items_list:
  assumes "j_iter v = Inr cs" "mapE (\<lambda>c. j_item c k) cs = Inr ns" "cs \<noteq> []"
  shows "v = JList cs"
proof (cases v)
  case (JStr s)
  with assms obtain c s' where "s = c # s'" by (cases s) (auto simp: j_iter_def)
  with JStr assms show ?thesis by (auto simp: j_iter_def j_item_def bindE_Inr_iff)
next
  case (JObj m)
  with assms obtain p m' where "m = p # m'" by (cases m) (auto simp: j_iter_def)
  with JObj assms show ?thesis by (auto simp: j_iter_def j_item_def bindE_Inr_iff)
qed (use assms in \<open>auto simp: j_iter_def\<close>)

lemma own_control_matrix_Inr:
  assumes "own_control_matrix lane cs = Inr ()" "controls_of lane \<noteq> []"
  shows "\<exists>ns. mapE (\<lambda>c. j_item c ''case_id'') cs = Inr ns \<and> length cs = length (controls_of lane)
     \<and> (\<forall>name \<in> set (controls_of lane). \<exists>c \<in> set cs. field c ''case_id'' = Some (JStr name))"
proof -
  from assms obtain ns controls where ns: "mapE (\<lambda>c. j_item c ''case_id'') cs = Inr ns"
    and "map_of CONTROLS lane = Some controls" "length ns = length controls" "set ns = JStr ` set controls"
    unfolding own_control_matrix_def by (auto simp: pyE)
  moreover have "\<exists>c \<in> set cs. field c ''case_id'' = Some n" if "n \<in> set ns" for n
    using mapE_right [OF ns that] by (simp add: pyE)
  ultimately show ?thesis using mapE_length [OF ns] by (auto simp: controls_of_def)
qed

lemma control_suite_passed:
  assumes "control_suite h lane row = Inr s" "controls_of lane \<noteq> []"
    and clean: "\<And>t. t \<in> set (findall ''testcase'' s) \<Longrightarrow> outcomes_of t \<noteq> [''failure''] \<and> outcomes_of t \<noteq> [''error'']"
  shows "controls_passed lane row"
proof -
  from assms(1) obtain a err where err: "j_get row ''qualification_error'' = Inr err"
    and rest: "(if truthy err then
       Inr (named_suite lane (mode_name a) [process_error lane (mode_name a) (py_str (sh_float h) err)])
     else
       bindE (bindE (j_item row ''cases'') j_iter) (\<lambda>cases.
       bindE (own_control_matrix lane cases) (\<lambda>_.
       bindE (mapE (control_case h lane (mode_name a)) cases) (\<lambda>tests. Inr (named_suite lane (mode_name a) tests))))) = Inr s"
    unfolding control_suite_def by (elim bindE_InrE)
  have ok: "\<not> truthy err"
  proof
    assume "truthy err"
    with rest have "s = named_suite lane (mode_name a) [process_error lane (mode_name a) (py_str (sh_float h) err)]" by simp
    with clean [of "process_error lane (mode_name a) (py_str (sh_float h) err)"] show False by simp
  qed
  with rest obtain v cs tests where v: "field row ''cases'' = Some v" "j_iter v = Inr cs"
    and m: "own_control_matrix lane cs = Inr ()"
    and tests: "mapE (control_case h lane (mode_name a)) cs = Inr tests"
    and s: "s = named_suite lane (mode_name a) tests"
    by (auto simp: pyE)
  from own_control_matrix_Inr [OF m assms(2)] obtain ns where ns: "mapE (\<lambda>c. j_item c ''case_id'') cs = Inr ns"
    and len: "length cs = length (controls_of lane)"
    and ids: "\<forall>name \<in> set (controls_of lane). \<exists>c \<in> set cs. field c ''case_id'' = Some (JStr name)" by blast
  have "cs \<noteq> []" using len assms(2) by auto
  with v(2) ns have list: "v = JList cs" using mapE_items_list by blast
  have "\<forall>t \<in> set tests. tag t = ''testcase''"
    using mapE_right [OF tests] control_case_Inr(1) by blast
  then have found: "findall ''testcase'' s = tests" by (simp add: s)
  have "field c ''status'' = Some (JStr ''PASS'')" if "c \<in> set cs" for c
    using mapE_left [OF tests that] control_case_Inr(2) clean found by blast
  then show ?thesis using v(1) list len ids by (simp add: controls_passed_def)
qed


section \<open>The evidence behind an accepted lane\<close>

lemma filterE_Inr: "filterE p xs = Inr ys \<Longrightarrow> ys = filter (\<lambda>x. p x = Inr True) xs"
  by (induction xs arbitrary: ys) (auto simp: bindE_Inr_iff)

lemma get_is_True: "get_is v k s = Inr True \<longleftrightarrow> field v k = Some (JStr s)"
  by (auto simp: get_is_def j_getd_def field_def split: json.splits option.splits)

lemma j_get_Inr: "j_get v k = Inr w \<Longrightarrow> w \<noteq> JNull \<Longrightarrow> field v k = Some w"
  by (auto simp: j_getd_def field_def split: json.splits option.splits)

lemma own_controls_Inr:
  assumes "own_controls rows = Inr own"
  shows "\<exists>rs row. j_iter rows = Inr rs \<and> row \<in> set rs \<and> row \<in> set own
    \<and> field row ''implementation'' = Some (JStr ''xpact'') \<and> field row ''assertions'' = Some (JBool b)"
proof -
  from assms obtain rs keys where rs: "j_iter rows = Inr rs"
    and own: "filterE (\<lambda>row. get_is row ''implementation'' ''xpact'') rs = Inr own"
    and keys: "mapE (\<lambda>row. j_get row ''assertions'') own = Inr keys" "set keys = {JBool True, JBool False}"
    unfolding own_controls_def by (auto simp: bindE_Inr_iff split: if_splits)
  have "JBool b \<in> set keys" using keys(2) by (cases b) auto
  then obtain row where row: "row \<in> set own" "j_get row ''assertions'' = Inr (JBool b)"
    using mapE_right [OF keys(1)] by blast
  moreover have "row \<in> set rs \<and> field row ''implementation'' = Some (JStr ''xpact'')"
    using row(1) unfolding filterE_Inr [OF own] by (simp add: get_is_True)
  ultimately show ?thesis using rs j_get_Inr [OF row(2)] by blast
qed

definition own_build_verified :: "string \<Rightarrow> json \<Rightarrow> bool \<Rightarrow> bool" where
  \<comment> \<open>the configuration a verified build describes\<close>
  "own_build_verified lane artifact assertions \<longleftrightarrow>
     field artifact ''status'' = Some (JStr ''verified'') \<and> field artifact ''implementation'' = Some (JStr ''xpact'')
     \<and> field artifact ''profile'' = Some (JStr lane)
     \<and> (\<exists>b. field artifact ''build'' = Some b
          \<and> field b ''configuration'' = Some (JStr (configuration_name assertions))
          \<and> field b ''mode'' = Some (JStr ''finalized'') \<and> field b ''assertions'' = Some (JBool assertions))"

lemma own_build_mismatch_False:
  assumes "own_build_mismatch lane artifact (JBool a) = Inr False"
  shows "own_build_verified lane artifact a"
proof -
  from assms obtain b b' w where
    "field artifact ''status'' = Some (JStr ''verified'')" "field artifact ''implementation'' = Some (JStr ''xpact'')"
    "field artifact ''profile'' = Some (JStr lane)"
    and b: "field artifact ''build'' = Some b" "field b ''mode'' = Some (JStr ''finalized'')"
    "j_get b ''assertions'' = Inr (JBool a)"
    and b': "j_getd artifact ''build'' (JObj []) = Inr b'"
    "field b' ''configuration'' = Some (JStr (configuration_name a))"
    unfolding own_build_mismatch_def by (auto simp: anyE_False_iff pyE truthy_def)
  moreover have "b' = b" using j_getd_obj_Inr [OF b'(1)] b(1) by auto
  ultimately show ?thesis using j_get_Inr [OF b(3)] by (simp add: own_build_verified_def)
qed

definition own_row_verified :: "summary_host \<Rightarrow> string \<Rightarrow> bool \<Rightarrow> json \<Rightarrow> bool" where
  \<comment> \<open>the row names a build manifest that describes the configuration and hashes its executable\<close>
  "own_row_verified h lane assertions row \<longleftrightarrow> (\<exists>m artifact exe digest.
     field row ''manifest'' = Some (JStr m) \<and> sh_json h m = Inr artifact
     \<and> own_build_verified lane artifact assertions
     \<and> field artifact ''executable'' = Some (JStr exe) \<and> sh_sha h exe = Inr digest
     \<and> field artifact ''executable_sha256'' = Some (JStr digest))"

lemma own_artifact_verified:
  assumes "own_artifact h lane row = Inr artifact" "field row ''assertions'' = Some (JBool a)"
  shows "own_row_verified h lane a row"
proof -
  from assms obtain m exe digest where "field row ''manifest'' = Some (JStr m)" "sh_json h m = Inr artifact"
    and mismatch: "own_build_mismatch lane artifact (JBool a) = Inr False"
    and "field artifact ''executable'' = Some (JStr exe)" "sh_sha h exe = Inr digest"
    "field artifact ''executable_sha256'' = Some (JStr digest)"
    unfolding own_artifact_def own_bytes_changed_def by (auto simp: pyE anyE_False_iff split: if_splits)
  then show ?thesis using own_build_mismatch_False [OF mismatch] by (auto simp: own_row_verified_def)
qed

definition own_evidence :: "summary_host \<Rightarrow> string \<Rightarrow> bool \<Rightarrow> json \<Rightarrow> bool" where
  \<comment> \<open>one configuration of the own implementation is built, verified and passed its controls\<close>
  "own_evidence h lane assertions row \<longleftrightarrow>
     field row ''implementation'' = Some (JStr ''xpact'') \<and> field row ''assertions'' = Some (JBool assertions)
     \<and> field row ''status'' = Some (JStr (expected_status lane))
     \<and> own_row_verified h lane assertions row \<and> controls_passed lane row"

lemma control_suites_evidence:
  assumes "control_suites h directory lane report = Inr suites" "controls_of lane \<noteq> []"
    and clean: "\<And>s t. s \<in> set suites \<Longrightarrow> t \<in> set (findall ''testcase'' s) \<Longrightarrow>
      outcomes_of t \<noteq> [''failure''] \<and> outcomes_of t \<noteq> [''error'']"
  shows "\<exists>rows rs row. control_rows h directory lane report = Inr rows \<and> j_iter rows = Inr rs
    \<and> row \<in> set rs \<and> own_evidence h lane b row"
proof -
  obtain rows own where rows: "control_rows h directory lane report = Inr rows"
    and own: "own_controls rows = Inr own"
    and status: "anyE (map (\<lambda>row. get_ne row ''status'' (expected_status lane)) own) = Inr False"
    and builds: "verify_builds h own lane = Inr ()" and suites: "mapE (control_suite h lane) own = Inr suites"
    using assms(1) unfolding control_suites_def by (elim bindE_InrE check_InrE) (rule that, assumption+, simp, assumption)
  from own_controls_Inr [OF own, of b] obtain rs row where rs: "j_iter rows = Inr rs" "row \<in> set rs"
    and row: "row \<in> set own" "field row ''implementation'' = Some (JStr ''xpact'')"
      "field row ''assertions'' = Some (JBool b)" by blast
  from status row(1) have "field row ''status'' = Some (JStr (expected_status lane))" by (simp add: pyE)
  moreover have "own_row_verified h lane b row"
  proof -
    from builds obtain metadata where "mapE (own_artifact h lane) own = Inr metadata"
      unfolding verify_builds_def by (elim bindE_InrE) (rule that)
    from mapE_left [OF this row(1)] obtain a where "own_artifact h lane row = Inr a" by blast
    from own_artifact_verified [OF this row(3)] show ?thesis .
  qed
  moreover have "controls_passed lane row"
  proof -
    from mapE_left [OF suites row(1)] obtain s where "control_suite h lane row = Inr s" "s \<in> set suites" by blast
    then show ?thesis using control_suite_passed [OF _ assms(2)] clean by blast
  qed
  ultimately show ?thesis using rows rs row by (auto simp: own_evidence_def)
qed

lemma accepted_report_clean:
  "accepted_report lane row report = Inr (report', []) \<Longrightarrow> report' = report"
  by (auto simp: accepted_report_def bindE_Inr_iff split: option.splits if_splits)

lemma or_error_suite_clean: "or_error_suite lane ctx p m = Inr (suites, False) \<Longrightarrow> m = Inr suites"
  by (auto simp: or_error_suite_def bindE_Inr_iff split: sum.splits if_splits)

lemma lane_suites_clean:
  assumes "lane_suites h directory reps states lane = Inr (suites, False)"
  shows "\<exists>controls rest. control_suites h (directory lane) lane (reps lane) = Inr controls \<and> suites = controls @ rest
    \<and> (if lane = ''w3c'' then \<exists>s. w3c_suite h (directory lane) (reps lane) = Inr s \<and> rest = [s] else rest = [])"
proof -
  from assms obtain report dis controls rest where
    rep: "accepted_report lane (py_get states lane (JObj [])) (reps lane) = Inr (report, dis)" "dis = []"
    and c: "or_error_suite lane ''directed-controls'' control_errors (control_suites h (directory lane) lane report) = Inr (controls, False)"
    and r: "(if lane = ''w3c'' then or_error_suite lane ''full-catalog'' catalog_errors
              (bindE (w3c_suite h (directory lane) report) (\<lambda>s. Inr [s])) else Inr ([], False)) = Inr (rest, False)"
    and s: "suites = controls @ rest"
    unfolding lane_suites_def by (auto simp: bindE_Inr_iff)
  have "report = reps lane" using rep accepted_report_clean by simp
  with or_error_suite_clean [OF c] r s show ?thesis
    by (auto simp: pyE dest!: or_error_suite_clean split: if_splits)
qed

section \<open>A summary without failures\<close>

lemma collect_summary_Inr:
  assumes "collect_summary h out dirs reps states selected = Inr (document, s)"
  obtains lanes suites totals y where
    "known_selection selected" "mapE (lane_suites h (lane_directory out dirs) reps states) selected = Inr lanes"
    "total_suites (concat (map fst lanes)) no_counts 0 = Inr (suites, totals, y)"
    "os_status s = summary_status (list_ex snd lanes) totals"
  using assms unfolding collect_summary_def
  by (auto simp: bindE_Inr_iff simp del: set_map split: if_splits)

lemma summary_status_complete:
  "summary_status bad k = ''complete'' \<longleftrightarrow> \<not> bad \<and> k_failures k = 0 \<and> k_errors k = 0"
  by (simp add: summary_status_def)

lemma controls_of_nonempty: "lane \<in> set (map fst CONTROLS) \<Longrightarrow> controls_of lane \<noteq> []"
  by (auto simp: CONTROLS_def controls_of_def)

definition lane_earned :: "summary_host \<Rightarrow> string \<Rightarrow> string \<Rightarrow> json option \<Rightarrow> bool" where
  \<comment> \<open>both own configurations have evidence and, for the W3C lane, an accepted suite without failed cases\<close>
  "lane_earned h directory lane report \<longleftrightarrow>
     (\<forall>assertions. \<exists>rows rs row. control_rows h directory lane report = Inr rows
        \<and> j_iter rows = Inr rs \<and> row \<in> set rs \<and> own_evidence h lane assertions row)
     \<and> (if lane = ''w3c'' then \<exists>suite. w3c_suite h directory report = Inr suite
          \<and> (\<forall>t \<in> set (findall ''testcase'' suite). outcomes_of t \<noteq> [''failure''] \<and> outcomes_of t \<noteq> [''error''])
        else True)"

lemma summary_complete_earned:
  assumes "collect_summary h out dirs reps states selected = Inr (document, s)"
    and "os_status s = ''complete''" and "lane \<in> set selected"
  shows "lane_earned h (lane_directory out dirs lane) lane (reps lane)"
proof -
  let ?d = "lane_directory out dirs"
  obtain lanes suites totals y where known: "known_selection selected"
    and lanes: "mapE (lane_suites h ?d reps states) selected = Inr lanes"
    and total: "total_suites (concat (map fst lanes)) no_counts 0 = Inr (suites, totals, y)"
    and s: "os_status s = summary_status (list_ex snd lanes) totals"
    using assms(1) by (rule collect_summary_Inr)
  from assms(2) have clean: "\<not> list_ex snd lanes" "k_failures totals = 0" "k_errors totals = 0"
    unfolding s summary_status_complete by simp_all
  from mapE_left [OF lanes assms(3)] obtain l where l: "l \<in> set lanes" "lane_suites h ?d reps states lane = Inr l" by blast
  have "\<not> snd l" using clean(1) l(1) by (auto simp: list_ex_iff)
  with l(2) have "lane_suites h ?d reps states lane = Inr (fst l, False)" by (cases l) simp
  from lane_suites_clean [OF this] obtain controls rest where
    c: "control_suites h (?d lane) lane (reps lane) = Inr controls" and parts: "fst l = controls @ rest"
    and w: "if lane = ''w3c'' then \<exists>s. w3c_suite h (?d lane) (reps lane) = Inr s \<and> rest = [s] else rest = []"
    by blast
  have no: "outcomes_of t \<noteq> [''failure''] \<and> outcomes_of t \<noteq> [''error'']"
    if "s \<in> set (fst l)" "t \<in> set (findall ''testcase'' s)" for s t
    using total_suites_no_failure [OF total clean(2,3) _ that(2)] that(1) l(1) by auto
  have listed: "lane \<in> set (map fst CONTROLS)" using known assms(3) by (simp add: known_selection_def)
  have "\<And>s t. s \<in> set controls \<Longrightarrow> t \<in> set (findall ''testcase'' s) \<Longrightarrow>
      outcomes_of t \<noteq> [''failure''] \<and> outcomes_of t \<noteq> [''error'']"
    by (rule no) (simp_all add: parts)
  from control_suites_evidence [OF c controls_of_nonempty [OF listed] this] have
    "\<forall>assertions. \<exists>rows rs row. control_rows h (?d lane) lane (reps lane) = Inr rows \<and> j_iter rows = Inr rs \<and> row \<in> set rs
      \<and> own_evidence h lane assertions row" by simp
  moreover have "if lane = ''w3c'' then \<exists>suite. w3c_suite h (?d lane) (reps lane) = Inr suite
         \<and> (\<forall>t \<in> set (findall ''testcase'' suite). outcomes_of t \<noteq> [''failure''] \<and> outcomes_of t \<noteq> [''error''])
       else True"
  proof (cases "lane = ''w3c''")
    case True
    with w obtain suite where suite: "w3c_suite h (?d lane) (reps lane) = Inr suite" "rest = [suite]" by auto
    have "suite \<in> set (fst l)" by (simp add: parts suite(2))
    with no suite(1) show ?thesis by (subst if_P [OF True]) blast
  qed simp
  ultimately show ?thesis unfolding lane_earned_def by blast
qed

end
