(* ===== verification/Summary_Bridge.thy ===== *)
theory Summary_Bridge
  imports Summary_Proofs Dual_W3C_Proofs Report_Bridge
begin

text \<open>
  The Jenkins summary reads the JUnit file that \<open>write_reports\<close> wrote for the same lane. Indentation
  and parsing change the texts between elements only, which \<open>plain\<close> forgets; the lemmas below
  show that \<open>w3c_own_suite\<close> does not look at them, and what it finds in a suite of
  \<open>add_junit_suite\<close>.
\<close>

section \<open>Texts between elements do not matter\<close>

fun plain :: "element \<Rightarrow> element" where
  "plain (Element t a x y cs) = Element t a None None (map plain cs)"

lemma plain_simps [simp]:
  "tag (plain e) = tag e" "attrib (plain e) = attrib e" "children (plain e) = map plain (children e)"
  by (cases e; simp)+

lemma attribute_plain [simp]: "attribute (plain e) k = attribute e k" "attribute_or (plain e) k d = attribute_or e k d"
  by (simp_all add: attribute_def attribute_or_def)

lemma filter_tag_plain [simp]: "filter (\<lambda>c. tag c = name) (map plain cs) = map plain (filter (\<lambda>c. tag c = name) cs)"
  by (induction cs) auto

lemma findall_plain [simp]: "findall name (plain e) = map plain (findall name e)"
  by (simp add: findall_def)

lemma descendants_plain: "descendants (plain e) = map plain (descendants e)"
proof (induction e rule: descendants.induct)
  case (1 t a x y cs)
  have "map (\<lambda>c. c # descendants c) (map plain cs) = map (map plain) (map (\<lambda>c. c # descendants c) cs)"
    using 1 by simp
  then show ?case by (simp only: plain.simps descendants.simps map_concat)
qed

lemma find_below_plain [simp]: "find_below name (plain e) = map plain (find_below name e)"
  by (simp add: find_below_def descendants_plain)

lemma own_class_plain [simp]: "own_class (plain t) = own_class t"
  by (simp add: own_class_def)

lemma outcomes_of_plain [simp]: "outcomes_of (plain t) = outcomes_of t"
  by (simp add: outcomes_of_def comp_def)

lemma count_tests_plain [simp]: "count_tests (map plain ts) k x = count_tests ts k x"
  by (induction ts arbitrary: k x) (simp_all add: Let_def cong: option.case_cong)

lemma case_counts_of_plain [simp]: "case_counts_of (plain s) = case_counts_of s"
  by (auto simp: case_counts_of_def comp_def Let_def)

lemma declared_mismatch_plain [simp]: "declared_mismatch (plain s) = declared_mismatch s"
  by (rule ext) (simp add: declared_mismatch_def split: prod.split)

lemma set_attribute_plain [simp]: "set_attribute k v (plain s) = plain (set_attribute k v s)"
  by (cases s) (simp add: set_attribute_def)

lemma filter_name_plain:
  "filter (\<lambda>s. attribute s k = v) (map plain ss) = map plain (filter (\<lambda>s. attribute s k = v) ss)"
  by (induction ss) auto

lemma w3c_own_suite_plain: "w3c_own_suite (plain d) n = map_sum id plain (w3c_own_suite d n)"
proof (cases "filter (\<lambda>s. attribute s ''name'' = Some ''w3c-xml-xpact'') (findall ''testsuite'' d)")
  case Nil
  then show ?thesis by (simp add: w3c_own_suite_def filter_name_plain)
next
  case (Cons s ss)
  show ?thesis
  proof (cases ss)
    case Nil
    show ?thesis
      using Cons Nil
      by (cases "case_counts_of s"; cases "forE (declared_mismatch s) (named_counts n)")
        (auto simp: w3c_own_suite_def filter_name_plain)
  next
    case (Cons a b)
    with \<open>filter _ _ = s # ss\<close> show ?thesis by (simp add: w3c_own_suite_def filter_name_plain)
  qed
qed

section \<open>A suite of \<open>add_junit_suite\<close>\<close>

definition junit_row :: "result \<Rightarrow> bool" where
  \<comment> \<open>a row the suite can show as one of our cases\<close>
  "junit_row r \<longleftrightarrow> r_engine r = ''xpact'' \<and> r_case_id r \<noteq> [] \<and> r_expected r \<noteq> ''ANY''
     \<and> py_in (r_status r) [''passed'', ''failed'', ''error'', ''skipped'']
     \<and> 0 \<le> r_elapsed_ms r \<and> r_elapsed_ms r < 10 ^ 15"

lemma testcase_element_simps [simp]:
  "tag (testcase_element r) = ''testcase''"
  "attribute (testcase_element r) ''name'' = Some (r_case_id r)"
  "attribute (testcase_element r) ''classname'' = Some (class_name r)"
  "attribute (testcase_element r) ''time'' = Some (fixed 6 (r_elapsed_ms r / 1000))"
  by (simp_all add: testcase_element_def attribute_def)

lemma outcomes_of_testcase:
  "outcomes_of (testcase_element r) = (case status_tag (r_status r) of None \<Rightarrow> [] | Some t \<Rightarrow> [t])"
proof -
  have "status_tag s \<in> {None, Some ''failure'', Some ''error'', Some ''skipped''}" for s
    by (auto simp: status_tag_def)
  from this [of "r_status r"] show ?thesis
    by (auto simp: outcomes_of_def testcase_element_def adjustment_element_def detail_element_def Let_def)
qed

lemma below_testcase: "name = ''testcase'' \<or> name = ''testsuite'' \<Longrightarrow> find_below name (testcase_element r) = []"
  by (auto simp: find_below_def testcase_element_def adjustment_element_def detail_element_def status_tag_def
      property_element_def Let_def split: option.splits if_splits)

lemma suite_cases [simp]:
  "findall ''testcase'' (add_junit_suite name rows profile) = map testcase_element rows"
  "find_below ''testcase'' (add_junit_suite name rows profile) = map testcase_element rows"
  "find_below ''testsuite'' (add_junit_suite name rows profile) = []"
proof -
  show "findall ''testcase'' (add_junit_suite name rows profile) = map testcase_element rows"
    by (induction rows) (simp_all add: add_junit_suite_def findall_def)
  have below: "filter (\<lambda>c. tag c = x) (concat (map (\<lambda>c. c # descendants c) (map testcase_element rows)))
      = (if x = ''testcase'' then map testcase_element rows else [])" if "x = ''testcase'' \<or> x = ''testsuite''" for x
    using that below_testcase [OF that] by (induction rows) (auto simp: find_below_def)
  show "find_below ''testcase'' (add_junit_suite name rows profile) = map testcase_element rows"
    "find_below ''testsuite'' (add_junit_suite name rows profile) = []"
    using below [of "''testcase''"] below [of "''testsuite''"]
    by (simp_all add: find_below_def add_junit_suite_def property_element_def)
qed

section \<open>The counts of such a suite\<close>

lemma half_even_le: "of_int (half_even q) \<le> q + 1"
  by (auto simp: half_even_def Let_def) linarith+

lemma time_read_back:
  assumes "0 \<le> q" "q < 10 ^ 15"
  shows "py_float (fixed 6 q) = Inr (Fin (py_round 6 q))" "0 \<le> py_round 6 q"
proof -
  have "py_round 6 q \<le> (q * 10 ^ 6 + 1) / 10 ^ 6"
    unfolding py_round_def by (rule divide_right_mono [OF half_even_le]) simp
  also have "\<dots> < 10 ^ 15 + 1" using assms(2) by (simp add: field_simps)
  also have "\<dots> \<le> (2 ^ 50 :: rat)" by simp
  also have "\<dots> \<le> 2 ^ 970 * (2 ^ 54 - 1)" by simp
  also have "\<dots> = max_double_bound"
    by (simp only: max_double_bound_def right_diff_distrib power_add [symmetric]) simp
  finally have "py_round 6 q < max_double_bound" .
  then show "py_float (fixed 6 q) = Inr (Fin (py_round 6 q))"
    using py_float_fixed [OF assms(1), of 6] by (simp add: to_double_def)
  show "0 \<le> py_round 6 q" using py_round_nonneg assms(1) by blast
qed

definition row_counts :: "result list \<Rightarrow> case_counts \<Rightarrow> case_counts" where
  "row_counts rows k = k\<lparr>k_failures := k_failures k + int (status_count ''failed'' rows),
     k_errors := k_errors k + int (status_count ''error'' rows),
     k_skipped := k_skipped k + int (status_count ''skipped'' rows)\<rparr>"

lemma status_tag_simps [simp]:
  "status_tag ''passed'' = None" "status_tag ''failed'' = Some ''failure''"
  "status_tag ''error'' = Some ''error''" "status_tag ''skipped'' = Some ''skipped''"
  by (simp_all add: status_tag_def)

lemma row_counts_Cons:
  assumes "py_in (r_status r) [''passed'', ''failed'', ''error'', ''skipped'']"
  shows "row_counts (r # rows) k = row_counts rows (add_outcome (outcomes_of (testcase_element r)) k)"
    and "length (outcomes_of (testcase_element r)) \<le> 1"
  using assms by (auto simp: outcomes_of_testcase row_counts_def status_count_def)

lemma count_tests_rows:
  "\<forall>r \<in> set rows. junit_row r \<Longrightarrow> \<exists>y. count_tests (map testcase_element rows) k x = Inr (row_counts rows k, y)"
proof (induction rows arbitrary: k x)
  case Nil
  then show ?case by (simp add: row_counts_def status_count_def)
next
  case (Cons r rows)
  then have r: "0 \<le> r_elapsed_ms r" "r_elapsed_ms r < 10 ^ 15"
    "py_in (r_status r) [''passed'', ''failed'', ''error'', ''skipped'']" by (simp_all only: junit_row_def list.set_intros)
  have t: "py_float (attribute_or (testcase_element r) ''time'' ''0'') = Inr (Fin (py_round 6 (r_elapsed_ms r / 1000)))"
    "0 \<le> py_round 6 (r_elapsed_ms r / 1000)"
    using time_read_back [of "r_elapsed_ms r / 1000"] r(1,2) by (simp_all add: attribute_or_def)
  from Cons.IH [of "add_outcome (outcomes_of (testcase_element r)) k" "x + py_round 6 (r_elapsed_ms r / 1000)"] Cons.prems
  obtain y where "count_tests (map testcase_element rows) (add_outcome (outcomes_of (testcase_element r)) k)
      (x + py_round 6 (r_elapsed_ms r / 1000)) = Inr (row_counts (r # rows) k, y)"
    unfolding row_counts_Cons [OF r(3)] by auto
  then show ?case using row_counts_Cons(2) [OF r(3)] t
    by (simp add: Let_def finite_duration_def)
qed

definition suite_counts :: "result list \<Rightarrow> case_counts" where
  "suite_counts rows = \<lparr>k_tests = int (length rows), k_failures = int (status_count ''failed'' rows),
     k_errors = int (status_count ''error'' rows), k_skipped = int (status_count ''skipped'' rows),
     k_passed = int (length rows) - int (status_count ''failed'' rows) - int (status_count ''error'' rows)
       - int (status_count ''skipped'' rows)\<rparr>"

lemma suite_accepted:
  assumes "\<forall>r \<in> set rows. junit_row r" "distinct (map r_case_id rows)"
  shows "\<exists>y. case_counts_of (add_junit_suite name rows profile) = Inr (suite_counts rows, y)"
    "\<forall>t \<in> set (findall ''testcase'' (add_junit_suite name rows profile)). own_class t"
    "forE (declared_mismatch (add_junit_suite name rows profile)) (named_counts (suite_counts rows)) = Inr ()"
proof -
  let ?s = "add_junit_suite name rows profile"
  let ?k = "\<lparr>k_tests = int (length rows), k_failures = 0, k_errors = 0, k_skipped = 0, k_passed = 0\<rparr>"
  obtain y where "count_tests (map testcase_element rows) ?k 0 = Inr (row_counts rows ?k, y)"
    using count_tests_rows [OF assms(1)] by blast
  moreover have "distinct (map (\<lambda>r. Some (r_case_id r)) rows)"
    using assms(2) by (simp add: distinct_map inj_on_def)
  moreover have "\<forall>r \<in> set rows. r_case_id r \<noteq> []" using assms(1) by (simp add: junit_row_def)
  ultimately show "\<exists>y. case_counts_of ?s = Inr (suite_counts rows, y)"
    by (auto simp: case_counts_of_def comp_def row_counts_def suite_counts_def)
  show "\<forall>t \<in> set (findall ''testcase'' ?s). own_class t"
    using assms(1) by (auto simp: own_class_def attribute_or_def class_name_def junit_row_def startswith_iff)
  show "forE (declared_mismatch ?s) (named_counts (suite_counts rows)) = Inr ()"
    by (simp add: named_counts_def declared_mismatch_def add_junit_suite_def attribute_or_def attribute_def
        show_nat_def suite_counts_def)
qed

lemma own_suite_of_junit:
  assumes rows: "rows_of ''xpact'' results = rows" "rows \<noteq> []"
    and "engines_of results = [''xpact'', ''xpact-core'']"
    and "\<forall>r \<in> set results. r_expected r \<noteq> ''ANY''"
    and "\<forall>r \<in> set rows. junit_row r" "distinct (map r_case_id rows)"
    and document: "plain document = plain (junit_document results)"
  shows "\<exists>suite y. w3c_own_suite document (suite_counts rows) = Inr suite \<and> case_counts_of suite = Inr (suite_counts rows, y)"
proof -
  let ?s = "add_junit_suite ''w3c-xml-xpact'' rows PROFILE"
  have no_any: "filter (\<lambda>r. r_expected r = ''ANY'') (rows_of e results) = []"
    "filter (\<lambda>r. r_expected r \<noteq> ''ANY'') (rows_of e results) = rows_of e results" for e
    using assms(4) unfolding rows_of_def by (simp_all add: filter_empty_conv cong: filter_cong)
  have "junit_document results = Element ''testsuites'' [] None None
      [?s, add_junit_suite ''w3c-xml-xpact-core'' (rows_of ''xpact-core'' results) PROFILE]"
    by (simp add: junit_document_def assms(3) engine_suites_def no_any no_any [of "''xpact''", unfolded rows(1)] rows(1) Let_def)
  then have "filter (\<lambda>s. attribute s ''name'' = Some ''w3c-xml-xpact'') (findall ''testsuite'' (junit_document results)) = [?s]"
    by (simp add: findall_def add_junit_suite_def attribute_def)
  moreover obtain y where y: "case_counts_of ?s = Inr (suite_counts rows, y)"
    using suite_accepted(1) [OF assms(5,6)] by blast
  moreover have "\<not> (\<exists>test \<in> set (findall ''testcase'' ?s). \<not> own_class test)"
    using suite_accepted(2) [OF assms(5,6)] by blast
  ultimately have "w3c_own_suite (junit_document results) (suite_counts rows) = Inr (set_attribute ''time'' (fixed 6 y) ?s)"
    using suite_accepted(3) [OF assms(5,6), of "''w3c-xml-xpact''" PROFILE] by (simp add: w3c_own_suite_def del: findall_plain)
  with w3c_own_suite_plain [of document "suite_counts rows"] w3c_own_suite_plain [of "junit_document results" "suite_counts rows"]
  obtain suite where s: "w3c_own_suite document (suite_counts rows) = Inr suite"
    and p: "plain suite = plain (set_attribute ''time'' (fixed 6 y) ?s)"
    unfolding document by (cases "w3c_own_suite document (suite_counts rows)") auto
  have "case_counts_of suite = case_counts_of (set_attribute ''time'' (fixed 6 y) ?s)"
    using case_counts_of_plain [of suite] p by simp
  also have "\<dots> = case_counts_of ?s"
    by (simp add: case_counts_of_def findall_def set_attribute_def split: element.split)
  finally show ?thesis using s y by auto
qed

end
