(* ===== verification/Summary_Claims.thy ===== *)
theory Summary_Claims
  imports Summary_Bridge Dual_W3C_Sample
begin

text \<open>
  What the Jenkins summary of our own tests guarantees: a summary without failures rests on
  verified builds and passed controls, the suite of a returned W3C lane is accepted, and a
  failed publication leaves no summary.
\<close>

section \<open>A green summary\<close>


text \<open>A catalog lane whose two own builds passed their controls.\<close>

definition sample_revision :: string where
  "sample_revision = take 40 sample_digest"

definition sample_own_build :: "bool \<Rightarrow> json" where
  "sample_own_build assertions = JObj
     [(''status'', JStr ''verified''), (''implementation'', JStr ''xpact''), (''profile'', JStr ''catalog''),
      (''build'', JObj [(''configuration'', JStr (configuration_name assertions)), (''mode'', JStr ''finalized''),
        (''assertions'', JBool assertions)]),
      (''executable'', JStr ''catalog.exe''), (''executable_sha256'', JStr sample_digest),
      (''build_inputs_sha256'', JStr sample_digest),
      (''source'', JObj [(''revision'', JStr sample_revision), (''source_sha256'', JStr ''s1'')])]"

definition sample_own_row :: "bool \<Rightarrow> json" where
  "sample_own_row assertions = JObj
     [(''implementation'', JStr ''xpact''), (''assertions'', JBool assertions), (''status'', JStr ''qualified''),
      (''manifest'', JStr (if assertions then ''on.json'' else ''off.json'')),
      (''cases'', JList (map (\<lambda>name. JObj [(''case_id'', JStr name), (''status'', JStr ''PASS'')]) (controls_of ''catalog'')))]"

definition sample_own_report :: json where
  "sample_own_report = JObj [(''status'', JStr ''complete''),
     (''qualification'', JList [sample_own_row True, sample_own_row False])]"

definition sample_summary_host :: summary_host where
  "sample_summary_host = \<lparr>sh_json = (\<lambda>p. Inr (sample_own_build (p = ''on.json''))), sh_sha = (\<lambda>_. Inr sample_digest),
     sh_fingerprint = None, sh_junit = (\<lambda>_. Inl (ParseError ''no file'')), sh_write = (\<lambda>_. Inr ()), sh_float = (\<lambda>_. [])\<rparr>"

lemma sample_own_hex: "own_not_hex 64 (JStr sample_digest) = Inr False" "own_not_hex 40 (JStr sample_revision) = Inr False"
  by (simp_all add: own_not_hex_def j_hex_def j_str_def is_hex_def sample_digest_def sample_revision_def)

lemma sample_own_artifact:
  "own_artifact sample_summary_host ''catalog'' (sample_own_row b) = Inr (sample_own_build b)"
  by (cases b) (simp_all add: own_artifact_def sample_own_row_def dict_simps sample_summary_host_def sample_own_build_def
    own_build_mismatch_def own_bytes_changed_def anyE.simps get_ne_def item_ne_def j_str_def truthy_def sample_own_hex)

lemma sample_own_verified: "verify_builds sample_summary_host [sample_own_row True, sample_own_row False] ''catalog'' = Inr ()"
proof -
  have "sh_fingerprint sample_summary_host = None" by (simp add: sample_summary_host_def)
  then show ?thesis
    by (simp add: verify_builds_def sample_own_artifact items_differ_def source_differs_def anyE.simps own_inputs_changed_def
      sample_own_build_def dict_simps)
qed

lemma sample_own_rows:
  "own_controls (JList [sample_own_row True, sample_own_row False]) = Inr [sample_own_row True, sample_own_row False]"
  by (simp add: own_controls_def j_iter_def get_is_def sample_own_row_def dict_simps is_bool_def insert_commute)

definition sample_own_tests :: "string \<Rightarrow> element list" where
  "sample_own_tests mode = map (\<lambda>name. testcase ''xpact.catalog.controls'' (''assertions-'' @ mode @ ''/'' @ name) []) (controls_of ''catalog'')"

lemma sample_own_suite: "control_suite sample_summary_host ''catalog'' (sample_own_row b)
    = Inr (named_suite ''catalog'' (mode_name (JBool b)) (sample_own_tests (mode_name (JBool b))))"
proof -
  let ?cs = "map (\<lambda>name. JObj [(''case_id'', JStr name), (''status'', JStr ''PASS'')]) (controls_of ''catalog'')"
  have "own_control_matrix ''catalog'' ?cs = Inr ()"
    using j_set_is_strings [of "\<lambda>n. n" "controls_of ''catalog''" "controls_of ''catalog''"]
    by (simp add: own_control_matrix_def controls_of_def CONTROLS_def mapE_map dict_simps anyE.simps del: mapE.simps list.map)
  moreover have "mapE (control_case sample_summary_host ''catalog'' mode) ?cs = Inr (sample_own_tests mode)" for mode
    unfolding sample_own_tests_def
    by (simp add: mapE_map control_case_def dict_simps Let_def py_str_def comp_def)
  ultimately show ?thesis
    by (simp add: control_suite_def sample_own_row_def dict_simps j_iter_def truthy_def)
qed


lemma sample_own_controls: "control_suites sample_summary_host d ''catalog'' (Some sample_own_report)
    = Inr (map (\<lambda>mode. named_suite ''catalog'' mode (sample_own_tests mode)) [''on'', ''off''])"
proof -
  have "anyE (map (\<lambda>row. get_ne row ''status'' ''qualified'') [sample_own_row True, sample_own_row False]) = Inr False"
    by (simp add: anyE.simps get_ne_def sample_own_row_def dict_simps)
  moreover have "j_item sample_own_report ''qualification'' = Inr (JList [sample_own_row True, sample_own_row False])"
    by (simp add: sample_own_report_def dict_simps)
  ultimately show ?thesis
    unfolding control_suites_def control_rows_def
    by (simp add: sample_own_rows expected_status_def sample_own_verified sample_own_suite mode_name_def truthy_def)
qed

lemma py_float_zero: "py_float ''0'' = Inr (Fin 0)"
proof -
  have "(0::rat) < max_double_bound" by (simp add: max_double_bound_def)
  then show ?thesis
    by (simp add: py_float_def split_sign_def strip_def is_space_def lower_char_def mantissa_def digit_part_def is_digit_def
      nat_of_digits_def digit_value_def to_double_def)
qed


lemma sample_own_counted:
  "count_tests (map (\<lambda>n. testcase c (f n) []) xs) k x = Inr (k, x)"
  by (induction xs) (simp_all add: attribute_or_def attribute_def testcase_def new_element_def py_float_zero
      finite_duration_def outcomes_of_def)

lemma sample_own_case_counts: "\<exists>k. case_counts_of (named_suite ''catalog'' mode (sample_own_tests mode)) = Inr (k, 0)
    \<and> k_failures k = 0 \<and> k_errors k = 0"
proof -
  have tests: "findall ''testcase'' (named_suite ''catalog'' mode (sample_own_tests mode)) = sample_own_tests mode"
    by (rule findall_named_suite) (simp add: sample_own_tests_def)
  have names: "map (\<lambda>t. attribute t ''name'') (sample_own_tests mode)
      = map (\<lambda>n. Some (''assertions-'' @ mode @ ''/'' @ n)) (controls_of ''catalog'')"
    by (simp add: sample_own_tests_def attribute_def testcase_def new_element_def)
  have "distinct (map (\<lambda>n. Some (''assertions-'' @ mode @ ''/'' @ n)) (controls_of ''catalog''))"
    by (simp add: controls_of_def CONTROLS_def)
  moreover have "(\<exists>n \<in> set (map (\<lambda>n. Some (''assertions-'' @ mode @ ''/'' @ n)) (controls_of ''catalog'')). n = None \<or> n = Some []) = False"
    by auto
  moreover have "count_tests (sample_own_tests mode) k 0 = Inr (k, 0)" for k
    by (simp only: sample_own_tests_def sample_own_counted)
  ultimately show ?thesis
    unfolding case_counts_of_def tests Let_def names by (simp only: not_True_eq_False simp_thms if_False) simp
qed

definition sample_own_collected :: "(element \<times> own_summary) py" where
  "sample_own_collected = collect_summary sample_summary_host ''out'' [] [''catalog'' \<mapsto> sample_own_report]
     [''catalog'' \<mapsto> sample_own_report] [''catalog'']"

lemma sample_own_complete: "\<exists>document s. sample_own_collected = Inr (document, s) \<and> os_status s = ''complete''"
proof -
  have "known_selection [''catalog'']" by (simp add: known_selection_def CONTROLS_def)
  moreover have "j_get sample_own_report ''status'' = Inr (JStr ''complete'')" by (simp add: sample_own_report_def dict_simps)
  then have "accepted_report ''catalog'' sample_own_report (Some sample_own_report) = Inr (Some sample_own_report, [])"
    by (simp add: accepted_report_def state_disagrees_def)
  then have "lane_suites sample_summary_host d [''catalog'' \<mapsto> sample_own_report] [''catalog'' \<mapsto> sample_own_report] ''catalog''
      = Inr (map (\<lambda>mode. named_suite ''catalog'' mode (sample_own_tests mode)) [''on'', ''off''], False)" for d
    by (simp add: lane_suites_def or_error_suite_def sample_own_controls)
  moreover obtain k k' where
    "case_counts_of (named_suite ''catalog'' ''on'' (sample_own_tests ''on'')) = Inr (k, 0)" "k_failures k = 0" "k_errors k = 0"
    "case_counts_of (named_suite ''catalog'' ''off'' (sample_own_tests ''off'')) = Inr (k', 0)" "k_failures k' = 0" "k_errors k' = 0"
    using sample_own_case_counts by blast
  ultimately show ?thesis
    by (simp add: sample_own_collected_def collect_summary_def add_counts_def no_counts_def summary_status_def)
qed


section \<open>No stale summary\<close>

text \<open>
  Whatever was on disk before and whatever fails, after \<open>publish_summary\<close> either it raised and
  neither summary file exists, or it returned what was collected and both files are the new ones.
\<close>

theorem publish_summary_fresh:
  "case publish_summary h out dirs reps states selected of
     (evs, Inl e) \<Rightarrow> fold report_step evs earlier = []
   | (evs, Inr x) \<Rightarrow> collect_summary h out dirs reps states selected = Inr x
       \<and> fold report_step evs earlier = earlier @ [JUNIT_FILE, SUMMARY_FILE]"
proof -
  obtain evs r where r: "publish_summary h out dirs reps states selected = (evs, r)" by (cases "publish_summary h out dirs reps states selected")
  from publish_summary_cases [OF r, of earlier] show ?thesis unfolding r by (cases r) simp_all
qed

lemma summary_status_cases:
  assumes "collect_summary h out dirs reps states selected = Inr (document, s)"
  shows "\<exists>n. summary_exit (os_status s) = Inr n \<and> n \<in> {0, 1, 2}"
proof -
  have "\<exists>(lanes :: (element list \<times> bool) list) totals. os_status s = summary_status (list_ex snd lanes) totals"
    using assms by (rule collect_summary_Inr) blast
  then obtain lanes :: "(element list \<times> bool) list" and totals
    where s: "os_status s = summary_status (list_ex snd lanes) totals" by blast
  show ?thesis unfolding s by (simp add: summary_status_def summary_exit_def)
qed

text \<open>
  The script always ends with one of its three exit statuses: unless it is interrupted,
  \<open>main\<close> returns 0, 1 or 2 whatever its input files contain, and 0 or 1 only with both summary files
  freshly written.
\<close>

theorem summary_main_returns:
  "case summary_main h a of
     (evs, Inr n) \<Rightarrow> n \<in> {0, 1, 2} \<and> (n = 2 \<or> fold report_step evs earlier = earlier @ [JUNIT_FILE, SUMMARY_FILE])
   | (evs, Inl e) \<Rightarrow> \<not> is_exception e"
proof -
  obtain evs r where t: "summary_try h a = (evs, r)" by (cases "summary_try h a")
  show ?thesis
  proof (cases r)
    case (Inl e)
    then show ?thesis by (simp add: summary_main_def t is_exception_def clear_summary_def emitA_def pureA_def)
  next
    case (Inr x)
    obtain document s where x: "x = (document, s)" by (cases x)
    from t Inr obtain reps states where p: "publish_summary h (sa_output a) [(sa_lane a, sa_output a)] reps states [sa_lane a] = (evs, Inr x)"
      unfolding summary_try_def by (auto simp: bindA_Inr_iff)
    from publish_summary_cases [OF p, of earlier] have c:
      "collect_summary h (sa_output a) [(sa_lane a, sa_output a)] reps states [sa_lane a] = Inr (document, s)"
      "fold report_step evs earlier = earlier @ [JUNIT_FILE, SUMMARY_FILE]" by (simp_all add: x)
    with summary_status_cases [OF c(1)] show ?thesis by (auto simp: summary_main_def t Inr x)
  qed
qed

section \<open>The suite of a returned lane\<close>

lemma report_json_status: "j_get (report_json m rep) ''status'' = Inr (JStr (lr_status rep))"
  by (simp add: report_json_def j_getd_def obj_lookup_def)

lemma engine_json_get: "get_is (engine_json s) ''engine'' name = Inr (s_engine s = name)"
  by (simp add: engine_json_def get_is_def j_getd_def obj_lookup_def)

definition totals_counts :: "engine_totals \<Rightarrow> case_counts" where
  "totals_counts s = \<lparr>k_tests = int (s_total s), k_failures = int (s_failed s), k_errors = int (s_errors s),
     k_skipped = int (s_skipped s), k_passed = int (s_passed s)\<rparr>"

lemma own_numbers_json:
  assumes "lr_engines rep = [own, core]" "s_engine own = ''xpact''" "s_engine core = ''xpact-core''"
    and "s_total own = lr_catalog_cases rep" "0 < lr_catalog_cases rep"
    and "s_passed own + s_failed own + s_errors own + s_skipped own = lr_catalog_cases rep"
  shows "own_numbers (report_json m rep) = Inr (totals_counts own)"
proof -
  have "own_engine (report_json m rep) = Inr (engine_json own)"
    by (simp add: own_engine_def assms(1-3) j_iter_def engine_json_get)
  moreover have "int (lr_catalog_cases rep) = int (s_passed own) + int (s_failed own) + int (s_errors own) + int (s_skipped own)"
    using assms(6) by linarith
  ultimately show ?thesis using assms(4,5)
    by (simp add: own_numbers_def engine_number_def case_number_def totals_counts_def)
qed

lemma lane_results_shape:
  assumes "faithful_run run" "\<forall>c \<in> set cases. c_id c \<noteq> [] \<and> c_expected c \<noteq> ''ANY''"
    and "\<And>e c. 0 \<le> r_elapsed_ms (run e c) \<and> r_elapsed_ms (run e c) < 10 ^ 15"
    and "cases \<noteq> []" "distinct (map c_id cases)"
  defines "results \<equiv> engine_results run implementations cases"
  shows "rows_of ''xpact'' results = map (run ''xpact'') cases" "engines_of results = [''xpact'', ''xpact-core'']"
    "\<forall>r \<in> set results. r_expected r \<noteq> ''ANY''"
    "\<forall>r \<in> set (map (run ''xpact'') cases). junit_row r" "distinct (map r_case_id (map (run ''xpact'') cases))"
proof -
  note f = faithful_runE [OF assms(1)]
  have id: "r_case_id (run e c) = c_id c" for e c using f(1) [of e c] by (simp add: r_key_def)
  show "rows_of ''xpact'' results = map (run ''xpact'') cases"
    unfolding rows_of_def results_def by (rule filter_engine_results [OF assms(1)]) (simp_all add: implementations_def)
  have eng: "map (r_engine \<circ> run e) cases = replicate (length cases) e" for e
    by (induction cases) (simp_all add: f(2))
  have "map r_engine results = replicate (length cases) ''xpact'' @ replicate (length cases) ''xpact-core''"
    unfolding results_def engine_results_def implementations_def by (simp add: eng)
  moreover have "fromkeys (replicate (Suc n) a @ replicate (Suc m) b) = [a, b]" if "a \<noteq> b" for n m and a b :: string
  proof -
    have "remdups (replicate (Suc k) x) = [x]" for k and x :: string by (induction k) auto
    moreover have "remdups (xs @ ys) = filter (\<lambda>x. x \<notin> set ys) (remdups xs) @ remdups ys" for xs ys :: "string list"
      by (induction xs) auto
    ultimately show ?thesis using that by (simp only: fromkeys_def rev_append rev_replicate) simp
  qed
  moreover obtain n where "length cases = Suc n" using assms(4) by (cases cases) auto
  ultimately show "engines_of results = [''xpact'', ''xpact-core'']" by (simp only: engines_of_def) simp
  show "\<forall>r \<in> set results. r_expected r \<noteq> ''ANY''"
    using assms(2) by (auto simp: results_def engine_results_def f(4))
  have "py_in (r_status (run e c)) [''passed'', ''failed'', ''error'', ''skipped'']" for e c
    using f(3) [of e c] unfolding result_wf_def by (simp only: py_in_simps insert_iff empty_iff) blast
  then show "\<forall>r \<in> set (map (run ''xpact'') cases). junit_row r"
    using assms(2,3) by (simp only: junit_row_def list.set_map ball_simps f(2,4) id) blast
  show "distinct (map r_case_id (map (run ''xpact'') cases))" using assms(5) by (simp add: comp_def id)
qed

lemma engine_summary_counts:
  assumes "rows_of e results = rows" "\<forall>r \<in> set rows. junit_row r"
  shows "suite_counts rows = totals_counts (engine_summary results e)"
proof -
  have rows: "filter (\<lambda>r. r_engine r = e) results = rows" using assms(1) by (simp add: rows_of_def)
  have "\<forall>r \<in> set rows. r_status r \<in> {''passed'', ''failed'', ''error'', ''skipped''}"
    using assms(2) by (auto simp: junit_row_def py_in_def)
  from statuses_counted [OF this] show ?thesis
    by (simp add: suite_counts_def totals_counts_def engine_summary_def rows Let_def status_count_def)
qed

lemma lane_run_elapsed:
  assumes "\<And>e n. 0 \<le> wh_elapsed w e n \<and> wh_elapsed w e n < 10 ^ 15"
  shows "0 \<le> r_elapsed_ms (lane_run w suite cases artifacts e c) \<and> r_elapsed_ms (lane_run w suite cases artifacts e c) < 10 ^ 15"
  using assms by (auto simp: lane_run_def run_case_def result_of_def Let_def split: option.split)

text \<open>
  The lane and its summary agree: the JUnit file a returned W3C lane wrote is accepted by
  \<open>_w3c_suite\<close> together with the report of that lane, however the two were indented on disk, and
  the counted cases are exactly the counts of our engine in the report. Case identifiers must not be
  empty and no case may take longer than \<open>10 ^ 15\<close> ms.
\<close>

theorem w3c_suite_of_lane:
  assumes "run_lane w = (evs, Inr rep)"
    and "\<And>suite tree cases c. load_catalog (wh_host w) suite tree = Inr cases \<Longrightarrow> wh_catalog w = Inr tree
      \<Longrightarrow> c \<in> set cases \<Longrightarrow> c_id c \<noteq> []"
    and "\<And>e n. 0 \<le> wh_elapsed w e n \<and> wh_elapsed w e n < 10 ^ 15"
    and "\<And>results. plain (written results) = plain (junit_document results)"
  shows "\<exists>suite before cases artifacts results own core s y. run_engines w suite before cases artifacts = Inr results
    \<and> lr_engines rep = [own, core]
    \<and> w3c_suite (h\<lparr>sh_junit := \<lambda>_. Inr (written results)\<rparr>) directory (Some (report_json manifest rep)) = Inr s
    \<and> case_counts_of s = Inr (totals_counts own, y)"
proof -
  from assms(1) obtain tree suite source before cases st where
    lc: "wh_catalog w = Inr tree" "load_catalog (wh_host w) suite tree = Inr cases"
    and b: "build_all w = Inr st" and d: "distinct (map c_id cases)" and "\<forall>c \<in> set cases. case_judged c"
    and rep: "rep = make_report source before cases st
       (engine_results (lane_run w suite cases (bs_artifacts st)) implementations cases)
       (map (\<lambda>c. comparison_row c (lane_run w suite cases (bs_artifacts st) ''xpact'' c)
                                   (lane_run w suite cases (bs_artifacts st) ''xpact-core'' c)) cases)"
    and run: "run_engines w suite before cases (bs_artifacts st)
       = Inr (engine_results (lane_run w suite cases (bs_artifacts st)) implementations cases)"
    by (rule run_lane_returned)
  let ?run = "lane_run w suite cases (bs_artifacts st)"
  let ?res = "engine_results ?run implementations cases" and ?rows = "map (?run ''xpact'') cases"
  let ?own = "engine_summary ?res ''xpact''" and ?core = "engine_summary ?res ''xpact-core''"
  have parts: "lr_engines rep = [?own, ?core]" "lr_catalog_cases rep = length cases"
    "lr_status rep = lane_status ?res (bs_qualification st)"
    by (simp_all add: rep make_report_def implementations_def)
  have ne: "cases \<noteq> []" using lc(2) by (auto simp: load_catalog_def Let_def bindE_Inr_iff split: if_splits)
  have "\<forall>c \<in> set cases. c_id c \<noteq> [] \<and> c_expected c \<noteq> ''ANY''"
    using assms(2) [OF lc(2,1)] load_catalog_inv [OF lc(2)] by (auto simp: catalog_inv_def good_case_def)
  note shape = lane_results_shape [OF faithful_lane_run this lane_run_elapsed [OF assms(3)] ne d]
  have impl: "''xpact'' \<in> set implementations" "''xpact-core'' \<in> set implementations"
    by (simp_all add: implementations_def)
  note own = engine_summary_run [OF faithful_lane_run impl(1) refl, of w suite cases "bs_artifacts st" cases]
  note core = engine_summary_run [OF faithful_lane_run impl(2) refl, of w suite cases "bs_artifacts st" cases]
  have counts: "suite_counts ?rows = totals_counts ?own" by (rule engine_summary_counts [OF shape(1,4)])
  have numbers: "own_numbers (report_json manifest rep) = Inr (suite_counts ?rows)"
    unfolding counts
    by (rule own_numbers_json [OF parts(1) own(1) core(1)]) (use own(2,4) parts(2) ne in \<open>simp_all\<close>)
  have evidence: "w3c_evidence (Some (report_json manifest rep)) = Inr (report_json manifest rep)"
    using parts(3) by (simp add: w3c_evidence_def report_json_status lane_status_def)
  have "?rows \<noteq> []" using ne by simp
  from own_suite_of_junit [OF shape(1) this shape(2-5) assms(4)] obtain s y where
    "w3c_own_suite (written ?res) (suite_counts ?rows) = Inr s" and c: "case_counts_of s = Inr (suite_counts ?rows, y)" by blast
  then have "w3c_suite (h\<lparr>sh_junit := \<lambda>_. Inr (written ?res)\<rparr>) directory (Some (report_json manifest rep)) = Inr s"
    by (simp add: w3c_suite_def evidence numbers)
  with run parts(1) c [unfolded counts] show ?thesis by (intro exI conjI)
qed

lemma sample_elapsed: "0 \<le> wh_elapsed sample_lane e n \<and> wh_elapsed sample_lane e n < 10 ^ 15"
  by (simp add: sample_lane_def sample_w3c_def)

lemma sample_ids: "load_catalog (wh_host sample_lane) suite tree = Inr cases \<Longrightarrow> wh_catalog sample_lane = Inr tree
    \<Longrightarrow> c \<in> set cases \<Longrightarrow> c_id c \<noteq> []"
proof -
  assume l: "load_catalog (wh_host sample_lane) suite tree = Inr cases" "wh_catalog sample_lane = Inr tree" "c \<in> set cases"
  from l(2) have "tree = sample_tree" by (simp add: sample_lane_def sample_w3c_def)
  have "map test_id (test_elements sample_tree) = [''t1'', ''t2'']" by code_simp
  with \<open>tree = sample_tree\<close> have "map c_id cases = [''t1'', ''t2'']" using load_catalog_inv(2) [OF l(1)] by simp
  moreover have "c_id c \<in> set (map c_id cases)" using l(3) by simp
  ultimately have "py_in (c_id c) [''t1'', ''t2'']" by (simp only: py_in_def)
  then show "c_id c \<noteq> []" by (simp only: py_in_simps) auto
qed

theorem w3c_suite_of_lane_witness:
  "\<exists>suite before cases artifacts results own core s y.
     run_engines sample_lane suite before cases artifacts = Inr results \<and> lr_engines sample_report = [own, core]
     \<and> w3c_suite (sample_summary_host\<lparr>sh_junit := \<lambda>_. Inr (junit_document results)\<rparr>) ''w3c''
         (Some (report_json (\<lambda>i a. i) sample_report)) = Inr s
     \<and> case_counts_of s = Inr (totals_counts own, y)"
proof -
  from sample_returned obtain evs where r: "run_lane sample_lane = (evs, Inr sample_report)" by blast
  show ?thesis by (rule w3c_suite_of_lane [OF r sample_ids sample_elapsed refl])
qed

end
