(* ===== verification/Core_Dependency.thy ===== *)
theory Core_Dependency
  imports W3C_Run Py_Value
begin

text \<open>
  The pinned dependency (\<open>scripts/prepare_xpact_core.py\<close>): reading the lock file
  (\<open>load_lock\<close>), running Git without the caller's overrides (\<open>run_git\<close>), verifying a checkout
  byte by byte against the tree of the locked commit (\<open>verify_checkout\<close>) and publishing a fresh
  checkout (\<open>prepare_dependency\<close>). What the file system and Git answer at one moment is a
  \<open>checkout_view\<close>; a path is the list of its components. File contents are byte strings.
\<close>

section \<open>The lock file\<close>

record dependency_lock =
  dl_repository :: string
  dl_revision :: string
  dl_library :: string
  dl_required :: "string list"
  dl_dependencies :: "string list"

definition path_parts :: "string \<Rightarrow> path" where
  \<comment> \<open>the components of a relative \<open>Path(name)\<close>\<close>
  "path_parts name = filter (\<lambda>s. s \<noteq> [] \<and> s \<noteq> ''.'') (split_on CHR ''/'' name)"

definition is_absolute :: "string \<Rightarrow> bool" where
  "is_absolute name = startswith name ''/''"

definition repository_char :: "char \<Rightarrow> bool" where
  "repository_char c = (CHR ''A'' \<le> c \<and> c \<le> CHR ''Z'' \<or> CHR ''a'' \<le> c \<and> c \<le> CHR ''z'' \<or> CHR ''0'' \<le> c \<and> c \<le> CHR ''9''
     \<or> c = CHR ''_'' \<or> c = CHR ''.'' \<or> c = CHR ''-'')"

definition repository_url :: "string \<Rightarrow> bool" where
  \<comment> \<open>the regular expression of a GitHub repository\<close>
  "repository_url s = (startswith s ''https://github.com/'' \<and>
     (case split_on CHR ''/'' (drop 19 s) of
       [owner, repository] \<Rightarrow>
         owner \<noteq> [] \<and> list_all repository_char owner
         \<and> endswith repository ''.git'' \<and> 4 < length repository \<and> list_all repository_char repository
     | _ \<Rightarrow> False))"

definition json_string :: "json \<Rightarrow> bool" where
  "json_string v = (case v of JStr _ \<Rightarrow> True | _ \<Rightarrow> False)"

definition nonempty_string :: "json \<Rightarrow> bool" where
  "nonempty_string v = (case v of JStr s \<Rightarrow> s \<noteq> [] | _ \<Rightarrow> False)"

definition as_list :: "exn \<Rightarrow> json \<Rightarrow> json list py" where
  \<comment> \<open>\<open>not isinstance(v, list)\<close> raises\<close>
  "as_list e v = (case v of JList vs \<Rightarrow> Inr vs | _ \<Rightarrow> Inl e)"

definition string_of :: "json \<Rightarrow> string" where
  "string_of v = (case v of JStr s \<Rightarrow> s | _ \<Rightarrow> [])"

definition outside_checkout :: "string \<Rightarrow> bool" where
  "outside_checkout name = (path_parts name = [] \<and> \<not> is_absolute name \<or> is_absolute name
     \<or> ''..'' \<in> set (path_parts name) \<or> CHR 0x5C \<in> set name \<or> CHR '':'' \<in> set name)"

definition bad_strings :: exn where
  "bad_strings = ValueError ''library and required_paths must contain relative path strings''"

definition lock_paths :: "json \<Rightarrow> (string \<times> string list) py" where
  \<comment> \<open>\<open>library\<close> and \<open>required_paths\<close>\<close>
  "lock_paths lock =
     bindE (j_item lock ''library'') (\<lambda>library.
     bindE (raise_if (\<not> nonempty_string library) bad_strings) (\<lambda>_.
     bindE (bindE (j_item lock ''required_paths'') (as_list bad_strings)) (\<lambda>names.
     bindE (raise_if (\<not> list_all nonempty_string names) bad_strings) (\<lambda>_.
     bindE (raise_if (\<exists>name \<in> set (string_of library # map string_of names). outside_checkout name)
       (ValueError ''dependency paths must be relative paths within the checkout'')) (\<lambda>_.
     Inr (string_of library, map string_of names))))))"

definition checked_lock :: "json \<Rightarrow> dependency_lock py" where
  \<comment> \<open>the body of the \<open>try\<close> after the file was parsed\<close>
  "checked_lock lock =
     bindE (raise_if (case lock of JObj _ \<Rightarrow> False | _ \<Rightarrow> True) (ValueError ''dependency lock must be an object'')) (\<lambda>_.
     bindE (j_item lock ''schema_version'') (\<lambda>version.
     bindE (raise_if (\<not> py_eq version (JInt 1)) (ValueError ''unsupported schema_version'')) (\<lambda>_.
     bindE (bindE (j_item lock ''repository'') j_str) (\<lambda>repository.
     bindE (raise_if (\<not> repository_url repository) (ValueError ''repository must be an HTTPS GitHub Git URL'')) (\<lambda>_.
     bindE (bindE (j_item lock ''revision'') j_str) (\<lambda>revision.
     bindE (raise_if (\<not> is_hex 40 revision) (ValueError ''revision must be a full lowercase commit SHA'')) (\<lambda>_.
     bindE (lock_paths lock) (\<lambda>(library, required).
     bindE (bindE (j_item lock ''dependencies'') (as_list (ValueError ''dependencies must be a list of descriptions''))) (\<lambda>items.
     bindE (raise_if (\<not> list_all json_string items) (ValueError ''dependencies must be a list of descriptions'')) (\<lambda>_.
     Inr \<lparr>dl_repository = repository, dl_revision = revision, dl_library = library, dl_required = required,
          dl_dependencies = map string_of items\<rparr>))))))))))"

definition lock_errors :: "exn \<Rightarrow> bool" where
  \<comment> \<open>\<open>except (OSError, ValueError, TypeError, KeyError)\<close>\<close>
  "lock_errors e = (is_value_error e \<or> (case e of OSError _ \<Rightarrow> True | TypeError \<Rightarrow> True | KeyError _ \<Rightarrow> True | _ \<Rightarrow> False))"

definition load_lock :: "json py \<Rightarrow> path \<Rightarrow> dependency_lock py" where
  \<comment> \<open>\<open>parsed\<close> is the value of the lock file below \<open>repo_root\<close>\<close>
  "load_lock parsed repo_root =
     catchE (bindE parsed checked_lock) lock_errors (\<lambda>e. Inl (DependencyError
       (''Cannot read dependency lock '' @ as_posix (repo_root @ [''dependencies'', ''xpact-core.json'']) @ '': '' @ exn_text e)))"

section \<open>Git\<close>

type_synonym environment = "(string \<times> string) list"

definition git_overrides :: "string list" where
  "git_overrides = [''GIT_DIR'', ''GIT_WORK_TREE'', ''GIT_COMMON_DIR'', ''GIT_INDEX_FILE'', ''GIT_OBJECT_DIRECTORY'',
     ''GIT_ALTERNATE_OBJECT_DIRECTORIES'', ''GIT_NAMESPACE'']"

definition git_environment :: "environment \<Rightarrow> environment" where
  "git_environment env =
     (let popped = filter (\<lambda>(name, _). name \<notin> set git_overrides) env in
      fold (\<lambda>(k, v). AList.update k v)
        [(''GIT_NO_REPLACE_OBJECTS'', ''1''), (''GIT_TERMINAL_PROMPT'', ''0''), (''GCM_INTERACTIVE'', ''never'')] popped)"

definition git_command :: "string list \<Rightarrow> string list" where
  "git_command arguments = [''git'', ''-c'', ''core.longpaths=true'', ''-c'', ''core.autocrlf=false'',
     ''-c'', ''core.fsmonitor=false'', ''-c'', ''core.hooksPath=''] @ arguments"

type_synonym process = "string list \<Rightarrow> environment \<Rightarrow> path \<Rightarrow> outcome"

definition run_git :: "process \<Rightarrow> environment \<Rightarrow> string list \<Rightarrow> path \<Rightarrow> string py" where
  \<comment> \<open>\<open>run\<close> is \<open>subprocess.run\<close> by command, environment and directory\<close>
  "run_git run env arguments cwd =
     (let name = ''Git '' @ join '' '' arguments in
      case run (git_command arguments) (git_environment env) cwd of
        LaunchError m \<Rightarrow> Inl (DependencyError (name @ '' failed: '' @ m))
      | TimeoutExpired _ _ \<Rightarrow> Inl (DependencyError (name @ '' failed: timed out after 180 seconds''))
      | Completed code stdout stderr \<Rightarrow>
          if code \<noteq> 0 then Inl (DependencyError (name @ '' failed ('' @ show_int code @ ''): ''
            @ strip (or_else stderr stdout)))
          else Inr stdout)"

definition is_os_error :: "exn \<Rightarrow> bool" where
  "is_os_error e = (case e of OSError _ \<Rightarrow> True | _ \<Rightarrow> False)"

section \<open>Verifying a checkout\<close>

record checkout_view =
  cv_link :: "path \<Rightarrow> bool" \<comment> \<open>symbolic link or junction\<close>
  cv_dir :: "path \<Rightarrow> bool"
  cv_exists :: "path \<Rightarrow> bool"
  cv_read :: "path \<Rightarrow> string py"
  cv_git :: process

record hashes =
  h_sha1 :: "string \<Rightarrow> string" \<comment> \<open>\<open>hashlib.sha1(b).hexdigest()\<close>\<close>
  h_sha256 :: "string \<Rightarrow> string" \<comment> \<open>\<open>hashlib.sha256(b).hexdigest()\<close>\<close>
  h_sha256_bytes :: "string \<Rightarrow> string" \<comment> \<open>\<open>hashlib.sha256(b).digest()\<close>\<close>

fun reject_from :: "(path \<Rightarrow> bool) \<Rightarrow> path \<Rightarrow> path \<Rightarrow> path list \<Rightarrow> unit py" where
  "reject_from is_link path base [] =
     Inl (DependencyError (''Dependency path is outside its expected base: '' @ as_posix path))"
| "reject_from is_link path base (candidate # candidates) =
     (if is_link candidate
      then Inl (DependencyError (''Dependency path is a symbolic link or junction: '' @ as_posix candidate))
      else if candidate = base then Inr () else reject_from is_link path base candidates)"

definition self_and_parents :: "path \<Rightarrow> path list" where
  \<comment> \<open>\<open>[path, *path.parents]\<close>\<close>
  "self_and_parents path = map (\<lambda>n. take n path) (rev [0..<Suc (length path)])"

definition reject_links :: "(path \<Rightarrow> bool) \<Rightarrow> path \<Rightarrow> path \<Rightarrow> unit py" where
  "reject_links is_link path base = reject_from is_link path base (self_and_parents path)"

definition split_once :: "char \<Rightarrow> string \<Rightarrow> (string \<times> string) option" where
  \<comment> \<open>\<open>s.split(c, 1)\<close> unpacked into two\<close>
  "split_once c s = (case dropWhile (\<lambda>x. x \<noteq> c) s of [] \<Rightarrow> None | _ # rest \<Rightarrow> Some (takeWhile (\<lambda>x. x \<noteq> c) s, rest))"

record tree_entry =
  te_mode :: string
  te_kind :: string
  te_object :: string
  te_name :: string

definition parse_entry :: "string \<Rightarrow> tree_entry py" where
  \<comment> \<open>one line of \<open>git ls-tree\<close>; unpacking the wrong number of fields raises\<close>
  "parse_entry entry = (case split_once tab entry of
      None \<Rightarrow> Inl (ValueError ''not enough values to unpack (expected 2, got 1)'')
    | Some (descriptor, name) \<Rightarrow> (case split_on CHR '' '' descriptor of
        [mode, kind, object_id] \<Rightarrow> Inr \<lparr>te_mode = mode, te_kind = kind, te_object = object_id, te_name = name\<rparr>
      | _ \<Rightarrow> Inl (ValueError ''wrong number of values to unpack (expected 3)'')))"

definition blob_id :: "hashes \<Rightarrow> string \<Rightarrow> string" where
  \<comment> \<open>the name Git gives to these bytes\<close>
  "blob_id hs content = h_sha1 hs (''blob '' @ show_int (int (length content)) @ CHR 0x00 # content)"

definition read_source :: "checkout_view \<Rightarrow> path \<Rightarrow> string py" where
  "read_source v path = catchE (cv_read v path) is_os_error
     (\<lambda>e. Inl (DependencyError (''Cannot verify dependency source '' @ as_posix path @ '': '' @ exn_text e)))"

definition verify_entry :: "hashes \<Rightarrow> checkout_view \<Rightarrow> path \<Rightarrow> string \<Rightarrow> string py" where
  \<comment> \<open>one turn of the loop: the bytes this entry adds to the digest\<close>
  "verify_entry hs v source_dir line =
     bindE (parse_entry line) (\<lambda>e.
     if te_kind e \<noteq> ''blob'' \<or> \<not> py_in (te_mode e) [''100644'', ''100755''] then
       Inl (DependencyError (''Unsupported dependency tree entry '' @ te_mode e @ '' '' @ te_kind e @ '': '' @ te_name e))
     else if is_absolute (te_name e) \<or> ''..'' \<in> set (path_parts (te_name e)) then
       Inl (DependencyError (''Invalid dependency tree path: '' @ te_name e))
     else
       let path = source_dir @ path_parts (te_name e) in
       bindE (reject_links (cv_link v) path source_dir) (\<lambda>_.
       bindE (read_source v path) (\<lambda>content.
       if blob_id hs content \<noteq> te_object e then
         Inl (DependencyError (''Xpact-core tracked file bytes differ from the pinned commit: '' @ te_name e))
       else Inr (te_mode e @ '' '' @ te_name e @ [CHR 0x00] @ h_sha256_bytes hs content))))"

definition require_path :: "checkout_view \<Rightarrow> path \<Rightarrow> string \<Rightarrow> unit py" where
  "require_path v source_dir name =
     (let path = source_dir @ path_parts name in
      bindE (reject_links (cv_link v) path source_dir) (\<lambda>_.
      raise_if (\<not> cv_exists v path) (DependencyError (''Pinned checkout lacks required dependency path: '' @ name))))"

record dependency =
  dp_repository :: string
  dp_revision :: string
  dp_source_dir :: path
  dp_source_sha256 :: string
  dp_library :: path
  dp_dependencies :: "string list"
  dp_environment :: "(string \<times> path) list"

definition verify_identity :: "checkout_view \<Rightarrow> environment \<Rightarrow> path \<Rightarrow> dependency_lock \<Rightarrow> string py" where
  \<comment> \<open>the checks before the tree is read: the revision\<close>
  "verify_identity v env source_dir lock =
     bindE (reject_links (cv_link v) source_dir (butlast source_dir)) (\<lambda>_.
     bindE (reject_links (cv_link v) (source_dir @ [''.git'']) source_dir) (\<lambda>_.
     if \<not> cv_dir v (source_dir @ [''.git'']) then
       Inl (DependencyError (''Expected a dedicated Git checkout at '' @ as_posix source_dir))
     else bindE (run_git (cv_git v) env [''rev-parse'', ''HEAD''] source_dir) (\<lambda>head.
     let actual = strip head in
     if actual \<noteq> dl_revision lock then
       Inl (DependencyError (''Xpact-core revision mismatch at '' @ as_posix source_dir @ '': expected '' @ dl_revision lock
         @ '', found '' @ actual))
     else bindE (run_git (cv_git v) env [''config'', ''--get'', ''remote.origin.url''] source_dir) (\<lambda>origin.
     if strip origin \<noteq> dl_repository lock then
       Inl (DependencyError (''Xpact-core origin mismatch at '' @ as_posix source_dir @ '': '' @ strip origin))
     else bindE (run_git (cv_git v) env [''status'', ''--porcelain=v1'', ''--untracked-files=all'', ''--ignored''] source_dir) (\<lambda>dirty.
     if strip dirty \<noteq> [] then
       Inl (DependencyError (''Xpact-core checkout is modified or contains extra files: '' @ as_posix source_dir @ newline # strip dirty))
     else Inr actual)))))"

definition verify_checkout :: "hashes \<Rightarrow> environment \<Rightarrow> checkout_view \<Rightarrow> path \<Rightarrow> dependency_lock \<Rightarrow> dependency py" where
  "verify_checkout hs env v source_dir lock =
     bindE (verify_identity v env source_dir lock) (\<lambda>actual.
     bindE (run_git (cv_git v) env [''ls-tree'', ''-r'', ''-z'', ''--full-tree'', ''HEAD''] source_dir) (\<lambda>tree.
     bindE (mapE (verify_entry hs v source_dir) (filter (\<lambda>line. line \<noteq> []) (split_on CHR 0x00 tree))) (\<lambda>updates.
     bindE (forE (require_path v source_dir) (dl_library lock # dl_required lock)) (\<lambda>_.
     Inr \<lparr>dp_repository = dl_repository lock, dp_revision = actual, dp_source_dir = source_dir,
          dp_source_sha256 = h_sha256 hs (concat updates), dp_library = source_dir @ path_parts (dl_library lock),
          dp_dependencies = dl_dependencies lock,
          dp_environment = [(''XPACT_CORE'', source_dir), (''XPACT_INCLUDE'', source_dir @ [''contrib'', ''xpact'', ''include'']),
            (''C_SHIFT_JIS_SUBSET'', source_dir @ [''C-tools'', ''shift_jis_subset''])]\<rparr>))))"

section \<open>Preparing the dependency\<close>

datatype dependency_moment = AtStart | AtStaging | AtPublication | AtFinish

datatype dependency_event =
    StagingCreated path
  | Network \<comment> \<open>a fetch from the repository\<close>
  | Renamed path path
  | StagingRemoved path

record dependency_host =
  dh_lock :: "json py"
  dh_root :: path \<comment> \<open>\<open>repo_root.resolve()\<close>\<close>
  dh_view :: "dependency_moment \<Rightarrow> checkout_view"
  dh_env :: environment
  dh_hashes :: hashes
  dh_mkdir :: "unit py"
  dh_mkdtemp :: "path py"
  dh_rename :: "unit py"
  dh_staging_left :: bool \<comment> \<open>\<open>staging.exists()\<close> at the end\<close>
  dh_same_parent :: "path \<Rightarrow> path \<Rightarrow> bool" \<comment> \<open>\<open>a.parent.resolve() == b.resolve()\<close>\<close>
  dh_rmtree :: "unit py"

type_synonym 'a prepare = "(dependency_event, 'a) act"

definition cache_root :: "dependency_host \<Rightarrow> path" where
  "cache_root h = dh_root h @ [''build'', ''dependencies'', ''xpact-core'']"

definition verify_at :: "dependency_host \<Rightarrow> dependency_moment \<Rightarrow> path \<Rightarrow> dependency_lock \<Rightarrow> dependency py" where
  "verify_at h m = verify_checkout (dh_hashes h) (dh_env h) (dh_view h m)"

definition fetch_steps :: "dependency_host \<Rightarrow> path \<Rightarrow> dependency_lock \<Rightarrow> unit prepare" where
  "fetch_steps h staging lock =
     (let git = (\<lambda>arguments. run_git (cv_git (dh_view h AtStaging)) (dh_env h) arguments staging) in
      bindA (pureA (git [''init'', ''--quiet''])) (\<lambda>_.
      bindA (pureA (git [''remote'', ''add'', ''origin'', dl_repository lock])) (\<lambda>_.
      bindA (emitA Network) (\<lambda>_.
      bindA (pureA (git [''fetch'', ''--no-tags'', ''--depth=1'', ''origin'', dl_revision lock])) (\<lambda>_.
      bindA (pureA (git [''checkout'', ''--detach'', ''--quiet'', ''FETCH_HEAD''])) (\<lambda>_.
      pureA (Inr ())))))))"

definition publish_staging :: "dependency_host \<Rightarrow> path \<Rightarrow> path \<Rightarrow> dependency_lock \<Rightarrow> dependency prepare" where
  \<comment> \<open>an established checkout wins over the fresh one\<close>
  "publish_staging h staging destination lock =
     (if cv_exists (dh_view h AtPublication) destination then pureA (verify_at h AtPublication destination lock)
      else case dh_rename h of
        Inr _ \<Rightarrow> bindA (emitA (Renamed staging destination)) (\<lambda>_. pureA (verify_at h AtFinish destination lock))
      | Inl (OSError m) \<Rightarrow>
          if cv_exists (dh_view h AtFinish) destination then pureA (verify_at h AtFinish destination lock)
          else pureA (Inl (OSError m))
      | Inl e \<Rightarrow> pureA (Inl e))"

definition remove_staging :: "dependency_host \<Rightarrow> path \<Rightarrow> unit prepare" where
  "remove_staging h staging =
     bindA (pureA (reject_links (cv_link (dh_view h AtFinish)) staging (cache_root h))) (\<lambda>_.
     if \<not> dh_same_parent h staging (cache_root h) \<or> \<not> startswith (last staging) ''.prepare-'' then
       pureA (Inl (DependencyError (''Refusing to remove an unexpected preparation path: '' @ as_posix staging)))
     else bindA (pureA (dh_rmtree h)) (\<lambda>_. emitA (StagingRemoved staging)))"

definition converted_os :: "'a py \<Rightarrow> 'a py" where
  \<comment> \<open>\<open>except OSError\<close>\<close>
  "converted_os r = catchE r is_os_error
     (\<lambda>e. Inl (DependencyError (''Cannot prepare pinned Xpact-core: '' @ exn_text e)))"

definition finally_remove :: "dependency_host \<Rightarrow> path \<Rightarrow> dependency prepare \<Rightarrow> dependency prepare" where
  \<comment> \<open>the \<open>finally\<close> clause: an exception of the removal replaces the result\<close>
  "finally_remove h staging m = (case m of (evs, r) \<Rightarrow>
     if dh_staging_left h then
       (case remove_staging h staging of
          (evs', Inl e) \<Rightarrow> (evs @ evs', Inl e)
        | (evs', Inr _) \<Rightarrow> (evs @ evs', r))
     else (evs, r))"

definition prepare_fresh :: "dependency_host \<Rightarrow> path \<Rightarrow> dependency_lock \<Rightarrow> dependency prepare" where
  "prepare_fresh h destination lock =
     bindA (pureA (dh_mkdir h)) (\<lambda>_.
     bindA (pureA (dh_mkdtemp h)) (\<lambda>staging.
     bindA (emitA (StagingCreated staging)) (\<lambda>_.
     finally_remove h staging
       (case bindA (fetch_steps h staging lock) (\<lambda>_.
          bindA (pureA (verify_at h AtStaging staging lock)) (\<lambda>_.
          publish_staging h staging destination lock)) of
        (evs, r) \<Rightarrow> (evs, converted_os r)))))"

definition prepare_dependency :: "dependency_host \<Rightarrow> bool \<Rightarrow> dependency prepare" where
  "prepare_dependency h offline =
     bindA (pureA (load_lock (dh_lock h) (dh_root h))) (\<lambda>lock.
     let destination = cache_root h @ [dl_revision lock] in
     bindA (pureA (reject_links (cv_link (dh_view h AtStart)) destination (dh_root h))) (\<lambda>_.
     if cv_exists (dh_view h AtStart) destination then pureA (verify_at h AtStart destination lock)
     else if offline then
       pureA (Inl (DependencyError (''Pinned Xpact-core is not cached at '' @ as_posix destination @ ''; run without --offline once'')))
     else prepare_fresh h destination lock))"

definition dependency_main :: "dependency_host \<Rightarrow> bool \<Rightarrow> int prepare" where
  \<comment> \<open>the exit status of the script\<close>
  "dependency_main h offline = (case prepare_dependency h offline of
      (evs, Inr metadata) \<Rightarrow> (evs, Inr 0)
    | (evs, Inl (DependencyError m)) \<Rightarrow> (evs, Inr 1)
    | (evs, Inl (OSError m)) \<Rightarrow> (evs, Inr 1)
    | (evs, Inl e) \<Rightarrow> (evs, Inl e))"

end
