(* ===== verification/Build_Implementations.thy ===== *)
theory Build_Implementations
  imports Core_Dependency Dual_Lane Lane_Runner
begin

text \<open>
  Building the executables (\<open>scripts/build_implementations.py\<close>): the fingerprint of the build
  inputs (\<open>source_fingerprint\<close>), checked processes (\<open>run_checked\<close>), the generated identity
  class (\<open>write_identity\<close>), the checks on what the executables and the makefile say, one build
  (\<open>build_one\<close>) and the script (\<open>main\<close>). The file system, Git and the dependency cache are asked
  at the moments \<open>BeforeBuild\<close> and \<open>AfterBuild\<close>; compilers are processes.
\<close>

section \<open>The fingerprint of the inputs\<close>

record source_view =
  sv_walk :: "path list" \<comment> \<open>every entry below the repository, relative to it\<close>
  sv_is_file :: "path \<Rightarrow> bool"
  sv_sha :: "path \<Rightarrow> string py"

definition underscored :: "string \<Rightarrow> string" where
  \<comment> \<open>\<open>s.replace("-", "_")\<close>\<close>
  "underscored s = map (\<lambda>c. if c = CHR ''-'' then CHR ''_'' else c) s"

definition profile_root :: "string \<Rightarrow> path py" where
  "profile_root profile =
     (if profile = ''probe'' then Inr [''tools'', ''implementation_probe'']
      else if profile = ''catalog'' then Inr [''benchmarks'', ''dual_catalog'']
      else if profile = ''w3c'' then Inr [''benchmarks'', ''dual_w3c'']
      else if profile = ''regression'' then Inr [''benchmarks'', ''dual_regression'']
      else Inl (BuildError (''Unknown build profile: '' @ profile)))"

definition source_directories :: "string \<Rightarrow> string \<Rightarrow> path list py" where
  "source_directories implementation profile =
     bindE (profile_root profile) (\<lambda>source.
     Inr (if profile = ''probe'' then [source @ [underscored implementation]]
          else [source @ [''shared''], source @ [underscored implementation]]))"

definition rglob :: "path list \<Rightarrow> path \<Rightarrow> string \<Rightarrow> path list" where
  \<comment> \<open>\<open>directory.rglob("*" + suffix)\<close>, in the order of the walk\<close>
  "rglob walk directory suffix =
     filter (\<lambda>p. is_relative_to p directory \<and> length directory < length p \<and> endswith (last p) suffix) walk"

definition profile_scripts :: "string \<Rightarrow> path list" where
  "profile_scripts profile = map (\<lambda>name. [''scripts'', name])
     (if profile = ''catalog'' then [''run_dual_catalog.py'', ''run_dual_catalog.ps1'', ''compare_eiffel_benchmarks.py'']
      else if profile = ''regression'' then [''run_dual_regression.py'']
      else if profile = ''w3c'' then [''run_dual_w3c.py'', ''run_dual_w3c.ps1'', ''run_w3c_conformance.py'']
      else [])"

definition source_paths :: "source_view \<Rightarrow> string \<Rightarrow> string \<Rightarrow> path list \<Rightarrow> path list" where
  "source_paths v implementation profile directories =
     concat (map (\<lambda>d. concat (map (rglob (sv_walk v) d) [''.e'', ''.ecf''])) directories)
     @ [[''scripts'', ''build_implementations.py''], [''scripts'', ''prepare_xpact_core.py''], [''dependencies'', ''xpact-core.json'']]
     @ filter (sv_is_file v) (profile_scripts profile)
     @ (if implementation = ''xpact'' then rglob (sv_walk v) [''src''] ''.e'' else [])"

definition hex_value :: "char \<Rightarrow> nat" where
  "hex_value c = (let n = of_char c :: nat in if n \<le> 57 then n - 48 else n - 87)"

fun unhex :: "string \<Rightarrow> string" where
  \<comment> \<open>\<open>bytes.fromhex\<close> of a hexadecimal digest\<close>
  "unhex (a # b # s) = char_of (16 * hex_value a + hex_value b) # unhex s"
| "unhex _ = []"

definition fingerprint_update :: "path \<times> string \<Rightarrow> string" where
  "fingerprint_update = (\<lambda>(path, digest). as_posix path @ [CHR 0x00] @ unhex digest)"

definition fingerprint_entries :: "source_view \<Rightarrow> path list \<Rightarrow> (path \<times> string) list py" where
  "fingerprint_entries v paths = mapE (\<lambda>path. bindE (sv_sha v path) (\<lambda>digest. Inr (path, digest))) (sort paths)"

definition source_fingerprint :: "(string \<Rightarrow> string) \<Rightarrow> source_view \<Rightarrow> string \<Rightarrow> string \<Rightarrow> string py" where
  \<comment> \<open>\<open>sha256\<close> hashes a byte string\<close>
  "source_fingerprint sha256 v implementation profile =
     bindE (source_directories implementation profile) (\<lambda>directories.
     bindE (fingerprint_entries v (source_paths v implementation profile directories)) (\<lambda>entries.
     Inr (sha256 (concat (map fingerprint_update entries)))))"

section \<open>Checked processes\<close>

definition last_of :: "nat \<Rightarrow> string \<Rightarrow> string" where
  \<comment> \<open>\<open>s[-n:]\<close>\<close>
  "last_of n s = drop (length s - n) s"

definition command_text :: "string list \<Rightarrow> string" where
  \<comment> \<open>\<open>json.dumps\<close> of a list of plain strings\<close>
  "command_text command = CHR ''['' # join '', '' (map (\<lambda>s. [CHR 0x22] @ s @ [CHR 0x22]) command) @ '']''"

definition write_log :: "(string \<Rightarrow> string \<Rightarrow> unit py) \<Rightarrow> string option \<Rightarrow> string \<Rightarrow> unit py" where
  "write_log save log_path content = (case log_path of None \<Rightarrow> Inr () | Some p \<Rightarrow> save p content)"

definition run_checked :: "(string list \<Rightarrow> outcome) \<Rightarrow> (string \<Rightarrow> string \<Rightarrow> unit py) \<Rightarrow> string list \<Rightarrow> string option \<Rightarrow> string py" where
  "run_checked run save command log_path = (case run command of
      Completed code output _ \<Rightarrow>
        bindE (write_log save log_path (command_text command @ newline # output)) (\<lambda>_.
        if code \<noteq> 0 then Inl (BuildError (hd command @ '' exited '' @ show_int code @ ''. See ''
          @ (case log_path of None \<Rightarrow> ''command output'' | Some p \<Rightarrow> p) @ ''.'' @ newline # last_of 5000 output))
        else Inr (strip output))
    | TimeoutExpired _ _ \<Rightarrow>
        bindE (write_log save log_path (''timed out'' @ [newline])) (\<lambda>_.
        Inl (BuildError (''Cannot complete '' @ hd command @ '': timed out'')))
    | LaunchError m \<Rightarrow>
        bindE (write_log save log_path (m @ [newline])) (\<lambda>_.
        Inl (BuildError (''Cannot complete '' @ hd command @ '': '' @ m))))"

section \<open>Identities\<close>

definition identity_char :: "char \<Rightarrow> bool" where
  "identity_char c = (CHR ''0'' \<le> c \<and> c \<le> CHR ''9'' \<or> CHR ''A'' \<le> c \<and> c \<le> CHR ''Z'' \<or> CHR ''a'' \<le> c \<and> c \<le> CHR ''z''
     \<or> c = CHR ''/'' \<or> c = CHR ''_'' \<or> c = CHR ''.'' \<or> c = CHR ''-'')"

definition identity_value :: "string \<Rightarrow> bool" where
  \<comment> \<open>\<open>re.fullmatch(r"[a-zA-Z0-9/_.-]+", value)\<close>\<close>
  "identity_value s = (s \<noteq> [] \<and> list_all identity_char s)"

definition identity_feature :: "string \<times> string \<Rightarrow> string" where
  "identity_feature = (\<lambda>(name, v). tab # name @ '': STRING = '' @ [CHR 0x22] @ v @ [CHR 0x22])"

definition identity_source :: "string \<Rightarrow> string \<Rightarrow> string \<Rightarrow> string py" where
  \<comment> \<open>the text of \<open>xp_build_identity.e\<close>\<close>
  "identity_source implementation revision configuration =
     (let fields = [(''implementation_id'', implementation), (''source_revision'', revision), (''build_configuration'', configuration)] in
      if \<not> list_all (\<lambda>(_, v). identity_value v) fields then Inl (BuildError ''Invalid build identity'')
      else Inr (join [newline] ([''class XP_BUILD_IDENTITY'', ''feature -- Build identity''] @ map identity_feature fields
        @ [''end'' @ [newline]])))"

definition validate_probe :: "string \<Rightarrow> string \<Rightarrow> string \<Rightarrow> string \<Rightarrow> unit py" where
  "validate_probe output implementation revision configuration =
     (let expected = join [tab] [''XPACT_BUILD_PROBE'', implementation, revision, configuration, ''OK''];
          markers = filter (\<lambda>line. startswith line ''XPACT_BUILD_PROBE'') (splitlines output) in
      raise_if (markers \<noteq> [expected])
        (BuildError (''Probe did not confirm the expected implementation/revision/configuration: ''
          @ py_show (\<lambda>_. []) (JList (map JStr markers)))))"

definition validate_identity :: "string \<Rightarrow> string \<Rightarrow> string \<Rightarrow> string \<Rightarrow> string \<Rightarrow> string \<Rightarrow> string py" where
  \<comment> \<open>the three validators differ in the marker and the name of the lane\<close>
  "validate_identity label lane output implementation revision configuration =
     bindE (py_item (map_of GC_POLICIES) implementation) (\<lambda>policy.
     let expected = join [tab] [label, implementation, revision, configuration, policy] in
     if splitlines output \<noteq> [expected]
     then Inl (BuildError (lane @ '' executable did not confirm the expected identity/GC policy: '' @ py_repr output))
     else Inr policy)"

definition validate_catalog_identity :: "string \<Rightarrow> string \<Rightarrow> string \<Rightarrow> string \<Rightarrow> string py" where
  "validate_catalog_identity = validate_identity ''XPACT_CATALOG_IDENTITY'' ''Catalog''"

definition validate_regression_identity :: "string \<Rightarrow> string \<Rightarrow> string \<Rightarrow> string \<Rightarrow> string py" where
  "validate_regression_identity = validate_identity ''XPACT_REGRESSION_IDENTITY'' ''Regression''"

definition validate_w3c_identity :: "string \<Rightarrow> string \<Rightarrow> string \<Rightarrow> string \<Rightarrow> string py" where
  "validate_w3c_identity = validate_identity ''XPACT_W3C_IDENTITY'' ''W3C''"

section \<open>The makefile\<close>

definition makefile_names :: "string list" where
  "makefile_names = [''CC'', ''CPP'', ''CFLAGS'', ''CPPFLAGS'', ''LDFLAGS'', ''CCLDFLAGS'', ''EIFLIB'']"

definition assignment :: "string \<Rightarrow> (string \<times> string) option" where
  \<comment> \<open>a line that matches \<open>NAME \s* = \s* (.*)\<close>\<close>
  "assignment line =
     (let name = takeWhile (\<lambda>c. \<not> is_space c \<and> c \<noteq> CHR ''='') line in
      if \<not> py_in name makefile_names then None
      else case dropWhile is_space (drop (length name) line) of
          [] \<Rightarrow> None
        | c # rest \<Rightarrow> if c = CHR ''='' then Some (name, dropWhile is_space rest) else None)"

definition to_lower :: "char \<Rightarrow> char" where
  "to_lower c = (if CHR ''A'' \<le> c \<and> c \<le> CHR ''Z'' then char_of (of_char c + 32 :: nat) else c)"

definition makefile_assignments :: "string list \<Rightarrow> (string \<times> string) list" where
  "makefile_assignments lines = fold (\<lambda>line assignments. case assignment line of
     None \<Rightarrow> assignments | Some (name, v) \<Rightarrow> AList.update name v assignments) lines []"

definition makefile_settings :: "string py \<Rightarrow> (string \<times> string) list py" where
  \<comment> \<open>\<open>content\<close> is the text of \<open>Makefile\<close>\<close>
  "makefile_settings content =
     bindE content (\<lambda>makefile.
     let assignments = makefile_assignments (splitlines makefile);
         cc = (case map_of assignments ''CC'' of None \<Rightarrow> [] | Some v \<Rightarrow> v) in
     if \<not> py_in (map to_lower (strip cc)) [''cl'', ''cl.exe'']
     then Inl (BuildError (''Eiffel did not generate the expected MSVC build: ''
       @ py_show (\<lambda>_. []) (JObj (map (\<lambda>(k, v). (k, JStr v)) assignments))))
     else Inr assignments)"

section \<open>One build\<close>

datatype build_moment = BeforeBuild | AfterBuild

record tools =
  t_ec :: string
  t_finish :: string
  t_cl :: string

record build_host =
  bd_root :: path
  bd_view :: "build_moment \<Rightarrow> source_view"
  bd_sha256 :: "string \<Rightarrow> string"
  bd_process :: "build_moment \<Rightarrow> process" \<comment> \<open>Git in the repository\<close>
  bd_os_env :: environment
  bd_dependency :: "build_moment \<Rightarrow> dependency_host"
  bd_mkdir :: "path \<Rightarrow> unit py"
  bd_write :: "path \<Rightarrow> string \<Rightarrow> unit py"
  bd_log :: "string \<Rightarrow> string \<Rightarrow> unit py"
  bd_run :: "environment \<Rightarrow> string list \<Rightarrow> outcome" \<comment> \<open>compilers and executables\<close>
  bd_is_file :: "path \<Rightarrow> bool"
  bd_makefile :: "path \<Rightarrow> string py"
  bd_file_sha :: "path \<Rightarrow> string py"
  bd_manifest :: "unit py" \<comment> \<open>\<open>write_json_atomic(manifest, metadata)\<close>\<close>

definition build_git :: "build_host \<Rightarrow> build_moment \<Rightarrow> string list \<Rightarrow> string py" where
  "build_git h m arguments = run_git (bd_process h m) (bd_os_env h) arguments (bd_root h)"

definition build_fingerprint :: "build_host \<Rightarrow> build_moment \<Rightarrow> string \<Rightarrow> string \<Rightarrow> string py" where
  "build_fingerprint h m implementation profile = source_fingerprint (bd_sha256 h) (bd_view h m) implementation profile"

definition build_dependency :: "build_host \<Rightarrow> build_moment \<Rightarrow> bool \<Rightarrow> dependency py" where
  "build_dependency h m offline = snd (prepare_dependency (bd_dependency h m) offline)"

definition dependency_json :: "dependency \<Rightarrow> json" where
  "dependency_json d = JObj
     [(''repository'', JStr (dp_repository d)), (''revision'', JStr (dp_revision d)),
      (''source_dir'', JStr (as_posix (dp_source_dir d))), (''source_sha256'', JStr (dp_source_sha256 d)),
      (''library'', JStr (as_posix (dp_library d))), (''dependencies'', JList (map JStr (dp_dependencies d))),
      (''environment'', JObj (map (\<lambda>(k, p). (k, JStr (as_posix p))) (dp_environment d)))]"

datatype build_source = Own json string | Core dependency

definition source_json_of :: "build_source \<Rightarrow> json" where
  "source_json_of s = (case s of Own j _ \<Rightarrow> j | Core d \<Rightarrow> dependency_json d)"

definition source_revision :: "build_source \<Rightarrow> string" where
  "source_revision s = (case s of Own _ r \<Rightarrow> r | Core d \<Rightarrow> dp_revision d)"

definition identify_source :: "build_host \<Rightarrow> string \<Rightarrow> bool \<Rightarrow> string \<Rightarrow> string \<Rightarrow> build_source py" where
  "identify_source h implementation offline fingerprint status =
     (if implementation = ''xpact-core'' then
        bindE (build_dependency h BeforeBuild offline) (\<lambda>d. Inr (Core d))
      else
        bindE (build_git h BeforeBuild [''rev-parse'', ''HEAD'']) (\<lambda>head.
        bindE (build_git h BeforeBuild [''remote'', ''get-url'', ''origin'']) (\<lambda>url.
        Inr (Own (JObj [(''repository'', JStr (strip url)), (''revision'', JStr (strip head)),
          (''source_dir'', JStr (as_posix (bd_root h))), (''source_sha256'', JStr fingerprint),
          (''worktree_dirty'', JBool (status \<noteq> []))]) (strip head)))))"

definition write_identity :: "build_host \<Rightarrow> path \<Rightarrow> string \<Rightarrow> string \<Rightarrow> string \<Rightarrow> unit py" where
  "write_identity h directory implementation revision configuration =
     bindE (bd_mkdir h directory) (\<lambda>_.
     bindE (identity_source implementation revision configuration) (\<lambda>source_text.
     bd_write h (directory @ [''xp_build_identity.e'']) source_text))"

definition set_variables :: "environment \<Rightarrow> (string \<times> path) list \<Rightarrow> environment" where
  \<comment> \<open>\<open>environment.update({...})\<close>\<close>
  "set_variables env vars = fold (\<lambda>(k, p). AList.update k (as_posix p)) vars env"

definition helper_command :: "tools \<Rightarrow> path \<Rightarrow> path \<Rightarrow> string list" where
  "helper_command t core helper_object =
     [t_cl t, ''/nologo'', ''/O2'', ''/MT'', ''/c'', ''/I'' @ as_posix (core @ [''C-tools'', ''shift_jis_subset'', ''include'']),
      as_posix (core @ [''C-tools'', ''shift_jis_subset'', ''src'', ''shift_jis_subset.c'']), ''/Fo:'' @ as_posix helper_object]"

definition native_helper :: "build_host \<Rightarrow> tools \<Rightarrow> environment \<Rightarrow> path \<Rightarrow> dependency \<Rightarrow> (json list \<times> environment) py" where
  \<comment> \<open>the codec that only the other implementation needs\<close>
  "native_helper h t env destination d =
     (let core = dp_source_dir d;
          env = set_variables env [(''XPACT_CORE'', core), (''XPACT_INCLUDE'', core @ [''contrib'', ''xpact'', ''include'']),
            (''C_SHIFT_JIS_SUBSET'', core @ [''C-tools'', ''shift_jis_subset''])];
          helper_source = core @ [''C-tools'', ''shift_jis_subset'', ''src'', ''shift_jis_subset.c''];
          helper_object = destination @ [''shift_jis_subset.obj''];
          command = helper_command t core helper_object in
      bindE (run_checked (bd_run h env) (bd_log h) command (Some ''shift-jis.log'')) (\<lambda>_.
      bindE (bd_file_sha h helper_source) (\<lambda>source_sha.
      bindE (bd_file_sha h helper_object) (\<lambda>object_sha.
      Inr ([JObj [(''source'', JStr (as_posix helper_source)), (''source_sha256'', JStr source_sha),
                  (''object'', JStr (as_posix helper_object)), (''object_sha256'', JStr object_sha),
                  (''command'', JList (map JStr command))]],
           set_variables env [(''XPACT_SHIFT_JIS_OBJECT'', helper_object)])))))"

definition build_helpers :: "build_host \<Rightarrow> tools \<Rightarrow> environment \<Rightarrow> path \<Rightarrow> build_source \<Rightarrow> (json list \<times> environment) py" where
  "build_helpers h t env destination s =
     (case s of Own _ _ \<Rightarrow> Inr ([], env) | Core d \<Rightarrow> native_helper h t env destination d)"

definition executable_name :: "string \<Rightarrow> string \<Rightarrow> string" where
  "executable_name implementation profile = underscored implementation
     @ (if profile = ''probe'' then ''_build_probe'' else if profile = ''catalog'' then ''_catalog_benchmark''
        else if profile = ''w3c'' then ''_w3c_conformance'' else ''_regression'')"

definition build_target :: "string \<Rightarrow> bool \<Rightarrow> string" where
  "build_target profile assertions =
     (let checked = (\<lambda>name. if assertions then name @ ''_assertions'' else name) in
      if profile = ''probe'' then ''probe'' else if profile = ''catalog'' then checked ''catalog''
      else if profile = ''regression'' then checked ''regression'' else checked ''conformance'')"

definition ecf_file :: "string \<Rightarrow> string \<Rightarrow> path" where
  "ecf_file implementation profile =
     (if profile = ''probe'' then [''tools'', ''implementation_probe'', underscored implementation, ''probe.ecf'']
      else if profile = ''catalog'' then [''benchmarks'', ''dual_catalog'', underscored implementation, ''catalog.ecf'']
      else if profile = ''regression'' then [''benchmarks'', ''dual_regression'', underscored implementation, ''regression.ecf'']
      else [''benchmarks'', ''dual_w3c'', underscored implementation, ''conformance.ecf''])"

definition compile_command :: "build_host \<Rightarrow> tools \<Rightarrow> string \<Rightarrow> string \<Rightarrow> bool \<Rightarrow> path \<Rightarrow> string list" where
  "compile_command h t implementation profile assertions project =
     [t_ec t, ''-batch'', ''-clean'', ''-finalize''] @ (if assertions then [''-keep''] else [])
     @ [''-config'', as_posix (bd_root h @ ecf_file implementation profile), ''-target'', build_target profile assertions,
        ''-project_path'', as_posix project]"

definition compile_executable :: "build_host \<Rightarrow> tools \<Rightarrow> environment \<Rightarrow> string \<Rightarrow> string \<Rightarrow> bool \<Rightarrow> path
    \<Rightarrow> (path \<times> (string \<times> string) list) py" where
  \<comment> \<open>the executable and the settings of its makefile\<close>
  "compile_executable h t env implementation profile assertions project =
     (let code = project @ [''EIFGENs'', build_target profile assertions, ''F_code''];
          executable = code @ [executable_name implementation profile @ ''.exe''] in
      bindE (run_checked (bd_run h env) (bd_log h) (compile_command h t implementation profile assertions project) (Some ''eiffel.log'')) (\<lambda>_.
      bindE (run_checked (bd_run h env) (bd_log h) [t_finish t] (Some ''c.log'')) (\<lambda>_.
      bindE (raise_if (\<not> bd_is_file h executable)
        (BuildError (''Expected isolated executable was not created: '' @ as_posix executable))) (\<lambda>_.
      bindE (makefile_settings (bd_makefile h (code @ [''Makefile'']))) (\<lambda>flags. Inr (executable, flags))))))"

definition validate_output :: "string \<Rightarrow> string \<Rightarrow> string \<Rightarrow> string \<Rightarrow> string \<Rightarrow> unit py" where
  "validate_output profile output implementation revision configuration =
     (if profile = ''catalog'' then bindE (validate_catalog_identity output implementation revision configuration) (\<lambda>_. Inr ())
      else if profile = ''w3c'' then bindE (validate_w3c_identity output implementation revision configuration) (\<lambda>_. Inr ())
      else if profile = ''regression'' then bindE (validate_regression_identity output implementation revision configuration) (\<lambda>_. Inr ())
      else validate_probe output implementation revision configuration)"

definition confirm_identity :: "build_host \<Rightarrow> environment \<Rightarrow> string \<Rightarrow> path \<Rightarrow> string \<Rightarrow> string \<Rightarrow> string \<Rightarrow> string py" where
  \<comment> \<open>run the new executable and check what it says it is\<close>
  "confirm_identity h env profile executable implementation revision configuration =
     bindE (run_checked (bd_run h env) (bd_log h)
       (as_posix executable # (if profile \<noteq> ''probe'' then [''--identity''] else []))
       (Some (if profile = ''probe'' then ''probe.log'' else ''identity.log''))) (\<lambda>output.
     bindE (validate_output profile output implementation revision configuration) (\<lambda>_. Inr output))"

definition inputs_unchanged :: "build_host \<Rightarrow> string \<Rightarrow> string \<Rightarrow> string \<Rightarrow> build_source \<Rightarrow> unit py" where
  "inputs_unchanged h implementation profile fingerprint s =
     bindE (build_fingerprint h AfterBuild implementation profile) (\<lambda>current.
     bindE (raise_if (current \<noteq> fingerprint) (BuildError (''Build inputs changed while compiling '' @ implementation))) (\<lambda>_.
     case s of
       Core d \<Rightarrow> bindE (build_dependency h AfterBuild True) (\<lambda>verified.
         raise_if (verified \<noteq> d) (BuildError ''Pinned dependency changed while compiling''))
     | Own _ revision \<Rightarrow> bindE (build_git h AfterBuild [''rev-parse'', ''HEAD'']) (\<lambda>head.
         raise_if (strip head \<noteq> revision) (BuildError ''Repository revision changed while compiling''))))"

record build_facts =
  bf_source :: build_source
  bf_fingerprint :: string
  bf_command :: "string list"
  bf_flags :: "(string \<times> string) list"
  bf_helpers :: "json list"
  bf_executable :: path
  bf_sha :: string
  bf_output :: string

definition build_metadata :: "string \<Rightarrow> string \<Rightarrow> bool \<Rightarrow> json \<Rightarrow> build_facts \<Rightarrow> json" where
  "build_metadata implementation profile assertions compiler_metadata f = JObj
     ([(''schema_version'', JInt 1), (''status'', JStr ''verified''), (''implementation'', JStr implementation),
       (''profile'', JStr profile), (''source'', source_json_of (bf_source f)), (''build_inputs_sha256'', JStr (bf_fingerprint f)),
       (''build'', JObj [(''configuration'', JStr (configuration_name assertions)), (''mode'', JStr ''finalized''),
         (''assertions'', JBool assertions), (''void_safety'', JStr ''all''), (''command'', JList (map JStr (bf_command f))),
         (''makefile'', JObj (map (\<lambda>(k, v). (k, JStr v)) (bf_flags f))), (''native_helpers'', JList (bf_helpers f))]),
       (''toolchain'', compiler_metadata), (''executable'', JStr (as_posix (bf_executable f))),
       (''executable_sha256'', JStr (bf_sha f)), (''probe_output'', JStr (bf_output f))]
      @ (if profile \<noteq> ''probe'' then [(''gc_policy'', JStr (the (map_of GC_POLICIES implementation)))] else []))"

definition collect_build :: "build_host \<Rightarrow> path \<Rightarrow> string \<Rightarrow> tools \<Rightarrow> environment \<Rightarrow> bool \<Rightarrow> string \<Rightarrow> bool \<Rightarrow> build_facts py" where
  \<comment> \<open>\<open>build_one\<close> from the first check to the hash of the executable\<close>
  "collect_build h run_root implementation t environment offline profile assertions =
     bindE (raise_if (map_of GC_POLICIES implementation = None \<or> \<not> py_in profile [''probe'', ''catalog'', ''w3c'', ''regression''])
       (BuildError ''Unknown implementation or build profile'')) (\<lambda>_.
     let destination = run_root @ [implementation]; generated = destination @ [''metadata'']; project = destination @ [''project''];
         configuration = configuration_name assertions in
     bindE (bd_mkdir h destination) (\<lambda>_.
     bindE (build_fingerprint h BeforeBuild implementation profile) (\<lambda>fingerprint.
     bindE (build_git h BeforeBuild [''status'', ''--porcelain'', ''--untracked-files=all'']) (\<lambda>status.
     bindE (identify_source h implementation offline fingerprint status) (\<lambda>s.
     bindE (write_identity h generated implementation (source_revision s) configuration) (\<lambda>_.
     bindE (build_helpers h t (set_variables environment [(''XPACT_SOURCE_ROOT'', bd_root h), (''XPACT_PROBE_METADATA'', generated)])
       destination s) (\<lambda>(helpers, env).
     bindE (bd_mkdir h project) (\<lambda>_.
     bindE (compile_executable h t env implementation profile assertions project) (\<lambda>(executable, flags).
     bindE (confirm_identity h env profile executable implementation (source_revision s) configuration) (\<lambda>output.
     bindE (inputs_unchanged h implementation profile fingerprint s) (\<lambda>_.
     bindE (bd_file_sha h executable) (\<lambda>sha.
     Inr \<lparr>bf_source = s, bf_fingerprint = fingerprint, bf_command = compile_command h t implementation profile assertions project,
          bf_flags = flags, bf_helpers = helpers, bf_executable = executable, bf_sha = sha, bf_output = output\<rparr>))))))))))))"

definition build_one :: "build_host \<Rightarrow> path \<Rightarrow> string \<Rightarrow> tools \<Rightarrow> environment \<Rightarrow> json \<Rightarrow> bool \<Rightarrow> string \<Rightarrow> bool \<Rightarrow> json lane" where
  \<comment> \<open>the value is the content of the manifest\<close>
  "build_one h run_root implementation t environment compiler_metadata offline profile assertions =
     bindA (pureA (collect_build h run_root implementation t environment offline profile assertions)) (\<lambda>f.
     bindA (write_atomic (\<lambda>_. bd_manifest h) (as_posix (run_root @ [implementation, ''build.json'']))) (\<lambda>_.
     pureA (Inr (build_metadata implementation profile assertions compiler_metadata f))))"

end
