(* ===== verification/Build_Main.thy ===== *)
theory Build_Main
  imports Build_Implementations
begin

text \<open>
  The script around the builds (\<open>toolchain\<close> and \<open>main\<close> of
  \<open>scripts/build_implementations.py\<close>): the compilers and the environment they need, one build
  after the other, and \<open>run.json\<close>.
\<close>

section \<open>The toolchain\<close>

record tool_host =
  th_platform :: string \<comment> \<open>\<open>sys.platform\<close>\<close>
  th_platform_text :: string \<comment> \<open>\<open>platform.platform()\<close>\<close>
  th_environ :: environment
  th_which :: "string \<Rightarrow> string option"
  th_installation :: "string \<Rightarrow> string py" \<comment> \<open>\<open>Path(ec).resolve().parents[4]\<close>\<close>
  th_is_file :: "string \<Rightarrow> bool"
  th_sha :: "string \<Rightarrow> string py"
  th_run :: "environment \<Rightarrow> string list \<Rightarrow> outcome"

definition find_tool :: "tool_host \<Rightarrow> string \<Rightarrow> string py" where
  "find_tool h name = (case th_which h name of
      None \<Rightarrow> Inl (BuildError (''Missing '' @ name @ ''. Run scripts/build_implementations.ps1 from an EiffelStudio environment.''))
    | Some p \<Rightarrow> if p = []
        then Inl (BuildError (''Missing '' @ name @ ''. Run scripts/build_implementations.ps1 from an EiffelStudio environment.''))
        else Inr p)"

definition env_get :: "environment \<Rightarrow> string \<Rightarrow> string" where
  \<comment> \<open>\<open>environment.get(name, "")\<close>\<close>
  "env_get env name = (case map_of env name of None \<Rightarrow> [] | Some v \<Rightarrow> v)"

definition set_default :: "string \<Rightarrow> string \<Rightarrow> environment \<Rightarrow> environment" where
  \<comment> \<open>\<open>environment.setdefault(name, v)\<close>\<close>
  "set_default name v env = (if map_of env name = None then env @ [(name, v)] else env)"

definition installation_of :: "tool_host \<Rightarrow> string \<Rightarrow> string py" where
  "installation_of h ec = (let configured = env_get (th_environ h) ''ISE_EIFFEL'' in
     if configured \<noteq> [] then Inr configured else th_installation h ec)"

definition tool_environment :: "environment \<Rightarrow> string \<Rightarrow> environment" where
  "tool_environment env installation =
     AList.update ''ISE_C_COMPILER'' ''msc_vc140'' (AList.update ''ISE_PLATFORM'' ''win64''
       (set_default ''ISE_LIBRARY'' installation (set_default ''ISE_EIFFEL'' installation env)))"

definition required_files :: "string list" where
  "required_files = [''library/base/base.ecf'', ''library/base_extension/base_extension.ecf'', ''library/time/time.ecf'',
     ''C_library/zlib/clibs_zlib.ecf'', ''C_library/zlib/spec/msc_vc140/win64/lib/zlib.lib'']"

definition library_file :: "tool_host \<Rightarrow> string \<Rightarrow> string \<Rightarrow> json py" where
  "library_file h library_root relative =
     (let path = library_root @ ''/'' @ relative in
      bindE (raise_if (\<not> th_is_file h path) (BuildError (''Missing EiffelStudio dependency: '' @ path))) (\<lambda>_.
      bindE (th_sha h path) (\<lambda>digest. Inr (JObj [(''path'', JStr path), (''sha256'', JStr digest)]))))"

definition toolchain :: "tool_host \<Rightarrow> (tools \<times> environment \<times> json) py" where
  "toolchain h =
     bindE (raise_if (th_platform h \<noteq> ''win32'') (BuildError (''This first build lane requires Windows x64 and MSVC. ''
       @ ''WSL integration follows in the benchmark step.''))) (\<lambda>_.
     bindE (find_tool h ''ec'') (\<lambda>ec.
     bindE (find_tool h ''finish_freezing'') (\<lambda>finish.
     bindE (find_tool h ''cl'') (\<lambda>cl.
     bindE (raise_if (map to_lower (env_get (th_environ h) ''VSCMD_ARG_TGT_ARCH'') \<noteq> ''x64'')
       (BuildError ''An x64 MSVC environment is required; use build_implementations.ps1.'')) (\<lambda>_.
     bindE (installation_of h ec) (\<lambda>installation.
     let env = tool_environment (th_environ h) installation in
     bindE (mapE (library_file h (env_get env ''ISE_LIBRARY'')) required_files) (\<lambda>dependencies.
     bindE (run_checked (th_run h env) (\<lambda>_ _. Inr ()) [ec, ''-version''] None) (\<lambda>eiffel_version.
     bindE (run_checked (th_run h env) (\<lambda>_ _. Inr ()) [cl] None) (\<lambda>c_version.
     Inr (\<lparr>t_ec = ec, t_finish = finish, t_cl = cl\<rparr>, env,
       JObj [(''platform'', JStr (th_platform_text h)), (''architecture'', JStr ''x64''), (''eiffel_compiler'', JStr ec),
         (''eiffel_version'', JStr eiffel_version), (''c_compiler'', JStr cl), (''c_compiler_version'', JStr c_version),
         (''ise_eiffel'', JStr (env_get env ''ISE_EIFFEL'')), (''ise_library'', JStr (env_get env ''ISE_LIBRARY'')),
         (''ise_c_compiler'', JStr (env_get env ''ISE_C_COMPILER'')), (''dependencies'', JList dependencies)]))))))))))"

section \<open>The script\<close>

record build_args =
  ba_implementation :: string
  ba_offline :: bool
  ba_profile :: string
  ba_assertions :: string

record result_row =
  rw_implementation :: string
  rw_status :: string
  rw_error :: "string option"

definition build_errors :: "exn \<Rightarrow> bool" where
  \<comment> \<open>\<open>except (BuildError, DependencyError, OSError, ValueError)\<close>\<close>
  "build_errors e = (is_value_error e \<or> (case e of BuildError _ \<Rightarrow> True | DependencyError _ \<Rightarrow> True | OSError _ \<Rightarrow> True | _ \<Rightarrow> False))"

definition build_attempt :: "(string \<Rightarrow> json lane) \<Rightarrow> string \<Rightarrow> result_row lane" where
  \<comment> \<open>a failed build becomes a row of the run\<close>
  "build_attempt build implementation = (case build implementation of
      (evs, Inr _) \<Rightarrow> (evs, Inr \<lparr>rw_implementation = implementation, rw_status = ''verified'', rw_error = None\<rparr>)
    | (evs, Inl e) \<Rightarrow>
        if build_errors e
        then (evs, Inr \<lparr>rw_implementation = implementation, rw_status = ''failed'', rw_error = Some (exn_text e)\<rparr>)
        else (evs, Inl e))"

fun build_each :: "(string \<Rightarrow> json lane) \<Rightarrow> string list \<Rightarrow> result_row list lane" where
  "build_each build [] = pureA (Inr [])"
| "build_each build (i # is) =
     bindA (build_attempt build i) (\<lambda>row. bindA (build_each build is) (\<lambda>rows. pureA (Inr (row # rows))))"

definition selected_builds :: "build_args \<Rightarrow> string list" where
  "selected_builds a = (if ba_implementation a = ''both'' then [''xpact'', ''xpact-core''] else [ba_implementation a])"

record build_run =
  bn_mkdir :: "unit py" \<comment> \<open>the unique run directory\<close>
  bn_run_json :: "string \<Rightarrow> unit py"
  bn_run_root :: path
  bn_tools :: tool_host
  bn_host :: build_host

definition run_builds :: "build_run \<Rightarrow> build_args \<Rightarrow> result_row list lane" where
  \<comment> \<open>the outer \<open>try\<close>\<close>
  "run_builds r a =
     bindA (write_run (bn_run_json r) ''running'') (\<lambda>_.
     bindA (pureA (toolchain (bn_tools r))) (\<lambda>(t, env, compiler_metadata).
     build_each (\<lambda>i. build_one (bn_host r) (bn_run_root r) i t env compiler_metadata (ba_offline a) (ba_profile a)
       (ba_assertions a = ''on'')) (selected_builds a)))"

definition builds_status :: "result_row list py \<Rightarrow> string py" where
  "builds_status r = (case r of
      Inr rows \<Rightarrow> Inr (if list_all (\<lambda>row. rw_status row = ''verified'') rows then ''verified'' else ''failed'')
    | Inl e \<Rightarrow> if build_errors e then Inr ''failed'' else Inl e)"

definition publish_status :: "(string \<Rightarrow> unit py) \<Rightarrow> string \<Rightarrow> int lane" where
  "publish_status write status = (case write_run write status of
      (evs, Inl (OSError _)) \<Rightarrow> (evs, Inr 1)
    | (evs, Inl e) \<Rightarrow> (evs, Inl e)
    | (evs, Inr _) \<Rightarrow> (evs, Inr (if status = ''verified'' then 0 else 1)))"

definition build_main :: "build_run \<Rightarrow> build_args \<Rightarrow> int lane" where
  "build_main r a =
     bindA (pureA (bn_mkdir r)) (\<lambda>_.
     case run_builds r a of (evs, results) \<Rightarrow>
       bindA (evs, builds_status results) (publish_status (bn_run_json r)))"

end
