(* ===== verification/Dependency_Claims.thy ===== *)
theory Dependency_Claims
  imports Core_Dependency
begin

text \<open>
  What the pinned dependency guarantees: paths that cannot leave the checkout, a source tree whose
  every byte is authenticated by the locked commit, and a cache that only ever holds verified trees.
\<close>

section \<open>Links\<close>

lemma reject_from_Inr:
  "reject_from is_link path base cs = Inr () \<longleftrightarrow>
     (\<exists>ds es. cs = ds @ base # es \<and> base \<notin> set ds \<and> list_all (\<lambda>c. \<not> is_link c) (ds @ [base]))"
proof (induction cs)
  case (Cons c cs)
  show ?case
  proof (cases "c = base")
    case True
    then show ?thesis by (auto simp: Cons_eq_append_conv)
  next
    case False
    have "(\<exists>ds es. c # cs = ds @ base # es \<and> base \<notin> set ds \<and> list_all (\<lambda>c. \<not> is_link c) (ds @ [base]))
        = (\<not> is_link c \<and> (\<exists>ds es. cs = ds @ base # es \<and> base \<notin> set ds \<and> list_all (\<lambda>c. \<not> is_link c) (ds @ [base])))"
      (is "?l = ?r")
    proof
      assume ?l
      then obtain ds es where "c # cs = ds @ base # es" "base \<notin> set ds" "list_all (\<lambda>c. \<not> is_link c) (ds @ [base])" by blast
      with False show ?r by (cases ds) auto
    next
      assume ?r
      then obtain ds es where "\<not> is_link c" "cs = ds @ base # es" "base \<notin> set ds" "list_all (\<lambda>c. \<not> is_link c) (ds @ [base])" by blast
      with False show ?l by (intro exI [of _ "c # ds"] exI [of _ es]) auto
    qed
    with False Cons show ?thesis by auto
  qed
qed simp

lemma reject_from_prefixes:
  "reject_from is_link path base (map (\<lambda>n. take n p) (rev [0..<Suc k])) = Inr () \<longleftrightarrow>
     length base \<le> k \<and> take (length base) p = base \<and> list_all (\<lambda>n. \<not> is_link (take n p)) [length base..<Suc k]"
  if "k \<le> length p" for k p
  using that
proof (induction k)
  case 0
  then show ?case by auto
next
  case (Suc k)
  have step: "map (\<lambda>n. take n p) (rev [0..<Suc (Suc k)]) = take (Suc k) p # map (\<lambda>n. take n p) (rev [0..<Suc k])" by simp
  show ?case
  proof (cases "take (Suc k) p = base")
    case True
    then have len: "length base = Suc k" using Suc.prems by auto
    with True have "take (length base) p = base" by simp
    with True show ?thesis unfolding step by (simp add: len)
  next
    case False
    have "length base \<noteq> Suc k \<or> take (length base) p \<noteq> base" using False by auto
    moreover have "[length base..<Suc (Suc k)] = [length base..<Suc k] @ [Suc k]" if "length base \<le> k"
      using that by simp
    ultimately show ?thesis using False Suc unfolding step by (auto simp del: upt_Suc simp: le_Suc_eq)
  qed
qed

text \<open>
  \<open>_reject_links\<close> decides exactly this: the path lies below the root, and neither the root nor
  any component between them nor the path itself is a symbolic link or junction.
\<close>

theorem reject_links_iff:
  "reject_links is_link path base = Inr () \<longleftrightarrow>
     is_relative_to path base \<and> list_all (\<lambda>n. \<not> is_link (take n path)) [length base..<Suc (length path)]"
proof -
  have "length base \<le> length path" if "take (length base) path = base"
    using that by (metis length_take min.cobounded1 min.commute)
  then show ?thesis
    unfolding reject_links_def self_and_parents_def is_relative_to_def
    using reject_from_prefixes [of "length path" path is_link path base] by auto
qed

section \<open>The lock\<close>

lemma load_lock_Inr:
  assumes "load_lock parsed repo = Inr lock"
  obtains v where "parsed = Inr v" "checked_lock v = Inr lock"
  using assms by (auto simp: load_lock_def catchE_Inr_iff bindE_Inr_iff)

lemma lock_paths_Inr:
  "lock_paths v = Inr (library, required) \<Longrightarrow> list_all (\<lambda>name. \<not> outside_checkout name) (library # required)"
  unfolding lock_paths_def by (elim bindE_InrE) (auto simp: raise_if_Inr_iff list_all_iff)

lemma checked_lock_Inr:
  assumes "checked_lock v = Inr lock"
  shows "repository_url (dl_repository lock)" "is_hex 40 (dl_revision lock)"
    "list_all (\<lambda>name. \<not> outside_checkout name) (dl_library lock # dl_required lock)"
proof -
  from assms obtain paths where p: "lock_paths v = Inr paths"
    and lock: "dl_library lock = fst paths" "dl_required lock = snd paths"
      "repository_url (dl_repository lock)" "is_hex 40 (dl_revision lock)"
    unfolding checked_lock_def by (elim bindE_InrE) (auto simp: raise_if_Inr_iff bindE_Inr_iff split: prod.splits)
  show "repository_url (dl_repository lock)" "is_hex 40 (dl_revision lock)" by (fact lock)+
  show "list_all (\<lambda>name. \<not> outside_checkout name) (dl_library lock # dl_required lock)"
    unfolding lock(1,2) using lock_paths_Inr [of v "fst paths" "snd paths"] p by simp
qed

lemma is_hex_free: "is_hex n s \<Longrightarrow> c \<notin> set ''0123456789abcdef'' \<Longrightarrow> c \<notin> set s"
  unfolding is_hex_def by blast

text \<open>
  A lock that loads names one directory of the cache and only paths inside a checkout: the
  revision is a single path component, and the library and every required path lie strictly below
  whatever directory they are joined to, without a \<open>..\<close> component.
\<close>

theorem load_lock_contained:
  assumes "load_lock parsed repo = Inr lock" and "name \<in> set (dl_library lock # dl_required lock)"
  shows "path_parts (dl_revision lock) = [dl_revision lock] \<and> is_relative_to (directory @ path_parts name) directory
    \<and> length directory < length (directory @ path_parts name) \<and> ''..'' \<notin> set (path_parts name)"
proof -
  obtain v where "checked_lock v = Inr lock" using assms(1) by (rule load_lock_Inr)
  note lock = checked_lock_Inr [OF this]
  have "\<not> outside_checkout name" using lock(3) assms(2) by (auto simp: list_all_iff)
  then have "path_parts name \<noteq> []" "''..'' \<notin> set (path_parts name)" by (auto simp: outside_checkout_def)
  moreover have "CHR ''/'' \<notin> set (dl_revision lock)" using is_hex_free [OF lock(2)] by simp
  moreover have "length (dl_revision lock) = 40" using lock(2) unfolding is_hex_def by blast
  then have "dl_revision lock \<noteq> []" "dl_revision lock \<noteq> ''.''" by auto
  ultimately show ?thesis by (simp add: path_parts_def split_on_free is_relative_to_def)
qed

definition is_dependency_error :: "exn \<Rightarrow> bool" where
  "is_dependency_error e = (case e of DependencyError _ \<Rightarrow> True | _ \<Rightarrow> False)"

lemma raises_item: "(\<And>k. P (KeyError k)) \<Longrightarrow> P TypeError \<Longrightarrow> raises P (j_item v k)" "P TypeError \<Longrightarrow> raises P (j_str v)"
  by (auto simp: raises_def j_item_def j_str_def split: json.splits option.splits)

lemma raises_list: "P e \<Longrightarrow> raises P (as_list e v)"
  by (simp add: raises_def as_list_def split: json.split)

lemma lock_errors_simps [simp]: "lock_errors (KeyError k)" "lock_errors TypeError" "lock_errors (ValueError m)" "lock_errors bad_strings"
  by (simp_all add: lock_errors_def is_value_error_def bad_strings_def)

lemma checked_lock_raises: "raises lock_errors (checked_lock v)"
  unfolding checked_lock_def lock_paths_def case_prod_unfold
  by (intro raises_bind raises_intros raises_item raises_list lock_errors_simps)

text \<open>
  C38. Any JSON value in the lock file is either a lock or a \<open>DependencyError\<close>: no other exception
  escapes \<open>load_lock\<close>, whatever the fields are or are missing.
\<close>

theorem load_lock_errors:
  "case load_lock (Inr v) repo of Inl e \<Rightarrow> is_dependency_error e | Inr lock \<Rightarrow> is_hex 40 (dl_revision lock)"
proof (cases "checked_lock v")
  case (Inl e)
  then show ?thesis using raises_Inl [OF checked_lock_raises Inl] by (simp add: load_lock_def is_dependency_error_def)
next
  case (Inr lock)
  then show ?thesis using checked_lock_Inr(2) [OF Inr] by (simp add: load_lock_def)
qed

section \<open>A verified checkout\<close>

definition authentic :: "hashes \<Rightarrow> checkout_view \<Rightarrow> path \<Rightarrow> string \<Rightarrow> bool" where
  \<comment> \<open>the tree entry is a regular file inside the checkout, reached without a link, with the locked bytes\<close>
  "authentic hs v source_dir line \<longleftrightarrow> (\<exists>e content. parse_entry line = Inr e \<and> te_kind e = ''blob''
     \<and> py_in (te_mode e) [''100644'', ''100755''] \<and> \<not> is_absolute (te_name e) \<and> ''..'' \<notin> set (path_parts (te_name e))
     \<and> reject_links (cv_link v) (source_dir @ path_parts (te_name e)) source_dir = Inr ()
     \<and> cv_read v (source_dir @ path_parts (te_name e)) = Inr content \<and> blob_id hs content = te_object e)"

lemma verify_entry_authentic: "verify_entry hs v d line = Inr x \<Longrightarrow> authentic hs v d line"
  unfolding verify_entry_def read_source_def authentic_def
  by (auto simp: bindE_Inr_iff Let_def catchE_Inr_iff split: if_splits)

lemma verify_identity_Inr:
  assumes "verify_identity v env d lock = Inr actual"
  shows "actual = dl_revision lock" "\<exists>head. run_git (cv_git v) env [''rev-parse'', ''HEAD''] d = Inr head \<and> strip head = dl_revision lock"
    "\<exists>dirty. run_git (cv_git v) env [''status'', ''--porcelain=v1'', ''--untracked-files=all'', ''--ignored''] d = Inr dirty \<and> strip dirty = []"
  using assms unfolding verify_identity_def by (auto simp: bindE_Inr_iff Let_def split: if_splits)

text \<open>
  C12. A checkout that verifies is the locked source: HEAD is the locked revision, Git reports no
  modified or extra file, every entry of the tree is a regular file inside the checkout that no link
  redirects and whose bytes hash to the object the commit names, and every required path exists.
\<close>

theorem verify_checkout_authentic:
  assumes "verify_checkout hs env v d lock = Inr dep"
  shows "dp_revision dep = dl_revision lock \<and> dp_source_dir dep = d
    \<and> (\<exists>head dirty tree. run_git (cv_git v) env [''rev-parse'', ''HEAD''] d = Inr head \<and> strip head = dl_revision lock
      \<and> run_git (cv_git v) env [''status'', ''--porcelain=v1'', ''--untracked-files=all'', ''--ignored''] d = Inr dirty \<and> strip dirty = []
      \<and> run_git (cv_git v) env [''ls-tree'', ''-r'', ''-z'', ''--full-tree'', ''HEAD''] d = Inr tree
      \<and> list_all (\<lambda>line. line = [] \<or> authentic hs v d line) (split_on CHR 0x00 tree))
    \<and> list_all (\<lambda>name. cv_exists v (d @ path_parts name)) (dl_library lock # dl_required lock)"
proof -
  from assms obtain actual tree updates where i: "verify_identity v env d lock = Inr actual"
    and tree: "run_git (cv_git v) env [''ls-tree'', ''-r'', ''-z'', ''--full-tree'', ''HEAD''] d = Inr tree"
    and updates: "mapE (verify_entry hs v d) (filter (\<lambda>line. line \<noteq> []) (split_on CHR 0x00 tree)) = Inr updates"
    and required: "forE (require_path v d) (dl_library lock # dl_required lock) = Inr ()"
    and dep: "dp_revision dep = actual" "dp_source_dir dep = d"
    unfolding verify_checkout_def by (auto simp: bindE_Inr_iff)
  have "list_all (\<lambda>line. line = [] \<or> authentic hs v d line) (split_on CHR 0x00 tree)"
    using mapE_left [OF updates] verify_entry_authentic unfolding list_all_iff by fastforce
  moreover have "list_all (\<lambda>name. cv_exists v (d @ path_parts name)) (dl_library lock # dl_required lock)"
    using required unfolding forE_Inr_iff list_all_iff by (auto simp: require_path_def Let_def pyE)
  ultimately show ?thesis using verify_identity_Inr [OF i] tree dep by auto
qed

section \<open>The cache\<close>

lemma publish_staging_Inr:
  assumes "publish_staging h staging destination lock = (evs, Inr dep)"
  shows "(\<exists>m. verify_at h m destination lock = Inr dep) \<and> evs \<in> {[], [Renamed staging destination]}"
  using assms unfolding publish_staging_def
  by (auto simp: bindA_Inr_iff split: if_splits sum.splits exn.splits)

lemma converted_os_Inr [simp]: "converted_os r = Inr x \<longleftrightarrow> r = Inr x"
  by (auto simp: converted_os_def catchE_Inr_iff)

lemma finally_remove_Inr:
  assumes "finally_remove h staging m = (evs, Inr dep)"
  shows "\<exists>evs1 evs2. m = (evs1, Inr dep) \<and> evs = evs1 @ evs2 \<and> evs2 = (if dh_staging_left h then [StagingRemoved staging] else [])"
  using assms unfolding finally_remove_def remove_staging_def
  by (auto simp: bindA_Inr_iff split: prod.splits if_splits sum.splits)

lemma prepare_fresh_Inr:
  assumes "prepare_fresh h destination lock = (evs, Inr dep)"
  obtains staging m evs1 evs2 where "dh_mkdtemp h = Inr staging" "verify_at h m destination lock = Inr dep"
    "evs = StagingCreated staging # evs1 @ evs2" "evs2 = (if dh_staging_left h then [StagingRemoved staging] else [])"
proof -
  from assms obtain staging evs' where s: "dh_mkdtemp h = Inr staging" "evs = StagingCreated staging # evs'"
    and f: "finally_remove h staging
       (case bindA (fetch_steps h staging lock) (\<lambda>_.
          bindA (pureA (verify_at h AtStaging staging lock)) (\<lambda>_.
          publish_staging h staging destination lock)) of
        (evs, r) \<Rightarrow> (evs, converted_os r)) = (evs', Inr dep)"
    unfolding prepare_fresh_def by (auto simp: bindA_Inr_iff)
  from finally_remove_Inr [OF f] obtain evs1 where b: "bindA (fetch_steps h staging lock) (\<lambda>_.
          bindA (pureA (verify_at h AtStaging staging lock)) (\<lambda>_.
          publish_staging h staging destination lock)) = (evs1, Inr dep)"
    and evs': "evs' = evs1 @ (if dh_staging_left h then [StagingRemoved staging] else [])"
    by (auto split: prod.splits)
  from b obtain evs2 where "publish_staging h staging destination lock = (evs2, Inr dep)"
    by (auto simp: bindA_Inr_iff)
  from publish_staging_Inr [OF this] obtain m where "verify_at h m destination lock = Inr dep" by blast
  with that s evs' show ?thesis by simp
qed

text \<open>
  \<open>prepare_dependency\<close> returns nothing unverified: its result is the metadata of a checkout
  that verified, at some moment of the call, under the directory of the locked revision. When it
  had to fetch, its staging directory is gone, renamed or removed as the last thing it did.
\<close>

theorem prepare_dependency_verified:
  assumes "prepare_dependency h offline = (evs, Inr dep)"
  shows "\<exists>lock m. load_lock (dh_lock h) (dh_root h) = Inr lock
    \<and> verify_checkout (dh_hashes h) (dh_env h) (dh_view h m) (cache_root h @ [dl_revision lock]) lock = Inr dep
    \<and> (evs = [] \<or> \<not> offline \<and> (\<exists>staging. hd evs = StagingCreated staging \<and> dh_mkdtemp h = Inr staging
        \<and> (dh_staging_left h = False \<or> last evs = StagingRemoved staging)))"
proof -
  from assms obtain lock evs' where lock: "load_lock (dh_lock h) (dh_root h) = Inr lock"
    and r: "(if cv_exists (dh_view h AtStart) (cache_root h @ [dl_revision lock])
      then pureA (verify_at h AtStart (cache_root h @ [dl_revision lock]) lock)
     else if offline then
       pureA (Inl (DependencyError (''Pinned Xpact-core is not cached at '' @ as_posix (cache_root h @ [dl_revision lock]) @ ''; run without --offline once'')))
     else prepare_fresh h (cache_root h @ [dl_revision lock]) lock) = (evs, Inr dep)"
    unfolding prepare_dependency_def Let_def by (auto simp: bindA_Inr_iff)
  show ?thesis
  proof (cases "cv_exists (dh_view h AtStart) (cache_root h @ [dl_revision lock]) \<or> offline")
    case True
    with r lock show ?thesis by (auto simp: verify_at_def split: if_splits)
  next
    case False
    with r have "prepare_fresh h (cache_root h @ [dl_revision lock]) lock = (evs, Inr dep)" by simp
    then obtain staging m evs1 evs2 where "dh_mkdtemp h = Inr staging"
      "verify_at h m (cache_root h @ [dl_revision lock]) lock = Inr dep"
      "evs = StagingCreated staging # evs1 @ evs2" "evs2 = (if dh_staging_left h then [StagingRemoved staging] else [])"
      by (rule prepare_fresh_Inr)
    with False lock show ?thesis by (auto simp: verify_at_def)
  qed
qed

definition verified_move :: "dependency_host \<Rightarrow> dependency_event \<Rightarrow> bool" where
  \<comment> \<open>a rename moves a staging directory that verified to the directory of the locked revision\<close>
  "verified_move h ev = (case ev of
       Renamed staging destination \<Rightarrow> (\<exists>lock dep. load_lock (dh_lock h) (dh_root h) = Inr lock
          \<and> verify_at h AtStaging staging lock = Inr dep \<and> destination = cache_root h @ [dl_revision lock])
     | _ \<Rightarrow> True)"

lemma publish_staging_events:
  "list_all P (fst (publish_staging h staging destination lock)) \<longleftrightarrow>
     (fst (publish_staging h staging destination lock) = [] \<or> P (Renamed staging destination))"
  unfolding publish_staging_def by (auto simp: pureA_def emitA_def split: sum.splits exn.splits)

lemma fetch_steps_events: "list_all (verified_move h) (fst (fetch_steps h staging lock))"
  unfolding fetch_steps_def Let_def by (intro list_all_bindA) (simp_all add: verified_move_def)

lemma remove_staging_events: "list_all (verified_move h) (fst (remove_staging h staging))"
  unfolding remove_staging_def by (intro list_all_bindA) (auto simp: verified_move_def intro: list_all_bindA)

lemma prepare_fresh_events:
  assumes "load_lock (dh_lock h) (dh_root h) = Inr lock"
  shows "list_all (verified_move h) (fst (prepare_fresh h (cache_root h @ [dl_revision lock]) lock))"
proof -
  have body: "list_all (verified_move h) (fst (bindA (fetch_steps h staging lock) (\<lambda>_.
          bindA (pureA (verify_at h AtStaging staging lock)) (\<lambda>_.
          publish_staging h staging (cache_root h @ [dl_revision lock]) lock))))" for staging
  proof (intro list_all_bindA fetch_steps_events)
    fix dep assume "snd (pureA (verify_at h AtStaging staging lock)) = Inr dep"
    then have "verified_move h (Renamed staging (cache_root h @ [dl_revision lock]))"
      using assms by (auto simp: verified_move_def)
    then show "list_all (verified_move h) (fst (publish_staging h staging (cache_root h @ [dl_revision lock]) lock))"
      by (simp add: publish_staging_events)
  qed simp
  have removed: "list_all (verified_move h) (fst (finally_remove h staging (case m of (evs, r) \<Rightarrow> (evs, converted_os r))))"
    if "list_all (verified_move h) (fst m)" for staging m
    using that remove_staging_events [of h staging]
    by (cases m) (auto simp: finally_remove_def split: prod.splits sum.splits)
  show ?thesis unfolding prepare_fresh_def
    by (intro list_all_bindA removed body) (simp_all add: verified_move_def)
qed

text \<open>
  C10. Nothing unverified enters the cache, whatever fails on the way: a staging directory is only
  renamed to the directory of the locked revision after it verified against the lock, and offline
  nothing is fetched, created, renamed or removed at all.
\<close>

theorem only_verified_published:
  "if offline then fst (prepare_dependency h offline) = [] else list_all (verified_move h) (fst (prepare_dependency h offline))"
proof (cases offline)
  case True
  have "fst (bindA (pureA m) f) = []" if "\<And>x. fst (f x) = []" for m :: "'b py" and f :: "'b \<Rightarrow> dependency prepare"
    using that by (cases m) (auto simp: pureA_def)
  then show ?thesis unfolding prepare_dependency_def using True by (simp add: Let_def pureA_def bindA_def split: sum.splits prod.splits)
next
  case False
  have "list_all (verified_move h) (fst (prepare_dependency h False))"
    unfolding prepare_dependency_def Let_def
    by (intro list_all_bindA) (use prepare_fresh_events in \<open>auto simp: pureA_def\<close>)
  with False show ?thesis by simp
qed

section \<open>A concrete checkout\<close>

definition sample_lock :: json where
  "sample_lock = JObj [(''schema_version'', JInt 1), (''repository'', JStr ''https://github.com/a/b.git''),
     (''revision'', JStr (replicate 40 CHR ''a'')), (''library'', JStr ''lib/x.ecf''), (''required_paths'', JList [JStr ''lib/x.ecf'']),
     (''dependencies'', JList [])]"

definition sample_checked :: dependency_lock where
  "sample_checked = \<lparr>dl_repository = ''https://github.com/a/b.git'', dl_revision = replicate 40 CHR ''a'',
     dl_library = ''lib/x.ecf'', dl_required = [''lib/x.ecf''], dl_dependencies = []\<rparr>"

lemma sample_lock_loads: "load_lock (Inr sample_lock) [''repo''] = Inr sample_checked"
  by code_simp

definition sample_git :: process where
  "sample_git command env cwd = (let arguments = drop 9 command in
     Completed 0 (if hd arguments = ''rev-parse'' then replicate 40 CHR ''a'' @ [newline]
       else if hd arguments = ''config'' then ''https://github.com/a/b.git'' @ [newline]
       else if hd arguments = ''ls-tree'' then ''100644 blob id1'' @ [tab] @ ''lib/x.ecf'' @ [CHR 0x00] else []) [])"

definition sample_view :: checkout_view where
  "sample_view = \<lparr>cv_link = (\<lambda>_. False), cv_dir = (\<lambda>_. True), cv_exists = (\<lambda>_. True), cv_read = (\<lambda>_. Inr ''x''), cv_git = sample_git\<rparr>"

definition sample_hashes :: hashes where
  "sample_hashes = \<lparr>h_sha1 = (\<lambda>_. ''id1''), h_sha256 = (\<lambda>_. ''d1''), h_sha256_bytes = (\<lambda>_. ''b'')\<rparr>"

definition sample_dependency_host :: dependency_host where
  "sample_dependency_host = \<lparr>dh_lock = Inr sample_lock, dh_root = [''repo''], dh_view = (\<lambda>_. sample_view), dh_env = [],
     dh_hashes = sample_hashes, dh_mkdir = Inr (), dh_mkdtemp = Inr [''tmp''], dh_rename = Inr (), dh_staging_left = False,
     dh_same_parent = (\<lambda>_ _. True), dh_rmtree = Inr ()\<rparr>"

definition sample_destination :: path where
  "sample_destination = [''repo'', ''build'', ''dependencies'', ''xpact-core'', replicate 40 CHR ''a'']"

lemma sample_checkout_ok: "(case verify_checkout sample_hashes [] sample_view sample_destination sample_checked of Inl _ \<Rightarrow> False | Inr _ \<Rightarrow> True)"
  by code_simp

lemma sample_prepared: "(case prepare_dependency sample_dependency_host True of (_, Inl _) \<Rightarrow> False | (_, Inr _) \<Rightarrow> True)"
  by code_simp

theorem load_lock_contained_witness:
  "''..'' \<notin> set (path_parts ''lib/x.ecf'') \<and> is_relative_to ([''d''] @ path_parts ''lib/x.ecf'') [''d'']"
  using load_lock_contained [OF sample_lock_loads, of "''lib/x.ecf''" "[''d'']"] by (simp add: sample_checked_def)

theorem verify_checkout_authentic_witness:
  "\<exists>tree. run_git sample_git [] [''ls-tree'', ''-r'', ''-z'', ''--full-tree'', ''HEAD''] sample_destination = Inr tree
     \<and> list_all (\<lambda>line. line = [] \<or> authentic sample_hashes sample_view sample_destination line) (split_on CHR 0x00 tree)"
proof -
  obtain dep where "verify_checkout sample_hashes [] sample_view sample_destination sample_checked = Inr dep"
    using sample_checkout_ok by (auto split: sum.splits)
  from verify_checkout_authentic [OF this] show ?thesis by (auto simp: sample_view_def)
qed

theorem prepare_dependency_verified_witness:
  "\<exists>dep lock. load_lock (dh_lock sample_dependency_host) (dh_root sample_dependency_host) = Inr lock
     \<and> snd (prepare_dependency sample_dependency_host True) = Inr dep
     \<and> (\<exists>m. verify_checkout sample_hashes [] (dh_view sample_dependency_host m) (cache_root sample_dependency_host @ [dl_revision lock]) lock = Inr dep)"
proof -
  obtain evs dep where p: "prepare_dependency sample_dependency_host True = (evs, Inr dep)"
    using sample_prepared by (auto split: prod.splits sum.splits)
  moreover have "dh_hashes sample_dependency_host = sample_hashes" "dh_env sample_dependency_host = []"
    by (simp_all add: sample_dependency_host_def)
  ultimately show ?thesis using prepare_dependency_verified [OF p] by auto
qed

end
