(* ===== verification/Build_Claims.thy ===== *)
theory Build_Claims
  imports Build_Main Dependency_Claims "HOL-Library.Multiset"
begin

text \<open>
  What the builds guarantee: a fingerprint that depends on nothing but the input files and
  distinguishes them, manifests that the lanes accept, and an exit status that means verified.
\<close>

section \<open>The fingerprint\<close>

lemma rglob_mset: "mset walk = mset walk' \<Longrightarrow> mset (rglob walk d s) = mset (rglob walk' d s)"
  by (simp add: rglob_def mset_filter)

lemma source_paths_mset:
  assumes "mset (sv_walk v) = mset (sv_walk v')" "sv_is_file v = sv_is_file v'"
  shows "mset (source_paths v i p ds) = mset (source_paths v' i p ds)"
proof -
  have "mset (concat (map (\<lambda>d. concat (map (rglob (sv_walk v) d) [''.e'', ''.ecf''])) ds))
      = mset (concat (map (\<lambda>d. concat (map (rglob (sv_walk v') d) [''.e'', ''.ecf''])) ds))"
    by (induction ds) (simp_all add: rglob_mset [OF assms(1)])
  then show ?thesis by (simp add: source_paths_def assms(2) rglob_mset [OF assms(1)])
qed

text \<open>
  The fingerprint is a function of the files alone: the order in which the file system lists the
  directories does not change it, and neither does anything outside the selected paths.
\<close>

theorem fingerprint_order_independent:
  assumes "mset (sv_walk v) = mset (sv_walk v')" and "sv_is_file v = sv_is_file v'" and "sv_sha v = sv_sha v'"
  shows "source_fingerprint sha256 v implementation profile = source_fingerprint sha256 v' implementation profile"
proof -
  have "sort (source_paths v implementation profile ds) = sort (source_paths v' implementation profile ds)" for ds
    by (metis source_paths_mset [OF assms(1,2)] mset_sort properties_for_sort sorted_sort)
  then show ?thesis by (simp add: source_fingerprint_def fingerprint_entries_def assms(3))
qed

lemma unhex_length: "even (length s) \<Longrightarrow> length (unhex s) = length s div 2"
  by (induction s rule: unhex.induct) auto

definition hex_char :: "char \<Rightarrow> bool" where
  "hex_char c = (c \<in> set ''0123456789abcdef'')"

lemma is_hex_chars: "is_hex n s \<longleftrightarrow> length s = n \<and> list_all hex_char s"
  unfolding is_hex_def hex_char_def list_all_iff ..

lemma hex_value_char: "hex_char c \<Longrightarrow> hex_value c < 16 \<and> c = ''0123456789abcdef'' ! hex_value c"
  by (auto simp: hex_value_def hex_char_def)

lemma hex_value_inj: "hex_char c \<Longrightarrow> hex_char d \<Longrightarrow> hex_value c = hex_value d \<Longrightarrow> c = d"
  using hex_value_char by metis

lemma unhex_inj:
  "even (length s) \<Longrightarrow> length s = length t \<Longrightarrow> list_all hex_char s \<Longrightarrow> list_all hex_char t \<Longrightarrow> unhex s = unhex t \<Longrightarrow> s = t"
proof (induction s arbitrary: t rule: unhex.induct)
  case (1 a b s)
  then obtain a' b' t' where t: "t = a' # b' # t'"
    by (cases t; cases "tl t") auto
  have h: "hex_char a" "hex_char b" "hex_char a'" "hex_char b'" using 1(4,5) by (simp_all add: t)
  note bound = h [THEN hex_value_char, THEN conjunct1]
  have small: "16 * x + y < 256" if "x < 16" "y < 16" for x y :: nat using that by linarith
  have "(of_char (char_of (16 * hex_value a + hex_value b) :: char) :: nat) = of_char (char_of (16 * hex_value a' + hex_value b') :: char)"
    using 1(6) unfolding t by simp
  then have same: "16 * hex_value a + hex_value b = 16 * hex_value a' + hex_value b'"
    using small [OF bound(1,2)] small [OF bound(3,4)] by (simp del: mult_Suc)
  have "(16 * x + y) div 16 = x" "(16 * x + y) mod 16 = y" if "y < 16" for x y :: nat using that by simp_all
  with same bound have "hex_value a = hex_value a'" "hex_value b = hex_value b'" by metis+
  then have "a = a'" "b = b'" using h hex_value_inj by blast+
  moreover have "s = t'" using 1(1) [of t'] 1(2-6) unfolding t by simp
  ultimately show ?case by (simp add: t)
qed simp_all

definition clean_entry :: "path \<times> string \<Rightarrow> bool" where
  \<comment> \<open>a path as the file system allows it and the hexadecimal digest of a file\<close>
  "clean_entry = (\<lambda>(path, digest). path \<noteq> [] \<and> (\<forall>c \<in> set path. CHR ''/'' \<notin> set c \<and> CHR 0x00 \<notin> set c) \<and> is_hex 64 digest)"

lemma join_free: "\<forall>c \<in> set path. x \<notin> set c \<Longrightarrow> x \<noteq> y \<Longrightarrow> x \<notin> set (join [y] path)"
  by (induction "[y]" path rule: join.induct) auto

lemma update_prefix:
  assumes "clean_entry a" "clean_entry b" "fingerprint_update a @ s = fingerprint_update b @ t"
  shows "a = b \<and> s = t"
proof -
  obtain p d q e where ab: "a = (p, d)" "b = (q, e)" by (cases a; cases b) auto
  have free: "CHR 0x00 \<notin> set (as_posix p)" "CHR 0x00 \<notin> set (as_posix q)"
    unfolding as_posix_def by (rule join_free; use assms(1,2) in \<open>auto simp: ab clean_entry_def\<close>)+
  have eq: "as_posix p @ CHR 0x00 # (unhex d @ s) = as_posix q @ CHR 0x00 # (unhex e @ t)"
    using assms(3) by (simp add: ab fingerprint_update_def)
  have take: "takeWhile (\<lambda>c. c \<noteq> CHR 0x00) (w @ CHR 0x00 # r) = w" "dropWhile (\<lambda>c. c \<noteq> CHR 0x00) (w @ CHR 0x00 # r) = CHR 0x00 # r"
    if "CHR 0x00 \<notin> set w" for w r :: string
    using that by (induction w) auto
  from arg_cong [OF eq, of "takeWhile (\<lambda>c. c \<noteq> CHR 0x00)"] take(1) free have names: "as_posix p = as_posix q" by simp
  with eq have rest: "unhex d @ s = unhex e @ t" by simp
  have hex: "is_hex 64 d" "is_hex 64 e" using assms(1,2) by (simp_all add: ab clean_entry_def)
  then have len: "length d = 64" "length e = 64" unfolding is_hex_def by blast+
  then have "length (unhex d) = length (unhex e)" by (simp add: unhex_length)
  with rest have "unhex d = unhex e" "s = t" by simp_all
  moreover have "d = e"
    by (rule unhex_inj [OF _ _ _ _ \<open>unhex d = unhex e\<close>]) (use hex len in \<open>auto simp: is_hex_chars\<close>)
  moreover have "p = q"
  proof -
    have "split_on CHR ''/'' (as_posix r) = r" if "clean_entry (r, x)" for r x
      unfolding as_posix_def by (rule split_on_join) (use that in \<open>auto simp: clean_entry_def\<close>)
    then show ?thesis using names assms(1,2) unfolding ab by metis
  qed
  ultimately show ?thesis by (simp add: ab)
qed

lemma update_not_Nil [simp]: "fingerprint_update a \<noteq> []"
  by (cases a) (simp add: fingerprint_update_def)

text \<open>
  Different inputs are different inputs of the hash: what \<open>source_fingerprint\<close> feeds to SHA-256
  determines the list of paths and file digests, so two sets of files with one fingerprint are a
  collision of the hash. No file can move bytes into its neighbour's name or digest.
\<close>

theorem fingerprint_injective:
  assumes "list_all clean_entry entries" "list_all clean_entry entries'"
    and "concat (map fingerprint_update entries) = concat (map fingerprint_update entries')"
  shows "entries = entries'"
  using assms
proof (induction entries arbitrary: entries')
  case Nil
  then show ?case by (cases entries') auto
next
  case (Cons a as)
  then obtain b bs where e: "entries' = b # bs" by (cases entries') auto
  have "a = b \<and> concat (map fingerprint_update as) = concat (map fingerprint_update bs)"
    by (rule update_prefix) (use Cons.prems in \<open>simp_all add: e\<close>)
  with Cons.IH [of bs] Cons.prems show ?case by (simp add: e)
qed

section \<open>One build\<close>

lemma collect_build_Inr:
  assumes "collect_build h root' i t env offline profile assertions = Inr f"
  obtains env' where "map_of GC_POLICIES i \<noteq> None"
    "build_fingerprint h BeforeBuild i profile = Inr (bf_fingerprint f)"
    "identity_source i (source_revision (bf_source f)) (configuration_name assertions) \<in> range Inr"
    "confirm_identity h env' profile (bf_executable f) i (source_revision (bf_source f)) (configuration_name assertions) = Inr (bf_output f)"
    "inputs_unchanged h i profile (bf_fingerprint f) (bf_source f) = Inr ()"
    "bd_file_sha h (bf_executable f) = Inr (bf_sha f)"
proof -
  from assms obtain s fp env' out exe where parts:
    "map_of GC_POLICIES i \<noteq> None" "build_fingerprint h BeforeBuild i profile = Inr fp"
    "write_identity h (root' @ [i] @ [''metadata'']) i (source_revision s) (configuration_name assertions) = Inr ()"
    "confirm_identity h env' profile exe i (source_revision s) (configuration_name assertions) = Inr out"
    "inputs_unchanged h i profile fp s = Inr ()" "bd_file_sha h exe = Inr (bf_sha f)"
    "bf_source f = s" "bf_fingerprint f = fp" "bf_executable f = exe" "bf_output f = out"
    unfolding collect_build_def Let_def
    by (elim bindE_InrE) (auto simp: bindE_Inr_iff raise_if_Inr_iff split: prod.splits)
  moreover have "identity_source i (source_revision s) (configuration_name assertions) \<in> range Inr"
    using parts(3) unfolding write_identity_def by (auto simp: bindE_Inr_iff)
  ultimately show ?thesis using that by simp
qed

lemma build_one_Inr:
  assumes "build_one h root' i t env cm offline profile assertions = (evs, Inr md)"
  obtains f where "collect_build h root' i t env offline profile assertions = Inr f"
    "md = build_metadata i profile assertions cm f" "evs = [Report (as_posix (root' @ [i, ''build.json'']))]"
  using assms by (auto simp: build_one_def bindA_Inr_iff write_Inr)

lemma build_metadata_matches:
  assumes "map_of GC_POLICIES i = Some policy" "profile \<noteq> ''probe''"
  shows "build_mismatch profile (build_metadata i profile assertions cm f) i assertions = Inr False"
  using assms by (simp add: build_mismatch_def build_metadata_def anyE.simps get_ne_def get_is_not_def dict_simps py_item_def)

lemma build_metadata_artifact:
  assumes "sha (as_posix (bf_executable f)) = Inr (bf_sha f)"
  shows "verify_artifact message sha (build_metadata i profile assertions cm f) = Inr ()"
  using assms by (simp add: verify_artifact_def build_metadata_def dict_simps j_str_def item_ne_def)

text \<open>
  C39. What \<open>build_one\<close> publishes is what the lanes ask for: the manifest of every build that
  succeeded passes the build gate of the catalog lane and of the W3C lane for the same
  implementation and assertion setting, as long as the executable still has the bytes it had when
  the manifest was written.
\<close>

theorem build_one_gated:
  assumes "build_one h run_root implementation t environment compiler offline profile assertions = (evs, Inr artifact)"
    and "\<And>executable digest. bd_file_sha h executable = Inr digest \<Longrightarrow> sha (as_posix executable) = Inr digest"
  shows "(if profile = ''catalog'' then catalog_validate_build sha artifact implementation assertions
          else if profile = ''w3c'' then w3c_validate_build sha artifact implementation assertions else Inr ()) = Inr ()"
proof -
  from assms(1) obtain f where f: "collect_build h run_root implementation t environment offline profile assertions = Inr f"
    "artifact = build_metadata implementation profile assertions compiler f" by (rule build_one_Inr)
  from f(1) obtain env where "map_of GC_POLICIES implementation \<noteq> None" "bd_file_sha h (bf_executable f) = Inr (bf_sha f)"
    by (rule collect_build_Inr)
  then obtain policy where "map_of GC_POLICIES implementation = Some policy" "sha (as_posix (bf_executable f)) = Inr (bf_sha f)"
    using assms(2) by blast
  then show ?thesis
    by (simp add: f(2) catalog_validate_build_def w3c_validate_build_def build_metadata_matches
      catalog_verify_artifact_def w3c_verify_artifact_def build_metadata_artifact)
qed


section \<open>The generated class\<close>

lemma identity_char_free: "identity_char c \<Longrightarrow> c \<noteq> newline \<and> c \<noteq> CHR 0x22"
  by (auto simp: identity_char_def)

lemma identity_value_free: "identity_value v \<Longrightarrow> newline \<notin> set v"
  using identity_char_free by (auto simp: identity_value_def list_all_iff)

text \<open>
  No value can escape from the generated Eiffel class: read back line by line, the source has
  exactly its two head lines, the three string constants and the end, and the three values contain
  neither a quote nor a line break.
\<close>

theorem identity_source_lines:
  assumes "identity_source implementation revision configuration = Inr source_text"
  shows "split_on newline source_text =
      [''class XP_BUILD_IDENTITY'', ''feature -- Build identity'', identity_feature (''implementation_id'', implementation),
       identity_feature (''source_revision'', revision), identity_feature (''build_configuration'', configuration), ''end'', []]
    \<and> CHR 0x22 \<notin> set (implementation @ revision @ configuration) \<and> newline \<notin> set (implementation @ revision @ configuration)"
proof -
  have v: "identity_value implementation" "identity_value revision" "identity_value configuration"
    and lines_eq: "source_text = join [newline] ([''class XP_BUILD_IDENTITY'', ''feature -- Build identity'',
      identity_feature (''implementation_id'', implementation), identity_feature (''source_revision'', revision),
      identity_feature (''build_configuration'', configuration), ''end'', []])"
    using assms by (auto simp: identity_source_def split: if_splits)
  note nl = v [THEN identity_value_free]
  have quotes: "CHR 0x22 \<notin> set x" if "identity_value x" for x
    using that identity_char_free by (auto simp: identity_value_def list_all_iff)
  have "split_on newline source_text =
      [''class XP_BUILD_IDENTITY'', ''feature -- Build identity'', identity_feature (''implementation_id'', implementation),
       identity_feature (''source_revision'', revision), identity_feature (''build_configuration'', configuration), ''end'', []]"
    unfolding lines_eq by (rule split_on_join) (use nl in \<open>auto simp: identity_feature_def\<close>)
  then show ?thesis using nl v [THEN quotes] by simp
qed

section \<open>The exit status\<close>

lemma build_attempt_Inr:
  assumes "build_attempt build i = (evs, Inr row)" "rw_status row = ''verified''"
  shows "\<exists>md. build i = (evs, Inr md)"
  using assms by (auto simp: build_attempt_def split: prod.splits sum.splits if_splits)

lemma build_each_verified:
  assumes "\<And>i evs md. build i = (evs, Inr md) \<Longrightarrow> evs = [Report (manifest i)]"
  shows "build_each build is = (evs, Inr rows) \<Longrightarrow> list_all (\<lambda>row. rw_status row = ''verified'') rows
    \<Longrightarrow> evs = map (\<lambda>i. Report (manifest i)) is \<and> list_all (\<lambda>i. \<exists>md. build i = ([Report (manifest i)], Inr md)) is"
proof (induction "is" arbitrary: evs rows)
  case (Cons i "is")
  from Cons.prems(1) obtain evs1 row evs2 rest where a: "build_attempt build i = (evs1, Inr row)"
    and b: "build_each build is = (evs2, Inr rest)" and e: "evs = evs1 @ evs2" "rows = row # rest"
    by (auto simp: bindA_Inr_iff)
  from build_attempt_Inr [OF a] Cons.prems(2) obtain md where "build i = (evs1, Inr md)" by (auto simp: e)
  with assms [OF this] Cons.IH [OF b] Cons.prems(2) show ?case by (auto simp: e)
qed simp

lemma reports_map: "reports (RunJson a # map (\<lambda>i. Report (f i)) is @ [RunJson b]) = map f is"
proof -
  have "fold report_step (map (\<lambda>i. Report (f i)) is) fs = fs @ map f is" for fs
    by (induction "is" arbitrary: fs) simp_all
  then show ?thesis by (simp add: reports_def)
qed

text \<open>
  Exit status 0 means verified: \<open>run.json\<close> says so, every selected implementation was built
  without an error in the order of the selection, and the manifests on disk are exactly theirs.
\<close>

theorem build_main_zero:
  assumes "build_main r a = (evs, Inr 0)"
  shows "run_status evs = Some ''verified''
    \<and> reports evs = map (\<lambda>i. as_posix (bn_run_root r @ [i, ''build.json''])) (selected_builds a)
    \<and> list_all (\<lambda>i. \<exists>t env compiler evs' artifact. toolchain (bn_tools r) = Inr (t, env, compiler)
        \<and> build_one (bn_host r) (bn_run_root r) i t env compiler (ba_offline a) (ba_profile a) (ba_assertions a = ''on'') = (evs', Inr artifact))
      (selected_builds a)"
proof -
  let ?m = "\<lambda>i. as_posix (bn_run_root r @ [i, ''build.json''])"
  obtain evs1 results where run: "run_builds r a = (evs1, results)" by (cases "run_builds r a")
  from assms run obtain status evs2 where status: "builds_status results = Inr status"
    and p: "publish_status (bn_run_json r) status = (evs2, Inr 0)" and evs: "evs = evs1 @ evs2"
    by (auto simp: build_main_def bindA_Inr_iff pureA_def)
  from p have w: "bn_run_json r status = Inr () \<and> evs2 = [RunJson status] \<and> status = ''verified''"
    unfolding publish_status_def
    by (auto split: prod.splits sum.splits exn.splits if_splits dest: write_run_cases)
  then obtain rows where rows: "results = Inr rows" "list_all (\<lambda>row. rw_status row = ''verified'') rows"
    using status by (auto simp: builds_status_def split: sum.splits if_splits)
  from run rows(1) obtain t env compiler evs3 where tc: "toolchain (bn_tools r) = Inr (t, env, compiler)"
    and each: "build_each (\<lambda>i. build_one (bn_host r) (bn_run_root r) i t env compiler (ba_offline a) (ba_profile a)
       (ba_assertions a = ''on'')) (selected_builds a) = (evs3, Inr rows)" and evs1: "evs1 = RunJson ''running'' # evs3"
    by (auto simp: run_builds_def bindA_Inr_iff write_Inr)
  have one: "build_one (bn_host r) (bn_run_root r) i t env compiler (ba_offline a) (ba_profile a) (ba_assertions a = ''on'') = (evs, Inr md)
      \<Longrightarrow> evs = [Report (?m i)]" for i evs md by (erule build_one_Inr)
  have built: "evs3 = map (\<lambda>i. Report (?m i)) (selected_builds a)
    \<and> list_all (\<lambda>i. \<exists>md. build_one (bn_host r) (bn_run_root r) i t env compiler (ba_offline a) (ba_profile a)
       (ba_assertions a = ''on'') = ([Report (?m i)], Inr md)) (selected_builds a)"
    by (rule build_each_verified [OF _ each rows(2)]) (rule one)
  have "evs = (RunJson ''running'' # map (\<lambda>i. Report (?m i)) (selected_builds a)) @ [RunJson ''verified'']"
    using evs evs1 w built by simp
  then have "run_status evs = Some ''verified''" "reports evs = map ?m (selected_builds a)"
    by (simp_all only: run_status_snoc) (simp_all add: reports_map)
  moreover have "list_all (\<lambda>i. \<exists>t env compiler evs' artifact. toolchain (bn_tools r) = Inr (t, env, compiler)
        \<and> build_one (bn_host r) (bn_run_root r) i t env compiler (ba_offline a) (ba_profile a) (ba_assertions a = ''on'') = (evs', Inr artifact))
      (selected_builds a)"
    using built tc by (auto simp: list_all_iff)
  ultimately show ?thesis by blast
qed

section \<open>A concrete build\<close>

definition sample_view_of :: "path list \<Rightarrow> source_view" where
  "sample_view_of walk = \<lparr>sv_walk = walk, sv_is_file = (\<lambda>_. True), sv_sha = (\<lambda>_. Inr (replicate 64 CHR ''a''))\<rparr>"

definition sample_walk :: "path list" where
  "sample_walk = [[''src'', ''a.e''], [''src'', ''b.e''], [''benchmarks'', ''dual_w3c'', ''xpact'', ''c.ecf''], [''README.md'']]"

definition sample_compiler :: "environment \<Rightarrow> string list \<Rightarrow> outcome" where
  "sample_compiler env command = Completed 0
     (if last command = ''--identity'' then join [tab] [''XPACT_W3C_IDENTITY'', ''xpact'', ''r1'', configuration_name False, ''normal''] @ [newline]
      else ''ok'') []"

definition sample_build_host :: build_host where
  "sample_build_host = \<lparr>bd_root = [''repo''], bd_view = (\<lambda>_. sample_view_of sample_walk), bd_sha256 = (\<lambda>_. ''f1''),
     bd_process = (\<lambda>_ command _ _. Completed 0 (if last command = ''HEAD'' then ''r1'' @ [newline] else []) []), bd_os_env = [],
     bd_dependency = (\<lambda>_. sample_dependency_host), bd_mkdir = (\<lambda>_. Inr ()), bd_write = (\<lambda>_ _. Inr ()), bd_log = (\<lambda>_ _. Inr ()),
     bd_run = sample_compiler, bd_is_file = (\<lambda>_. True), bd_makefile = (\<lambda>_. Inr (''CC = cl'' @ [newline])),
     bd_file_sha = (\<lambda>_. Inr ''d1''), bd_manifest = Inr ()\<rparr>"

definition sample_tools :: tools where
  "sample_tools = \<lparr>t_ec = ''ec'', t_finish = ''finish_freezing'', t_cl = ''cl''\<rparr>"

definition sample_environment :: environment where
  "sample_environment = [(''VSCMD_ARG_TGT_ARCH'', ''x64''), (''ISE_EIFFEL'', ''ise'')]"

lemma sample_built_check:
  "(case build_one sample_build_host [''run''] ''xpact'' sample_tools sample_environment JNull False ''w3c'' False of (_, Inr _) \<Rightarrow> True | _ \<Rightarrow> False)"
  by code_simp

lemma sample_built: obtains evs artifact where
  "build_one sample_build_host [''run''] ''xpact'' sample_tools sample_environment JNull False ''w3c'' False = (evs, Inr artifact)"
  using sample_built_check by (auto split: prod.splits sum.splits)

definition sample_tool_host :: tool_host where
  "sample_tool_host = \<lparr>th_platform = ''win32'', th_platform_text = ''Windows'', th_environ = sample_environment,
     th_which = Some, th_installation = (\<lambda>_. Inr ''ise''), th_is_file = (\<lambda>_. True), th_sha = (\<lambda>_. Inr ''d1''), th_run = (\<lambda>_ _. Completed 0 ''v'' [])\<rparr>"

definition sample_build_run :: build_run where
  "sample_build_run = \<lparr>bn_mkdir = Inr (), bn_run_json = (\<lambda>_. Inr ()), bn_run_root = [''run''], bn_tools = sample_tool_host, bn_host = sample_build_host\<rparr>"

definition sample_build_args :: build_args where
  "sample_build_args = \<lparr>ba_implementation = ''xpact'', ba_offline = False, ba_profile = ''w3c'', ba_assertions = ''off''\<rparr>"

lemma sample_main_check: "(case build_main sample_build_run sample_build_args of (_, Inr n) \<Rightarrow> n = 0 | _ \<Rightarrow> False)"
  by code_simp

theorem fingerprint_order_independent_witness:
  "source_fingerprint (\<lambda>b. b) (sample_view_of sample_walk) ''xpact'' ''w3c'' = source_fingerprint (\<lambda>b. b) (sample_view_of (rev sample_walk)) ''xpact'' ''w3c''"
  by (rule fingerprint_order_independent) (simp_all add: sample_view_of_def)

theorem fingerprint_injective_witness:
  "map (\<lambda>e. (e, replicate 64 CHR ''a'')) [[''src'', ''a.e'']] = [([''src'', ''a.e''], replicate 64 CHR ''a'')]"
  by (rule fingerprint_injective) (simp_all add: clean_entry_def is_hex_def)

theorem build_one_gated_witness:
  "\<exists>artifact. snd (build_one sample_build_host [''run''] ''xpact'' sample_tools sample_environment JNull False ''w3c'' False) = Inr artifact
     \<and> w3c_validate_build (\<lambda>_. Inr ''d1'') artifact ''xpact'' False = Inr ()"
proof -
  obtain evs artifact where b: "build_one sample_build_host [''run''] ''xpact'' sample_tools sample_environment JNull False ''w3c'' False = (evs, Inr artifact)"
    by (rule sample_built)
  from build_one_gated [OF b, of "\<lambda>_. Inr ''d1''"] show ?thesis
    by (simp add: b) (simp add: sample_build_host_def)
qed


theorem identity_source_lines_witness:
  "\<exists>source_text. identity_source ''xpact'' ''r1'' ''c'' = Inr source_text \<and> length (split_on newline source_text) = 7"
proof -
  have "case identity_source ''xpact'' ''r1'' ''c'' of Inl _ \<Rightarrow> False | Inr _ \<Rightarrow> True" by code_simp
  then obtain source_text where "identity_source ''xpact'' ''r1'' ''c'' = Inr source_text" by (auto split: sum.splits)
  with identity_source_lines [OF this] show ?thesis by simp
qed

theorem build_main_zero_witness:
  "\<exists>evs. build_main sample_build_run sample_build_args = (evs, Inr 0) \<and> run_status evs = Some ''verified''
     \<and> reports evs = [as_posix [''run'', ''xpact'', ''build.json'']]"
proof -
  obtain evs where m: "build_main sample_build_run sample_build_args = (evs, Inr 0)"
    using sample_main_check by (auto split: prod.splits sum.splits)
  have "bn_run_root sample_build_run = [''run'']" "selected_builds sample_build_args = [''xpact'']"
    by (simp_all add: sample_build_run_def sample_build_args_def selected_builds_def)
  with build_main_zero [OF m] m show ?thesis by simp
qed

end
