(* ===== verification/Paired_Bench.thy ===== *)
theory Paired_Bench
  imports W3C_Run Py_Value Py_Number
begin

text \<open>
  The paired benchmark, \<open>scripts/compare_eiffel_benchmarks.py\<close>: the arguments, the workloads, one
  timed process (\<open>run_sample\<close>), the calibration of the iteration count, warm-ups and measured pairs
  in alternating AB/BA order, and the publication of the two reports. The run leaves a trace of the
  processes it starts and the files it writes. Calibration has no bound of its own, so it is a
  \<open>partial_function\<close>; times are the rationals their floats denote.
\<close>

section \<open>Arguments\<close>

definition MAX_ITERATIONS :: int where
  "MAX_ITERATIONS = 2147483647"

definition REPORT_NAMES :: "string list" where
  "REPORT_NAMES = [''comparison.json'', ''comparison.tsv'']"

record workload =
  wl_name :: string
  wl_path :: "path option"
  wl_document_bytes :: int
  wl_iterations :: int

definition positive_int :: "string \<Rightarrow> int py" where
  \<comment> \<open>\<open>ArgumentTypeError\<close> and \<open>ValueError\<close> are the same to \<open>argparse\<close>\<close>
  "positive_int value =
     bindE (py_int value) (\<lambda>number.
     bindE (raise_if (\<not> (1 \<le> number \<and> number \<le> MAX_ITERATIONS)) (ValueError ''must be between 1 and 2147483647'')) (\<lambda>_.
     Inr number))"

definition nonnegative_float :: "string \<Rightarrow> rat py" where
  "nonnegative_float value =
     bindE (py_float value) (\<lambda>number. case number of
       Fin q \<Rightarrow> if q < 0 then Inl (ValueError ''must be finite and nonnegative'') else Inr q
     | _ \<Rightarrow> Inl (ValueError ''must be finite and nonnegative''))"

text \<open>The option values as \<open>argparse\<close> finds them on the command line; \<open>None\<close> is an absent option.\<close>

record bench_options =
  op_baseline :: "string option"
  op_candidate :: "string option"
  op_output_dir :: "string option"
  op_workload :: "string list"
  op_xml_file :: "string list"
  op_iterations :: "string option"
  op_file_iterations :: "string option"
  op_xml_iterations :: "string option"
  op_pairs :: "string option"
  op_warmups :: "string option"
  op_min_sample_seconds :: "string option"
  op_timeout_seconds :: "string option"

record bench_args =
  ag_baseline :: path
  ag_candidate :: path
  ag_output_dir :: path
  ag_workload :: "string list"
  ag_xml_file :: "path list"
  ag_iterations :: int
  ag_file_iterations :: int
  ag_xml_iterations :: int
  ag_pairs :: int
  ag_warmups :: int
  ag_min_sample_seconds :: rat
  ag_timeout_seconds :: "int option"

record bench_host =
  ph_path :: "string \<Rightarrow> path" \<comment> \<open>\<open>Path(s).expanduser().resolve()\<close>\<close>
  ph_resolve :: "path \<Rightarrow> path"
  ph_str :: "path \<Rightarrow> string"
  ph_default_output :: path
  ph_samefile :: "path \<Rightarrow> path \<Rightarrow> bool py"
  ph_mkdir :: "path \<Rightarrow> unit py"
  ph_write :: "path \<Rightarrow> string \<Rightarrow> unit py"
  ph_size :: "path \<Rightarrow> int py"
  ph_sha :: "path \<Rightarrow> string py"
  ph_stage :: "string \<Rightarrow> unit py" \<comment> \<open>a temporary file with the content of a report\<close>
  ph_replace :: "string \<Rightarrow> unit py" \<comment> \<open>the temporary file replaces the report\<close>
  ph_process :: "string \<Rightarrow> int \<Rightarrow> string list \<Rightarrow> outcome" \<comment> \<open>the process of a phase and iteration count\<close>
  ph_elapsed :: "string \<Rightarrow> int \<Rightarrow> rat"
  ph_json :: "string list \<Rightarrow> string" \<comment> \<open>\<open>json.dumps\<close> of a command\<close>

definition converted_option :: "(string \<Rightarrow> 'a py) \<Rightarrow> 'a \<Rightarrow> string option \<Rightarrow> 'a py" where
  "converted_option convert default_value given = (case given of
      None \<Rightarrow> Inr default_value
    | Some s \<Rightarrow> (case convert s of Inl e \<Rightarrow> Inl SystemExit | Inr x \<Rightarrow> Inr x))"

definition required_option :: "string option \<Rightarrow> string py" where
  "required_option given = (case given of None \<Rightarrow> Inl SystemExit | Some s \<Rightarrow> Inr s)"

definition optional_int :: "string option \<Rightarrow> int option py" where
  "optional_int = converted_option (\<lambda>s. bindE (positive_int s) (\<lambda>n. Inr (Some n))) None"

definition WORKLOADS :: "string list" where
  "WORKLOADS = [''catalog'', ''text'', ''attributes'', ''files'']"

definition output_option :: "bench_host \<Rightarrow> string option \<Rightarrow> path" where
  "output_option h given = (case given of None \<Rightarrow> ph_resolve h (ph_default_output h) | Some s \<Rightarrow> ph_path h s)"

definition paired_parse_args :: "bench_host \<Rightarrow> bench_options \<Rightarrow> bench_args py" where
  "paired_parse_args h o' =
     bindE (required_option (op_baseline o')) (\<lambda>baseline.
     bindE (required_option (op_candidate o')) (\<lambda>candidate.
     bindE (raise_if (\<not> list_all (\<lambda>w. py_in w WORKLOADS) (op_workload o')) SystemExit) (\<lambda>_.
     bindE (converted_option positive_int 10000 (op_iterations o')) (\<lambda>iterations.
     bindE (converted_option positive_int 1000 (op_file_iterations o')) (\<lambda>file_iterations.
     bindE (converted_option positive_int 32 (op_xml_iterations o')) (\<lambda>xml_iterations.
     bindE (converted_option positive_int 6 (op_pairs o')) (\<lambda>pairs.
     bindE (converted_option positive_int 2 (op_warmups o')) (\<lambda>warmups.
     bindE (converted_option nonnegative_float 1 (op_min_sample_seconds o')) (\<lambda>min_sample_seconds.
     bindE (optional_int (op_timeout_seconds o')) (\<lambda>timeout_seconds.
     Inr \<lparr>ag_baseline = ph_path h baseline, ag_candidate = ph_path h candidate,
          ag_output_dir = output_option h (op_output_dir o'),
          ag_workload = op_workload o', ag_xml_file = map (ph_path h) (op_xml_file o'), ag_iterations = iterations,
          ag_file_iterations = file_iterations, ag_xml_iterations = xml_iterations, ag_pairs = pairs,
          ag_warmups = warmups, ag_min_sample_seconds = min_sample_seconds,
          ag_timeout_seconds = timeout_seconds\<rparr>))))))))))"

section \<open>Input and output files stay apart\<close>

definition reserved_outputs :: "bench_host \<Rightarrow> bench_args \<Rightarrow> path list" where
  "reserved_outputs h a = (let output = ph_resolve h (ag_output_dir a) in
     map (ph_resolve h) (map (\<lambda>name. output @ [name]) REPORT_NAMES
       @ map (\<lambda>name. output @ [''fixtures'', name]) [''text.xml'', ''attributes.xml'']))"

definition benchmark_inputs :: "bench_args \<Rightarrow> (string \<times> path) list" where
  "benchmark_inputs a = [(''baseline'', ag_baseline a), (''candidate'', ag_candidate a)]
     @ map (\<lambda>p. (''XML input'', p)) (ag_xml_file a)"

definition collides :: "bench_host \<Rightarrow> path \<Rightarrow> path \<Rightarrow> bool py" where
  \<comment> \<open>equal paths, or the same file; an \<open>OSError\<close> of \<open>samefile\<close> counts as distinct\<close>
  "collides h source destination =
     (if source = destination then Inr True
      else case ph_samefile h source destination of Inl (OSError _) \<Rightarrow> Inr False | r \<Rightarrow> r)"

definition check_alias :: "bench_host \<Rightarrow> string \<Rightarrow> path \<Rightarrow> path \<Rightarrow> unit py" where
  "check_alias h role source destination =
     bindE (collides h source destination) (\<lambda>collision.
     raise_if collision (BenchmarkError (''The '' @ role @ '' '' @ ph_str h source @ '' aliases a reserved generated output ''
       @ ph_str h destination @ ''. Choose a separate input or output directory.'')))"

definition preflight_inputs :: "bench_host \<Rightarrow> bench_args \<Rightarrow> unit py" where
  "preflight_inputs h a =
     forE (\<lambda>(role, source). forE (check_alias h role (ph_resolve h source)) (reserved_outputs h a)) (benchmark_inputs a)"

section \<open>The trace of a run\<close>

record calibration_row =
  cr_workload :: string
  cr_iterations :: int
  cr_baseline_ms :: rat
  cr_candidate_ms :: rat

record comparison_pair =
  cp_workload :: string
  cp_pair :: int
  cp_order :: string
  cp_iterations :: int
  cp_document_bytes :: int
  cp_baseline_ms :: rat
  cp_candidate_ms :: rat
  cp_baseline_rate :: rat
  cp_candidate_rate :: rat
  cp_ratio :: rat

record workload_summary =
  ws_workload :: string
  ws_pairs :: nat
  ws_iterations :: int
  ws_document_bytes :: int
  ws_median_ratio :: rat
  ws_min_ratio :: rat
  ws_max_ratio :: rat
  ws_median_baseline_ms :: rat
  ws_median_candidate_ms :: rat
  ws_min_baseline_ms :: rat
  ws_max_baseline_ms :: rat
  ws_min_candidate_ms :: rat
  ws_max_candidate_ms :: rat

record workload_metadata =
  wm_name :: string
  wm_path :: "string option"
  wm_document_bytes :: int
  wm_initial_iterations :: int
  wm_sha256 :: "string option"

record bench_report =
  rp_executables :: "(string \<times> string \<times> string) list" \<comment> \<open>role, path and SHA-256\<close>
  rp_warmups :: int
  rp_pairs :: int
  rp_min_sample_seconds :: rat
  rp_workloads :: "workload_metadata list"
  rp_calibration :: "calibration_row list"
  rp_results :: "comparison_pair list"
  rp_summary :: "workload_summary list"

datatype bench_event =
    Sampled string int \<comment> \<open>the process of a phase and iteration count was started\<close>
  | Wrote path \<comment> \<open>a fixture or a log\<close>
  | ReportsCleared
  | Published string bench_report \<comment> \<open>this report file now holds this report\<close>

type_synonym 'a bench = "(bench_event, 'a) act"

fun published_step :: "bench_event \<Rightarrow> (string \<times> bench_report) list \<Rightarrow> (string \<times> bench_report) list" where
  "published_step (Published name report) files = files @ [(name, report)]"
| "published_step ReportsCleared files = []"
| "published_step _ files = files"

definition published :: "bench_event list \<Rightarrow> (string \<times> bench_report) list \<Rightarrow> (string \<times> bench_report) list" where
  \<comment> \<open>the report files after a run that found the given ones\<close>
  "published evs = fold published_step evs"

section \<open>Workloads\<close>

definition catalog_item :: "nat \<Rightarrow> string" where
  "catalog_item i = ''<item id='' @ [CHR 0x22] @ digits_of i @ [CHR 0x22] @ ''>value</item>''"

definition catalog_document :: string where
  "catalog_document = ''<catalog>'' @ concat (map catalog_item [1..<101]) @ ''</catalog>''"

definition text_document :: string where
  "text_document = ''<root>'' @ concat (replicate 10000 ''plain text '') @ ''</root>''"

definition attribute_text :: "nat \<Rightarrow> string" where
  "attribute_text i = ''a'' @ pad 2 (digits_of i) @ ''='' @ [CHR 0x22] @ ''value'' @ [CHR 0x22]"

definition attributes_document :: string where
  "attributes_document = ''<root>'' @ concat (replicate 20
     (''<item '' @ join '' '' (map attribute_text [0..<50]) @ ''/>'')) @ ''</root>''"

definition selected_workloads :: "bench_args \<Rightarrow> string list" where
  "selected_workloads a = fromkeys (if ag_workload a \<noteq> [] then ag_workload a
     else [''catalog'', ''text'', ''attributes''] @ (if ag_xml_file a \<noteq> [] then [''files''] else []))"

definition file_workload :: "bench_host \<Rightarrow> bench_args \<Rightarrow> nat \<times> path \<Rightarrow> workload bench" where
  "file_workload h a = (\<lambda>(index, p).
     bindA (pureA (ph_size h p)) (\<lambda>size.
     pureA (Inr \<lparr>wl_name = ''file-'' @ digits_of index @ '':'' @ last p, wl_path = Some p,
       wl_document_bytes = size, wl_iterations = ag_xml_iterations a\<rparr>)))"

fun mapA :: "('a \<Rightarrow> ('ev, 'b) act) \<Rightarrow> 'a list \<Rightarrow> ('ev, 'b list) act" where
  "mapA f [] = pureA (Inr [])"
| "mapA f (x # xs) = bindA (f x) (\<lambda>y. bindA (mapA f xs) (\<lambda>ys. pureA (Inr (y # ys))))"

definition fixture_workload :: "bench_host \<Rightarrow> bench_args \<Rightarrow> string \<Rightarrow> string \<Rightarrow> workload list bench" where
  \<comment> \<open>the documents are ASCII, so their length is the length of their UTF-8 encoding\<close>
  "fixture_workload h a name document =
     (let p = ag_output_dir a @ [''fixtures'', name @ ''.xml''] in
      bindA (pureA (ph_mkdir h (ag_output_dir a @ [''fixtures'']))) (\<lambda>_.
      bindA (pureA (ph_write h p document)) (\<lambda>_.
      bindA (emitA (Wrote p)) (\<lambda>_.
      pureA (Inr [\<lparr>wl_name = name, wl_path = Some p, wl_document_bytes = int (length document),
        wl_iterations = ag_file_iterations a\<rparr>])))))"

definition prepare_workload :: "bench_host \<Rightarrow> bench_args \<Rightarrow> string \<Rightarrow> workload list bench" where
  "prepare_workload h a name =
     (if name = ''catalog'' then
        pureA (Inr [\<lparr>wl_name = name, wl_path = None, wl_document_bytes = int (length catalog_document),
          wl_iterations = ag_iterations a\<rparr>])
      else if name = ''text'' then fixture_workload h a name text_document
      else if name = ''attributes'' then fixture_workload h a name attributes_document
      else if ag_xml_file a = [] then
        pureA (Inl (BenchmarkError ''The files workload requires at least one --xml-file.''))
      else mapA (file_workload h a) (enumerate 1 (fromkeys (ag_xml_file a))))"

definition prepare_workloads :: "bench_host \<Rightarrow> bench_args \<Rightarrow> workload list bench" where
  "prepare_workloads h a =
     bindA (mapA (prepare_workload h a) (selected_workloads a)) (\<lambda>groups. pureA (Inr (concat groups)))"

section \<open>One timed process\<close>

definition is_alnum :: "char \<Rightarrow> bool" where
  \<comment> \<open>\<open>str.isalnum\<close> below 256\<close>
  "is_alnum c = (let n = of_char c :: nat in
     48 \<le> n \<and> n \<le> 57 \<or> 65 \<le> n \<and> n \<le> 90 \<or> 97 \<le> n \<and> n \<le> 122
     \<or> py_in n [170, 178, 179, 181, 185, 186, 188, 189, 190] \<or> 192 \<le> n \<and> n \<noteq> 215 \<and> n \<noteq> 247)"

definition safe_phase :: "string \<Rightarrow> string" where
  "safe_phase phase = map (\<lambda>c. if is_alnum c \<or> c \<in> set ''-_.'' then c else CHR ''_'') phase"

definition sample_command :: "bench_host \<Rightarrow> path \<Rightarrow> int \<Rightarrow> workload \<Rightarrow> string list" where
  "sample_command h executable iterations w = [ph_str h executable, ''--iterations'', show_int iterations]
     @ (case wl_path w of None \<Rightarrow> [] | Some p \<Rightarrow> [''--file'', ph_str h p])"

definition expected_output :: "int \<Rightarrow> string" where
  "expected_output iterations = ''xpact benchmark harness parsed '' @ show_int iterations @ '' documents.''"

definition trusted_sample :: "int \<Rightarrow> outcome \<Rightarrow> rat \<Rightarrow> bool" where
  \<comment> \<open>the process confirmed its work and took measurable time\<close>
  "trusted_sample iterations out elapsed = (case out of
      Completed code stdout _ \<Rightarrow> code = 0 \<and> strip stdout = expected_output iterations \<and> elapsed > 0
    | _ \<Rightarrow> False)"

definition sample_details :: "string list \<Rightarrow> int option \<Rightarrow> outcome \<Rightarrow> string" where
  "sample_details command timeout out = (case out of
      Completed code stdout stderr \<Rightarrow> ''exit='' @ show_int code @ [newline] @ ''stdout:'' @ [newline] @ stdout @ [newline]
        @ ''stderr:'' @ [newline] @ stderr
    | TimeoutExpired _ _ \<Rightarrow> ''Command '' @ [CHR 0x27] @ py_show (\<lambda>_. []) (JList (map JStr command)) @ [CHR 0x27]
        @ '' timed out after '' @ (case timeout of None \<Rightarrow> ''None'' | Some n \<Rightarrow> show_int n) @ '' seconds''
    | LaunchError m \<Rightarrow> m)"

definition fail_sample :: "bench_host \<Rightarrow> string \<Rightarrow> path \<Rightarrow> string \<Rightarrow> rat bench" where
  "fail_sample h phase output content =
     (let p = output @ [''logs'', safe_phase phase @ ''.log''] in
      bindA (pureA (ph_mkdir h (output @ [''logs'']))) (\<lambda>_.
      bindA (pureA (ph_write h p content)) (\<lambda>_.
      bindA (emitA (Wrote p)) (\<lambda>_.
      pureA (Inl (BenchmarkError (''Invalid benchmark result for '' @ phase @ ''. See '' @ ph_str h p)))))))"

definition run_sample :: "bench_host \<Rightarrow> path \<Rightarrow> int \<Rightarrow> workload \<Rightarrow> string \<Rightarrow> path \<Rightarrow> int option \<Rightarrow> rat bench" where
  "run_sample h executable iterations w phase output timeout =
     (let command = sample_command h executable iterations w;
          out = ph_process h phase iterations command; elapsed = ph_elapsed h phase iterations in
      bindA (pureA (ph_mkdir h (output @ [''work'']))) (\<lambda>_.
      bindA (emitA (Sampled phase iterations)) (\<lambda>_.
      if trusted_sample iterations out elapsed then pureA (Inr elapsed)
      else fail_sample h phase output (ph_json h command @ newline # sample_details command timeout out))))"

end
