(* ===== verification/Paired_Run.thy ===== *)
theory Paired_Run
  imports Paired_Bench
begin

text \<open>
  The run of \<open>scripts/compare_eiffel_benchmarks.py\<close>: calibration, warm-ups and pairs of one
  workload, the report over all workloads, its publication and \<open>main\<close>.
\<close>

section \<open>Samples in order\<close>

definition sample :: "bench_host \<Rightarrow> bench_args \<Rightarrow> workload \<Rightarrow> string \<Rightarrow> int \<Rightarrow> string \<Rightarrow> rat bench" where
  \<comment> \<open>the inner function \<open>sample(role, phase)\<close> of \<open>run_comparison\<close>\<close>
  "sample h a w phase count role =
     run_sample h (if role = ''A'' then ag_baseline a else ag_candidate a) count w
       (wl_name w @ ''-'' @ phase @ ''-'' @ role) (ag_output_dir a) (ag_timeout_seconds a)"

partial_function (option) calibrate ::
    "(int \<Rightarrow> string \<Rightarrow> rat bench) \<Rightarrow> string \<Rightarrow> rat \<Rightarrow> int \<Rightarrow> (bench_event, int \<times> calibration_row list) loop" where
  "calibrate run name threshold count =
     bindO (Some (run count ''A'')) (\<lambda>baseline.
     bindO (Some (run count ''B'')) (\<lambda>candidate.
     let row = \<lparr>cr_workload = name, cr_iterations = count, cr_baseline_ms = baseline * 1000,
                cr_candidate_ms = candidate * 1000\<rparr> in
     if min baseline candidate \<ge> threshold then pureO (Inr (count, [row]))
     else if count = MAX_ITERATIONS then
       pureO (Inl (BenchmarkError ''Cannot reach minimum sample time within the signed 32-bit iteration limit.''))
     else bindO (calibrate run name threshold (min (count * 2) MAX_ITERATIONS)) (\<lambda>r.
       pureO (Inr (fst r, row # snd r)))))"

declare calibrate.simps [code]

definition warmup :: "(string \<Rightarrow> string \<Rightarrow> rat bench) \<Rightarrow> int \<Rightarrow> rat list bench" where
  "warmup run index = mapA (run (''warmup-'' @ show_int (index + 1))) (if even index then [''A'', ''B''] else [''B'', ''A''])"

definition pair_order :: "int \<Rightarrow> string" where
  "pair_order pair = (if odd pair then ''AB'' else ''BA'')"

definition pair_row_of :: "workload \<Rightarrow> int \<Rightarrow> int \<Rightarrow> rat \<Rightarrow> rat \<Rightarrow> comparison_pair" where
  "pair_row_of w count pair a b =
     (let mib = of_int (count * wl_document_bytes w) / 1048576 in
      \<lparr>cp_workload = wl_name w, cp_pair = pair, cp_order = pair_order pair, cp_iterations = count,
       cp_document_bytes = wl_document_bytes w, cp_baseline_ms = a * 1000, cp_candidate_ms = b * 1000,
       cp_baseline_rate = mib / a, cp_candidate_rate = mib / b, cp_ratio = a / b\<rparr>)"

definition measure_pair :: "(string \<Rightarrow> string \<Rightarrow> rat bench) \<Rightarrow> workload \<Rightarrow> int \<Rightarrow> int \<Rightarrow> comparison_pair bench" where
  "measure_pair run w count pair =
     (let phase = ''pair-'' @ show_int pair in
      if pair_order pair = ''AB'' then
        bindA (run phase ''A'') (\<lambda>a. bindA (run phase ''B'') (\<lambda>b. pureA (Inr (pair_row_of w count pair a b))))
      else
        bindA (run phase ''B'') (\<lambda>b. bindA (run phase ''A'') (\<lambda>a. pureA (Inr (pair_row_of w count pair a b)))))"

section \<open>One workload\<close>

definition summarize :: "workload \<Rightarrow> int \<Rightarrow> comparison_pair list \<Rightarrow> workload_summary py" where
  "summarize w count rows =
     (if rows = [] then Inl (ValueError ''no median for empty data'')
      else Inr \<lparr>ws_workload = wl_name w, ws_pairs = length rows, ws_iterations = count,
        ws_document_bytes = wl_document_bytes w,
        ws_median_ratio = median (map cp_ratio rows),
        ws_min_ratio = Min (set (map cp_ratio rows)), ws_max_ratio = Max (set (map cp_ratio rows)),
        ws_median_baseline_ms = median (map cp_baseline_ms rows),
        ws_median_candidate_ms = median (map cp_candidate_ms rows),
        ws_min_baseline_ms = Min (set (map cp_baseline_ms rows)), ws_max_baseline_ms = Max (set (map cp_baseline_ms rows)),
        ws_min_candidate_ms = Min (set (map cp_candidate_ms rows)),
        ws_max_candidate_ms = Max (set (map cp_candidate_ms rows))\<rparr>)"

record workload_run =
  wr_calibration :: "calibration_row list"
  wr_results :: "comparison_pair list"
  wr_summary :: workload_summary

definition calibrated :: "bench_host \<Rightarrow> bench_args \<Rightarrow> workload \<Rightarrow> (bench_event, int \<times> calibration_row list) loop" where
  "calibrated h a w =
     (if ag_min_sample_seconds a > 0
      then calibrate (sample h a w ''calibration'') (wl_name w) (ag_min_sample_seconds a) (wl_iterations w)
      else pureO (Inr (wl_iterations w, [])))"

definition measured :: "bench_host \<Rightarrow> bench_args \<Rightarrow> workload \<Rightarrow> int \<Rightarrow> comparison_pair list bench" where
  \<comment> \<open>all warm-ups, then all pairs, with one iteration count\<close>
  "measured h a w count =
     (let run = (\<lambda>phase. sample h a w phase count) in
      bindA (mapA (warmup run) [0..ag_warmups a - 1]) (\<lambda>_.
      mapA (measure_pair run w count) [1..ag_pairs a]))"

definition run_workload :: "bench_host \<Rightarrow> bench_args \<Rightarrow> workload \<Rightarrow> (bench_event, workload_run) loop" where
  "run_workload h a w =
     bindO (calibrated h a w) (\<lambda>(count, calibration).
     bindO (Some (measured h a w count)) (\<lambda>rows.
     bindO (pureO (summarize w count rows)) (\<lambda>summary.
     pureO (Inr \<lparr>wr_calibration = calibration, wr_results = rows, wr_summary = summary\<rparr>))))"

section \<open>The comparison\<close>

definition clear_on_error :: "'a bench \<Rightarrow> 'a bench" where
  \<comment> \<open>\<open>except BaseException: clear_reports(output_dir); raise\<close>\<close>
  "clear_on_error m = (case m of
      (evs, Inl e) \<Rightarrow> (evs @ [ReportsCleared], Inl e)
    | (evs, Inr x) \<Rightarrow> (evs, Inr x))"

definition paired_publish_reports :: "bench_host \<Rightarrow> bench_report \<Rightarrow> unit bench" where
  \<comment> \<open>both temporary files are complete before the first one replaces its report\<close>
  "paired_publish_reports h report = clear_on_error
     (bindA (mapA (\<lambda>name. pureA (ph_stage h name)) REPORT_NAMES) (\<lambda>_.
      bindA (mapA (\<lambda>name. bindA (pureA (ph_replace h name)) (\<lambda>_. emitA (Published name report))) REPORT_NAMES) (\<lambda>_.
      pureA (Inr ()))))"

definition executable_identity :: "bench_host \<Rightarrow> string \<times> path \<Rightarrow> (string \<times> string \<times> string) py" where
  "executable_identity h = (\<lambda>(role, p). bindE (ph_sha h p) (\<lambda>digest. Inr (role, ph_str h p, digest)))"

definition workload_metadata_of :: "bench_host \<Rightarrow> workload \<Rightarrow> workload_metadata py" where
  "workload_metadata_of h w =
     bindE (case wl_path w of None \<Rightarrow> Inr None | Some p \<Rightarrow> bindE (ph_sha h p) (\<lambda>digest. Inr (Some digest))) (\<lambda>digest.
     Inr \<lparr>wm_name = wl_name w, wm_path = map_option (ph_str h) (wl_path w), wm_document_bytes = wl_document_bytes w,
          wm_initial_iterations = wl_iterations w, wm_sha256 = digest\<rparr>)"

definition report_of :: "bench_args \<Rightarrow> (string \<times> string \<times> string) list \<Rightarrow> workload_metadata list \<Rightarrow> workload_run list \<Rightarrow> bench_report" where
  "report_of a identities metadata runs =
     \<lparr>rp_executables = identities, rp_warmups = ag_warmups a, rp_pairs = ag_pairs a,
      rp_min_sample_seconds = ag_min_sample_seconds a, rp_workloads = metadata,
      rp_calibration = concat (map wr_calibration runs), rp_results = concat (map wr_results runs),
      rp_summary = map wr_summary runs\<rparr>"

definition comparison_body :: "bench_host \<Rightarrow> bench_args \<Rightarrow> (bench_event, bench_report) loop" where
  "comparison_body h a =
     bindO (pureO (mapE (executable_identity h) [(''A'', ag_baseline a), (''B'', ag_candidate a)])) (\<lambda>identities.
     bindO (Some (prepare_workloads h a)) (\<lambda>workloads.
     bindO (pureO (mapE (workload_metadata_of h) workloads)) (\<lambda>metadata.
     bindO (mapO (run_workload h a) workloads) (\<lambda>runs.
     let report = report_of a identities metadata runs in
     bindO (Some (paired_publish_reports h report)) (\<lambda>_. pureO (Inr report))))))"

definition run_comparison :: "bench_host \<Rightarrow> bench_args \<Rightarrow> (bench_event, bench_report) loop" where
  \<comment> \<open>the check of the inputs comes before the reports of an earlier run are removed\<close>
  "run_comparison h a =
     bindO (pureO (preflight_inputs h a)) (\<lambda>_.
     bindO (pureO (ph_mkdir h (ag_output_dir a))) (\<lambda>_.
     bindO (Some (emitA ReportsCleared)) (\<lambda>_.
     map_option clear_on_error (comparison_body h a))))"

definition paired_errors :: "exn \<Rightarrow> bool" where
  \<comment> \<open>\<open>except (BenchmarkError, OSError, ValueError)\<close>\<close>
  "paired_errors e = (is_value_error e \<or> (case e of BenchmarkError _ \<Rightarrow> True | OSError _ \<Rightarrow> True | _ \<Rightarrow> False))"

definition main_exit :: "bench_report bench \<Rightarrow> int bench" where
  "main_exit m = (case m of
      (evs, Inr _) \<Rightarrow> (evs, Inr 0)
    | (evs, Inl e) \<Rightarrow> (evs, if paired_errors e then Inr 1 else Inl e))"

definition paired_main :: "bench_host \<Rightarrow> bench_options \<Rightarrow> (bench_event, int) loop" where
  "paired_main h o' = map_option main_exit (bindO (pureO (paired_parse_args h o')) (run_comparison h))"

end
