(* ===== verification/Paired_Proofs.thy ===== *)
theory Paired_Proofs
  imports Paired_Run
begin

text \<open>
  Facts of the paired benchmark its properties rest on: one sample leaves one trace event, calibration
  doubles the count and ends within 32 rounds, the fixed loops visit their items in order.
\<close>

section \<open>Samples\<close>

definition is_sampled :: "bench_event \<Rightarrow> bool" where
  "is_sampled ev = (case ev of Sampled _ _ \<Rightarrow> True | _ \<Rightarrow> False)"

definition keeps_reports :: "bench_event \<Rightarrow> bool" where
  \<comment> \<open>not an event of the report files\<close>
  "keeps_reports ev = (case ev of Published _ _ \<Rightarrow> False | ReportsCleared \<Rightarrow> False | _ \<Rightarrow> True)"

definition quiet :: "'a bench \<Rightarrow> bool" where
  \<comment> \<open>the step leaves the report files alone\<close>
  "quiet m = list_all keeps_reports (fst m)"

lemma quiet_intros [intro]:
  "quiet (pureA r)"
  "keeps_reports ev \<Longrightarrow> quiet (emitA ev)"
  "quiet m \<Longrightarrow> quiet m' \<Longrightarrow> quiet (if b then m else m')"
  "quiet m \<Longrightarrow> (\<And>x. quiet (f x)) \<Longrightarrow> quiet (bindA m f)"
  by (auto simp: quiet_def pureA_def emitA_def intro: list_all_bindA)

lemma quiet_mapA: "(\<And>x. quiet (f x)) \<Longrightarrow> quiet (mapA f xs)"
  by (induction xs) auto

lemma keeps_reports_simps [simp]: "keeps_reports (Sampled p n)" "keeps_reports (Wrote w)"
  by (simp_all add: keeps_reports_def)

lemma quiet_run_sample: "quiet (run_sample h e n w p out t)"
  unfolding run_sample_def Let_def fail_sample_def by (intro quiet_intros) simp_all

lemma quiet_published: "list_all keeps_reports evs \<Longrightarrow> published evs files = files"
proof -
  have "keeps_reports ev \<Longrightarrow> published_step ev files = files" for ev files
    by (cases ev) (simp_all add: keeps_reports_def)
  then show "list_all keeps_reports evs \<Longrightarrow> published evs files = files"
    unfolding published_def by (induction evs arbitrary: files) auto
qed

lemma published_append: "published (evs @ evs') files = published evs' (published evs files)"
  by (simp add: published_def)

lemma run_sample_Inr:
  "run_sample h e n w p out t = (evs, Inr x) \<Longrightarrow>
     evs = [Sampled p n] \<and> x = ph_elapsed h p n
       \<and> trusted_sample n (ph_process h p n (sample_command h e n w)) x \<and> 0 < x"
  unfolding run_sample_def Let_def fail_sample_def
  by (auto simp: bindA_Inr_iff trusted_sample_def split: if_splits outcome.splits)

lemma sampled_at_most_one: "length (filter is_sampled (fst (run_sample h e n w p out t))) \<le> 1"
proof -
  have w: "filter is_sampled (fst (fail_sample h q o' c)) = []" for q o' c
    by (cases "ph_mkdir h (o' @ [''logs''])"; cases "ph_write h (o' @ [''logs'', safe_phase q @ ''.log'']) c")
      (simp_all add: fail_sample_def pureA_def emitA_def Let_def is_sampled_def)
  show ?thesis
    by (cases "ph_mkdir h (out @ [''work''])")
      (simp_all add: run_sample_def Let_def w pureA_def emitA_def is_sampled_def)
qed

section \<open>Calibration\<close>

definition calibration_counts :: "int \<Rightarrow> nat \<Rightarrow> int list" where
  \<comment> \<open>the first \<open>k\<close> counts that calibration tries\<close>
  "calibration_counts count k = map (\<lambda>i. min (count * 2 ^ i) MAX_ITERATIONS) [0..<k]"

definition below_threshold :: "rat \<Rightarrow> calibration_row \<Rightarrow> bool" where
  "below_threshold threshold row = (min (cr_baseline_ms row) (cr_candidate_ms row) < threshold * 1000)"

definition calibrated_to :: "rat \<Rightarrow> int \<Rightarrow> int \<times> calibration_row list \<Rightarrow> bool" where
  \<comment> \<open>every round doubled the count, only the last one was long enough\<close>
  "calibrated_to threshold count r \<longleftrightarrow> snd r \<noteq> []
     \<and> map cr_iterations (snd r) = calibration_counts count (length (snd r))
     \<and> fst r = cr_iterations (last (snd r))
     \<and> \<not> below_threshold threshold (last (snd r)) \<and> list_all (below_threshold threshold) (butlast (snd r))"

lemma calibration_counts_Suc:
  assumes "0 < count"
  shows "calibration_counts count (Suc k)
    = min count MAX_ITERATIONS # calibration_counts (min (count * 2) MAX_ITERATIONS) k"
proof -
  have "min (count * 2 ^ Suc i) MAX_ITERATIONS = min (min (count * 2) MAX_ITERATIONS * 2 ^ i) MAX_ITERATIONS" for i
  proof (cases "count * 2 \<le> MAX_ITERATIONS")
    case False
    have "count * 2 * 1 \<le> count * 2 * 2 ^ i" using assms by (intro mult_left_mono) auto
    then have a: "MAX_ITERATIONS \<le> count * 2 ^ Suc i" using False by (simp add: mult.assoc)
    have "MAX_ITERATIONS * 1 \<le> MAX_ITERATIONS * 2 ^ i"
      by (intro mult_left_mono) (auto simp: MAX_ITERATIONS_def)
    with False a show ?thesis by (simp add: min_def)
  qed (simp add: min_def mult.assoc)
  then show ?thesis unfolding calibration_counts_def
    by (subst upt_conv_Cons) (simp_all add: map_Suc_upt [symmetric] comp_def del: upt_Suc)
qed

lemma below_threshold_row:
  "below_threshold threshold \<lparr>cr_workload = name, cr_iterations = n, cr_baseline_ms = b * 1000, cr_candidate_ms = c * 1000\<rparr>
     \<longleftrightarrow> \<not> threshold \<le> min b c"
  by (auto simp: below_threshold_def min_def)

definition round_row :: "string \<Rightarrow> int \<Rightarrow> rat \<Rightarrow> rat \<Rightarrow> calibration_row" where
  "round_row name count x y =
     \<lparr>cr_workload = name, cr_iterations = count, cr_baseline_ms = x * 1000, cr_candidate_ms = y * 1000\<rparr>"

lemma calibrate_raised:
  "run count ''A'' = (ea, Inl e) \<Longrightarrow> calibrate run name threshold count = Some (ea, Inl e)"
  "run count ''A'' = (ea, Inr x) \<Longrightarrow> run count ''B'' = (eb, Inl e) \<Longrightarrow>
     calibrate run name threshold count = Some (ea @ eb, Inl e)"
  by (subst calibrate.simps; simp)+

lemma calibrate_round:
  assumes "run count ''A'' = (ea, Inr x)" "run count ''B'' = (eb, Inr y)"
  shows "calibrate run name threshold count =
    (if threshold \<le> min x y then Some (ea @ eb, Inr (count, [round_row name count x y]))
     else if count = MAX_ITERATIONS then
       Some (ea @ eb, Inl (BenchmarkError ''Cannot reach minimum sample time within the signed 32-bit iteration limit.''))
     else bindO (Some (ea @ eb, Inr ())) (\<lambda>_. bindO (calibrate run name threshold (min (count * 2) MAX_ITERATIONS))
       (\<lambda>r. pureO (Inr (fst r, round_row name count x y # snd r)))))"
  using assms by (subst calibrate.simps)
    (simp add: Let_def pureA_def round_row_def [symmetric] split: option.split)

lemma round_row_simps [simp]: "cr_iterations (round_row name count x y) = count"
  "below_threshold threshold (round_row name count x y) \<longleftrightarrow> \<not> threshold \<le> min x y"
  unfolding round_row_def below_threshold_row by simp_all

lemma calibrated_to_single:
  "threshold \<le> min x y \<Longrightarrow> count \<le> MAX_ITERATIONS \<Longrightarrow> calibrated_to threshold count (count, [round_row name count x y])"
  by (simp add: calibrated_to_def calibration_counts_def del: min_less_iff_conj min.bounded_iff)

lemma calibrate_ends:
  assumes one: "\<And>n role. length (filter is_sampled (fst (run n role))) \<le> 1"
  shows "1 \<le> count \<Longrightarrow> count \<le> MAX_ITERATIONS \<Longrightarrow> MAX_ITERATIONS \<le> count * 2 ^ k \<Longrightarrow>
    \<exists>evs r. calibrate run name threshold count = Some (evs, r) \<and> length (filter is_sampled evs) \<le> 2 * Suc k
      \<and> (\<forall>x. r = Inr x \<longrightarrow> calibrated_to threshold count x \<and> length (snd x) \<le> Suc k)"
proof (induction k arbitrary: count)
  case (0 count)
  then have m: "count = MAX_ITERATIONS" by simp
  obtain ea ra where a: "run count ''A'' = (ea, ra)" by (cases "run count ''A''")
  obtain eb rb where b: "run count ''B'' = (eb, rb)" by (cases "run count ''B''")
  have "length (filter is_sampled ea) \<le> 1" using one [of count "''A''"] by (simp add: a)
  moreover have "length (filter is_sampled eb) \<le> 1" using one [of count "''B''"] by (simp add: b)
  ultimately have l: "length (filter is_sampled ea) \<le> 2" "length (filter is_sampled (ea @ eb)) \<le> 2" by simp_all
  consider (raised) e where "ra = Inl e \<or> rb = Inl e" | (ran) x y where "ra = Inr x" "rb = Inr y"
    by (cases ra; cases rb) auto
  then show ?case
  proof cases
    case raised
    then show ?thesis using l calibrate_raised [of run count ea] a b by (cases ra) auto
  next
    case ran
    then show ?thesis using l(2) calibrate_round [of run count ea x eb y name threshold] a b
        calibrated_to_single [of threshold x y count name] by (simp add: m)
  qed
next
  case (Suc k count)
  obtain ea ra where a: "run count ''A'' = (ea, ra)" by (cases "run count ''A''")
  obtain eb rb where b: "run count ''B'' = (eb, rb)" by (cases "run count ''B''")
  have ea: "length (filter is_sampled ea) \<le> 1" using one [of count "''A''"] by (simp add: a)
  have eb: "length (filter is_sampled eb) \<le> 1" using one [of count "''B''"] by (simp add: b)
  consider (raised) e where "ra = Inl e \<or> rb = Inl e"
    | (stop) x y where "ra = Inr x" "rb = Inr y" "threshold \<le> min x y \<or> count = MAX_ITERATIONS"
    | (again) x y where "ra = Inr x" "rb = Inr y" "\<not> threshold \<le> min x y" "count \<noteq> MAX_ITERATIONS"
    by (cases ra; cases rb) auto
  then show ?case
  proof cases
    case raised
    then show ?thesis using ea eb calibrate_raised [of run count ea] a b by (cases ra) auto
  next
    case stop
    then show ?thesis using ea eb calibrate_round [of run count ea x eb y name threshold] a b Suc.prems
        calibrated_to_single [of threshold x y count name] by (cases "threshold \<le> min x y") (simp_all del: min.bounded_iff min_less_iff_conj)
  next
    case xy: again
    define next_count where "next_count = min (count * 2) MAX_ITERATIONS"
    define row where "row = round_row name count x y"
    have "MAX_ITERATIONS * 1 \<le> MAX_ITERATIONS * 2 ^ k"
      by (intro mult_left_mono) (auto simp: MAX_ITERATIONS_def)
    then have "1 \<le> next_count" "next_count \<le> MAX_ITERATIONS" "MAX_ITERATIONS \<le> next_count * 2 ^ k"
      using Suc.prems by (auto simp: next_count_def min_def mult.assoc MAX_ITERATIONS_def)
    from Suc.IH [OF this] obtain evs r where ih: "calibrate run name threshold next_count = Some (evs, r)"
      "length (filter is_sampled evs) \<le> 2 * Suc k"
      "\<forall>x. r = Inr x \<longrightarrow> calibrated_to threshold next_count x \<and> length (snd x) \<le> Suc k" by blast
    have step: "calibrate run name threshold count
      = Some (ea @ eb @ evs, case r of Inl e \<Rightarrow> Inl e | Inr z \<Rightarrow> Inr (fst z, row # snd z))"
      using xy calibrate_round [of run count ea x eb y name threshold] a b
      by (cases r) (simp_all add: ih(1) next_count_def [symmetric] row_def pureA_def del: min.bounded_iff)
    moreover have "calibrated_to threshold count (fst z, row # snd z) \<and> length (row # snd z) \<le> Suc (Suc k)"
      if "r = Inr z" for z
    proof -
      have z: "calibrated_to threshold next_count z" "length (snd z) \<le> Suc k" using ih(3) that by blast+
      have "below_threshold threshold row" using xy(3) by (simp add: row_def del: min.bounded_iff)
      moreover have "calibration_counts count (Suc (length (snd z))) = count # calibration_counts next_count (length (snd z))"
        using Suc.prems by (subst calibration_counts_Suc) (simp_all add: next_count_def min_def)
      ultimately show ?thesis using z by (simp add: calibrated_to_def row_def)
    qed
    ultimately show ?thesis using ea eb ih(2) by (cases r) auto
  qed
qed

lemma calibrate_bound:
  assumes "\<And>n role. length (filter is_sampled (fst (run n role))) \<le> 1" "1 \<le> count" "count \<le> MAX_ITERATIONS"
  shows "\<exists>evs r. calibrate run name threshold count = Some (evs, r) \<and> length (filter is_sampled evs) \<le> 64
      \<and> (\<forall>x. r = Inr x \<longrightarrow> calibrated_to threshold count x \<and> length (snd x) \<le> 32)"
proof -
  have "MAX_ITERATIONS \<le> count * 2 ^ 31" using assms(2) by (simp add: MAX_ITERATIONS_def)
  from calibrate_ends [OF assms this] show ?thesis by simp
qed

lemma calibrated_to_count:
  assumes "calibrated_to threshold count r" "1 \<le> count" "count \<le> MAX_ITERATIONS"
  shows "1 \<le> fst r" "fst r \<le> MAX_ITERATIONS"
proof -
  have n: "snd r \<noteq> []" using assms(1) by (simp add: calibrated_to_def)
  have "cr_iterations (last (snd r)) \<in> set (map cr_iterations (snd r))" using n by simp
  then have "fst r \<in> set (calibration_counts count (length (snd r)))"
    using assms(1) by (simp only: calibrated_to_def)
  then obtain i :: nat where i: "fst r = min (count * 2 ^ i) MAX_ITERATIONS" by (auto simp: calibration_counts_def)
  have "1 * 1 \<le> count * 2 ^ i" using assms(2) by (intro mult_mono) auto
  then show "1 \<le> fst r" "fst r \<le> MAX_ITERATIONS" by (auto simp: i MAX_ITERATIONS_def)
qed

section \<open>The run returns\<close>

definition in_range :: "int \<Rightarrow> bool" where
  "in_range n \<longleftrightarrow> 1 \<le> n \<and> n \<le> MAX_ITERATIONS"

definition args_in_range :: "bench_args \<Rightarrow> bool" where
  "args_in_range a \<longleftrightarrow> list_all in_range
     [ag_iterations a, ag_file_iterations a, ag_xml_iterations a, ag_pairs a, ag_warmups a]
     \<and> 0 \<le> ag_min_sample_seconds a"

lemma positive_int_Inr: "positive_int s = Inr n \<Longrightarrow> in_range n"
  unfolding positive_int_def in_range_def by (auto simp: pyE)

lemma converted_positive: "in_range d \<Longrightarrow> converted_option positive_int d given = Inr n \<Longrightarrow> in_range n"
  by (auto simp: converted_option_def dest: positive_int_Inr split: option.splits sum.splits)

lemma nonnegative_float_Inr: "nonnegative_float s = Inr q \<Longrightarrow> 0 \<le> q"
  unfolding nonnegative_float_def by (elim bindE_InrE) (simp split: fl.splits if_splits)

lemma converted_nonnegative: "converted_option nonnegative_float 1 given = Inr q \<Longrightarrow> 0 \<le> q"
  by (auto simp: converted_option_def dest: nonnegative_float_Inr split: option.splits sum.splits)

lemma in_range_defaults: "in_range 10000" "in_range 1000" "in_range 32" "in_range 6" "in_range 2"
  by (simp_all add: in_range_def MAX_ITERATIONS_def)

lemmas option_ranges = in_range_defaults [THEN converted_positive] converted_nonnegative

lemma parse_args_in_range: "paired_parse_args h o' = Inr a \<Longrightarrow> args_in_range a"
  unfolding paired_parse_args_def
  by (elim bindE_InrE) (auto simp: args_in_range_def dest: option_ranges)

section \<open>Every loop ends\<close>

lemma mapA_Inr: "mapA f xs = (evs, Inr ys) \<Longrightarrow> list_all2 (\<lambda>x y. \<exists>e. f x = (e, Inr y)) xs ys"
  by (induction xs arbitrary: evs ys) (auto simp: bindA_Inr_iff)

lemma mapA_all:
  assumes "mapA f xs = (evs, Inr ys)" "\<And>x e y. f x = (e, Inr y) \<Longrightarrow> P y"
  shows "list_all P ys"
  using mapA_Inr [OF assms(1)] assms(2) by (induction rule: list_all2_induct) auto

definition workload_in_range :: "workload \<Rightarrow> bool" where
  "workload_in_range w = in_range (wl_iterations w)"

lemma prepare_workload_in_range:
  assumes "args_in_range a" "prepare_workload h a name = (evs, Inr ws)"
  shows "list_all workload_in_range ws"
proof -
  have f: "fixture_workload h a n d = (e, Inr ws) \<Longrightarrow> list_all workload_in_range ws" for n d e
    using assms(1) unfolding fixture_workload_def Let_def
    by (auto simp: bindA_Inr_iff workload_in_range_def args_in_range_def)
  have "mapA (file_workload h a) xs = (e, Inr ws) \<Longrightarrow> list_all workload_in_range ws" for xs e
    by (erule mapA_all, use assms(1) in \<open>auto simp: file_workload_def bindA_Inr_iff workload_in_range_def args_in_range_def\<close>)
  with f assms show ?thesis unfolding prepare_workload_def
    by (auto simp: workload_in_range_def args_in_range_def split: if_splits)
qed

lemma prepare_workloads_in_range:
  assumes "args_in_range a" "prepare_workloads h a = (evs, Inr ws)"
  shows "list_all workload_in_range ws"
proof -
  from assms(2) obtain e groups where g: "mapA (prepare_workload h a) (selected_workloads a) = (e, Inr groups)"
    "ws = concat groups" by (auto simp: prepare_workloads_def bindA_Inr_iff)
  from mapA_all [OF g(1), of "list_all workload_in_range"] prepare_workload_in_range [OF assms(1)]
  have "list_all (list_all workload_in_range) groups" by blast
  then show ?thesis unfolding g(2) by (induction groups) auto
qed

lemma sample_one: "length (filter is_sampled (fst (sample h a w phase n role))) \<le> 1"
  unfolding sample_def by (rule sampled_at_most_one)

lemma calibrated_bound:
  assumes "workload_in_range w"
  shows "\<exists>evs r. calibrated h a w = Some (evs, r) \<and> length (filter is_sampled evs) \<le> 64
    \<and> (\<forall>x. r = Inr x \<longrightarrow> in_range (fst x) \<and> length (snd x) \<le> 32)"
proof (cases "ag_min_sample_seconds a > 0")
  case True
  have w: "1 \<le> wl_iterations w" "wl_iterations w \<le> MAX_ITERATIONS"
    using assms by (auto simp: workload_in_range_def in_range_def)
  from calibrate_bound [of "sample h a w ''calibration''", OF sample_one w, of "wl_name w" "ag_min_sample_seconds a"]
  show ?thesis using True calibrated_to_count [OF _ w] unfolding in_range_def by (fastforce simp: calibrated_def)
qed (use assms in \<open>simp add: calibrated_def pureA_def workload_in_range_def\<close>)

lemma run_workload_returns: "workload_in_range w \<Longrightarrow> run_workload h a w \<noteq> None"
  using calibrated_bound [of w h a] unfolding run_workload_def case_prod_beta
  by (intro bindO_returns) auto

lemma comparison_body_returns:
  assumes "args_in_range a"
  shows "comparison_body h a \<noteq> None"
proof -
  have "mapO (run_workload h a) ws \<noteq> None" if "prepare_workloads h a = (evs, Inr ws)" for evs ws
    using prepare_workloads_in_range [OF assms that] run_workload_returns
    by (intro mapO_returns) (simp add: list_all_iff del: not_None_eq)
  then show ?thesis unfolding comparison_body_def Let_def
    by (intro bindO_returns) (simp_all del: not_None_eq)
qed

lemma run_comparison_returns: "args_in_range a \<Longrightarrow> run_comparison h a \<noteq> None"
  using comparison_body_returns [of a h] unfolding run_comparison_def
  by (intro bindO_returns) (simp_all del: not_None_eq)

section \<open>The report files\<close>

definition quietO :: "(bench_event, 'a) loop \<Rightarrow> bool" where
  "quietO m = (case m of None \<Rightarrow> True | Some a \<Rightarrow> quiet a)"

lemma quietO_simps [simp]: "quietO None" "quietO (Some a) = quiet a"
  by (simp_all add: quietO_def)

lemma quietO_bind [intro]: "quietO m \<Longrightarrow> (\<And>x. quietO (f x)) \<Longrightarrow> quietO (bindO m f)"
  by (cases m; cases "snd (the m)") (fastforce simp: bindO_def quietO_def quiet_def split: option.splits prod.splits)+

lemma quietO_mapO: "(\<And>x. quietO (f x)) \<Longrightarrow> quietO (mapO f xs)"
  by (induction xs) (auto intro!: quietO_bind)

lemma quiet_sample: "quiet (sample h a w phase n role)"
  unfolding sample_def by (rule quiet_run_sample)

lemma quiet_calibrate:
  assumes "\<And>n role. quiet (run n role)"
  shows "quietO (calibrate run name threshold count)"
proof (cases "calibrate run name threshold count")
  case (Some m)
  have "(\<forall>n role. quiet (run n role)) \<longrightarrow> quietO (Some m)"
    using Some
  proof (rule calibrate.raw_induct [rotated], intro impI)
    fix calib and run :: "int \<Rightarrow> string \<Rightarrow> rat bench" and name threshold count m
    assume ih: "\<And>run name threshold count m. calib run name threshold count = Some m \<Longrightarrow>
        (\<forall>n role. quiet (run n role)) \<longrightarrow> quietO (Some m)"
      and eq: "bindO (Some (run count ''A'')) (\<lambda>baseline. bindO (Some (run count ''B'')) (\<lambda>candidate.
        let row = \<lparr>cr_workload = name, cr_iterations = count, cr_baseline_ms = baseline * 1000,
                cr_candidate_ms = candidate * 1000\<rparr> in
        if threshold \<le> min baseline candidate then pureO (Inr (count, [row]))
        else if count = MAX_ITERATIONS then
          pureO (Inl (BenchmarkError ''Cannot reach minimum sample time within the signed 32-bit iteration limit.''))
        else bindO (calib run name threshold (min (count * 2) MAX_ITERATIONS)) (\<lambda>r.
          pureO (Inr (fst r, row # snd r))))) = Some m"
      and q: "\<forall>n role. quiet (run n role)"
    have "quietO (calib run name threshold n)" for n
      using ih [of run name threshold n] q by (cases "calib run name threshold n") auto
    then show "quietO (Some m)" unfolding eq [symmetric] Let_def using q by (auto intro!: quietO_bind quiet_intros(1))
  qed
  with Some assms show ?thesis by simp
qed simp

lemma quiet_prepare_workloads: "quiet (prepare_workloads h a)"
  unfolding prepare_workloads_def prepare_workload_def fixture_workload_def file_workload_def Let_def
  by (intro quiet_intros quiet_mapA) (auto split: prod.split)

lemma quiet_measured: "quiet (measured h a w count)"
  unfolding measured_def warmup_def measure_pair_def Let_def
  by (intro quiet_intros quiet_mapA quiet_sample)

lemma quiet_run_workload: "quietO (run_workload h a w)"
  unfolding run_workload_def calibrated_def
  by (auto split: prod.split intro!: quietO_bind quiet_measured quiet_calibrate quiet_sample)

lemma published_quiet: "quiet m \<Longrightarrow> published (fst m) files = files"
  by (simp add: quiet_def quiet_published)

lemma published_simps [simp]:
  "published [] files = files"
  "published (Published name report # evs) files = published evs (files @ [(name, report)])"
  "published (ReportsCleared # evs) files = published evs []"
  by (simp_all add: published_def)

lemma clear_on_error_Inr: "clear_on_error m = (evs, Inr x) \<longleftrightarrow> m = (evs, Inr x)"
  by (auto simp: clear_on_error_def split: prod.splits sum.splits)

lemma clear_on_error_Inl: "clear_on_error m = (evs, Inl e) \<Longrightarrow> published evs files = []"
  by (auto simp: clear_on_error_def published_append split: prod.splits sum.splits)

definition both_reports :: "bench_report \<Rightarrow> (string \<times> bench_report) list" where
  "both_reports report = map (\<lambda>name. (name, report)) REPORT_NAMES"

lemma paired_publish_trace:
  "paired_publish_reports h report = (evs, Inr u) \<Longrightarrow> evs = map (\<lambda>name. Published name report) REPORT_NAMES"
  unfolding paired_publish_reports_def clear_on_error_Inr
  by (auto simp: bindA_Inr_iff REPORT_NAMES_def)

lemma comparison_body_InrE:
  assumes "comparison_body h a = Some (evs, Inr report)"
  obtains identities e1 workloads metadata e2 runs where
    "mapE (executable_identity h) [(''A'', ag_baseline a), (''B'', ag_candidate a)] = Inr identities"
    "prepare_workloads h a = (e1, Inr workloads)" "mapE (workload_metadata_of h) workloads = Inr metadata"
    "mapO (run_workload h a) workloads = Some (e2, Inr runs)" "report = report_of a identities metadata runs"
    "evs = (e1 @ e2) @ map (\<lambda>name. Published name report) REPORT_NAMES" "list_all keeps_reports (e1 @ e2)"
proof -
  from assms obtain e1 e2 e3 identities workloads metadata runs where
    i: "mapE (executable_identity h) [(''A'', ag_baseline a), (''B'', ag_candidate a)] = Inr identities"
    and w: "prepare_workloads h a = (e1, Inr workloads)" and m: "mapE (workload_metadata_of h) workloads = Inr metadata"
    and r: "mapO (run_workload h a) workloads = Some (e2, Inr runs)" and rep: "report = report_of a identities metadata runs"
    and p: "paired_publish_reports h report = (e3, Inr ())" and evs: "evs = e1 @ e2 @ e3"
    unfolding comparison_body_def Let_def by (auto simp: bindO_Inr_iff simp del: mapE.simps)
  have "quietO (Some (e2, Inr runs :: workload_run list py))"
    unfolding r [symmetric] by (intro quietO_mapO quiet_run_workload)
  then have "list_all keeps_reports (e1 @ e2)"
    using quiet_prepare_workloads [of h a] by (simp add: quiet_def w)
  with that i w m r rep paired_publish_trace [OF p] evs show thesis by simp
qed

lemma published_both: "published (map (\<lambda>name. Published name report) REPORT_NAMES) files = files @ both_reports report"
  by (simp add: REPORT_NAMES_def both_reports_def)

lemma comparison_body_Inr:
  assumes "comparison_body h a = Some (evs, Inr report)"
  shows "published evs files = files @ both_reports report"
  using assms by (elim comparison_body_InrE) (simp add: published_append published_both quiet_published)

lemma run_comparison_Inr:
  assumes "run_comparison h a = Some (evs, Inr report)"
  shows "published evs files = both_reports report"
    "\<exists>evs'. comparison_body h a = Some (evs', Inr report) \<and> evs = ReportsCleared # evs'"
proof -
  from assms obtain evs' where b: "comparison_body h a = Some (evs', Inr report)" "evs = ReportsCleared # evs'"
    unfolding run_comparison_def by (auto simp: bindO_Inr_iff clear_on_error_Inr)
  then show "\<exists>evs'. comparison_body h a = Some (evs', Inr report) \<and> evs = ReportsCleared # evs'" by blast
  show "published evs files = both_reports report" using comparison_body_Inr [OF b(1)] by (simp add: b(2))
qed

lemma run_comparison_Inl:
  assumes "run_comparison h a = Some (evs, Inl e)"
  shows "if bindE (preflight_inputs h a) (\<lambda>_. ph_mkdir h (ag_output_dir a)) = Inr () then published evs files = [] else evs = []"
proof (cases "bindE (preflight_inputs h a) (\<lambda>_. ph_mkdir h (ag_output_dir a))")
  case (Inl e')
  then show ?thesis using assms unfolding run_comparison_def
    by (cases "preflight_inputs h a") (auto simp: pureA_def)
next
  case (Inr u)
  then have p: "preflight_inputs h a = Inr ()" "ph_mkdir h (ag_output_dir a) = Inr ()"
    by (auto simp: bindE_Inr_iff)
  with assms obtain m where "comparison_body h a = Some m" "clear_on_error m = (tl evs, Inl e)" "evs \<noteq> []" "hd evs = ReportsCleared"
    unfolding run_comparison_def by (cases "comparison_body h a") (auto simp: pureA_def emitA_def split: prod.splits)
  then show ?thesis using clear_on_error_Inl [of m "tl evs" e "[]"] p
    by (cases evs) simp_all
qed

section \<open>The script\<close>

lemma paired_main_not_None: "paired_main h o' \<noteq> None"
proof -
  have "bindO (pureO (paired_parse_args h o')) (run_comparison h) \<noteq> None"
    by (rule bindO_returns) (simp_all add: parse_args_in_range run_comparison_returns del: not_None_eq)
  then show ?thesis by (simp add: paired_main_def del: not_None_eq)
qed

lemma paired_main_zero:
  assumes "paired_main h o' = Some (evs, Inr 0)"
  obtains a report where "paired_parse_args h o' = Inr a" "run_comparison h a = Some (evs, Inr report)"
proof -
  from assms obtain report where "bindO (pureO (paired_parse_args h o')) (run_comparison h) = Some (evs, Inr report)"
    unfolding paired_main_def main_exit_def
    by (cases "bindO (pureO (paired_parse_args h o')) (run_comparison h)") (auto split: prod.splits sum.splits if_splits)
  then obtain a where "paired_parse_args h o' = Inr a" "run_comparison h a = Some (evs, Inr report)"
    by (elim bindO_InrE) auto
  then show thesis by (rule that)
qed

section \<open>Measured pairs\<close>

definition sample_phase :: "workload \<Rightarrow> string \<Rightarrow> string \<Rightarrow> string" where
  "sample_phase w phase role = wl_name w @ ''-'' @ phase @ ''-'' @ role"

lemma sample_Inr:
  "sample h a w phase n role = (evs, Inr x) \<Longrightarrow>
     evs = [Sampled (sample_phase w phase role) n] \<and> x = ph_elapsed h (sample_phase w phase role) n \<and> 0 < x"
  unfolding sample_def sample_phase_def by (drule run_sample_Inr) simp

lemma mapA_events:
  assumes "\<And>x e y. f x = (e, Inr y) \<Longrightarrow> e = g x"
  shows "mapA f xs = (evs, Inr ys) \<Longrightarrow> evs = concat (map g xs)"
  using assms by (induction xs arbitrary: evs ys) (auto simp: bindA_Inr_iff)

lemma mapA_values:
  assumes "\<And>x e y. f x = (e, Inr y) \<Longrightarrow> y = k x \<and> P x"
  shows "mapA f xs = (evs, Inr ys) \<Longrightarrow> ys = map k xs \<and> list_all P xs"
  using assms by (induction xs arbitrary: evs ys) (fastforce simp: bindA_Inr_iff)+

definition warmup_roles :: "int \<Rightarrow> string list" where
  "warmup_roles index = (if even index then [''A'', ''B''] else [''B'', ''A''])"

definition pair_roles :: "int \<Rightarrow> string list" where
  "pair_roles pair = (if odd pair then [''A'', ''B''] else [''B'', ''A''])"

definition warmup_trace :: "workload \<Rightarrow> int \<Rightarrow> int \<Rightarrow> bench_event list" where
  "warmup_trace w count index =
     map (\<lambda>role. Sampled (sample_phase w (''warmup-'' @ show_int (index + 1)) role) count) (warmup_roles index)"

definition pair_trace :: "workload \<Rightarrow> int \<Rightarrow> int \<Rightarrow> bench_event list" where
  "pair_trace w count pair =
     map (\<lambda>role. Sampled (sample_phase w (''pair-'' @ show_int pair) role) count) (pair_roles pair)"

definition pair_time :: "bench_host \<Rightarrow> workload \<Rightarrow> int \<Rightarrow> int \<Rightarrow> string \<Rightarrow> rat" where
  "pair_time h w count pair role = ph_elapsed h (sample_phase w (''pair-'' @ show_int pair) role) count"

definition measured_row :: "bench_host \<Rightarrow> workload \<Rightarrow> int \<Rightarrow> int \<Rightarrow> comparison_pair" where
  "measured_row h w count pair =
     pair_row_of w count pair (pair_time h w count pair ''A'') (pair_time h w count pair ''B'')"

definition positive_times :: "bench_host \<Rightarrow> workload \<Rightarrow> int \<Rightarrow> int \<Rightarrow> bool" where
  "positive_times h w count pair \<longleftrightarrow> 0 < pair_time h w count pair ''A'' \<and> 0 < pair_time h w count pair ''B''"

lemma warmup_Inr:
  assumes "warmup (\<lambda>phase. sample h a w phase count) index = (e, Inr ts)"
  shows "e = warmup_trace w count index"
proof -
  let ?phase = "''warmup-'' @ show_int (index + 1)"
  have "e = concat (map (\<lambda>role. [Sampled (sample_phase w ?phase role) count]) (warmup_roles index))"
    by (rule mapA_events [OF _ assms [unfolded warmup_def, folded warmup_roles_def]]) (simp add: sample_Inr)
  then show ?thesis by (simp add: warmup_trace_def concat_map_singleton)
qed

lemma measure_pair_Inr:
  "measure_pair (\<lambda>phase. sample h a w phase count) w count pair = (e, Inr row) \<Longrightarrow>
     e = pair_trace w count pair \<and> row = measured_row h w count pair \<and> positive_times h w count pair"
  unfolding measure_pair_def Let_def pair_order_def pair_trace_def pair_roles_def measured_row_def pair_time_def positive_times_def
  by (auto simp: bindA_Inr_iff dest!: sample_Inr split: if_splits)

lemma measured_Inr:
  assumes "measured h a w count = (evs, Inr rows)"
  shows "evs = concat (map (warmup_trace w count) [0..ag_warmups a - 1]) @ concat (map (pair_trace w count) [1..ag_pairs a])"
    "rows = map (measured_row h w count) [1..ag_pairs a]" "list_all (positive_times h w count) [1..ag_pairs a]"
proof -
  from assms obtain e1 ws e2 where m: "mapA (warmup (\<lambda>phase. sample h a w phase count)) [0..ag_warmups a - 1] = (e1, Inr ws)"
    "mapA (measure_pair (\<lambda>phase. sample h a w phase count) w count) [1..ag_pairs a] = (e2, Inr rows)" "evs = e1 @ e2"
    unfolding measured_def Let_def by (auto simp: bindA_Inr_iff)
  have "e1 = concat (map (warmup_trace w count) [0..ag_warmups a - 1])"
    by (rule mapA_events [OF warmup_Inr m(1)])
  moreover have "e2 = concat (map (pair_trace w count) [1..ag_pairs a])"
    by (rule mapA_events [OF _ m(2)]) (simp add: measure_pair_Inr)
  ultimately show "evs = concat (map (warmup_trace w count) [0..ag_warmups a - 1]) @ concat (map (pair_trace w count) [1..ag_pairs a])"
    by (simp add: m(3))
  have "rows = map (measured_row h w count) [1..ag_pairs a] \<and> list_all (positive_times h w count) [1..ag_pairs a]"
    by (rule mapA_values [OF _ m(2)]) (simp add: measure_pair_Inr)
  then show "rows = map (measured_row h w count) [1..ag_pairs a]" "list_all (positive_times h w count) [1..ag_pairs a]"
    by simp_all
qed

end
