(* ===== verification/Paired_Sample.thy ===== *)
theory Paired_Sample
  imports Paired_Proofs
begin

text \<open>
  A concrete host, arguments and workload for the paired benchmark, on which its properties are
  witnessed.
\<close>

definition bench_sample :: bench_host where
  \<comment> \<open>a process of \<open>n\<close> documents takes \<open>n\<close> seconds as baseline and half of it as candidate\<close>
  "bench_sample = \<lparr>ph_path = (\<lambda>s. [s]), ph_resolve = (\<lambda>p. p), ph_str = (\<lambda>p. join ''/'' p), ph_default_output = [''out''],
     ph_samefile = (\<lambda>_ _. Inr False), ph_mkdir = (\<lambda>_. Inr ()), ph_write = (\<lambda>_ _. Inr ()), ph_size = (\<lambda>_. Inr 5),
     ph_sha = (\<lambda>_. Inr ''abc''), ph_stage = (\<lambda>_. Inr ()), ph_replace = (\<lambda>_. Inr ()),
     ph_process = (\<lambda>_ n _. Completed 0 (expected_output n) []),
     ph_elapsed = (\<lambda>phase n. if last phase = CHR ''A'' then of_int n else of_int n / 2), ph_json = (\<lambda>_. [])\<rparr>"

definition bench_args_sample :: bench_args where
  "bench_args_sample = \<lparr>ag_baseline = [''base''], ag_candidate = [''cand''], ag_output_dir = [''out''], ag_workload = [''catalog''],
     ag_xml_file = [], ag_iterations = 3, ag_file_iterations = 3, ag_xml_iterations = 3, ag_pairs = 2, ag_warmups = 1,
     ag_min_sample_seconds = 5, ag_timeout_seconds = None\<rparr>"

definition workload_sample :: workload where
  "workload_sample = \<lparr>wl_name = ''catalog'', wl_path = None, wl_document_bytes = 2911, wl_iterations = 3\<rparr>"

end
