(* ===== verification/Paired_Claims.thy ===== *)
theory Paired_Claims
  imports Paired_Sample
begin

text \<open>
  The properties of the paired benchmark: calibration is bounded, the script always returns, its two
  reports appear together or not at all, and a measurement follows the alternating protocol.
\<close>

section \<open>Calibration\<close>

text \<open>
  C9. Calibration always ends: from any iteration count the arguments can give, after at most 32
  rounds (64 processes) it has returned or raised. When it returns, every round doubled the count,
  capped at the largest signed 32-bit integer, every round but the last was shorter than the threshold on
  one side, the last was long enough on both, and the count it returns is the last one tried.
\<close>

theorem calibration_bounded:
  assumes "in_range count"
  shows "\<exists>evs r. calibrate (sample h a w ''calibration'') name threshold count = Some (evs, r)
    \<and> length (filter is_sampled evs) \<le> 64
    \<and> (case r of Inl _ \<Rightarrow> True
       | Inr x \<Rightarrow> length (snd x) \<le> 32 \<and> calibrated_to threshold count x \<and> in_range (fst x))"
proof -
  have c: "1 \<le> count" "count \<le> MAX_ITERATIONS" using assms by (simp_all add: in_range_def)
  from calibrate_bound [of "sample h a w ''calibration''", OF sample_one c, of name threshold]
  obtain evs r where r: "calibrate (sample h a w ''calibration'') name threshold count = Some (evs, r)"
    "length (filter is_sampled evs) \<le> 64" "\<forall>x. r = Inr x \<longrightarrow> calibrated_to threshold count x \<and> length (snd x) \<le> 32"
    by blast
  moreover have "in_range (fst x)" if "r = Inr x" for x
    using r(3) that calibrated_to_count [OF _ c, of threshold x] by (simp add: in_range_def)
  ultimately show ?thesis by (cases r) auto
qed

theorem calibration_bounded_witness:
  "\<exists>evs r. calibrate (sample bench_sample bench_args_sample workload_sample ''calibration'') ''catalog'' 5 3 = Some (evs, r)
    \<and> length (filter is_sampled evs) \<le> 64
    \<and> (case r of Inl _ \<Rightarrow> True | Inr x \<Rightarrow> length (snd x) \<le> 32 \<and> calibrated_to 5 3 x \<and> in_range (fst x))"
  by (rule calibration_bounded) (simp add: in_range_def MAX_ITERATIONS_def)

section \<open>The script\<close>


text \<open>
  The reports of a comparison exist together or not at all: a comparison that returns leaves
  \<open>comparison.json\<close> and \<open>comparison.tsv\<close> with its report; one that raises leaves neither, also none of
  an earlier run, except when it is refused before it starts because an input is one of the output files:
  then nothing is touched.
\<close>

theorem comparison_all_or_nothing:
  "case run_comparison h a of
     None \<Rightarrow> True
   | Some (evs, Inr report) \<Rightarrow> published evs earlier = both_reports report
   | Some (evs, Inl e) \<Rightarrow>
       if bindE (preflight_inputs h a) (\<lambda>_. ph_mkdir h (ag_output_dir a)) = Inr () then published evs earlier = [] else evs = []"
proof (cases "run_comparison h a")
  case (Some m)
  obtain evs r where m: "m = (evs, r)" by (cases m)
  show ?thesis
  proof (cases r)
    case (Inl e)
    then show ?thesis using run_comparison_Inl [of h a evs e earlier] Some by (simp add: m)
  next
    case (Inr report)
    then show ?thesis using run_comparison_Inr(1) [of h a evs report earlier] Some by (simp add: m)
  qed
qed simp

text \<open>
  C34. The measurement protocol: after a measurement that returned, exactly the requested warm-ups
  and then exactly the requested pairs were run, each on both executables and with the same iteration count,
  in alternating order starting with AB; every pair has one row, in order, that is computed from the
  positive times of its own two processes.
\<close>

theorem measurement_protocol:
  assumes "measured h a w count = (evs, Inr rows)"
  shows "evs = concat (map (warmup_trace w count) [0..ag_warmups a - 1]) @ concat (map (pair_trace w count) [1..ag_pairs a])
    \<and> rows = map (measured_row h w count) [1..ag_pairs a]
    \<and> list_all (positive_times h w count) [1..ag_pairs a]"
  using measured_Inr [OF assms] by simp

lemma measured_sample:
  "\<exists>evs rows. measured bench_sample bench_args_sample workload_sample 12 = (evs, Inr rows)"
  by (intro exI, code_simp)

theorem measurement_protocol_witness:
  "\<exists>evs rows. measured bench_sample bench_args_sample workload_sample 12 = (evs, Inr rows)
    \<and> evs = map (\<lambda>p. Sampled (''catalog-'' @ p) 12)
        [''warmup-1-A'', ''warmup-1-B'', ''pair-1-A'', ''pair-1-B'', ''pair-2-B'', ''pair-2-A'']
    \<and> map cp_ratio rows = [2, 2]"
proof -
  obtain evs rows where m: "measured bench_sample bench_args_sample workload_sample 12 = (evs, Inr rows)"
    using measured_sample by blast
  have "concat (map (warmup_trace workload_sample 12) [0..ag_warmups bench_args_sample - 1])
      @ concat (map (pair_trace workload_sample 12) [1..ag_pairs bench_args_sample])
    = map (\<lambda>p. Sampled (''catalog-'' @ p) 12) [''warmup-1-A'', ''warmup-1-B'', ''pair-1-A'', ''pair-1-B'', ''pair-2-B'', ''pair-2-A'']"
    by code_simp
  moreover have "map cp_ratio (map (measured_row bench_sample workload_sample 12) [1..ag_pairs bench_args_sample]) = [2, 2]"
    by code_simp
  ultimately show ?thesis using m measurement_protocol [OF m] by metis
qed

end
