(* ===== verification/Dual_Catalog.thy ===== *)
theory Dual_Catalog
  imports Paired_Proofs Dual_W3C_Lane Build_Implementations
begin

text \<open>
  The dual catalog lane, \<open>scripts/run_dual_catalog.py\<close>: builds and directed controls in both
  assertion modes, the paired measurement of the two builds without assertions through
  \<open>compare_eiffel_benchmarks.main\<close>, the check of the comparison it left, and the publication. The
  steps shared with the W3C lane are in \<open>Dual_Lane\<close>.
\<close>

section \<open>The comparison of the selected lane\<close>

definition DOCUMENT :: string where
  "DOCUMENT = ''<catalog>'' @ concat (map catalog_item [1..<101]) @ ''</catalog>''"

definition j_first :: "json \<Rightarrow> json py" where
  \<comment> \<open>\<open>v[0]\<close>\<close>
  "j_first v = (case v of
      JList [] \<Rightarrow> Inl IndexError
    | JList (x # _) \<Rightarrow> Inr x
    | JStr [] \<Rightarrow> Inl IndexError
    | JStr (c # _) \<Rightarrow> Inr (JStr [c])
    | JObj _ \<Rightarrow> Inl (KeyError ''0'')
    | _ \<Rightarrow> Inl TypeError)"

definition differs_from :: "json \<Rightarrow> json py \<Rightarrow> bool py" where
  \<comment> \<open>\<open>m != v\<close>\<close>
  "differs_from v m = bindE m (\<lambda>w. Inr (\<not> py_eq w v))"

definition length_differs :: "int \<Rightarrow> json \<Rightarrow> bool py" where
  "length_differs n v = bindE (j_len v) (\<lambda>k. Inr (int k \<noteq> n))"

definition workload_mismatch :: "json \<Rightarrow> bool py" where
  "workload_mismatch workloads =
     anyE [length_differs 1 workloads,
       bindE (j_first workloads) (\<lambda>w. item_ne w ''name'' ''catalog''),
       differs_from (JInt (int (length DOCUMENT))) (bindE (j_first workloads) (\<lambda>w. j_item w ''document_bytes'')),
       bindE (bindE (j_first workloads) (\<lambda>w. j_get w ''path'')) (\<lambda>p. Inr (p \<noteq> JNull))]"

definition resolved_text :: "(string \<Rightarrow> path) \<Rightarrow> json \<Rightarrow> path py" where
  \<comment> \<open>\<open>Path(v).resolve()\<close>\<close>
  "resolved_text resolve_text v = bindE (j_str v) (\<lambda>s. Inr (resolve_text s))"

definition executable_mismatch :: "(string \<Rightarrow> path) \<Rightarrow> json \<Rightarrow> json \<Rightarrow> bool py" where
  "executable_mismatch resolve_text identity expected =
     anyE [bindE (bindE (j_item identity ''path'') (resolved_text resolve_text)) (\<lambda>p.
           bindE (bindE (j_item expected ''executable'') (resolved_text resolve_text)) (\<lambda>q. Inr (p \<noteq> q))),
       bindE (j_item identity ''sha256'') (\<lambda>a. bindE (j_item expected ''executable_sha256'') (\<lambda>b. Inr (\<not> py_eq a b)))]"

definition check_executable :: "(string \<Rightarrow> path) \<Rightarrow> json \<Rightarrow> (string \<times> json) list \<Rightarrow> string \<times> string \<Rightarrow> unit py" where
  "check_executable resolve_text metadata artifacts = (\<lambda>(role, implementation).
     bindE (py_item (map_of artifacts) implementation) (\<lambda>expected.
     bindE (bindE (j_item metadata ''executables'') (\<lambda>e. j_item e role)) (\<lambda>identity.
     bindE (executable_mismatch resolve_text identity expected) (\<lambda>bad.
     raise_if bad (LaneError ''Comparison executable differs from the qualified build'')))))"

definition comparison_incomplete :: "json \<Rightarrow> json \<Rightarrow> int \<Rightarrow> bool py" where
  "comparison_incomplete rows summaries pairs =
     anyE [length_differs pairs rows, length_differs 1 summaries,
       bindE (j_first summaries) (\<lambda>s. item_ne s ''workload'' ''catalog''),
       differs_from (JInt pairs) (bindE (j_first summaries) (\<lambda>s. j_item s ''pairs''))]"

definition below_one :: "json \<Rightarrow> bool py" where
  \<comment> \<open>\<open>v < 1\<close>\<close>
  "below_one v = (case num_of v of None \<Rightarrow> Inl TypeError | Some f \<Rightarrow> Inr (fl_less f (Fin 1)))"

definition not_measured :: "json \<Rightarrow> bool py" where
  \<comment> \<open>\<open>not math.isfinite(v) or v <= 0\<close>\<close>
  "not_measured v = (case v of
      JInt i \<Rightarrow> if of_int \<bar>i\<bar> \<ge> max_double_bound then Inl OverflowError else Inr (i \<le> 0)
    | JBool b \<Rightarrow> Inr (\<not> b)
    | JFloat (Fin q) \<Rightarrow> Inr (q \<le> 0)
    | JFloat _ \<Rightarrow> Inr True
    | _ \<Rightarrow> Inl TypeError)"

definition MEASUREMENTS :: "string list" where
  "MEASUREMENTS = [''BaselineElapsedMs'', ''CandidateElapsedMs'', ''BaselineMiBPerSecond'', ''CandidateMiBPerSecond'',
     ''CandidateSpeedRatio'']"

definition row_mismatch :: "nat \<times> json \<Rightarrow> bool py" where
  "row_mismatch = (\<lambda>(index, row).
     anyE [item_ne row ''Workload'' ''catalog'',
       differs_from (JInt (int index)) (j_item row ''Pair''),
       item_ne row ''Order'' (if odd index then ''AB'' else ''BA''),
       differs_from (JInt (int (length DOCUMENT))) (j_item row ''DocumentBytes''),
       bindE (j_item row ''Iterations'') below_one])"

definition check_row :: "nat \<times> json \<Rightarrow> json py" where
  \<comment> \<open>the iteration count of a row that passed every check\<close>
  "check_row = (\<lambda>(index, row).
     bindE (row_mismatch (index, row)) (\<lambda>bad.
     bindE (raise_if bad (LaneError ''Comparison row does not match the selected workload/pair'')) (\<lambda>_.
     bindE (j_item row ''Iterations'') (\<lambda>iterations.
     bindE (forE (\<lambda>key. bindE (bindE (j_item row key) not_measured) (\<lambda>bad.
       raise_if bad (LaneError ''Comparison contains an invalid measurement''))) MEASUREMENTS) (\<lambda>_.
     Inr iterations)))))"

fun distinct_numbers :: "json list \<Rightarrow> nat" where
  \<comment> \<open>the size of a set of numbers; two NaN of a parsed file are different objects\<close>
  "distinct_numbers [] = 0"
| "distinct_numbers (v # vs) = (if list_ex (py_eq v) vs then distinct_numbers vs else Suc (distinct_numbers vs))"

definition validate_comparison :: "(string \<Rightarrow> path) \<Rightarrow> json \<Rightarrow> (string \<times> json) list \<Rightarrow> int \<Rightarrow> unit py" where
  "validate_comparison resolve_text report artifacts pairs =
     bindE (j_item report ''metadata'') (\<lambda>metadata.
     bindE (j_item metadata ''workloads'') (\<lambda>workloads.
     bindE (workload_mismatch workloads) (\<lambda>bad.
     bindE (raise_if bad (LaneError ''Comparison contains a workload outside the selected catalog lane'')) (\<lambda>_.
     bindE (forE (check_executable resolve_text metadata artifacts) [(''A'', ''xpact''), (''B'', ''xpact-core'')]) (\<lambda>_.
     bindE (j_item report ''results'') (\<lambda>rows.
     bindE (j_item report ''summary'') (\<lambda>summaries.
     bindE (comparison_incomplete rows summaries pairs) (\<lambda>bad.
     bindE (raise_if bad (LaneError ''Comparison is incomplete'')) (\<lambda>_.
     bindE (j_iter rows) (\<lambda>items.
     bindE (mapE check_row (enumerate 1 items)) (\<lambda>iterations.
     raise_if (distinct_numbers iterations \<noteq> 1) (LaneError ''Comparison used different iteration counts across pairs''))))))))))))"

section \<open>The host\<close>

datatype catalog_moment =
    GateBuild string bool \<comment> \<open>when a build is validated\<close>
  | GateQualified string bool \<comment> \<open>after its directed controls\<close>
  | GatePassed
  | Measuring
  | Measured

record catalog_host =
  ch_iterations :: int
  ch_pairs :: int
  ch_warmups :: int
  ch_min_sample_seconds :: rat
  ch_sample_timeout_seconds :: int
  ch_mkdir :: "string \<Rightarrow> unit py"
  ch_run_json :: "string \<Rightarrow> unit py"
  ch_write :: "string \<Rightarrow> unit py" \<comment> \<open>writing a report file of the run directory\<close>
  ch_markdown :: "json \<Rightarrow> unit py" \<comment> \<open>the temporary file with \<open>summary_markdown(report)\<close>\<close>
  ch_toolchain :: "unit py"
  ch_build :: "string \<Rightarrow> bool \<Rightarrow> (string \<times> json) py" \<comment> \<open>\<open>build_one\<close>: the manifest's path and its content\<close>
  ch_qualify :: "string \<Rightarrow> bool \<Rightarrow> outcome"
  ch_log :: "string \<Rightarrow> string \<Rightarrow> unit py"
  ch_sha :: "catalog_moment \<Rightarrow> string \<Rightarrow> string py"
  ch_fingerprint :: "catalog_moment \<Rightarrow> string \<Rightarrow> string py"
  ch_bench :: bench_host
  ch_show_float :: "rat \<Rightarrow> string"
  ch_comparison_dir :: string
  ch_read :: "bench_report option \<Rightarrow> json py" \<comment> \<open>\<open>comparison.json\<close>, given what was published under that name\<close>
  ch_resolve_text :: "string \<Rightarrow> path"
  ch_document_sha256 :: string

section \<open>Builds and directed controls\<close>

record gate_row =
  gr_implementation :: string
  gr_assertions :: bool
  gr_status :: string
  gr_manifest :: string
  gr_cases :: "control list"
  gr_error :: "string option"

record gate =
  gt_rows :: "gate_row list" \<comment> \<open>\<open>state["builds"]\<close>\<close>
  gt_qualification :: "gate_row list"
  gt_audits :: "(string \<times> json) list"
  gt_artifacts :: "(string \<times> json) list"

definition qualified_build :: "catalog_host \<Rightarrow> string \<Rightarrow> bool \<Rightarrow> (string \<times> json \<times> control list) py" where
  "qualified_build c implementation assertions =
     bindE (ch_build c implementation assertions) (\<lambda>(manifest, artifact).
     bindE (catalog_validate_build (ch_sha c (GateBuild implementation assertions)) artifact implementation assertions) (\<lambda>_.
     bindE (executable_of artifact) (\<lambda>executable.
     bindE (run_checked (\<lambda>_. ch_qualify c implementation assertions) (ch_log c) [executable, ''--qualify'']
         (Some (implementation @ ''/qualification.log''))) (\<lambda>output.
     bindE (catalog_validate_qualification output artifact) (\<lambda>cases.
     bindE (catalog_verify_artifact (ch_sha c (GateQualified implementation assertions)) artifact) (\<lambda>_.
     Inr (manifest, artifact, cases)))))))"

definition gate_step :: "catalog_host \<Rightarrow> bool \<Rightarrow> string \<Rightarrow> gate \<Rightarrow> gate py" where
  "gate_step c assertions implementation st =
     (case qualified_build c implementation assertions of
        Inl e \<Rightarrow>
          if caught e
          then Inr (st\<lparr>gt_rows := gt_rows st @ [\<lparr>gr_implementation = implementation, gr_assertions = assertions,
            gr_status = ''failed'', gr_manifest = [], gr_cases = [], gr_error = Some (exn_text e)\<rparr>]\<rparr>)
          else Inl e
      | Inr (manifest, artifact, cases) \<Rightarrow>
          let row = \<lparr>gr_implementation = implementation, gr_assertions = assertions, gr_status = ''qualified'',
                     gr_manifest = manifest, gr_cases = cases, gr_error = None\<rparr> in
          Inr (if assertions
            then st\<lparr>gt_rows := gt_rows st @ [row], gt_qualification := gt_qualification st @ [row],
                    gt_audits := gt_audits st @ [(implementation, artifact)]\<rparr>
            else st\<lparr>gt_rows := gt_rows st @ [row], gt_qualification := gt_qualification st @ [row],
                    gt_artifacts := gt_artifacts st @ [(implementation, artifact)]\<rparr>))"

fun gate_steps :: "catalog_host \<Rightarrow> bool \<Rightarrow> string list \<Rightarrow> gate \<Rightarrow> gate py" where
  "gate_steps c assertions [] st = Inr st"
| "gate_steps c assertions (i # is) st = bindE (gate_step c assertions i st) (gate_steps c assertions is)"

definition gate_phase :: "catalog_host \<Rightarrow> bool \<Rightarrow> gate \<Rightarrow> gate py" where
  "gate_phase c assertions st =
     bindE (ch_mkdir c (if assertions then ''audit'' else ''benchmark'')) (\<lambda>_.
     gate_steps c assertions implementations st)"

definition catalog_gate :: "catalog_host \<Rightarrow> gate py" where
  "catalog_gate c =
     bindE (gate_phase c True \<lparr>gt_rows = [], gt_qualification = [], gt_audits = [], gt_artifacts = []\<rparr>) (\<lambda>st.
     bindE (gate_phase c False st) (\<lambda>st.
     bindE (raise_if (list_ex (\<lambda>row. gr_status row \<noteq> ''qualified'') (gt_rows st))
       (LaneError ''Catalog correctness/build gate failed; see per-build errors in run.json'')) (\<lambda>_.
     bindE (catalog_verify_sources (ch_fingerprint c GatePassed) (gt_audits st) (gt_artifacts st)) (\<lambda>_.
     Inr st))))"

section \<open>The measurement\<close>

definition verify_artifacts :: "catalog_host \<Rightarrow> catalog_moment \<Rightarrow> gate \<Rightarrow> unit py" where
  "verify_artifacts c m st = forE (\<lambda>(i, artifact). catalog_verify_artifact (ch_sha c m) artifact) (gt_artifacts st)"

definition measured_executable :: "gate \<Rightarrow> string \<Rightarrow> string py" where
  "measured_executable st implementation = bindE (py_item (map_of (gt_artifacts st)) implementation) executable_of"

definition comparison_options :: "catalog_host \<Rightarrow> string \<Rightarrow> string \<Rightarrow> bench_options" where
  \<comment> \<open>the argument list \<open>arguments\<close>\<close>
  "comparison_options c baseline candidate =
     \<lparr>op_baseline = Some baseline, op_candidate = Some candidate, op_output_dir = Some (ch_comparison_dir c),
      op_workload = [''catalog''], op_xml_file = [], op_iterations = Some (show_int (ch_iterations c)),
      op_file_iterations = None, op_xml_iterations = None, op_pairs = Some (show_int (ch_pairs c)),
      op_warmups = Some (show_int (ch_warmups c)),
      op_min_sample_seconds = Some (ch_show_float c (ch_min_sample_seconds c)),
      op_timeout_seconds = Some (show_int (ch_sample_timeout_seconds c))\<rparr>"

definition COMPARISON_FILES :: "string list" where
  "COMPARISON_FILES = map ((@) ''comparison/'') REPORT_NAMES"

fun lane_events :: "bench_event \<Rightarrow> event list" where
  \<comment> \<open>the report files of the comparison, as files of the lane\<close>
  "lane_events (Published name _) = [Report (''comparison/'' @ name)]"
| "lane_events ReportsCleared = map Removed COMPARISON_FILES"
| "lane_events _ = []"

definition measure :: "catalog_host \<Rightarrow> bench_options \<Rightarrow> bench_report option lane" where
  \<comment> \<open>\<open>paired.main(arguments)\<close>, which always returns (\<open>paired_main_returns\<close>), and the report it published\<close>
  "measure c arguments = (case the (paired_main (ch_bench c) arguments) of
      (evs, Inl e) \<Rightarrow> (concat (map lane_events evs), Inl e)
    | (evs, Inr status) \<Rightarrow> (concat (map lane_events evs),
        if status \<noteq> 0 then Inl (LaneError ''Catalog paired measurement failed'')
        else Inr (map_of (published evs []) ''comparison.json'')))"

definition take_comparison :: "catalog_host \<Rightarrow> gate \<Rightarrow> bench_report option \<Rightarrow> json py" where
  "take_comparison c st written =
     bindE (ch_read c written) (\<lambda>comparison.
     bindE (validate_comparison (ch_resolve_text c) comparison (gt_artifacts st) (ch_pairs c)) (\<lambda>_.
     bindE (verify_artifacts c Measured st) (\<lambda>_.
     bindE (catalog_verify_sources (ch_fingerprint c Measured) (gt_audits st) (gt_artifacts st)) (\<lambda>_.
     Inr comparison))))"

section \<open>The lane\<close>

record catalog_report =
  ct_document_sha256 :: string
  ct_artifacts :: "(string \<times> json) list"
  ct_qualification :: "gate_row list"
  ct_comparison :: json

definition catalog_control_json :: "control \<Rightarrow> json" where
  "catalog_control_json r = JObj [(''case_id'', JStr (ctl_id r)), (''status'', JStr (ctl_status r)), (''detail'', JStr (ctl_detail r))]"

definition gate_row_json :: "gate_row \<Rightarrow> json" where
  \<comment> \<open>a qualified row\<close>
  "gate_row_json q = JObj [(''implementation'', JStr (gr_implementation q)), (''assertions'', JBool (gr_assertions q)),
     (''status'', JStr (gr_status q)), (''manifest'', JStr (gr_manifest q)),
     (''cases'', JList (map catalog_control_json (gr_cases q)))]"

definition catalog_report_json :: "catalog_report \<Rightarrow> json" where
  "catalog_report_json r = JObj
     [(''schema_version'', JInt 1), (''status'', JStr ''complete''), (''lane'', JStr ''catalog-finalized-assertions-off''),
      (''input'', JObj [(''name'', JStr ''catalog-100-items''), (''bytes'', JInt (int (length DOCUMENT))),
         (''sha256'', JStr (ct_document_sha256 r))]),
      (''artifacts'', JObj (ct_artifacts r)), (''qualification'', JList (map gate_row_json (ct_qualification r))),
      (''comparison'', ct_comparison r)]"

definition catalog_publish_reports :: "catalog_host \<Rightarrow> json \<Rightarrow> unit lane" where
  \<comment> \<open>the summary is complete in its temporary file before \<open>report.json\<close> appears\<close>
  "catalog_publish_reports c report =
     (case bindA (pureA (ch_markdown c report)) (\<lambda>_.
        bindA (write_atomic (ch_write c) ''report.json'') (\<lambda>_. write_atomic (ch_write c) ''summary.md'')) of
       (evs, Inl e) \<Rightarrow> (evs @ [Removed ''report.json'', Removed ''summary.md''], Inl e)
     | (evs, Inr u) \<Rightarrow> (evs, Inr u))"

definition CATALOG_FINALS :: "string list" where
  "CATALOG_FINALS = COMPARISON_FILES @ [''report.json'', ''summary.md'']"

definition catalog_body :: "catalog_host \<Rightarrow> catalog_report lane" where
  "catalog_body c =
     bindA (write_run (ch_run_json c) ''running'') (\<lambda>_.
     bindA (pureA (ch_toolchain c)) (\<lambda>_.
     bindA (pureA (catalog_gate c)) (\<lambda>st.
     bindA (write_run (ch_run_json c) ''qualified'') (\<lambda>_.
     bindA (pureA (verify_artifacts c Measuring st)) (\<lambda>_.
     bindA (pureA (bindE (measured_executable st ''xpact'') (\<lambda>baseline.
                   bindE (measured_executable st ''xpact-core'') (\<lambda>candidate.
                   Inr (comparison_options c baseline candidate))))) (\<lambda>arguments.
     bindA (write_run (ch_run_json c) ''measuring'') (\<lambda>_.
     bindA (measure c arguments) (\<lambda>written.
     bindA (pureA (take_comparison c st written)) (\<lambda>comparison.
     let report = \<lparr>ct_document_sha256 = ch_document_sha256 c, ct_artifacts = gt_artifacts st,
                   ct_qualification = gt_qualification st, ct_comparison = comparison\<rparr> in
     bindA (catalog_publish_reports c (catalog_report_json report)) (\<lambda>_.
     bindA (write_run (ch_run_json c) ''complete'') (\<lambda>_.
     pureA (Inr report))))))))))))"

definition catalog_run_lane :: "catalog_host \<Rightarrow> catalog_report lane" where
  \<comment> \<open>the run directory must be new, so cleaning up cannot erase earlier evidence\<close>
  "catalog_run_lane c = bindA (pureA (ch_mkdir c [])) (\<lambda>_. guard_lane (ch_run_json c) (catalog_body c))"

section \<open>The script\<close>

record catalog_options =
  co_iterations :: "string option"
  co_pairs :: "string option"
  co_warmups :: "string option"
  co_min_sample_seconds :: "string option"
  co_sample_timeout_seconds :: "string option"

definition catalog_parse :: "catalog_options \<Rightarrow> catalog_host \<Rightarrow> catalog_host py" where
  \<comment> \<open>the host with the options of the command line\<close>
  "catalog_parse o' c =
     bindE (converted_option positive_int 1000 (co_iterations o')) (\<lambda>iterations.
     bindE (converted_option positive_int 6 (co_pairs o')) (\<lambda>pairs.
     bindE (converted_option positive_int 2 (co_warmups o')) (\<lambda>warmups.
     bindE (converted_option nonnegative_float 1 (co_min_sample_seconds o')) (\<lambda>min_sample.
     bindE (converted_option positive_int 120 (co_sample_timeout_seconds o')) (\<lambda>timeout.
     Inr (c\<lparr>ch_iterations := iterations, ch_pairs := pairs, ch_warmups := warmups,
            ch_min_sample_seconds := min_sample, ch_sample_timeout_seconds := timeout\<rparr>))))))"

definition catalog_main :: "catalog_options \<Rightarrow> catalog_host \<Rightarrow> int lane" where
  "catalog_main o' c =
     bindA (pureA (catalog_parse o' c)) (\<lambda>c'. case catalog_run_lane c' of
        (evs, Inr _) \<Rightarrow> (evs, Inr 0)
      | (evs, Inl e) \<Rightarrow> (evs, if caught e then Inr 1 else Inl e))"

end
