(* ===== verification/Catalog_Proofs.thy ===== *)
theory Catalog_Proofs
  imports Dual_Catalog Report_Bridge
begin

text \<open>
  Facts of the catalog lane: its gate, the trace of a returned lane, the lane contract, and that the
  comparison it takes over is accepted by the readers of its report.
\<close>

section \<open>The gate\<close>

definition qualified_row :: "gate_row \<Rightarrow> bool" where
  \<comment> \<open>every directed control of the matrix passed\<close>
  "qualified_row q \<longleftrightarrow> gr_status q = ''qualified'' \<and> matrix_ok (map ctl_id (gr_cases q)) CATALOG_CASES
     \<and> list_all (\<lambda>r. ctl_status r = ''PASS'') (gr_cases q)"

definition gate_matches :: "bool \<Rightarrow> string \<times> json \<Rightarrow> bool" where
  "gate_matches assertions = (\<lambda>(i, a). build_matches ''catalog'' a i assertions)"

definition gate_inv :: "gate \<Rightarrow> bool" where
  "gate_inv st \<longleftrightarrow> filter (\<lambda>row. gr_status row = ''qualified'') (gt_rows st) = gt_qualification st
     \<and> map gr_implementation (filter gr_assertions (gt_qualification st)) = map fst (gt_audits st)
     \<and> map gr_implementation (filter (\<lambda>row. \<not> gr_assertions row) (gt_qualification st)) = map fst (gt_artifacts st)
     \<and> list_all qualified_row (gt_qualification st)
     \<and> list_all (gate_matches False) (gt_artifacts st) \<and> list_all (gate_matches True) (gt_audits st)"

lemma catalog_qualification_Inr:
  "catalog_validate_qualification output metadata = Inr cases \<Longrightarrow>
     matrix_ok (map ctl_id cases) CATALOG_CASES \<and> list_all (\<lambda>r. ctl_status r = ''PASS'') cases"
  unfolding catalog_validate_qualification_def Let_def
  by (elim bindE_InrE if_InlE) (auto simp: bindE_Inr_iff list_all_iff split: if_splits)

lemma catalog_validate_build_matches:
  "catalog_validate_build sha a i assertions = Inr u \<Longrightarrow> build_matches ''catalog'' a i assertions"
  by (auto simp: catalog_validate_build_def bindE_Inr_iff intro: build_mismatch_False split: if_splits)

lemma qualified_build_Inr:
  assumes "qualified_build c i assertions = Inr (manifest, artifact, cases)"
  shows "build_matches ''catalog'' artifact i assertions" "matrix_ok (map ctl_id cases) CATALOG_CASES"
    "list_all (\<lambda>r. ctl_status r = ''PASS'') cases"
proof -
  from assms obtain executable stdout where
    "catalog_validate_build (ch_sha c (GateBuild i assertions)) artifact i assertions = Inr ()"
    "catalog_validate_qualification stdout artifact = Inr cases"
    unfolding qualified_build_def by (elim bindE_InrE) (auto split: prod.splits elim!: bindE_InrE)
  then show "build_matches ''catalog'' artifact i assertions" "matrix_ok (map ctl_id cases) CATALOG_CASES"
    "list_all (\<lambda>r. ctl_status r = ''PASS'') cases"
    using catalog_qualification_Inr by (blast intro: catalog_validate_build_matches)+
qed

lemma gate_step_rows:
  assumes "gate_step c assertions i st = Inr st'"
  shows "\<exists>row. gt_rows st' = gt_rows st @ [row] \<and> gr_implementation row = i \<and> gr_assertions row = assertions"
  using assms unfolding gate_step_def Let_def by (auto split: sum.splits if_splits)

lemma gate_step_inv:
  assumes "gate_step c assertions i st = Inr st'" and "gate_inv st"
  shows "gate_inv st'"
proof (cases "qualified_build c i assertions")
  case (Inl e)
  with assms show ?thesis by (auto simp: gate_step_def gate_inv_def split: if_splits)
next
  case (Inr r)
  obtain manifest artifact cases where r: "r = (manifest, artifact, cases)" by (cases r)
  define row where "row = \<lparr>gr_implementation = i, gr_assertions = assertions, gr_status = ''qualified'',
    gr_manifest = manifest, gr_cases = cases, gr_error = None\<rparr>"
  have row: "gr_implementation row = i" "gr_assertions row = assertions" "gr_status row = ''qualified''" "qualified_row row"
    "gate_matches assertions (i, artifact)"
    using qualified_build_Inr [OF Inr [unfolded r]] by (simp_all add: row_def qualified_row_def gate_matches_def)
  have st': "st' = (if assertions
      then st\<lparr>gt_rows := gt_rows st @ [row], gt_qualification := gt_qualification st @ [row],
              gt_audits := gt_audits st @ [(i, artifact)]\<rparr>
      else st\<lparr>gt_rows := gt_rows st @ [row], gt_qualification := gt_qualification st @ [row],
              gt_artifacts := gt_artifacts st @ [(i, artifact)]\<rparr>)"
    using assms(1) unfolding gate_step_def Inr r sum.case prod.case Let_def row_def [symmetric] by (rule Inr_inject [symmetric])
  show ?thesis
  proof (cases assertions)
    case True
    with row assms(2) show ?thesis unfolding st' by (simp add: gate_inv_def)
  next
    case False
    with row assms(2) show ?thesis unfolding st' by (simp add: gate_inv_def)
  qed
qed

lemma gate_steps_inv:
  "gate_steps c assertions is st = Inr st' \<Longrightarrow> gate_inv st \<Longrightarrow> gate_inv st'
     \<and> (\<exists>new. gt_rows st' = gt_rows st @ new
          \<and> map (\<lambda>row. (gr_implementation row, gr_assertions row)) new = map (\<lambda>i. (i, assertions)) is)"
proof (induction "is" arbitrary: st)
  case (Cons i "is")
  from Cons.prems(1) obtain st1 where st1: "gate_step c assertions i st = Inr st1"
    "gate_steps c assertions is st1 = Inr st'" by (auto simp: bindE_Inr_iff)
  from Cons.IH [OF st1(2) gate_step_inv [OF st1(1) Cons.prems(2)]] gate_step_rows [OF st1(1)]
  show ?case by fastforce
qed simp

lemma catalog_gate_Inr:
  assumes "catalog_gate c = Inr st"
  shows "gate_inv st" "map (\<lambda>q. (gr_implementation q, gr_assertions q)) (gt_qualification st) = CONTROL_KEYS"
    "map fst (gt_artifacts st) = implementations" "map fst (gt_audits st) = implementations"
    "catalog_verify_sources (ch_fingerprint c GatePassed) (gt_audits st) (gt_artifacts st) = Inr ()"
proof -
  let ?init = "\<lparr>gt_rows = [], gt_qualification = [], gt_audits = [], gt_artifacts = []\<rparr>"
  from assms obtain st1 where st1: "gate_steps c True implementations ?init = Inr st1"
    "gate_steps c False implementations st1 = Inr st"
    and ok: "\<forall>row \<in> set (gt_rows st). gr_status row = ''qualified''"
    and src: "catalog_verify_sources (ch_fingerprint c GatePassed) (gt_audits st) (gt_artifacts st) = Inr ()"
    unfolding catalog_gate_def gate_phase_def
    by (elim bindE_InrE) (auto simp: raise_if_Inr_iff list_ex_iff)
  have "gate_inv ?init" by (simp add: gate_inv_def)
  from gate_steps_inv [OF st1(1) this] obtain new1 where 1: "gate_inv st1" "gt_rows st1 = new1"
    "map (\<lambda>row. (gr_implementation row, gr_assertions row)) new1 = map (\<lambda>i. (i, True)) implementations" by auto
  from gate_steps_inv [OF st1(2) 1(1)] obtain new2 where 2: "gate_inv st" "gt_rows st = new1 @ new2"
    "map (\<lambda>row. (gr_implementation row, gr_assertions row)) new2 = map (\<lambda>i. (i, False)) implementations"
    using 1(2) by auto
  have q: "gt_qualification st = gt_rows st" using 2(1) ok by (simp add: gate_inv_def filter_id_conv)
  show "gate_inv st" by (rule 2(1))
  show m: "map (\<lambda>q. (gr_implementation q, gr_assertions q)) (gt_qualification st) = CONTROL_KEYS"
    unfolding q 2(2) map_append 1(3) 2(3) by (simp add: implementations_def CONTROL_KEYS_def)
  have fl: "map gr_implementation (filter (\<lambda>row. P (gr_assertions row)) qs)
      = map fst (filter (\<lambda>x. P (snd x)) (map (\<lambda>q. (gr_implementation q, gr_assertions q)) qs))" for P qs
    by (induction qs) auto
  show "map fst (gt_artifacts st) = implementations" "map fst (gt_audits st) = implementations"
    using 2(1) fl [of "\<lambda>b. b" "gt_qualification st"] fl [of Not "gt_qualification st"]
    unfolding m by (auto simp: gate_inv_def implementations_def CONTROL_KEYS_def)
  show "catalog_verify_sources (ch_fingerprint c GatePassed) (gt_audits st) (gt_artifacts st) = Inr ()" by (rule src)
qed

section \<open>The measurement of a returned lane\<close>

lemma lane_events_keep: "list_all keeps_reports evs \<Longrightarrow> concat (map lane_events evs) = []"
proof (induction evs)
  case (Cons ev evs)
  then show ?case by (cases ev) (simp_all add: keeps_reports_def)
qed simp

lemma lane_events_published: "concat (map lane_events (map (\<lambda>name. Published name r) names)) = map Report (map ((@) ''comparison/'') names)"
  by (induction names) auto

lemma run_comparison_events:
  assumes "run_comparison h a = Some (evs, Inr report)"
  shows "concat (map lane_events evs) = map Removed COMPARISON_FILES @ map Report COMPARISON_FILES"
    "map_of (published evs []) ''comparison.json'' = Some report"
proof -
  obtain e where e: "comparison_body h a = Some (e, Inr report)" "evs = ReportsCleared # e"
    using run_comparison_Inr(2) [OF assms] by blast
  obtain q where q: "e = q @ map (\<lambda>name. Published name report) REPORT_NAMES" "list_all keeps_reports q"
    by (rule comparison_body_InrE [OF e(1)]) blast
  show "concat (map lane_events evs) = map Removed COMPARISON_FILES @ map Report COMPARISON_FILES"
    unfolding e(2) q(1) list.map concat.simps lane_events.simps map_append concat_append
      lane_events_keep [OF q(2)] lane_events_published COMPARISON_FILES_def by simp
  show "map_of (published evs []) ''comparison.json'' = Some report"
    using run_comparison_Inr(1) [OF assms, of "[]"] by (simp add: both_reports_def REPORT_NAMES_def)
qed

lemma measure_Inr:
  assumes "measure c arguments = (evs, Inr written)"
  obtains a report e where "paired_parse_args (ch_bench c) arguments = Inr a"
    "run_comparison (ch_bench c) a = Some (e, Inr report)" "written = Some report"
    "evs = map Removed COMPARISON_FILES @ map Report COMPARISON_FILES"
proof -
  obtain e r where m: "paired_main (ch_bench c) arguments = Some (e, r)"
    using paired_main_not_None [of "ch_bench c" arguments] by auto
  have z: "r = Inr 0" and w: "written = map_of (published e []) ''comparison.json''" "evs = concat (map lane_events e)"
    using assms unfolding measure_def m by (auto split: sum.splits if_splits)
  obtain a report where a: "paired_parse_args (ch_bench c) arguments = Inr a"
    "run_comparison (ch_bench c) a = Some (e, Inr report)" by (rule paired_main_zero [OF m [unfolded z]])
  with w run_comparison_events [OF a(2)] that show thesis by simp
qed

section \<open>The contract of the lane\<close>

lemma catalog_publish_Inr:
  "catalog_publish_reports c v = (evs, Inr u) \<Longrightarrow> evs = [Report ''report.json'', Report ''summary.md'']"
  unfolding catalog_publish_reports_def
  by (auto simp: bindA_Inr_iff write_Inr split: prod.splits sum.splits)

definition returned_report :: "catalog_host \<Rightarrow> gate \<Rightarrow> json \<Rightarrow> catalog_report" where
  "returned_report c st comparison = \<lparr>ct_document_sha256 = ch_document_sha256 c, ct_artifacts = gt_artifacts st,
     ct_qualification = gt_qualification st, ct_comparison = comparison\<rparr>"

definition returned_events :: "event list" where
  "returned_events = [RunJson ''running'', RunJson ''qualified'', RunJson ''measuring''] @ map Removed COMPARISON_FILES
     @ map Report COMPARISON_FILES @ [Report ''report.json'', Report ''summary.md'', RunJson ''complete'']"

lemma catalog_body_Inr:
  assumes "catalog_body c = (evs, Inr r)"
  obtains st arguments a report e comparison where "catalog_gate c = Inr st" "verify_artifacts c Measuring st = Inr ()"
    "bindE (measured_executable st ''xpact'') (\<lambda>baseline. bindE (measured_executable st ''xpact-core'') (\<lambda>candidate.
       Inr (comparison_options c baseline candidate))) = Inr arguments"
    "paired_parse_args (ch_bench c) arguments = Inr a" "run_comparison (ch_bench c) a = Some (e, Inr report)"
    "take_comparison c st (Some report) = Inr comparison" "r = returned_report c st comparison" "evs = returned_events"
proof -
  from assms obtain st arguments e4 written comparison u e5 where
    g: "catalog_gate c = Inr st" "verify_artifacts c Measuring st = Inr ()"
    "bindE (measured_executable st ''xpact'') (\<lambda>baseline. bindE (measured_executable st ''xpact-core'') (\<lambda>candidate.
       Inr (comparison_options c baseline candidate))) = Inr arguments"
    and m: "measure c arguments = (e4, Inr written)" and t: "take_comparison c st written = Inr comparison"
    and p: "catalog_publish_reports c (catalog_report_json (returned_report c st comparison)) = (e5, Inr u)"
    and r: "r = returned_report c st comparison"
    and evs: "evs = [RunJson ''running''] @ [RunJson ''qualified''] @ [RunJson ''measuring''] @ e4 @ e5 @ [RunJson ''complete'']"
    unfolding catalog_body_def Let_def returned_report_def [symmetric]
    by (auto simp: bindA_Inr_iff write_Inr simp del: bindE_Inr_iff)
  obtain a report e where a: "paired_parse_args (ch_bench c) arguments = Inr a"
    "run_comparison (ch_bench c) a = Some (e, Inr report)" "written = Some report"
    "e4 = map Removed COMPARISON_FILES @ map Report COMPARISON_FILES" by (rule measure_Inr [OF m])
  have "evs = returned_events" unfolding evs a(4) catalog_publish_Inr [OF p] returned_events_def by simp
  with that g a t r show thesis by blast
qed

lemma catalog_run_lane_Inr:
  assumes "catalog_run_lane c = (evs, Inr r)"
  shows "catalog_body c = (evs, Inr r)"
  using assms unfolding catalog_run_lane_def by (auto simp: bindA_Inr_iff guard_lane_Inr)

lemma returned_events_reports: "reports returned_events = CATALOG_FINALS" "run_status returned_events = Some ''complete''"
  by (simp_all add: returned_events_def CATALOG_FINALS_def COMPARISON_FILES_def REPORT_NAMES_def reports_def run_status_def)

interpretation catalog_lane: lane_contract catalog_run_lane "\<lambda>_. ''complete''" "\<lambda>_. CATALOG_FINALS"
proof unfold_locales
  show "CATALOG_FINALS \<noteq> []" by (simp add: CATALOG_FINALS_def)
  show "reports evs = []" if "catalog_run_lane c = (evs, Inl e)" for c evs e
    using that unfolding catalog_run_lane_def by (drule_tac bindA_pure_Inl) (auto dest: guard_lane_Inl)
  show "reports evs = CATALOG_FINALS \<and> run_status evs = Some ''complete''"
    if "catalog_run_lane c = (evs, Inr r)" for c evs r
    using catalog_run_lane_Inr [OF that] by (elim catalog_body_Inr) (simp add: returned_events_reports)
qed

end
