(* ===== verification/Catalog_Bridge.thy ===== *)
theory Catalog_Bridge
  imports Catalog_Proofs
begin

text \<open>
  From the comparison to its readers: the JSON value of the report \<open>compare_eiffel_benchmarks.py\<close>
  writes to \<open>comparison.json\<close>, and that \<open>catalog_plots\<close> of \<open>dual_jenkins_reports.py\<close>
  accepts it in the report of a returned lane.
\<close>

section \<open>The comparison as JSON\<close>

definition FIELDS :: "string list" where
  "FIELDS = [''Workload'', ''Pair'', ''Order'', ''Iterations'', ''DocumentBytes'', ''BaselineElapsedMs'',
     ''CandidateElapsedMs'', ''BaselineMiBPerSecond'', ''CandidateMiBPerSecond'', ''CandidateSpeedRatio'']"

definition number :: "rat \<Rightarrow> json" where
  "number q = JFloat (Fin q)"

definition pair_json :: "comparison_pair \<Rightarrow> json" where
  "pair_json p = JObj (zip FIELDS [JStr (cp_workload p), JInt (cp_pair p), JStr (cp_order p), JInt (cp_iterations p),
     JInt (cp_document_bytes p), number (cp_baseline_ms p), number (cp_candidate_ms p), number (cp_baseline_rate p),
     number (cp_candidate_rate p), number (cp_ratio p)])"

definition calibration_json :: "calibration_row \<Rightarrow> json" where
  "calibration_json r = JObj [(''Workload'', JStr (cr_workload r)), (''Iterations'', JInt (cr_iterations r)),
     (''BaselineElapsedMs'', number (cr_baseline_ms r)), (''CandidateElapsedMs'', number (cr_candidate_ms r))]"

definition workload_summary_json :: "workload_summary \<Rightarrow> json" where
  "workload_summary_json s = JObj [(''workload'', JStr (ws_workload s)), (''pairs'', JInt (int (ws_pairs s))),
     (''iterations'', JInt (ws_iterations s)), (''document_bytes'', JInt (ws_document_bytes s)),
     (''median_candidate_speed_ratio'', number (ws_median_ratio s)),
     (''min_candidate_speed_ratio'', number (ws_min_ratio s)), (''max_candidate_speed_ratio'', number (ws_max_ratio s)),
     (''median_baseline_ms'', number (ws_median_baseline_ms s)), (''median_candidate_ms'', number (ws_median_candidate_ms s)),
     (''min_baseline_ms'', number (ws_min_baseline_ms s)), (''max_baseline_ms'', number (ws_max_baseline_ms s)),
     (''min_candidate_ms'', number (ws_min_candidate_ms s)), (''max_candidate_ms'', number (ws_max_candidate_ms s))]"

definition optional_json :: "string option \<Rightarrow> json" where
  "optional_json v = (case v of None \<Rightarrow> JNull | Some s \<Rightarrow> JStr s)"

definition workload_json :: "workload_metadata \<Rightarrow> json" where
  "workload_json w = JObj [(''name'', JStr (wm_name w)), (''path'', optional_json (wm_path w)),
     (''document_bytes'', JInt (wm_document_bytes w)), (''initial_iterations'', JInt (wm_initial_iterations w)),
     (''sha256'', optional_json (wm_sha256 w))]"

definition comparison_json :: "(string \<times> json) list \<Rightarrow> bench_report \<Rightarrow> json" where
  \<comment> \<open>\<open>environment\<close> are the fields that describe the machine and the method\<close>
  "comparison_json environment r = JObj
     [(''metadata'', JObj
        ([(''executables'', JObj (map (\<lambda>(role, p, digest). (role, JObj [(''path'', JStr p), (''sha256'', JStr digest)])) (rp_executables r))),
          (''warmups'', JInt (rp_warmups r)), (''pairs'', JInt (rp_pairs r)),
          (''min_sample_seconds'', number (rp_min_sample_seconds r)),
          (''workloads'', JList (map workload_json (rp_workloads r)))] @ environment)),
      (''calibration'', JList (map calibration_json (rp_calibration r))),
      (''results'', JList (map pair_json (rp_results r))),
      (''summary'', JList (map workload_summary_json (rp_summary r)))]"

definition read_back :: "(string \<times> json) list \<Rightarrow> bench_report option \<Rightarrow> json py" where
  \<comment> \<open>parsing the file gives the value that was written\<close>
  "read_back environment written = (case written of
      None \<Rightarrow> Inl (OSError ''comparison.json'') | Some r \<Rightarrow> Inr (comparison_json environment r))"

lemma comparison_json_fields [simp]:
  "j_item (comparison_json env r) ''results'' = Inr (JList (map pair_json (rp_results r)))"
  "path_item (comparison_json env r) [''metadata'', ''pairs''] = Inr (JInt (rp_pairs r))"
  by (simp_all add: comparison_json_def j_item_JObj)

lemma pair_json_fields [simp]:
  "j_item (pair_json p) ''Workload'' = Inr (JStr (cp_workload p))"
  "j_item (pair_json p) ''Pair'' = Inr (JInt (cp_pair p))"
  "j_item (pair_json p) ''Order'' = Inr (JStr (cp_order p))"
  "j_item (pair_json p) ''Iterations'' = Inr (JInt (cp_iterations p))"
  "j_item (pair_json p) ''DocumentBytes'' = Inr (JInt (cp_document_bytes p))"
  "j_item (pair_json p) ''BaselineElapsedMs'' = Inr (number (cp_baseline_ms p))"
  "j_item (pair_json p) ''CandidateElapsedMs'' = Inr (number (cp_candidate_ms p))"
  "j_item (pair_json p) ''BaselineMiBPerSecond'' = Inr (number (cp_baseline_rate p))"
  "j_item (pair_json p) ''CandidateMiBPerSecond'' = Inr (number (cp_candidate_rate p))"
  by (simp_all add: pair_json_def FIELDS_def j_item_JObj)

section \<open>Rows of the catalog workload\<close>

definition plot_row :: "comparison_pair \<Rightarrow> pair_row" where
  "plot_row p = \<lparr>pr_iterations = cp_iterations p, pr_baseline_ms = cp_baseline_ms p, pr_candidate_ms = cp_candidate_ms p,
     pr_baseline_rate = cp_baseline_rate p, pr_candidate_rate = cp_candidate_rate p\<rparr>"

lemma isclose_refl: "0 \<le> t \<Longrightarrow> isclose t q q"
  by (simp add: isclose_def)

lemma positive_number_number: "0 < q \<Longrightarrow> positive_number (number q) = Inr q"
  by (simp add: positive_number_def number_def)

lemma catalog_row_measured:
  assumes w: "wl_name w = ''catalog''" and bytes: "0 < wl_document_bytes w" and count: "1 \<le> count" and k: "1 \<le> k"
    and x: "0 < x" and y: "0 < y"
  shows "catalog_row (wl_document_bytes w) (nat k, pair_json (pair_row_of w count k x y)) = Inr (plot_row (pair_row_of w count k x y))"
proof -
  let ?p = "pair_row_of w count k x y"
  define mib :: rat where "mib = of_int (count * wl_document_bytes w) / 1048576"
  have mib: "0 < mib" using bytes count by (simp add: mib_def)
  have p: "cp_workload ?p = ''catalog''" "cp_pair ?p = k" "cp_iterations ?p = count" "cp_document_bytes ?p = wl_document_bytes w"
    "cp_baseline_ms ?p = x * 1000" "cp_candidate_ms ?p = y * 1000" "cp_baseline_rate ?p = mib / x" "cp_candidate_rate ?p = mib / y"
    by (simp_all add: pair_row_of_def Let_def w mib_def)
  have order: "cp_order ?p = order_of (nat k)"
    using k by (simp add: pair_row_of_def Let_def pair_order_def order_of_def even_nat_iff)
  have bad: "anyE [item_ne (pair_json ?p) ''Workload'' ''catalog'', notE (item_is_int (pair_json ?p) ''Pair'' (int (nat k))),
      item_ne (pair_json ?p) ''Order'' (order_of (nat k)), notE (item_is_int (pair_json ?p) ''DocumentBytes'' (wl_document_bytes w))]
    = Inr False"
    using k by (simp add: anyE.simps item_ne_def notE_def item_is_int_def p(1,2,4) order fl_eq_def)
  have rate: "of_int (wl_document_bytes w * count) / (1024 * 1024) / (z * 1000 / 1000) = mib / z" if "0 < z" for z :: rat
    by (simp add: mib_def mult.commute)
  have pos: "positive_number (number (z * 1000)) = Inr (z * 1000)" "positive_number (number (mib / z)) = Inr (mib / z)"
    if "0 < z" for z using that mib by (simp_all add: positive_number_number)
  have b: "measurement (pair_json ?p) ''Baseline'' (wl_document_bytes w) count = Inr (x * 1000, mib / x)"
    unfolding measurement_def append.simps pair_json_fields bindE_simps p pos [OF x] Let_def rate [OF x]
    by (simp add: isclose_refl)
  have c: "measurement (pair_json ?p) ''Candidate'' (wl_document_bytes w) count = Inr (y * 1000, mib / y)"
    unfolding measurement_def append.simps pair_json_fields bindE_simps p pos [OF y] Let_def rate [OF y]
    by (simp add: isclose_refl)
  show ?thesis unfolding catalog_row_def prod.case bad
    using count by (simp add: p b c case_count_def plot_row_def)
qed

section \<open>The comparison of a returned lane\<close>

lemma catalog_length_pos: "0 < int (length catalog_document)" "catalog_document = DOCUMENT"
  by (simp_all add: catalog_document_def DOCUMENT_def)

lemma prepare_catalog:
  assumes "ag_workload a = [''catalog'']" "prepare_workloads h a = (e, Inr ws)"
  shows "ws = [\<lparr>wl_name = ''catalog'', wl_path = None, wl_document_bytes = int (length DOCUMENT),
    wl_iterations = ag_iterations a\<rparr>]"
  using assms(2) unfolding prepare_workloads_def selected_workloads_def assms(1)
  by (simp add: prepare_workload_def bindA_Inr_iff catalog_length_pos)

lemma run_workload_Inr:
  assumes "run_workload h a w = Some (e, Inr wr)" "workload_in_range w"
  obtains count where "in_range count" "wr_results wr = map (measured_row h w count) [1..ag_pairs a]"
    "list_all (positive_times h w count) [1..ag_pairs a]"
proof -
  from assms(1) obtain e1 count cal e2 rows where
    c: "calibrated h a w = Some (e1, Inr (count, cal))" and m: "measured h a w count = (e2, Inr rows)"
    and r: "wr_results wr = rows"
    unfolding run_workload_def by (auto simp: bindO_Inr_iff case_prod_beta)
  have "in_range count" using calibrated_bound [OF assms(2), of h a] by (auto simp: c)
  then show thesis using measured_Inr(2,3) [OF m] r by (intro that) simp_all
qed

definition catalog_rows_ok :: "bench_report \<Rightarrow> int \<Rightarrow> (int \<Rightarrow> rat) \<Rightarrow> (int \<Rightarrow> rat) \<Rightarrow> workload \<Rightarrow> bool" where
  \<comment> \<open>the pairs of one workload with one count and positive times\<close>
  "catalog_rows_ok r count x y w \<longleftrightarrow> wl_name w = ''catalog'' \<and> wl_document_bytes w = int (length DOCUMENT)
     \<and> in_range count \<and> in_range (rp_pairs r)
     \<and> rp_results r = map (\<lambda>k. pair_row_of w count k (x k) (y k)) [1..rp_pairs r]
     \<and> list_all (\<lambda>k. 0 < x k \<and> 0 < y k) [1..rp_pairs r]"

lemma comparison_of_catalog:
  assumes "paired_parse_args h o' = Inr a" "op_workload o' = [''catalog'']" "run_comparison h a = Some (e, Inr report)"
  shows "\<exists>count x y w. catalog_rows_ok report count x y w"
proof -
  have a: "args_in_range a" by (rule parse_args_in_range [OF assms(1)])
  have sel: "ag_workload a = [''catalog'']" using assms(1,2) unfolding paired_parse_args_def
    by (elim bindE_InrE) auto
  obtain e' where body: "comparison_body h a = Some (e', Inr report)" using run_comparison_Inr(2) [OF assms(3)] by blast
  obtain identities e1 ws metadata e2 runs where ws: "prepare_workloads h a = (e1, Inr ws)"
    "mapO (run_workload h a) ws = Some (e2, Inr runs)" and rep: "report = report_of a identities metadata runs"
    by (rule comparison_body_InrE [OF body]) blast
  define w where "w = \<lparr>wl_name = ''catalog'', wl_path = None, wl_document_bytes = int (length DOCUMENT),
    wl_iterations = ag_iterations a\<rparr>"
  have w: "ws = [w]" "workload_in_range w"
    using prepare_catalog [OF sel ws(1)] prepare_workloads_in_range [OF a ws(1)] by (simp_all add: w_def)
  from ws(2) obtain e3 wr where wr: "run_workload h a w = Some (e3, Inr wr)" "runs = [wr]"
    unfolding w(1) by (auto simp: bindO_Inr_iff)
  obtain count where c: "in_range count" "wr_results wr = map (measured_row h w count) [1..ag_pairs a]"
    "list_all (positive_times h w count) [1..ag_pairs a]" by (rule run_workload_Inr [OF wr(1) w(2)])
  have "catalog_rows_ok report count (\<lambda>k. pair_time h w count k ''A'') (\<lambda>k. pair_time h w count k ''B'') w"
    using a c unfolding catalog_rows_ok_def
    by (simp add: rep report_of_def wr(2) w_def args_in_range_def measured_row_def [abs_def] positive_times_def [abs_def])
  then show ?thesis by blast
qed

section \<open>The report of a returned lane is plotted\<close>

lemma enumerate_upto: "enumerate 1 (map f [1..n]) = map (\<lambda>k. (nat k, f k)) [1..n]"
proof -
  have "enumerate (nat m) (map f [m..n]) = map (\<lambda>k. (nat k, f k)) [m..n]" if "0 \<le> m" for m
    using that
  proof (induction m n rule: upto.induct)
    case (1 m n)
    show ?case
    proof (cases "m \<le> n")
      case True
      have "Suc (nat m) = nat (m + 1)" using 1(2) by simp
      then show ?thesis using 1 True by (simp only: upto_rec1 [OF True] list.map enumerate_simps)
    qed simp
  qed
  from this [of 1] show ?thesis by (simp del: upto_rec_numeral)
qed

lemma catalog_rows_accepted:
  assumes "catalog_rows_ok r count x y w"
  shows "mapE (catalog_row (int (length DOCUMENT))) (enumerate 1 (map pair_json (rp_results r))) = Inr (map plot_row (rp_results r))"
    "card (pr_iterations ` set (map plot_row (rp_results r))) = 1"
    "int (length (rp_results r)) = rp_pairs r" "1 \<le> rp_pairs r"
proof -
  let ?row = "\<lambda>k. pair_row_of w count k (x k) (y k)"
  have r: "rp_results r = map ?row [1..rp_pairs r]" and n: "1 \<le> rp_pairs r"
    using assms by (simp_all add: catalog_rows_ok_def in_range_def)
  have "catalog_row (int (length DOCUMENT)) (nat k, pair_json (?row k)) = Inr (plot_row (?row k))"
    if "k \<in> set [1..rp_pairs r]" for k
    using assms that catalog_row_measured [of w count k "x k" "y k"] catalog_length_pos
    by (auto simp: catalog_rows_ok_def list_all_iff in_range_def)
  then have "mapE (catalog_row (int (length DOCUMENT))) (map (\<lambda>k. (nat k, pair_json (?row k))) [1..rp_pairs r])
    = Inr (map (\<lambda>k. plot_row (?row k)) [1..rp_pairs r])"
    unfolding mapE_map by (rule mapE_total)
  then show "mapE (catalog_row (int (length DOCUMENT))) (enumerate 1 (map pair_json (rp_results r))) = Inr (map plot_row (rp_results r))"
    unfolding r map_map comp_def enumerate_upto .
  have "pr_iterations ` set (map plot_row (rp_results r)) = (\<lambda>k. count) ` set [1..rp_pairs r]"
    by (subst r) (simp add: image_image plot_row_def pair_row_of_def Let_def)
  also have "\<dots> = {count}" using n by auto
  finally show "card (pr_iterations ` set (map plot_row (rp_results r))) = 1" by simp
  show "int (length (rp_results r)) = rp_pairs r" using n by (subst r) simp
  show "1 \<le> rp_pairs r" by (rule n)
qed

lemma catalog_control_fields [simp]:
  "j_item (catalog_control_json r) ''case_id'' = Inr (JStr (ctl_id r))"
  "j_item (catalog_control_json r) ''status'' = Inr (JStr (ctl_status r))"
  by (simp_all add: catalog_control_json_def j_item_JObj)

lemma gate_row_fields [simp]:
  "j_item (gate_row_json q) ''implementation'' = Inr (JStr (gr_implementation q))"
  "j_item (gate_row_json q) ''assertions'' = Inr (JBool (gr_assertions q))"
  "j_item (gate_row_json q) ''status'' = Inr (JStr (gr_status q))"
  "j_item (gate_row_json q) ''cases'' = Inr (JList (map catalog_control_json (gr_cases q)))"
  "j_get (gate_row_json q) ''qualification_error'' = Inr JNull"
  by (simp_all add: gate_row_json_def dict_simps)

lemma catalog_report_fields [simp]:
  "j_item (catalog_report_json r) ''status'' = Inr (JStr ''complete'')"
  "j_item (catalog_report_json r) ''lane'' = Inr (JStr ''catalog-finalized-assertions-off'')"
  "path_item (catalog_report_json r) [''input'', ''bytes''] = Inr (JInt (int (length DOCUMENT)))"
  "j_item (catalog_report_json r) ''artifacts'' = Inr (JObj (ct_artifacts r))"
  "j_item (catalog_report_json r) ''qualification'' = Inr (JList (map gate_row_json (ct_qualification r)))"
  "j_item (catalog_report_json r) ''comparison'' = Inr (ct_comparison r)"
  by (simp_all add: catalog_report_json_def j_item_JObj)

lemma control_row_catalog:
  assumes "qualified_row q"
  shows "control_row ''catalog'' (gate_row_json q) = Inr False"
proof -
  from assms have q: "gr_status q = ''qualified''" "matrix_ok (map ctl_id (gr_cases q)) CATALOG_CASES"
    "\<forall>c \<in> set (gr_cases q). ctl_status c = ''PASS''" by (simp_all add: qualified_row_def list_all_iff)
  have names: "mapE (\<lambda>c. j_item c ''case_id'') (map catalog_control_json (gr_cases q)) = Inr (map (\<lambda>c. JStr (ctl_id c)) (gr_cases q))"
    by (simp add: mapE_map)
  have ok: "anyE (map control_outcome_bad (map catalog_control_json (gr_cases q))) = Inr False"
    using q(3) unfolding anyE_False_iff by (auto simp: control_outcome_bad_def)
  have failed: "anyE (map (\<lambda>c. bindE (j_item c ''status'') (\<lambda>s. Inr (s = JStr ''FAIL''))) (map catalog_control_json (gr_cases q)))
      = Inr False"
    using q(3) unfolding anyE_False_iff by auto
  have "CATALOG_CONTROLS = CATALOG_CASES" by (simp add: CATALOG_CONTROLS_def CATALOG_CASES_def)
  with q(2) have "length (gr_cases q) = length CATALOG_CONTROLS" "set (map ctl_id (gr_cases q)) = set CATALOG_CONTROLS"
    by (simp_all add: matrix_ok_def)
  then show ?thesis
    unfolding control_row_def
    by (simp add: q(1) item_ne_def truthy_def j_iter_def names Let_def j_set_is_strings ok failed
        del: set_map list.map_comp map_map)
qed

lemma catalog_controls_accepted:
  assumes "map (\<lambda>q. (gr_implementation q, gr_assertions q)) (ct_qualification r) = CONTROL_KEYS"
    and "list_all qualified_row (ct_qualification r)"
  shows "validate_controls (catalog_report_json r) ''catalog'' = Inr False"
proof -
  have k: "map (\<lambda>q. (JStr (gr_implementation q), JBool (gr_assertions q))) (ct_qualification r)
      = map (\<lambda>(i, a). (JStr i, JBool a)) CONTROL_KEYS"
    unfolding assms(1) [symmetric] map_map comp_def by simp
  have "mapE (control_row ''catalog'') (map gate_row_json (ct_qualification r)) = Inr (map (\<lambda>_. False) (ct_qualification r))"
    unfolding mapE_map by (rule mapE_total) (use assms(2) control_row_catalog in \<open>auto simp: list_all_iff\<close>)
  then show ?thesis by (simp add: validate_controls_def j_iter_def mapE_map Let_def k control_matrix_ok)
qed

lemma catalog_plots_accepted:
  assumes "validate_artifacts (catalog_report_json r) ''catalog'' = Inr ()"
    and "validate_controls (catalog_report_json r) ''catalog'' = Inr False"
    and c: "ct_comparison r = comparison_json env rep" and "catalog_rows_ok rep count x y w"
  shows "map_sum id (map sp_values) (catalog_plots (catalog_report_json r)) = Inr
    [[normalized pr_baseline_ms (map plot_row (rp_results rep)), normalized pr_candidate_ms (map plot_row (rp_results rep))],
     [median (map cp_baseline_rate (rp_results rep)), median (map cp_candidate_rate (rp_results rep))]]"
proof -
  note rows = catalog_rows_accepted [OF assms(4)]
  have st: "anyE [item_ne (catalog_report_json r) ''status'' ''complete'',
      item_ne (catalog_report_json r) ''lane'' ''catalog-finalized-assertions-off''] = Inr False"
    by (simp add: anyE.simps item_ne_def)
  have n: "case_count True (JInt (rp_pairs rep)) = Inr (rp_pairs rep)" using rows(4) by (simp add: case_count_def)
  have b: "case_count True (JInt (int (length DOCUMENT))) = Inr (int (length DOCUMENT))"
    using catalog_length_pos by (simp add: case_count_def)
  have rates: "map pr_baseline_rate (map plot_row ps) = map cp_baseline_rate ps"
    "map pr_candidate_rate (map plot_row ps) = map cp_candidate_rate ps" for ps
    by (simp_all add: plot_row_def)
  show ?thesis
    unfolding catalog_plots_def st bindE_simps if_False assms(1,2) catalog_report_fields c comparison_json_fields n b
    by (simp add: j_iter_def rows(1,2) [unfolded One_nat_def] rows(3) plot_spec_def rates del: map_map set_map)
qed

lemma catalog_report_accepted:
  assumes "catalog_run_lane c = (evs, Inr r)" "ch_read c = read_back env"
    and "\<And>e a. (e, a) \<in> set (ct_artifacts r) \<Longrightarrow> unidentified a = Inr False"
  obtains rep where "ct_comparison r = comparison_json env rep"
    "map_sum id (map sp_values) (catalog_plots (catalog_report_json r)) = Inr
      [[normalized pr_baseline_ms (map plot_row (rp_results rep)), normalized pr_candidate_ms (map plot_row (rp_results rep))],
       [median (map cp_baseline_rate (rp_results rep)), median (map cp_candidate_rate (rp_results rep))]]"
proof -
  obtain st arguments a report e comparison where g: "catalog_gate c = Inr st"
    and args: "bindE (measured_executable st ''xpact'') (\<lambda>baseline. bindE (measured_executable st ''xpact-core'') (\<lambda>candidate.
       Inr (comparison_options c baseline candidate))) = Inr arguments"
    and p: "paired_parse_args (ch_bench c) arguments = Inr a" and run: "run_comparison (ch_bench c) a = Some (e, Inr report)"
    and t: "take_comparison c st (Some report) = Inr comparison" and r: "r = returned_report c st comparison"
    by (rule catalog_body_Inr [OF catalog_run_lane_Inr [OF assms(1)]]) blast
  have o: "op_workload arguments = [''catalog'']" using args by (auto simp: bindE_Inr_iff comparison_options_def)
  obtain count x y w where rows: "catalog_rows_ok report count x y w" using comparison_of_catalog [OF p o run] by blast
  have cmp: "ct_comparison r = comparison_json env report"
    using t unfolding take_comparison_def assms(2) read_back_def r returned_report_def by (auto simp: bindE_Inr_iff)
  have arts: "ct_artifacts r = gt_artifacts st" "ct_qualification r = gt_qualification st"
    by (simp_all add: r returned_report_def)
  have "validate_artifacts (catalog_report_json r) ''catalog'' = Inr ()"
  proof (rule validate_artifacts_ok)
    show "j_item (catalog_report_json r) ''artifacts'' = Inr (JObj (ct_artifacts r))" by simp
    show "map fst (ct_artifacts r) = implementations" unfolding arts by (rule catalog_gate_Inr [OF g])
    show "build_matches ''catalog'' a e False \<and> unidentified a = Inr False" if "(e, a) \<in> set (ct_artifacts r)" for e a
      using assms(3) [OF that] catalog_gate_Inr(1) [OF g] that
      by (auto simp: arts gate_inv_def gate_matches_def list_all_iff)
  qed
  moreover have "validate_controls (catalog_report_json r) ''catalog'' = Inr False"
    by (rule catalog_controls_accepted) (use catalog_gate_Inr(1,2) [OF g] in \<open>simp_all add: arts gate_inv_def\<close>)
  ultimately show thesis by (rule that [OF cmp catalog_plots_accepted [OF _ _ cmp rows]])
qed

end
