(* ===== verification/Catalog_Sample.thy ===== *)
theory Catalog_Sample
  imports Catalog_Bridge Paired_Sample Dual_W3C_Sample
begin

text \<open>
  A concrete run of the catalog lane: four builds whose directed controls pass, two measured pairs of
  twelve documents. It returns; the properties of the lane are witnessed on it.
\<close>

definition catalog_artifact :: "string \<Rightarrow> bool \<Rightarrow> json" where
  "catalog_artifact implementation assertions = JObj
     [(''status'', JStr ''verified''), (''profile'', JStr ''catalog''), (''implementation'', JStr implementation),
      (''gc_policy'', JStr (the (map_of GC_POLICIES implementation))),
      (''executable'', JStr ''catalog.exe''), (''executable_sha256'', JStr sample_digest),
      (''build_inputs_sha256'', JStr sample_digest),
      (''source'', JObj [(''revision'', JStr (take 40 sample_digest)), (''source_sha256'', JStr ''s1'')]),
      (''build'', JObj [(''configuration'', JStr (configuration_name assertions)),
        (''mode'', JStr ''finalized''), (''assertions'', JBool assertions)])]"

definition catalog_controls :: "string \<Rightarrow> bool \<Rightarrow> string" where
  "catalog_controls implementation assertions = join [newline]
     (join [tab] [''XPACT_CATALOG_IDENTITY'', implementation, take 40 sample_digest, configuration_name assertions,
        the (map_of GC_POLICIES implementation)]
      # map (\<lambda>name. join [tab] [''XPACT_CATALOG_CASE'', name, ''PASS'', ''ok'']) CATALOG_CASES)"

definition catalog_bench :: bench_host where
  "catalog_bench = bench_sample\<lparr>ph_sha := (\<lambda>_. Inr sample_digest)\<rparr>"

definition catalog_sample :: catalog_host where
  "catalog_sample = \<lparr>ch_iterations = 12, ch_pairs = 2, ch_warmups = 1, ch_min_sample_seconds = 1, ch_sample_timeout_seconds = 120,
     ch_mkdir = (\<lambda>_. Inr ()), ch_run_json = (\<lambda>_. Inr ()), ch_write = (\<lambda>_. Inr ()), ch_markdown = (\<lambda>_. Inr ()),
     ch_toolchain = Inr (), ch_build = (\<lambda>i a. Inr (''build.json'', catalog_artifact i a)),
     ch_qualify = (\<lambda>i a. Completed 0 (catalog_controls i a) []), ch_log = (\<lambda>_ _. Inr ()),
     ch_sha = (\<lambda>_ _. Inr sample_digest), ch_fingerprint = (\<lambda>_ _. Inr sample_digest), ch_bench = catalog_bench,
     ch_show_float = (\<lambda>_. ''1''), ch_comparison_dir = ''comparison'', ch_read = read_back [], ch_resolve_text = (\<lambda>s. [s]),
     ch_document_sha256 = sample_digest\<rparr>"

definition sample_gate_row :: "bool \<Rightarrow> string \<Rightarrow> gate_row" where
  "sample_gate_row assertions implementation =
     \<lparr>gr_implementation = implementation, gr_assertions = assertions, gr_status = ''qualified'', gr_manifest = ''build.json'',
      gr_cases = map (\<lambda>name. \<lparr>ctl_id = name, ctl_status = ''PASS'', ctl_detail = ''ok''\<rparr>) CATALOG_CASES, gr_error = None\<rparr>"

definition sample_gate :: gate where
  "sample_gate =
     (let rows = map (sample_gate_row True) implementations @ map (sample_gate_row False) implementations in
      \<lparr>gt_rows = rows, gt_qualification = rows, gt_audits = map (\<lambda>i. (i, catalog_artifact i True)) implementations,
       gt_artifacts = map (\<lambda>i. (i, catalog_artifact i False)) implementations\<rparr>)"

definition catalog_args :: bench_args where
  "catalog_args = \<lparr>ag_baseline = [''catalog.exe''], ag_candidate = [''catalog.exe''], ag_output_dir = [''comparison''],
     ag_workload = [''catalog''], ag_xml_file = [], ag_iterations = 12, ag_file_iterations = 1000, ag_xml_iterations = 32,
     ag_pairs = 2, ag_warmups = 1, ag_min_sample_seconds = 1, ag_timeout_seconds = Some 120\<rparr>"

definition sample_cases_passed :: "control list" where
  "sample_cases_passed = map (\<lambda>name. \<lparr>ctl_id = name, ctl_status = ''PASS'', ctl_detail = ''ok''\<rparr>) CATALOG_CASES"

definition sample_qualified :: "string \<Rightarrow> bool \<Rightarrow> bool" where
  "sample_qualified i a \<longleftrightarrow> catalog_validate_build (\<lambda>_. Inr sample_digest) (catalog_artifact i a) i a = Inr ()
     \<and> catalog_validate_qualification (strip (catalog_controls i a)) (catalog_artifact i a) = Inr sample_cases_passed
     \<and> catalog_verify_artifact (\<lambda>_. Inr sample_digest) (catalog_artifact i a) = Inr ()"

lemma sample_builds_valid:
  "sample_qualified ''xpact'' True" "sample_qualified ''xpact-core'' True"
  "sample_qualified ''xpact'' False" "sample_qualified ''xpact-core'' False"
  by code_simp+

lemma py_float_one: "py_float ''1'' = Inr (Fin 1)"
proof -
  have "(1::rat) < max_double_bound" by (simp add: max_double_bound_def)
  then show ?thesis
    by (simp add: py_float_def split_sign_def strip_def is_space_def lower_char_def mantissa_def digit_part_def is_digit_def
      nat_of_digits_def digit_value_def to_double_def)
qed

lemma sample_parsed:
  "paired_parse_args catalog_bench (comparison_options catalog_sample ''catalog.exe'' ''catalog.exe'') = Inr catalog_args"
proof -
  have n: "py_int (show_int 12) = Inr 12" "py_int (show_int 2) = Inr 2" "py_int (show_int 1) = Inr 1" "py_int (show_int 120) = Inr 120"
    using py_int_show_int [of 12] py_int_show_int [of 2] py_int_show_int [of 1] py_int_show_int [of 120] by simp_all
  show ?thesis
    by (simp add: paired_parse_args_def comparison_options_def catalog_sample_def required_option_def converted_option_def
      optional_int_def positive_int_def n nonnegative_float_def py_float_one MAX_ITERATIONS_def WORKLOADS_def output_option_def
      catalog_args_def catalog_bench_def bench_sample_def)
qed

definition comparison_run :: "bench_report bench" where
  "comparison_run = the (run_comparison catalog_bench catalog_args)"

definition sample_comparison :: bench_report where
  "sample_comparison = (case snd comparison_run of Inr r \<Rightarrow> r)"

lemma sample_measured:
  "case run_comparison catalog_bench catalog_args of Some (evs, Inr r) \<Rightarrow> True | _ \<Rightarrow> False"
  by code_simp

lemma sample_comparison_run: "run_comparison catalog_bench catalog_args = Some (fst comparison_run, Inr sample_comparison)"
  using sample_measured by (auto simp: comparison_run_def sample_comparison_def split: option.splits sum.splits)

lemma sample_host_simps [simp]:
  "ch_mkdir catalog_sample d = Inr ()" "ch_toolchain catalog_sample = Inr ()" "ch_write catalog_sample n = Inr ()"
  "ch_run_json catalog_sample st = Inr ()" "ch_markdown catalog_sample v = Inr ()" "ch_bench catalog_sample = catalog_bench"
  "ch_read catalog_sample = read_back []" "ch_pairs catalog_sample = 2"
  "ch_sha catalog_sample m = (\<lambda>_. Inr sample_digest)" "ch_fingerprint catalog_sample m = (\<lambda>_. Inr sample_digest)"
  by (simp_all add: catalog_sample_def)

lemma sample_executable: "executable_of (catalog_artifact i a) = Inr ''catalog.exe''"
  by (simp add: executable_of_def catalog_artifact_def j_item_JObj j_str_def)

lemma sample_qualified_build:
  assumes "sample_qualified i a"
  shows "qualified_build catalog_sample i a = Inr (''build.json'', catalog_artifact i a, sample_cases_passed)"
proof -
  have "run_checked (\<lambda>_. ch_qualify catalog_sample i a) (ch_log catalog_sample) [''catalog.exe'', ''--qualify'']
      (Some (i @ ''/qualification.log'')) = Inr (strip (catalog_controls i a))"
    by (simp add: run_checked_def write_log_def catalog_sample_def)
  moreover have "ch_build catalog_sample i a = Inr (''build.json'', catalog_artifact i a)" by (simp add: catalog_sample_def)
  ultimately show ?thesis using assms by (simp add: qualified_build_def sample_executable sample_qualified_def)
qed

lemma sample_sources_same:
  "catalog_verify_sources (\<lambda>_. Inr sample_digest) (map (\<lambda>i. (i, catalog_artifact i True)) implementations)
     (map (\<lambda>i. (i, catalog_artifact i False)) implementations) = Inr ()"
  by code_simp

lemma sample_gate_passed: "catalog_gate catalog_sample = Inr sample_gate"
proof -
  have row: "\<lparr>gr_implementation = i, gr_assertions = a, gr_status = ''qualified'', gr_manifest = ''build.json'',
      gr_cases = sample_cases_passed, gr_error = None\<rparr> = sample_gate_row a i" for i a
    by (simp add: sample_gate_row_def sample_cases_passed_def)
  show ?thesis unfolding catalog_gate_def gate_phase_def
    using sample_sources_same
    by (simp add: implementations_def gate_step_def sample_qualified_build sample_builds_valid Let_def row sample_gate_def
      sample_gate_row_def [THEN arg_cong [where f = gr_status]])
qed

lemma sample_validated:
  "validate_comparison (\<lambda>s. [s]) (comparison_json [] sample_comparison) (gt_artifacts sample_gate) 2 = Inr ()"
  by code_simp

lemma sample_artifacts_verified: "verify_artifacts catalog_sample m sample_gate = Inr ()"
proof -
  have "catalog_verify_artifact (\<lambda>_. Inr sample_digest) (catalog_artifact i a) = Inr ()" for i a
    by (simp add: catalog_verify_artifact_def verify_artifact_def catalog_artifact_def j_item_JObj j_str_def item_ne_def)
  then show ?thesis by (auto simp: verify_artifacts_def forE_Inr_iff sample_gate_def Let_def)
qed

lemma sample_taken: "take_comparison catalog_sample sample_gate (Some sample_comparison) = Inr (comparison_json [] sample_comparison)"
proof -
  have "ch_resolve_text catalog_sample = (\<lambda>s. [s])" by (simp add: catalog_sample_def)
  then show ?thesis using sample_sources_same sample_validated
    by (simp add: take_comparison_def read_back_def sample_artifacts_verified) (simp add: sample_gate_def Let_def)
qed

lemma sample_measure: "measure catalog_sample (comparison_options catalog_sample ''catalog.exe'' ''catalog.exe'')
    = (map Removed COMPARISON_FILES @ map Report COMPARISON_FILES, Inr (Some sample_comparison))"
proof -
  have "paired_main catalog_bench (comparison_options catalog_sample ''catalog.exe'' ''catalog.exe'') = Some (fst comparison_run, Inr 0)"
    by (simp add: paired_main_def sample_parsed pureA_def sample_comparison_run main_exit_def)
  then show ?thesis using run_comparison_events [OF sample_comparison_run] by (simp add: measure_def)
qed

definition returned_sample :: catalog_report where
  "returned_sample = returned_report catalog_sample sample_gate (comparison_json [] sample_comparison)"

lemma sample_catalog_returned: "\<exists>evs. catalog_run_lane catalog_sample = (evs, Inr returned_sample)"
proof -
  have "measured_executable sample_gate i = Inr ''catalog.exe''" if "i \<in> set implementations" for i
    using that by (auto simp: measured_executable_def sample_gate_def Let_def implementations_def sample_executable)
  then have x: "measured_executable sample_gate ''xpact'' = Inr ''catalog.exe''"
    "measured_executable sample_gate ''xpact-core'' = Inr ''catalog.exe''" by (simp_all add: implementations_def)
  have "\<exists>evs. catalog_body catalog_sample = (evs, Inr returned_sample)"
    unfolding catalog_body_def Let_def returned_report_def [symmetric]
    by (simp add: write_run_def pureA_def emitA_def sample_gate_passed sample_artifacts_verified x sample_measure sample_taken
        catalog_publish_reports_def write_atomic_def returned_sample_def)
  then show ?thesis by (auto simp: catalog_run_lane_def pureA_def guard_lane_def)
qed

lemma returned_sample_identified: "(i, a) \<in> set (ct_artifacts returned_sample) \<Longrightarrow> unidentified a = Inr False"
proof -
  have "list_all (\<lambda>(i, a). unidentified a = Inr False) (gt_artifacts sample_gate)" by code_simp
  then show "(i, a) \<in> set (ct_artifacts returned_sample) \<Longrightarrow> unidentified a = Inr False"
    by (auto simp: returned_sample_def returned_report_def list_all_iff)
qed

end
