(* ===== verification/Catalog_Claims.thy ===== *)
theory Catalog_Claims
  imports Catalog_Sample
begin

text \<open>
  The properties of the catalog lane: what a returned lane is evidence of, that its four report files
  exist together or not at all, and that the plot publisher accepts its report.
\<close>



text \<open>
  The four report files of a catalog lane, the two of the comparison, \<open>report.json\<close> and
  \<open>summary.md\<close>, are on disk together exactly when the lane returned, with status \<open>complete\<close> in
  \<open>run.json\<close>; after any exception none of them is left.
\<close>

theorem catalog_lane_all_or_nothing:
  "case catalog_run_lane c of
     (evs, Inr r) \<Rightarrow> reports evs = CATALOG_FINALS \<and> run_status evs = Some ''complete''
   | (evs, Inl e) \<Rightarrow> reports evs = []"
  by (rule catalog_lane.outcome)

text \<open>
  Benchmark, lane and plot publisher fit: the report of any returned catalog lane whose artifacts
  carry hexadecimal identities is accepted by \<open>catalog_plots\<close>, provided \<open>comparison.json\<close> is read back as it
  was written; the plotted values are the medians of the measured pairs, per 1,000 documents and per second.
\<close>

theorem catalog_plots_of_lane:
  assumes "catalog_run_lane c = (evs, Inr r)" and "ch_read c = read_back env"
    and "\<And>e a. (e, a) \<in> set (ct_artifacts r) \<Longrightarrow> unidentified a = Inr False"
  shows "\<exists>rep. ct_comparison r = comparison_json env rep
    \<and> map_sum id (map sp_values) (catalog_plots (catalog_report_json r)) = Inr
      [[normalized pr_baseline_ms (map plot_row (rp_results rep)), normalized pr_candidate_ms (map plot_row (rp_results rep))],
       [median (map cp_baseline_rate (rp_results rep)), median (map cp_candidate_rate (rp_results rep))]]"
proof -
  obtain rep where "ct_comparison r = comparison_json env rep"
    "map_sum id (map sp_values) (catalog_plots (catalog_report_json r)) = Inr
      [[normalized pr_baseline_ms (map plot_row (rp_results rep)), normalized pr_candidate_ms (map plot_row (rp_results rep))],
       [median (map cp_baseline_rate (rp_results rep)), median (map cp_candidate_rate (rp_results rep))]]"
    by (rule catalog_report_accepted [OF assms])
  then show ?thesis by blast
qed

theorem catalog_plots_of_lane_witness:
  "\<exists>rep. ct_comparison returned_sample = comparison_json [] rep
    \<and> map_sum id (map sp_values) (catalog_plots (catalog_report_json returned_sample)) = Inr
      [[normalized pr_baseline_ms (map plot_row (rp_results rep)), normalized pr_candidate_ms (map plot_row (rp_results rep))],
       [median (map cp_baseline_rate (rp_results rep)), median (map cp_candidate_rate (rp_results rep))]]"
proof -
  from sample_catalog_returned obtain evs where r: "catalog_run_lane catalog_sample = (evs, Inr returned_sample)" by blast
  have read: "ch_read catalog_sample = read_back []" by simp
  show ?thesis by (rule catalog_plots_of_lane [OF r read returned_sample_identified])
qed

end
