(* ===== verification/Campaign.thy ===== *)
theory Campaign
  imports Dual_Catalog Report_Bridge Jenkins_Summary
begin

text \<open>
  The Jenkins campaign, \<open>scripts/run_dual_jenkins.py\<close>: it validates its arguments, runs the
  catalog lane and the W3C lane one after the other in directories of their own, and publishes the summary of
  the own tests and the plots. The lanes, the summary and the publisher are the models of their scripts.
  The trace of a campaign are the events of its own directory.
\<close>

section \<open>Arguments\<close>

record campaign_args =
  ca_build_id :: json
  ca_suite_dir :: "path option"
  ca_iterations :: json
  ca_pairs :: json
  ca_warmups :: json
  ca_sample_timeout_seconds :: json
  ca_min_sample_seconds :: json
  ca_timeout_seconds :: json

record campaign_host =
  cm_host :: host
  cm_output_dir :: path
  cm_output_text :: string
  cm_mkdir :: "unit py"
  cm_run_json :: "string \<Rightarrow> unit py"
  cm_catalog :: catalog_host
  cm_w3c :: w3c_host
  cm_manifest :: "string \<Rightarrow> bool \<Rightarrow> string" \<comment> \<open>the path of a build's manifest\<close>
  cm_sha :: "string \<Rightarrow> string py"
  cm_summary :: summary_host
  cm_write :: "string \<Rightarrow> unit py"
  cm_source :: "string \<Rightarrow> string"
  cm_html :: "unit py"

definition control_free :: "string \<Rightarrow> bool" where
  "control_free s = list_all (\<lambda>c. 32 \<le> (of_char c :: nat)) s"

definition valid_build_id :: "json \<Rightarrow> bool" where
  "valid_build_id v = (case v of JStr s \<Rightarrow> strip s \<noteq> [] \<and> control_free s | _ \<Rightarrow> False)"

definition check_positive :: "string \<times> json \<Rightarrow> unit py" where
  "check_positive = (\<lambda>(name, v).
     raise_if (\<not> (case v of JInt n \<Rightarrow> 0 < n | _ \<Rightarrow> False)) (CampaignError (name @ '' must be a positive integer'')))"

definition is_finite_number :: "json \<Rightarrow> bool py" where
  \<comment> \<open>\<open>math.isfinite(v)\<close>\<close>
  "is_finite_number v = (case v of
      JInt i \<Rightarrow> if of_int \<bar>i\<bar> \<ge> max_double_bound then Inl OverflowError else Inr True
    | JBool _ \<Rightarrow> Inr True
    | JFloat f \<Rightarrow> Inr (is_finite f)
    | _ \<Rightarrow> Inl TypeError)"

definition out_of_bounds :: "json \<Rightarrow> bool \<Rightarrow> bool" where
  \<comment> \<open>\<open>v < 0 or (v == 0 and not allow_zero)\<close>\<close>
  "out_of_bounds v allow_zero = (case num_of v of
      Some f \<Rightarrow> fl_less f (Fin 0) \<or> f = Fin 0 \<and> \<not> allow_zero | None \<Rightarrow> False)"

definition check_duration :: "string \<times> json \<times> bool \<Rightarrow> unit py" where
  "check_duration = (\<lambda>(name, v, allow_zero).
     bindE (is_finite_number v) (\<lambda>finite.
     raise_if (\<not> finite \<or> out_of_bounds v allow_zero)
       (CampaignError (name @ '' must be finite and '' @ (if allow_zero then ''nonnegative'' else ''positive'')))))"

definition overlapping_inputs :: "campaign_host \<Rightarrow> campaign_args \<Rightarrow> bool" where
  "overlapping_inputs h a = (case ca_suite_dir a of
      None \<Rightarrow> False
    | Some d \<Rightarrow> (let supplied = resolve (cm_host h) d in
        is_relative_to (cm_output_dir h) supplied \<or> is_relative_to supplied (cm_output_dir h)))"

definition validate_arguments :: "campaign_host \<Rightarrow> campaign_args \<Rightarrow> unit py" where
  "validate_arguments h a =
     bindE (raise_if (\<not> valid_build_id (ca_build_id a))
       (CampaignError ''A nonempty Jenkins build identity without control characters is required'')) (\<lambda>_.
     bindE (forE check_positive [(''iterations'', ca_iterations a), (''pairs'', ca_pairs a), (''warmups'', ca_warmups a),
       (''sample_timeout_seconds'', ca_sample_timeout_seconds a)]) (\<lambda>_.
     bindE (forE check_duration [(''min_sample_seconds'', ca_min_sample_seconds a, True),
       (''timeout_seconds'', ca_timeout_seconds a, False)]) (\<lambda>_.
     raise_if (overlapping_inputs h a)
       (CampaignError ''W3C inputs and Jenkins run output must be separate directories''))))"

section \<open>The lanes\<close>

definition int_value :: "json \<Rightarrow> int" where
  "int_value v = (case v of JInt n \<Rightarrow> n | _ \<Rightarrow> 0)"

definition float_value :: "json \<Rightarrow> fl" where
  "float_value v = (case num_of v of Some f \<Rightarrow> f | None \<Rightarrow> NaN)"

definition rat_value :: "json \<Rightarrow> rat" where
  "rat_value v = (case float_value v of Fin q \<Rightarrow> q | _ \<Rightarrow> 0)"

definition catalog_child :: "campaign_host \<Rightarrow> campaign_args \<Rightarrow> catalog_host" where
  "catalog_child h a = (cm_catalog h)\<lparr>ch_iterations := int_value (ca_iterations a), ch_pairs := int_value (ca_pairs a),
     ch_warmups := int_value (ca_warmups a), ch_min_sample_seconds := rat_value (ca_min_sample_seconds a),
     ch_sample_timeout_seconds := int_value (ca_sample_timeout_seconds a)\<rparr>"

definition w3c_child :: "campaign_host \<Rightarrow> campaign_args \<Rightarrow> w3c_host" where
  "w3c_child h a = (cm_w3c h)\<lparr>wh_suite_dir := ca_suite_dir a, wh_timeout := float_value (ca_timeout_seconds a)\<rparr>"

definition child_report :: "campaign_host \<Rightarrow> campaign_args \<Rightarrow> string \<Rightarrow> json py" where
  \<comment> \<open>what \<open>run_lane\<close> of the lane returns; what it does is in its own directory\<close>
  "child_report h a name =
     (if name = ''catalog'' then map_sum id catalog_report_json (snd (catalog_run_lane (catalog_child h a)))
      else map_sum id (report_json (cm_manifest h)) (snd (run_lane (w3c_child h a))))"

record lane_entry =
  le_status :: string
  le_report :: string
  le_sha256 :: "string option"
  le_error :: "string option"

definition pending_entry :: "string \<Rightarrow> lane_entry" where
  "pending_entry name = \<lparr>le_status = ''pending'', le_report = name @ ''/report.json'', le_sha256 = None, le_error = None\<rparr>"

definition running_entry :: "string \<Rightarrow> lane_entry" where
  "running_entry name = (pending_entry name)\<lparr>le_status := ''running''\<rparr>"

fun exn_class :: "exn \<Rightarrow> string" where
  \<comment> \<open>\<open>type(error).__name__\<close>\<close>
  "exn_class (KeyError _) = ''KeyError''"
| "exn_class TypeError = ''TypeError''"
| "exn_class IndexError = ''IndexError''"
| "exn_class AttributeError = ''AttributeError''"
| "exn_class (ValueError _) = ''ValueError''"
| "exn_class (OSError _) = ''OSError''"
| "exn_class OverflowError = ''OverflowError''"
| "exn_class ZeroDivisionError = ''ZeroDivisionError''"
| "exn_class StopIteration = ''StopIteration''"
| "exn_class (LaneError _) = ''LaneError''"
| "exn_class (ReportsError _) = ''ReportsError''"
| "exn_class (SummaryError _) = ''SummaryError''"
| "exn_class (BenchmarkError _) = ''BenchmarkError''"
| "exn_class (BuildError _) = ''BuildError''"
| "exn_class (DependencyError _) = ''DependencyError''"
| "exn_class (CampaignError _) = ''CampaignError''"
| "exn_class (ParseError _) = ''ParseError''"
| "exn_class Interrupted = ''KeyboardInterrupt''"
| "exn_class SystemExit = ''SystemExit''"

definition allowed_states :: "string \<Rightarrow> string list" where
  "allowed_states name = (if name = ''w3c'' then [''complete'', ''complete_with_failures''] else [''complete''])"

definition accept_child :: "campaign_host \<Rightarrow> string \<Rightarrow> json \<Rightarrow> (lane_entry \<times> json) py" where
  "accept_child h name report =
     bindE (j_get report ''status'') (\<lambda>status.
     bindE (raise_if (\<not> list_ex (\<lambda>s. py_eq status (JStr s)) (allowed_states name))
       (CampaignError (''Child lane did not return a completed report: '' @ name))) (\<lambda>_.
     bindE (cm_sha h (cm_output_text h @ ''/'' @ name @ ''/report.json'')) (\<lambda>digest.
     bindE (j_str status) (\<lambda>state.
     Inr ((running_entry name)\<lparr>le_status := state, le_sha256 := Some digest\<rparr>, report)))))"

definition take_child :: "campaign_host \<Rightarrow> campaign_args \<Rightarrow> string \<Rightarrow> (lane_entry \<times> json option) py" where
  \<comment> \<open>an \<open>Exception\<close> fails this lane only; anything else ends the campaign\<close>
  "take_child h a name = (case bindE (child_report h a name) (accept_child h name) of
      Inr (entry, report) \<Rightarrow> Inr (entry, Some report)
    | Inl e \<Rightarrow> if is_exception e
        then Inr ((running_entry name)\<lparr>le_status := ''failed'', le_error := Some (exn_class e @ '': '' @ exn_text e)\<rparr>, None)
        else Inl e)"

definition LANES :: "string list" where
  "LANES = [''catalog'', ''w3c'']"

definition run_child :: "campaign_host \<Rightarrow> campaign_args \<Rightarrow> string \<Rightarrow> (string \<times> lane_entry \<times> json option) lane" where
  "run_child h a name =
     bindA (write_run (cm_run_json h) ''running'') (\<lambda>_.
     bindA (pureA (take_child h a name)) (\<lambda>(entry, report).
     bindA (write_run (cm_run_json h) ''running'') (\<lambda>_.
     pureA (Inr (name, entry, report)))))"

fun run_children :: "campaign_host \<Rightarrow> campaign_args \<Rightarrow> string list \<Rightarrow> (string \<times> lane_entry \<times> json option) list lane" where
  "run_children h a [] = pureA (Inr [])"
| "run_children h a (name # names) =
     bindA (run_child h a name) (\<lambda>child. bindA (run_children h a names) (\<lambda>rest. pureA (Inr (child # rest))))"

section \<open>The campaign\<close>

record campaign_state =
  cs_build_id :: json
  cs_status :: string
  cs_lanes :: "(string \<times> lane_entry) list"
  cs_summary :: own_summary
  cs_publication :: publication

definition lane_entry_json :: "lane_entry \<Rightarrow> json" where
  "lane_entry_json e = JObj ([(''status'', JStr (le_status e)), (''report'', JStr (le_report e))]
     @ (case le_sha256 e of None \<Rightarrow> [] | Some d \<Rightarrow> [(''report_sha256'', JStr d)])
     @ (case le_error e of None \<Rightarrow> [] | Some t \<Rightarrow> [(''error'', JStr t)]))"

definition lane_states_json :: "(string \<times> lane_entry) list \<Rightarrow> (string \<times> json) list" where
  "lane_states_json lanes = map (\<lambda>(name, e). (name, lane_entry_json e)) lanes"

definition campaign_state_json :: "json \<Rightarrow> string \<Rightarrow> (string \<times> lane_entry) list \<Rightarrow> json" where
  \<comment> \<open>the state that \<open>publish_reports\<close> is given\<close>
  "campaign_state_json build_id status lanes = JObj
     [(''schema_version'', JInt 1), (''build_id'', build_id), (''status'', JStr status), (''lanes'', JObj (lane_states_json lanes))]"

definition campaign_status :: "(string \<times> lane_entry) list \<Rightarrow> string" where
  "campaign_status lanes = (let statuses = map (le_status \<circ> snd) lanes in
     if py_in ''failed'' statuses then ''failed''
     else if py_in ''complete_with_failures'' statuses then ''complete_with_failures'' else ''complete'')"

definition lanes_of :: "(string \<times> lane_entry \<times> json option) list \<Rightarrow> (string \<times> lane_entry) list" where
  "lanes_of kids = map (\<lambda>(name, entry, _). (name, entry)) kids"

definition reports_of :: "(string \<times> lane_entry \<times> json option) list \<Rightarrow> (string \<times> json) list" where
  \<comment> \<open>\<open>lane_reports\<close>\<close>
  "reports_of kids = concat (map (\<lambda>(name, _, report). case report of None \<Rightarrow> [] | Some r \<Rightarrow> [(name, r)]) kids)"

definition REPORT_FILES :: "string list" where
  "REPORT_FILES = [MANIFEST, HTML_REPORT] @ map (\<lambda>name. name @ ''.csv'') PLOT_IDS"

definition scoped :: "string list \<Rightarrow> 'a lane \<Rightarrow> 'a lane" where
  \<comment> \<open>a publisher clears its own files only\<close>
  "scoped names m = (concat (map (\<lambda>ev. case ev of Cleared \<Rightarrow> map Removed names | _ \<Rightarrow> [ev]) (fst m)), snd m)"

definition invalid_summary :: "own_summary \<Rightarrow> bool" where
  \<comment> \<open>the implementation of a summary is always \<open>xpact\<close>\<close>
  "invalid_summary s \<longleftrightarrow> JUNIT_FILE \<noteq> ''xpact-junit.xml''
     \<or> \<not> py_in (os_status s) [''complete'', ''complete_with_failures'', ''failed'']"

definition campaign_body :: "campaign_host \<Rightarrow> campaign_args \<Rightarrow> campaign_state lane" where
  "campaign_body h a =
     bindA (write_run (cm_run_json h) ''running'') (\<lambda>_.
     bindA (run_children h a LANES) (\<lambda>kids.
     let lanes = lanes_of kids; lane_reports = reports_of kids; status = campaign_status lanes in
     bindA (scoped [JUNIT_FILE, SUMMARY_FILE] (publish_summary (cm_summary h) (cm_output_text h) [] (map_of lane_reports)
       (map_of (lane_states_json lanes)) LANES)) (\<lambda>(document, summary).
     bindA (pureA (raise_if (invalid_summary summary) (CampaignError ''Invalid xpact test summary identity or status''))) (\<lambda>_.
     bindA (scoped REPORT_FILES (jenkins_publish_reports (cm_write h) (cm_source h) (cm_html h)
       (campaign_state_json (ca_build_id a) status lanes) lane_reports)) (\<lambda>publication.
     bindA (write_run (cm_run_json h) status) (\<lambda>_.
     pureA (Inr \<lparr>cs_build_id = ca_build_id a, cs_status = status, cs_lanes = lanes, cs_summary = summary,
       cs_publication = publication\<rparr>)))))))"

definition run_campaign :: "campaign_host \<Rightarrow> campaign_args \<Rightarrow> campaign_state lane" where
  "run_campaign h a =
     bindA (pureA (validate_arguments h a)) (\<lambda>_.
     bindA (pureA (cm_mkdir h)) (\<lambda>_.
     guard_lane (cm_run_json h) (campaign_body h a)))"

definition campaign_exit :: "string \<Rightarrow> int py" where
  "campaign_exit status = (case map_of [(''complete'', 0), (''complete_with_failures'', 1), (''failed'', 2)] status of
     Some n \<Rightarrow> Inr n | None \<Rightarrow> Inl (KeyError status))"

definition campaign_main :: "campaign_host \<Rightarrow> campaign_args \<Rightarrow> int lane" where
  "campaign_main h a = (case run_campaign h a of
      (evs, Inr state) \<Rightarrow> (evs, campaign_exit (os_status (cs_summary state)))
    | (evs, Inl e) \<Rightarrow> (evs, if is_exception e then Inr 2 else Inl e))"

end
