(* ===== verification/Campaign_Proofs.thy ===== *)
theory Campaign_Proofs
  imports Campaign Jenkins_Proofs Summary_Proofs Catalog_Bridge
begin

text \<open>
  Lemmas on the campaign: which files a campaign leaves, as an instance of the contract of a lane, what
  the entries of its lanes are, and that the plot publisher accepts whatever two lanes can return.
\<close>

section \<open>The entries of the lanes\<close>

lemma run_child_cases:
  assumes "run_child h a name = (evs, r)"
  shows "silent evs \<and> (case r of Inr (n, entry, report) \<Rightarrow> n = name \<and> take_child h a name = Inr (entry, report) | Inl e \<Rightarrow> True)"
proof -
  obtain evs1 r1 where w: "write_run (cm_run_json h) ''running'' = (evs1, r1)" by fastforce
  note c = write_run_cases [OF w]
  from assms c show ?thesis
    by (cases "cm_run_json h ''running''"; cases "take_child h a name")
      (auto simp: run_child_def w pureA_def bindA_def split: prod.splits sum.splits)
qed

lemma run_children_cases:
  "case run_children h a names of
     (evs, Inr kids) \<Rightarrow> silent evs \<and> map fst kids = names
       \<and> list_all (\<lambda>(name, entry, report). take_child h a name = Inr (entry, report)) kids
   | (evs, Inl e) \<Rightarrow> silent evs"
proof (induction names)
  case (Cons name names)
  obtain evs1 r1 where c: "run_child h a name = (evs1, r1)" by fastforce
  obtain evs2 r2 where k: "run_children h a names = (evs2, r2)" by fastforce
  from Cons run_child_cases [OF c] show ?case
    by (cases r1; cases r2) (auto simp: c k pureA_def bindA_def)
qed (simp add: pureA_def)

lemma run_children_Inr:
  assumes "run_children h a LANES = (evs, Inr kids)"
  obtains e1 r1 e2 r2 where "kids = [(''catalog'', e1, r1), (''w3c'', e2, r2)]" "silent evs"
    "take_child h a ''catalog'' = Inr (e1, r1)" "take_child h a ''w3c'' = Inr (e2, r2)"
proof -
  from run_children_cases [where h = h and a = a and names = LANES] assms have k: "silent evs" "map fst kids = LANES"
    "list_all (\<lambda>(name, entry, report). take_child h a name = Inr (entry, report)) kids" by auto
  from k(2) obtain e1 r1 e2 r2 where "kids = [(''catalog'', e1, r1), (''w3c'', e2, r2)]"
    by (auto simp: LANES_def map_eq_Cons_conv)
  with k show thesis using that by simp
qed

section \<open>The files of a campaign\<close>

definition campaign_finals :: "campaign_state \<Rightarrow> string list" where
  \<comment> \<open>the summary, one file per manifest line, the page and the manifest\<close>
  "campaign_finals st = [JUNIT_FILE, SUMMARY_FILE]
     @ map (\<lambda>row. drop (length ''plot-'') (row ! 1)) (pb_manifest_rows (cs_publication st)) @ [HTML_REPORT, MANIFEST]"

lemma scoped_Inr: "scoped names m = (evs, Inr x) \<Longrightarrow> \<exists>evs0. m = (evs0, Inr x)
    \<and> evs = concat (map (\<lambda>ev. case ev of Cleared \<Rightarrow> map Removed names | _ \<Rightarrow> [ev]) evs0)"
  by (cases m) (auto simp: scoped_def)

lemma fold_Removed: "fold report_step (map Removed names) fs = filter (\<lambda>f. f \<notin> set names) fs"
  by (induction names arbitrary: fs) (auto intro: filter_cong)

lemma fold_Report: "fold report_step (map Report ns) fs = fs @ ns"
  by (induction ns arbitrary: fs) auto

lemma scoped_reports: "concat (map (\<lambda>ev. case ev of Cleared \<Rightarrow> map Removed names | _ \<Rightarrow> [ev]) (map Report ns)) = map Report ns"
  by (induction ns) auto

lemma summary_files_kept: "filter (\<lambda>f. f \<notin> set REPORT_FILES) [JUNIT_FILE, SUMMARY_FILE] = [JUNIT_FILE, SUMMARY_FILE]"
  by (simp add: REPORT_FILES_def PLOT_IDS_def MANIFEST_def HTML_REPORT_def JUNIT_FILE_def SUMMARY_FILE_def)

lemma jenkins_publish_Inr:
  assumes "jenkins_publish_reports write source html state reps = (evs, Inr p)"
  shows "\<exists>plots. collect_plots state reps = Inr plots
     \<and> p = \<lparr>pb_manifest_rows = map (manifest_line source) plots, pb_plots = length plots\<rparr>
     \<and> evs = Cleared # map Report (map plot_file plots @ [HTML_REPORT, MANIFEST])"
proof -
  obtain evs1 where b: "publish_body write source html (collect_plots state reps) = (evs1, Inr p)" and evs: "evs = Cleared # evs1"
    using assms by (cases "publish_body write source html (collect_plots state reps)"; cases "snd (publish_body write source html (collect_plots state reps))")
      (auto simp: jenkins_publish_reports_def or_clear_def emitA_def bindA_def)
  then obtain plots where p: "collect_plots state reps = Inr plots"
    by (cases "collect_plots state reps") (auto simp: publish_body_def pureA_def)
  from publish_body_cases [OF b [unfolded p]] p evs show ?thesis by auto
qed

lemma campaign_body_Inr:
  assumes "campaign_body h a = (evs, Inr st)"
  obtains kids evs1 evs2 document plots where "run_children h a LANES = (evs1, Inr kids)"
    "publish_summary (cm_summary h) (cm_output_text h) [] (map_of (reports_of kids))
       (map_of (lane_states_json (lanes_of kids))) LANES = (evs2, Inr (document, cs_summary st))"
    "\<not> invalid_summary (cs_summary st)"
    "collect_plots (campaign_state_json (ca_build_id a) (campaign_status (lanes_of kids)) (lanes_of kids)) (reports_of kids) = Inr plots"
    "cs_status st = campaign_status (lanes_of kids)" "cs_lanes st = lanes_of kids" "cs_build_id st = ca_build_id a"
    "cs_publication st = \<lparr>pb_manifest_rows = map (manifest_line (cm_source h)) plots, pb_plots = length plots\<rparr>"
    "evs = [RunJson ''running''] @ evs1 @ [Report JUNIT_FILE, Report SUMMARY_FILE] @ map Removed REPORT_FILES
       @ map Report (map plot_file plots @ [HTML_REPORT, MANIFEST]) @ [RunJson (cs_status st)]"
proof -
  from assms obtain evs1 kids evs2 document summary evs3 p where
    k: "run_children h a LANES = (evs1, Inr kids)"
    and s: "scoped [JUNIT_FILE, SUMMARY_FILE] (publish_summary (cm_summary h) (cm_output_text h) [] (map_of (reports_of kids))
       (map_of (lane_states_json (lanes_of kids))) LANES) = (evs2, Inr (document, summary))"
    and v: "\<not> invalid_summary summary"
    and r: "scoped REPORT_FILES (jenkins_publish_reports (cm_write h) (cm_source h) (cm_html h)
       (campaign_state_json (ca_build_id a) (campaign_status (lanes_of kids)) (lanes_of kids)) (reports_of kids)) = (evs3, Inr p)"
    and evs: "evs = [RunJson ''running''] @ evs1 @ evs2 @ evs3 @ [RunJson (campaign_status (lanes_of kids))]"
    and st: "st = \<lparr>cs_build_id = ca_build_id a, cs_status = campaign_status (lanes_of kids), cs_lanes = lanes_of kids,
       cs_summary = summary, cs_publication = p\<rparr>"
    unfolding campaign_body_def Let_def by (auto simp: bindA_Inr_iff write_Inr raise_if_Inr_iff)
  from scoped_Inr [OF s] obtain evs20 where s': "publish_summary (cm_summary h) (cm_output_text h) [] (map_of (reports_of kids))
       (map_of (lane_states_json (lanes_of kids))) LANES = (evs20, Inr (document, summary))"
    and e2: "evs2 = concat (map (\<lambda>ev. case ev of Cleared \<Rightarrow> map Removed [JUNIT_FILE, SUMMARY_FILE] | _ \<Rightarrow> [ev]) evs20)" by blast
  have "evs20 = map Report [JUNIT_FILE, SUMMARY_FILE]"
    using s' by (auto simp: publish_summary_def or_clear_Inr dest!: summary_body_Inr)
  then have e2: "evs2 = [Report JUNIT_FILE, Report SUMMARY_FILE]" unfolding e2 scoped_reports by simp
  from scoped_Inr [OF r] obtain evs30 where r': "jenkins_publish_reports (cm_write h) (cm_source h) (cm_html h)
       (campaign_state_json (ca_build_id a) (campaign_status (lanes_of kids)) (lanes_of kids)) (reports_of kids) = (evs30, Inr p)"
    and e3: "evs3 = concat (map (\<lambda>ev. case ev of Cleared \<Rightarrow> map Removed REPORT_FILES | _ \<Rightarrow> [ev]) evs30)" by blast
  from jenkins_publish_Inr [OF r'] obtain plots where p: "collect_plots (campaign_state_json (ca_build_id a)
       (campaign_status (lanes_of kids)) (lanes_of kids)) (reports_of kids) = Inr plots"
     "p = \<lparr>pb_manifest_rows = map (manifest_line (cm_source h)) plots, pb_plots = length plots\<rparr>"
     "evs30 = Cleared # map Report (map plot_file plots @ [HTML_REPORT, MANIFEST])" by blast
  have "evs3 = map Removed REPORT_FILES @ map Report (map plot_file plots @ [HTML_REPORT, MANIFEST])"
    unfolding e3 p(3) by (simp only: list.map concat.simps scoped_reports event.case)
  with e2 evs st v p show thesis by (intro that [OF k, of evs20 document plots]) (simp_all add: s')
qed

lemma run_campaign_Inr: "run_campaign h a = (evs, Inr st) \<Longrightarrow>
    validate_arguments h a = Inr () \<and> cm_mkdir h = Inr () \<and> campaign_body h a = (evs, Inr st)"
  by (auto simp: run_campaign_def bindA_Inr_iff guard_lane_Inr)

lemma run_campaign_Inl: "run_campaign h a = (evs, Inl e) \<Longrightarrow> reports evs = []"
  by (cases "validate_arguments h a"; cases "cm_mkdir h"; cases "guard_lane (cm_run_json h) (campaign_body h a)")
    (auto simp: run_campaign_def pureA_def bindA_def dest: guard_lane_Inl)

interpretation campaign_lane: lane_contract "\<lambda>(h, a). run_campaign h a" cs_status campaign_finals
proof unfold_locales
  show "campaign_finals r \<noteq> []" for r by (simp add: campaign_finals_def)
  show "(case i of (h, a) \<Rightarrow> run_campaign h a) = (evs, Inl e) \<Longrightarrow> reports evs = []" for i evs e
    by (cases i) (simp add: run_campaign_Inl)
  show "reports evs = campaign_finals r \<and> run_status evs = Some (cs_status r)"
    if ret: "(case i of (h, a) \<Rightarrow> run_campaign h a) = (evs, Inr r)" for i evs r
  proof -
    obtain h a where i: "i = (h, a)" by fastforce
    from run_campaign_Inr [of h a evs r] ret have "campaign_body h a = (evs, Inr r)" by (simp add: i)
    then show ?thesis
    proof (rule campaign_body_Inr)
      fix kids evs1 evs2 document plots
      assume k: "run_children h a LANES = (evs1, Inr kids)"
        and p: "cs_publication r = \<lparr>pb_manifest_rows = map (manifest_line (cm_source h)) plots, pb_plots = length plots\<rparr>"
        and e: "evs = [RunJson ''running''] @ evs1 @ [Report JUNIT_FILE, Report SUMMARY_FILE] @ map Removed REPORT_FILES
          @ map Report (map plot_file plots @ [HTML_REPORT, MANIFEST]) @ [RunJson (cs_status r)]"
      let ?rest = "[Report JUNIT_FILE, Report SUMMARY_FILE] @ map Removed REPORT_FILES
          @ map Report (map plot_file plots @ [HTML_REPORT, MANIFEST]) @ [RunJson (cs_status r)]"
      have s: "silent ([RunJson ''running''] @ evs1)"
        using run_children_cases [where h = h and a = a and names = LANES] k by simp
      have f: "campaign_finals r = [JUNIT_FILE, SUMMARY_FILE] @ map plot_file plots @ [HTML_REPORT, MANIFEST]"
        by (simp add: campaign_finals_def p manifest_line_def comp_def)
      have "reports evs = reports (([RunJson ''running''] @ evs1) @ ?rest)" by (simp only: e append_assoc)
      also have "\<dots> = fold report_step ?rest []" unfolding silent_reports [OF s] by (simp only: reports_def)
      also have "\<dots> = campaign_finals r"
        unfolding fold_append comp_def fold_Removed fold_Report f using summary_files_kept by simp
      finally show ?thesis unfolding e by (simp add: run_status_def)
    qed
  qed
qed

section \<open>What the lanes hand over is publishable\<close>

definition lane_done :: "string \<times> lane_entry \<times> json option \<Rightarrow> bool" where
  \<comment> \<open>an entry with the report it names, or a failed entry without one\<close>
  "lane_done = (\<lambda>(name, entry, report). case report of
      None \<Rightarrow> le_status entry = ''failed''
    | Some r \<Rightarrow> j_item r ''status'' = Inr (JStr (le_status entry)) \<and> le_status entry \<in> set (allowed_states name))"

definition child_plots :: "string \<times> lane_entry \<times> json option \<Rightarrow> plot list py" where
  \<comment> \<open>the plots of one lane: none when it failed\<close>
  "child_plots = (\<lambda>(name, entry, report). case report of
      None \<Rightarrow> Inr []
    | Some r \<Rightarrow> if name = ''catalog'' then catalog_plots r else w3c_plots r)"

lemma j_item_get: "j_item v k = Inr w \<Longrightarrow> j_getd v k d = Inr w"
  by (auto simp: j_item_def j_getd_def split: json.splits option.splits)

lemma list_ex_member: "list_ex ((=) x) xs \<longleftrightarrow> x \<in> set xs"
  by (auto simp: list_ex_iff)

lemma accept_child_Inr:
  assumes "accept_child h name report = Inr (entry, r)" "j_item report ''status'' = Inr (JStr s)"
  shows "r = report \<and> lane_done (name, entry, Some r) \<and> le_status entry = s"
  using assms j_item_get [OF assms(2)]
  by (auto simp: accept_child_def bindE_Inr_iff raise_if_Inr_iff list_ex_member j_str_def lane_done_def)

lemma child_report_status:
  assumes "child_report h a name = Inr report"
  obtains s where "j_item report ''status'' = Inr (JStr s)"
  using assms
  by (auto simp: child_report_def map_sum_def split: if_splits sum.splits)

lemma take_child_done:
  assumes "take_child h a name = Inr (entry, report)"
  shows "lane_done (name, entry, report) \<and> (case report of None \<Rightarrow> True | Some r \<Rightarrow> child_report h a name = Inr r)"
proof (cases "bindE (child_report h a name) (accept_child h name)")
  case (Inl e)
  with assms show ?thesis by (auto simp: take_child_def lane_done_def split: if_splits)
next
  case (Inr x)
  then obtain r where r: "child_report h a name = Inr r" "accept_child h name r = Inr x" by (auto simp: bindE_Inr_iff)
  from child_report_status [OF r(1)] obtain s where "j_item r ''status'' = Inr (JStr s)" by blast
  with accept_child_Inr [of h name r "fst x" "snd x" s] r assms Inr show ?thesis
    by (auto simp: take_child_def split: prod.splits)
qed

lemma lane_entry_status [simp]: "j_item (lane_entry_json e) ''status'' = Inr (JStr (le_status e))"
  by (simp add: lane_entry_json_def j_item_JObj)

lemma lane_plots_done:
  assumes "lane_done (name, entry, report)" "map_of reps name = report"
  shows "lane_plots reps (name, lane_entry_json entry) = child_plots (name, entry, report)"
proof (cases report)
  case None
  with assms show ?thesis by (simp add: lane_plots_def lane_done_def child_plots_def item_ne_def)
next
  case (Some r)
  with assms have "j_item r ''status'' = Inr (JStr (le_status entry))"
    "le_status entry = ''complete'' \<or> le_status entry = ''complete_with_failures''"
    by (auto simp: lane_done_def allowed_states_def split: if_splits)
  then show ?thesis using assms(2) Some
    by (elim disjE) (simp_all add: lane_plots_def child_plots_def item_ne_def)
qed

lemma campaign_status_overall: "campaign_status lanes = overall_state (map (le_status \<circ> snd) lanes)"
  by (simp only: campaign_status_def overall_state_def Let_def py_in_def)

lemma collect_plots_done:
  assumes "ca_build_id a = JStr build" "build \<noteq> []"
    and "lane_done (''catalog'', e1, r1)" "lane_done (''w3c'', e2, r2)"
    and kids: "kids = [(''catalog'', e1, r1), (''w3c'', e2, r2)]"
  shows "collect_plots (campaign_state_json (ca_build_id a) (campaign_status (lanes_of kids)) (lanes_of kids)) (reports_of kids)
     = bindE (child_plots (''catalog'', e1, r1)) (\<lambda>catalog. bindE (child_plots (''w3c'', e2, r2)) (\<lambda>w3c. Inr (catalog @ w3c)))"
proof -
  have maps: "map_of (reports_of kids) ''catalog'' = r1" "map_of (reports_of kids) ''w3c'' = r2"
    "fst ` set (reports_of kids) \<subseteq> {''catalog'', ''w3c''}"
    by (cases r1; cases r2; simp add: kids reports_of_def)+
  note plots = lane_plots_done [OF assms(3) maps(1)] lane_plots_done [OF assms(4) maps(2)]
  let ?state = "overall_state [le_status e1, le_status e2]"
  have terminal: "JStr ?state \<in> JStr ` {''complete'', ''complete_with_failures'', ''failed''}"
    by (simp add: overall_state_def)
  have state: "campaign_status (lanes_of kids) = ?state" by (simp add: campaign_status_overall kids lanes_of_def)
  have rows: "j_items (JObj (lane_states_json (lanes_of kids))) = Inr [(''catalog'', lane_entry_json e1), (''w3c'', lane_entry_json e2)]"
    and keys: "bindE (j_iter (JObj (lane_states_json (lanes_of kids)))) (\<lambda>keys. j_set_is keys [''catalog'', ''w3c'']) = Inr True"
    by (simp_all add: kids lanes_of_def lane_states_json_def j_items_def j_iter_def j_set_is_def hashable_def)
  have owner: "\<exists>s. JStr build = JStr s \<and> s \<noteq> []" using assms(2) by blast
  show ?thesis
    unfolding collect_plots_def campaign_state_json_def state assms(1)
    using maps(3) terminal owner
    by (simp add: j_item_JObj rows keys plots status_text_def del: image_insert insert_iff, simp add: bindE_assoc)
qed

definition hex_identities :: "campaign_host \<Rightarrow> campaign_args \<Rightarrow> bool" where
  \<comment> \<open>the artifacts a returned lane reports have hexadecimal digests and revisions\<close>
  "hex_identities h a \<longleftrightarrow>
     (case snd (catalog_run_lane (catalog_child h a)) of
        Inl e \<Rightarrow> True | Inr r \<Rightarrow> list_all (\<lambda>(i, b). unidentified b = Inr False) (ct_artifacts r))
     \<and> (case snd (run_lane (w3c_child h a)) of
        Inl e \<Rightarrow> True | Inr r \<Rightarrow> list_all (\<lambda>(i, b). unidentified b = Inr False) (lr_artifacts r))"

lemma hex_identitiesD:
  assumes "hex_identities h a"
  shows "catalog_run_lane (catalog_child h a) = (evs, Inr r) \<Longrightarrow> (i, b) \<in> set (ct_artifacts r) \<Longrightarrow> unidentified b = Inr False"
    "run_lane (w3c_child h a) = (evs, Inr r') \<Longrightarrow> (i, b) \<in> set (lr_artifacts r') \<Longrightarrow> unidentified b = Inr False"
  using assms by (auto simp: hex_identities_def list_all_iff)

lemma child_plots_taken:
  assumes "take_child h a name = Inr (entry, report)" "name = ''catalog'' \<or> name = ''w3c''"
    and "ch_read (cm_catalog h) = read_back env"
    and "hex_identities h a"
  obtains plots where "child_plots (name, entry, report) = Inr plots"
    "length plots = (case report of None \<Rightarrow> 0 | Some r \<Rightarrow> if name = ''catalog'' then 2 else 4)"
proof (cases report)
  case None
  then show thesis using that by (simp add: child_plots_def)
next
  case (Some j)
  with take_child_done [OF assms(1)] have j: "child_report h a name = Inr j" by simp
  show thesis
  proof (cases "name = ''catalog''")
    case True
    with j obtain evs r where r: "catalog_run_lane (catalog_child h a) = (evs, Inr r)" "j = catalog_report_json r"
      by (cases "catalog_run_lane (catalog_child h a)") (auto simp: child_report_def map_sum_def split: sum.splits)
    have read: "ch_read (catalog_child h a) = read_back env" using assms(3) by (simp add: catalog_child_def)
    have "\<exists>v w. map_sum id (map sp_values) (catalog_plots j) = Inr [v, w]" unfolding r(2)
      by (rule catalog_report_accepted [OF r(1) read]) (erule hex_identitiesD(1) [OF assms(4) r(1)], blast)
    then obtain v w where "map_sum id (map sp_values) (catalog_plots j) = Inr [v, w]" by blast
    then obtain plots where "catalog_plots j = Inr plots" "map sp_values plots = [v, w]"
      by (auto simp: map_sum_def split: sum.splits)
    moreover from this(2) have "length plots = 2" by (metis length_map length_Cons list.size(3) numeral_2_eq_2)
    ultimately show thesis using that by (simp add: child_plots_def Some True)
  next
    case False
    with j obtain evs r where r: "run_lane (w3c_child h a) = (evs, Inr r)" "j = report_json (cm_manifest h) r"
      by (cases "run_lane (w3c_child h a)") (auto simp: child_report_def map_sum_def split: sum.splits)
    have "\<exists>own core. w3c_plots j = Inr (w3c_specs own core)" unfolding r(2)
      by (rule lane_report_accepted [OF r(1), where manifest = "cm_manifest h"]) (erule hex_identitiesD(2) [OF assms(4) r(1)], blast)
    then obtain own core where "w3c_plots j = Inr (w3c_specs own core)" by blast
    then show thesis using that False by (simp add: child_plots_def Some w3c_specs_def w3c_plot_kinds_def)
  qed
qed

section \<open>The publishers\<close>

lemma seqA_writes: "(\<And>n. write n = Inr ()) \<Longrightarrow> \<exists>evs. seqA (map (\<lambda>x. write_atomic write (f x)) xs) = (evs, Inr ())"
  by (induction xs) (auto simp: write_atomic_cases pureA_def)

lemma publish_reports_total:
  assumes "\<And>n. write n = Inr ()" "html = Inr ()" "collect_plots state reps = Inr plots"
  shows "\<exists>evs. jenkins_publish_reports write source html state reps
     = (evs, Inr \<lparr>pb_manifest_rows = map (manifest_line source) plots, pb_plots = length plots\<rparr>)"
proof -
  obtain evs where "seqA (map (\<lambda>spec. write_atomic write (plot_file spec)) plots) = (evs, Inr ())"
    using seqA_writes assms(1) by blast
  with assms show ?thesis
    by (simp add: jenkins_publish_reports_def publish_body_def or_clear_def pureA_def emitA_def write_atomic_cases)
qed

lemma publish_summary_status:
  assumes "publish_summary h out dirs reps states selected = (evs, Inr (document, s))"
  shows "\<not> invalid_summary s"
proof -
  have "collect_summary h out dirs reps states selected = Inr (document, s)"
    using publish_summary_cases [OF assms, of "[]"] by simp
  then have "os_status s = ''complete'' \<or> os_status s = ''complete_with_failures'' \<or> os_status s = ''failed''"
    by (auto simp: collect_summary_def summary_status_def bindE_Inr_iff split: if_splits)
  then show ?thesis unfolding invalid_summary_def py_in_simps by (simp add: JUNIT_FILE_def)
qed

end
