(* ===== verification/Campaign_Claims.thy ===== *)
theory Campaign_Claims
  imports Campaign_Proofs Catalog_Sample Dual_W3C_Sample
begin

text \<open>
  The properties of the Jenkins campaign: what it leaves on disk, that neither lane can keep it from
  publishing what the other one delivered, and what its exit status says.
\<close>

section \<open>The files of a campaign\<close>

text \<open>
  C7. The campaign owns a new directory and leaves it in one of two states: it returned, and the two
  summary files, every file a line of the plot manifest names, the page and the manifest are there, with the
  status of the campaign in \<open>run.json\<close>; or it raised, and none of them exists.
\<close>

theorem campaign_all_or_nothing:
  "case run_campaign h a of
     (evs, Inr st) \<Rightarrow> run_status evs = Some (cs_status st)
       \<and> reports evs = [JUNIT_FILE, SUMMARY_FILE]
           @ map (\<lambda>row. drop (length ''plot-'') (row ! 1)) (pb_manifest_rows (cs_publication st)) @ [HTML_REPORT, MANIFEST]
   | (evs, Inl e) \<Rightarrow> reports evs = []"
  using campaign_lane.outcome [of "(h, a)"] unfolding campaign_finals_def
  by (auto split: prod.splits sum.splits)

section \<open>Independent lanes\<close>

lemma run_children_total:
  assumes "cm_run_json h = (\<lambda>_. Inr ())"
    and "take_child h a ''catalog'' = Inr (e1, r1)" "take_child h a ''w3c'' = Inr (e2, r2)"
  shows "\<exists>evs. run_children h a LANES = (evs, Inr [(''catalog'', e1, r1), (''w3c'', e2, r2)])"
  by (simp add: LANES_def run_child_def assms write_run_def pureA_def emitA_def)

lemma scoped_snd [simp]: "snd (scoped names m) = snd m"
  by (simp add: scoped_def)

lemma snd_bindA: "snd (bindA (evs, Inr x) k) = snd (k x)"
  by (simp add: bindA_def split: prod.splits)

lemma write_run_ok: "write = (\<lambda>_. Inr ()) \<Longrightarrow> write_run write s = ([RunJson s], Inr ())"
  by (simp add: write_run_def pureA_def emitA_def)

lemma snd_guard_lane: "write ''failed'' = Inr () \<Longrightarrow> snd (guard_lane write m) = snd m"
  by (cases m; cases "snd m") (auto simp: guard_lane_def write_run_def pureA_def emitA_def)

lemma validate_arguments_build: "validate_arguments h a = Inr () \<Longrightarrow> \<exists>build. ca_build_id a = JStr build \<and> build \<noteq> []"
  by (auto simp: validate_arguments_def bindE_Inr_iff raise_if_Inr_iff valid_build_id_def strip_def split: json.splits)


text \<open>The catalog lane and the W3C lane of the samples, run for one build.\<close>

definition campaign_sample_args :: campaign_args where
  "campaign_sample_args = \<lparr>ca_build_id = JStr ''42'', ca_suite_dir = None, ca_iterations = JInt 12, ca_pairs = JInt 2,
     ca_warmups = JInt 1, ca_sample_timeout_seconds = JInt 120, ca_min_sample_seconds = JInt 1, ca_timeout_seconds = JInt 10\<rparr>"

definition campaign_sample :: campaign_host where
  "campaign_sample = \<lparr>cm_host = wh_host sample_lane, cm_output_dir = [''out''], cm_output_text = ''out'', cm_mkdir = Inr (),
     cm_run_json = (\<lambda>_. Inr ()), cm_catalog = catalog_sample, cm_w3c = sample_lane, cm_manifest = (\<lambda>i a. i),
     cm_sha = (\<lambda>_. Inr sample_digest),
     cm_summary = \<lparr>sh_json = (\<lambda>_. Inl (OSError ''missing'')), sh_sha = (\<lambda>_. Inl (OSError ''missing'')), sh_fingerprint = None,
       sh_junit = (\<lambda>_. Inl (OSError ''missing'')), sh_write = (\<lambda>_. Inr ()), sh_float = (\<lambda>_. [])\<rparr>,
     cm_write = (\<lambda>_. Inr ()), cm_source = (\<lambda>f. f), cm_html = Inr ()\<rparr>"

lemma campaign_sample_simps [simp]:
  "cm_mkdir campaign_sample = Inr ()" "cm_run_json campaign_sample = (\<lambda>_. Inr ())" "cm_write campaign_sample = (\<lambda>_. Inr ())"
  "cm_html campaign_sample = Inr ()" "cm_catalog campaign_sample = catalog_sample" "cm_sha campaign_sample f = Inr sample_digest"
  "cm_manifest campaign_sample = (\<lambda>i a. i)"
  by (simp_all add: campaign_sample_def)

lemma campaign_sample_children:
  "catalog_child campaign_sample campaign_sample_args = catalog_sample"
  "w3c_child campaign_sample campaign_sample_args = sample_lane"
  by (simp_all add: catalog_child_def w3c_child_def campaign_sample_def campaign_sample_args_def int_value_def rat_value_def
      float_value_def num_of.simps catalog_sample_def sample_lane_def sample_w3c_def)

lemma campaign_sample_valid: "validate_arguments campaign_sample campaign_sample_args = Inr ()"
proof -
  have "\<not> (of_int 1 \<ge> max_double_bound)" "\<not> (of_int 10 \<ge> max_double_bound)" by (simp_all add: max_double_bound_def)
  then show ?thesis
    by (simp add: validate_arguments_def campaign_sample_args_def valid_build_id_def strip_def is_space_def control_free_def
      check_positive_def check_duration_def is_finite_number_def out_of_bounds_def num_of.simps overlapping_inputs_def)
qed

definition complete_entry :: "string \<Rightarrow> lane_entry" where
  "complete_entry name = (running_entry name)\<lparr>le_status := ''complete'', le_sha256 := Some sample_digest\<rparr>"

lemma campaign_sample_taken:
  "take_child campaign_sample campaign_sample_args ''catalog''
     = Inr (complete_entry ''catalog'', Some (catalog_report_json returned_sample))"
  "take_child campaign_sample campaign_sample_args ''w3c''
     = Inr (complete_entry ''w3c'', Some (report_json (\<lambda>i a. i) sample_report))"
proof -
  obtain evs evs' where r: "catalog_run_lane catalog_sample = (evs, Inr returned_sample)" "run_lane sample_lane = (evs', Inr sample_report)"
    using sample_catalog_returned sample_returned by blast
  then show "take_child campaign_sample campaign_sample_args ''catalog''
     = Inr (complete_entry ''catalog'', Some (catalog_report_json returned_sample))"
    "take_child campaign_sample campaign_sample_args ''w3c''
     = Inr (complete_entry ''w3c'', Some (report_json (\<lambda>i a. i) sample_report))"
    by (simp_all add: take_child_def child_report_def accept_child_def campaign_sample_children complete_entry_def
      j_item_get sample_complete allowed_states_def j_str_def)
qed


section \<open>The exit status\<close>

lemma campaign_returned:
  assumes "run_campaign h a = (evs, Inr st)"
  obtains kids document where "map fst kids = LANES" "list_all (\<lambda>(name, e, r). take_child h a name = Inr (e, r)) kids"
    "collect_summary (cm_summary h) (cm_output_text h) [] (map_of (reports_of kids))
       (map_of (lane_states_json (lanes_of kids))) LANES = Inr (document, cs_summary st)"
    "\<not> invalid_summary (cs_summary st)"
proof -
  from run_campaign_Inr [OF assms] have "campaign_body h a = (evs, Inr st)" by simp
  then show thesis
  proof (rule campaign_body_Inr)
    fix kids evs1 evs2 document plots
    assume k: "run_children h a LANES = (evs1, Inr kids)"
      and p: "publish_summary (cm_summary h) (cm_output_text h) [] (map_of (reports_of kids))
       (map_of (lane_states_json (lanes_of kids))) LANES = (evs2, Inr (document, cs_summary st))"
      and v: "\<not> invalid_summary (cs_summary st)"
    from run_children_cases [where h = h and a = a and names = LANES] k
    have "map fst kids = LANES" "list_all (\<lambda>(name, e, r). take_child h a name = Inr (e, r)) kids" by auto
    moreover have "collect_summary (cm_summary h) (cm_output_text h) [] (map_of (reports_of kids))
       (map_of (lane_states_json (lanes_of kids))) LANES = Inr (document, cs_summary st)"
      using publish_summary_cases [OF p, of "[]"] by simp
    ultimately show thesis using that v by blast
  qed
qed

lemma campaign_exit_status:
  assumes "\<not> invalid_summary s"
  obtains n where "campaign_exit (os_status s) = Inr n" "n \<in> {0, 1, 2}" "n = 0 \<longleftrightarrow> os_status s = ''complete''"
proof -
  from assms have "os_status s = ''complete'' \<or> os_status s = ''complete_with_failures'' \<or> os_status s = ''failed''"
    unfolding invalid_summary_def py_in_simps by blast
  then show thesis
    using that [of 0] that [of 1] that [of 2] by (elim disjE) (simp_all add: campaign_exit_def)
qed

text \<open>
  C8. Jenkins sees 0, 1 or 2 unless the process is interrupted, and 0 is earned: the campaign
  returned, and in both lanes our own builds were verified on disk, passed their directed controls
  with assertions on and off, and the W3C suite of our implementation was accepted without a failed case. The
  comparison with the other implementation has no part in it.
\<close>

theorem campaign_exit_earned:
  "case campaign_main h a of
     (evs, Inr n) \<Rightarrow> n \<in> {0, 1, 2} \<and> (if n = 0
       then \<exists>st kids. run_campaign h a = (evs, Inr st) \<and> map fst kids = LANES
         \<and> list_all (\<lambda>(name, e, r). take_child h a name = Inr (e, r)) kids
         \<and> list_all (\<lambda>lane. lane_earned (cm_summary h) (cm_output_text h @ ''/'' @ lane) lane (map_of (reports_of kids) lane)) LANES
       else True)
   | (evs, Inl e) \<Rightarrow> \<not> is_exception e"
proof -
  obtain evs r where run: "run_campaign h a = (evs, r)" by fastforce
  show ?thesis
  proof (cases r)
    case (Inl e)
    then show ?thesis by (simp add: campaign_main_def run)
  next
    case (Inr st)
    obtain kids document where k: "map fst kids = LANES" "list_all (\<lambda>(name, e, r). take_child h a name = Inr (e, r)) kids"
      and c: "collect_summary (cm_summary h) (cm_output_text h) [] (map_of (reports_of kids))
       (map_of (lane_states_json (lanes_of kids))) LANES = Inr (document, cs_summary st)"
      and v: "\<not> invalid_summary (cs_summary st)"
      using campaign_returned [OF run [unfolded Inr]] by blast
    obtain n where n: "campaign_exit (os_status (cs_summary st)) = Inr n" "n \<in> {0, 1, 2}"
      "n = 0 \<longleftrightarrow> os_status (cs_summary st) = ''complete''" by (rule campaign_exit_status [OF v])
    have earned: "list_all (\<lambda>lane. lane_earned (cm_summary h) (cm_output_text h @ ''/'' @ lane) lane (map_of (reports_of kids) lane)) LANES"
      if "n = 0"
      using summary_complete_earned [OF c] n(3) that by (simp add: list_all_iff lane_directory_def)
    have main: "campaign_main h a = (evs, Inr n)" by (simp add: campaign_main_def run Inr n(1))
    show ?thesis unfolding main using run Inr k earned n(2) by (auto split: if_splits)
  qed
qed

end
