(* ===== verification/Regression.thy ===== *)
theory Regression
  imports Dual_Lane W3C_Run Lane_Runner
begin

text \<open>
  The dual regression lane, \<open>scripts/run_dual_regression.py\<close>: the inputs and what is expected of
  them, how each is cut into chunks, how the traces of an executable are read and judged, and the run over
  both implementations with and without assertions. A process is a function of the host; its output is
  already decoded. Bytes are characters.
\<close>

section \<open>Events\<close>

definition escape_byte :: "char \<Rightarrow> string" where
  "escape_byte b = (let n = of_char b :: nat in
     if 32 \<le> n \<and> n < 127 \<and> \<not> py_in n [0x5C, 0x7C] then [b] else [CHR 0x5C, CHR ''x''] @ hex_byte n)"

definition escaped :: "string \<Rightarrow> string" where
  "escaped data = concat (map escape_byte data)"

definition text_event :: "string \<Rightarrow> string" where
  \<comment> \<open>\<open>text\<close>\<close>
  "text_event data = ''text:'' @ escaped data"

definition R_EVENTS :: "string list" where
  "R_EVENTS = [''start:r'', ''end:r'']"

definition T_EVENTS :: "string list" where
  "T_EVENTS = [''start:root'', ''end:root'']"

section \<open>Cases\<close>

record regression_case =
  rc_name :: string
  rc_group :: string
  rc_data :: string
  rc_accepted :: bool
  rc_events :: "string list option"

definition case_row :: "string \<Rightarrow> string \<Rightarrow> string \<Rightarrow> bool \<Rightarrow> string list option \<Rightarrow> regression_case" where
  "case_row name group_name data accepted events =
     \<lparr>rc_name = name, rc_group = group_name, rc_data = data, rc_accepted = accepted, rc_events = events\<rparr>"

definition direct_cases :: "regression_case list" where
  "direct_cases =
     [case_row ''c02-valid'' ''c02'' ''<root/>'' True (Some T_EVENTS),
      case_row ''c02-valid-pair'' ''c02'' ''<root></root>'' True (Some T_EVENTS),
      case_row ''c02-text'' ''c02'' ''<root>hi</root>'' True (Some [''start:root'', text_event ''hi'', ''end:root'']),
      case_row ''c02-empty'' ''c02'' [] False None,
      case_row ''c02-incomplete'' ''c02'' ''<root>'' False None,
      case_row ''c02-mismatched'' ''c02'' ''<root><child></root>'' False None,
      case_row ''c02-trailing-junk'' ''c02'' ''<root/>junk'' False None,
      case_row ''cr-crlf'' ''cr'' (''<r>'' @ [CHR 0x0D, newline] @ ''</r>'') True (Some [''start:r'', text_event [newline], ''end:r'']),
      case_row ''cr-lone'' ''cr'' (''<r>'' @ [CHR 0x0D] @ ''</r>'') True (Some [''start:r'', text_event [newline], ''end:r'']),
      case_row ''cr-last-byte'' ''cr'' (''<r/>'' @ [CHR 0x0D]) True (Some R_EVENTS),
      case_row ''cr-attribute'' ''cr'' (''<r a='' @ [CHR 0x27, CHR ''x'', CHR 0x0D, CHR ''y'', CHR 0x27] @ ''/>'') True (Some R_EVENTS),
      case_row ''elem-nested'' ''basic'' ''<a><b/><c>t</c></a>'' True
        (Some [''start:a'', ''start:b'', ''end:b'', ''start:c'', text_event ''t'', ''end:c'', ''end:a'']),
      case_row ''attr-two'' ''basic'' (''<a x='' @ [CHR 0x27, CHR ''1'', CHR 0x27] @ '' y='' @ [CHR 0x22, CHR ''2'', CHR 0x22] @ ''/>'') True
        (Some [''start:a'', ''end:a'']),
      case_row ''attr-duplicate'' ''basic'' (''<a x='' @ [CHR 0x27, CHR ''1'', CHR 0x27] @ '' x='' @ [CHR 0x27, CHR ''2'', CHR 0x27] @ ''/>'') False None,
      case_row ''attr-unquoted'' ''basic'' ''<a x=1/>'' False None,
      case_row ''text-entities'' ''basic'' ''<a>&lt;&amp;&gt;</a>'' True (Some [''start:a'', text_event ''<&>'', ''end:a'']),
      case_row ''text-charrefs'' ''basic'' ''<a>&#65;&#x42;</a>'' True (Some [''start:a'', text_event ''AB'', ''end:a'']),
      case_row ''text-whitespace'' ''basic'' (''<a> x '' @ [newline] @ '' y </a>'') True
        (Some [''start:a'', text_event ('' x '' @ [newline] @ '' y ''), ''end:a'']),
      case_row ''text-undefined-entity'' ''basic'' ''<a>&nope;</a>'' False None]"

definition sequences :: "(string \<times> string \<times> bool) list" where
  \<comment> \<open>UTF-8 sequences, and whether they are valid\<close>
  "sequences = [(''valid-e9'', [CHR 0xC3, CHR 0xA9], True), (''bad-continuation'', [CHR 0xC3, CHR ''('' ], False),
     (''overlong'', [CHR 0xC0, CHR 0xAF], False), (''surrogate'', [CHR 0xED, CHR 0xA0, CHR 0x80], False),
     (''above-10ffff'', [CHR 0xF4, CHR 0x90, CHR 0x80, CHR 0x80], False), (''lone-continuation'', [CHR 0x80], False),
     (''ff'', [CHR 0xFF], False)]"

definition places :: "(string \<times> string \<times> string) list" where
  "places = [(''text'', ''<r>'', ''</r>''), (''attribute'', ''<r a='' @ [CHR 0x27], [CHR 0x27] @ ''/>''), (''name'', ''<r'', ''/>''),
     (''comment'', ''<r><!--'', ''--></r>''), (''pi'', ''<r><?pi '', ''?></r>''), (''cdata'', ''<r><![CDATA['', '']]></r>'')]"

definition utf8_events :: "string \<Rightarrow> string \<Rightarrow> bool \<Rightarrow> string list option" where
  "utf8_events place seq valid =
     (if valid then
        (if place = ''name'' then Some [''start:r'' @ escaped seq, ''end:r'' @ escaped seq]
         else if py_in place [''text'', ''cdata''] then Some [''start:r'', text_event seq, ''end:r'']
         else Some R_EVENTS)
      else None)"

definition utf8_cases :: "regression_case list" where
  "utf8_cases = concat (map (\<lambda>(seq_name, seq, valid). map (\<lambda>(place, before, after).
     case_row (''utf8-'' @ seq_name @ ''-'' @ place) ''utf8'' (before @ seq @ after) valid (utf8_events place seq valid))
     places) sequences)"

definition regression_cases :: "regression_case list" where
  \<comment> \<open>\<open>cases\<close>\<close>
  "regression_cases = direct_cases @ utf8_cases"

definition LIFECYCLE :: "(string \<times> bool \<times> string list option) list" where
  "LIFECYCLE = [(''1-valid'', True, Some [''start:root'', text_event ''hi'', ''end:root'']),
     (''2-mismatched'', False, None),
     (''3-valid-after-failure'', True, Some [''start:root'', text_event ''hi'', ''end:root'']),
     (''4-incomplete'', False, None),
     (''5-valid-after-incomplete'', True, Some [''start:a'', ''start:b'', ''end:b'', text_event ''t'', ''end:a'']),
     (''6-partial-then-final'', True, Some [''start:root'', text_event ''hi'', ''end:root'']),
     (''7-bad-utf8'', False, None),
     (''8-valid-after-bad-utf8'', True, Some [''start:r'', text_event ''ok'', ''end:r'']),
     (''9-empty'', False, None),
     (''10-valid-after-empty'', True, Some T_EVENTS)]"

definition chunkings :: "string \<Rightarrow> string list" where
  "chunkings data = [''whole''] @ map (\<lambda>k. ''split@'' @ show_int (int k)) [1..<length data]
     @ (if data \<noteq> [] then [''bytes''] else []) @ (if 1 < length data then [''bytes-final''] else [])"

section \<open>Traces\<close>

type_synonym exe_result = "int option \<times> string \<times> string"
type_synonym trace = "string \<times> string \<times> string" \<comment> \<open>verdict, events, error\<close>

fun run_exe :: "outcome \<Rightarrow> exe_result py" where
  "run_exe (Completed code out err) = Inr (Some code, out, err)"
| "run_exe (TimeoutExpired _ _) = Inr (None, [], ''timeout'')"
| "run_exe (LaunchError message) = Inl (OSError message)"

fun trace_line :: "string \<Rightarrow> string list \<Rightarrow> (string \<times> trace) option" where
  "trace_line mk [first, key, answer, events, error] = (if first = mk then Some (key, answer, events, error) else None)"
| "trace_line mk _ = None"

definition parse_lines :: "string \<Rightarrow> string \<Rightarrow> (string \<times> trace) list" where
  \<comment> \<open>a dictionary: the last line of a key wins\<close>
  "parse_lines stdout mk = rev (List.map_filter (trace_line mk \<circ> split_on tab) (splitlines stdout))"

definition last_line :: "string \<Rightarrow> string" where
  \<comment> \<open>\<open>s.strip().splitlines()[-1:] or ""\<close> as text\<close>
  "last_line s = (case splitlines (strip s) of [] \<Rightarrow> [] | ls \<Rightarrow> ''['' @ py_repr (last ls) @ '']'')"

definition show_code :: "int option \<Rightarrow> string" where
  "show_code code = (case code of None \<Rightarrow> ''None'' | Some n \<Rightarrow> show_int n)"

definition chunk_trace :: "(string list \<Rightarrow> outcome) \<Rightarrow> string \<Rightarrow> string \<Rightarrow> trace py" where
  \<comment> \<open>one chunking in a process of its own\<close>
  "chunk_trace exec path name =
     bindE (run_exe (exec [''--trace'', path, ''--chunking'', name])) (\<lambda>(code, out, err).
     let one = map_of (parse_lines out ''XPACT_TRACE'') name in
     Inr (if code = Some 0 \<and> one \<noteq> None then the one
       else if code = None then (''TIMEOUT'', [], [])
       else (''CRASH'', [], ''exit '' @ show_code code @ '': '' @ last_line (or_else err out))))"

definition trace_case :: "(string list \<Rightarrow> outcome) \<Rightarrow> string \<Rightarrow> string list \<Rightarrow> (string \<times> trace) list py" where
  "trace_case exec path names =
     bindE (run_exe (exec [''--trace'', path])) (\<lambda>(code, out, err).
     let rows = parse_lines out ''XPACT_TRACE'' in
     if code = Some 0 \<and> set (map fst rows) = set names then Inr rows
     else mapE (\<lambda>name. bindE (chunk_trace exec path name) (\<lambda>row. Inr (name, row))) names)"

definition joined :: "string list \<Rightarrow> string" where
  "joined events = join '' | '' events"

definition verdict_name :: "bool \<Rightarrow> string" where
  "verdict_name accepted = (if accepted then ''ACCEPT'' else ''REJECT'')"

definition judge :: "bool \<Rightarrow> string list option \<Rightarrow> string \<Rightarrow> string \<Rightarrow> string py" where
  "judge accepted expected_events answer events =
     (if py_in answer [''CRASH'', ''TIMEOUT''] then Inr answer
      else if answer \<noteq> verdict_name accepted then Inr ''WRONG-VERDICT''
      else if accepted then (case expected_events of
          None \<Rightarrow> Inl TypeError
        | Some expected \<Rightarrow> Inr (if events \<noteq> joined expected then ''WRONG-EVENTS'' else ''PASS''))
      else Inr ''PASS'')"

section \<open>The run\<close>

record regression_row =
  rr_build :: string
  rr_case :: string
  rr_group :: string
  rr_chunking :: string
  rr_input :: string
  rr_expected :: string
  rr_verdict :: string
  rr_result :: string
  rr_expected_events :: string
  rr_events :: string
  rr_error :: string

record lifecycle_row =
  ly_build :: string
  ly_step :: string
  ly_expected :: string
  ly_verdict :: string
  ly_result :: string
  ly_expected_events :: string
  ly_events :: string
  ly_error :: string

record regression_host =
  rg_run_json :: "string \<Rightarrow> unit py"
  rg_mkdir :: "string \<Rightarrow> unit py"
  rg_write_bytes :: "string \<Rightarrow> unit py"
  rg_toolchain :: "unit py"
  rg_build :: "string \<Rightarrow> bool \<Rightarrow> json py" \<comment> \<open>what \<open>build_one\<close> returns\<close>
  rg_manifest :: "string \<Rightarrow> json py" \<comment> \<open>the JSON value of a file\<close>
  rg_exec :: "string list \<Rightarrow> outcome" \<comment> \<open>executable and arguments\<close>
  rg_fixtures :: string
  rg_dumps :: "(string \<times> string) list \<Rightarrow> string"
  rg_write :: "string \<Rightarrow> unit py"
  rg_summary :: "string list \<Rightarrow> string \<Rightarrow> unit py" \<comment> \<open>write these lines\<close>
  rg_float :: "fl \<Rightarrow> string"

definition phase_name :: "bool \<Rightarrow> string" where
  "phase_name assertions = (if assertions then ''assertions-on'' else ''assertions-off'')"

definition label_of :: "bool \<Rightarrow> string \<Rightarrow> string" where
  "label_of assertions implementation = implementation @ ''/'' @ phase_name assertions"

definition fixture :: "regression_host \<Rightarrow> regression_case \<Rightarrow> string" where
  "fixture h c = rg_fixtures h @ ''/'' @ rc_name c @ ''.xml''"

definition missing_trace :: trace where
  "missing_trace = (''MISSING'', [], [])"

definition trace_row :: "string \<Rightarrow> regression_case \<Rightarrow> (string \<times> trace) list \<Rightarrow> string \<Rightarrow> regression_row py" where
  "trace_row label c traces chunking =
     (case py_get (map_of traces) chunking missing_trace of (answer, observed, error) \<Rightarrow>
      bindE (if answer \<noteq> ''MISSING'' then judge (rc_accepted c) (rc_events c) answer observed else Inr ''MISSING'') (\<lambda>res.
      Inr \<lparr>rr_build = label, rr_case = rc_name c, rr_group = rc_group c, rr_chunking = chunking,
        rr_input = escaped (rc_data c), rr_expected = verdict_name (rc_accepted c), rr_verdict = answer, rr_result = res,
        rr_expected_events = (case rc_events c of None \<Rightarrow> [] | Some es \<Rightarrow> joined es),
        rr_events = observed, rr_error = error\<rparr>))"

definition case_rows :: "regression_host \<Rightarrow> string \<Rightarrow> string \<Rightarrow> regression_case \<Rightarrow> regression_row list py" where
  "case_rows h label executable c =
     bindE (trace_case (\<lambda>args. rg_exec h (executable # args)) (fixture h c) (chunkings (rc_data c))) (\<lambda>traces.
     mapE (trace_row label c traces) (chunkings (rc_data c)))"

definition lifecycle_step :: "string \<Rightarrow> int option \<Rightarrow> (string \<times> trace) list \<Rightarrow> string \<times> bool \<times> string list option
    \<Rightarrow> lifecycle_row py" where
  "lifecycle_step label code steps = (\<lambda>(step, accepted, events).
     case py_get (map_of steps) step (if code \<noteq> Some 0 \<and> code \<noteq> None then ''CRASH'' else ''MISSING'', [], []) of
       (answer, observed, error) \<Rightarrow>
     bindE (judge accepted events answer observed) (\<lambda>res.
     Inr \<lparr>ly_build = label, ly_step = step, ly_expected = verdict_name accepted, ly_verdict = answer, ly_result = res,
       ly_expected_events = (case events of None \<Rightarrow> [] | Some es \<Rightarrow> joined es), ly_events = observed, ly_error = error\<rparr>))"

definition lifecycle_rows :: "regression_host \<Rightarrow> string \<Rightarrow> string \<Rightarrow> lifecycle_row list py" where
  "lifecycle_rows h label executable =
     bindE (run_exe (rg_exec h [executable, ''--lifecycle''])) (\<lambda>(code, out, err).
     let steps = parse_lines out ''XPACT_LIFECYCLE'' in mapE (lifecycle_step label code steps) LIFECYCLE)"

datatype build_result =
    BuildFailed string
  | Built json "regression_row list" "lifecycle_row list"

definition build_caught :: "exn \<Rightarrow> bool" where
  \<comment> \<open>\<open>except (BuildError, DependencyError, OSError, ValueError)\<close>\<close>
  "build_caught e = (is_value_error e \<or> (case e of
      BuildError _ \<Rightarrow> True | DependencyError _ \<Rightarrow> True | OSError _ \<Rightarrow> True | _ \<Rightarrow> False))"

definition measured_build :: "regression_host \<Rightarrow> string \<Rightarrow> json \<Rightarrow> build_result py" where
  \<comment> \<open>all cases and the life cycle of one executable\<close>
  "measured_build h label artifact =
     bindE (bindE (j_item artifact ''executable'') j_str) (\<lambda>executable.
     bindE (mapE (case_rows h label executable) regression_cases) (\<lambda>rows.
     bindE (lifecycle_rows h label executable) (\<lambda>life.
     Inr (Built artifact (concat rows) life))))"

definition run_build :: "regression_host \<Rightarrow> bool \<Rightarrow> string \<Rightarrow> (string \<times> build_result) py" where
  "run_build h assertions implementation = (let label = label_of assertions implementation in
     case rg_build h implementation assertions of
       Inl e \<Rightarrow> if build_caught e then
           (case splitlines (exn_text e) of [] \<Rightarrow> Inl IndexError | line # _ \<Rightarrow> Inr (label, BuildFailed (take 400 line)))
         else Inl e
     | Inr built \<Rightarrow>
         bindE (bindE (bindE (j_item built ''manifest'') j_str) (rg_manifest h)) (\<lambda>artifact.
         bindE (measured_build h label artifact) (\<lambda>b. Inr (label, b))))"

definition run_phase :: "regression_host \<Rightarrow> bool \<Rightarrow> (string \<times> build_result) list py" where
  "run_phase h assertions =
     bindE (rg_mkdir h (phase_name assertions)) (\<lambda>_. mapE (run_build h assertions) implementations)"

definition executables_of :: "(string \<times> build_result) list \<Rightarrow> (string \<times> json) list" where
  "executables_of bs = concat (map (\<lambda>(label, b). case b of Built artifact _ _ \<Rightarrow> [(label, artifact)] | BuildFailed _ \<Rightarrow> []) bs)"

definition rows_of_builds :: "(string \<times> build_result) list \<Rightarrow> regression_row list" where
  "rows_of_builds bs = concat (map (\<lambda>(label, b). case b of Built _ rows _ \<Rightarrow> rows | BuildFailed _ \<Rightarrow> []) bs)"

definition lifecycle_of_builds :: "(string \<times> build_result) list \<Rightarrow> lifecycle_row list" where
  "lifecycle_of_builds bs = concat (map (\<lambda>(label, b). case b of Built _ _ life \<Rightarrow> life | BuildFailed _ \<Rightarrow> []) bs)"

definition errors_of_builds :: "(string \<times> build_result) list \<Rightarrow> (string \<times> string) list" where
  "errors_of_builds bs = concat (map (\<lambda>(label, b). case b of BuildFailed e \<Rightarrow> [(label, e)] | Built _ _ _ \<Rightarrow> []) bs)"

definition own_failure :: "regression_row list \<Rightarrow> lifecycle_row list \<Rightarrow> bool" where
  \<comment> \<open>\<open>xpact_failures\<close> is not empty\<close>
  "own_failure rows life =
     (list_ex (\<lambda>r. startswith (rr_build r) ''xpact/'' \<and> rr_result r \<noteq> ''PASS'') rows
      \<or> list_ex (\<lambda>r. startswith (ly_build r) ''xpact/'' \<and> ly_result r \<noteq> ''PASS'') life)"

definition own_missing :: "(string \<times> string) list \<Rightarrow> bool" where
  "own_missing errors = list_ex (\<lambda>(label, _). startswith label ''xpact/'') errors"

definition regression_status :: "bool \<Rightarrow> bool \<Rightarrow> string" where
  "regression_status missing failures =
     (if missing then ''incomplete'' else if \<not> failures then ''complete'' else ''complete_with_failures'')"

section \<open>Reports\<close>

text \<open>The two symbols of the page beyond code point 255 are their UTF-8 bytes.\<close>

definition ELLIPSIS :: string where
  "ELLIPSIS = [CHR 0xE2, CHR 0x80, CHR 0xA6]"

definition CROSS_MARK :: string where
  "CROSS_MARK = [CHR 0xE2, CHR 0x9D, CHR 0x8C]"

definition replace_char :: "char \<Rightarrow> char \<Rightarrow> string \<Rightarrow> string" where
  "replace_char c d s = map (\<lambda>x. if x = c then d else x) s"

definition table_line :: "string list \<Rightarrow> string" where
  "table_line cells = ''| '' @ join '' | '' cells @ '' |''"

definition RESULTS :: "string list" where
  "RESULTS = [''PASS'', ''WRONG-VERDICT'', ''WRONG-EVENTS'', ''CRASH'', ''TIMEOUT'', ''MISSING'']"

definition build_line :: "(fl \<Rightarrow> string) \<Rightarrow> string \<times> json \<Rightarrow> string py" where
  "build_line fr = (\<lambda>(label, a).
     bindE (bindE (path_item a [''source'', ''revision'']) j_str) (\<lambda>revision.
     bindE (path_item a [''build'', ''configuration'']) (\<lambda>configuration.
     bindE (bindE (j_item a ''executable_sha256'') j_str) (\<lambda>digest.
     Inr (''| '' @ label @ '' | `'' @ take 12 revision @ ''` | '' @ py_str fr configuration @ '' | `'' @ take 12 digest @ ELLIPSIS @ ''` |'')))))"

definition build_error_line :: "string \<times> string \<Rightarrow> string" where
  "build_error_line = (\<lambda>(label, error). ''| '' @ label @ '' | build failed | '' @ replace_char CHR ''|'' CHR ''/'' error @ '' | |'')"

definition builds_seen :: "regression_row list \<Rightarrow> string list" where
  "builds_seen rows = fromkeys (map rr_build rows)"

definition result_counts :: "regression_row list \<Rightarrow> string \<Rightarrow> nat \<times> nat list" where
  \<comment> \<open>runs and results of one build\<close>
  "result_counts rows b = (let mine = filter (\<lambda>r. rr_build r = b) rows in
     (length mine, map (\<lambda>x. count_if (\<lambda>r. rr_result r = x) mine) RESULTS))"

definition result_line :: "regression_row list \<Rightarrow> string \<Rightarrow> string" where
  "result_line rows b = (let (runs, counts) = result_counts rows b in
     table_line ([b, show_int (int runs)] @ map (\<lambda>n. show_int (int n)) counts))"

definition group_line :: "regression_row list \<Rightarrow> string \<Rightarrow> string \<Rightarrow> string" where
  "group_line rows b g = (let sel = filter (\<lambda>r. rr_build r = b \<and> rr_group r = g) rows in
     table_line [b, g, show_int (int (length sel)), show_int (int (count_if (\<lambda>r. rr_result r \<noteq> ''PASS'') sel))])"

definition group_lines :: "regression_row list \<Rightarrow> string list" where
  "group_lines rows = concat (map (\<lambda>b. map (group_line rows b) (fromkeys (map rr_group rows))) (builds_seen rows))"

definition lifecycle_cell :: "lifecycle_row list \<Rightarrow> string \<Rightarrow> string \<Rightarrow> string py" where
  "lifecycle_cell life step b = (case find (\<lambda>x. ly_build x = b \<and> ly_step x = step) life of
      None \<Rightarrow> Inl StopIteration
    | Some r \<Rightarrow> Inr (ly_verdict r @ (if ly_result r = ''PASS'' then [] else '' '' @ CROSS_MARK @ '' '' @ ly_result r)))"

definition lifecycle_line :: "lifecycle_row list \<Rightarrow> string list \<Rightarrow> string \<times> bool \<times> string list option \<Rightarrow> string py" where
  "lifecycle_line life bs = (\<lambda>(step, accepted, _).
     bindE (mapE (lifecycle_cell life step) bs) (\<lambda>cells.
     Inr (''| '' @ step @ '' | '' @ verdict_name accepted @ '' | '' @ join '' | '' cells @ '' |'')))"

definition failure_groups :: "regression_row list \<Rightarrow> ((string \<times> string \<times> string) \<times> regression_row list) list" where
  \<comment> \<open>\<open>seen\<close>: the rows that are not \<open>PASS\<close> by build, case and result\<close>
  "failure_groups rows = (let bad = filter (\<lambda>r. rr_result r \<noteq> ''PASS'') rows; key = (\<lambda>r. (rr_build r, rr_case r, rr_result r)) in
     map (\<lambda>k. (k, filter (\<lambda>r. key r = k) bad)) (fromkeys (map key bad)))"

definition failure_line :: "(string \<times> string \<times> string) \<times> regression_row list \<Rightarrow> string" where
  "failure_line = (\<lambda>((b, name, res), rs). table_line [b, name, show_int (int (length rs)), res,
     join '', '' (map rr_chunking (take 4 rs)),
     ''`'' @ or_else (replace_char CHR ''|'' CHR 0xB7 (rr_events (hd rs))) ''-'' @ ''`'',
     or_else (replace_char CHR ''|'' CHR ''/'' (rr_error (hd rs))) ''-''])"

definition regression_lines :: "(fl \<Rightarrow> string) \<Rightarrow> regression_row list \<Rightarrow> lifecycle_row list \<Rightarrow> (string \<times> json) list
    \<Rightarrow> (string \<times> string) list \<Rightarrow> string list py" where
  "regression_lines fr rows life executables errors =
     bindE (mapE (build_line fr) executables) (\<lambda>built.
     bindE (mapE (lifecycle_line life (builds_seen rows)) LIFECYCLE) (\<lambda>steps.
     Inr ([''# Dual regression lane: functional cases, whole and chunked'', [],
         ''Expected results are written in `run_dual_regression.py`, independently of both parsers.'', [],
         ''## Builds'', [], ''| Build | Revision | Configuration | SHA-256 |'', ''|---|---|---|---|'']
       @ built @ map build_error_line errors
       @ [[], ''## Results per build (every chunking)'', [], table_line ([''Build'', ''Runs''] @ RESULTS),
          concat (replicate (length RESULTS + 2) ''|---'') @ ''|'']
       @ map (result_line rows) (builds_seen rows)
       @ [[], ''## Per group'', [], ''| Build | Group | Runs | Not PASS |'', ''|---|---|---|---|''] @ group_lines rows
       @ [[], ''## Lifecycle (one reused parser)'', [],
          ''| Step | Expected | '' @ join '' | '' (builds_seen rows) @ '' |'',
          ''|---|---|'' @ concat (replicate (length (builds_seen rows)) ''---|'')]
       @ steps
       @ [[], ''## Cases that are not PASS (first 60 distinct case/build/result)'', [],
          ''| Build | Case | Runs | Result | Chunkings (first 4) | Observed events | Error |'', ''|---|---|---|---|---|---|---|'']
       @ map failure_line (take 60 (failure_groups rows)))))"

definition write_tsv :: "(string \<Rightarrow> unit py) \<Rightarrow> string \<Rightarrow> 'r list \<Rightarrow> unit lane" where
  \<comment> \<open>the columns are those of the first row; the text of a table is the library's\<close>
  "write_tsv write name rows = (if rows = [] then pureA (Inl IndexError) else write_text write name)"

definition regression_reports :: "regression_host \<Rightarrow> regression_row list \<Rightarrow> lifecycle_row list \<Rightarrow> (string \<times> json) list
    \<Rightarrow> (string \<times> string) list \<Rightarrow> unit lane" where
  "regression_reports h rows life executables errors =
     bindA (write_tsv (rg_write h) ''cases.tsv'' rows) (\<lambda>_.
     bindA (write_tsv (rg_write h) ''lifecycle.tsv'' life) (\<lambda>_.
     bindA (pureA (regression_lines (rg_float h) rows life executables errors)) (\<lambda>lines.
     write_text (rg_summary h lines) ''summary.md'')))"

section \<open>Lane and script\<close>

definition run_entry :: "string \<times> json \<Rightarrow> unit py" where
  \<comment> \<open>the entry of \<open>run.json\<close> for one executable can be built\<close>
  "run_entry = (\<lambda>(label, v). bindE (j_item v ''executable'') (\<lambda>_. bindE (j_item v ''executable_sha256'') (\<lambda>_.
     bindE (path_item v [''source'', ''revision'']) (\<lambda>_. bindE (path_item v [''build'', ''configuration'']) (\<lambda>_. Inr ())))))"

definition regression_finish :: "regression_host \<Rightarrow> (string \<times> build_result) list \<Rightarrow> int lane" where
  \<comment> \<open>\<open>run_lane\<close> after the builds\<close>
  "regression_finish h bs =
     (let rows = rows_of_builds bs; life = lifecycle_of_builds bs; executables = executables_of bs; errors = errors_of_builds bs;
          failures = own_failure rows life; missing = own_missing errors in
     bindA (pureA (raise_if (rows = []) (ValueError (''no implementation could be built: '' @ rg_dumps h errors)))) (\<lambda>_.
     bindA (regression_reports h rows life executables errors) (\<lambda>_.
     bindA (pureA (forE run_entry executables)) (\<lambda>_.
     bindA (write_run (rg_run_json h) (regression_status missing failures)) (\<lambda>_.
     pureA (Inr (if missing then 2 else if \<not> failures then 0 else 1)))))))"

definition regression_builds :: "regression_host \<Rightarrow> (string \<times> build_result) list py" where
  "regression_builds h = bindE (run_phase h True) (\<lambda>on. bindE (run_phase h False) (\<lambda>off. Inr (on @ off)))"

definition regression_run_lane :: "regression_host \<Rightarrow> int lane" where
  "regression_run_lane h =
     bindA (write_run (rg_run_json h) ''running'') (\<lambda>_.
     bindA (pureA (rg_mkdir h ''fixtures'')) (\<lambda>_.
     bindA (pureA (forE (\<lambda>c. rg_write_bytes h (fixture h c)) regression_cases)) (\<lambda>_.
     bindA (pureA (rg_toolchain h)) (\<lambda>_.
     bindA (pureA (regression_builds h)) (\<lambda>bs. regression_finish h bs)))))"

definition regression_caught :: "exn \<Rightarrow> bool" where
  "regression_caught e = (build_caught e \<or> (case e of KeyError _ \<Rightarrow> True | _ \<Rightarrow> False))"

definition regression_main :: "regression_host \<Rightarrow> int lane" where
  "regression_main h =
     bindA (pureA (rg_mkdir h ''build/dual-regression'')) (\<lambda>_.
     bindA (pureA (rg_mkdir h ''run'')) (\<lambda>_.
     case regression_run_lane h of
       (evs, Inr code) \<Rightarrow> (evs, Inr code)
     | (evs, Inl e) \<Rightarrow> if regression_caught e
         then bindA (evs, Inr ()) (\<lambda>_. bindA (write_run (rg_run_json h) ''failed'') (\<lambda>_. pureA (Inr 2)))
         else (evs, Inl e)))"

end
