(* ===== verification/Regression_Proofs.thy ===== *)
theory Regression_Proofs
  imports Regression Py_Number
begin

text \<open>
  Lemmas on the regression lane: escaped bytes and joined events can be told apart, printed traces are
  read back, and what the rows of a build say about its executable.
\<close>

section \<open>Escaping\<close>

definition hex_chars :: "char list" where
  "hex_chars = ''0123456789abcdef''"

lemma hex_digit_nth: "hex_digit n = hex_chars ! (n mod 16)"
  by (simp add: hex_digit_def hex_chars_def)

lemma hex_digit_inj: "hex_digit m = hex_digit n \<Longrightarrow> m mod 16 = n mod 16"
proof -
  have "distinct hex_chars" "length hex_chars = 16" by (simp_all add: hex_chars_def)
  moreover assume "hex_digit m = hex_digit n"
  ultimately show ?thesis unfolding hex_digit_nth by (simp add: nth_eq_iff_index_eq)
qed

lemma hex_byte_inj:
  assumes "m < 256" "n < 256" "hex_byte m = hex_byte n"
  shows "m = n"
proof -
  have "hex_digit (m div 16) = hex_digit (n div 16)" "hex_digit m = hex_digit n"
    using assms(3) by (simp_all add: hex_byte_def)
  note this [THEN hex_digit_inj]
  moreover have "m div 16 < 16" "n div 16 < 16" using assms(1,2) by auto
  ultimately have e: "m div 16 = n div 16" "m mod 16 = n mod 16" by simp_all
  have "m = m div 16 * 16 + m mod 16" by (rule div_mult_mod_eq [symmetric])
  also have "\<dots> = n div 16 * 16 + n mod 16" by (simp only: e)
  also have "\<dots> = n" by (rule div_mult_mod_eq)
  finally show ?thesis .
qed

definition plain_char :: "char \<Rightarrow> bool" where
  \<comment> \<open>printable ASCII, not the separator of events\<close>
  "plain_char c \<longleftrightarrow> 32 \<le> (of_char c :: nat) \<and> (of_char c :: nat) < 127 \<and> c \<noteq> CHR 0x7C"

lemma plain_hex: "plain_char (hex_digit n)"
proof -
  have "\<forall>c \<in> set hex_chars. plain_char c" by (simp add: hex_chars_def plain_char_def)
  moreover have "hex_digit n \<in> set hex_chars" unfolding hex_digit_nth by (rule nth_mem) (simp add: hex_chars_def)
  ultimately show ?thesis by blast
qed

lemma of_char_eq: "of_char c = (of_char d :: nat) \<longleftrightarrow> c = d"
  by simp

lemma escape_byte_cases:
  "(escape_byte b = [b] \<and> plain_char b \<and> b \<noteq> CHR 0x5C) \<or> escape_byte b = [CHR 0x5C, CHR ''x''] @ hex_byte (of_char b)"
proof -
  have "b = CHR 0x7C \<longleftrightarrow> (of_char b :: nat) = 0x7C" "b = CHR 0x5C \<longleftrightarrow> (of_char b :: nat) = 0x5C"
    using of_char_eq [of b "CHR 0x7C"] of_char_eq [of b "CHR 0x5C"] by simp_all
  then show ?thesis by (auto simp: escape_byte_def plain_char_def Let_def)
qed

lemma escaped_simps [simp]: "escaped [] = []" "escaped (b # bs) = escape_byte b @ escaped bs"
  by (simp_all add: escaped_def)

lemma escaped_plain: "c \<in> set (escaped data) \<Longrightarrow> plain_char c"
proof (induction data)
  case (Cons b data)
  have "plain_char c" if "c \<in> set (escape_byte b)"
    using escape_byte_cases [of b] that plain_hex by (auto simp: hex_byte_def plain_char_def [of "CHR ''x''"] plain_char_def [of "CHR 0x5C"])
  with Cons show ?case by auto
qed simp

lemma escape_byte_prefix:
  assumes "escape_byte b @ s = escape_byte c @ t"
  shows "b = c \<and> s = t"
proof -
  have "hex_byte (of_char b) = hex_byte (of_char c) \<Longrightarrow> b = c"
    using hex_byte_inj [of "of_char b" "of_char c"] of_char_eq [of b c] by simp
  with assms escape_byte_cases [of b] escape_byte_cases [of c] show ?thesis
    by (auto simp: hex_byte_def)
qed

lemma escaped_inj: "escaped a = escaped b \<longleftrightarrow> a = b"
proof (induction a arbitrary: b)
  case Nil
  show ?case using escape_byte_cases [of "hd b"] by (cases b) auto
next
  case (Cons x a)
  show ?case
  proof (cases b)
    case Nil
    then show ?thesis using escape_byte_cases [of x] by auto
  next
    case (Cons y b')
    then show ?thesis using escape_byte_prefix [of x "escaped a" y "escaped b'"] Cons.IH [of b'] by auto
  qed
qed

section \<open>Joined events\<close>

lemma joined_Cons: "joined (e # es) = e @ (if es = [] then [] else '' | '' @ joined es)"
  by (cases es) (simp_all add: joined_def)

lemma joined_inj:
  "es \<noteq> [] \<Longrightarrow> fs \<noteq> [] \<Longrightarrow> \<forall>e \<in> set es. CHR 0x7C \<notin> set e \<Longrightarrow> \<forall>f \<in> set fs. CHR 0x7C \<notin> set f \<Longrightarrow>
     joined es = joined fs \<longleftrightarrow> es = fs"
proof (induction es arbitrary: fs)
  case (Cons e es)
  obtain f gs where fs: "fs = f # gs" using Cons.prems(2) by (cases fs) auto
  have bar: "takeWhile (\<lambda>c. c \<noteq> CHR 0x7C) (x @ '' | '' @ y) = x @ '' ''" if "CHR 0x7C \<notin> set x" for x y
    using that by (subst takeWhile_append2) auto
  have free: "CHR 0x7C \<notin> set e" "CHR 0x7C \<notin> set f" using Cons.prems(3,4) by (simp_all add: fs)
  show ?case
  proof (cases "es = [] \<or> gs = []")
    case True
    then show ?thesis using free by (auto simp: fs joined_Cons)
  next
    case False
    have "e = f" if "joined (e # es) = joined (f # gs)"
      using arg_cong [OF that, of "takeWhile (\<lambda>c. c \<noteq> CHR 0x7C)"] bar [OF free(1)] bar [OF free(2)] False
      by (simp add: joined_Cons)
    moreover have "joined es = joined gs \<longleftrightarrow> es = gs" using Cons.IH [of gs] Cons.prems(3,4) False fs by simp
    ultimately show ?thesis using False by (auto simp: fs joined_Cons)
  qed
qed simp

section \<open>Lines\<close>

lemma lines_acc_line:
  "\<forall>c \<in> set l. \<not> is_line_break c \<Longrightarrow> lines_acc w (l @ newline # s) = rev (rev l @ w) # lines_acc [] s"
proof (induction l arbitrary: w)
  case Nil
  then show ?case by (cases s) (simp_all add: is_line_break_def)
next
  case (Cons c l)
  from Cons.prems have c: "\<not> is_line_break c" by simp
  then have "c \<noteq> CHR 0x0D" by (auto simp: is_line_break_def)
  obtain d u where "l @ newline # s = d # u" by (cases l) auto
  with Cons.IH [of "c # w"] Cons.prems c \<open>c \<noteq> CHR 0x0D\<close> show ?case by simp
qed

definition printed :: "string list \<Rightarrow> string" where
  "printed ls = concat (map (\<lambda>l. l @ [newline]) ls)"

lemma splitlines_printed: "\<forall>l \<in> set ls. \<forall>c \<in> set l. \<not> is_line_break c \<Longrightarrow> splitlines (printed ls) = ls"
proof (induction ls)
  case (Cons l ls)
  have "splitlines (printed (l # ls)) = lines_acc [] (l @ newline # printed ls)" by (simp add: splitlines_def printed_def)
  also have "\<dots> = l # splitlines (printed ls)" using lines_acc_line [of l "[]" "printed ls"] Cons.prems by (simp add: splitlines_def)
  finally show ?case using Cons by simp
qed (simp add: splitlines_def printed_def)

definition trace_text :: "string \<Rightarrow> string \<times> trace \<Rightarrow> string" where
  "trace_text mk = (\<lambda>(key, answer, events, error). join [tab] [mk, key, answer, events, error])"

definition clean :: "string \<Rightarrow> bool" where
  \<comment> \<open>fits into one field of a line\<close>
  "clean s \<longleftrightarrow> (\<forall>c \<in> set s. \<not> is_line_break c \<and> c \<noteq> tab)"

definition clean_row :: "string \<times> trace \<Rightarrow> bool" where
  "clean_row = (\<lambda>(key, answer, events, error). clean key \<and> clean answer \<and> clean events \<and> clean error)"

lemma set_join: "c \<in> set (join sep ls) \<Longrightarrow> c \<in> set sep \<or> (\<exists>l \<in> set ls. c \<in> set l)"
  by (induction sep ls rule: join.induct) auto

lemma clean_fields: "clean mk \<Longrightarrow> clean_row (key, answer, events, error) \<Longrightarrow> \<forall>f \<in> set [mk, key, answer, events, error]. clean f"
  by (simp add: clean_row_def)

lemma parse_lines_printed:
  assumes "clean mk" "\<forall>row \<in> set rows. clean_row row"
  shows "parse_lines (printed (map (trace_text mk) rows)) mk = rev rows"
proof -
  have "splitlines (printed (map (trace_text mk) rows)) = map (trace_text mk) rows"
  proof (rule splitlines_printed, intro ballI)
    fix l c assume l: "l \<in> set (map (trace_text mk) rows)" and c: "c \<in> set l"
    from l obtain key answer events error where row: "(key, answer, events, error) \<in> set rows"
      and "l = join [tab] [mk, key, answer, events, error]" by (auto simp: trace_text_def simp del: join.simps)
    with c have "c = tab \<or> (\<exists>f \<in> set [mk, key, answer, events, error]. c \<in> set f)" using set_join by fastforce
    moreover have "\<not> is_line_break tab" by (simp add: is_line_break_def)
    ultimately show "\<not> is_line_break c" using clean_fields [OF assms(1)] assms(2) row unfolding clean_def by blast
  qed
  moreover have line: "trace_line mk (split_on tab (trace_text mk row)) = Some row" if "row \<in> set rows" for row
  proof -
    obtain key answer events error where row: "row = (key, answer, events, error)" by (cases row) auto
    have "split_on tab (join [tab] [mk, key, answer, events, error]) = [mk, key, answer, events, error]"
      by (rule split_on_join) (use clean_fields [OF assms(1)] assms(2) that row in \<open>unfold clean_def, blast+\<close>)
    then show ?thesis by (simp add: row trace_text_def)
  qed
  then have "List.map_filter (trace_line mk \<circ> split_on tab) (map (trace_text mk) rows) = rows"
    by (induction rows) (simp_all add: List.map_filter_simps)
  ultimately show ?thesis by (simp add: parse_lines_def)
qed

section \<open>Judging\<close>

definition expected_trace :: "bool \<Rightarrow> string list option \<Rightarrow> trace \<Rightarrow> bool" where
  \<comment> \<open>the right verdict and, for an accepted document, exactly the expected events\<close>
  "expected_trace accepted expected = (\<lambda>(answer, events, error).
     answer = verdict_name accepted \<and> (accepted \<longrightarrow> expected \<noteq> None \<and> events = joined (the expected)))"

lemma verdict_name_cases: "verdict_name b \<noteq> ''CRASH''" "verdict_name b \<noteq> ''TIMEOUT''" "verdict_name b \<noteq> ''MISSING''"
  by (simp_all add: verdict_name_def)

lemma judge_PASS: "judge accepted expected answer events = Inr ''PASS'' \<longleftrightarrow> expected_trace accepted expected (answer, events, error)"
  using verdict_name_cases [of accepted]
  by (auto simp: judge_def expected_trace_def split: option.splits)

lemma in_RESULTS: "''PASS'' \<in> set RESULTS" "''WRONG-VERDICT'' \<in> set RESULTS" "''WRONG-EVENTS'' \<in> set RESULTS"
  "''CRASH'' \<in> set RESULTS" "''TIMEOUT'' \<in> set RESULTS" "''MISSING'' \<in> set RESULTS"
  by (simp_all add: RESULTS_def)

lemma judge_total:
  assumes "accepted \<Longrightarrow> expected \<noteq> None"
  shows "\<exists>r. judge accepted expected answer events = Inr r \<and> r \<in> set RESULTS"
proof (cases "py_in answer [''CRASH'', ''TIMEOUT'']")
  case True
  then have "answer = ''CRASH'' \<or> answer = ''TIMEOUT''" unfolding py_in_simps by blast
  then have "answer \<in> set RESULTS" using in_RESULTS(4,5) by (elim disjE) (simp_all only:)
  then show ?thesis unfolding judge_def if_P [OF True] by blast
next
  case bad: False
  show ?thesis
  proof (cases accepted)
    case True
    with assms obtain es where "expected = Some es" by blast
    then have "judge accepted expected answer events = Inr (if answer \<noteq> verdict_name accepted then ''WRONG-VERDICT''
        else if events \<noteq> joined es then ''WRONG-EVENTS'' else ''PASS'')"
      unfolding judge_def if_not_P [OF bad] by (simp only: True if_True option.case if_distrib [of Inr])
    moreover have "(if answer \<noteq> verdict_name accepted then ''WRONG-VERDICT''
        else if events \<noteq> joined es then ''WRONG-EVENTS'' else ''PASS'') \<in> set RESULTS"
      by (simp only: in_RESULTS simp_thms split: if_split)
    ultimately show ?thesis by blast
  next
    case False
    then have "judge accepted expected answer events = Inr (if answer \<noteq> verdict_name accepted then ''WRONG-VERDICT'' else ''PASS'')"
      unfolding judge_def if_not_P [OF bad] by (simp only: if_False if_distrib [of Inr])
    moreover have "(if answer \<noteq> verdict_name accepted then ''WRONG-VERDICT'' else ''PASS'') \<in> set RESULTS"
      by (simp only: in_RESULTS simp_thms split: if_split)
    ultimately show ?thesis by blast
  qed
qed

lemma trace_row_Inr:
  assumes "trace_row label c traces n = Inr r"
  shows "rr_build r = label \<and> rr_case r = rc_name c \<and> rr_chunking r = n
    \<and> (rr_result r = ''PASS'' \<longleftrightarrow> (\<exists>t. map_of traces n = Some t \<and> expected_trace (rc_accepted c) (rc_events c) t))"
proof -
  obtain answer observed error where t: "py_get (map_of traces) n missing_trace = (answer, observed, error)"
    by (cases "py_get (map_of traces) n missing_trace") auto
  from assms obtain res where res: "(if answer \<noteq> ''MISSING'' then judge (rc_accepted c) (rc_events c) answer observed else Inr ''MISSING'') = Inr res"
    and r: "rr_build r = label" "rr_case r = rc_name c" "rr_chunking r = n" "rr_result r = res"
    by (auto simp: trace_row_def t bindE_Inr_iff)
  have "res = ''PASS'' \<longleftrightarrow> expected_trace (rc_accepted c) (rc_events c) (answer, observed, error)"
  proof (cases "answer = ''MISSING''")
    case True
    then show ?thesis using res verdict_name_cases(3) [of "rc_accepted c"] by (auto simp: expected_trace_def)
  next
    case False
    then show ?thesis using res judge_PASS [of "rc_accepted c" "rc_events c" answer observed error] by auto
  qed
  moreover have "expected_trace (rc_accepted c) (rc_events c) (answer, observed, error)
      \<longleftrightarrow> (\<exists>t. map_of traces n = Some t \<and> expected_trace (rc_accepted c) (rc_events c) t)"
    using t verdict_name_cases(3) [of "rc_accepted c"]
    by (cases "map_of traces n") (auto simp: py_get_def missing_trace_def expected_trace_def)
  ultimately show ?thesis using r by simp
qed

lemma lifecycle_step_Inr:
  assumes "lifecycle_step label code steps (step, accepted, events) = Inr r"
  shows "ly_build r = label \<and> ly_step r = step
    \<and> (ly_result r = ''PASS'' \<longleftrightarrow> (\<exists>t. map_of steps step = Some t \<and> expected_trace accepted events t))"
proof -
  let ?default = "(if code \<noteq> Some 0 \<and> code \<noteq> None then ''CRASH'' else ''MISSING'', [], []) :: trace"
  obtain answer observed error where t: "py_get (map_of steps) step ?default = (answer, observed, error)"
    by (cases "py_get (map_of steps) step ?default") auto
  from assms obtain res where res: "judge accepted events answer observed = Inr res"
    and r: "ly_build r = label" "ly_step r = step" "ly_result r = res"
    unfolding lifecycle_step_def prod.case t by (auto simp: bindE_Inr_iff)
  have "res = ''PASS'' \<longleftrightarrow> expected_trace accepted events (answer, observed, error)"
    using res judge_PASS [of accepted events answer observed error] by auto
  moreover have "expected_trace accepted events (answer, observed, error)
      \<longleftrightarrow> (\<exists>t. map_of steps step = Some t \<and> expected_trace accepted events t)"
    using t verdict_name_cases [of accepted]
    by (cases "map_of steps step") (auto simp: py_get_def expected_trace_def split: if_splits)
  ultimately show ?thesis using r by simp
qed

section \<open>One build\<close>

definition case_passed :: "regression_host \<Rightarrow> string \<Rightarrow> regression_case \<Rightarrow> bool" where
  \<comment> \<open>the traces of every chunking are the expected ones\<close>
  "case_passed h executable c \<longleftrightarrow> (\<exists>traces.
     trace_case (\<lambda>args. rg_exec h (executable # args)) (fixture h c) (chunkings (rc_data c)) = Inr traces
     \<and> list_all (\<lambda>n. \<exists>t. map_of traces n = Some t \<and> expected_trace (rc_accepted c) (rc_events c) t) (chunkings (rc_data c)))"

definition lifecycle_passed :: "regression_host \<Rightarrow> string \<Rightarrow> bool" where
  "lifecycle_passed h executable \<longleftrightarrow> (\<exists>code out err. run_exe (rg_exec h [executable, ''--lifecycle'']) = Inr (code, out, err)
     \<and> list_all (\<lambda>(step, accepted, events). \<exists>t. map_of (parse_lines out ''XPACT_LIFECYCLE'') step = Some t
          \<and> expected_trace accepted events t) LIFECYCLE)"

lemma case_rows_Inr:
  assumes "case_rows h label executable c = Inr rows"
  shows "map (\<lambda>r. (rr_build r, rr_case r, rr_chunking r)) rows = map (\<lambda>n. (label, rc_name c, n)) (chunkings (rc_data c))"
    "list_all (\<lambda>r. rr_result r = ''PASS'') rows \<longleftrightarrow> case_passed h executable c"
proof -
  from assms obtain traces where t: "trace_case (\<lambda>args. rg_exec h (executable # args)) (fixture h c) (chunkings (rc_data c)) = Inr traces"
    and r: "list_all2 (\<lambda>n r. trace_row label c traces n = Inr r) (chunkings (rc_data c)) rows"
    by (auto simp: case_rows_def bindE_Inr_iff mapE_Inr_iff)
  show "map (\<lambda>r. (rr_build r, rr_case r, rr_chunking r)) rows = map (\<lambda>n. (label, rc_name c, n)) (chunkings (rc_data c))"
    using r by (induction rule: list_all2_induct) (auto dest: trace_row_Inr)
  have "list_all (\<lambda>r. rr_result r = ''PASS'') rows
     \<longleftrightarrow> list_all (\<lambda>n. \<exists>t. map_of traces n = Some t \<and> expected_trace (rc_accepted c) (rc_events c) t) (chunkings (rc_data c))"
    using r by (induction rule: list_all2_induct) (auto dest: trace_row_Inr)
  then show "list_all (\<lambda>r. rr_result r = ''PASS'') rows \<longleftrightarrow> case_passed h executable c"
    by (simp add: case_passed_def t)
qed

lemma lifecycle_rows_Inr:
  assumes "lifecycle_rows h label executable = Inr rows"
  shows "map (\<lambda>r. (ly_build r, ly_step r)) rows = map (\<lambda>(step, _). (label, step)) LIFECYCLE"
    "list_all (\<lambda>r. ly_result r = ''PASS'') rows \<longleftrightarrow> lifecycle_passed h executable"
proof -
  from assms obtain code out err where e: "run_exe (rg_exec h [executable, ''--lifecycle'']) = Inr (code, out, err)"
    and r: "list_all2 (\<lambda>s r. lifecycle_step label code (parse_lines out ''XPACT_LIFECYCLE'') s = Inr r) LIFECYCLE rows"
    by (auto simp: lifecycle_rows_def bindE_Inr_iff mapE_Inr_iff)
  show "map (\<lambda>r. (ly_build r, ly_step r)) rows = map (\<lambda>(step, _). (label, step)) LIFECYCLE"
    using r by (induction rule: list_all2_induct) (auto dest: lifecycle_step_Inr)
  have "list_all (\<lambda>r. ly_result r = ''PASS'') rows \<longleftrightarrow> list_all (\<lambda>(step, accepted, events).
      \<exists>t. map_of (parse_lines out ''XPACT_LIFECYCLE'') step = Some t \<and> expected_trace accepted events t) LIFECYCLE"
    using r by (induction rule: list_all2_induct) (auto dest: lifecycle_step_Inr)
  then show "list_all (\<lambda>r. ly_result r = ''PASS'') rows \<longleftrightarrow> lifecycle_passed h executable"
    by (simp add: lifecycle_passed_def e)
qed

definition case_keys :: "(string \<times> string) list" where
  \<comment> \<open>every case in every chunking\<close>
  "case_keys = concat (map (\<lambda>c. map (\<lambda>n. (rc_name c, n)) (chunkings (rc_data c))) regression_cases)"

lemma measured_build_Inr:
  assumes "measured_build h label artifact = Inr b"
  obtains executable rows life where "b = Built artifact rows life" "field artifact ''executable'' = Some (JStr executable)"
    "map (\<lambda>r. (rr_build r, rr_case r, rr_chunking r)) rows = map (Pair label) case_keys"
    "map (\<lambda>r. (ly_build r, ly_step r)) life = map (\<lambda>(step, _). (label, step)) LIFECYCLE"
    "list_all (\<lambda>r. rr_result r = ''PASS'') rows \<longleftrightarrow> list_all (case_passed h executable) regression_cases"
    "list_all (\<lambda>r. ly_result r = ''PASS'') life \<longleftrightarrow> lifecycle_passed h executable"
proof -
  from assms obtain executable parts life where e: "field artifact ''executable'' = Some (JStr executable)"
    and p: "list_all2 (\<lambda>c rs. case_rows h label executable c = Inr rs) regression_cases parts"
    and l: "lifecycle_rows h label executable = Inr life" and b: "b = Built artifact (concat parts) life"
    by (auto simp: measured_build_def pyE)
  have k: "map (\<lambda>r. (rr_build r, rr_case r, rr_chunking r)) (concat parts) = map (Pair label) case_keys"
    unfolding case_keys_def using p
    by (induction rule: list_all2_induct) (simp_all add: case_rows_Inr(1) comp_def)
  have "list_all (\<lambda>r. rr_result r = ''PASS'') (concat parts) \<longleftrightarrow> list_all (case_passed h executable) regression_cases"
    using p by (induction rule: list_all2_induct) (simp_all add: case_rows_Inr(2))
  from that [OF b e k lifecycle_rows_Inr(1) [OF l] this lifecycle_rows_Inr(2) [OF l]] show thesis .
qed

lemma cases_have_events: "c \<in> set regression_cases \<Longrightarrow> rc_accepted c \<Longrightarrow> rc_events c \<noteq> None"
proof -
  have "list_all (\<lambda>c. \<not> rc_accepted c \<or> rc_events c \<noteq> None) regression_cases" by code_simp
  then show "c \<in> set regression_cases \<Longrightarrow> rc_accepted c \<Longrightarrow> rc_events c \<noteq> None" by (auto simp: list_all_iff)
qed

lemma steps_have_events: "(step, accepted, events) \<in> set LIFECYCLE \<Longrightarrow> accepted \<Longrightarrow> events \<noteq> None"
proof -
  have "list_all (\<lambda>(step, accepted, events). \<not> accepted \<or> events \<noteq> None) LIFECYCLE" by code_simp
  then show "(step, accepted, events) \<in> set LIFECYCLE \<Longrightarrow> accepted \<Longrightarrow> events \<noteq> None" by (auto simp: list_all_iff)
qed

lemma trace_row_total:
  assumes "rc_accepted c \<Longrightarrow> rc_events c \<noteq> None"
  shows "\<exists>r. trace_row label c traces n = Inr r \<and> rr_result r \<in> set RESULTS"
proof -
  obtain answer observed error where t: "py_get (map_of traces) n missing_trace = (answer, observed, error)"
    by (cases "py_get (map_of traces) n missing_trace") auto
  obtain res where "(if answer \<noteq> ''MISSING'' then judge (rc_accepted c) (rc_events c) answer observed else Inr ''MISSING'') = Inr res"
    "res \<in> set RESULTS"
    using judge_total [where answer = answer and events = observed, OF assms] in_RESULTS(6)
    by (cases "answer = ''MISSING''") (simp_all only: if_True if_False simp_thms sum.inject, blast+)
  then show ?thesis unfolding trace_row_def t prod.case by simp
qed

lemma lifecycle_step_total:
  assumes "accepted \<Longrightarrow> events \<noteq> None"
  shows "\<exists>r. lifecycle_step label code steps (step, accepted, events) = Inr r"
proof -
  let ?default = "(if code \<noteq> Some 0 \<and> code \<noteq> None then ''CRASH'' else ''MISSING'', [], []) :: trace"
  obtain answer observed error where t: "py_get (map_of steps) step ?default = (answer, observed, error)"
    by (cases "py_get (map_of steps) step ?default") auto
  obtain res where "judge accepted events answer observed = Inr res" using judge_total [OF assms] by blast
  then show ?thesis unfolding lifecycle_step_def prod.case t by simp
qed

lemma mapE_ex: "(\<And>x. x \<in> set xs \<Longrightarrow> \<exists>y. f x = Inr y) \<Longrightarrow> \<exists>ys. mapE f xs = Inr ys"
  by (induction xs) (auto, force)

lemma measured_results:
  assumes "measured_build h label artifact = Inr (Built artifact' rows life)" "r \<in> set rows"
  shows "rr_result r \<in> set RESULTS"
proof -
  from assms obtain executable parts part where p: "mapE (case_rows h label executable) regression_cases = Inr parts"
    and part: "part \<in> set parts" "r \<in> set part"
    by (auto simp: measured_build_def bindE_Inr_iff)
  from mapE_right [OF p part(1)] obtain c where c: "c \<in> set regression_cases" "case_rows h label executable c = Inr part" by blast
  from c(2) obtain traces where "mapE (trace_row label c traces) (chunkings (rc_data c)) = Inr part"
    by (auto simp: case_rows_def bindE_Inr_iff)
  from mapE_right [OF this part(2)] obtain n where n: "trace_row label c traces n = Inr r" by blast
  obtain r' where "trace_row label c traces n = Inr r'" "rr_result r' \<in> set RESULTS"
    using trace_row_total [OF cases_have_events [OF c(1)]] by blast
  with n show ?thesis by simp
qed

lemma counts_of_results:
  assumes "distinct xs" "\<forall>r \<in> set rows. f r \<in> set xs"
  shows "sum_list (map (\<lambda>x. count_if (\<lambda>r. f r = x) rows) xs) = length rows"
  using assms(2)
proof (induction rows)
  case (Cons r rows)
  have "sum_list (map (\<lambda>x. if f r = x then 1 else 0) xs) = (1::nat)"
    using assms(1) Cons.prems by (simp add: sum_list_distinct_conv_sum_set)
  moreover have "map (\<lambda>x. count_if (\<lambda>r. f r = x) (r # rows)) xs
      = map (\<lambda>x. (if f r = x then 1 else 0) + count_if (\<lambda>r. f r = x) rows) xs" by simp
  ultimately show ?case using Cons by (simp only: sum_list_addf) simp
qed (simp add: count_if_def)

section \<open>A host on which processes start\<close>

definition starts :: "regression_host \<Rightarrow> string \<Rightarrow> bool" where
  \<comment> \<open>the executable can be started; it may crash, hang or print anything\<close>
  "starts h executable \<longleftrightarrow> (\<forall>arguments. \<forall>message. rg_exec h (executable # arguments) \<noteq> LaunchError message)"

lemma run_exe_starts: "starts h executable \<Longrightarrow> \<exists>x. run_exe (rg_exec h (executable # arguments)) = Inr x"
  by (cases "rg_exec h (executable # arguments)") (auto simp: starts_def)

lemma trace_case_starts:
  assumes "starts h executable"
  shows "\<exists>traces. trace_case (\<lambda>args. rg_exec h (executable # args)) path names = Inr traces"
proof -
  obtain code out err where e: "run_exe (rg_exec h [executable, ''--trace'', path]) = Inr (code, out, err)"
    using run_exe_starts [OF assms, of "[''--trace'', path]"] by auto
  have "\<exists>row. bindE (chunk_trace (\<lambda>args. rg_exec h (executable # args)) path name) (\<lambda>row. Inr (name, row)) = Inr row" for name
  proof -
    obtain x where "run_exe (rg_exec h (executable # [''--trace'', path, ''--chunking'', name])) = Inr x"
      using run_exe_starts [OF assms] by blast
    then show ?thesis by (simp only: chunk_trace_def bindE_simps Let_def prod.case_eq_if) blast
  qed
  then obtain rows where "mapE (\<lambda>name. bindE (chunk_trace (\<lambda>args. rg_exec h (executable # args)) path name) (\<lambda>row. Inr (name, row))) names = Inr rows"
    using mapE_ex [of names "\<lambda>name. bindE (chunk_trace (\<lambda>args. rg_exec h (executable # args)) path name) (\<lambda>row. Inr (name, row))"]
    by blast
  then show ?thesis by (simp add: trace_case_def e Let_def)
qed

lemma measured_build_starts:
  assumes "starts h executable" "field artifact ''executable'' = Some (JStr executable)"
  shows "\<exists>rows life. measured_build h label artifact = Inr (Built artifact rows life)"
proof -
  have "\<exists>rows. case_rows h label executable c = Inr rows" if "c \<in> set regression_cases" for c
  proof -
    obtain traces where t: "trace_case (\<lambda>args. rg_exec h (executable # args)) (fixture h c) (chunkings (rc_data c)) = Inr traces"
      using trace_case_starts [OF assms(1)] by blast
    have "\<exists>rows. mapE (trace_row label c traces) (chunkings (rc_data c)) = Inr rows"
      by (rule mapE_ex) (use trace_row_total [OF cases_have_events [OF that]] in blast)
    then show ?thesis by (simp add: case_rows_def t)
  qed
  then obtain parts where p: "mapE (case_rows h label executable) regression_cases = Inr parts"
    using mapE_ex [of regression_cases "case_rows h label executable"] by blast
  obtain code out err where e: "run_exe (rg_exec h [executable, ''--lifecycle'']) = Inr (code, out, err)"
    using run_exe_starts [OF assms(1), of "[''--lifecycle'']"] by auto
  have "\<exists>life. mapE (lifecycle_step label code (parse_lines out ''XPACT_LIFECYCLE'')) LIFECYCLE = Inr life"
  proof (rule mapE_ex)
    fix s assume s: "s \<in> set LIFECYCLE"
    obtain step accepted events where "s = (step, accepted, events)" by (cases s) auto
    with lifecycle_step_total [OF steps_have_events] s
    show "\<exists>r. lifecycle_step label code (parse_lines out ''XPACT_LIFECYCLE'') s = Inr r" by blast
  qed
  then obtain life where "lifecycle_rows h label executable = Inr life" by (auto simp: lifecycle_rows_def e)
  with p assms(2) show ?thesis by (auto simp: measured_build_def pyE)
qed

end
