(* ===== verification/Regression_Sample.thy ===== *)
theory Regression_Sample
  imports Regression_Proofs
begin

text \<open>
  An executable that prints exactly the expected traces, and a host on which both configurations of our
  implementation are such an executable while the other implementation cannot be built.
\<close>

definition perfect_trace :: "bool \<Rightarrow> string list option \<Rightarrow> trace" where
  "perfect_trace accepted events = (verdict_name accepted, case events of None \<Rightarrow> [] | Some es \<Rightarrow> joined es, [])"

definition case_output :: "regression_case \<Rightarrow> string" where
  "case_output c = printed (map (trace_text ''XPACT_TRACE'')
     (map (\<lambda>n. (n, perfect_trace (rc_accepted c) (rc_events c))) (chunkings (rc_data c))))"

definition lifecycle_output :: string where
  "lifecycle_output = printed (map (trace_text ''XPACT_LIFECYCLE'')
     (map (\<lambda>(step, accepted, events). (step, perfect_trace accepted events)) LIFECYCLE))"

definition perfect_exec :: "string list \<Rightarrow> outcome" where
  "perfect_exec arguments = (case arguments of
      [_, _, path] \<Rightarrow> (case find (\<lambda>c. ''f/'' @ rc_name c @ ''.xml'' = path) regression_cases of
          Some c \<Rightarrow> Completed 0 (case_output c) [] | None \<Rightarrow> Completed 2 [] [])
    | [_, _] \<Rightarrow> Completed 0 lifecycle_output []
    | _ \<Rightarrow> Completed 2 [] [])"

definition perfect_manifest :: json where
  "perfect_manifest = JObj [(''executable'', JStr ''trace.exe''), (''executable_sha256'', JStr ''aa''),
     (''source'', JObj [(''revision'', JStr ''bb'')]), (''build'', JObj [(''configuration'', JStr ''on'')])]"

definition regression_sample :: regression_host where
  "regression_sample = \<lparr>rg_run_json = (\<lambda>_. Inr ()), rg_mkdir = (\<lambda>_. Inr ()), rg_write_bytes = (\<lambda>_. Inr ()), rg_toolchain = Inr (),
     rg_build = (\<lambda>i a. if i = ''xpact'' then Inr (JObj [(''manifest'', JStr ''build.json'')]) else Inl (BuildError ''no compiler'')),
     rg_manifest = (\<lambda>_. Inr perfect_manifest), rg_exec = perfect_exec, rg_fixtures = ''f'', rg_dumps = (\<lambda>_. []),
     rg_write = (\<lambda>_. Inr ()), rg_summary = (\<lambda>_ _. Inr ()), rg_float = (\<lambda>_. [])\<rparr>"

lemma regression_sample_simps [simp]:
  "rg_run_json regression_sample = (\<lambda>_. Inr ())" "rg_mkdir regression_sample = (\<lambda>_. Inr ())"
  "rg_write_bytes regression_sample = (\<lambda>_. Inr ())" "rg_toolchain regression_sample = Inr ()"
  "rg_manifest regression_sample f = Inr perfect_manifest" "rg_exec regression_sample = perfect_exec"
  "rg_write regression_sample = (\<lambda>_. Inr ())" "rg_summary regression_sample = (\<lambda>_ _. Inr ())"
  by (simp_all add: regression_sample_def)

lemma clean_digits: "clean (''split@'' @ show_int (int k))"
proof -
  have "clean (digits_of k)" unfolding clean_def
    by (auto dest!: digits_of_digits simp: is_digit_range is_line_break_def Let_def)
  then show ?thesis by (simp add: clean_def show_int_def is_line_break_def Let_def)
qed

lemma clean_chunkings: "n \<in> set (chunkings data) \<Longrightarrow> clean n"
proof -
  have "clean ''whole''" "clean ''bytes''" "clean ''bytes-final''" by (simp_all add: clean_def is_line_break_def Let_def)
  then show "n \<in> set (chunkings data) \<Longrightarrow> clean n"
    using clean_digits by (auto simp: chunkings_def split: if_splits)
qed

lemma clean_events:
  "list_all (\<lambda>c. case perfect_trace (rc_accepted c) (rc_events c) of (a, b, d) \<Rightarrow>
     list_all (\<lambda>s. list_all (\<lambda>x. \<not> is_line_break x \<and> x \<noteq> tab) s) [a, b, d]) regression_cases"
  by code_simp

lemma clean_case: "c \<in> set regression_cases \<Longrightarrow> n \<in> set (chunkings (rc_data c)) \<Longrightarrow>
    clean_row (n, perfect_trace (rc_accepted c) (rc_events c))"
  using clean_events clean_chunkings by (fastforce simp: list_all_iff clean_row_def clean_def)

lemma find_named: "distinct (map f xs) \<Longrightarrow> c \<in> set xs \<Longrightarrow> find (\<lambda>x. f x = f c) xs = Some c"
  by (induction xs) auto

lemma distinct_cases: "distinct (map rc_name regression_cases)"
  by code_simp

lemma map_of_constant: "n \<in> set xs \<Longrightarrow> map_of (rev (map (\<lambda>n. (n, t)) xs)) n = Some t"
  by (simp add: rev_map map_of_map_restrict)

lemma perfect_case:
  assumes "c \<in> set regression_cases"
  shows "case_passed regression_sample ''trace.exe'' c"
proof -
  let ?rows = "map (\<lambda>n. (n, perfect_trace (rc_accepted c) (rc_events c))) (chunkings (rc_data c))"
  have "find (\<lambda>x. ''f/'' @ rc_name x @ ''.xml'' = fixture regression_sample c) regression_cases = Some c"
    using find_named [OF distinct_cases assms] by (simp add: fixture_def regression_sample_def)
  then have run: "perfect_exec [''trace.exe'', ''--trace'', fixture regression_sample c] = Completed 0 (case_output c) []"
    by (simp add: perfect_exec_def)
  have "clean ''XPACT_TRACE''" by (simp add: clean_def is_line_break_def Let_def)
  then have "parse_lines (case_output c) ''XPACT_TRACE'' = rev ?rows"
    unfolding case_output_def by (rule parse_lines_printed) (use clean_case [OF assms] in auto)
  then have t: "trace_case (\<lambda>args. rg_exec regression_sample (''trace.exe'' # args)) (fixture regression_sample c) (chunkings (rc_data c))
      = Inr (rev ?rows)"
    by (simp add: trace_case_def run image_comp)
  have "expected_trace (rc_accepted c) (rc_events c) (perfect_trace (rc_accepted c) (rc_events c))"
    using cases_have_events [OF assms] by (auto simp: expected_trace_def perfect_trace_def)
  then show ?thesis unfolding case_passed_def t
    by (intro exI [of _ "rev ?rows"]) (simp add: list_all_iff map_of_constant del: split_paired_Ex)
qed

lemma perfect_lifecycle: "lifecycle_passed regression_sample ''trace.exe''"
proof -
  let ?rows = "map (\<lambda>(step, accepted, events). (step, perfect_trace accepted events)) LIFECYCLE"
  have "list_all (\<lambda>(n, a, b, d). list_all (\<lambda>s. list_all (\<lambda>x. \<not> is_line_break x \<and> x \<noteq> tab) s) [n, a, b, d]) ?rows"
    by code_simp
  then have "\<forall>row \<in> set ?rows. clean_row row" unfolding list_all_iff clean_row_def clean_def by fastforce
  moreover have "clean ''XPACT_LIFECYCLE''" by (simp add: clean_def is_line_break_def Let_def)
  ultimately have "parse_lines lifecycle_output ''XPACT_LIFECYCLE'' = rev ?rows"
    unfolding lifecycle_output_def by (intro parse_lines_printed)
  moreover have check: "list_all (\<lambda>(step, accepted, events). case map_of (rev ?rows) step of None \<Rightarrow> False
      | Some t \<Rightarrow> fst t = verdict_name accepted \<and> (if accepted then events \<noteq> None \<and> fst (snd t) = joined (the events) else True)) LIFECYCLE"
    by code_simp
  have "list_all (\<lambda>(step, accepted, events). \<exists>t. map_of (rev ?rows) step = Some t \<and> expected_trace accepted events t) LIFECYCLE"
    unfolding list_all_iff
  proof (intro ballI, clarify)
    fix step accepted events assume s: "(step, accepted, events) \<in> set LIFECYCLE"
    have c: "case map_of (rev ?rows) step of None \<Rightarrow> False | Some t \<Rightarrow> fst t = verdict_name accepted
        \<and> (if accepted then events \<noteq> None \<and> fst (snd t) = joined (the events) else True)"
      using bspec [OF check [unfolded list_all_iff] s] by (simp only: prod.case)
    show "\<exists>t. map_of (rev ?rows) step = Some t \<and> expected_trace accepted events t"
    proof (cases "map_of (rev ?rows) step")
      case (Some t)
      with c have "expected_trace accepted events t" by (cases t) (simp add: expected_trace_def split: if_splits)
      with Some show ?thesis by blast
    qed (use c in simp)
  qed
  ultimately show ?thesis by (simp add: lifecycle_passed_def perfect_exec_def)
qed

end
