(* ===== verification/Regression_Claims.thy ===== *)
theory Regression_Claims
  imports Regression_Sample
begin

text \<open>
  The properties of the regression lane: exit status 0 means every own case passed in every chunking, the
  other implementation is reported but never judged, every build is measured on the same runs, and the
  comparison of joined events is exact.
\<close>

section \<open>From the exit status to the builds\<close>

lemma regression_main_Inr:
  assumes "regression_main h = (evs, Inr n)" "n \<noteq> 2"
  obtains bs where "regression_builds h = Inr bs" "\<not> own_missing (errors_of_builds bs)"
    "n = (if own_failure (rows_of_builds bs) (lifecycle_of_builds bs) then 1 else 0)"
proof -
  from assms have "\<exists>evs. regression_run_lane h = (evs, Inr n)"
    unfolding regression_main_def
    by (cases "rg_run_json h ''failed''") (auto simp: bindA_Inr_iff write_run_def pureA_def emitA_def split: prod.splits sum.splits if_splits)
  then obtain bs evs' where b: "regression_builds h = Inr bs" "regression_finish h bs = (evs', Inr n)"
    unfolding regression_run_lane_def by (auto simp: bindA_Inr_iff)
  then have "n = (if own_missing (errors_of_builds bs) then 2
      else if \<not> own_failure (rows_of_builds bs) (lifecycle_of_builds bs) then 0 else 1)"
    unfolding regression_finish_def Let_def by (auto simp: bindA_Inr_iff simp del: not_None_eq)
  with that b(1) assms(2) show thesis by (auto split: if_splits)
qed

lemma run_phase_own:
  assumes "run_phase h assertions = Inr bs"
  obtains b where "(label_of assertions ''xpact'', b) \<in> set bs" "run_build h assertions ''xpact'' = Inr (label_of assertions ''xpact'', b)"
proof -
  from assms have "mapE (run_build h assertions) implementations = Inr bs" by (auto simp: run_phase_def bindE_Inr_iff)
  moreover have "''xpact'' \<in> set implementations" by (simp add: implementations_def)
  ultimately obtain x where x: "x \<in> set bs" "run_build h assertions ''xpact'' = Inr x" using mapE_left by fast
  then have "fst x = label_of assertions ''xpact''"
    by (auto simp: run_build_def Let_def bindE_Inr_iff split: sum.splits if_splits list.splits)
  then obtain b where "x = (label_of assertions ''xpact'', b)" by (cases x) simp
  with x show thesis by (intro that [of b]) simp_all
qed

lemma keys_label: "map (\<lambda>r. (f r, g r)) rows = map (Pair label) ks \<Longrightarrow> r \<in> set rows \<Longrightarrow> f r = label"
  by (induction rows arbitrary: ks) (auto simp: Cons_eq_map_conv)

lemma own_label: "startswith (label_of assertions ''xpact'') ''xpact/''"
  by (simp add: label_of_def startswith_def)

definition own_passed :: "regression_host \<Rightarrow> bool \<Rightarrow> bool" where
  \<comment> \<open>our implementation was built and its executable passed everything\<close>
  "own_passed h assertions \<longleftrightarrow> (\<exists>built path artifact executable. rg_build h ''xpact'' assertions = Inr built
     \<and> field built ''manifest'' = Some (JStr path) \<and> rg_manifest h path = Inr artifact
     \<and> field artifact ''executable'' = Some (JStr executable)
     \<and> list_all (case_passed h executable) regression_cases \<and> lifecycle_passed h executable)"

lemma run_build_own:
  assumes "run_build h assertions ''xpact'' = Inr (label, b)" "(label, b) \<in> set bs" "label = label_of assertions ''xpact''"
    and "\<not> own_missing (errors_of_builds bs)" "\<not> own_failure (rows_of_builds bs) (lifecycle_of_builds bs)"
  shows "own_passed h assertions"
proof -
  have own: "startswith label ''xpact/''" unfolding assms(3) by (rule own_label)
  have "\<exists>artifact rows life. b = Built artifact rows life"
  proof (cases b)
    case (BuildFailed e)
    with assms(2) have "(label, e) \<in> set (errors_of_builds bs)" by (force simp: errors_of_builds_def)
    with assms(4) own show ?thesis by (auto simp: own_missing_def list_ex_iff)
  qed blast
  then obtain artifact rows life where b: "b = Built artifact rows life" by blast
  from assms(1) obtain built path artifact' where m: "rg_build h ''xpact'' assertions = Inr built"
    "field built ''manifest'' = Some (JStr path)" "rg_manifest h path = Inr artifact'" "measured_build h label artifact' = Inr b"
    unfolding run_build_def Let_def b assms(3)
    by (auto simp: pyE split: sum.splits if_splits list.splits)
  from m(4) obtain executable rows' life' where e: "b = Built artifact' rows' life'"
    "field artifact' ''executable'' = Some (JStr executable)"
    "map (\<lambda>r. (rr_build r, rr_case r, rr_chunking r)) rows' = map (Pair label) case_keys"
    "map (\<lambda>r. (ly_build r, ly_step r)) life' = map (\<lambda>(step, _). (label, step)) LIFECYCLE"
    "list_all (\<lambda>r. rr_result r = ''PASS'') rows' \<longleftrightarrow> list_all (case_passed h executable) regression_cases"
    "list_all (\<lambda>r. ly_result r = ''PASS'') life' \<longleftrightarrow> lifecycle_passed h executable"
    by (rule measured_build_Inr)
  have builds: "rr_build r = label" if "r \<in> set rows'" for r by (rule keys_label [OF e(3) that])
  have builds': "ly_build r = label" if "r \<in> set life'" for r
    using arg_cong [OF e(4), of "\<lambda>xs. fst ` set xs"] that by force
  have "rows' = rows" "life' = life" using b e(1) by simp_all
  then have "set rows' \<subseteq> set (rows_of_builds bs)" "set life' \<subseteq> set (lifecycle_of_builds bs)"
    using assms(2) unfolding b rows_of_builds_def lifecycle_of_builds_def by force+
  then have "list_all (\<lambda>r. rr_result r = ''PASS'') rows'" "list_all (\<lambda>r. ly_result r = ''PASS'') life'"
    using assms(5) own builds builds' unfolding own_failure_def list_ex_iff list_all_iff by blast+
  with e m show ?thesis unfolding own_passed_def by blast
qed

text \<open>
  C17. Exit status 0 of the regression lane is earned by our implementation: both configurations were
  built, and for every input, whole, split at every byte and byte by byte, the executable gave the verdict
  written in the script and, for an accepted document, exactly the expected events; so did all ten steps
  on one reused parser.
\<close>

theorem regression_exit_zero:
  assumes "regression_main h = (evs, Inr 0)"
  shows "list_all (own_passed h) [True, False]"
proof -
  obtain bs where b: "regression_builds h = Inr bs" "\<not> own_missing (errors_of_builds bs)"
    "\<not> own_failure (rows_of_builds bs) (lifecycle_of_builds bs)"
    by (rule regression_main_Inr [OF assms]) (auto split: if_splits)
  from b(1) obtain on off where ph: "run_phase h True = Inr on" "run_phase h False = Inr off" "bs = on @ off"
    by (auto simp: regression_builds_def bindE_Inr_iff)
  have "own_passed h True"
    by (rule run_phase_own [OF ph(1)], rule run_build_own [OF _ _ refl b(2,3)]) (assumption, simp add: ph(3))
  moreover have "own_passed h False"
    by (rule run_phase_own [OF ph(2)], rule run_build_own [OF _ _ refl b(2,3)]) (assumption, simp add: ph(3))
  ultimately show ?thesis by simp
qed

section \<open>The other implementation\<close>

definition described :: "json \<Rightarrow> string \<Rightarrow> bool" where
  \<comment> \<open>a build manifest names its executable, digest, revision and configuration\<close>
  "described artifact executable \<longleftrightarrow> field artifact ''executable'' = Some (JStr executable)
     \<and> (\<exists>digest revision configuration. j_item artifact ''executable_sha256'' = Inr (JStr digest)
        \<and> path_item artifact [''source'', ''revision''] = Inr (JStr revision)
        \<and> path_item artifact [''build'', ''configuration''] = Inr configuration)"

definition launched :: "regression_host \<Rightarrow> bool \<Rightarrow> string \<Rightarrow> (string \<Rightarrow> bool) \<Rightarrow> bool" where
  \<comment> \<open>the build succeeded, its executable starts and has the property\<close>
  "launched h assertions i p \<longleftrightarrow> (\<exists>built path artifact executable. rg_build h i assertions = Inr built
     \<and> field built ''manifest'' = Some (JStr path) \<and> rg_manifest h path = Inr artifact
     \<and> described artifact executable \<and> starts h executable \<and> p executable)"

definition refused :: "regression_host \<Rightarrow> bool \<Rightarrow> string \<Rightarrow> bool" where
  \<comment> \<open>the build failed with an error that has a text\<close>
  "refused h assertions i \<longleftrightarrow> (case rg_build h i assertions of
      Inl e \<Rightarrow> build_caught e \<and> splitlines (exn_text e) \<noteq> [] | Inr _ \<Rightarrow> False)"

definition good_build :: "string \<times> build_result \<Rightarrow> bool" where
  "good_build = (\<lambda>(label, b). case b of
      BuildFailed _ \<Rightarrow> True
    | Built artifact rows life \<Rightarrow> (\<exists>executable. described artifact executable)
        \<and> map (\<lambda>r. (rr_build r, rr_case r, rr_chunking r)) rows = map (Pair label) case_keys
        \<and> map (\<lambda>r. (ly_build r, ly_step r)) life = map (\<lambda>(step, _). (label, step)) LIFECYCLE)"

lemma run_build_launched:
  assumes "launched h assertions i p"
  obtains artifact executable rows life where "run_build h assertions i = Inr (label_of assertions i, Built artifact rows life)"
    "good_build (label_of assertions i, Built artifact rows life)" "p executable"
    "list_all (\<lambda>r. rr_result r = ''PASS'') rows \<longleftrightarrow> list_all (case_passed h executable) regression_cases"
    "list_all (\<lambda>r. ly_result r = ''PASS'') life \<longleftrightarrow> lifecycle_passed h executable"
proof -
  from assms obtain built path artifact executable where b: "rg_build h i assertions = Inr built"
    "field built ''manifest'' = Some (JStr path)" "rg_manifest h path = Inr artifact"
    and d: "described artifact executable" and s: "starts h executable" and p: "p executable" unfolding launched_def by blast
  have x: "field artifact ''executable'' = Some (JStr executable)" using d by (simp add: described_def)
  obtain rows life where m: "measured_build h (label_of assertions i) artifact = Inr (Built artifact rows life)"
    using measured_build_starts [OF s x] by blast
  then obtain executable' rows' life' where keys: "Built artifact rows life = Built artifact rows' life'"
    "field artifact ''executable'' = Some (JStr executable')"
    "map (\<lambda>r. (rr_build r, rr_case r, rr_chunking r)) rows' = map (Pair (label_of assertions i)) case_keys"
    "map (\<lambda>r. (ly_build r, ly_step r)) life' = map (\<lambda>(step, _). (label_of assertions i, step)) LIFECYCLE"
    "list_all (\<lambda>r. rr_result r = ''PASS'') rows' \<longleftrightarrow> list_all (case_passed h executable') regression_cases"
    "list_all (\<lambda>r. ly_result r = ''PASS'') life' \<longleftrightarrow> lifecycle_passed h executable'"
    by (rule measured_build_Inr)
  have "executable' = executable" using keys(2) x by simp
  moreover have "run_build h assertions i = Inr (label_of assertions i, Built artifact rows life)"
    using b m by (simp add: run_build_def Let_def pyE j_item_field j_str_def)
  moreover have "good_build (label_of assertions i, Built artifact rows life)" using keys d by (auto simp: good_build_def)
  ultimately show thesis using that p keys by simp
qed

lemma run_build_refused:
  assumes "refused h assertions i"
  shows "\<exists>e. run_build h assertions i = Inr (label_of assertions i, BuildFailed e)"
  using assms by (cases "rg_build h i assertions") (auto simp: refused_def run_build_def Let_def split: list.splits)

lemma build_line_described: "described artifact executable \<Longrightarrow> \<exists>line. build_line fr (label, artifact) = Inr line"
  by (auto simp: described_def build_line_def j_str_def)

lemma run_entry_described: "described artifact executable \<Longrightarrow> run_entry (label, artifact) = Inr ()"
  by (auto simp: described_def run_entry_def pyE j_item_field)

lemma good_lifecycle:
  assumes "list_all good_build bs" "b \<in> set (builds_seen (rows_of_builds bs))" "(step, rest) \<in> set LIFECYCLE"
  shows "\<exists>cell. lifecycle_cell (lifecycle_of_builds bs) step b = Inr cell"
proof -
  from assms(2) obtain label artifact rows life r where g: "(label, Built artifact rows life) \<in> set bs" "r \<in> set rows" "rr_build r = b"
    by (auto simp: builds_seen_def rows_of_builds_def split: build_result.splits)
  from assms(1) g(1) have k: "map (\<lambda>r. (rr_build r, rr_case r, rr_chunking r)) rows = map (Pair label) case_keys"
    "map (\<lambda>r. (ly_build r, ly_step r)) life = map (\<lambda>(step, _). (label, step)) LIFECYCLE"
    by (auto simp: list_all_iff good_build_def)
  have "label = b" using keys_label [OF k(1) g(2)] g(3) by simp
  moreover have "(label, step) \<in> set (map (\<lambda>r. (ly_build r, ly_step r)) life)" unfolding k(2) using assms(3) by force
  ultimately obtain x where "x \<in> set life" "ly_build x = b" "ly_step x = step" by auto
  moreover have "set life \<subseteq> set (lifecycle_of_builds bs)" using g(1) by (force simp: lifecycle_of_builds_def)
  ultimately have "find (\<lambda>x. ly_build x = b \<and> ly_step x = step) (lifecycle_of_builds bs) \<noteq> None"
    by (auto simp: find_None_iff)
  then show ?thesis by (auto simp: lifecycle_cell_def)
qed

lemma good_lines:
  assumes "list_all good_build bs"
  shows "\<exists>lines. regression_lines fr (rows_of_builds bs) (lifecycle_of_builds bs) (executables_of bs) errors = Inr lines"
proof -
  have "\<exists>line. build_line fr x = Inr line" if x: "x \<in> set (executables_of bs)" for x
  proof -
    from x obtain label artifact rows life where "x = (label, artifact)" "(label, Built artifact rows life) \<in> set bs"
      by (auto simp: executables_of_def split: build_result.splits)
    with assms obtain executable where "described artifact executable" by (auto simp: list_all_iff good_build_def dest!: bspec)
    then show ?thesis unfolding \<open>x = (label, artifact)\<close> by (rule build_line_described)
  qed
  then obtain built where b: "mapE (build_line fr) (executables_of bs) = Inr built" using mapE_ex [of "executables_of bs" "build_line fr"] by blast
  have "\<exists>line. lifecycle_line (lifecycle_of_builds bs) (builds_seen (rows_of_builds bs)) s = Inr line" if s: "s \<in> set LIFECYCLE" for s
  proof -
    obtain step accepted events where e: "s = (step, accepted, events)" by (cases s) auto
    obtain cells where "mapE (lifecycle_cell (lifecycle_of_builds bs) step) (builds_seen (rows_of_builds bs)) = Inr cells"
      using mapE_ex [of "builds_seen (rows_of_builds bs)"] good_lifecycle [OF assms _ s [unfolded e]] by blast
    then show ?thesis by (simp add: lifecycle_line_def e)
  qed
  then obtain steps where "mapE (lifecycle_line (lifecycle_of_builds bs) (builds_seen (rows_of_builds bs))) LIFECYCLE = Inr steps"
    using mapE_ex [of LIFECYCLE] by blast
  with b show ?thesis by (simp add: regression_lines_def)
qed

lemma executables_described: "list_all good_build bs \<Longrightarrow> forE run_entry (executables_of bs) = Inr ()"
  by (auto simp: forE_Inr_iff executables_of_def list_all_iff good_build_def split: build_result.splits
      dest!: bspec intro: run_entry_described)

lemma finish_good:
  assumes "list_all good_build bs" "rows_of_builds bs \<noteq> []" "lifecycle_of_builds bs \<noteq> []"
    and "\<not> own_missing (errors_of_builds bs)" "\<not> own_failure (rows_of_builds bs) (lifecycle_of_builds bs)"
    and files: "rg_run_json h = (\<lambda>_. Inr ())" "rg_write h = (\<lambda>_. Inr ())" "rg_summary h = (\<lambda>_ _. Inr ())"
  shows "snd (regression_finish h bs) = Inr 0"
proof -
  obtain lines where "regression_lines (rg_float h) (rows_of_builds bs) (lifecycle_of_builds bs) (executables_of bs) (errors_of_builds bs) = Inr lines"
    using good_lines [OF assms(1)] by blast
  then have "\<exists>evs. regression_reports h (rows_of_builds bs) (lifecycle_of_builds bs) (executables_of bs) (errors_of_builds bs) = (evs, Inr ())"
    using assms(2,3) files by (simp add: regression_reports_def write_tsv_def write_text_def pureA_def emitA_def)
  then obtain evs where reports: "regression_reports h (rows_of_builds bs) (lifecycle_of_builds bs) (executables_of bs) (errors_of_builds bs) = (evs, Inr ())"
    by blast
  show ?thesis
    using assms(2,4,5) files(1) executables_described [OF assms(1)]
    by (simp add: regression_finish_def Let_def reports pureA_def emitA_def write_run_def)
qed

definition own_verified :: "regression_host \<Rightarrow> bool \<Rightarrow> bool" where
  "own_verified h assertions = launched h assertions ''xpact''
     (\<lambda>executable. list_all (case_passed h executable) regression_cases \<and> lifecycle_passed h executable)"

lemma phase_good:
  assumes "rg_mkdir h = (\<lambda>_. Inr ())" "own_verified h assertions"
    and "launched h assertions ''xpact-core'' (\<lambda>_. True) \<or> refused h assertions ''xpact-core''"
  obtains artifact rows life b where
    "run_phase h assertions = Inr [(label_of assertions ''xpact'', Built artifact rows life), (label_of assertions ''xpact-core'', b)]"
    "list_all good_build [(label_of assertions ''xpact'', Built artifact rows life), (label_of assertions ''xpact-core'', b)]"
    "list_all (\<lambda>r. rr_result r = ''PASS'') rows" "list_all (\<lambda>r. ly_result r = ''PASS'') life"
proof -
  from run_build_launched [OF assms(2) [unfolded own_verified_def]] obtain artifact rows life where
    own: "run_build h assertions ''xpact'' = Inr (label_of assertions ''xpact'', Built artifact rows life)"
    "good_build (label_of assertions ''xpact'', Built artifact rows life)"
    "list_all (\<lambda>r. rr_result r = ''PASS'') rows" "list_all (\<lambda>r. ly_result r = ''PASS'') life" by blast
  from assms(3) obtain b where core: "run_build h assertions ''xpact-core'' = Inr (label_of assertions ''xpact-core'', b)"
    "good_build (label_of assertions ''xpact-core'', b)"
  proof
    assume "launched h assertions ''xpact-core'' (\<lambda>_. True)"
    from run_build_launched [OF this] that show thesis by metis
  next
    assume "refused h assertions ''xpact-core''"
    from run_build_refused [OF this] obtain e where "run_build h assertions ''xpact-core'' = Inr (label_of assertions ''xpact-core'', BuildFailed e)"
      by blast
    then show thesis by (rule that) (simp add: good_build_def)
  qed
  have "run_phase h assertions = Inr [(label_of assertions ''xpact'', Built artifact rows life), (label_of assertions ''xpact-core'', b)]"
    by (simp add: run_phase_def assms(1) implementations_def own(1) core(1))
  then show thesis by (rule that) (use own core in simp_all)
qed

lemma core_label: "\<not> startswith (label_of assertions ''xpact-core'') ''xpact/''"
  by (simp add: label_of_def startswith_def)

lemma case_keys_nonempty: "case_keys \<noteq> []"
  by (simp add: case_keys_def regression_cases_def direct_cases_def chunkings_def)

lemma good_core_rows:
  assumes "good_build (label_of assertions ''xpact-core'', b)"
  shows "case b of BuildFailed _ \<Rightarrow> True | Built _ rows life \<Rightarrow>
     (\<forall>r \<in> set rows. \<not> startswith (rr_build r) ''xpact/'') \<and> (\<forall>r \<in> set life. \<not> startswith (ly_build r) ''xpact/'')"
proof (cases b)
  case (Built artifact rows life)
  with assms have k: "map (\<lambda>r. (rr_build r, rr_case r, rr_chunking r)) rows = map (Pair (label_of assertions ''xpact-core'')) case_keys"
    "map (\<lambda>r. (ly_build r, ly_step r)) life = map (Pair (label_of assertions ''xpact-core'')) (map fst LIFECYCLE)"
    by (simp_all add: good_build_def comp_def case_prod_beta)
  from keys_label [OF k(1)] keys_label [OF k(2)] core_label show ?thesis by (simp add: Built)
qed simp

lemma regression_own_suffices:
  assumes "rg_mkdir h = (\<lambda>_. Inr ())" "rg_write_bytes h = (\<lambda>_. Inr ())" "rg_toolchain h = Inr ()"
    and "rg_run_json h = (\<lambda>_. Inr ())" "rg_write h = (\<lambda>_. Inr ())" "rg_summary h = (\<lambda>_ _. Inr ())"
    and "list_all (own_verified h) [True, False]"
    and "list_all (\<lambda>a. launched h a ''xpact-core'' (\<lambda>_. True) \<or> refused h a ''xpact-core'') [True, False]"
  shows "snd (regression_main h) = Inr 0"
proof -
  from assms(7,8) have own: "own_verified h a" and core: "launched h a ''xpact-core'' (\<lambda>_. True) \<or> refused h a ''xpact-core''" for a
    by (cases a; simp)+
  obtain x1 rows1 life1 b1 where on: "run_phase h True = Inr [(label_of True ''xpact'', Built x1 rows1 life1), (label_of True ''xpact-core'', b1)]"
    "list_all good_build [(label_of True ''xpact'', Built x1 rows1 life1), (label_of True ''xpact-core'', b1)]"
    "list_all (\<lambda>r. rr_result r = ''PASS'') rows1" "list_all (\<lambda>r. ly_result r = ''PASS'') life1"
    by (rule phase_good [OF assms(1) own core])
  obtain x2 rows2 life2 b2 where off: "run_phase h False = Inr [(label_of False ''xpact'', Built x2 rows2 life2), (label_of False ''xpact-core'', b2)]"
    "list_all good_build [(label_of False ''xpact'', Built x2 rows2 life2), (label_of False ''xpact-core'', b2)]"
    "list_all (\<lambda>r. rr_result r = ''PASS'') rows2" "list_all (\<lambda>r. ly_result r = ''PASS'') life2"
    by (rule phase_good [OF assms(1) own core])
  define bs where bs: "bs = [(label_of True ''xpact'', Built x1 rows1 life1), (label_of True ''xpact-core'', b1),
      (label_of False ''xpact'', Built x2 rows2 life2), (label_of False ''xpact-core'', b2)]"
  have b: "regression_builds h = Inr bs" by (simp add: regression_builds_def on(1) off(1) bs)
  have good: "list_all good_build bs" using on(2) off(2) by (simp add: bs)
  have some: "rows1 \<noteq> []" "life1 \<noteq> []"
    using on(2) case_keys_nonempty by (auto simp: good_build_def LIFECYCLE_def)
  have g: "good_build (label_of True ''xpact-core'', b1)" "good_build (label_of False ''xpact-core'', b2)"
    using on(2) off(2) by simp_all
  have missing: "\<not> own_missing (errors_of_builds bs)"
    using core_label by (cases b1; cases b2) (simp_all add: own_missing_def errors_of_builds_def bs)
  have failures: "\<not> own_failure (rows_of_builds bs) (lifecycle_of_builds bs)"
    using good_core_rows [OF g(1)] good_core_rows [OF g(2)] on(3,4) off(3,4)
    by (cases b1; cases b2) (auto simp: own_failure_def rows_of_builds_def lifecycle_of_builds_def bs list_ex_iff list_all_iff)
  have "snd (regression_finish h bs) = Inr 0"
    by (rule finish_good [OF good _ _ missing failures assms(4,5,6)])
      (use some in \<open>simp_all add: rows_of_builds_def lifecycle_of_builds_def bs\<close>)
  moreover have "forE (\<lambda>c. Inr ()) regression_cases = Inr ()" by (simp add: forE_Inr_iff)
  ultimately have "\<exists>evs. regression_run_lane h = (evs, Inr 0)"
    using assms(1-4) b
    by (cases "regression_finish h bs") (simp add: regression_run_lane_def write_run_def pureA_def emitA_def)
  then show ?thesis using assms(1) by (auto simp: regression_main_def pureA_def)
qed


lemma regression_sample_own: "list_all (own_verified regression_sample) [True, False]"
proof -
  have d: "described perfect_manifest ''trace.exe''" by (simp add: described_def perfect_manifest_def j_item_JObj)
  have s: "starts regression_sample ''trace.exe''"
    by (auto simp: starts_def perfect_exec_def split: list.splits option.splits)
  have b: "rg_build regression_sample ''xpact'' a = Inr (JObj [(''manifest'', JStr ''build.json'')])" for a
    by (simp add: regression_sample_def)
  have "list_all (case_passed regression_sample ''trace.exe'') regression_cases" using perfect_case by (simp add: list_all_iff)
  then have "own_verified regression_sample a" for a
    unfolding own_verified_def launched_def using b [of a] d s perfect_lifecycle
    by (intro exI [of _ "JObj [(''manifest'', JStr ''build.json'')]"] exI [of _ "''build.json''"] exI [of _ perfect_manifest]
        exI [of _ "''trace.exe''"]) simp
  then show ?thesis by simp
qed

lemma sample_core_refused: "list_all (\<lambda>a. launched regression_sample a ''xpact-core'' (\<lambda>_. True) \<or> refused regression_sample a ''xpact-core'') [True, False]"
proof -
  have "refused regression_sample a ''xpact-core''" for a
    by (simp add: refused_def regression_sample_def build_caught_def splitlines_def is_line_break_def)
  then show ?thesis by simp
qed


theorem regression_exit_zero_witness: "list_all (own_passed regression_sample) [True, False]"
proof -
  have "snd (regression_main regression_sample) = Inr 0"
    by (rule regression_own_suffices [OF _ _ _ _ _ _ regression_sample_own sample_core_refused]) simp_all
  then obtain evs where "regression_main regression_sample = (evs, Inr 0)" by (cases "regression_main regression_sample") simp
  then show ?thesis by (rule regression_exit_zero)
qed

section \<open>What is measured\<close>

text \<open>
  C19. Whatever an executable prints, crashes with or hangs on, a measured build has exactly one row for
  every input in every chunking, in order, and one for every step of the life cycle; every row has one of
  the six results, so the six columns of its line in the summary add up to the same number of runs for every build.
\<close>

theorem regression_rows_complete:
  assumes "measured_build h label artifact = Inr (Built artifact' rows life)"
  shows "map (\<lambda>r. (rr_build r, rr_case r, rr_chunking r)) rows
       = concat (map (\<lambda>c. map (\<lambda>n. (label, rc_name c, n)) (chunkings (rc_data c))) regression_cases)
     \<and> map (\<lambda>r. (ly_build r, ly_step r)) life = map (\<lambda>(step, _). (label, step)) LIFECYCLE
     \<and> list_all (\<lambda>r. py_in (rr_result r) RESULTS) rows
     \<and> fst (result_counts rows label) = sum_list (snd (result_counts rows label))
     \<and> fst (result_counts rows label) = length case_keys"
proof -
  from measured_build_Inr [OF assms] have k: "map (\<lambda>r. (rr_build r, rr_case r, rr_chunking r)) rows = map (Pair label) case_keys"
    "map (\<lambda>r. (ly_build r, ly_step r)) life = map (\<lambda>(step, _). (label, step)) LIFECYCLE" by blast+
  have keys: "map (Pair label) case_keys = concat (map (\<lambda>c. map (\<lambda>n. (label, rc_name c, n)) (chunkings (rc_data c))) regression_cases)"
    by (simp add: case_keys_def map_concat comp_def)
  have mine: "filter (\<lambda>r. rr_build r = label) rows = rows"
    using keys_label [OF k(1)] by (simp add: filter_id_conv)
  have len: "length rows = length case_keys" using arg_cong [OF k(1), of length] by simp
  have results: "\<forall>r \<in> set rows. rr_result r \<in> set RESULTS" using measured_results [OF assms] by blast
  have "sum_list (map (\<lambda>x. count_if (\<lambda>r. rr_result r = x) rows) RESULTS) = length rows"
    by (rule counts_of_results [OF _ results]) (simp add: RESULTS_def)
  then have counts: "result_counts rows label = (length rows, map (\<lambda>x. count_if (\<lambda>r. rr_result r = x) rows) RESULTS)"
    "sum_list (snd (result_counts rows label)) = length rows"
    by (simp_all add: result_counts_def mine)
  show ?thesis using k results len counts keys by (simp add: py_in_def list_all_iff)
qed

theorem regression_rows_complete_witness:
  "\<exists>rows life. measured_build regression_sample ''xpact/assertions-on'' perfect_manifest = Inr (Built perfect_manifest rows life)
     \<and> length rows = length case_keys"
proof -
  have s: "starts regression_sample ''trace.exe''"
    by (auto simp: starts_def perfect_exec_def split: list.splits option.splits)
  have "field perfect_manifest ''executable'' = Some (JStr ''trace.exe'')" by (simp add: perfect_manifest_def)
  from measured_build_starts [OF s this] obtain rows life where
    m: "measured_build regression_sample ''xpact/assertions-on'' perfect_manifest = Inr (Built perfect_manifest rows life)" by blast
  from regression_rows_complete [OF m] have "map (\<lambda>r. (rr_build r, rr_case r, rr_chunking r)) rows
       = concat (map (\<lambda>c. map (\<lambda>n. (''xpact/assertions-on'', rc_name c, n)) (chunkings (rc_data c))) regression_cases)" by blast
  from arg_cong [OF this, of length] have "length rows = length case_keys"
    by (simp add: case_keys_def length_concat comp_def)
  with m show ?thesis by blast
qed

text \<open>
  C20. Joining the events with bars and comparing the texts is as good as comparing the events: for every
  accepted input and every trace of events that contain no bar, as escaped events never do, the judgement is \<open>PASS\<close>
  exactly when the verdict is \<open>ACCEPT\<close> and the events are the expected ones, and the text of an event determines
  the bytes of the document it came from.
\<close>

theorem regression_judgement_exact:
  assumes "list_ex (\<lambda>c. rc_accepted c \<and> rc_events c = Some expected) regression_cases"
    and "events \<noteq> []" "list_all (\<lambda>e. \<not> py_in CHR 0x7C e) events"
  shows "(judge True (Some expected) answer (joined events) = Inr ''PASS'') = (answer = ''ACCEPT'' \<and> events = expected)
    \<and> (text_event a = text_event b) = (a = b) \<and> \<not> py_in CHR 0x7C (text_event a)"
proof -
  have "list_all (\<lambda>c. case rc_events c of None \<Rightarrow> True | Some es \<Rightarrow> es \<noteq> [] \<and> list_all (\<lambda>e. list_all (\<lambda>x. x \<noteq> CHR 0x7C) e) es)
      regression_cases" by code_simp
  with assms(1) have expected: "expected \<noteq> []" "\<forall>e \<in> set expected. CHR 0x7C \<notin> set e"
    by (fastforce simp: list_ex_iff list_all_iff)+
  have "\<forall>e \<in> set events. CHR 0x7C \<notin> set e" using assms(3) by (simp add: list_all_iff py_in_def)
  from joined_inj [OF assms(2) expected(1) this expected(2)]
  have "(judge True (Some expected) answer (joined events) = Inr ''PASS'') = (answer = ''ACCEPT'' \<and> events = expected)"
    unfolding judge_PASS [where error = "[]"] by (simp add: expected_trace_def verdict_name_def)
  moreover have "(text_event a = text_event b) = (a = b)" by (simp add: text_event_def escaped_inj)
  moreover have "\<not> py_in CHR 0x7C (text_event a)"
    using escaped_plain [of "CHR 0x7C" a] by (auto simp: py_in_def text_event_def plain_char_def)
  ultimately show ?thesis by blast
qed

theorem regression_judgement_exact_witness:
  "judge True (Some T_EVENTS) ''ACCEPT'' (joined [''start:root'', text_event ''|'', ''end:root'']) \<noteq> Inr ''PASS''"
proof -
  have "list_ex (\<lambda>c. rc_accepted c \<and> rc_events c = Some T_EVENTS) regression_cases"
    by (simp add: regression_cases_def direct_cases_def case_row_def)
  from regression_judgement_exact [OF this, of "[''start:root'', text_event ''|'', ''end:root'']"] show ?thesis
    by (simp add: text_event_def T_EVENTS_def escape_byte_def Let_def hex_byte_def hex_digit_def py_in_def)
qed

end
