(* ===== verification/Wsl_Bench.thy ===== *)
theory Wsl_Bench
  imports W3C_Run Py_Number
begin

text \<open>
  The benchmarks under Linux, \<open>scripts/run_wsl_benchmarks.py\<close>: the arguments, the checked commands,
  the prerequisites, the builds of the Eiffel and the C benchmark, the measurement and the publication. A
  run leaves a trace of the commands it starts, the stale files it removes and the reports it publishes.
  Paths are POSIX texts; what the file system and a command answer are functions of the host, asked once
  for each path, or once for each command and repetition. Times are the rationals their floats denote.
\<close>

section \<open>Host\<close>

type_synonym wsl_environment = "(string \<times> string) list"

datatype command_result =
    Exited int string \<comment> \<open>exit status and the merged output\<close>
  | NotStarted string

datatype wsl_event =
    Ran wsl_environment "string option" "string list" \<comment> \<open>environment, directory, command\<close>
  | Unlinked string
  | Published string
  | ReportsCleared

type_synonym 'a run = "(wsl_event, 'a) act"

record wsl_row =
  wr_engine :: string
  wr_version :: string
  wr_repetition :: nat
  wr_iterations :: int
  wr_document_bytes :: nat
  wr_elapsed_ms :: rat
  wr_docs_per_second :: rat
  wr_mib_per_second :: rat
  wr_notes :: string

record build_details =
  bd_code_directory :: string
  bd_assignments :: "(string \<times> string) list"
  bd_compiler_path :: string
  bd_compiler_version :: string

record wsl_metadata =
  wm_generated :: string
  wm_os :: string
  wm_iterations :: int
  wm_repetitions :: nat
  wm_document_bytes :: nat
  wm_eiffel_builds :: "string list"
  wm_eiffel_version :: string
  wm_gcc_version :: string
  wm_ise_platform :: string
  wm_ise_eiffel :: string
  wm_libexpat_version :: string
  wm_libexpat_library :: string
  wm_details :: "(string \<times> build_details) list"
  wm_tool_paths :: "(string \<times> string) list"

record wsl_host =
  wb_platform :: string
  wb_environ :: wsl_environment
  wb_which :: "string option \<Rightarrow> string \<Rightarrow> string option" \<comment> \<open>\<open>shutil.which\<close> on a search path\<close>
  wb_header :: "string \<Rightarrow> string py" \<comment> \<open>the first four bytes of a file\<close>
  wb_access :: "string \<Rightarrow> bool" \<comment> \<open>executable\<close>
  wb_run :: "wsl_environment \<Rightarrow> string option \<Rightarrow> string list \<Rightarrow> nat \<Rightarrow> command_result"
  wb_seconds :: "string list \<Rightarrow> nat \<Rightarrow> rat"
  wb_log :: "string \<Rightarrow> string \<Rightarrow> unit py" \<comment> \<open>write a log with its directory\<close>
  wb_exists :: "string \<Rightarrow> bool" \<comment> \<open>before the build\<close>
  wb_unlink :: "string \<Rightarrow> unit py"
  wb_mkdir :: "string \<Rightarrow> unit py"
  wb_is_dir :: "string \<Rightarrow> bool" \<comment> \<open>after generation\<close>
  wb_is_file :: "string \<Rightarrow> bool" \<comment> \<open>after the build\<close>
  wb_text :: "string \<Rightarrow> string py"
  wb_resolve :: "string \<Rightarrow> path"
  wb_repo_root :: string
  wb_generated_utc :: string
  wb_os :: string
  wb_float :: "rat \<Rightarrow> string" \<comment> \<open>\<open>str\<close> of a float\<close>
  wb_tsv :: "wsl_row list \<Rightarrow> string"
  wb_dumps :: "wsl_metadata \<Rightarrow> string"
  wb_stage :: "string \<Rightarrow> string \<Rightarrow> unit py" \<comment> \<open>a temporary file with the content of a report\<close>
  wb_replace :: "string \<Rightarrow> unit py"

definition wsl_report_names :: "string list" where
  \<comment> \<open>\<open>REPORT_NAMES\<close>\<close>
  "wsl_report_names = [''benchmark-results.tsv'', ''summary.md'', ''metadata.json'']"

section \<open>Arguments\<close>

record build_spec =
  sc_name :: string
  sc_target :: string
  sc_mode :: string
  sc_code_directory :: string
  sc_assertions :: bool

record engine =
  en_name :: string
  en_executable :: string
  en_arguments :: "string list"
  en_version :: string
  en_notes :: string
  en_environment :: wsl_environment

definition positive_integer :: "string \<Rightarrow> int py" where
  "positive_integer value = bindE (py_int value) (\<lambda>n.
     bindE (raise_if (n \<le> 0) (ValueError ''must be a positive integer'')) (\<lambda>_. Inr n))"

definition iteration_count :: "string \<Rightarrow> int py" where
  "iteration_count value = bindE (positive_integer value) (\<lambda>n.
     bindE (raise_if (n > 2147483647) (ValueError (''must fit the benchmark'' @ [CHR 0x27] @ ''s signed 32-bit iteration count''))) (\<lambda>_. Inr n))"

record wsl_options =
  wo_iterations :: "string option"
  wo_repetitions :: "string option"
  wo_output_dir :: string
  wo_eiffel_build :: "string list"

record wsl_args =
  wa_iterations :: int
  wa_repetitions :: int
  wa_output_dir :: string
  wa_eiffel_build :: "string list"

definition EIFFEL_BUILDS :: "string list" where
  "EIFFEL_BUILDS = [''Finalized'', ''FinalizedAssertions'', ''Workbench'']"

definition option_value :: "(string \<Rightarrow> int py) \<Rightarrow> int \<Rightarrow> string option \<Rightarrow> int py" where
  \<comment> \<open>\<open>argparse\<close> turns a conversion error into \<open>SystemExit\<close>\<close>
  "option_value convert default_value given = (case given of
      None \<Rightarrow> Inr default_value
    | Some s \<Rightarrow> (case convert s of Inl e \<Rightarrow> Inl SystemExit | Inr n \<Rightarrow> Inr n))"

definition wsl_parse_args :: "wsl_options \<Rightarrow> wsl_args py" where
  "wsl_parse_args o' =
     bindE (option_value iteration_count 10000 (wo_iterations o')) (\<lambda>iterations.
     bindE (option_value positive_integer 5 (wo_repetitions o')) (\<lambda>repetitions.
     bindE (raise_if (\<not> list_all (\<lambda>b. py_in b EIFFEL_BUILDS) (wo_eiffel_build o')) SystemExit) (\<lambda>_.
     Inr \<lparr>wa_iterations = iterations, wa_repetitions = repetitions, wa_output_dir = wo_output_dir o',
       wa_eiffel_build = (if wo_eiffel_build o' \<noteq> [] then wo_eiffel_build o' else [''Finalized'', ''FinalizedAssertions''])\<rparr>)))"

definition catalog_entry :: "nat \<Rightarrow> string" where
  "catalog_entry index = ''<item id='' @ [CHR 0x22] @ show_int (int index) @ [CHR 0x22] @ ''>value</item>''"

definition sample_document_bytes :: nat where
  "sample_document_bytes = length (''<catalog>'' @ concat (map catalog_entry [1..<101]) @ ''</catalog>'')"

definition build_specifications :: "(string \<times> build_spec) list" where
  "build_specifications =
     [(''Finalized'', \<lparr>sc_name = ''Finalized'', sc_target = ''xpact_benchmarks'', sc_mode = ''Finalized'',
         sc_code_directory = ''F_code'', sc_assertions = False\<rparr>),
      (''FinalizedAssertions'', \<lparr>sc_name = ''FinalizedAssertions'', sc_target = ''xpact_benchmarks_assertions'', sc_mode = ''Finalized'',
         sc_code_directory = ''F_code'', sc_assertions = True\<rparr>),
      (''Workbench'', \<lparr>sc_name = ''Workbench'', sc_target = ''xpact_benchmarks_assertions'', sc_mode = ''Workbench'',
         sc_code_directory = ''W_code'', sc_assertions = True\<rparr>)]"

definition build_specs :: "string list \<Rightarrow> build_spec list py" where
  "build_specs names = mapE (py_item (map_of build_specifications)) (fromkeys names)"

section \<open>Commands\<close>

definition shell_safe :: "char \<Rightarrow> bool" where
  "shell_safe c = (let n = of_char c :: nat in
     48 \<le> n \<and> n \<le> 57 \<or> 65 \<le> n \<and> n \<le> 90 \<or> 97 \<le> n \<and> n \<le> 122 \<or> py_in c ''_@%+=:,./-'')"

definition single_quote :: char where
  "single_quote = CHR 0x27"

definition double_quote :: char where
  "double_quote = CHR 0x22"

definition shell_quote :: "string \<Rightarrow> string" where
  \<comment> \<open>\<open>shlex.quote\<close>\<close>
  "shell_quote s =
     (if s = [] then [single_quote, single_quote]
      else if list_all shell_safe s then s
      else [single_quote] @ concat (map (\<lambda>c. if c = single_quote
             then [single_quote, double_quote, single_quote, double_quote, single_quote] else [c]) s) @ [single_quote])"

definition rendered :: "string list \<Rightarrow> string" where
  "rendered command = join '' '' (map shell_quote command)"

definition wsl_run_checked :: "wsl_host \<Rightarrow> string option \<Rightarrow> wsl_environment \<Rightarrow> string option \<Rightarrow> string list \<Rightarrow> nat \<Rightarrow> string run" where
  "wsl_run_checked h cwd env log_path command n =
     bindA (emitA (Ran env cwd command)) (\<lambda>_. pureA (case wb_run h env cwd command n of
       NotStarted message \<Rightarrow> Inl (BenchmarkError (''Cannot execute '' @ rendered command @ '': '' @ message))
     | Exited code out \<Rightarrow>
         bindE (case log_path of None \<Rightarrow> Inr () | Some path \<Rightarrow> wb_log h path (''$ '' @ rendered command @ [newline] @ out)) (\<lambda>_.
         bindE (raise_if (code \<noteq> 0) (BenchmarkError (''Command exited '' @ show_int code @ '': '' @ rendered command @ ''.''
           @ (case log_path of None \<Rightarrow> [] | Some path \<Rightarrow> '' See '' @ path @ ''.'') @ [newline] @ last_chars 6000 out))) (\<lambda>_.
         Inr (strip out)))))"

definition OVERRIDES :: "string list" where
  "OVERRIDES = [''LD_LIBRARY_PATH'', ''LD_PRELOAD'', ''LIBRARY_PATH'', ''CPATH'', ''C_INCLUDE_PATH'',
     ''CPLUS_INCLUDE_PATH'', ''GCC_EXEC_PREFIX'', ''COMPILER_PATH'']"

definition clean_environment :: "wsl_environment \<Rightarrow> wsl_environment" where
  "clean_environment environ = AList.update ''LC_ALL'' ''C'' (filter (\<lambda>(name, _). \<not> py_in name OVERRIDES) environ)"

definition path_suffix :: "string \<Rightarrow> string" where
  \<comment> \<open>\<open>Path(path).suffix\<close>\<close>
  "path_suffix path = (let name = last (split_on CHR ''/'' path); ext = takeWhile (\<lambda>c. c \<noteq> CHR ''.'') (rev name) in
     if ext \<noteq> [] \<and> length ext + 1 < length name then CHR ''.'' # rev ext else [])"

definition ELF :: string where
  "ELF = [CHR 0x7F] @ ''ELF''"

definition require_linux_executable :: "wsl_host \<Rightarrow> string \<Rightarrow> string \<Rightarrow> bool \<Rightarrow> unit py" where
  "require_linux_executable h path name elf =
     bindE (case wb_header h path of
         Inl e \<Rightarrow> (case e of OSError message \<Rightarrow> Inl (BenchmarkError (''Cannot inspect '' @ name @ '' executable: '' @ message)) | _ \<Rightarrow> Inl e)
       | Inr header \<Rightarrow> Inr header) (\<lambda>header.
     bindE (raise_if (lower (path_suffix path) = ''.exe'' \<or> take 2 header = ''MZ'' \<or> elf \<and> header \<noteq> ELF)
       (BenchmarkError (name @ '' must be a native Linux executable, found '' @ path))) (\<lambda>_.
     raise_if (\<not> wb_access h path) (BenchmarkError (name @ '' is not executable: '' @ path))))"

section \<open>Prerequisites\<close>

record wsl_tools =
  wt_ec :: string
  wt_finish_freezing :: string
  wt_gcc :: string
  wt_ldd :: string
  wt_eiffel_version :: string
  wt_gcc_version :: string
  wt_ise_platform :: string
  wt_ise_eiffel :: string
  wt_environment :: wsl_environment

definition wsl_env_get :: "wsl_environment \<Rightarrow> string \<Rightarrow> string" where
  "wsl_env_get env name = (case map_of env name of None \<Rightarrow> [] | Some v \<Rightarrow> v)"

definition is_letter :: "char \<Rightarrow> bool" where
  "is_letter c = (let n = of_char c :: nat in 65 \<le> n \<and> n \<le> 90 \<or> 97 \<le> n \<and> n \<le> 122)"

definition windows_path :: "string \<Rightarrow> bool" where
  \<comment> \<open>a drive letter, or a backslash anywhere\<close>
  "windows_path s = ((case s of a # b # _ \<Rightarrow> is_letter a \<and> b = CHR '':'' | _ \<Rightarrow> False) \<or> py_in (CHR 0x5C) s)"

definition check_settings :: "wsl_host \<Rightarrow> wsl_environment \<Rightarrow> unit py" where
  "check_settings h env =
     bindE (raise_if (wsl_env_get env ''ISE_PLATFORM'' \<noteq> [] \<and> \<not> startswith (wsl_env_get env ''ISE_PLATFORM'') ''linux'')
       (BenchmarkError (''ISE_PLATFORM must identify Linux, found '' @ py_repr (wsl_env_get env ''ISE_PLATFORM'') @ ''.''))) (\<lambda>_.
     bindE (raise_if (wsl_env_get env ''ISE_EIFFEL'' \<noteq> [] \<and> windows_path (wsl_env_get env ''ISE_EIFFEL''))
       (BenchmarkError ''ISE_EIFFEL must name the Linux EiffelStudio installation.'')) (\<lambda>_.
     raise_if (wsl_env_get env ''ISE_C_COMPILER'' \<noteq> [] \<and> wsl_env_get env ''ISE_C_COMPILER'' \<noteq> ''gcc'')
       (BenchmarkError ''Unset ISE_C_COMPILER or set it to gcc for this Linux benchmark.'')))"

definition wsl_find_tool :: "wsl_host \<Rightarrow> wsl_environment \<Rightarrow> string \<Rightarrow> string py" where
  "wsl_find_tool h env name = (case wb_which h (map_of env ''PATH'') name of
      None \<Rightarrow> Inl (BenchmarkError (''Required Linux tool '' @ py_repr name @ '' was not found on PATH. Install/configure ''
        @ ''Linux EiffelStudio, GCC, make and libexpat development files.''))
    | Some executable \<Rightarrow> bindE (require_linux_executable h executable name (name = ''ec'')) (\<lambda>_. Inr executable))"

definition check_prerequisites :: "wsl_host \<Rightarrow> wsl_tools run" where
  "check_prerequisites h = (let env = clean_environment (wb_environ h) in
     bindA (pureA (raise_if (\<not> startswith (wb_platform h) ''linux'')
       (BenchmarkError ''Run this script with Linux Python inside WSL2, not Windows Python.''))) (\<lambda>_.
     bindA (pureA (check_settings h env)) (\<lambda>_.
     bindA (pureA (wsl_find_tool h env ''ec'')) (\<lambda>ec. bindA (pureA (wsl_find_tool h env ''finish_freezing'')) (\<lambda>finish_freezing.
     bindA (pureA (wsl_find_tool h env ''gcc'')) (\<lambda>gcc. bindA (pureA (wsl_find_tool h env ''ldd'')) (\<lambda>ldd.
     bindA (pureA (raise_if (wb_which h (map_of env ''PATH'') ''make'' = None)
       (BenchmarkError (''Required Linux tool '' @ py_repr ''make'' @ '' was not found on PATH.'')))) (\<lambda>_.
     bindA (wsl_run_checked h None env None [ec, ''-version''] 0) (\<lambda>eiffel_version.
     bindA (pureA (raise_if (\<not> contains (lower eiffel_version) ''linux'')
       (BenchmarkError (''ec -version did not identify a Linux Eiffel compiler: '' @ eiffel_version)))) (\<lambda>_.
     bindA (wsl_run_checked h None env None [gcc, ''--version''] 0) (\<lambda>gcc_version.
     pureA (Inr \<lparr>wt_ec = ec, wt_finish_freezing = finish_freezing, wt_gcc = gcc, wt_ldd = ldd,
       wt_eiffel_version = eiffel_version, wt_gcc_version = gcc_version,
       wt_ise_platform = wsl_env_get env ''ISE_PLATFORM'', wt_ise_eiffel = wsl_env_get env ''ISE_EIFFEL'', wt_environment = env\<rparr>)))))))))))) "

end
