(* ===== verification/Wsl_Build.thy ===== *)
theory Wsl_Build
  imports Wsl_Bench
begin

text \<open>
  The builds of \<open>scripts/run_wsl_benchmarks.py\<close>: reading Eiffel's makefile and the compiler it selects,
  the Eiffel benchmark and the C benchmark, with the checks that both are what they claim to be.
\<close>

section \<open>Shell words\<close>

datatype lex_state =
    Between \<comment> \<open>before a word\<close>
  | InWord
  | Quoted char
  | Escaped lex_state

definition shell_space :: "char \<Rightarrow> bool" where
  "shell_space c = py_in c [CHR '' '', tab, CHR 0x0D, newline]"

text \<open>\<open>shlex.split\<close>: the words so far (reversed), the current word (reversed), and the state.\<close>

fun shell_lex :: "lex_state \<Rightarrow> string list \<Rightarrow> string \<Rightarrow> string \<Rightarrow> string list py" where
  "shell_lex Between ws w [] = Inr (rev ws)"
| "shell_lex InWord ws w [] = Inr (rev (rev w # ws))"
| "shell_lex (Quoted q) ws w [] = Inl (ValueError ''No closing quotation'')"
| "shell_lex (Escaped st) ws w [] = Inl (ValueError ''No escaped character'')"
| "shell_lex Between ws w (c # s) =
     (if shell_space c then shell_lex Between ws [] s
      else if c = CHR 0x5C then shell_lex (Escaped InWord) ws [] s
      else if c = single_quote \<or> c = double_quote then shell_lex (Quoted c) ws [] s
      else shell_lex InWord ws [c] s)"
| "shell_lex InWord ws w (c # s) =
     (if shell_space c then shell_lex Between (rev w # ws) [] s
      else if c = CHR 0x5C then shell_lex (Escaped InWord) ws w s
      else if c = single_quote \<or> c = double_quote then shell_lex (Quoted c) ws w s
      else shell_lex InWord ws (c # w) s)"
| "shell_lex (Quoted q) ws w (c # s) =
     (if c = q then shell_lex InWord ws w s
      else if q = double_quote \<and> c = CHR 0x5C then shell_lex (Escaped (Quoted q)) ws w s
      else shell_lex (Quoted q) ws (c # w) s)"
| "shell_lex (Escaped st) ws w (c # s) =
     (case st of
        Quoted q \<Rightarrow> shell_lex st ws (if c \<noteq> CHR 0x5C \<and> c \<noteq> q then c # CHR 0x5C # w else c # w) s
      | _ \<Rightarrow> shell_lex st ws (c # w) s)"

definition shell_split :: "string \<Rightarrow> string list py" where
  "shell_split s = shell_lex Between [] [] s"

section \<open>The makefile\<close>

definition ASSIGNED :: "string list" where
  "ASSIGNED = [''CC'', ''CPP'', ''CFLAGS'', ''CPPFLAGS'', ''LDFLAGS'', ''CCLDFLAGS'', ''EIFLIB'']"

definition after_name :: "string \<Rightarrow> string \<Rightarrow> string option" where
  \<comment> \<open>the value of \<open>name = value\<close>\<close>
  "after_name line name = (if startswith line name then
       (case dropWhile is_space (drop (length name) line) of
          c # rest \<Rightarrow> if c = CHR ''='' then Some (dropWhile is_space rest) else None
        | [] \<Rightarrow> None)
     else None)"

definition make_assignment :: "string \<Rightarrow> (string \<times> string) option" where
  \<comment> \<open>\<open>re.match(r"^(CC|CPP|...)\s*=\s*(.*)$", line)\<close>\<close>
  "make_assignment line = (case List.map_filter (\<lambda>name. map_option (Pair name) (after_name line name)) ASSIGNED of
      [] \<Rightarrow> None | a # _ \<Rightarrow> Some a)"

definition wsl_makefile_assignments :: "string \<Rightarrow> (string \<times> string) list" where
  \<comment> \<open>a dictionary in order of first appearance: the last value of a name wins\<close>
  "wsl_makefile_assignments text = fold (\<lambda>(name, value). AList.update name value) (List.map_filter make_assignment (splitlines text)) []"

definition selected_compiler :: "string list \<Rightarrow> string py" where
  \<comment> \<open>\<open>command[1] if command[0] in ("ccache", "sccache") else command[0]\<close>\<close>
  "selected_compiler command = (case command of
      [] \<Rightarrow> Inl IndexError
    | first # rest \<Rightarrow> if py_in first [''ccache'', ''sccache'']
        then (case rest of [] \<Rightarrow> Inl IndexError | compiler # _ \<Rightarrow> Inr compiler) else Inr first)"

definition cc_of :: "(string \<times> string) list \<Rightarrow> string" where
  "cc_of assignments = (case map_of assignments ''CC'' of None \<Rightarrow> [] | Some v \<Rightarrow> v)"

definition not_gcc :: "string \<Rightarrow> bool" where
  "not_gcc version \<longleftrightarrow> \<not> contains (lower version) ''gcc'' \<and> \<not> contains version ''Free Software Foundation''"

definition record_eiffel_build :: "wsl_host \<Rightarrow> string \<Rightarrow> wsl_tools \<Rightarrow> build_details run" where
  "record_eiffel_build h code_directory tools = (let makefile = code_directory @ ''/Makefile''; env = wt_environment tools in
     bindA (pureA (raise_if (\<not> wb_is_file h makefile)
       (BenchmarkError (''Cannot verify Eiffel'' @ [CHR 0x27] @ ''s C compiler: missing '' @ makefile)))) (\<lambda>_.
     bindA (pureA (wb_text h makefile)) (\<lambda>contents.
     let assignments = wsl_makefile_assignments contents; cc = cc_of assignments in
     bindA (pureA (raise_if (strip cc = [])
       (BenchmarkError (''Cannot verify Eiffel'' @ [CHR 0x27] @ ''s C compiler: missing CC in '' @ makefile)))) (\<lambda>_.
     bindA (pureA (bindE (shell_split cc) selected_compiler)) (\<lambda>compiler.
     bindA (pureA (case wb_which h (map_of env ''PATH'') compiler of
         None \<Rightarrow> Inl (BenchmarkError (''Cannot resolve Eiffel'' @ [CHR 0x27] @ ''s generated C compiler: '' @ compiler))
       | Some path \<Rightarrow> Inr path)) (\<lambda>path.
     bindA (pureA (require_linux_executable h path ''Eiffel C compiler'' False)) (\<lambda>_.
     bindA (wsl_run_checked h None env None [path, ''--version''] 0) (\<lambda>version.
     bindA (pureA (raise_if (not_gcc version)
       (BenchmarkError (''Eiffel selected a C compiler other than GCC: '' @ cc @ [newline] @ version)))) (\<lambda>_.
     pureA (Inr \<lparr>bd_code_directory = code_directory, bd_assignments = assignments,
       bd_compiler_path = ''/'' @ join ''/'' (wb_resolve h path), bd_compiler_version = version\<rparr>))))))))))"

section \<open>The Eiffel benchmark\<close>

definition unlink_existing :: "wsl_host \<Rightarrow> string \<Rightarrow> unit run" where
  "unlink_existing h path = (if wb_exists h path
     then bindA (pureA (wb_unlink h path)) (\<lambda>_. emitA (Unlinked path)) else pureA (Inr ()))"

fun unlink_each :: "wsl_host \<Rightarrow> string list \<Rightarrow> unit run" where
  "unlink_each h [] = pureA (Inr ())"
| "unlink_each h (path # paths) = bindA (unlink_existing h path) (\<lambda>_. unlink_each h paths)"

definition project_of :: "string \<Rightarrow> build_spec \<Rightarrow> string" where
  "project_of output_dir spec = output_dir @ ''/builds/'' @ sc_name spec"

definition code_directory_of :: "string \<Rightarrow> build_spec \<Rightarrow> string" where
  "code_directory_of output_dir spec = project_of output_dir spec @ ''/EIFGENs/'' @ sc_target spec @ ''/'' @ sc_code_directory spec"

definition executable_of_spec :: "string \<Rightarrow> build_spec \<Rightarrow> string" where
  "executable_of_spec output_dir spec = code_directory_of output_dir spec @ ''/xpact_benchmarks''"

definition log_of :: "string \<Rightarrow> string \<Rightarrow> string" where
  "log_of output_dir name = output_dir @ ''/logs/'' @ name"

definition eiffel_command :: "wsl_host \<Rightarrow> wsl_tools \<Rightarrow> string \<Rightarrow> build_spec \<Rightarrow> string list" where
  "eiffel_command h tools output_dir spec = [wt_ec tools, ''-batch'', ''-clean'']
     @ (if sc_mode spec = ''Finalized'' then [''-finalize''] @ (if sc_assertions spec then [''-keep''] else []) else [])
     @ [''-config'', wb_repo_root h @ ''/benchmarks/xpact_benchmarks.ecf'', ''-target'', sc_target spec,
        ''-project_path'', project_of output_dir spec]"

definition eiffel_engine :: "string \<Rightarrow> build_spec \<Rightarrow> wsl_tools \<Rightarrow> bool \<Rightarrow> engine" where
  "eiffel_engine output_dir spec tools suspend_gc =
     \<lparr>en_name = ''xpact Eiffel '' @ lower (sc_mode spec) @ '', assertions '' @ (if sc_assertions spec then ''enabled'' else ''discarded'')
        @ '' via WSL2 gcc'' @ (if suspend_gc then '', GC suspended during parse'' else []),
      en_executable = executable_of_spec output_dir spec,
      en_arguments = (if suspend_gc then [''--suspend-gc''] else []), en_version = wt_eiffel_version tools,
      en_notes = ''Linux EiffelStudio/GCC; parser reused; no-op event handler; Linux process wall time''
        @ (if suspend_gc then ''; calls parse_without_garbage_collection'' else []),
      en_environment = wt_environment tools\<rparr>"

definition build_eiffel :: "wsl_host \<Rightarrow> string \<Rightarrow> build_spec \<Rightarrow> wsl_tools \<Rightarrow> (engine list \<times> string \<times> build_details) run" where
  "build_eiffel h output_dir spec tools =
     (let code_directory = code_directory_of output_dir spec; executable = executable_of_spec output_dir spec;
          env = wt_environment tools in
     bindA (pureA (wb_mkdir h (project_of output_dir spec))) (\<lambda>_.
     bindA (unlink_each h [log_of output_dir (sc_name spec @ ''-eiffel.log''), log_of output_dir (sc_name spec @ ''-c.log''), executable]) (\<lambda>_.
     bindA (wsl_run_checked h (Some (wb_repo_root h)) env (Some (log_of output_dir (sc_name spec @ ''-eiffel.log''))) (eiffel_command h tools output_dir spec) 0) (\<lambda>_.
     bindA (pureA (raise_if (\<not> wb_is_dir h code_directory)
       (BenchmarkError (''Eiffel generation did not create '' @ code_directory)))) (\<lambda>_.
     bindA (wsl_run_checked h (Some code_directory) env (Some (log_of output_dir (sc_name spec @ ''-c.log''))) [wt_finish_freezing tools] 0) (\<lambda>_.
     bindA (pureA (raise_if (\<not> wb_is_file h executable) (BenchmarkError (''Eiffel build did not create '' @ executable)))) (\<lambda>_.
     bindA (pureA (require_linux_executable h executable ''Eiffel benchmark'' True)) (\<lambda>_.
     bindA (record_eiffel_build h code_directory tools) (\<lambda>details.
     pureA (Inr (map (eiffel_engine output_dir spec tools) [False, True], sc_name spec, details)))))))))))"

section \<open>The C benchmark\<close>

definition nonspace_run :: "string \<Rightarrow> string" where
  "nonspace_run s = takeWhile (\<lambda>c. \<not> is_space c) s"

definition expat_at :: "string \<Rightarrow> string option" where
  \<comment> \<open>\<open>\s*libexpat\.so[^\s]*\s+=>\s+(/\S+)\<close> at the start of a line\<close>
  "expat_at s = (let t = dropWhile is_space s in
     if \<not> startswith t ''libexpat.so'' then None
     else let u = dropWhile (\<lambda>c. \<not> is_space c) t; v = dropWhile is_space u in
       if u = [] \<or> \<not> startswith v ''=>'' then None
       else let w = drop 2 v; x = dropWhile is_space w; target = nonspace_run x in
         if w = x \<or> \<not> startswith target ''/'' \<or> length target < 2 then None else Some target)"

fun line_starts :: "string \<Rightarrow> string list" where
  \<comment> \<open>what follows each newline\<close>
  "line_starts [] = []"
| "line_starts (c # s) = (if c = newline then s # line_starts s else line_starts s)"

definition find_expat :: "string \<Rightarrow> string option" where
  "find_expat s = (case List.map_filter expat_at (s # line_starts s) of [] \<Rightarrow> None | target # _ \<Rightarrow> Some target)"

definition SYSTEM_LIBRARIES :: "path list" where
  "SYSTEM_LIBRARIES = [[''usr'', ''lib''], [''usr'', ''lib64''], [''lib''], [''lib64'']]"

definition parents :: "path \<Rightarrow> path list" where
  "parents p = map (\<lambda>k. take k p) [0..<length p]"

definition in_system_library :: "path \<Rightarrow> bool" where
  "in_system_library library = list_ex (\<lambda>directory. directory = butlast library \<or> py_in directory (parents library)) SYSTEM_LIBRARIES"

definition wrong_expat :: "string \<Rightarrow> bool" where
  "wrong_expat version \<longleftrightarrow> contains (lower version) ''xpact'' \<or> \<not> startswith version ''expat_''"

definition libexpat_engine :: "string \<Rightarrow> string \<Rightarrow> wsl_tools \<Rightarrow> string \<Rightarrow> engine" where
  "libexpat_engine executable version tools mode =
     \<lparr>en_name = ''libexpat C '' @ mode @ '' via WSL2 gcc'', en_executable = executable, en_arguments = [''--mode'', mode],
      en_version = version,
      en_notes = ''GCC -O2; distro libexpat; parser created per document; '' @ (if mode = ''callbacks'' then ''C callbacks'' else ''no callbacks'')
        @ ''; Linux process wall time'',
      en_environment = wt_environment tools\<rparr>"

definition build_libexpat :: "wsl_host \<Rightarrow> string \<Rightarrow> wsl_tools \<Rightarrow> (engine list \<times> string \<times> string) run" where
  \<comment> \<open>the engines, the version and the library\<close>
  "build_libexpat h output_dir tools = (let executable = output_dir @ ''/libexpat_c_benchmark''; env = wt_environment tools in
     bindA (unlink_each h [log_of output_dir ''libexpat-c.log'', log_of output_dir ''libexpat-ldd.log'', executable]) (\<lambda>_.
     bindA (wsl_run_checked h (Some (wb_repo_root h)) env (Some (log_of output_dir ''libexpat-c.log''))
       [wt_gcc tools, ''-O2'', wb_repo_root h @ ''/benchmarks/libexpat_c_benchmark.c'', ''-lexpat'', ''-o'', executable] 0) (\<lambda>_.
     bindA (pureA (raise_if (\<not> wb_is_file h executable) (BenchmarkError (''GCC did not create '' @ executable)))) (\<lambda>_.
     bindA (pureA (require_linux_executable h executable ''libexpat benchmark'' True)) (\<lambda>_.
     bindA (wsl_run_checked h None env (Some (log_of output_dir ''libexpat-ldd.log'')) [wt_ldd tools, executable] 0) (\<lambda>dependencies.
     bindA (pureA (case find_expat dependencies of
         None \<Rightarrow> Inl (BenchmarkError ''Cannot identify the system libexpat dependency; see libexpat-ldd.log.'')
       | Some target \<Rightarrow> Inr (wb_resolve h target))) (\<lambda>library.
     let library_text = ''/'' @ join ''/'' library in
     bindA (pureA (raise_if (\<not> in_system_library library)
       (BenchmarkError (''libexpat resolved outside the distro library directories: '' @ library_text)))) (\<lambda>_.
     bindA (wsl_run_checked h None env None [executable, ''--version''] 0) (\<lambda>version.
     bindA (pureA (raise_if (wrong_expat version)
       (BenchmarkError (''Expected distro Expat version, found '' @ py_repr version @ ''.'')))) (\<lambda>_.
     pureA (Inr (map (libexpat_engine executable version tools) [''callbacks'', ''tokenizer''], version, library_text))))))))))))"

end
