(* ===== verification/Wsl_Run.thy ===== *)
theory Wsl_Run
  imports Wsl_Build
begin

text \<open>
  Measurement, summary and publication of \<open>scripts/run_wsl_benchmarks.py\<close>, the whole run and its main.
\<close>

section \<open>Measurement\<close>

definition wsl_measured_row :: "engine \<Rightarrow> int \<Rightarrow> nat \<Rightarrow> rat \<Rightarrow> wsl_row" where
  "wsl_measured_row e iterations repetition seconds =
     \<lparr>wr_engine = en_name e, wr_version = en_version e, wr_repetition = repetition, wr_iterations = iterations,
      wr_document_bytes = sample_document_bytes,
      wr_elapsed_ms = py_round 3 (seconds * 1000),
      wr_docs_per_second = py_round 3 (of_int iterations / seconds),
      wr_mib_per_second = py_round 3 (of_int (iterations * int sample_document_bytes) / (1024 * 1024) / seconds),
      wr_notes = en_notes e\<rparr>"

definition engine_command :: "engine \<Rightarrow> int \<Rightarrow> string list" where
  "engine_command e iterations = [en_executable e] @ en_arguments e @ [''--iterations'', show_int iterations]"

fun measure_repetitions :: "wsl_host \<Rightarrow> engine \<Rightarrow> int \<Rightarrow> nat list \<Rightarrow> wsl_row list run" where
  "measure_repetitions h e iterations [] = pureA (Inr [])"
| "measure_repetitions h e iterations (repetition # rest) =
     bindA (wsl_run_checked h None (en_environment e) None (engine_command e iterations) repetition) (\<lambda>_.
     let seconds = wb_seconds h (engine_command e iterations) repetition in
     bindA (pureA (raise_if (seconds \<le> 0) (BenchmarkError (''Nonpositive elapsed time for '' @ en_name e)))) (\<lambda>_.
     bindA (measure_repetitions h e iterations rest) (\<lambda>rows. pureA (Inr (wsl_measured_row e iterations repetition seconds # rows)))))"

definition measure_engine :: "wsl_host \<Rightarrow> engine \<Rightarrow> int \<Rightarrow> int \<Rightarrow> wsl_row list run" where
  \<comment> \<open>one warm-up that is not timed, then the measured runs\<close>
  "measure_engine h e iterations repetitions =
     bindA (wsl_run_checked h None (en_environment e) None (engine_command e iterations) 0) (\<lambda>_.
     measure_repetitions h e iterations [1..<Suc (nat repetitions)])"

section \<open>The summary\<close>

definition markdown_cell :: "string \<Rightarrow> string" where
  "markdown_cell s = concat (map (\<lambda>c. if c = CHR ''|'' then [CHR 0x5C, CHR ''|'']
     else if py_in c [CHR 0x0D, newline] then '' '' else [c]) s)"

definition lower_median :: "wsl_row list \<Rightarrow> wsl_row" where
  \<comment> \<open>\<open>ordered[(len(ordered) - 1) // 2]\<close>\<close>
  "lower_median rows = (let ordered = sort_key wr_elapsed_ms rows in ordered ! ((length ordered - 1) div 2))"

definition engine_groups :: "wsl_row list \<Rightarrow> wsl_row list list" where
  "engine_groups rows = map (\<lambda>name. filter (\<lambda>r. wr_engine r = name) rows) (fromkeys (map wr_engine rows))"

definition engine_line :: "wsl_host \<Rightarrow> wsl_row list \<Rightarrow> string" where
  "engine_line h rows = (let r = lower_median rows in
     ''| '' @ join '' | '' (map markdown_cell [wr_engine r, wb_float h (wr_elapsed_ms r), wb_float h (wr_docs_per_second r),
       wb_float h (wr_mib_per_second r), wr_notes r]) @ '' |'')"

definition first_line :: "string \<Rightarrow> string py" where
  \<comment> \<open>\<open>s.splitlines()[0]\<close>\<close>
  "first_line s = (case splitlines s of [] \<Rightarrow> Inl IndexError | line # _ \<Rightarrow> Inr line)"

definition render_summary :: "wsl_host \<Rightarrow> wsl_row list \<Rightarrow> wsl_metadata \<Rightarrow> string py" where
  "render_summary h rows m =
     bindE (first_line (wm_gcc_version m)) (\<lambda>gcc.
     Inr (join [newline]
       ([''# WSL2 GCC benchmarks'', [], ''Generated: '' @ wm_generated m, [], ''Linux: '' @ wm_os m, [],
         ''Eiffel: '' @ markdown_cell (wm_eiffel_version m), [], ''GCC: '' @ markdown_cell gcc, [],
         ''Expat: '' @ wm_libexpat_version m @ '' ('' @ wm_libexpat_library m @ '')'', [],
         ''Workload: the same 2611-byte UTF-8 catalog with 100 item elements; '' @ show_int (wm_iterations m) @ '' documents per run.'', [],
         ''Each engine has one untimed warmup. Values are the lower median of '' @ show_int (int (wm_repetitions m)) @ '' measured runs. ''
           @ ''Times include Linux process startup and exclude compilation and wsl.exe startup.'', [],
         ''| Engine | Median elapsed ms | Docs/sec | MiB/sec | Notes |'', ''|---|---:|---:|---:|---|'']
        @ map (engine_line h) (engine_groups rows)
        @ [[], ''Using one Linux environment reduces OS and launch differences between the Eiffel ''
            @ ''and libexpat rows. Eiffel uses its own generated GCC options; the C harness uses -O2 ''
            @ ''and the installed distro libexpat. This does not isolate the effect of switching MSVC ''
            @ ''to GCC. Eiffel reuses its parser with a no-op handler; libexpat creates a parser per ''
            @ ''document, with callbacks enabled or disabled as labelled.'', [],
           ''Raw repetitions: benchmark-results.tsv. Toolchain and run metadata: metadata.json. ''
            @ ''Build diagnostics: logs/.'', []])))"

section \<open>Publication\<close>

fun stage_each :: "wsl_host \<Rightarrow> (string \<times> string) list \<Rightarrow> unit py" where
  "stage_each h [] = Inr ()"
| "stage_each h ((name, content) # rest) = bindE (wb_stage h name content) (\<lambda>_. stage_each h rest)"

fun replace_each :: "wsl_host \<Rightarrow> string list \<Rightarrow> unit run" where
  "replace_each h [] = pureA (Inr ())"
| "replace_each h (name # names) =
     bindA (pureA (wb_replace h name)) (\<lambda>_. bindA (emitA (Published name)) (\<lambda>_. replace_each h names))"

definition or_clear_run :: "'a run \<Rightarrow> 'a run" where
  \<comment> \<open>\<open>except BaseException: clear_reports(output_dir); raise\<close>\<close>
  "or_clear_run m = (case m of (evs, Inl e) \<Rightarrow> (evs @ [ReportsCleared], Inl e) | (evs, Inr x) \<Rightarrow> (evs, Inr x))"

definition wsl_publish_reports :: "wsl_host \<Rightarrow> wsl_row list \<Rightarrow> wsl_metadata \<Rightarrow> unit run" where
  "wsl_publish_reports h rows m =
     bindA (pureA (render_summary h rows m)) (\<lambda>summary.
     or_clear_run (bindA (pureA (stage_each h [(''benchmark-results.tsv'', wb_tsv h rows), (''summary.md'', summary),
         (''metadata.json'', wb_dumps h m @ [newline])])) (\<lambda>_. replace_each h wsl_report_names)))"

section \<open>The run\<close>

fun build_eiffels :: "wsl_host \<Rightarrow> string \<Rightarrow> wsl_tools \<Rightarrow> build_spec list \<Rightarrow> (engine list \<times> string \<times> build_details) list run" where
  "build_eiffels h output_dir tools [] = pureA (Inr [])"
| "build_eiffels h output_dir tools (spec # specs) =
     bindA (build_eiffel h output_dir spec tools) (\<lambda>b. bindA (build_eiffels h output_dir tools specs) (\<lambda>bs. pureA (Inr (b # bs))))"

fun measure_engines :: "wsl_host \<Rightarrow> int \<Rightarrow> int \<Rightarrow> engine list \<Rightarrow> wsl_row list run" where
  "measure_engines h iterations repetitions [] = pureA (Inr [])"
| "measure_engines h iterations repetitions (e # es) =
     bindA (measure_engine h e iterations repetitions) (\<lambda>rows.
     bindA (measure_engines h iterations repetitions es) (\<lambda>more. pureA (Inr (rows @ more))))"

definition run_metadata :: "wsl_host \<Rightarrow> wsl_args \<Rightarrow> wsl_tools \<Rightarrow> build_spec list \<Rightarrow> (string \<times> build_details) list \<Rightarrow> string \<Rightarrow> string
    \<Rightarrow> wsl_metadata" where
  \<comment> \<open>without the fields that only describe the machine\<close>
  "run_metadata h a tools specs details version library =
     \<lparr>wm_generated = wb_generated_utc h, wm_os = wb_os h, wm_iterations = wa_iterations a, wm_repetitions = nat (wa_repetitions a),
      wm_document_bytes = sample_document_bytes, wm_eiffel_builds = map sc_name specs,
      wm_eiffel_version = wt_eiffel_version tools, wm_gcc_version = wt_gcc_version tools,
      wm_ise_platform = wt_ise_platform tools, wm_ise_eiffel = wt_ise_eiffel tools,
      wm_libexpat_version = version, wm_libexpat_library = library, wm_details = details,
      wm_tool_paths = [(''ec'', wt_ec tools), (''finish_freezing'', wt_finish_freezing tools), (''gcc'', wt_gcc tools), (''ldd'', wt_ldd tools)]\<rparr>"

definition wsl_body :: "wsl_host \<Rightarrow> wsl_args \<Rightarrow> wsl_row list run" where
  "wsl_body h a =
     bindA (check_prerequisites h) (\<lambda>tools.
     bindA (pureA (build_specs (wa_eiffel_build a))) (\<lambda>specs.
     bindA (build_eiffels h (wa_output_dir a) tools specs) (\<lambda>built.
     bindA (build_libexpat h (wa_output_dir a) tools) (\<lambda>(c_engines, version, library).
     bindA (measure_engines h (wa_iterations a) (wa_repetitions a) (concat (map fst built) @ c_engines)) (\<lambda>rows.
     bindA (wsl_publish_reports h rows (run_metadata h a tools specs (map snd built) version library)) (\<lambda>_.
     pureA (Inr rows)))))))"

definition run_benchmarks :: "wsl_host \<Rightarrow> wsl_args \<Rightarrow> wsl_row list run" where
  "run_benchmarks h a =
     bindA (pureA (wb_mkdir h (wa_output_dir a))) (\<lambda>_.
     bindA (emitA ReportsCleared) (\<lambda>_.
     or_clear_run (wsl_body h a)))"

definition wsl_caught :: "exn \<Rightarrow> bool" where
  \<comment> \<open>\<open>except (BenchmarkError, OSError, ValueError)\<close>\<close>
  "wsl_caught e = (is_value_error e \<or> (case e of BenchmarkError _ \<Rightarrow> True | OSError _ \<Rightarrow> True | _ \<Rightarrow> False))"

definition wsl_main :: "wsl_host \<Rightarrow> wsl_options \<Rightarrow> int run" where
  "wsl_main h o' =
     bindA (pureA (wsl_parse_args o')) (\<lambda>a.
     case run_benchmarks h a of
       (evs, Inr rows) \<Rightarrow> (evs, Inr 0)
     | (evs, Inl e) \<Rightarrow> (evs, if wsl_caught e then Inr 1 else Inl e))"

end
