(* ===== verification/Wsl_Proofs.thy ===== *)
theory Wsl_Proofs
  imports Wsl_Run
begin

text \<open>
  Lemmas on the benchmarks under Linux: the reports on disk after a run, quoted commands read back, what a
  build that returned has checked, and the rows of a measurement.
\<close>

section \<open>The reports after a run\<close>

fun wsl_step :: "wsl_event \<Rightarrow> string list \<Rightarrow> string list" where
  "wsl_step (Published name) files = files @ [name]"
| "wsl_step ReportsCleared files = []"
| "wsl_step _ files = files"

definition wsl_reports :: "wsl_event list \<Rightarrow> string list \<Rightarrow> string list" where
  \<comment> \<open>the reports on disk after these events, from those that were there\<close>
  "wsl_reports evs earlier = fold wsl_step evs earlier"

lemma wsl_reports_simps [simp]:
  "wsl_reports [] files = files" "wsl_reports (ev # evs) files = wsl_reports evs (wsl_step ev files)"
  "wsl_reports (evs @ evs') files = wsl_reports evs' (wsl_reports evs files)"
  by (simp_all add: wsl_reports_def)

fun noiseless :: "wsl_event \<Rightarrow> bool" where
  "noiseless (Ran _ _ _) = True"
| "noiseless (Unlinked _) = True"
| "noiseless _ = False"

abbreviation noiseless_run :: "'a run \<Rightarrow> bool" where
  "noiseless_run m \<equiv> list_all noiseless (fst m)"

lemma quiet_reports: "list_all noiseless evs \<Longrightarrow> wsl_reports evs files = files"
proof (induction evs arbitrary: files)
  case (Cons ev evs)
  then show ?case by (cases ev) simp_all
qed simp

named_theorems silents \<open>runs that publish nothing\<close>

lemma quiet_pure [silents]: "noiseless_run (pureA m)"
  by (simp add: pureA_def)

lemma quiet_bind [silents]: "noiseless_run m \<Longrightarrow> (\<And>x. noiseless_run (k x)) \<Longrightarrow> noiseless_run (bindA m k)"
  by (rule list_all_bindA)

lemma quiet_run_checked [silents]: "noiseless_run (wsl_run_checked h cwd env lp command n)"
  unfolding wsl_run_checked_def by (intro silents) (simp add: emitA_def)

lemma quiet_unlink [silents]: "noiseless_run (unlink_each h paths)"
proof (induction paths)
  case (Cons p paths)
  have "noiseless_run (unlink_existing h p)" by (simp add: unlink_existing_def silents)
  with Cons show ?case by (simp add: silents)
qed (simp add: silents)

lemma quiet_prerequisites [silents]: "noiseless_run (check_prerequisites h)"
  unfolding check_prerequisites_def Let_def by (intro silents)

lemma quiet_record [silents]: "noiseless_run (record_eiffel_build h d tools)"
  unfolding record_eiffel_build_def Let_def by (intro silents)

lemma quiet_build_eiffel [silents]: "noiseless_run (build_eiffel h out spec tools)"
  unfolding build_eiffel_def Let_def by (intro silents)

lemma quiet_build_eiffels [silents]: "noiseless_run (build_eiffels h out tools specs)"
  by (induction specs) (auto intro!: silents)

lemma quiet_build_libexpat [silents]: "noiseless_run (build_libexpat h out tools)"
  unfolding build_libexpat_def Let_def by (intro silents)

lemma quiet_repetitions [silents]: "noiseless_run (measure_repetitions h e n rs)"
  by (induction rs) (auto simp: Let_def intro!: silents)

lemma quiet_measure_engines [silents]: "noiseless_run (measure_engines h n k es)"
  by (induction es) (auto simp: measure_engine_def intro!: silents)

lemma or_clear_run_Inr: "or_clear_run m = (evs, Inr x) \<longleftrightarrow> m = (evs, Inr x)"
  by (auto simp: or_clear_run_def split: prod.splits sum.splits)

lemma or_clear_run_Inl: "or_clear_run m = (evs, Inl e) \<Longrightarrow> wsl_reports evs files = []"
  by (auto simp: or_clear_run_def split: prod.splits sum.splits)

lemma replace_each_Inr: "replace_each h names = (evs, Inr u) \<Longrightarrow> evs = map Published names"
  by (induction names arbitrary: evs) (auto simp: bindA_Inr_iff)

lemma published_reports: "wsl_reports (map Published names) files = files @ names"
  by (induction names arbitrary: files) auto

lemma wsl_publish_Inr:
  assumes "wsl_publish_reports h rows m = (evs, Inr u)"
  shows "evs = map Published wsl_report_names"
  using assms replace_each_Inr by (auto simp: wsl_publish_reports_def bindA_Inr_iff or_clear_run_Inr)

lemma wsl_body_Inr:
  assumes "wsl_body h a = (evs, Inr rows)"
  obtains tools specs built c_engines version library evs1 evs2 evs3 evs4 where
    "check_prerequisites h = (evs1, Inr tools)" "build_specs (wa_eiffel_build a) = Inr specs"
    "build_eiffels h (wa_output_dir a) tools specs = (evs2, Inr built)"
    "build_libexpat h (wa_output_dir a) tools = (evs3, Inr (c_engines, version, library))"
    "measure_engines h (wa_iterations a) (wa_repetitions a) (concat (map fst built) @ c_engines) = (evs4, Inr rows)"
    "evs = evs1 @ evs2 @ evs3 @ evs4 @ map Published wsl_report_names"
  using assms wsl_publish_Inr unfolding wsl_body_def by (auto simp: bindA_Inr_iff)

lemma wsl_body_reports:
  assumes "wsl_body h a = (evs, Inr rows)"
  shows "wsl_reports evs files = files @ wsl_report_names"
proof -
  from assms show ?thesis
  proof (rule wsl_body_Inr)
    fix tools specs built c_engines version library evs1 evs2 evs3 evs4
    assume r: "check_prerequisites h = (evs1, Inr tools)" "build_eiffels h (wa_output_dir a) tools specs = (evs2, Inr built)"
      "build_libexpat h (wa_output_dir a) tools = (evs3, Inr (c_engines, version, library))"
      "measure_engines h (wa_iterations a) (wa_repetitions a) (concat (map fst built) @ c_engines) = (evs4, Inr rows)"
      and e: "evs = evs1 @ evs2 @ evs3 @ evs4 @ map Published wsl_report_names"
    have "list_all noiseless evs1" "list_all noiseless evs2" "list_all noiseless evs3" "list_all noiseless evs4"
      using quiet_prerequisites [of h] quiet_build_eiffels [of h "wa_output_dir a" tools specs]
        quiet_build_libexpat [of h "wa_output_dir a" tools]
        quiet_measure_engines [of h "wa_iterations a" "wa_repetitions a" "concat (map fst built) @ c_engines"]
      unfolding r by simp_all
    then show ?thesis by (simp add: e quiet_reports published_reports)
  qed
qed

section \<open>Quoted commands\<close>

lemma shell_safe_plain:
  assumes "shell_safe c"
  shows "\<not> shell_space c" "c \<noteq> CHR 0x5C" "c \<noteq> single_quote" "c \<noteq> double_quote"
proof -
  have unsafe: "\<not> shell_safe CHR 0x20" "\<not> shell_safe tab" "\<not> shell_safe CHR 0x0D" "\<not> shell_safe newline"
    "\<not> shell_safe CHR 0x5C" "\<not> shell_safe single_quote" "\<not> shell_safe double_quote"
    by (simp_all add: shell_safe_def single_quote_def double_quote_def)
  show "\<not> shell_space c" using assms unsafe(1-4) by (auto simp: shell_space_def)
  show "c \<noteq> CHR 0x5C" "c \<noteq> single_quote" "c \<noteq> double_quote" using assms unsafe(5-7) by blast+
qed

lemma lex_safe: "list_all shell_safe v \<Longrightarrow> shell_lex InWord ws w (v @ s) = shell_lex InWord ws (rev v @ w) s"
  by (induction v arbitrary: w) (simp_all add: shell_safe_plain)

lemma quotes_differ [simp]: "single_quote \<noteq> double_quote" "double_quote \<noteq> single_quote" "single_quote \<noteq> CHR 0x5C"
  "double_quote \<noteq> CHR 0x5C" "\<not> shell_space single_quote" "\<not> shell_space double_quote"
  by (simp_all add: single_quote_def double_quote_def shell_space_def)

lemma lex_quoted:
  "shell_lex (Quoted single_quote) ws w (concat (map (\<lambda>c. if c = single_quote
      then [single_quote, double_quote, single_quote, double_quote, single_quote] else [c]) v) @ s)
   = shell_lex (Quoted single_quote) ws (rev v @ w) s"
  by (induction v arbitrary: w) simp_all

lemma lex_word: "shell_lex Between ws [] (shell_quote v @ s) = shell_lex InWord ws (rev v) s"
proof (cases "v = [] \<or> \<not> list_all shell_safe v")
  case True
  then show ?thesis by (auto simp: shell_quote_def lex_quoted)
next
  case False
  then obtain c u where v: "v = c # u" "shell_safe c" "list_all shell_safe u" by (cases v) auto
  then show ?thesis by (simp add: shell_quote_def shell_safe_plain lex_safe)
qed

lemma lex_rendered: "shell_lex Between ws [] (rendered command) = Inr (rev ws @ command)"
proof (induction command arbitrary: ws)
  case (Cons v command)
  show ?case
  proof (cases command)
    case Nil
    then show ?thesis using lex_word [of ws v "[]"] by (simp add: rendered_def)
  next
    case (Cons u rest)
    then have "rendered (v # command) = shell_quote v @ CHR '' '' # rendered command" by (simp add: rendered_def)
    moreover have "shell_space CHR '' ''" by (simp add: shell_space_def)
    ultimately show ?thesis using Cons.IH [of "v # ws"] by (simp add: lex_word)
  qed
qed (simp add: rendered_def)

section \<open>What a build has checked\<close>

lemma wsl_run_checked_Inr:
  assumes "wsl_run_checked h cwd env lp command n = (evs, Inr out)"
  shows "evs = [Ran env cwd command] \<and> (\<exists>text. wb_run h env cwd command n = Exited 0 text \<and> out = strip text)"
  using assms by (auto simp: wsl_run_checked_def bindA_Inr_iff bindE_Inr_iff raise_if_Inr_iff split: command_result.splits)

lemma unlink_existing_Inr:
  "unlink_existing h path = (evs, Inr u) \<Longrightarrow> evs = (if wb_exists h path then [Unlinked path] else [])"
  by (auto simp: unlink_existing_def bindA_Inr_iff split: if_splits)

lemma unlink_each_Inr:
  "unlink_each h paths = (evs, Inr u) \<Longrightarrow> evs = map Unlinked (filter (wb_exists h) paths)"
proof (induction paths arbitrary: evs)
  case (Cons p paths)
  from Cons.prems obtain evs1 evs2 u' where "unlink_existing h p = (evs1, Inr u')" "unlink_each h paths = (evs2, Inr u)" "evs = evs1 @ evs2"
    by (auto simp: bindA_Inr_iff)
  with unlink_existing_Inr Cons.IH show ?case by fastforce
qed simp

definition native :: "wsl_host \<Rightarrow> string \<Rightarrow> bool" where
  \<comment> \<open>an executable ELF file\<close>
  "native h path \<longleftrightarrow> wb_header h path = Inr ELF \<and> wb_access h path \<and> lower (path_suffix path) \<noteq> ''.exe''"

lemma require_native: "require_linux_executable h path name True = Inr u \<Longrightarrow> native h path"
  by (auto simp: require_linux_executable_def native_def bindE_Inr_iff raise_if_Inr_iff split: sum.splits exn.splits)

definition rebuilt :: "wsl_host \<Rightarrow> wsl_event list \<Rightarrow> string \<Rightarrow> string list \<Rightarrow> bool" where
  \<comment> \<open>the file did not exist when the command that builds it started, and is an executable afterwards\<close>
  "rebuilt h evs path command \<longleftrightarrow> (\<exists>pre env cwd post. evs = pre @ [Ran env cwd command] @ post
     \<and> (wb_exists h path \<longrightarrow> Unlinked path \<in> set pre)) \<and> wb_is_file h path \<and> native h path"

lemma rebuilt_append: "rebuilt h evs path command \<Longrightarrow> rebuilt h (before @ evs @ after) path command"
  unfolding rebuilt_def by (elim conjE exE) (intro conjI exI [of _ "before @ _"] exI, auto)

definition gcc_details :: "build_details \<Rightarrow> bool" where
  "gcc_details d \<longleftrightarrow> \<not> not_gcc (bd_compiler_version d) \<and> strip (cc_of (bd_assignments d)) \<noteq> []"

lemma record_eiffel_build_Inr:
  assumes "record_eiffel_build h directory tools = (evs, Inr d)"
  shows "gcc_details d \<and> bd_code_directory d = directory"
  using assms unfolding record_eiffel_build_def Let_def gcc_details_def
  by (auto simp: bindA_Inr_iff raise_if_Inr_iff)

lemma build_eiffel_Inr:
  assumes "build_eiffel h out spec tools = (evs, Inr (es, name, d))"
  shows "es = map (eiffel_engine out spec tools) [False, True] \<and> name = sc_name spec \<and> gcc_details d
     \<and> rebuilt h evs (executable_of_spec out spec) (eiffel_command h tools out spec)"
proof -
  let ?x = "executable_of_spec out spec"
  from assms obtain evs1 evs2 evs3 evs4 u text1 text2 where
    un: "unlink_each h [log_of out (sc_name spec @ ''-eiffel.log''), log_of out (sc_name spec @ ''-c.log''), ?x] = (evs1, Inr u)"
    and c1: "wsl_run_checked h (Some (wb_repo_root h)) (wt_environment tools) (Some (log_of out (sc_name spec @ ''-eiffel.log'')))
       (eiffel_command h tools out spec) 0 = (evs2, Inr text1)"
    and c2: "wsl_run_checked h (Some (code_directory_of out spec)) (wt_environment tools) (Some (log_of out (sc_name spec @ ''-c.log'')))
       [wt_finish_freezing tools] 0 = (evs3, Inr text2)"
    and f: "wb_is_file h ?x" and n: "require_linux_executable h ?x ''Eiffel benchmark'' True = Inr ()"
    and r: "record_eiffel_build h (code_directory_of out spec) tools = (evs4, Inr d)"
    and es: "es = map (eiffel_engine out spec tools) [False, True]" "name = sc_name spec" and evs: "evs = evs1 @ evs2 @ evs3 @ evs4"
    unfolding build_eiffel_def Let_def by (auto simp: bindA_Inr_iff raise_if_Inr_iff)
  have "evs = evs1 @ [Ran (wt_environment tools) (Some (wb_repo_root h)) (eiffel_command h tools out spec)] @ (evs3 @ evs4)"
    using wsl_run_checked_Inr [OF c1] evs by simp
  moreover have "wb_exists h ?x \<longrightarrow> Unlinked ?x \<in> set evs1" using unlink_each_Inr [OF un] by simp
  ultimately have "rebuilt h evs ?x (eiffel_command h tools out spec)"
    unfolding rebuilt_def using f require_native [OF n] by blast
  with es record_eiffel_build_Inr [OF r] show ?thesis by simp
qed

definition c_command :: "wsl_host \<Rightarrow> wsl_tools \<Rightarrow> string \<Rightarrow> string list" where
  "c_command h tools executable = [wt_gcc tools, ''-O2'', wb_repo_root h @ ''/benchmarks/libexpat_c_benchmark.c'', ''-lexpat'', ''-o'', executable]"

lemma build_libexpat_Inr:
  assumes "build_libexpat h out tools = (evs, Inr (es, version, library))"
  shows "es = map (libexpat_engine (out @ ''/libexpat_c_benchmark'') version tools) [''callbacks'', ''tokenizer'']
     \<and> \<not> wrong_expat version \<and> (\<exists>path. library = ''/'' @ join ''/'' path \<and> in_system_library path)
     \<and> rebuilt h evs (out @ ''/libexpat_c_benchmark'') (c_command h tools (out @ ''/libexpat_c_benchmark''))"
proof -
  let ?x = "out @ ''/libexpat_c_benchmark''"
  from assms obtain evs1 evs2 evs3 evs4 u text1 dependencies path where
    un: "unlink_each h [log_of out ''libexpat-c.log'', log_of out ''libexpat-ldd.log'', ?x] = (evs1, Inr u)"
    and c1: "wsl_run_checked h (Some (wb_repo_root h)) (wt_environment tools) (Some (log_of out ''libexpat-c.log'')) (c_command h tools ?x) 0 = (evs2, Inr text1)"
    and f: "wb_is_file h ?x" and n: "require_linux_executable h ?x ''libexpat benchmark'' True = Inr ()"
    and c2: "wsl_run_checked h None (wt_environment tools) (Some (log_of out ''libexpat-ldd.log'')) [wt_ldd tools, ?x] 0 = (evs3, Inr dependencies)"
    and l: "in_system_library path" "library = ''/'' @ join ''/'' path"
    and c3: "wsl_run_checked h None (wt_environment tools) None [?x, ''--version''] 0 = (evs4, Inr version)"
    and v: "\<not> wrong_expat version"
    and es: "es = map (libexpat_engine ?x version tools) [''callbacks'', ''tokenizer'']" and evs: "evs = evs1 @ evs2 @ evs3 @ evs4"
    unfolding build_libexpat_def Let_def c_command_def by (auto simp: bindA_Inr_iff raise_if_Inr_iff split: option.splits)
  have "evs = evs1 @ [Ran (wt_environment tools) (Some (wb_repo_root h)) (c_command h tools ?x)] @ (evs3 @ evs4)"
    using wsl_run_checked_Inr [OF c1] evs by simp
  moreover have "wb_exists h ?x \<longrightarrow> Unlinked ?x \<in> set evs1" using unlink_each_Inr [OF un] by simp
  ultimately have "rebuilt h evs ?x (c_command h tools ?x)"
    unfolding rebuilt_def using f require_native [OF n] by blast
  with es l v show ?thesis by auto
qed

section \<open>Measurement\<close>

definition measured_rows :: "wsl_host \<Rightarrow> int \<Rightarrow> nat list \<Rightarrow> engine \<Rightarrow> wsl_row list" where
  "measured_rows h n rs e = map (\<lambda>i. wsl_measured_row e n i (wb_seconds h (engine_command e n) i)) rs"

lemma measure_repetitions_Inr:
  assumes "measure_repetitions h e n rs = (evs, Inr rows)"
  shows "rows = measured_rows h n rs e \<and> list_all (\<lambda>i. 0 < wb_seconds h (engine_command e n) i) rs
     \<and> evs = map (\<lambda>_. Ran (en_environment e) None (engine_command e n)) rs"
  using assms
proof (induction rs arbitrary: evs rows)
  case (Cons r rs)
  from Cons.prems obtain evs1 evs2 answer more where
    c: "wsl_run_checked h None (en_environment e) None (engine_command e n) r = (evs1, Inr answer)"
    and s: "\<not> wb_seconds h (engine_command e n) r \<le> 0"
    and m: "measure_repetitions h e n rs = (evs2, Inr more)"
    and e: "rows = wsl_measured_row e n r (wb_seconds h (engine_command e n) r) # more" "evs = evs1 @ evs2"
    by (auto simp: bindA_Inr_iff raise_if_Inr_iff Let_def)
  from Cons.IH [OF m] wsl_run_checked_Inr [OF c] s e show ?case by (simp add: measured_rows_def)
qed (simp add: measured_rows_def)

lemma measure_engine_Inr:
  assumes "measure_engine h e n k = (evs, Inr rows)"
  shows "rows = measured_rows h n [1..<Suc (nat k)] e \<and> list_all (\<lambda>i. 0 < wb_seconds h (engine_command e n) i) [1..<Suc (nat k)]
     \<and> evs = replicate (Suc (nat k)) (Ran (en_environment e) None (engine_command e n))"
proof -
  from assms obtain evs1 evs2 answer where
    c: "wsl_run_checked h None (en_environment e) None (engine_command e n) 0 = (evs1, Inr answer)"
    and m: "measure_repetitions h e n [1..<Suc (nat k)] = (evs2, Inr rows)" and evs: "evs = evs1 @ evs2"
    by (auto simp: measure_engine_def bindA_Inr_iff simp del: upt_Suc)
  have "map (\<lambda>_. x) [1..<Suc (nat k)] = replicate (nat k) x" for x :: wsl_event
    by (simp add: map_replicate_const del: upt_Suc)
  with measure_repetitions_Inr [OF m] wsl_run_checked_Inr [OF c] evs show ?thesis by (simp del: upt_Suc)
qed

lemma measure_engines_Inr:
  assumes "measure_engines h n k es = (evs, Inr rows)"
  shows "rows = concat (map (measured_rows h n [1..<Suc (nat k)]) es)
     \<and> evs = concat (map (\<lambda>e. replicate (Suc (nat k)) (Ran (en_environment e) None (engine_command e n))) es)"
  using assms
proof (induction es arbitrary: evs rows)
  case (Cons e es)
  from Cons.prems obtain evs1 evs2 first more where
    m: "measure_engine h e n k = (evs1, Inr first)" "measure_engines h n k es = (evs2, Inr more)"
    and e: "rows = first @ more" "evs = evs1 @ evs2"
    by (auto simp: bindA_Inr_iff)
  from Cons.IH [OF m(2)] measure_engine_Inr [OF m(1)] e show ?case by (simp del: upt_Suc)
qed simp

section \<open>The engines of a run\<close>

definition eiffel_engines :: "string \<Rightarrow> wsl_tools \<Rightarrow> build_spec list \<Rightarrow> engine list" where
  "eiffel_engines out tools specs = concat (map (\<lambda>spec. map (eiffel_engine out spec tools) [False, True]) specs)"

definition c_executable :: "string \<Rightarrow> string" where
  "c_executable out = out @ ''/libexpat_c_benchmark''"

definition benchmark_engines :: "string \<Rightarrow> wsl_tools \<Rightarrow> build_spec list \<Rightarrow> string \<Rightarrow> engine list" where
  "benchmark_engines out tools specs version =
     eiffel_engines out tools specs @ map (libexpat_engine (c_executable out) version tools) [''callbacks'', ''tokenizer'']"

definition measurements :: "int \<Rightarrow> int \<Rightarrow> engine list \<Rightarrow> wsl_event list" where
  \<comment> \<open>the warm-up and the measured runs of every engine\<close>
  "measurements n k es = concat (map (\<lambda>e. replicate (Suc (nat k)) (Ran (en_environment e) None (engine_command e n))) es)"

definition spec_built :: "wsl_host \<Rightarrow> string \<Rightarrow> wsl_tools \<Rightarrow> wsl_event list \<Rightarrow> build_spec \<Rightarrow> build_details \<Rightarrow> bool" where
  "spec_built h out tools evs spec d \<longleftrightarrow> gcc_details d
     \<and> rebuilt h evs (executable_of_spec out spec) (eiffel_command h tools out spec)"

lemma spec_built_append: "spec_built h out tools evs spec d \<Longrightarrow> spec_built h out tools (before @ evs @ after) spec d"
  by (simp add: spec_built_def rebuilt_append)

lemma build_eiffels_Inr:
  assumes "build_eiffels h out tools specs = (evs, Inr built)"
  shows "concat (map fst built) = eiffel_engines out tools specs
     \<and> list_all2 (spec_built h out tools evs) specs (map (\<lambda>b. snd (snd b)) built)"
  using assms
proof (induction specs arbitrary: evs built)
  case (Cons spec specs)
  from Cons.prems obtain evs1 evs2 es name d more where
    b: "build_eiffel h out spec tools = (evs1, Inr (es, name, d))" and m: "build_eiffels h out tools specs = (evs2, Inr more)"
    and e: "built = (es, name, d) # more" "evs = evs1 @ evs2"
    by (auto simp: bindA_Inr_iff)
  note first = build_eiffel_Inr [OF b] and rest = Cons.IH [OF m]
  from first have "spec_built h out tools evs spec d"
    using rebuilt_append [where before = "[]" and after = evs2] by (auto simp: spec_built_def e)
  moreover have "list_all2 (spec_built h out tools evs) specs (map (\<lambda>b. snd (snd b)) more)"
    using conjunct2 [OF rest] by (rule list_all2_mono) (use spec_built_append [where before = evs1 and after = "[]"] e in simp)
  ultimately show ?case using first rest by (simp add: e eiffel_engines_def)
qed (simp add: eiffel_engines_def)

lemma run_benchmarks_Inr:
  assumes "run_benchmarks h a = (evs, Inr rows)"
  obtains tools specs details version pre where
    "build_specs (wa_eiffel_build a) = Inr specs" "\<not> wrong_expat version"
    "list_all2 (spec_built h (wa_output_dir a) tools pre) specs details"
    "rebuilt h pre (c_executable (wa_output_dir a)) (c_command h tools (c_executable (wa_output_dir a)))"
    "evs = pre @ measurements (wa_iterations a) (wa_repetitions a) (benchmark_engines (wa_output_dir a) tools specs version)
       @ map Published wsl_report_names"
    "rows = concat (map (measured_rows h (wa_iterations a) [1..<Suc (nat (wa_repetitions a))])
       (benchmark_engines (wa_output_dir a) tools specs version))"
proof -
  from assms obtain evs' where body: "wsl_body h a = (evs', Inr rows)" and evs: "evs = ReportsCleared # evs'"
    by (cases "or_clear_run (wsl_body h a)") (auto simp: run_benchmarks_def bindA_Inr_iff or_clear_run_Inr)
  from body show thesis
  proof (rule wsl_body_Inr)
    fix tools specs built c_engines version library evs1 evs2 evs3 evs4
    assume s: "build_specs (wa_eiffel_build a) = Inr specs"
      and b: "build_eiffels h (wa_output_dir a) tools specs = (evs2, Inr built)"
      and c: "build_libexpat h (wa_output_dir a) tools = (evs3, Inr (c_engines, version, library))"
      and m: "measure_engines h (wa_iterations a) (wa_repetitions a) (concat (map fst built) @ c_engines) = (evs4, Inr rows)"
      and e: "evs' = evs1 @ evs2 @ evs3 @ evs4 @ map Published wsl_report_names"
    note B = build_eiffels_Inr [OF b] and C = build_libexpat_Inr [OF c] and M = measure_engines_Inr [OF m]
    have es: "concat (map fst built) @ c_engines = benchmark_engines (wa_output_dir a) tools specs version"
      using B C by (simp add: benchmark_engines_def c_executable_def)
    show thesis
    proof (rule that [OF s])
      show "\<not> wrong_expat version" using C by blast
      show "list_all2 (spec_built h (wa_output_dir a) tools ((ReportsCleared # evs1) @ evs2 @ evs3)) specs (map (\<lambda>b. snd (snd b)) built)"
        using conjunct2 [OF B] by (rule list_all2_mono) (rule spec_built_append)
      show "rebuilt h ((ReportsCleared # evs1) @ evs2 @ evs3) (c_executable (wa_output_dir a))
          (c_command h tools (c_executable (wa_output_dir a)))"
        using C rebuilt_append [where before = "(ReportsCleared # evs1) @ evs2" and after = "[]"] by (simp add: c_executable_def)
    qed (use M in \<open>simp_all add: es evs e measurements_def\<close>)
  qed
qed

section \<open>The environment of the commands\<close>

fun in_environment :: "wsl_environment \<Rightarrow> wsl_event \<Rightarrow> bool" where
  "in_environment env (Ran env' _ _) = (env' = env)"
| "in_environment env _ = True"

abbreviation run_in :: "wsl_environment \<Rightarrow> 'a run \<Rightarrow> bool" where
  "run_in env m \<equiv> list_all (in_environment env) (fst m)"

named_theorems runs_in \<open>runs that start every command in one environment\<close>

lemma run_in_pure [runs_in]: "run_in env (pureA m)"
  by (simp add: pureA_def)

lemma run_in_bind [runs_in]: "run_in env m \<Longrightarrow> (\<And>x. run_in env (k x)) \<Longrightarrow> run_in env (bindA m k)"
  by (rule list_all_bindA)

lemma run_in_checked [runs_in]: "run_in env (wsl_run_checked h cwd env lp command n)"
  unfolding wsl_run_checked_def by (intro runs_in) (simp add: emitA_def)

lemma run_in_unlink [runs_in]: "run_in env (unlink_each h paths)"
proof (induction paths)
  case (Cons p paths)
  have "run_in env (unlink_existing h p)" by (simp add: unlink_existing_def runs_in emitA_def)
  with Cons show ?case by (simp add: runs_in)
qed (simp add: runs_in)

lemma run_in_prerequisites [runs_in]: "run_in (clean_environment (wb_environ h)) (check_prerequisites h)"
  unfolding check_prerequisites_def Let_def by (intro runs_in)

lemma run_in_record [runs_in]: "run_in (wt_environment tools) (record_eiffel_build h d tools)"
  unfolding record_eiffel_build_def Let_def by (intro runs_in)

lemma run_in_build_eiffel [runs_in]: "run_in (wt_environment tools) (build_eiffel h out spec tools)"
  unfolding build_eiffel_def Let_def by (intro runs_in)

lemma run_in_build_eiffels [runs_in]: "run_in (wt_environment tools) (build_eiffels h out tools specs)"
  by (induction specs) (auto intro!: runs_in)

lemma run_in_build_libexpat [runs_in]: "run_in (wt_environment tools) (build_libexpat h out tools)"
  unfolding build_libexpat_def Let_def by (intro runs_in)

lemma run_in_repetitions [runs_in]: "run_in (en_environment e) (measure_repetitions h e n rs)"
  by (induction rs) (auto simp: Let_def intro!: runs_in)

lemma run_in_measure_engine [runs_in]: "run_in (en_environment e) (measure_engine h e n k)"
  unfolding measure_engine_def by (intro runs_in)

lemma run_in_measure_engines: "list_all (\<lambda>e. en_environment e = env) es \<Longrightarrow> run_in env (measure_engines h n k es)"
proof (induction es)
  case (Cons e es)
  then show ?case using run_in_measure_engine [of e h n k] by (auto intro!: runs_in)
qed (simp add: runs_in)

lemma replace_each_events: "list_all (in_environment env) (fst (replace_each h names))"
  by (induction names) (auto simp: emitA_def intro!: runs_in)

lemma run_in_or_clear [runs_in]: "run_in env m \<Longrightarrow> run_in env (or_clear_run m)"
  by (auto simp: or_clear_run_def split: prod.splits sum.splits)

lemma run_in_publish [runs_in]: "run_in env (wsl_publish_reports h rows m)"
  unfolding wsl_publish_reports_def by (intro runs_in replace_each_events)

lemma prerequisites_environment: "check_prerequisites h = (evs, Inr tools) \<Longrightarrow> wt_environment tools = clean_environment (wb_environ h)"
  unfolding check_prerequisites_def Let_def by (auto simp: bindA_Inr_iff)

lemma benchmark_engines_environment: "list_all (\<lambda>e. en_environment e = wt_environment tools) (benchmark_engines out tools specs version)"
  by (auto simp: benchmark_engines_def eiffel_engines_def eiffel_engine_def libexpat_engine_def list_all_iff)

lemma run_in_body: "run_in (clean_environment (wb_environ h)) (wsl_body h a)"
proof -
  let ?env = "clean_environment (wb_environ h)"
  have rest: "run_in ?env (bindA (build_eiffels h (wa_output_dir a) tools specs) (\<lambda>built.
     bindA (build_libexpat h (wa_output_dir a) tools) (\<lambda>(c_engines, version, library).
     bindA (measure_engines h (wa_iterations a) (wa_repetitions a) (concat (map fst built) @ c_engines)) (\<lambda>rows.
     bindA (wsl_publish_reports h rows (run_metadata h a tools specs (map snd built) version library)) (\<lambda>_.
     pureA (Inr rows))))))"
    if t: "wt_environment tools = ?env" for tools specs
  proof (rule list_all_bindA)
    show "run_in ?env (build_eiffels h (wa_output_dir a) tools specs)" using run_in_build_eiffels [of tools] t by simp
  next
    fix built assume "snd (build_eiffels h (wa_output_dir a) tools specs) = Inr built"
    then have b: "concat (map fst built) = eiffel_engines (wa_output_dir a) tools specs"
      using build_eiffels_Inr by (metis prod.collapse)
    show "run_in ?env (bindA (build_libexpat h (wa_output_dir a) tools) (\<lambda>(c_engines, version, library).
       bindA (measure_engines h (wa_iterations a) (wa_repetitions a) (concat (map fst built) @ c_engines)) (\<lambda>rows.
       bindA (wsl_publish_reports h rows (run_metadata h a tools specs (map snd built) version library)) (\<lambda>_.
       pureA (Inr rows)))))"
    proof (rule list_all_bindA)
      show "run_in ?env (build_libexpat h (wa_output_dir a) tools)" using run_in_build_libexpat [of tools] t by simp
    next
      fix c assume c: "snd (build_libexpat h (wa_output_dir a) tools) = Inr c"
      obtain es version library where c': "c = (es, version, library)" by (cases c)
      from c c' have "es = map (libexpat_engine (wa_output_dir a @ ''/libexpat_c_benchmark'') version tools) [''callbacks'', ''tokenizer'']"
        using build_libexpat_Inr by (metis prod.collapse)
      then have "concat (map fst built) @ es = benchmark_engines (wa_output_dir a) tools specs version"
        by (simp add: b benchmark_engines_def c_executable_def)
      with benchmark_engines_environment [of tools] t
      have "list_all (\<lambda>e. en_environment e = ?env) (concat (map fst built) @ es)" by simp
      then show "run_in ?env (case c of (c_engines, version, library) \<Rightarrow>
         bindA (measure_engines h (wa_iterations a) (wa_repetitions a) (concat (map fst built) @ c_engines)) (\<lambda>rows.
         bindA (wsl_publish_reports h rows (run_metadata h a tools specs (map snd built) version library)) (\<lambda>_.
         pureA (Inr rows))))"
        by (simp add: c' run_in_measure_engines run_in_bind run_in_publish run_in_pure)
    qed
  qed
  show ?thesis unfolding wsl_body_def
  proof (rule list_all_bindA)
    fix tools assume "snd (check_prerequisites h) = Inr tools"
    then have "wt_environment tools = ?env" using prerequisites_environment by (metis prod.collapse)
    then show "run_in ?env (bindA (pureA (build_specs (wa_eiffel_build a))) (\<lambda>specs. bindA (build_eiffels h (wa_output_dir a) tools specs) (\<lambda>built.
       bindA (build_libexpat h (wa_output_dir a) tools) (\<lambda>(c_engines, version, library).
       bindA (measure_engines h (wa_iterations a) (wa_repetitions a) (concat (map fst built) @ c_engines)) (\<lambda>rows.
       bindA (wsl_publish_reports h rows (run_metadata h a tools specs (map snd built) version library)) (\<lambda>_.
       pureA (Inr rows)))))))"
      by (intro run_in_bind run_in_pure rest)
  qed (rule run_in_prerequisites)
qed

lemma run_in_benchmarks: "run_in (clean_environment (wb_environ h)) (run_benchmarks h a)"
  unfolding run_benchmarks_def by (intro runs_in run_in_body) (simp add: emitA_def)

section \<open>Groups of rows\<close>

lemma remdups_blocks: "distinct ks \<Longrightarrow> remdups (concat (map (replicate (Suc n)) ks)) = ks"
proof (induction ks)
  case (Cons k ks)
  have "remdups (replicate (Suc m) k @ xs) = k # remdups xs" if "k \<notin> set xs" for m xs
    using that by (induction m) auto
  moreover have "k \<notin> set (concat (map (replicate (Suc n)) ks))" using Cons.prems by auto
  ultimately have "remdups (replicate (Suc n) k @ concat (map (replicate (Suc n)) ks)) = k # remdups (concat (map (replicate (Suc n)) ks))"
    by blast
  with Cons show ?case by (simp del: replicate_Suc)
qed simp

lemma fromkeys_blocks: "distinct ks \<Longrightarrow> fromkeys (concat (map (replicate (Suc n)) ks)) = ks"
proof -
  assume "distinct ks"
  then have "remdups (concat (map (replicate (Suc n)) (rev ks))) = rev ks" by (intro remdups_blocks) simp
  then show ?thesis by (simp add: fromkeys_def rev_concat rev_map comp_def del: replicate_Suc)
qed

lemma measured_engine: "r \<in> set (measured_rows h n rs e) \<Longrightarrow> wr_engine r = en_name e"
  by (auto simp: measured_rows_def wsl_measured_row_def)

lemma engine_rows:
  assumes "distinct (map en_name es)" "e \<in> set es"
  shows "filter (\<lambda>r. wr_engine r = en_name e) (concat (map (measured_rows h n rs) es)) = measured_rows h n rs e"
  using assms
proof (induction es)
  case (Cons d es)
  have others: "filter (\<lambda>r. wr_engine r = en_name e) (concat (map (measured_rows h n rs) ds)) = []" if "en_name e \<notin> en_name ` set ds" for ds
    using that measured_engine by (induction ds) (auto simp: filter_empty_conv)
  show ?case
  proof (cases "d = e")
    case True
    with Cons.prems have "filter (\<lambda>r. wr_engine r = en_name e) (measured_rows h n rs d) = measured_rows h n rs e"
      using measured_engine by (auto simp: filter_id_conv)
    moreover have "en_name e \<notin> en_name ` set es" using Cons.prems True by simp
    ultimately show ?thesis using others by simp
  next
    case False
    with Cons.prems have "e \<in> set es" "en_name d \<noteq> en_name e" by auto
    then have "filter (\<lambda>r. wr_engine r = en_name e) (measured_rows h n rs d) = []"
      using measured_engine by (fastforce simp: filter_empty_conv)
    with Cons \<open>e \<in> set es\<close> show ?thesis by simp
  qed
qed simp

lemma engine_groups_measured:
  assumes "distinct (map en_name es)" "rs \<noteq> []"
  shows "engine_groups (concat (map (measured_rows h n rs) es)) = map (measured_rows h n rs) es"
proof -
  from assms(2) obtain m where m: "length rs = Suc m" by (cases rs) auto
  have "map wr_engine (measured_rows h n rs e) = replicate (Suc m) (en_name e)" for e
    using m by (simp add: measured_rows_def wsl_measured_row_def comp_def map_replicate_const del: replicate_Suc)
  then have "map wr_engine (concat (map (measured_rows h n rs) es)) = concat (map (replicate (Suc m)) (map en_name es))"
    by (simp add: map_concat comp_def)
  then have "fromkeys (map wr_engine (concat (map (measured_rows h n rs) es))) = map en_name es"
    using fromkeys_blocks [OF assms(1)] by simp
  then show ?thesis using engine_rows [OF assms(1)] by (simp add: engine_groups_def comp_def)
qed

lemma lower_median_middle:
  assumes "rows \<noteq> []"
  shows "lower_median rows \<in> set rows"
    "length rows \<le> 2 * count_if (\<lambda>x. wr_elapsed_ms x \<le> wr_elapsed_ms (lower_median rows)) rows"
    "length rows < 2 * count_if (\<lambda>x. wr_elapsed_ms (lower_median rows) \<le> wr_elapsed_ms x) rows"
proof -
  define xs where xs: "xs = sort_key wr_elapsed_ms rows"
  define k where k: "k = (length xs - 1) div 2"
  have len: "length xs = length rows" by (simp add: xs)
  with assms have ne: "xs \<noteq> []" by auto
  have kl: "k < length xs" using ne by (cases xs) (simp_all add: k)
  have med: "lower_median rows = xs ! k" by (simp add: lower_median_def Let_def xs k)
  have sorted: "sorted (map wr_elapsed_ms xs)" by (simp add: xs)
  have order: "wr_elapsed_ms (xs ! i) \<le> wr_elapsed_ms (xs ! j)" if "i \<le> j" "j < length xs" for i j
    using sorted_nth_mono [OF sorted, of i j] that by simp
  have counts: "count_if P rows = length (filter P xs)" for P
    by (simp add: count_if_def xs filter_sort)
  have half: "2 * k + 1 \<le> length xs" "length xs \<le> 2 * k + 2" using ne by (cases xs; simp add: k)+
  have "xs ! k \<in> set xs" using kl by simp
  then show "lower_median rows \<in> set rows" by (simp add: med xs)
  have split: "filter P xs = filter P (take m xs) @ filter P (drop m xs)" for P m
    by (metis append_take_drop_id filter_append)
  have "filter (\<lambda>x. wr_elapsed_ms x \<le> wr_elapsed_ms (xs ! k)) (take (Suc k) xs) = take (Suc k) xs"
    using order kl by (auto simp: filter_id_conv in_set_conv_nth)
  then have "Suc k \<le> length (filter (\<lambda>x. wr_elapsed_ms x \<le> wr_elapsed_ms (xs ! k)) xs)"
    using split [of _ "Suc k"] kl by simp
  then show "length rows \<le> 2 * count_if (\<lambda>x. wr_elapsed_ms x \<le> wr_elapsed_ms (lower_median rows)) rows"
    using half(2) unfolding counts med len [symmetric] by linarith
  have "filter (\<lambda>x. wr_elapsed_ms (xs ! k) \<le> wr_elapsed_ms x) (drop k xs) = drop k xs"
    using order by (auto simp: filter_id_conv in_set_conv_nth)
  then have "length xs - k \<le> length (filter (\<lambda>x. wr_elapsed_ms (xs ! k) \<le> wr_elapsed_ms x) xs)"
    using split [of _ k] by simp
  then show "length rows < 2 * count_if (\<lambda>x. wr_elapsed_ms (lower_median rows) \<le> wr_elapsed_ms x) rows"
    using half(1) unfolding counts med len [symmetric] by linarith
qed

end
