(* ===== verification/Wsl_Sample.thy ===== *)
theory Wsl_Sample
  imports Wsl_Proofs
begin

text \<open>
  A machine on which the benchmarks under Linux run through: every tool is there, every command succeeds,
  the makefile selects GCC and the loader finds the distribution's Expat.
\<close>

definition wsl_answer :: "string list \<Rightarrow> string" where
  "wsl_answer command = (case command of
      [program, argument] \<Rightarrow>
        (if argument = ''-version'' then ''ISE EiffelStudio linux-x86-64''
         else if program = ''/usr/bin/ldd'' then ''  libexpat.so.1 => /usr/lib/libexpat.so.1 (0x0)''
         else if program = ''/usr/bin/gcc'' then ''gcc 13''
         else if argument = ''--version'' then ''expat_2.8.1'' else [])
    | _ \<Rightarrow> [])"

definition wsl_sample :: wsl_host where
  "wsl_sample =
     \<lparr>wb_platform = ''linux'', wb_environ = [(''PATH'', ''/usr/bin''), (''LD_PRELOAD'', ''xpact.so'')],
      wb_which = (\<lambda>_ name. Some (''/usr/bin/'' @ name)), wb_header = (\<lambda>_. Inr ELF), wb_access = (\<lambda>_. True),
      wb_run = (\<lambda>_ _ command _. Exited 0 (wsl_answer command)), wb_seconds = (\<lambda>_ n. of_nat n),
      wb_log = (\<lambda>_ _. Inr ()), wb_exists = (\<lambda>_. True), wb_unlink = (\<lambda>_. Inr ()), wb_mkdir = (\<lambda>_. Inr ()),
      wb_is_dir = (\<lambda>_. True), wb_is_file = (\<lambda>_. True), wb_text = (\<lambda>_. Inr ''CC = ccache gcc''),
      wb_resolve = (\<lambda>s. filter (\<lambda>p. p \<noteq> []) (split_on CHR ''/'' s)), wb_repo_root = ''/xpact'',
      wb_generated_utc = ''2025'', wb_os = ''Linux'', wb_float = (\<lambda>_. ''1''), wb_tsv = (\<lambda>_. []), wb_dumps = (\<lambda>_. ''{}''),
      wb_stage = (\<lambda>_ _. Inr ()), wb_replace = (\<lambda>_. Inr ())\<rparr>"

definition wsl_sample_options :: wsl_options where
  "wsl_sample_options = \<lparr>wo_iterations = Some ''10'', wo_repetitions = Some ''2'', wo_output_dir = ''/out'', wo_eiffel_build = [''Workbench'']\<rparr>"

definition wsl_sample_args :: wsl_args where
  "wsl_sample_args = \<lparr>wa_iterations = 10, wa_repetitions = 2, wa_output_dir = ''/out'', wa_eiffel_build = [''Workbench'']\<rparr>"

lemma wsl_sample_parsed: "wsl_parse_args wsl_sample_options = Inr wsl_sample_args"
  by code_simp

lemma measure_repetitions_total:
  assumes "\<And>env cmd n. \<exists>reply. wb_run h env None cmd n = Exited 0 reply" "list_all (\<lambda>i. 0 < wb_seconds h (engine_command e n) i) rs"
  shows "\<exists>evs rows. measure_repetitions h e n rs = (evs, Inr rows)"
  using assms(2)
proof (induction rs)
  case (Cons r rs)
  obtain reply where "wb_run h (en_environment e) None (engine_command e n) r = Exited 0 reply" using assms(1) by blast
  with Cons show ?case by (auto simp: wsl_run_checked_def bindA_def pureA_def emitA_def Let_def raise_if_def)
qed (simp add: pureA_def)

lemma measure_engines_total:
  assumes "\<And>env cmd n. \<exists>reply. wb_run h env None cmd n = Exited 0 reply" "\<And>cmd i. i \<noteq> 0 \<Longrightarrow> 0 < wb_seconds h cmd i"
  shows "\<exists>evs rows. measure_engines h n k es = (evs, Inr rows)"
proof (induction es)
  case (Cons e es)
  obtain reply where "wb_run h (en_environment e) None (engine_command e n) 0 = Exited 0 reply" using assms(1) by blast
  moreover have "list_all (\<lambda>i. 0 < wb_seconds h (engine_command e n) i) [1..<Suc (nat k)]"
    using assms(2) by (auto simp: list_all_iff)
  with measure_repetitions_total [OF assms(1)] obtain evs rows where
    "measure_repetitions h e n [1..<Suc (nat k)] = (evs, Inr rows)" by blast
  ultimately show ?case using Cons
    by (auto simp: measure_engine_def wsl_run_checked_def bindA_def pureA_def emitA_def raise_if_def simp del: upt_Suc)
qed (simp add: pureA_def)

definition wsl_sample_tools :: wsl_tools where
  "wsl_sample_tools = \<lparr>wt_ec = ''/usr/bin/ec'', wt_finish_freezing = ''/usr/bin/finish_freezing'', wt_gcc = ''/usr/bin/gcc'',
     wt_ldd = ''/usr/bin/ldd'', wt_eiffel_version = ''ISE EiffelStudio linux-x86-64'', wt_gcc_version = ''gcc 13'',
     wt_ise_platform = [], wt_ise_eiffel = [], wt_environment = clean_environment (wb_environ wsl_sample)\<rparr>"

lemma sample_prerequisites: "snd (check_prerequisites wsl_sample) = Inr wsl_sample_tools"
  by code_simp

definition sample_specs :: "build_spec list" where
  "sample_specs = (case build_specs [''Workbench''] of Inr specs \<Rightarrow> specs | Inl _ \<Rightarrow> [])"

lemma sample_build_specs: "build_specs (wa_eiffel_build wsl_sample_args) = Inr sample_specs"
  by code_simp

lemma sample_eiffel: "(case snd (build_eiffels wsl_sample ''/out'' wsl_sample_tools sample_specs) of Inl _ \<Rightarrow> False | Inr _ \<Rightarrow> True)"
  by code_simp

lemma sample_libexpat: "(case snd (build_libexpat wsl_sample ''/out'' wsl_sample_tools) of Inl _ \<Rightarrow> False | Inr _ \<Rightarrow> True)"
  by code_simp

lemma sample_publish:
  assumes "wm_gcc_version m = ''gcc 13''"
  shows "wsl_publish_reports wsl_sample rows m = (map Published wsl_report_names, Inr ())"
proof -
  have "first_line ''gcc 13'' = Inr ''gcc 13''" by code_simp
  with assms show ?thesis
    by (simp add: wsl_publish_reports_def render_summary_def wsl_sample_def or_clear_run_def bindA_def pureA_def emitA_def wsl_report_names_def)
qed

lemma wsl_sample_body: "\<exists>evs rows. wsl_body wsl_sample wsl_sample_args = (evs, Inr rows)"
proof -
  obtain evs1 where t: "check_prerequisites wsl_sample = (evs1, Inr wsl_sample_tools)"
    using sample_prerequisites by (metis prod.collapse)
  obtain evs2 built where b: "build_eiffels wsl_sample ''/out'' wsl_sample_tools sample_specs = (evs2, Inr built)"
    using sample_eiffel by (cases "build_eiffels wsl_sample ''/out'' wsl_sample_tools sample_specs") (auto split: sum.splits)
  obtain evs3 c where c: "build_libexpat wsl_sample ''/out'' wsl_sample_tools = (evs3, Inr c)"
    using sample_libexpat by (cases "build_libexpat wsl_sample ''/out'' wsl_sample_tools") (auto split: sum.splits)
  obtain es version library where c': "c = (es, version, library)" by (cases c)
  have "\<exists>evs rows. measure_engines wsl_sample 10 2 (concat (map fst built) @ es) = (evs, Inr rows)"
    by (rule measure_engines_total) (simp_all add: wsl_sample_def)
  then obtain evs4 rows where m: "measure_engines wsl_sample 10 2 (concat (map fst built) @ es) = (evs4, Inr rows)" by blast
  have "wm_gcc_version (run_metadata wsl_sample wsl_sample_args wsl_sample_tools sample_specs (map snd built) version library) = ''gcc 13''"
    by (simp add: run_metadata_def wsl_sample_tools_def)
  note p = sample_publish [OF this]
  have a: "wa_output_dir wsl_sample_args = ''/out''" "wa_iterations wsl_sample_args = 10" "wa_repetitions wsl_sample_args = 2"
    by (simp_all add: wsl_sample_args_def)
  show ?thesis using t b c c' m p sample_build_specs
    by (simp add: wsl_body_def a bindA_def pureA_def)
qed

lemma wsl_sample_run: "\<exists>evs rows. run_benchmarks wsl_sample wsl_sample_args = (evs, Inr rows)"
proof -
  obtain evs rows where "wsl_body wsl_sample wsl_sample_args = (evs, Inr rows)" using wsl_sample_body by blast
  moreover have "wb_mkdir wsl_sample (wa_output_dir wsl_sample_args) = Inr ()" by (simp add: wsl_sample_def)
  ultimately show ?thesis by (simp add: run_benchmarks_def or_clear_run_def bindA_def pureA_def emitA_def)
qed

end
