(* ===== verification/Wsl_Claims.thy ===== *)
theory Wsl_Claims
  imports Wsl_Sample
begin

text \<open>Properties of the benchmarks under Linux.\<close>

section \<open>Reports\<close>

lemma run_benchmarks_cases:
  assumes "wb_mkdir h (wa_output_dir a) = Inr u"
  shows "run_benchmarks h a = (ReportsCleared # fst (or_clear_run (wsl_body h a)), snd (or_clear_run (wsl_body h a)))"
  using assms by (simp add: run_benchmarks_def bindA_def pureA_def emitA_def split: prod.splits)

lemma reports_after_benchmarks:
  "case run_benchmarks h a of
     (evs, Inr rows) \<Rightarrow> wsl_reports evs earlier = wsl_report_names
   | (evs, Inl e) \<Rightarrow> wsl_reports evs earlier = (if wb_mkdir h (wa_output_dir a) = Inr () then [] else earlier)"
proof (cases "wb_mkdir h (wa_output_dir a)")
  case (Inl e)
  then show ?thesis by (simp add: run_benchmarks_def bindA_def pureA_def)
next
  case (Inr u)
  show ?thesis
  proof (cases "or_clear_run (wsl_body h a)")
    case (Pair evs r)
    then show ?thesis unfolding run_benchmarks_cases [OF Inr]
      using Inr by (cases r) (auto simp: or_clear_run_Inr wsl_body_reports or_clear_run_def split: sum.splits prod.splits)
  qed
qed

text \<open>
  The reports are all there or none of them: a run that returned leaves exactly its three reports, a run
  that raised leaves none, not even those of an earlier run, unless it could not create its output directory and
  has touched nothing. The script exits with 0 or 1, with 0 exactly when the reports are there.
\<close>

theorem wsl_all_or_nothing:
  "(case run_benchmarks h a of
     (evs, Inr rows) \<Rightarrow> wsl_reports evs earlier = wsl_report_names
   | (evs, Inl e) \<Rightarrow> wsl_reports evs earlier = (if wb_mkdir h (wa_output_dir a) = Inr () then [] else earlier))
   \<and> (case wsl_main h options of
     (evs, Inr status) \<Rightarrow> wsl_reports evs [] = (if status = 0 then wsl_report_names else []) \<and> status \<in> {0, 1}
   | (evs, Inl e) \<Rightarrow> wsl_reports evs [] = [])"
proof (rule conjI [OF reports_after_benchmarks])
  show "case wsl_main h options of
     (evs, Inr status) \<Rightarrow> wsl_reports evs [] = (if status = 0 then wsl_report_names else []) \<and> status \<in> {0, 1}
   | (evs, Inl e) \<Rightarrow> wsl_reports evs [] = []"
  proof (cases "wsl_parse_args options")
    case (Inl e)
    then show ?thesis by (simp add: wsl_main_def bindA_def pureA_def)
  next
    case (Inr args)
    show ?thesis using reports_after_benchmarks [where h = h and a = args and earlier = "[]"]
      by (cases "run_benchmarks h args"; cases "snd (run_benchmarks h args)") (auto simp: wsl_main_def bindA_def pureA_def Inr)
  qed
qed

text \<open>
  A command that is logged or reported can be pasted into a shell: quoting its words and joining them with
  blanks gives a line that splits into exactly these words, whatever characters they contain.
\<close>

theorem shell_split_rendered: "shell_split (rendered command) = Inr command"
  by (simp add: shell_split_def lex_rendered)

section \<open>What was measured\<close>

fun clean_start :: "wsl_environment \<Rightarrow> wsl_event \<Rightarrow> bool" where
  \<comment> \<open>no override of the compiler or the loader, the C locale, and every other variable as it was\<close>
  "clean_start inherited (Ran env _ _) = (\<forall>name. map_of env name =
     (if name = ''LC_ALL'' then Some ''C'' else if name \<in> set OVERRIDES then None else map_of inherited name))"
| "clean_start inherited _ = True"

lemma clean_environment_variables:
  "map_of (clean_environment inherited) name =
     (if name = ''LC_ALL'' then Some ''C'' else if name \<in> set OVERRIDES then None else map_of inherited name)"
proof -
  have "map_of (filter (\<lambda>(n, v). \<not> py_in n OVERRIDES) inherited) name = (if name \<in> set OVERRIDES then None else map_of inherited name)"
    by (induction inherited) (auto simp: py_in_def)
  then show ?thesis by (simp add: clean_environment_def update_conv')
qed

text \<open>
  C30. Whatever the machine does and however the run ends, every command it starts, from the first version query
  to the last measurement, gets the inherited environment without the variables that could substitute another
  compiler or another libexpat, and with the C locale.
\<close>

theorem wsl_environment_clean:
  "list_all (clean_start (wb_environ h)) (fst (run_benchmarks h a))"
proof -
  have "clean_start (wb_environ h) ev" if "in_environment (clean_environment (wb_environ h)) ev" for ev
    using that by (cases ev) (simp_all add: clean_environment_variables)
  then show ?thesis using run_in_benchmarks [of h a] by (auto simp: list_all_iff)
qed



section \<open>The table\<close>

definition spec_names :: "build_spec \<Rightarrow> string list" where
  "spec_names spec = map (\<lambda>gc. en_name (eiffel_engine [] spec wsl_sample_tools gc)) [False, True]"

lemma eiffel_names: "map en_name (eiffel_engines out tools specs) = concat (map spec_names specs)"
  by (induction specs) (simp_all add: eiffel_engines_def spec_names_def eiffel_engine_def)

definition all_specs :: "build_spec list" where
  "all_specs = map snd build_specifications"

lemma spec_names_separate:
  "list_all (\<lambda>spec. distinct (spec_names spec)) all_specs
   \<and> list_all (\<lambda>s. list_all (\<lambda>t. s = t \<or> list_all (\<lambda>n. \<not> py_in n (spec_names t)) (spec_names s)) all_specs) all_specs
   \<and> list_all (\<lambda>s. list_all (\<lambda>n. \<not> startswith n ''libexpat'') (spec_names s)) all_specs"
  by code_simp

lemma named_specifications: "list_all (\<lambda>(n, spec). sc_name spec = n) build_specifications"
  by code_simp

lemma build_specs_Inr:
  assumes "build_specs names = Inr specs"
  shows "map sc_name specs = fromkeys names" "set specs \<subseteq> set all_specs"
proof -
  have item: "sc_name spec = n \<and> spec \<in> set all_specs" if "py_item (map_of build_specifications) n = Inr spec" for n spec
    using that named_specifications map_of_SomeD [of build_specifications n spec]
    by (force simp: py_item_def all_specs_def list_all_iff split: option.splits)
  from assms have all: "list_all2 (\<lambda>n spec. py_item (map_of build_specifications) n = Inr spec) (fromkeys names) specs"
    by (simp add: build_specs_def mapE_Inr_iff)
  have "map sc_name ss = ns \<and> set ss \<subseteq> set all_specs"
    if "list_all2 (\<lambda>n spec. py_item (map_of build_specifications) n = Inr spec) ns ss" for ns ss
    using that by (induction rule: list_all2_induct) (auto dest: item)
  from this [OF all] show "map sc_name specs = fromkeys names" "set specs \<subseteq> set all_specs" by auto
qed

lemma spec_names_distinct:
  assumes "distinct specs" "set specs \<subseteq> set all_specs"
  shows "distinct (concat (map spec_names specs))"
  using assms
proof (induction specs)
  case (Cons spec specs)
  have "n \<notin> set (spec_names t)" if "n \<in> set (spec_names spec)" "t \<in> set specs" for n t
  proof -
    have "t \<noteq> spec" using Cons.prems(1) that by auto
    moreover have "spec \<in> set all_specs" "t \<in> set all_specs" using Cons.prems(2) that(2) by auto
    ultimately show ?thesis using that(1) spec_names_separate unfolding list_all_iff py_in_def by blast
  qed
  moreover have "distinct (spec_names spec)" using Cons.prems(2) spec_names_separate by (auto simp: list_all_iff)
  ultimately show ?case using Cons by auto
qed simp

lemma benchmark_engines_distinct:
  assumes "distinct specs" "set specs \<subseteq> set all_specs"
  shows "distinct (map en_name (benchmark_engines out tools specs version))"
proof -
  let ?c = "map (\<lambda>mode. ''libexpat C '' @ mode @ '' via WSL2 gcc'') [''callbacks'', ''tokenizer'']"
  have c: "map en_name (map (libexpat_engine (c_executable out) version tools) [''callbacks'', ''tokenizer'']) = ?c"
    by (simp add: libexpat_engine_def)
  have "distinct ?c \<and> list_all (\<lambda>n. startswith n ''libexpat'') ?c" by code_simp
  moreover have "\<not> startswith n ''libexpat''" if "n \<in> set (concat (map spec_names specs))" for n
    using that assms(2) spec_names_separate by (auto simp: list_all_iff)
  ultimately have "distinct (concat (map spec_names specs) @ ?c)"
    using spec_names_distinct [OF assms] by (auto simp only: distinct_append list_all_iff)
  then show ?thesis by (simp only: benchmark_engines_def map_append eiffel_names c)
qed

lemma benchmark_engines_length: "length (benchmark_engines out tools specs version) = 2 * length specs + 2"
  by (induction specs) (simp_all add: benchmark_engines_def eiffel_engines_def)

lemma sample_document_length: "sample_document_bytes = 2611"
  by code_simp

lemma positive_integer_Inr: "positive_integer s = Inr n \<Longrightarrow> 0 < n"
  by (auto simp: positive_integer_def bindE_Inr_iff raise_if_Inr_iff)

lemma iteration_count_Inr: "iteration_count s = Inr n \<Longrightarrow> 0 < n \<and> n \<le> 2147483647"
  using positive_integer_Inr by (auto simp: iteration_count_def bindE_Inr_iff raise_if_Inr_iff)

lemma wsl_parse_args_Inr:
  assumes "wsl_parse_args options = Inr a"
  shows "0 < wa_iterations a \<and> wa_iterations a \<le> 2147483647 \<and> 0 < wa_repetitions a"
  using assms positive_integer_Inr iteration_count_Inr
  by (auto simp: wsl_parse_args_def bindE_Inr_iff option_value_def split: option.splits sum.splits)

definition middle_row :: "wsl_row list \<Rightarrow> bool" where
  \<comment> \<open>the row the summary shows for an engine: one of its rows, with at least half of them not slower and more than
    half of them not faster\<close>
  "middle_row rows = (py_in (lower_median rows) rows
     \<and> length rows \<le> 2 * count_if (\<lambda>x. wr_elapsed_ms x \<le> wr_elapsed_ms (lower_median rows)) rows
     \<and> length rows < 2 * count_if (\<lambda>x. wr_elapsed_ms (lower_median rows) \<le> wr_elapsed_ms x) rows)"

text \<open>
  C31. The table of a returned run is complete: two engines for every selected Eiffel build and two for libexpat,
  under different names, one row for every engine and repetition with the requested count (positive and within 32
  bits) and the 2611 bytes the summary speaks of; grouping by name recovers the rows of each engine, and the row
  the summary shows is a median of them.
\<close>

theorem wsl_rows_complete:
  assumes "wsl_parse_args options = Inr a" "run_benchmarks h a = (evs, Inr rows)"
  shows "\<exists>es. length es = 2 * length (fromkeys (wa_eiffel_build a)) + 2 \<and> distinct (map en_name es)
    \<and> rows = concat (map (measured_rows h (wa_iterations a) [1..<Suc (nat (wa_repetitions a))]) es)
    \<and> engine_groups rows = map (measured_rows h (wa_iterations a) [1..<Suc (nat (wa_repetitions a))]) es
    \<and> list_all middle_row (engine_groups rows)
    \<and> list_all (\<lambda>row. wr_document_bytes row = 2611 \<and> 0 < wr_iterations row \<and> wr_iterations row < 2 ^ 31) rows"
proof -
  let ?m = "measured_rows h (wa_iterations a) [1..<Suc (nat (wa_repetitions a))]"
  note A = wsl_parse_args_Inr [OF assms(1)]
  from assms(2) show ?thesis
  proof (rule run_benchmarks_Inr)
    fix tools specs version
    let ?es = "benchmark_engines (wa_output_dir a) tools specs version"
    assume s: "build_specs (wa_eiffel_build a) = Inr specs" and r: "rows = concat (map ?m ?es)"
    note S = build_specs_Inr [OF s]
    have "distinct (map sc_name specs)" by (simp add: S)
    then have d: "distinct (map en_name ?es)" using benchmark_engines_distinct S(2) by (metis distinct_map)
    have n: "[1..<Suc (nat (wa_repetitions a))] \<noteq> []" using A by (simp add: Suc_le_eq)
    have g: "engine_groups rows = map ?m ?es" unfolding r by (rule engine_groups_measured [OF d n])
    have "middle_row (?m e)" for e
      using lower_median_middle [of "?m e"] n by (simp add: middle_row_def py_in_def measured_rows_def del: upt_Suc)
    then have m: "list_all middle_row (engine_groups rows)" by (simp add: g list_all_iff)
    have l: "length ?es = 2 * length (fromkeys (wa_eiffel_build a)) + 2"
      using S(1) by (metis length_map benchmark_engines_length)
    have "list_all (\<lambda>row. wr_document_bytes row = 2611 \<and> 0 < wr_iterations row \<and> wr_iterations row < 2 ^ 31) (?m e)" for e
      using A by (simp add: measured_rows_def wsl_measured_row_def sample_document_length list_all_iff del: upt_Suc)
    then have "list_all (\<lambda>row. wr_document_bytes row = 2611 \<and> 0 < wr_iterations row \<and> wr_iterations row < 2 ^ 31) rows"
      by (simp add: r list_all_iff)
    with l d r g m show ?thesis by blast
  qed
qed

theorem wsl_rows_complete_witness:
  "\<exists>evs rows es. run_benchmarks wsl_sample wsl_sample_args = (evs, Inr rows) \<and> length es = 4 \<and> distinct (map en_name es)
    \<and> rows = concat (map (measured_rows wsl_sample 10 [1..<3]) es) \<and> list_all middle_row (engine_groups rows)"
proof -
  obtain evs rows where run: "run_benchmarks wsl_sample wsl_sample_args = (evs, Inr rows)" using wsl_sample_run by blast
  have a: "wa_iterations wsl_sample_args = 10" "Suc (nat (wa_repetitions wsl_sample_args)) = 3"
    "2 * length (fromkeys (wa_eiffel_build wsl_sample_args)) + 2 = 4"
    by (simp_all add: wsl_sample_args_def fromkeys_def)
  from wsl_rows_complete [OF wsl_sample_parsed run] run show ?thesis unfolding a by blast
qed

section \<open>A compiler cache without a compiler\<close>

text \<open>
  A makefile that names a compiler cache alone makes the run fail with an error that main does not report.
\<close>

lemma bare_cache_escapes: "bindE (shell_split ''ccache'') selected_compiler = Inl IndexError \<and> \<not> wsl_caught IndexError"
  by code_simp

end
