(* ===== verification/Report_Tables.thy ===== *)
theory Report_Tables
  imports Py_Number "HOL-Library.Multiset"
begin

text \<open>
  What the scripts that summarise tables share: dictionaries built from rows, counters, and numbers with
  thousands separators.
\<close>

section \<open>Rows by key\<close>

definition keyed :: "('a \<Rightarrow> 'k) \<Rightarrow> 'a list \<Rightarrow> ('k \<times> 'a) list" where
  \<comment> \<open>\<open>{key(row): row for row in rows}\<close>: a repeated key keeps its place and takes the last row\<close>
  "keyed key rows = fold (\<lambda>r. AList.update (key r) r) rows []"

lemma keyed_snoc: "keyed key (rows @ [r]) = AList.update (key r) r (keyed key rows)"
  by (simp add: keyed_def)

lemma fromkeys_snoc: "fromkeys (xs @ [x]) = (if x \<in> set xs then fromkeys xs else fromkeys xs @ [x])"
  by (simp add: fromkeys_def)

lemma keyed_keys: "map fst (keyed key rows) = fromkeys (map key rows)"
proof (induction rows rule: rev_induct)
  case (snoc r rows)
  then have "set (map fst (keyed key rows)) = set (map key rows)" by simp
  then have "key r \<in> fst ` set (keyed key rows) \<longleftrightarrow> key r \<in> set (map key rows)" by simp
  with snoc show ?case by (simp add: keyed_snoc update_keys fromkeys_snoc)
qed (simp add: keyed_def)

lemma keyed_distinct: "distinct (map fst (keyed key rows))"
  by (simp add: keyed_keys)

lemma update_new: "k \<notin> fst ` set al \<Longrightarrow> AList.update k v al = al @ [(k, v)]"
  by (induction al) auto

lemma keyed_id: "distinct (map key rows) \<Longrightarrow> keyed key rows = map (\<lambda>r. (key r, r)) rows"
proof (induction rows rule: rev_induct)
  case (snoc r rows)
  then have "key r \<notin> fst ` set (map (\<lambda>r. (key r, r)) rows)" by force
  with snoc show ?case by (simp add: keyed_snoc update_new)
qed (simp add: keyed_def)

section \<open>Counters\<close>

definition most_common :: "'a list \<Rightarrow> ('a \<times> nat) list" where
  \<comment> \<open>\<open>Counter(xs).most_common()\<close>\<close>
  "most_common xs = sort_key (\<lambda>p. - int (snd p)) (map (\<lambda>x. (x, count_if (\<lambda>y. y = x) xs)) (fromkeys xs))"

lemma sum_list_counts:
  assumes "distinct ks" "set xs \<subseteq> set ks"
  shows "sum_list (map (\<lambda>k. count_if (\<lambda>y. y = k) xs) ks) = length xs"
  using assms(2)
proof (induction xs)
  case (Cons x xs)
  have "sum_list (map (\<lambda>k. if x = k then Suc (f k) else f k) ks) = Suc (sum_list (map f ks))"
    if x: "x \<in> set ks" for f :: "'a \<Rightarrow> nat"
  proof -
    from x obtain before after where ks: "ks = before @ x # after" by (meson split_list)
    with assms(1) have "x \<notin> set before" "x \<notin> set after" by simp_all
    then have "map (\<lambda>k. if x = k then Suc (f k) else f k) before = map f before"
      "map (\<lambda>k. if x = k then Suc (f k) else f k) after = map f after" by auto
    then show ?thesis by (simp add: ks del: map_eq_conv)
  qed
  with Cons show ?case by simp
qed simp

lemma most_common_total: "sum_list (map snd (most_common xs)) = length xs"
proof -
  let ?counts = "map (\<lambda>x. (x, count_if (\<lambda>y. y = x) xs)) (fromkeys xs)"
  have "sum_list (map snd (most_common xs)) = sum_mset (image_mset snd (mset (most_common xs)))"
    by (simp add: sum_mset_sum_list flip: mset_map)
  also have "\<dots> = sum_list (map snd ?counts)"
    by (simp add: most_common_def sum_mset_sum_list flip: mset_map)
  also have "\<dots> = length xs" by (simp add: comp_def sum_list_counts)
  finally show ?thesis .
qed

section \<open>Texts\<close>

definition or_text :: "string \<Rightarrow> string \<Rightarrow> string" where
  \<comment> \<open>\<open>s or default\<close>\<close>
  "or_text s d = (if s \<noteq> [] then s else d)"

definition upper :: "string \<Rightarrow> string" where
  \<comment> \<open>\<open>s.upper()\<close> for ASCII letters\<close>
  "upper s = map (\<lambda>c. if CHR ''a'' \<le> c \<and> c \<le> CHR ''z'' then char_of (of_char c - 32 :: nat) else c) s"

definition three_digits :: "nat \<Rightarrow> string" where
  "three_digits n = [char_of (48 + n div 100 mod 10), char_of (48 + n div 10 mod 10), char_of (48 + n mod 10)]"

fun commas :: "nat \<Rightarrow> string" where
  \<comment> \<open>the format \<open>:,\<close>\<close>
  "commas n = (if n < 1000 then digits_of n else commas (n div 1000) @ '','' @ three_digits (n mod 1000))"

declare commas.simps [simp del]

end
