(* ===== verification/Expat_Compare.thy ===== *)
theory Expat_Compare
  imports Regression Report_Tables
begin

text \<open>
  The comparison of two runs of the DLL tests, \<open>student/results/expat-2.8.1/compare.py\<close>: one on Expat's
  own library, the reference, one on xpact. A row of a run has every column the script reads; reading and
  writing the TSV files is the \<open>csv\<close> library's. The marks of the summary are their UTF-8 bytes.
\<close>

section \<open>Rows\<close>

record dll_row =
  dl_id :: string
  dl_group :: string
  dl_input :: string
  dl_callbacks :: string
  dl_chunks :: string
  dl_input_bytes :: string
  dl_calls :: string
  dl_verdict :: string
  dl_error_code :: string
  dl_line :: string
  dl_column :: string
  dl_byte_index :: string
  dl_failed_call :: string
  dl_events :: string

definition XC_FINDINGS :: "(string \<times> string \<times> string) list" where
  \<comment> \<open>\<open>FINDINGS\<close>: name, issue, text\<close>
  "XC_FINDINGS =
     [(''utf8-position'', ''#122'', ''malformed UTF-8: error reported at 1:0, not at the bad byte''),
      (''utf8-no-events'', ''#123'', ''malformed UTF-8: no events before the error''),
      (''junk-code'', ''#124'', ''`<root/>junk`: error 4 (invalid token), not 9 (junk after document element); position moves with callbacks and chunks''),
      (''default-mismatch'', ''#125'', ''default handler receives the mismatched end tag before the error''),
      (''default-cr'', ''#126'', ''default handler receives normalized line ends, not the raw CR'')]"

definition keyed_rows :: "dll_row list \<Rightarrow> (string \<times> dll_row) list" where
  "keyed_rows rows = keyed dl_id rows"

section \<open>Input bytes\<close>

definition lower_hex :: "char \<Rightarrow> bool" where
  "lower_hex c = py_in c ''0123456789abcdef''"

definition escape_at :: "string \<Rightarrow> bool" where
  \<comment> \<open>\<open>\\x[0-9a-f]{2}\<close> matches here\<close>
  "escape_at s = (length s \<ge> 4 \<and> take 2 s = [CHR 0x5C, CHR ''x''] \<and> list_all lower_hex (take 2 (drop 2 s)))"

fun escape_pieces :: "string \<Rightarrow> string \<Rightarrow> string list" where
  \<comment> \<open>\<open>re.split\<close> with the escapes kept; the piece in progress is reversed\<close>
  "escape_pieces w [] = [rev w]"
| "escape_pieces w (c # s) =
     (if escape_at (c # s) then rev w # take 4 (c # s) # escape_pieces [] (drop 3 s)
      else escape_pieces (c # w) s)"

definition hex_number :: "char \<Rightarrow> nat option" where
  "hex_number c = (let n = of_char (lower_char c) :: nat in
     if 48 \<le> n \<and> n \<le> 57 then Some (n - 48) else if 97 \<le> n \<and> n \<le> 102 then Some (n - 87) else None)"

definition int_of_two :: "string \<Rightarrow> int py" where
  \<comment> \<open>\<open>int(s, 16)\<close> for a text of two characters\<close>
  "int_of_two s = (case split_sign (strip s) of (neg, t) \<Rightarrow>
     if t = [] \<or> list_ex (\<lambda>c. hex_number c = None) t
     then Inl (ValueError (''invalid literal for int() with base 16: '' @ py_repr s))
     else (let n = foldl (\<lambda>n c. 16 * n + int (the (hex_number c))) 0 t in Inr (if neg then - n else n)))"

definition unescape_piece :: "string \<Rightarrow> string py" where
  "unescape_piece piece =
     (if startswith piece [CHR 0x5C, CHR ''x''] \<and> length piece = 4
      then bindE (int_of_two (drop 2 piece)) (\<lambda>n.
        bindE (raise_if (n < 0 \<or> 255 < n) (ValueError ''byte must be in range(0, 256)'')) (\<lambda>_. Inr [char_of (nat n)]))
      else bindE (raise_if (list_ex (\<lambda>c. 127 < (of_char c :: nat)) piece) (ValueError ''ordinal not in range(128)'')) (\<lambda>_. Inr piece))"

definition unescape :: "string \<Rightarrow> string py" where
  "unescape s = bindE (mapE unescape_piece (escape_pieces [] s)) (\<lambda>pieces. Inr (concat pieces))"

section \<open>Events\<close>

definition BAR :: string where
  "BAR = '' | ''"

fun split_bars :: "string \<Rightarrow> string \<Rightarrow> string list" where
  \<comment> \<open>\<open>s.split(" | ")\<close>; the piece in progress is reversed\<close>
  "split_bars w [] = [rev w]"
| "split_bars w (c # s) = (if startswith (c # s) BAR then rev w # split_bars [] (drop 2 s) else split_bars (c # w) s)"

definition event_parts :: "string \<Rightarrow> string \<times> string" where
  \<comment> \<open>\<open>piece.partition(":")\<close> without the colon\<close>
  "event_parts piece = (takeWhile (\<lambda>c. c \<noteq> CHR '':'') piece, drop 1 (dropWhile (\<lambda>c. c \<noteq> CHR '':'') piece))"

fun join_event :: "string \<times> string \<Rightarrow> (string \<times> string) list \<Rightarrow> (string \<times> string) list" where
  \<comment> \<open>the events so far, the last one first\<close>
  "join_event (kind, val) [] = [(kind, val)]"
| "join_event (kind, val) ((last_kind, last_val) # out) =
     (if py_in kind [''text'', ''default''] \<and> last_kind = kind \<and> \<not> startswith val ''<'' \<and> \<not> endswith last_val ''>''
      then (kind, last_val @ val) # out else (kind, val) # (last_kind, last_val) # out)"

definition joined_events :: "string \<Rightarrow> (string \<times> string) list" where
  "joined_events events = rev (fold (\<lambda>piece. join_event (event_parts piece)) (if events \<noteq> [] then split_bars [] events else []) [])"

definition MIDDLE_DOT :: string where
  "MIDDLE_DOT = [CHR 0xC2, CHR 0xB7]"

definition events_cell :: "string \<Rightarrow> string" where
  \<comment> \<open>\<open>cell\<close>\<close>
  "events_cell events = (let s = join ('' '' @ MIDDLE_DOT @ '' '') (split_bars [] events) in if s \<noteq> [] then s else ''-'')"

definition xc_position :: "dll_row \<Rightarrow> string" where
  "xc_position r = dl_line r @ '':'' @ dl_column r @ '' (byte '' @ dl_byte_index r @ '')''"

section \<open>What differs\<close>

definition classify_pair :: "dll_row \<Rightarrow> dll_row \<Rightarrow> string list" where
  \<comment> \<open>\<open>classify\<close>\<close>
  "classify_pair e x =
     (if dl_verdict e \<noteq> dl_verdict x then [''verdict''] else [])
     @ (if dl_error_code e \<noteq> dl_error_code x then [''error-code''] else [])
     @ (if dl_verdict e = ''REJECT'' \<and> xc_position e \<noteq> xc_position x then [''position''] else [])
     @ (if dl_events e \<noteq> dl_events x
        then [if joined_events (dl_events e) \<noteq> joined_events (dl_events x) then ''events'' else ''split-only''] else [])
     @ (if dl_failed_call e \<noteq> dl_failed_call x then [''failed-call''] else [])"

definition finding_names :: "dll_row \<Rightarrow> string list \<Rightarrow> string list" where
  \<comment> \<open>\<open>finding\<close>\<close>
  "finding_names e kinds =
     (if dl_group e = ''utf8'' \<and> py_in ''position'' kinds then [''utf8-position''] else [])
     @ (if dl_group e = ''utf8'' \<and> py_in ''events'' kinds then [''utf8-no-events''] else [])
     @ (if dl_input e = ''c02-trailing-junk'' \<and> (py_in ''error-code'' kinds \<or> py_in ''position'' kinds) then [''junk-code''] else [])
     @ (if dl_input e = ''c02-mismatched'' \<and> py_in ''events'' kinds then [''default-mismatch''] else [])
     @ (if dl_group e = ''cr'' \<and> py_in ''events'' kinds then [''default-cr''] else [])"

definition issue_of :: "string \<Rightarrow> string" where
  "issue_of name = (case map_of XC_FINDINGS name of None \<Rightarrow> [] | Some (issue, _) \<Rightarrow> issue)"

record xc_row =
  xc_id :: string
  xc_group :: string
  xc_input :: string
  xc_callbacks :: string
  xc_chunks :: string
  xc_input_bytes :: string
  xc_calls :: string
  xc_expat_verdict :: string
  xc_xpact_verdict :: string
  xc_expat_code :: string
  xc_xpact_code :: string
  xc_expat_position :: string
  xc_xpact_position :: string
  xc_expat_failed_call :: string
  xc_xpact_failed_call :: string
  xc_expat_events :: string
  xc_xpact_events :: string
  xc_differences :: string
  xc_findings :: string

definition compared_row :: "string \<Rightarrow> dll_row \<Rightarrow> dll_row \<Rightarrow> xc_row" where
  "compared_row case_id e x = (let kinds = classify_pair e x in
     \<lparr>xc_id = case_id, xc_group = dl_group e, xc_input = dl_input e, xc_callbacks = dl_callbacks e, xc_chunks = dl_chunks e,
      xc_input_bytes = dl_input_bytes e, xc_calls = dl_calls e, xc_expat_verdict = dl_verdict e, xc_xpact_verdict = dl_verdict x,
      xc_expat_code = dl_error_code e, xc_xpact_code = dl_error_code x,
      xc_expat_position = xc_position e, xc_xpact_position = xc_position x,
      xc_expat_failed_call = dl_failed_call e, xc_xpact_failed_call = dl_failed_call x,
      xc_expat_events = dl_events e, xc_xpact_events = dl_events x,
      xc_differences = or_text (join '','' kinds) ''none'',
      xc_findings = or_text (join '','' (map issue_of (finding_names e kinds))) ''-''\<rparr>)"

definition compare_runs :: "(string \<times> dll_row) list \<Rightarrow> (string \<times> dll_row) list \<Rightarrow> xc_row list py" where
  \<comment> \<open>\<open>compare\<close>\<close>
  "compare_runs expat xpact =
     mapE (\<lambda>(case_id, e). bindE (py_item (map_of xpact) case_id) (\<lambda>x. Inr (compared_row case_id e x))) expat"

section \<open>Chunking\<close>

definition chunk_key :: "dll_row \<Rightarrow> string \<times> string" where
  "chunk_key r = (dl_input r, dl_callbacks r)"

definition chunk_answer :: "dll_row \<Rightarrow> string \<times> string \<times> string" where
  "chunk_answer r = (dl_verdict r, dl_error_code r, if dl_verdict r = ''REJECT'' then xc_position r else [])"

definition moving_keys :: "dll_row list \<Rightarrow> (string \<times> string) list" where
  "moving_keys results = filter (\<lambda>k. 1 < length (remdups (map chunk_answer (filter (\<lambda>r. chunk_key r = k) results))))
     (fromkeys (map chunk_key results))"

definition stable_under_chunking :: "dll_row list \<Rightarrow> nat \<times> nat \<times> string list" where
  \<comment> \<open>the values of the dictionary\<close>
  "stable_under_chunking results =
     (let moving = sort (remdups (map (\<lambda>k. fst k @ ''/'' @ snd k) (moving_keys results))) in
      (length (fromkeys (map chunk_key results)), length moving, moving))"

section \<open>Fixtures\<close>

record fixture_item =
  fx_file :: string
  fx_bytes :: nat
  fx_input_bytes :: string
  fx_callbacks :: string
  fx_expat :: string
  fx_xpact :: string
  fx_findings :: string

datatype xc_event =
    FixtureWritten string string string \<comment> \<open>folder, file, content\<close>
  | TableOpened string \<comment> \<open>an emptied table\<close>
  | FixtureTable string "fixture_item list"
  | CasesTable "xc_row list"
  | SummaryText "string list"

type_synonym 'a xc_run = "(xc_event, 'a) act"

record compare_host =
  xh_expat :: "dll_row list py"
  xh_xpact :: "dll_row list py"
  xh_labels :: "string \<times> string"
  xh_mkdir :: "string \<Rightarrow> unit py"
  xh_write_bytes :: "string \<Rightarrow> string \<Rightarrow> unit py"
  xh_open :: "string \<Rightarrow> unit py" \<comment> \<open>a table for writing\<close>
  xh_write_summary :: "unit py"

definition cases_of_input :: "xc_row list \<Rightarrow> string \<Rightarrow> xc_row list" where
  "cases_of_input rows name = filter (\<lambda>r. xc_input r = name) rows"

definition issues_of :: "xc_row \<Rightarrow> string list" where
  "issues_of r = filter (\<lambda>f. f \<noteq> ''-'') (split_on CHR '','' (xc_findings r))"

definition input_hits :: "xc_row list \<Rightarrow> string list" where
  "input_hits cases = sort (remdups (concat (map issues_of cases)))"

definition fixture_folder :: "xc_row list \<Rightarrow> string" where
  "fixture_folder cases = (if xc_group (hd cases) = ''utf8'' then ''C10-utf8'' else ''C03-chunks'')"

definition whole_case :: "xc_row list \<Rightarrow> string \<Rightarrow> xc_row option" where
  \<comment> \<open>the dictionary \<open>whole\<close>: the last case of a callback set\<close>
  "whole_case cases = map_of (rev (map (\<lambda>r. (xc_callbacks r, r)) (filter (\<lambda>r. xc_chunks r = ''whole'') cases)))"

definition sample_case :: "xc_row list \<Rightarrow> xc_row py" where
  "sample_case cases =
     (if list_ex (\<lambda>r. xc_callbacks r = ''default'' \<and> xc_findings r \<noteq> ''-'') cases
      then (case whole_case cases ''default'' of None \<Rightarrow> Inl TypeError | Some r \<Rightarrow> Inr r)
      else py_item (whole_case cases) ''none'')"

definition fixture_of :: "string \<Rightarrow> xc_row list \<Rightarrow> string \<Rightarrow> xc_row \<Rightarrow> fixture_item" where
  "fixture_of name cases content sample =
     \<lparr>fx_file = name @ ''.xml'', fx_bytes = length content, fx_input_bytes = xc_input_bytes (hd cases),
      fx_callbacks = xc_callbacks sample,
      fx_expat = xc_expat_verdict sample @ '' '' @ xc_expat_code sample @ '' at '' @ xc_expat_position sample,
      fx_xpact = xc_xpact_verdict sample @ '' '' @ xc_xpact_code sample @ '' at '' @ xc_xpact_position sample,
      fx_findings = or_text (join '', '' (input_hits cases)) ''-''\<rparr>"

definition write_fixture :: "compare_host \<Rightarrow> string \<Rightarrow> xc_row list \<Rightarrow> (string \<times> fixture_item) list xc_run" where
  \<comment> \<open>one round of the loop: what it appends to \<open>written\<close>, with the folder\<close>
  "write_fixture h name cases = (let folder = fixture_folder cases in
     if input_hits cases = [] \<and> folder \<noteq> ''C10-utf8'' then pureA (Inr [])
     else bindA (pureA (xh_mkdir h folder)) (\<lambda>_.
       bindA (pureA (unescape (xc_input_bytes (hd cases)))) (\<lambda>content.
       bindA (pureA (xh_write_bytes h folder (name @ ''.xml''))) (\<lambda>_.
       bindA (emitA (FixtureWritten folder (name @ ''.xml'') content)) (\<lambda>_.
       bindA (pureA (sample_case cases)) (\<lambda>sample.
       pureA (Inr [(folder, fixture_of name cases content sample)])))))))"

fun write_inputs :: "compare_host \<Rightarrow> xc_row list \<Rightarrow> string list \<Rightarrow> (string \<times> fixture_item) list xc_run" where
  "write_inputs h rows [] = pureA (Inr [])"
| "write_inputs h rows (name # names) =
     bindA (write_fixture h name (cases_of_input rows name)) (\<lambda>now.
     bindA (write_inputs h rows names) (\<lambda>later. pureA (Inr (now @ later))))"

definition FOLDERS :: "string list" where
  "FOLDERS = [''C03-chunks'', ''C10-utf8'']"

definition items_of :: "(string \<times> fixture_item) list \<Rightarrow> string \<Rightarrow> fixture_item list" where
  "items_of written folder = map snd (filter (\<lambda>w. fst w = folder) written)"

fun write_tables :: "compare_host \<Rightarrow> (string \<times> fixture_item) list \<Rightarrow> string list \<Rightarrow> unit xc_run" where
  \<comment> \<open>the field names are those of \<open>items[0]\<close>\<close>
  "write_tables h written [] = pureA (Inr ())"
| "write_tables h written (folder # folders) =
     bindA (pureA (xh_open h folder)) (\<lambda>_.
     bindA (emitA (TableOpened folder)) (\<lambda>_.
     bindA (pureA (raise_if (items_of written folder = []) IndexError)) (\<lambda>_.
     bindA (emitA (FixtureTable folder (sort_key fx_file (items_of written folder)))) (\<lambda>_.
     write_tables h written folders))))"

definition write_fixtures :: "compare_host \<Rightarrow> xc_row list \<Rightarrow> (string \<times> fixture_item) list xc_run" where
  "write_fixtures h rows =
     bindA (write_inputs h rows (fromkeys (map xc_input rows))) (\<lambda>written.
     bindA (write_tables h written FOLDERS) (\<lambda>_. pureA (Inr written)))"

section \<open>The summary\<close>

definition CHECK_MARK :: string where
  "CHECK_MARK = [CHR 0xE2, CHR 0x9C, CHR 0x85]"

definition INFORMATION :: string where
  "INFORMATION = [CHR 0xE2, CHR 0x84, CHR 0xB9, CHR 0xEF, CHR 0xB8, CHR 0x8F]"

definition kinds_of :: "xc_row \<Rightarrow> string list" where
  "kinds_of r = split_on CHR '','' (xc_differences r)"

definition kind_count :: "xc_row list \<Rightarrow> string \<Rightarrow> nat" where
  "kind_count rows k = length (filter (\<lambda>x. x = k) (concat (map kinds_of rows)))"

definition group_count :: "xc_row list \<Rightarrow> string \<Rightarrow> string \<Rightarrow> nat" where
  "group_count rows g k = kind_count (filter (\<lambda>r. xc_group r = g) rows) k"

definition issue_count :: "xc_row list \<Rightarrow> string \<Rightarrow> nat" where
  "issue_count rows issue = length (filter (\<lambda>x. x = issue) (concat (map issues_of rows)))"

definition KIND_NAMES :: "string list" where
  "KIND_NAMES = [''verdict'', ''error-code'', ''position'', ''events'', ''split-only'', ''failed-call'', ''none'']"

definition property_lines :: "xc_row list \<Rightarrow> string list" where
  "property_lines rows = (let n = (\<lambda>k. commas (kind_count rows k)) in
     [if kind_count rows ''verdict'' = 0
        then ''| verdict (accept / reject) | '' @ n ''verdict'' @ '' | '' @ CHECK_MARK @ '' the same everywhere |''
        else ''| verdict | '' @ n ''verdict'' @ '' | '' @ CROSS_MARK @ '' |'',
      ''| error code | '' @ n ''error-code'' @ '' | '' @ CROSS_MARK @ '' finding '' @ issue_of ''junk-code'' @ '' |'',
      ''| error position (line, column, byte) | '' @ n ''position'' @ '' | '' @ CROSS_MARK @ '' findings '' @ issue_of ''utf8-position'' @ '', ''
        @ issue_of ''junk-code'' @ '' |'',
      ''| events, after joining text pieces | '' @ n ''events'' @ '' | '' @ CROSS_MARK @ '' findings '' @ issue_of ''utf8-no-events'' @ '', ''
        @ issue_of ''default-mismatch'' @ '', '' @ issue_of ''default-cr'' @ '' |'',
      ''| events, only text divided differently | '' @ n ''split-only'' @ '' | '' @ CHECK_MARK
        @ '' allowed: Expat does not promise how text is divided |'',
      ''| the `XML_Parse` call that reports the error | '' @ n ''failed-call'' @ '' | '' @ INFORMATION
        @ '' information: Expat only promises an error by the final call |'',
      ''| nothing | '' @ n ''none'' @ '' | '' @ CHECK_MARK @ '' |''])"

definition group_table :: "xc_row list \<Rightarrow> string list" where
  "group_table rows =
     [''| Group | '' @ join BAR KIND_NAMES @ '' |'', concat (replicate (length KIND_NAMES + 1) ''|---'') @ ''|'']
     @ map (\<lambda>g. ''| '' @ g @ BAR @ join BAR (map (\<lambda>k. commas (group_count rows g k)) KIND_NAMES) @ '' |'')
         (sort (remdups (map xc_group rows)))"

definition chunk_lines :: "dll_row list \<Rightarrow> dll_row list \<Rightarrow> string list" where
  "chunk_lines expat xpact = (case (stable_under_chunking expat, stable_under_chunking xpact) of
     ((e_pairs, e_moving, _), (x_pairs, x_moving, x_list)) \<Rightarrow>
       [''| Parser | Input/callback pairs | Pairs whose verdict, code or position depends on the chunking |'', ''|---|---|---|'',
        ''| Expat 2.8.1 | '' @ show_int (int e_pairs) @ BAR @ show_int (int e_moving) @ '' |'',
        ''| xpact | '' @ show_int (int x_pairs) @ BAR @ show_int (int x_moving)
          @ (if x_list \<noteq> [] then '': '' @ join '', '' x_list else []) @ '' |''])"

definition finding_lines :: "xc_row list \<Rightarrow> string list" where
  "finding_lines rows = [''| Issue | What | Cases |'', ''|---|---|---|'']
     @ map (\<lambda>(_, issue, what). ''| '' @ issue @ BAR @ what @ BAR @ commas (issue_count rows issue) @ '' |'') XC_FINDINGS"

definition example_line :: "xc_row \<Rightarrow> string" where
  "example_line r = ''| `'' @ xc_input_bytes r @ ''` | '' @ xc_callbacks r @ BAR
     @ xc_expat_verdict r @ '' '' @ xc_expat_code r @ '' at '' @ xc_expat_position r @ ''; events `'' @ events_cell (xc_expat_events r) @ ''` | ''
     @ xc_xpact_verdict r @ '' '' @ xc_xpact_code r @ '' at '' @ xc_xpact_position r @ ''; events `'' @ events_cell (xc_xpact_events r) @ ''` | ''
     @ xc_differences r @ '' |''"

fun example_lines :: "(string \<times> string) list \<Rightarrow> xc_row list \<Rightarrow> string list" where
  \<comment> \<open>the first whole document with a difference, for every input and difference\<close>
  "example_lines shown [] = []"
| "example_lines shown (r # rows) =
     (if xc_chunks r = ''whole'' \<and> \<not> py_in (xc_differences r) [''none'', ''split-only''] \<and> \<not> py_in (xc_input r, xc_differences r) shown
      then example_line r # example_lines ((xc_input r, xc_differences r) # shown) rows
      else example_lines shown rows)"

definition xc_summary_lines :: "xc_row list \<Rightarrow> dll_row list \<Rightarrow> dll_row list \<Rightarrow> string \<times> string \<Rightarrow> string list" where
  "xc_summary_lines rows expat xpact labels =
     [''# xpact vs Expat 2.8.1 through the C API'', [], ''Generated by [`compare.py`](compare.py); per case: [`cases.tsv`](cases.tsv).'', [],
      ''Expat: `'' @ fst labels @ ''` '' @ MIDDLE_DOT @ '' xpact: `'' @ snd labels @ ''` '' @ MIDDLE_DOT @ '' '' @ commas (length rows) @ '' cases each.'',
      [], ''## 1. What differs'', [], ''| Property | Cases that differ | Judged |'', ''|---|---|---|'']
     @ property_lines rows @ [[], ''By group:'', []] @ group_table rows
     @ [[], ''## 2. Does chunking change the answer? (C03)'', [],
        ''Same input and callback set; whole, split at every byte, byte by byte.'', []]
     @ chunk_lines expat xpact @ [[], ''## 3. Findings'', []] @ finding_lines rows
     @ [[], ''## 4. One example per input with a difference (whole document)'', [],
        ''| Input | Callbacks | Expat | xpact | Differs |'', ''|---|---|---|---|---|'']
     @ example_lines [] rows"

section \<open>Main\<close>

definition compare_main :: "compare_host \<Rightarrow> int xc_run" where
  "compare_main h =
     bindA (pureA (xh_expat h)) (\<lambda>expat_rows. bindA (pureA (xh_xpact h)) (\<lambda>xpact_rows.
     let expat = keyed_rows expat_rows; xpact = keyed_rows xpact_rows in
     bindA (pureA (raise_if (set (map fst expat) \<noteq> set (map fst xpact)) SystemExit)) (\<lambda>_.
     bindA (pureA (compare_runs expat xpact)) (\<lambda>rows.
     bindA (pureA (xh_open h ''cases.tsv'')) (\<lambda>_.
     bindA (emitA (TableOpened ''cases.tsv'')) (\<lambda>_.
     bindA (pureA (raise_if (rows = []) IndexError)) (\<lambda>_.
     bindA (emitA (CasesTable rows)) (\<lambda>_.
     bindA (write_fixtures h rows) (\<lambda>_.
     bindA (pureA (xh_write_summary h)) (\<lambda>_.
     bindA (emitA (SummaryText (xc_summary_lines rows (map snd expat) (map snd xpact) (xh_labels h)))) (\<lambda>_.
     pureA (Inr 0))))))))))))"

end
