(* ===== verification/Compare_Claims.thy ===== *)
theory Compare_Claims
  imports Expat_Compare Regression_Proofs
begin

text \<open>Properties of the comparison of two DLL test runs.\<close>

section \<open>Input bytes\<close>

definition plain_byte :: "char \<Rightarrow> bool" where
  "plain_byte b = (let n = of_char b :: nat in 32 \<le> n \<and> n < 127 \<and> n \<noteq> 0x5C)"

lemma escape_byte_plain:
  "escape_byte b = (if plain_byte b \<and> b \<noteq> CHR ''|'' then [b] else [CHR 0x5C, CHR ''x''] @ hex_byte (of_char b))"
proof -
  have "b = CHR ''|'' \<longleftrightarrow> (of_char b :: nat) = 0x7C" using of_char_eq [of b "CHR ''|''"] by simp
  then show ?thesis by (auto simp: escape_byte_def plain_byte_def Let_def)
qed

definition hex_text :: "char \<Rightarrow> nat \<Rightarrow> bool" where
  "hex_text c m = (lower_hex c \<and> hex_number c = Some m \<and> \<not> is_space c \<and> c \<noteq> CHR ''-'' \<and> c \<noteq> CHR ''+'')"

lemma hex_texts: "list_all (\<lambda>m. hex_text (hex_digit m) m) [0..<16]"
  by code_simp

lemma hex_digit_text: "hex_text (hex_digit n) (n mod 16)"
proof -
  have "n mod 16 \<in> set [0..<16]" by simp
  with hex_texts have "hex_text (hex_digit (n mod 16)) (n mod 16)" unfolding list_all_iff by blast
  then show ?thesis by (simp add: hex_digit_def)
qed

lemma split_sign_Cons:
  "split_sign (c # s) = (if c = CHR ''-'' then (True, s) else if c = CHR ''+'' then (False, s) else (False, c # s))"
  by (cases c) (auto simp: split_sign_def split: bool.splits)

lemma two_digits:
  assumes "hex_text a m" "hex_text b n" "m < 16" "n < 16"
  shows "unescape_piece [CHR 0x5C, CHR ''x'', a, b] = Inr [char_of (16 * m + n)]" "escape_at [CHR 0x5C, CHR ''x'', a, b]"
proof -
  have s: "strip [a, b] = [a, b]" "split_sign [a, b] = (False, [a, b])"
    using assms(1,2) by (simp_all add: strip_def split_sign_Cons hex_text_def)
  have "int_of_two [a, b] = Inr (16 * int m + int n)"
    using assms(1,2) by (simp add: int_of_two_def s hex_text_def)
  moreover have "nat (16 * int m + int n) = 16 * m + n" by simp
  ultimately show "unescape_piece [CHR 0x5C, CHR ''x'', a, b] = Inr [char_of (16 * m + n)]"
    using assms(3,4) by (simp add: unescape_piece_def startswith_def)
  show "escape_at [CHR 0x5C, CHR ''x'', a, b]" using assms(1,2) by (simp add: escape_at_def hex_text_def)
qed

lemma hex_piece:
  "unescape_piece ([CHR 0x5C, CHR ''x''] @ hex_byte (of_char b)) = Inr [b]" "escape_at ([CHR 0x5C, CHR ''x''] @ hex_byte (of_char b))"
proof -
  let ?n = "of_char b :: nat"
  have lt: "?n div 16 < 16" by (rule less_mult_imp_div_less) simp
  then have n: "?n div 16 < 16" "(?n div 16) mod 16 = ?n div 16" by simp_all
  have v: "16 * (?n div 16) + ?n mod 16 = ?n" by simp
  have d: "hex_text (hex_digit (?n div 16)) (?n div 16)" "hex_text (hex_digit ?n) (?n mod 16)"
    using hex_digit_text [of "?n div 16"] hex_digit_text [of ?n] by (simp_all only: n(2))
  note two_digits [OF d n(1)]
  then show "unescape_piece ([CHR 0x5C, CHR ''x''] @ hex_byte (of_char b)) = Inr [b]"
    "escape_at ([CHR 0x5C, CHR ''x''] @ hex_byte (of_char b))"
    by (simp_all add: hex_byte_def v)
qed

lemma plain_piece:
  assumes "list_all plain_byte w"
  shows "unescape_piece w = Inr w"
proof -
  have "\<not> startswith w [CHR 0x5C, CHR ''x'']"
    using assms by (cases w) (auto simp: startswith_def plain_byte_def)
  moreover have "\<not> list_ex (\<lambda>c. 127 < (of_char c :: nat)) w"
    using assms by (auto simp: list_ex_iff list_all_iff plain_byte_def Let_def)
  ultimately show ?thesis by (simp add: unescape_piece_def)
qed

lemma escape_at_head: "escape_at s \<Longrightarrow> \<exists>t. s = CHR 0x5C # t"
  by (cases s) (auto simp: escape_at_def)

lemma escape_at_append: "length p = 4 \<Longrightarrow> escape_at (p @ s) = escape_at p"
  by (simp add: escape_at_def)

lemma escaped_pieces:
  "list_all plain_byte w \<Longrightarrow> bindE (mapE unescape_piece (escape_pieces w (escaped bs))) (\<lambda>ps. Inr (concat ps)) = Inr (rev w @ bs)"
proof (induction bs arbitrary: w)
  case Nil
  have "list_all plain_byte (rev w)" using Nil by (simp add: list_all_iff)
  from plain_piece [OF this] show ?case by (simp add: escaped_def)
next
  case (Cons b bs)
  have w: "list_all plain_byte (rev w)" using Cons.prems by (simp add: list_all_iff)
  show ?case
  proof (cases "plain_byte b \<and> b \<noteq> CHR ''|''")
    case True
    then have "escaped (b # bs) = b # escaped bs" by (simp add: escaped_def escape_byte_plain)
    moreover have "\<not> escape_at (b # escaped bs)" using True escape_at_head by (fastforce simp: plain_byte_def)
    ultimately show ?thesis using Cons.IH [of "b # w"] Cons.prems True by simp
  next
    case False
    let ?p = "[CHR 0x5C, CHR ''x''] @ hex_byte (of_char b)"
    have e: "escaped (b # bs) = ?p @ escaped bs" using False by (simp add: escaped_def escape_byte_plain)
    have "escape_at (?p @ escaped bs)" using hex_piece(2) [of b] by (subst escape_at_append) (simp_all add: hex_byte_def)
    then have "escape_pieces w (escaped (b # bs)) = rev w # ?p # escape_pieces [] (escaped bs)"
      unfolding e by (simp add: hex_byte_def)
    moreover have "bindE (mapE unescape_piece (escape_pieces [] (escaped bs))) (\<lambda>ps. Inr (concat ps)) = Inr bs"
      using Cons.IH [of "[]"] by simp
    ultimately show ?thesis using plain_piece [OF w] hex_piece(1) [of b]
      by (auto simp: bindE_Inr_iff)
  qed
qed

text \<open>
  The input bytes of a case survive the table: what the test runs write for an input, printable ASCII as it is
  and every other byte in hexadecimal, is read back as exactly these bytes, so a fixture is the input that differed.
\<close>

theorem unescape_escaped: "unescape (escaped bytes) = Inr bytes"
  using escaped_pieces [of "[]" bytes] by (simp add: unescape_def)

section \<open>Division of text\<close>

lemma split_bars_piece:
  assumes "CHR ''|'' \<notin> set p"
  shows "split_bars w (p @ BAR @ s) = (rev w @ p) # split_bars [] s"
  using assms
proof (induction p arbitrary: w)
  case Nil
  then show ?case by (simp add: BAR_def startswith_def)
next
  case (Cons c p)
  have "\<not> startswith (c # p @ BAR @ s) BAR"
    using Cons.prems by (cases p) (auto simp: startswith_def BAR_def)
  with Cons show ?case by simp
qed

lemma split_bars_last:
  assumes "CHR ''|'' \<notin> set p"
  shows "split_bars w p = [rev w @ p]"
  using assms
proof (induction p arbitrary: w)
  case (Cons c p)
  have "\<not> startswith (c # p) BAR" using Cons.prems by (auto simp: startswith_iff BAR_def)
  with Cons show ?case by simp
qed simp

definition bar_free :: "string \<Rightarrow> bool" where
  "bar_free p \<longleftrightarrow> CHR ''|'' \<notin> set p"

lemma split_bars_join: "pieces \<noteq> [] \<Longrightarrow> list_all bar_free pieces \<Longrightarrow> split_bars [] (join BAR pieces) = pieces"
proof (induction pieces)
  case (Cons p pieces)
  then show ?case
    by (cases pieces) (auto simp: bar_free_def split_bars_piece split_bars_last)
qed simp

definition fold_events :: "string list \<Rightarrow> (string \<times> string) list" where
  "fold_events pieces = rev (fold (\<lambda>piece. join_event (event_parts piece)) pieces [])"

lemma joined_events_join:
  assumes "list_all bar_free pieces" "join BAR pieces \<noteq> []"
  shows "joined_events (join BAR pieces) = fold_events pieces"
proof -
  have "pieces \<noteq> []" using assms(2) by auto
  with assms show ?thesis by (simp add: joined_events_def fold_events_def split_bars_join)
qed

definition text_piece :: "string \<Rightarrow> string \<Rightarrow> string" where
  "text_piece kind data = kind @ '':'' @ data"

lemma event_parts_piece: "py_in kind [''text'', ''default''] \<Longrightarrow> event_parts (text_piece kind data) = (kind, data)"
  by (auto simp: event_parts_def text_piece_def)

definition divisible :: "string \<Rightarrow> string \<Rightarrow> string \<Rightarrow> bool" where
  \<comment> \<open>data handed over in two pieces, not at a place where a tag may end or begin\<close>
  "divisible kind u v = (py_in kind [''text'', ''default''] \<and> u \<noteq> [] \<and> \<not> endswith u ''>'' \<and> \<not> startswith v ''<'')"

lemma endswith_append: "u \<noteq> [] \<Longrightarrow> endswith (w @ u) ''>'' = endswith u ''>''"
  by (cases u rule: rev_cases) (simp_all add: endswith_def startswith_def)

lemma startswith_nonempty: "u \<noteq> [] \<Longrightarrow> startswith (u @ v) ''<'' = startswith u ''<''"
  by (cases u) (simp_all add: startswith_def)

lemma join_event_divided:
  assumes "divisible kind u v"
  shows "join_event (kind, v) (join_event (kind, u) out) = join_event (kind, u @ v) out"
proof (cases out)
  case Nil
  then show ?thesis using assms by (simp add: divisible_def)
next
  case (Cons ev out')
  then show ?thesis using assms by (cases ev) (auto simp: divisible_def endswith_append startswith_nonempty)
qed

lemma fold_events_divided:
  assumes "divisible kind u v"
  shows "fold_events (before @ [text_piece kind u, text_piece kind v] @ after) = fold_events (before @ [text_piece kind (u @ v)] @ after)"
proof -
  have "py_in kind [''text'', ''default'']" using assms by (simp add: divisible_def)
  then show ?thesis by (simp add: fold_events_def event_parts_piece join_event_divided [OF assms])
qed

lemma join_not_Nil: "p \<in> set ps \<Longrightarrow> p \<noteq> [] \<Longrightarrow> join BAR ps \<noteq> []"
  by (induction BAR ps rule: join.induct) (auto simp: BAR_def)

lemma bar_free_text: "bar_free (text_piece kind (u @ v)) \<longleftrightarrow> bar_free (text_piece kind u) \<and> bar_free (text_piece kind v)"
  by (auto simp: bar_free_def text_piece_def)

text \<open>
  How a parser divides text between calls is not held against it: two rows that only differ in one piece of
  character data or default data handed over whole or in two parts have the same joined events, differ in
  \<open>split-only\<close> and nothing else, and give no finding.
\<close>

theorem divided_text_is_no_difference:
  assumes "divisible kind u v" "list_all bar_free (before @ [text_piece kind (u @ v)] @ after)"
    and "dl_events e = join BAR (before @ [text_piece kind (u @ v)] @ after)"
    and "x = e\<lparr>dl_events := join BAR (before @ [text_piece kind u, text_piece kind v] @ after)\<rparr>"
  shows "joined_events (dl_events x) = joined_events (dl_events e)
    \<and> set (classify_pair e x) \<subseteq> {''split-only''} \<and> finding_names e (classify_pair e x) = []"
proof -
  have ne: "text_piece kind w \<noteq> []" for w by (simp add: text_piece_def)
  have whole: "joined_events (dl_events e) = fold_events (before @ [text_piece kind (u @ v)] @ after)"
    unfolding assms(3) by (rule joined_events_join [OF assms(2)]) (rule join_not_Nil, auto simp: ne)
  have "list_all bar_free (before @ [text_piece kind u, text_piece kind v] @ after)"
    using assms(2) bar_free_text by auto
  moreover have "join BAR (before @ [text_piece kind u, text_piece kind v] @ after) \<noteq> []"
    by (rule join_not_Nil [of "text_piece kind u"]) (simp_all add: ne)
  ultimately have "joined_events (dl_events x) = fold_events (before @ [text_piece kind u, text_piece kind v] @ after)"
    unfolding assms(4) using joined_events_join by simp
  then have same: "joined_events (dl_events x) = joined_events (dl_events e)"
    using whole fold_events_divided [OF assms(1)] by simp
  have "classify_pair e x = (if dl_events e = dl_events x then [] else [''split-only''])"
    using same by (simp add: classify_pair_def assms(4) xc_position_def)
  then show ?thesis using same by (simp add: finding_names_def)
qed

definition sample_dll_row :: dll_row where
  "sample_dll_row = \<lparr>dl_id = ''a/none/whole'', dl_group = ''c02'', dl_input = ''a'', dl_callbacks = ''none'', dl_chunks = ''whole'',
     dl_input_bytes = ''<r>ab</r>'', dl_calls = ''1'', dl_verdict = ''ACCEPT'', dl_error_code = ''0'', dl_line = ''0'', dl_column = ''0'',
     dl_byte_index = ''0'', dl_failed_call = ''0'', dl_events = ''start:r | text:ab | end:r''\<rparr>"

theorem divided_text_is_no_difference_witness:
  "joined_events ''start:r | text:a | text:b | end:r'' = joined_events ''start:r | text:ab | end:r''"
proof -
  have d: "divisible ''text'' ''a'' ''b''" by code_simp
  have b: "list_all bar_free ([''start:r''] @ [text_piece ''text'' (''a'' @ ''b'')] @ [''end:r''])"
    by (simp add: bar_free_def text_piece_def)
  have e: "dl_events sample_dll_row = join BAR ([''start:r''] @ [text_piece ''text'' (''a'' @ ''b'')] @ [''end:r''])"
    by code_simp
  have "joined_events (dl_events (sample_dll_row\<lparr>dl_events := join BAR ([''start:r''] @ [text_piece ''text'' ''a'', text_piece ''text'' ''b''] @ [''end:r''])\<rparr>))
      = joined_events (dl_events sample_dll_row)"
    using divided_text_is_no_difference [OF d b e refl] by blast
  then show ?thesis by (simp add: sample_dll_row_def BAR_def text_piece_def)
qed

section \<open>The table\<close>

definition rows_agree :: "dll_row \<Rightarrow> dll_row \<Rightarrow> bool" where
  \<comment> \<open>nothing the script compares differs\<close>
  "rows_agree e x = (dl_verdict e = dl_verdict x \<and> dl_error_code e = dl_error_code x \<and> dl_events e = dl_events x
     \<and> dl_failed_call e = dl_failed_call x \<and> (if dl_verdict e = ''REJECT'' then xc_position e = xc_position x else True))"

lemma classify_pair_Nil: "classify_pair e x = [] \<longleftrightarrow> rows_agree e x"
  by (auto simp: classify_pair_def rows_agree_def)

lemma classify_pair_names: "list_all (\<lambda>k. py_in k KIND_NAMES \<and> k \<noteq> ''none'') (classify_pair e x)"
  by (simp add: classify_pair_def KIND_NAMES_def)

lemma comma_free: "list_all (\<lambda>k. \<not> py_in CHR '','' k) KIND_NAMES"
  by code_simp

lemma kinds_of_compared:
  "kinds_of (compared_row i e x) = (if classify_pair e x = [] then [''none''] else classify_pair e x)"
proof -
  have "\<forall>k \<in> set (classify_pair e x). CHR '','' \<notin> set k \<and> k \<noteq> []"
  proof
    fix k assume "k \<in> set (classify_pair e x)"
    then have "k \<in> set KIND_NAMES" using classify_pair_names by (auto simp: list_all_iff py_in_def)
    with comma_free show "CHR '','' \<notin> set k \<and> k \<noteq> []" by (auto simp: list_all_iff py_in_def KIND_NAMES_def)
  qed
  moreover have "join '','' ks \<noteq> []" if "ks \<noteq> []" "\<forall>k \<in> set ks. k \<noteq> []" for ks
    using that by (cases ks rule: list.exhaust; cases "tl ks") auto
  ultimately show ?thesis
    by (auto simp: kinds_of_def compared_row_def Let_def or_text_def split_on_join)
qed

lemma kinds_once: "distinct (kinds_of (compared_row i e x))"
  by (simp add: kinds_of_compared classify_pair_def)

lemma count_in_distinct: "distinct xs \<Longrightarrow> length (filter (\<lambda>x. x = k) xs) = (if k \<in> set xs then 1 else 0)"
  by (induction xs) auto

definition pair_kind :: "string \<Rightarrow> dll_row \<times> dll_row \<Rightarrow> bool" where
  "pair_kind k p = (if k = ''none'' then rows_agree (fst p) (snd p) else py_in k (classify_pair (fst p) (snd p)))"

lemma kind_count_compared:
  "kind_count (map (\<lambda>(i, e, x). compared_row i e x) triples) k = count_if (\<lambda>(i, e, x). pair_kind k (e, x)) triples"
proof (induction triples)
  case (Cons t triples)
  obtain i e x where t: "t = (i, e, x)" by (cases t)
  have "''none'' \<notin> set (classify_pair e x)" using classify_pair_names by (auto simp: list_all_iff)
  then have "k \<in> set (kinds_of (compared_row i e x)) \<longleftrightarrow> pair_kind k (e, x)"
    by (auto simp: kinds_of_compared pair_kind_def classify_pair_Nil py_in_def simp flip: classify_pair_Nil)
  with Cons count_in_distinct [OF kinds_once, of k i e x] show ?case by (simp add: kind_count_def t)
qed (simp add: kind_count_def)

lemma keyed_rows_keys: "map fst (keyed_rows rows) = fromkeys (map dl_id rows)"
  by (simp add: keyed_rows_def keyed_keys)

definition paired_cases :: "(string \<times> dll_row) list \<Rightarrow> (string \<times> dll_row) list \<Rightarrow> (string \<times> dll_row \<times> dll_row) list" where
  "paired_cases expat xpact = map (\<lambda>(i, e). (i, e, the (map_of xpact i))) expat"

definition compared_rows :: "(string \<times> dll_row) list \<Rightarrow> (string \<times> dll_row) list \<Rightarrow> xc_row list" where
  "compared_rows expat xpact = map (\<lambda>(i, e, x). compared_row i e x) (paired_cases expat xpact)"

lemma compare_runs_total:
  assumes "set (map fst expat) \<subseteq> set (map fst xpact)"
  shows "compare_runs expat xpact = Inr (compared_rows expat xpact)"
proof -
  have "(case p of (i, e) \<Rightarrow> bindE (py_item (map_of xpact) i) (\<lambda>x. Inr (compared_row i e x)))
      = Inr (case p of (i, e) \<Rightarrow> compared_row i e (the (map_of xpact i)))" if p: "p \<in> set expat" for p
  proof -
    obtain i e where ie: "p = (i, e)" by (cases p)
    have "i \<in> fst ` set xpact" using assms p ie by force
    then obtain x where "map_of xpact i = Some x" by (metis map_of_eq_None_iff not_None_eq)
    then show ?thesis by (simp add: ie)
  qed
  then have "compare_runs expat xpact = Inr (map (\<lambda>p. case p of (i, e) \<Rightarrow> compared_row i e (the (map_of xpact i))) expat)"
    unfolding compare_runs_def by (rule mapE_total)
  then show ?thesis by (simp add: compared_rows_def paired_cases_def comp_def split_def)
qed

lemma compare_main_Inr:
  assumes "compare_main h = (evs, Inr n)"
  obtains expat xpact rows evs' written where
    "xh_expat h = Inr expat" "xh_xpact h = Inr xpact"
    "set (map fst (keyed_rows expat)) = set (map fst (keyed_rows xpact))"
    "rows = compared_rows (keyed_rows expat) (keyed_rows xpact)"
    "write_fixtures h rows = (evs', Inr written)"
    "evs = TableOpened ''cases.tsv'' # CasesTable rows # evs'
       @ [SummaryText (xc_summary_lines rows (map snd (keyed_rows expat)) (map snd (keyed_rows xpact)) (xh_labels h))]"
    "n = 0"
proof -
  from assms obtain expat xpact rows evs' written where
    a: "xh_expat h = Inr expat" "xh_xpact h = Inr xpact"
    and s: "set (map fst (keyed_rows expat)) = set (map fst (keyed_rows xpact))"
    and c: "compare_runs (keyed_rows expat) (keyed_rows xpact) = Inr rows"
    and w: "write_fixtures h rows = (evs', Inr written)"
    and e: "evs = TableOpened ''cases.tsv'' # CasesTable rows # evs'
       @ [SummaryText (xc_summary_lines rows (map snd (keyed_rows expat)) (map snd (keyed_rows xpact)) (xh_labels h))]" "n = 0"
    unfolding compare_main_def Let_def by (auto simp: bindA_Inr_iff raise_if_Inr_iff simp del: set_map)
  have "rows = compared_rows (keyed_rows expat) (keyed_rows xpact)"
    using c compare_runs_total s by simp
  from that [OF a s this w e] show thesis .
qed


definition utf8_row :: dll_row where
  "utf8_row = sample_dll_row\<lparr>dl_id := ''u/none/whole'', dl_group := ''utf8'', dl_input := ''u''\<rparr>"

definition junk_row :: dll_row where
  "junk_row = sample_dll_row\<lparr>dl_id := ''j/none/whole'', dl_input := ''c02-trailing-junk'', dl_verdict := ''REJECT'', dl_error_code := ''9''\<rparr>"

definition compare_sample :: compare_host where
  "compare_sample = \<lparr>xh_expat = Inr [utf8_row, junk_row], xh_xpact = Inr [junk_row\<lparr>dl_error_code := ''4''\<rparr>, utf8_row],
     xh_labels = (''libexpat'', ''xpact''), xh_mkdir = (\<lambda>_. Inr ()), xh_write_bytes = (\<lambda>_ _. Inr ()), xh_open = (\<lambda>_. Inr ()),
     xh_write_summary = Inr ()\<rparr>"

definition compare_sample_rows :: "xc_row list" where
  "compare_sample_rows = compared_rows (keyed_rows [utf8_row, junk_row]) (keyed_rows [junk_row\<lparr>dl_error_code := ''4''\<rparr>, utf8_row])"

lemma compare_sample_fixtures: "(case snd (write_fixtures compare_sample compare_sample_rows) of Inl _ \<Rightarrow> False | Inr _ \<Rightarrow> True)"
  by code_simp

lemma compare_sample_ids:
  "set (map fst (keyed_rows [utf8_row, junk_row])) = set (map fst (keyed_rows [junk_row\<lparr>dl_error_code := ''4''\<rparr>, utf8_row]))"
  unfolding keyed_rows_keys by (auto simp: utf8_row_def junk_row_def)

lemma compare_sample_main: "\<exists>evs. compare_main compare_sample = (evs, Inr 0)"
proof -
  obtain evs' written where w: "write_fixtures compare_sample compare_sample_rows = (evs', Inr written)"
    using compare_sample_fixtures by (cases "write_fixtures compare_sample compare_sample_rows") (auto split: sum.splits)
  have c: "compare_runs (keyed_rows [utf8_row, junk_row]) (keyed_rows [junk_row\<lparr>dl_error_code := ''4''\<rparr>, utf8_row]) = Inr compare_sample_rows"
    unfolding compare_sample_rows_def using compare_sample_ids by (intro compare_runs_total) simp
  have "compare_sample_rows \<noteq> []"
    by (simp add: compare_sample_rows_def compared_rows_def paired_cases_def keyed_rows_def keyed_def utf8_row_def junk_row_def)
  moreover have "xh_expat compare_sample = Inr [utf8_row, junk_row]" "xh_xpact compare_sample = Inr [junk_row\<lparr>dl_error_code := ''4''\<rparr>, utf8_row]"
    "xh_open compare_sample = (\<lambda>_. Inr ())" "xh_write_summary compare_sample = Inr ()" by (simp_all add: compare_sample_def)
  ultimately show ?thesis using w c compare_sample_ids
    by (simp add: compare_main_def Let_def bindA_def pureA_def emitA_def del: set_map)
qed


section \<open>Two runs that agree\<close>

lemma no_findings_no_items:
  assumes "write_fixture h name cases = (evs, Inr now)" "input_hits cases = []"
  shows "items_of now ''C03-chunks'' = []"
  using assms by (auto simp: write_fixture_def Let_def items_of_def bindA_Inr_iff split: if_splits)

lemma items_of_append: "items_of (a @ b) folder = items_of a folder @ items_of b folder"
  by (simp add: items_of_def)

lemma no_findings_written:
  assumes "write_inputs h rows names = (evs, Inr written)" "\<And>name. input_hits (cases_of_input rows name) = []"
  shows "items_of written ''C03-chunks'' = []"
  using assms(1)
proof (induction names arbitrary: evs written)
  case (Cons name names)
  then show ?case using no_findings_no_items assms(2) by (fastforce simp: bindA_Inr_iff items_of_append)
qed (simp add: items_of_def)

lemma agreeing_rows_no_findings:
  assumes "expat = xpact" "distinct (map fst expat)" "r \<in> set (compared_rows expat xpact)"
  shows "issues_of r = []"
proof -
  from assms(3) obtain i e where ie: "(i, e) \<in> set expat" and r: "r = compared_row i e (the (map_of xpact i))"
    by (auto simp: compared_rows_def paired_cases_def)
  have "map_of xpact i = Some e" using assms(1,2) ie by simp
  then have "classify_pair e (the (map_of xpact i)) = []" by (simp add: classify_pair_def)
  then show ?thesis by (simp add: r compared_row_def issues_of_def finding_names_def or_text_def)
qed

text \<open>
  C25. The script cannot record that the two parsers agree: when both runs give the same rows it never returns, however
  many cases there are, because the table of findings in the chunking folder has no first item to take its columns
  from.
\<close>

theorem compare_agreement_raises:
  assumes "xh_expat h = xh_xpact h"
  shows "case snd (compare_main h) of Inl e \<Rightarrow> True | Inr n \<Rightarrow> False"
proof (rule ccontr)
  assume "\<not> ?thesis"
  then obtain evs n where "compare_main h = (evs, Inr n)"
    by (cases "compare_main h"; cases "snd (compare_main h)") auto
  then show False
  proof (rule compare_main_Inr)
    fix expat xpact rows evs' written
    assume a: "xh_expat h = Inr expat" "xh_xpact h = Inr xpact"
      and r: "rows = compared_rows (keyed_rows expat) (keyed_rows xpact)"
      and w: "write_fixtures h rows = (evs', Inr written)"
    have same: "keyed_rows expat = keyed_rows xpact" using assms a by simp
    have "distinct (map fst (keyed_rows expat))" by (simp add: keyed_rows_keys)
    then have "issues_of row = []" if "row \<in> set rows" for row
      using agreeing_rows_no_findings [OF same] that r by blast
    then have "concat (map issues_of (cases_of_input rows name)) = []" for name
      by (simp add: cases_of_input_def concat_eq_Nil_conv)
    then have "input_hits (cases_of_input rows name) = []" for name
      by (simp add: input_hits_def del: concat_eq_Nil_conv)
    moreover from w obtain evs1 evs2 where "write_inputs h rows (fromkeys (map xc_input rows)) = (evs1, Inr written)"
      and t: "write_tables h written FOLDERS = (evs2, Inr ())"
      by (auto simp: write_fixtures_def bindA_Inr_iff)
    ultimately have "items_of written ''C03-chunks'' = []" using no_findings_written by blast
    then show False using t by (auto simp: FOLDERS_def bindA_Inr_iff raise_if_Inr_iff)
  qed
qed

definition compare_agreeing :: compare_host where
  "compare_agreeing = compare_sample\<lparr>xh_xpact := Inr [utf8_row, junk_row]\<rparr>"

theorem compare_agreement_raises_witness:
  "(case snd (compare_main compare_agreeing) of Inl e \<Rightarrow> True | Inr n \<Rightarrow> False)
    \<and> (case snd (compare_main compare_sample) of Inl e \<Rightarrow> False | Inr n \<Rightarrow> True)"
proof -
  have "xh_expat compare_agreeing = xh_xpact compare_agreeing" by (simp add: compare_agreeing_def compare_sample_def)
  from compare_agreement_raises [OF this] compare_sample_main show ?thesis by auto
qed

section \<open>Chunking\<close>

definition chunk_consistent :: "dll_row list \<Rightarrow> bool" where
  \<comment> \<open>any two rows of one input and callback set have the same answer\<close>
  "chunk_consistent results = list_all (\<lambda>r. list_all (\<lambda>r'. if chunk_key r = chunk_key r' then chunk_answer r = chunk_answer r' else True) results) results"

lemma one_answer: "length (remdups xs) \<le> 1 \<longleftrightarrow> (\<forall>x \<in> set xs. \<forall>y \<in> set xs. x = y)"
proof
  assume "length (remdups xs) \<le> 1"
  then have "card (set xs) \<le> 1" by (simp add: length_remdups_card_conv)
  then show "\<forall>x \<in> set xs. \<forall>y \<in> set xs. x = y" using card_le_Suc0_iff_eq [of "set xs"] by auto
next
  assume "\<forall>x \<in> set xs. \<forall>y \<in> set xs. x = y"
  then have "card (set xs) \<le> Suc 0" using card_le_Suc0_iff_eq [of "set xs"] by auto
  then show "length (remdups xs) \<le> 1" by (simp add: length_remdups_card_conv)
qed

text \<open>
  The summary says that no answer moves exactly when chunking changes nothing: any two cases of the same input and
  callback set agree in verdict, error code and, for a rejection, position; and it counts every such pair once.
\<close>

theorem chunking_verdict_exact:
  "(fst (snd (stable_under_chunking results)) = 0) = chunk_consistent results
   \<and> fst (stable_under_chunking results) = card (set (map chunk_key results))"
proof -
  have "fst (snd (stable_under_chunking results)) = 0 \<longleftrightarrow> moving_keys results = []"
    by (auto simp: stable_under_chunking_def Let_def)
  also have "\<dots> \<longleftrightarrow> (\<forall>k \<in> set (map chunk_key results). length (remdups (map chunk_answer (filter (\<lambda>r. chunk_key r = k) results))) \<le> 1)"
    unfolding moving_keys_def filter_empty_conv set_fromkeys by auto
  also have "\<dots> \<longleftrightarrow> (\<forall>k \<in> set results. \<forall>x \<in> set results. \<forall>y \<in> set results.
      chunk_key x = chunk_key k \<longrightarrow> chunk_key y = chunk_key k \<longrightarrow> chunk_answer x = chunk_answer y)"
    unfolding one_answer by (simp only: set_map set_filter ball_simps mem_Collect_eq) blast
  also have "\<dots> \<longleftrightarrow> chunk_consistent results"
    unfolding chunk_consistent_def list_all_iff by (metis (full_types))
  finally have "(fst (snd (stable_under_chunking results)) = 0) = chunk_consistent results" .
  moreover have "length (fromkeys (map chunk_key results)) = card (set (map chunk_key results))"
    by (simp add: fromkeys_def length_remdups_card_conv)
  ultimately show ?thesis by (simp add: stable_under_chunking_def Let_def)
qed

end
