(* ===== verification/Corpus_Manifest.thy ===== *)
theory Corpus_Manifest
  imports W3C_Catalog Py_Number
begin

text \<open>
  The corpus manifest, \<open>student/results/G01-corpus/make_manifest.py\<close>: a selection of W3C cases over the
  catalog that \<open>scripts/run_w3c_conformance.py\<close> loads, written with the hash of every file, and the check
  of a manifest on another copy of the suite. The attributes the script records while the catalog is loaded are those
  of the \<open>TEST\<close> elements. Quotients of small integers are exact.
\<close>

section \<open>Quotas\<close>

record quota =
  qu_category :: string
  qu_productions :: "nat list"
  qu_prefixes :: "string list"
  qu_path_filter :: string
  qu_accept :: nat
  qu_reject :: nat

definition ENCODING_PRODUCTIONS :: "nat list" where
  "ENCODING_PRODUCTIONS = [77, 78, 80, 81]"

definition quota_of :: "string \<Rightarrow> nat list \<Rightarrow> string list \<Rightarrow> string \<Rightarrow> nat \<Rightarrow> nat \<Rightarrow> quota" where
  "quota_of category prods prefixes path_filter n_accept n_reject =
     \<lparr>qu_category = category, qu_productions = prods, qu_prefixes = prefixes, qu_path_filter = path_filter,
      qu_accept = n_accept, qu_reject = n_reject\<rparr>"

definition CATEGORIES :: "quota list" where
  "CATEGORIES =
     [quota_of ''namespaces'' [] [] ''eduni/namespaces/1.0/'' 4 4,
      quota_of ''encodings'' ENCODING_PRODUCTIONS [''4.3.3'', ''4.3.1''] [] 5 5,
      quota_of ''entities'' [66, 67, 68, 69, 70, 71, 72, 73, 74, 75, 76] [''4.1'', ''4.2'', ''4.4'', ''4.5''] [] 5 5,
      quota_of ''dtd'' [28, 29, 45, 46, 47, 48, 49, 50, 51, 52, 53, 54, 55, 56, 57, 58, 59, 60] [''2.8'', ''3.2'', ''3.3''] [] 5 5,
      quota_of ''attributes'' [10, 41] [''3.3.3''] [] 5 5,
      quota_of ''tags'' [39, 40, 42, 43, 44] [''3.1''] [] 5 5,
      quota_of ''text'' [14, 15, 16, 17, 18, 19, 20, 21] [''2.4'', ''2.5'', ''2.6'', ''2.7''] [] 5 5,
      quota_of ''characters'' [2, 3, 4, 5] [''2.2'', ''2.3''] [] 3 3]"

definition INVALID_QUOTA :: nat where
  "INVALID_QUOTA = 6"

definition LARGEST_QUOTA :: nat where
  "LARGEST_QUOTA = 3"

definition NOT_COUNTED :: "(string \<times> string \<times> nat) list" where
  "NOT_COUNTED =
     [(''external entities'', ''Requires external'', 4), (''XML 1.1'', ''XML 1.1'', 3),
      (''other edition'', ''fifth edition'', 1), (''error'', ''Optional error detection'', 2)]"

section \<open>Host\<close>

record corpus_row =
  mn_id :: string
  mn_category :: string
  mn_collection :: string
  mn_path :: string
  mn_sha256 :: string
  mn_bytes :: int
  mn_type :: string
  mn_expected :: string
  mn_counted :: string
  mn_skip_reason :: string
  mn_recommendation :: string
  mn_version :: string
  mn_edition :: string
  mn_namespace :: string
  mn_entities :: string
  mn_sections :: string
  mn_dependencies :: string
  mn_today_finalized :: string
  mn_today_assertions :: string
  mn_review :: string
  mn_description :: string

datatype manifest_event =
    ManifestOpened
  | ManifestWritten "corpus_row list"
  | ManifestSummary "string list"

record manifest_host =
  gm_suite :: host
  gm_tree :: element \<comment> \<open>the parsed catalog\<close>
  gm_bytes :: "path \<Rightarrow> string py"
  gm_size :: "path \<Rightarrow> int py"
  gm_sha :: "string \<Rightarrow> string"
  gm_target :: "string \<Rightarrow> string \<Rightarrow> path" \<comment> \<open>\<open>(Path(base) / name).resolve()\<close>\<close>
  gm_today :: "(string \<times> string \<times> string) list py" \<comment> \<open>engine, case and status of every row\<close>
  gm_manifest :: "corpus_row list py"
  gm_open :: "unit py"
  gm_write_summary :: "unit py"

type_synonym 'a manifest_run = "(manifest_event, 'a) act"

definition sha256_of :: "manifest_host \<Rightarrow> path \<Rightarrow> string py" where
  \<comment> \<open>\<open>sha256\<close>\<close>
  "sha256_of h path = bindE (gm_bytes h path) (\<lambda>content. Inr (gm_sha h content))"

section \<open>Matching\<close>

fun productions :: "string \<Rightarrow> nat list" where
  "productions [] = []"
| "productions (c # s) =
     (let d = takeWhile is_digit s; rest = drop (length d) s in
      if c = CHR ''['' \<and> d \<noteq> [] \<and> startswith rest '']'' then nat_of_digits d # productions (drop 1 rest) else productions s)"

definition byte_space :: "char \<Rightarrow> bool" where
  "byte_space c = (let n = of_char c :: nat in 9 \<le> n \<and> n \<le> 13 \<or> n = 32)"

definition encoding_char :: "char \<Rightarrow> bool" where
  "encoding_char c = (let n = of_char c :: nat in
     48 \<le> n \<and> n \<le> 57 \<or> 65 \<le> n \<and> n \<le> 90 \<or> 97 \<le> n \<and> n \<le> 122 \<or> py_in c ''._-'')"

definition quote_char :: "char \<Rightarrow> bool" where
  "quote_char c = (c = CHR 0x22 \<or> c = CHR 0x27)"

definition encoding_at :: "string \<Rightarrow> string option" where
  \<comment> \<open>the group of \<open>encoding\s*=\s*["']([A-Za-z0-9._-]+)["']\<close> at the start\<close>
  "encoding_at s = (if \<not> startswith s ''encoding'' then None
     else case dropWhile byte_space (drop 8 s) of
        e # t \<Rightarrow> (if e \<noteq> CHR ''='' then None
          else case dropWhile byte_space t of
             q # u \<Rightarrow> (let name = takeWhile encoding_char u; rest = drop (length name) u in
               if quote_char q \<and> name \<noteq> [] \<and> rest \<noteq> [] \<and> quote_char (hd rest) then Some name else None)
           | [] \<Rightarrow> None)
      | [] \<Rightarrow> None)"

fun find_encoding :: "string \<Rightarrow> string option" where
  "find_encoding [] = None"
| "find_encoding (c # s) = (case encoding_at (c # s) of Some name \<Rightarrow> Some name | None \<Rightarrow> find_encoding s)"

definition non_utf8_encoding :: "manifest_host \<Rightarrow> path \<Rightarrow> bool py" where
  "non_utf8_encoding h path = bindE (gm_bytes h path) (\<lambda>content. let head = take 200 content in
     Inr (py_in (take 2 head) [[CHR 0xFF, CHR 0xFE], [CHR 0xFE, CHR 0xFF]]
       \<or> (case find_encoding head of None \<Rightarrow> False | Some name \<Rightarrow> \<not> py_in (lower name) [''utf-8'', ''utf8''])))"

definition matches :: "manifest_host \<Rightarrow> attributes \<Rightarrow> case_ \<Rightarrow> string \<Rightarrow> nat list \<Rightarrow> string list \<Rightarrow> string \<Rightarrow> bool py" where
  "matches h attrs c rel prods prefixes path_filter =
     (if path_filter \<noteq> [] then Inr (startswith rel path_filter)
      else bindE (if set prods = set ENCODING_PRODUCTIONS then non_utf8_encoding h (c_path c) else Inr False) (\<lambda>other.
        if other then Inr True
        else let sections = py_get attrs ''SECTIONS'' []; numbers = productions sections in
          Inr (if numbers \<noteq> [] then list_ex (\<lambda>n. py_in n prods) numbers else list_ex (startswith sections) prefixes)))"

section \<open>Selection\<close>

definition spread :: "'a list \<Rightarrow> nat \<Rightarrow> 'a list py" where
  "spread items count =
     (if length items \<le> count then Inr items
      else if count = 0 then Inl ZeroDivisionError
      else let step = of_nat (length items) / of_nat count :: rat in
        Inr (map (\<lambda>i. items ! nat \<lfloor>of_nat i * step\<rfloor>) [0..<count]))"

type_synonym selection = "(string \<times> case_) list" \<comment> \<open>\<open>order\<close>; its identifiers are the keys of \<open>chosen\<close>\<close>

definition not_chosen :: "selection \<Rightarrow> case_ \<Rightarrow> bool" where
  "not_chosen order c = (\<not> py_in (c_id c) (map (c_id \<circ> snd) order))"

definition take_from :: "string \<Rightarrow> case_ list \<Rightarrow> nat \<Rightarrow> selection \<Rightarrow> selection py" where
  \<comment> \<open>the inner function \<open>take\<close>\<close>
  "take_from category pool count order =
     bindE (spread (filter (not_chosen order) pool) count) (\<lambda>chosen. Inr (order @ map (Pair category) chosen))"

definition applicable :: "case_ list \<Rightarrow> case_ list" where
  "applicable cases = filter (\<lambda>c. c_skip_reason c = []) cases"

definition in_category :: "manifest_host \<Rightarrow> (string \<rightharpoonup> attributes) \<Rightarrow> path \<Rightarrow> quota \<Rightarrow> case_ \<Rightarrow> bool py" where
  "in_category h captured suite q c =
     (if c_kind c = ''invalid'' then Inr False
      else bindE (py_item captured (c_id c)) (\<lambda>attrs. bindE (relative_to (c_path c) suite) (\<lambda>rel.
        matches h attrs c (as_posix rel) (qu_productions q) (qu_prefixes q) (qu_path_filter q))))"

definition take_category :: "manifest_host \<Rightarrow> (string \<rightharpoonup> attributes) \<Rightarrow> path \<Rightarrow> case_ list \<Rightarrow> quota \<Rightarrow> selection \<Rightarrow> selection py" where
  "take_category h captured suite cases q order =
     bindE (filterE (in_category h captured suite q) (applicable cases)) (\<lambda>pool.
     bindE (take_from (qu_category q) (filter (\<lambda>c. c_expected c = ''ACCEPT'') pool) (qu_accept q) order) (\<lambda>order.
     take_from (qu_category q) (filter (\<lambda>c. c_expected c = ''REJECT'') pool) (qu_reject q) order))"

definition by_size :: "(case_ \<times> int) list \<Rightarrow> case_ list" where
  \<comment> \<open>the largest first, equal sizes in catalog order\<close>
  "by_size sized = map fst (sort_key (\<lambda>p. - snd p) sized)"

definition take_not_counted :: "case_ list \<Rightarrow> string \<times> string \<times> nat \<Rightarrow> selection \<Rightarrow> selection py" where
  "take_not_counted cases t order = (case t of (category, marker, count) \<Rightarrow>
     take_from (''not counted: '' @ category) (filter (\<lambda>c. contains (c_skip_reason c) marker) cases) count order)"

definition select :: "manifest_host \<Rightarrow> case_ list \<Rightarrow> (string \<rightharpoonup> attributes) \<Rightarrow> path \<Rightarrow> selection py" where
  "select h cases captured suite =
     bindE (foldE (take_category h captured suite cases) CATEGORIES []) (\<lambda>order.
     bindE (take_from ''invalid'' (filter (\<lambda>c. c_kind c = ''invalid'') (applicable cases)) INVALID_QUOTA order) (\<lambda>order.
     bindE (mapE (\<lambda>c. bindE (gm_size h (c_path c)) (\<lambda>n. Inr (c, n))) (applicable cases)) (\<lambda>sized.
     bindE (take_from ''largest'' (take (LARGEST_QUOTA * 3) (by_size sized)) LARGEST_QUOTA order) (\<lambda>order.
     foldE (take_not_counted cases) NOT_COUNTED order))))"

definition captured_attributes :: "element \<Rightarrow> (string \<rightharpoonup> attributes)" where
  \<comment> \<open>what \<open>recording\<close> has seen when the catalog is loaded\<close>
  "captured_attributes tree = map_of (map (\<lambda>e. (test_id e, map_of (attrib e))) (test_elements tree))"

definition corpus_cases :: "manifest_host \<Rightarrow> path \<Rightarrow> (case_ list \<times> (string \<rightharpoonup> attributes)) py" where
  "corpus_cases h suite = bindE (load_catalog (gm_suite h) suite (gm_tree h)) (\<lambda>cases. Inr (cases, captured_attributes (gm_tree h)))"

end
