(* ===== verification/Corpus_Run.thy ===== *)
theory Corpus_Run
  imports Corpus_Manifest Report_Tables W3C_Report Dual_W3C_Lane
begin

text \<open>
  Rows, summary, check and main of \<open>student/results/G01-corpus/make_manifest.py\<close>.
\<close>

section \<open>Rows\<close>

definition dependencies :: "manifest_host \<Rightarrow> case_ \<Rightarrow> attributes \<Rightarrow> path \<Rightarrow> string py" where
  "dependencies h c attrs suite =
     (let ents = py_get attrs ''ENTITIES'' ''none'';
          parts = (if ents \<noteq> ''none'' then [''external '' @ ents @ '' entities''] else []);
          result = (\<lambda>parts. if parts \<noteq> [] then join ''; '' parts else ''none'') in
      case attrs ''OUTPUT'' of
        None \<Rightarrow> Inr (result parts)
      | Some output \<Rightarrow>
          if output = [] then Inr (result parts)
          else bindE (py_item attrs ''URI'') (\<lambda>uri.
            let text = as_posix (c_path c);
                base = (if uri = [] then [] else take (length text - length uri) text);
                target = gm_target h base output in
            if is_file (gm_suite h) target
            then bindE (relative_to target suite) (\<lambda>rel. Inr (result (parts @ [''canonical output '' @ as_posix rel])))
            else Inr (result parts)))"

type_synonym today = "(string \<times> string) \<rightharpoonup> string"

definition guide_verdict :: "string \<Rightarrow> string option py" where
  "guide_verdict kind = py_item [''valid'' \<mapsto> Some ''ACCEPT'', ''invalid'' \<mapsto> Some ''ACCEPT'', ''not-wf'' \<mapsto> Some ''REJECT'', ''error'' \<mapsto> None] kind"

definition ENGINES :: "string list" where
  "ENGINES = [''Finalized'', ''FinalizedAssertions'']"

definition engine_problem :: "case_ \<Rightarrow> today \<Rightarrow> string \<Rightarrow> string list" where
  "engine_problem c today e =
     (let status = py_get today (e, c_id c) ''missing''; want = (if c_skip_reason c \<noteq> [] then ''skipped'' else ''passed'') in
      if status \<noteq> want then [e @ '': '' @ status @ '', want '' @ want] else [])"

definition review :: "case_ \<Rightarrow> today \<Rightarrow> string py" where
  "review c today = bindE (guide_verdict (c_kind c)) (\<lambda>rule.
     let problems = (case rule of None \<Rightarrow> [] | Some r \<Rightarrow>
             if c_expected c \<noteq> r then [''expected '' @ c_expected c @ '', guide says '' @ r] else [])
           @ (if c_kind c = ''error'' \<and> c_skip_reason c = [] then [''error case counted''] else [])
           @ concat (map (engine_problem c today) ENGINES) in
     Inr (if problems = [] then ''ok'' else join ''; '' problems))"

definition row_of_case :: "manifest_host \<Rightarrow> (string \<rightharpoonup> attributes) \<Rightarrow> path \<Rightarrow> today \<Rightarrow> string \<times> case_ \<Rightarrow> corpus_row py" where
  "row_of_case h captured suite today t = (case t of (category, c) \<Rightarrow>
     bindE (py_item captured (c_id c)) (\<lambda>attrs.
     bindE (relative_to (c_path c) suite) (\<lambda>rel_path. let rel = as_posix rel_path in
     bindE (sha256_of h (c_path c)) (\<lambda>digest.
     bindE (gm_size h (c_path c)) (\<lambda>size.
     bindE (dependencies h c attrs suite) (\<lambda>depends.
     bindE (review c today) (\<lambda>verdict.
     Inr \<lparr>mn_id = c_id c, mn_category = category, mn_collection = hd (split_on CHR ''/'' rel), mn_path = rel,
       mn_sha256 = digest, mn_bytes = size, mn_type = c_kind c,
       mn_expected = (if c_skip_reason c = [] then c_expected c else ''('' @ c_expected c @ '')''),
       mn_counted = (if c_skip_reason c \<noteq> [] then ''no'' else ''yes''), mn_skip_reason = c_skip_reason c,
       mn_recommendation = py_get attrs ''RECOMMENDATION'' ''XML1.0'', mn_version = py_get attrs ''VERSION'' [],
       mn_edition = py_get attrs ''EDITION'' [], mn_namespace = py_get attrs ''NAMESPACE'' ''yes'',
       mn_entities = py_get attrs ''ENTITIES'' ''none'', mn_sections = py_get attrs ''SECTIONS'' [],
       mn_dependencies = depends,
       mn_today_finalized = py_get today (''Finalized'', c_id c) ''missing'',
       mn_today_assertions = py_get today (''FinalizedAssertions'', c_id c) ''missing'',
       mn_review = verdict, mn_description = take 160 (join '' '' (py_words (c_description c)))\<rparr>)))))))"

definition write_manifest :: "manifest_host \<Rightarrow> selection \<Rightarrow> (string \<rightharpoonup> attributes) \<Rightarrow> path \<Rightarrow> today \<Rightarrow> corpus_row list manifest_run" where
  \<comment> \<open>\<open>write\<close>\<close>
  "write_manifest h order captured suite today =
     bindA (pureA (mapE (row_of_case h captured suite today) order)) (\<lambda>rows.
     bindA (pureA (gm_open h)) (\<lambda>_.
     bindA (emitA ManifestOpened) (\<lambda>_.
     bindA (pureA (raise_if (rows = []) IndexError)) (\<lambda>_.
     bindA (emitA (ManifestWritten rows)) (\<lambda>_. pureA (Inr rows))))))"

section \<open>Summary\<close>

definition SUITE_VERSION :: string where
  "SUITE_VERSION = ''20130923''"

definition SUITE_URL :: string where
  "SUITE_URL = ''https://www.w3.org/XML/Test/xmlts20130923.zip''"

definition category_line :: "corpus_row list \<Rightarrow> string \<Rightarrow> string" where
  "category_line rows category = (let g = filter (\<lambda>r. mn_category r = category) rows in
     ''| '' @ category @ '' | '' @ show_nat (length g) @ '' | '' @ show_nat (count_if (\<lambda>r. contains (mn_expected r) ''ACCEPT'') g) @ '' | ''
       @ show_nat (count_if (\<lambda>r. contains (mn_expected r) ''REJECT'') g) @ '' | ''
       @ join '', '' (sort (remdups (map mn_collection g))) @ '' |'')"

definition manifest_summary :: "corpus_row list \<Rightarrow> string \<Rightarrow> string list" where
  \<comment> \<open>\<open>summary\<close>\<close>
  "manifest_summary rows catalog_sha =
     (let counted = filter (\<lambda>r. mn_counted r = ''yes'') rows in
      [''# G01 corpus manifest: summary'', [],
       ''Generated by [`make_manifest.py`](make_manifest.py); every case in [`manifest.tsv`](manifest.tsv).'', [],
       ''| | |'', ''|---|---|'',
       ''| Suite | W3C XML Conformance Test Suite `'' @ SUITE_VERSION @ ''`, '' @ SUITE_URL @ '' |'',
       ''| Archive SHA-256 | `'' @ SUITE_SHA256 @ ''` |'',
       ''| Root catalog `xmlconf.xml` SHA-256 | `'' @ catalog_sha @ ''` |'',
       ''| Profile (runner) | '' @ PROFILE @ '' |'',
       ''| Cases | **'' @ show_nat (length rows) @ ''**: '' @ show_nat (length counted) @ '' counted, ''
         @ show_int (int (length rows) - int (length counted)) @ '' marked not counted |'',
       ''| Expected (counted) | '' @ show_nat (count_if (\<lambda>r. mn_expected r = ''ACCEPT'') counted) @ '' ACCEPT, ''
         @ show_nat (count_if (\<lambda>r. mn_expected r = ''REJECT'') counted) @ '' REJECT |'',
       ''| Review | '' @ show_nat (count_if (\<lambda>r. mn_review r = ''ok'') rows) @ '' of '' @ show_nat (length rows) @ '' `ok` |'',
       [], ''## By category'', [], ''| Category | Cases | ACCEPT | REJECT | Collections |'', ''|---|---|---|---|---|'']
      @ map (category_line rows) (fromkeys (map mn_category rows))
      @ [[], ''## By catalog type'', [], ''| Type | Cases | Counted |'', ''|---|---|---|'']
      @ map (\<lambda>(kind, n). ''| '' @ kind @ '' | '' @ show_nat n @ '' | ''
          @ show_nat (count_if (\<lambda>r. mn_type r = kind \<and> mn_counted r = ''yes'') rows) @ '' |'') (most_common (map mn_type rows))
      @ [[], ''## Today'' @ [CHR 0x27] @ ''s result (2026-10-26, both finalized builds)'', [],
         ''| `Finalized` | `FinalizedAssertions` | Cases |'', ''|---|---|---|'']
      @ map (\<lambda>((a, b), n). ''| '' @ a @ '' | '' @ b @ '' | '' @ show_nat n @ '' |'')
          (most_common (map (\<lambda>r. (mn_today_finalized r, mn_today_assertions r)) rows)))"

section \<open>Check and main\<close>

definition manifest_file :: "path \<Rightarrow> corpus_row \<Rightarrow> path" where
  \<comment> \<open>\<open>suite / r["path"]\<close>\<close>
  "manifest_file suite r = suite @ split_on CHR ''/'' (mn_path r)"

definition row_differs :: "manifest_host \<Rightarrow> path \<Rightarrow> corpus_row \<Rightarrow> bool py" where
  "row_differs h suite r =
     (if \<not> is_file (gm_suite h) (manifest_file suite r) then Inr True
      else bindE (sha256_of h (manifest_file suite r)) (\<lambda>digest. Inr (digest \<noteq> mn_sha256 r)))"

definition check_manifest :: "manifest_host \<Rightarrow> path \<Rightarrow> int py" where
  \<comment> \<open>\<open>check\<close>\<close>
  "check_manifest h suite_dir = (let suite = resolve (gm_suite h) suite_dir in
     bindE (gm_manifest h) (\<lambda>rows.
     bindE (filterE (row_differs h suite) rows) (\<lambda>bad. Inr (if bad \<noteq> [] then 1 else 0))))"

record manifest_args =
  ma_suite_dir :: path
  ma_today :: bool \<comment> \<open>whether the option is given\<close>
  ma_check :: bool

definition today_of :: "(string \<times> string \<times> string) list \<Rightarrow> today" where
  "today_of rows = map_of (rev (map (\<lambda>(e, c, status). ((e, c), status)) rows))"

definition manifest_main :: "manifest_host \<Rightarrow> manifest_args \<Rightarrow> int manifest_run" where
  "manifest_main h a =
     (if ma_check a then pureA (check_manifest h (ma_suite_dir a))
      else if \<not> ma_today a then pureA (Inl SystemExit)
      else let suite = resolve (gm_suite h) (ma_suite_dir a) in
        bindA (pureA (corpus_cases h suite)) (\<lambda>(cases, captured).
        bindA (pureA (gm_today h)) (\<lambda>today_rows. let today = today_of today_rows in
        bindA (pureA (select h cases captured suite)) (\<lambda>order.
        bindA (write_manifest h order captured suite today) (\<lambda>rows.
        bindA (pureA (sha256_of h (suite @ [''xmlconf.xml'']))) (\<lambda>catalog_sha.
        bindA (pureA (gm_write_summary h)) (\<lambda>_.
        bindA (emitA (ManifestSummary (manifest_summary rows catalog_sha))) (\<lambda>_.
        pureA (Inr 0)))))))))"

end
