(* ===== verification/Corpus_Claims.thy ===== *)
theory Corpus_Claims
  imports Corpus_Run "HOL-Library.Sublist" "HOL-Library.Multiset"
begin

text \<open>Properties of the corpus manifest.\<close>

section \<open>Even selection\<close>

lemma positions_subseq:
  "sorted_wrt (<) idx \<Longrightarrow> \<forall>i \<in> set idx. i < n \<Longrightarrow> n \<le> length xs \<Longrightarrow> subseq (map ((!) xs) idx) (take n xs)"
proof (induction idx arbitrary: n rule: rev_induct)
  case (snoc k idx)
  have k: "k < n" using snoc.prems(2) by simp
  have "subseq (map ((!) xs) idx) (take k xs)"
    using snoc.prems k by (intro snoc.IH) (auto simp: sorted_wrt_append)
  then have "subseq (map ((!) xs) idx @ [xs ! k]) (take k xs @ [xs ! k])" by (intro list_emb_append_mono) simp_all
  moreover have "take k xs @ [xs ! k] = take (Suc k) xs" using k snoc.prems(3) by (simp add: take_Suc_conv_app_nth)
  moreover have "subseq (take (Suc k) xs) (take n xs)"
    using k by (metis Suc_leI min.absorb1 prefix_imp_subseq take_is_prefix take_take)
  ultimately show ?case by (metis (no_types, lifting) list.simps(8,9) map_append subseq_order.order_trans)
qed simp

definition spread_position :: "nat \<Rightarrow> nat \<Rightarrow> nat \<Rightarrow> nat" where
  "spread_position n wanted i = i * n div wanted"

lemma spread_floor: "nat \<lfloor>of_nat i * (of_nat n / of_nat wanted :: rat)\<rfloor> = spread_position n wanted i"
proof -
  have "of_nat i * (of_nat n / of_nat wanted :: rat) = of_nat (i * n) / of_nat wanted" by simp
  then show ?thesis by (simp only: floor_divide_of_nat_eq nat_int spread_position_def)
qed

lemma spread_position_less:
  assumes "i < j" "0 < wanted" "wanted < n"
  shows "spread_position n wanted i < spread_position n wanted j"
proof -
  have "i * n + wanted \<le> Suc i * n" using assms(3) by simp
  also have "\<dots> \<le> j * n" using assms(1) by (intro mult_le_mono1) simp
  finally have "(i * n + wanted) div wanted \<le> j * n div wanted" by (rule div_le_mono)
  then show ?thesis using assms(2) by (simp add: spread_position_def)
qed

lemma spread_position_bound: "i < wanted \<Longrightarrow> wanted < n \<Longrightarrow> spread_position n wanted i < n"
  by (simp add: spread_position_def less_mult_imp_div_less)

lemma spread_Inr:
  assumes "spread items wanted = Inr ys"
  shows "subseq ys items" "length ys = min wanted (length items)"
proof -
  have "subseq ys items \<and> length ys = min wanted (length items)"
  proof (cases "length items \<le> wanted")
    case True
    then show ?thesis using assms by (simp add: spread_def)
  next
    case False
    let ?idx = "map (spread_position (length items) wanted) [0..<wanted]"
    from False assms have c: "0 < wanted" and ys: "ys = map ((!) items) ?idx"
      by (simp_all add: spread_def Let_def spread_floor comp_def del: times_divide_eq_right split: if_splits)
    have "sorted_wrt (<) ?idx"
      using spread_position_less c False by (simp add: sorted_wrt_map sorted_wrt_iff_nth_less)
    moreover have "\<forall>i \<in> set ?idx. i < length items" using spread_position_bound False by auto
    ultimately have "subseq ys (take (length items) items)" unfolding ys by (intro positions_subseq) simp_all
    then show ?thesis using False by (simp add: ys)
  qed
  then show "subseq ys items" "length ys = min wanted (length items)" by simp_all
qed

section \<open>The selection\<close>

lemma subseq_distinct_map: "subseq ys xs \<Longrightarrow> distinct (map f xs) \<Longrightarrow> distinct (map f ys)"
proof (induction rule: list_emb.induct)
  case (list_emb_Cons2 x y xs ys)
  then have "set xs \<subseteq> set ys" by (auto dest: list_emb_set)
  with list_emb_Cons2 show ?case by auto
qed auto

lemma subseq_subset: "subseq ys xs \<Longrightarrow> set ys \<subseteq> set xs"
  by (auto dest: list_emb_set)

lemma filterE_subseq: "filterE p xs = Inr ys \<Longrightarrow> subseq ys xs"
  by (induction xs arbitrary: ys) (auto simp: bindE_Inr_iff)

definition not_counted :: "string \<Rightarrow> bool" where
  "not_counted category = startswith category ''not counted: ''"

definition fair_choice :: "string \<times> case_ \<Rightarrow> bool" where
  \<comment> \<open>a case is marked as not counted exactly when the runner skips it\<close>
  "fair_choice t = (not_counted (fst t) = (c_skip_reason (snd t) \<noteq> []))"

definition good_selection :: "case_ list \<Rightarrow> selection \<Rightarrow> bool" where
  "good_selection cases order = (distinct (map (c_id \<circ> snd) order) \<and> set (map snd order) \<subseteq> set cases \<and> list_all fair_choice order)"

lemma take_from_good:
  assumes "take_from category pool wanted order = Inr order'" "good_selection cases order"
    and "distinct (map c_id pool)" "set pool \<subseteq> set cases" "\<forall>c \<in> set pool. fair_choice (category, c)"
  shows "good_selection cases order' \<and> length order' \<le> length order + wanted"
proof -
  from assms(1) obtain chosen where
    s: "spread (filter (not_chosen order) pool) wanted = Inr chosen" and o': "order' = order @ map (Pair category) chosen"
    by (auto simp: take_from_def bindE_Inr_iff)
  note sub = spread_Inr(1) [OF s] and len = spread_Inr(2) [OF s]
  have set: "set chosen \<subseteq> {c \<in> set pool. not_chosen order c}" using subseq_subset [OF sub] by auto
  have "distinct (map c_id (filter (not_chosen order) pool))" using assms(3) by (simp add: distinct_map_filter)
  then have "distinct (map c_id chosen)" by (rule subseq_distinct_map [OF sub])
  moreover have "set (map (c_id \<circ> snd) order) \<inter> set (map c_id chosen) = {}"
    using set by (force simp: not_chosen_def py_in_def)
  ultimately have "good_selection cases order'"
    using assms(2,4,5) set by (auto simp: good_selection_def o' comp_def list_all_iff)
  moreover have "length chosen \<le> wanted" using len by simp
  ultimately show ?thesis by (simp add: o')
qed

lemma foldE_good:
  assumes "foldE f xs order = Inr order'" "good_selection cases order"
    and "\<And>x order order'. x \<in> set xs \<Longrightarrow> good_selection cases order \<Longrightarrow> f x order = Inr order'
      \<Longrightarrow> good_selection cases order' \<and> length order' \<le> length order + w x"
  shows "good_selection cases order' \<and> length order' \<le> length order + sum_list (map w xs)"
  using assms
proof (induction xs arbitrary: order)
  case (Cons x xs)
  from Cons.prems(1) obtain mid where m: "f x order = Inr mid" "foldE f xs mid = Inr order'" by (auto simp: bindE_Inr_iff)
  have g: "good_selection cases mid \<and> length mid \<le> length order + w x" by (rule Cons.prems(3)) (use Cons.prems(2) m(1) in simp_all)
  have "good_selection cases order' \<and> length order' \<le> length mid + sum_list (map w xs)"
    by (rule Cons.IH [OF m(2)]) (use g Cons.prems(3) in auto)
  with g show ?case by simp
qed simp

lemma in_filter_distinct: "distinct (map f xs) \<Longrightarrow> distinct (map f (filter p xs))"
  by (simp add: distinct_map_filter)

lemma categories_counted: "list_all (\<lambda>q. \<not> not_counted (qu_category q)) CATEGORIES"
  by code_simp

lemma take_category_good:
  assumes "q \<in> set CATEGORIES" "good_selection cases order" "distinct (map c_id cases)"
    and "take_category h captured suite cases q order = Inr order'"
  shows "good_selection cases order' \<and> length order' \<le> length order + (qu_accept q + qu_reject q)"
proof -
  from assms(4) obtain pool mid where p: "filterE (in_category h captured suite q) (applicable cases) = Inr pool"
    and a: "take_from (qu_category q) (filter (\<lambda>c. c_expected c = ''ACCEPT'') pool) (qu_accept q) order = Inr mid"
    and r: "take_from (qu_category q) (filter (\<lambda>c. c_expected c = ''REJECT'') pool) (qu_reject q) mid = Inr order'"
    by (auto simp: take_category_def bindE_Inr_iff)
  have "distinct (map c_id (applicable cases))" using assms(3) by (simp add: applicable_def distinct_map_filter)
  then have d: "distinct (map c_id pool)" by (rule subseq_distinct_map [OF filterE_subseq [OF p]])
  have "set pool \<subseteq> set (applicable cases)" by (rule subseq_subset [OF filterE_subseq [OF p]])
  then have s: "set pool \<subseteq> set cases" "\<forall>c \<in> set pool. c_skip_reason c = []" by (auto simp: applicable_def)
  have c: "\<not> not_counted (qu_category q)" using assms(1) categories_counted by (auto simp: list_all_iff)
  have "good_selection cases mid \<and> length mid \<le> length order + qu_accept q"
    by (rule take_from_good [OF a assms(2)]) (use d s c in \<open>auto simp: fair_choice_def distinct_map_filter\<close>)
  moreover from this have "good_selection cases order' \<and> length order' \<le> length mid + qu_reject q"
    by (intro take_from_good [OF r]) (use d s c in \<open>auto simp: fair_choice_def distinct_map_filter\<close>)
  ultimately show ?thesis by simp
qed

lemma by_size_distinct:
  assumes "distinct (map c_id (map fst sized))"
  shows "distinct (map c_id (by_size sized))" "set (by_size sized) = set (map fst sized)"
proof -
  have "mset (map c_id (by_size sized)) = mset (map c_id (map fst sized))" by (simp add: by_size_def)
  then show "distinct (map c_id (by_size sized))" using assms mset_eq_imp_distinct_iff by metis
  show "set (by_size sized) = set (map fst sized)" by (simp add: by_size_def)
qed

lemma skip_markers: "list_all (\<lambda>(category, marker, n). marker \<noteq> []) NOT_COUNTED"
  by (simp add: NOT_COUNTED_def)

lemma contains_Nil: "contains [] needle \<longleftrightarrow> needle = []"
  by (auto simp: contains_def startswith_def)

lemma other_categories: "\<not> not_counted ''invalid''" "\<not> not_counted ''largest''" "not_counted (''not counted: '' @ category)"
  by (simp_all add: not_counted_def) (simp_all add: startswith_def)

lemma take_not_counted_good:
  assumes "t \<in> set NOT_COUNTED" "good_selection cases order" "distinct (map c_id cases)"
    and "take_not_counted cases t order = Inr order'"
  shows "good_selection cases order' \<and> length order' \<le> length order + snd (snd t)"
proof -
  obtain category marker n where t: "t = (category, marker, n)" by (cases t)
  have "marker \<noteq> []" using assms(1) skip_markers by (auto simp: t list_all_iff)
  then have skipped: "\<forall>c \<in> set (filter (\<lambda>c. contains (c_skip_reason c) marker) cases). c_skip_reason c \<noteq> []"
    by (auto simp: contains_Nil)
  have taken: "take_from (''not counted: '' @ category) (filter (\<lambda>c. contains (c_skip_reason c) marker) cases) n order = Inr order'"
    using assms(4) by (simp only: t take_not_counted_def prod.case)
  have "good_selection cases order' \<and> length order' \<le> length order + n"
  proof (rule take_from_good [OF taken assms(2)])
    show "distinct (map c_id (filter (\<lambda>c. contains (c_skip_reason c) marker) cases))" using assms(3) by (simp add: distinct_map_filter)
    show "\<forall>c \<in> set (filter (\<lambda>c. contains (c_skip_reason c) marker) cases). fair_choice (''not counted: '' @ category, c)"
      using skipped by (simp only: fair_choice_def fst_conv snd_conv other_categories) blast
  qed simp
  then show ?thesis by (simp add: t)
qed

definition quota_total :: nat where
  \<comment> \<open>what the quotas add up to\<close>
  "quota_total = sum_list (map (\<lambda>q. qu_accept q + qu_reject q) CATEGORIES) + INVALID_QUOTA + LARGEST_QUOTA
     + sum_list (map (snd \<circ> snd) NOT_COUNTED)"

lemma select_good:
  assumes "select h cases captured suite = Inr order" "distinct (map c_id cases)"
  shows "good_selection cases order \<and> length order \<le> quota_total"
proof -
  let ?invalid = "filter (\<lambda>c. c_kind c = ''invalid'') (applicable cases)"
  from assms(1) obtain o1 o2 o3 sized where
    c: "foldE (take_category h captured suite cases) CATEGORIES [] = Inr o1"
    and i: "take_from ''invalid'' ?invalid INVALID_QUOTA o1 = Inr o2"
    and z: "mapE (\<lambda>c. bindE (gm_size h (c_path c)) (\<lambda>n. Inr (c, n))) (applicable cases) = Inr sized"
    and l: "take_from ''largest'' (take (LARGEST_QUOTA * 3) (by_size sized)) LARGEST_QUOTA o2 = Inr o3"
    and n: "foldE (take_not_counted cases) NOT_COUNTED o3 = Inr order"
    by (auto simp: select_def bindE_Inr_iff)
  have app: "distinct (map c_id (applicable cases))" "set (applicable cases) \<subseteq> set cases" "\<forall>c \<in> set (applicable cases). c_skip_reason c = []"
    using assms(2) by (auto simp: applicable_def distinct_map_filter)
  have g1: "good_selection cases o1 \<and> length o1 \<le> length ([] :: selection) + sum_list (map (\<lambda>q. qu_accept q + qu_reject q) CATEGORIES)"
  proof (rule foldE_good [OF c])
    show "good_selection cases []" by (simp add: good_selection_def)
  qed (rule take_category_good [OF _ _ assms(2)])
  have g2: "good_selection cases o2 \<and> length o2 \<le> length o1 + INVALID_QUOTA"
    by (rule take_from_good [OF i]) (use g1 app in \<open>auto simp: fair_choice_def other_categories distinct_map_filter\<close>)
  have sized: "map fst sized = applicable cases"
  proof -
    have "list_all2 (\<lambda>c p. fst p = c) (applicable cases) sized"
      using z unfolding mapE_Inr_iff by (rule list_all2_mono) (auto simp: bindE_Inr_iff)
    then show ?thesis by (induction rule: list_all2_induct) auto
  qed
  have "distinct (map c_id (by_size sized))" "set (by_size sized) = set (applicable cases)"
    using by_size_distinct [of sized] app(1) by (simp_all only: sized)
  then have big: "distinct (map c_id (take m (by_size sized)))" "set (take m (by_size sized)) \<subseteq> set (applicable cases)" for m
    by (auto simp: take_map [symmetric] dest: in_set_takeD)
  have g3: "good_selection cases o3 \<and> length o3 \<le> length o2 + LARGEST_QUOTA"
  proof (rule take_from_good [OF l _ big(1)])
    show "set (take (LARGEST_QUOTA * 3) (by_size sized)) \<subseteq> set cases" using big(2) app(2) by (rule subset_trans)
    show "\<forall>c \<in> set (take (LARGEST_QUOTA * 3) (by_size sized)). fair_choice (''largest'', c)"
      using subsetD [OF big(2)] app(3) by (simp only: fair_choice_def fst_conv snd_conv other_categories) blast
  qed (use g2 in blast)
  have "good_selection cases order \<and> length order \<le> length o3 + sum_list (map (snd \<circ> snd) NOT_COUNTED)"
  proof (rule foldE_good [OF n])
    show "good_selection cases o3" using g3 by blast
    fix t o' o'' assume "t \<in> set NOT_COUNTED" "good_selection cases o'" "take_not_counted cases t o' = Inr o''"
    then show "good_selection cases o'' \<and> length o'' \<le> length o' + (snd \<circ> snd) t"
      using take_not_counted_good assms(2) by simp
  qed
  with g1 g2 g3 show ?thesis by (auto simp: quota_total_def)
qed

text \<open>
  \<open>spread\<close> takes as many items as asked for, or all of them, and takes them in their order: the result is a
  subsequence of the items, so no item is taken twice.
\<close>

theorem spread_even:
  assumes "spread items n = Inr chosen"
  shows "subseq chosen items \<and> length chosen = min n (length items)"
  using spread_Inr [OF assms] by simp

theorem spread_even_witness:
  "spread [1, 2, 3, 4, 5, 6, 7 :: int] 3 = Inr [1, 3, 5] \<and> subseq [1, 3, 5] [1, 2, 3, 4, 5, 6, 7 :: int]"
proof -
  have "spread [1, 2, 3, 4, 5, 6, 7 :: int] 3 = Inr [1, 3, 5]" by code_simp
  with spread_even [OF this] show ?thesis by blast
qed

text \<open>
  C26. The corpus is a fair selection whatever the catalog: only cases of the loaded catalog, no case twice, a case is
  marked as not counted exactly when the runner does not run it, and at most 93 cases, within the 50 to 100 the script
  announces.
\<close>

theorem corpus_selection_sound:
  assumes "corpus_cases h suite = Inr (cases, captured)" "select h cases captured suite = Inr order"
  shows "distinct (map (c_id \<circ> snd) order) \<and> set (map snd order) \<subseteq> set cases \<and> list_all fair_choice order \<and> length order \<le> 93"
proof -
  from assms(1) have "load_catalog (gm_suite h) suite (gm_tree h) = Inr cases" by (auto simp: corpus_cases_def bindE_Inr_iff)
  then have "distinct (map c_id cases)" using load_catalog_inv(1) by (auto simp: catalog_inv_def)
  note select_good [OF assms(2) this]
  moreover have "quota_total = 93" by code_simp
  ultimately show ?thesis by (simp add: good_selection_def)
qed

definition corpus_sample :: manifest_host where
  "corpus_sample = \<lparr>gm_suite = sample_host, gm_tree = sample_tree, gm_bytes = (\<lambda>p. Inr (concat p)), gm_size = (\<lambda>p. Inr (int (length p))),
     gm_sha = (\<lambda>content. ''sha:'' @ content), gm_target = (\<lambda>base name. [base, name]), gm_today = Inr [], gm_manifest = Inr [], gm_open = Inr (),
     gm_write_summary = Inr ()\<rparr>"

lemma corpus_sample_cases: "corpus_cases corpus_sample [''suite''] = Inr (sample_cases, captured_attributes sample_tree)"
  using sample_load by (simp add: corpus_cases_def corpus_sample_def)

definition corpus_sample_order :: selection where
  "corpus_sample_order = [(''largest'', hd sample_cases), (''not counted: other edition'', sample_cases ! 1)]"

lemma corpus_sample_select:
  "select corpus_sample sample_cases (captured_attributes sample_tree) [''suite''] = Inr corpus_sample_order"
  by code_simp

theorem corpus_selection_sound_witness:
  "distinct (map (c_id \<circ> snd) corpus_sample_order) \<and> length corpus_sample_order \<le> 93"
  using corpus_selection_sound [OF corpus_sample_cases corpus_sample_select] by blast

section \<open>The manifest on another machine\<close>

definition row_present :: "manifest_host \<Rightarrow> path \<Rightarrow> corpus_row \<Rightarrow> bool" where
  \<comment> \<open>the file of the row is there with the recorded hash\<close>
  "row_present h suite r = (is_file (gm_suite h) (manifest_file suite r) \<and> sha256_of h (manifest_file suite r) = Inr (mn_sha256 r))"

lemma row_differs_False: "row_differs h suite r = Inr False \<longleftrightarrow> row_present h suite r"
  by (cases "sha256_of h (manifest_file suite r)") (auto simp: row_differs_def row_present_def)

lemma check_manifest_0:
  "check_manifest h suite_dir = Inr 0 \<longleftrightarrow> (\<exists>rows. gm_manifest h = Inr rows \<and> list_all (row_present h (resolve (gm_suite h) suite_dir)) rows)"
proof (cases "gm_manifest h")
  case (Inr rows)
  let ?d = "row_differs h (resolve (gm_suite h) suite_dir)"
  have "check_manifest h suite_dir = Inr 0 \<longleftrightarrow> filterE ?d rows = Inr []"
    by (cases "filterE ?d rows") (simp_all add: check_manifest_def Let_def Inr)
  also have "\<dots> \<longleftrightarrow> list_all (row_present h (resolve (gm_suite h) suite_dir)) rows"
    by (simp add: filterE_Nil_iff row_differs_False list_all_iff)
  finally show ?thesis by (simp add: Inr)
qed (simp add: check_manifest_def)

text \<open>
  The check of a manifest is exact: it ends with 0 exactly when every file the manifest names is there with the
  recorded SHA-256, and otherwise with 1 or the error of a file it could not read.
\<close>

theorem check_manifest_exact:
  "(check_manifest h suite_dir = Inr 0)
     = (case gm_manifest h of Inl e \<Rightarrow> False | Inr rows \<Rightarrow> list_all (row_present h (resolve (gm_suite h) suite_dir)) rows)
   \<and> (case check_manifest h suite_dir of Inl e \<Rightarrow> True | Inr n \<Rightarrow> n \<in> {0, 1})"
proof
  show "(check_manifest h suite_dir = Inr 0)
     = (case gm_manifest h of Inl e \<Rightarrow> False | Inr rows \<Rightarrow> list_all (row_present h (resolve (gm_suite h) suite_dir)) rows)"
    unfolding check_manifest_0 by (cases "gm_manifest h") simp_all
  show "case check_manifest h suite_dir of Inl e \<Rightarrow> True | Inr n \<Rightarrow> n \<in> {0, 1}"
    by (auto simp: check_manifest_def Let_def bindE_def split: sum.splits)
qed

definition plain_name :: "string \<Rightarrow> bool" where
  "plain_name s \<longleftrightarrow> CHR ''/'' \<notin> set s"

definition copied_case :: "manifest_host \<Rightarrow> path \<Rightarrow> manifest_host \<Rightarrow> path \<Rightarrow> case_ \<Rightarrow> bool" where
  \<comment> \<open>the other suite has a file with the same bytes at the same place below its directory\<close>
  "copied_case h suite h' suite' c = (let rel = drop (length suite) (c_path c) in
     rel \<noteq> [] \<and> list_all plain_name rel \<and> is_file (gm_suite h') (suite' @ rel)
     \<and> gm_bytes h' (suite' @ rel) = gm_bytes h (c_path c))"

lemma as_posix_split: "rel \<noteq> [] \<Longrightarrow> list_all plain_name rel \<Longrightarrow> split_on CHR ''/'' (as_posix rel) = rel"
  using split_on_join [of rel "CHR ''/''"] by (simp add: as_posix_def plain_name_def list_all_iff)

lemma row_of_case_Inr:
  assumes "row_of_case h captured suite today (category, c) = Inr r"
  shows "mn_id r = c_id c" "mn_category r = category" "is_relative_to (c_path c) suite"
    "mn_path r = as_posix (drop (length suite) (c_path c))" "sha256_of h (c_path c) = Inr (mn_sha256 r)"
  using assms by (auto simp: row_of_case_def Let_def bindE_Inr_iff relative_to_def split: if_splits)

lemma written_row_present:
  assumes "row_of_case h captured suite today (category, c) = Inr r" "copied_case h suite h' suite' c" "gm_sha h' = gm_sha h"
  shows "row_present h' suite' r"
proof -
  let ?rel = "drop (length suite) (c_path c)"
  note R = row_of_case_Inr [OF assms(1)]
  have f: "manifest_file suite' r = suite' @ ?rel"
    using assms(2) by (simp add: manifest_file_def R(4) copied_case_def Let_def as_posix_split)
  have "sha256_of h' (suite' @ ?rel) = sha256_of h (c_path c)"
    using assms(2,3) by (simp add: sha256_of_def copied_case_def Let_def)
  then show ?thesis using assms(2) R(5) by (simp add: row_present_def f copied_case_def Let_def)
qed

lemma write_manifest_Inr:
  assumes "write_manifest h order captured suite today = (evs, Inr rows)"
  shows "mapE (row_of_case h captured suite today) order = Inr rows" "evs = [ManifestOpened, ManifestWritten rows]"
  using assms unfolding write_manifest_def bindA_Inr_iff pureA_Inr_iff emitA_iff by auto

lemma manifest_main_Inr:
  assumes "manifest_main h a = (evs, Inr n)" "\<not> ma_check a"
  obtains cases captured today order rows where
    "corpus_cases h (resolve (gm_suite h) (ma_suite_dir a)) = Inr (cases, captured)"
    "select h cases captured (resolve (gm_suite h) (ma_suite_dir a)) = Inr order"
    "mapE (row_of_case h captured (resolve (gm_suite h) (ma_suite_dir a)) today) order = Inr rows"
    "\<And>rows'. ManifestWritten rows' \<in> set evs \<Longrightarrow> rows' = rows"
proof -
  let ?suite = "resolve (gm_suite h) (ma_suite_dir a)"
  from assms have today: "ma_today a" by (cases "ma_today a") (simp_all add: manifest_main_def)
  from assms today obtain cases captured today_rows order rows evs' sha where
    c: "corpus_cases h ?suite = Inr (cases, captured)" and s: "select h cases captured ?suite = Inr order"
    and w: "write_manifest h order captured ?suite (today_of today_rows) = (evs', Inr rows)"
    and e: "evs = evs' @ [ManifestSummary (manifest_summary rows sha)]"
    unfolding manifest_main_def Let_def if_not_P [OF assms(2)] by (simp add: bindA_Inr_iff case_prod_beta) blast
  have "rows' = rows" if "ManifestWritten rows' \<in> set evs" for rows'
    using that write_manifest_Inr(2) [OF w] e by simp
  from that [OF c s write_manifest_Inr(1) [OF w] this] show thesis .
qed

text \<open>
  C27. A manifest that was written can be checked on another machine: on any copy of the suite, wherever it lies, that
  has the selected files with the same bytes, the check of the written rows ends with 0.
\<close>

theorem manifest_roundtrip:
  assumes "manifest_main h a = (evs, Inr n)" "\<not> ma_check a" "ManifestWritten rows \<in> set evs"
    and "corpus_cases h (resolve (gm_suite h) (ma_suite_dir a)) = Inr (cases, captured)"
    and "list_all (copied_case h (resolve (gm_suite h) (ma_suite_dir a)) h' (resolve (gm_suite h') suite_dir)) cases"
    and "gm_sha h' = gm_sha h" "gm_manifest h' = Inr rows"
  shows "check_manifest h' suite_dir = Inr 0"
  using assms(1,2)
proof (rule manifest_main_Inr)
  fix cases' captured' today order rows'
  let ?suite = "resolve (gm_suite h) (ma_suite_dir a)"
  assume c: "corpus_cases h ?suite = Inr (cases', captured')" and s: "select h cases' captured' ?suite = Inr order"
    and m: "mapE (row_of_case h captured' ?suite today) order = Inr rows'"
    and w: "\<And>rows''. ManifestWritten rows'' \<in> set evs \<Longrightarrow> rows'' = rows'"
  have same: "cases' = cases" "captured' = captured" "rows' = rows" using c assms(4) w [OF assms(3)] by simp_all
  have "set (map snd order) \<subseteq> set cases"
  proof -
    from c have "load_catalog (gm_suite h) ?suite (gm_tree h) = Inr cases'" by (auto simp: corpus_cases_def bindE_Inr_iff)
    then have "distinct (map c_id cases')" using load_catalog_inv(1) by (auto simp: catalog_inv_def)
    from select_good [OF s this] show ?thesis by (simp add: good_selection_def same)
  qed
  then have "copied_case h ?suite h' (resolve (gm_suite h') suite_dir) (snd t)" if "t \<in> set order" for t
    using that assms(5) by (auto simp: list_all_iff)
  then have "row_present h' (resolve (gm_suite h') suite_dir) r" if "r \<in> set rows" for r
  proof -
    have "r \<in> set rows'" using that same(3) by simp
    from mapE_right [OF m this] obtain t where t: "t \<in> set order" "row_of_case h captured' ?suite today t = Inr r" by blast
    moreover have "t = (fst t, snd t)" by simp
    ultimately show ?thesis using written_row_present [OF _ _ assms(6), of captured' ?suite today "fst t" "snd t" r]
        \<open>\<And>t. t \<in> set order \<Longrightarrow> copied_case h ?suite h' (resolve (gm_suite h') suite_dir) (snd t)\<close> by simp
  qed
  then show ?thesis unfolding check_manifest_0 using assms(7) by (simp add: list_all_iff)
qed

definition corpus_sample_args :: manifest_args where
  "corpus_sample_args = \<lparr>ma_suite_dir = [''suite''], ma_today = True, ma_check = False\<rparr>"

definition sample_manifest :: "corpus_row list" where
  "sample_manifest = (case mapE (row_of_case corpus_sample (captured_attributes sample_tree) [''suite''] (today_of [])) corpus_sample_order of
     Inr rows \<Rightarrow> rows | Inl e \<Rightarrow> [])"

lemma sample_manifest_rows:
  "mapE (row_of_case corpus_sample (captured_attributes sample_tree) [''suite''] (today_of [])) corpus_sample_order = Inr sample_manifest
   \<and> length sample_manifest = 2"
  by code_simp

lemma sample_manifest_main: "\<exists>evs. manifest_main corpus_sample corpus_sample_args = (evs, Inr 0) \<and> ManifestWritten sample_manifest \<in> set evs"
proof -
  have h: "resolve (gm_suite corpus_sample) (ma_suite_dir corpus_sample_args) = [''suite'']" "gm_today corpus_sample = Inr []"
    "gm_open corpus_sample = Inr ()" "gm_write_summary corpus_sample = Inr ()" "gm_bytes corpus_sample = (\<lambda>p. Inr (concat p))"
    "\<not> ma_check corpus_sample_args" "ma_today corpus_sample_args"
    by (simp_all add: corpus_sample_def corpus_sample_args_def sample_host_def)
  have "sample_manifest \<noteq> []" using sample_manifest_rows by auto
  with corpus_sample_cases corpus_sample_select sample_manifest_rows show ?thesis
    by (simp add: manifest_main_def write_manifest_def h Let_def bindA_def pureA_def emitA_def sha256_of_def)
qed

definition moved_sample :: manifest_host where
  \<comment> \<open>the suite under another directory of another machine\<close>
  "moved_sample = corpus_sample\<lparr>gm_bytes := (\<lambda>p. Inr (concat (''suite'' # drop 2 p))), gm_manifest := Inr sample_manifest\<rparr>"

theorem manifest_roundtrip_witness: "check_manifest moved_sample [''other'', ''place''] = Inr 0"
proof -
  obtain evs where m: "manifest_main corpus_sample corpus_sample_args = (evs, Inr 0)" "ManifestWritten sample_manifest \<in> set evs"
    using sample_manifest_main by blast
  have r: "resolve (gm_suite corpus_sample) (ma_suite_dir corpus_sample_args) = [''suite'']"
    by (simp add: corpus_sample_def corpus_sample_args_def sample_host_def)
  have n: "\<not> ma_check corpus_sample_args" by (simp add: corpus_sample_args_def)
  have c: "list_all (copied_case corpus_sample [''suite''] moved_sample (resolve (gm_suite moved_sample) [''other'', ''place''])) sample_cases"
    by (simp add: copied_case_def sample_cases_def moved_sample_def corpus_sample_def sample_host_def plain_name_def)
  have g: "gm_sha moved_sample = gm_sha corpus_sample" "gm_manifest moved_sample = Inr sample_manifest" by (simp_all add: moved_sample_def)
  show ?thesis
    by (rule manifest_roundtrip [OF m(1) n m(2), unfolded r, OF corpus_sample_cases c g])
qed

end
