(* ===== verification/Baseline_Rescore.thy ===== *)
theory Baseline_Rescore
  imports W3C_Catalog Report_Tables
begin

text \<open>
  The re-scored baseline, \<open>student/results/xmlconf-verdicts/rescore.py\<close>: the observations of an older run
  scored with the rules of \<open>scripts/run_w3c_conformance.py\<close>, beside the status of today's run. A row has every
  column the script reads; reading and writing the TSV files is the \<open>csv\<close> library's.
\<close>

section \<open>Rows\<close>

record baseline_row =
  bl_id :: string
  bl_type :: string
  bl_entities :: string
  bl_observed :: string
  bl_expected :: string
  bl_result :: string
  bl_message :: string

record scored_row =
  sr_id :: string
  sr_type :: string
  sr_entities :: string
  sr_observed :: string
  sr_old_expected :: string
  sr_old_result :: string
  sr_new_expected :: string
  sr_skip_reason :: string
  sr_new_result :: string
  sr_today_finalized :: string
  sr_today_assertions :: string

record today_row =
  td_engine :: string
  td_case_id :: string
  td_status :: string

definition CRASH_MARKERS :: "string list" where
  "CRASH_MARKERS = [''system execution failed'', ''iolated'']"

definition is_crash :: "baseline_row \<Rightarrow> bool" where
  "is_crash row = list_ex (contains (bl_message row)) CRASH_MARKERS"

definition classify_observation :: "baseline_row \<Rightarrow> case_ option \<Rightarrow> string" where
  \<comment> \<open>\<open>classify\<close>\<close>
  "classify_observation row found = (case found of
      None \<Rightarrow> ''not in catalog''
    | Some c \<Rightarrow>
        if c_skip_reason c \<noteq> [] then ''skipped''
        else if is_crash row then ''crash''
        else if upper (bl_observed row) = c_expected c then ''pass'' else ''fail'')"

type_synonym statuses = "((string \<times> string) \<times> string) list"

definition today_statuses :: "today_row list \<Rightarrow> statuses" where
  "today_statuses rows = map (\<lambda>(k, r). (k, td_status r)) (keyed (\<lambda>r. (td_engine r, td_case_id r)) rows)"

definition score_row :: "(string \<rightharpoonup> case_) \<Rightarrow> statuses \<Rightarrow> baseline_row \<Rightarrow> scored_row" where
  "score_row cases today row = (let found = cases (bl_id row) in
     \<lparr>sr_id = bl_id row, sr_type = bl_type row, sr_entities = or_text (bl_entities row) ''none'',
      sr_observed = upper (bl_observed row), sr_old_expected = upper (bl_expected row),
      sr_old_result = (if is_crash row then ''crash-'' else []) @ lower (bl_result row),
      sr_new_expected = (case found of None \<Rightarrow> [] | Some c \<Rightarrow> c_expected c),
      sr_skip_reason = (case found of None \<Rightarrow> ''not in catalog'' | Some c \<Rightarrow> c_skip_reason c),
      sr_new_result = classify_observation row found,
      sr_today_finalized = py_get (map_of today) (''Finalized'', bl_id row) ''-'',
      sr_today_assertions = py_get (map_of today) (''FinalizedAssertions'', bl_id row) ''-''\<rparr>)"

definition score_rows :: "baseline_row list \<Rightarrow> (string \<rightharpoonup> case_) \<Rightarrow> statuses \<Rightarrow> scored_row list" where
  "score_rows baseline cases today = map (score_row cases today) baseline"

section \<open>The summary\<close>

fun remove_all :: "nat \<Rightarrow> string \<Rightarrow> string \<Rightarrow> string" where
  \<comment> \<open>\<open>s.replace(part, "")\<close> for a part that is not empty, with the characters of a match still to drop\<close>
  "remove_all n part [] = []"
| "remove_all 0 part (c # s) = (if startswith (c # s) part then remove_all (length part - 1) part s else c # remove_all 0 part s)"
| "remove_all (Suc n) part (c # s) = remove_all n part s"

definition old_verdict :: "scored_row \<Rightarrow> string" where
  "old_verdict r = remove_all 0 ''crash-'' (sr_old_result r)"

definition two_columns :: "string \<Rightarrow> (string \<times> nat) list \<Rightarrow> string list" where
  "two_columns header counts = [header, ''|---|---|''] @ map (\<lambda>(k, v). ''| '' @ k @ '' | '' @ commas v @ '' |'') counts"

definition sorted_counts :: "string list list \<Rightarrow> (string list \<times> nat) list" where
  \<comment> \<open>\<open>sorted(Counter(keys).items())\<close>, tuples of equal length as lists\<close>
  "sorted_counts keys = map (\<lambda>k. (k, count_if (\<lambda>y. y = k) keys)) (sort (remdups keys))"

definition wide_table :: "string \<Rightarrow> string \<Rightarrow> (string list \<times> nat) list \<Rightarrow> string list" where
  "wide_table header separator counts =
     [header, separator] @ map (\<lambda>(k, v). ''| '' @ join '' | '' k @ '' | '' @ commas v @ '' |'') counts"

definition failed_before :: "scored_row list \<Rightarrow> scored_row list" where
  "failed_before rows = filter (\<lambda>r. endswith (sr_old_result r) ''fail'') rows"

definition real_problems :: "scored_row list \<Rightarrow> scored_row list" where
  "real_problems rows = filter (\<lambda>r. py_in (sr_new_result r) [''fail'', ''crash'']) rows"

definition not_in_old :: "(string \<times> case_) list \<Rightarrow> scored_row list \<Rightarrow> string list" where
  "not_in_old cases rows = sort (filter (\<lambda>i. \<not> py_in i (map sr_id rows)) (map fst cases))"

definition score_table :: "scored_row list \<Rightarrow> string list" where
  "score_table rows =
     (let old = (\<lambda>k. commas (count_if (\<lambda>r. old_verdict r = k) rows)); new = (\<lambda>k. commas (count_if (\<lambda>r. sr_new_result r = k) rows)) in
      [''| Score | Old rules (`run_xmlconf_conformance.ps1`) | Runner'' @ [CHR 0x27] @ ''s rules (`run_w3c_conformance.py`) |'',
       ''|---|---|---|'',
       ''| pass | '' @ old ''pass'' @ '' | '' @ new ''pass'' @ '' |'',
       ''| fail | '' @ old ''fail'' @ '' | '' @ new ''fail'' @ '' |'',
       ''| crash (counted separately) | not separated: '' @ show_int (int (count_if (\<lambda>r. startswith (sr_old_result r) ''crash-'') rows))
         @ '' crashes inside pass/fail | '' @ new ''crash'' @ '' |'',
       ''| skipped (out of profile) | 0 | '' @ new ''skipped'' @ '' |'',
       ''| not in the catalog | 0 | '' @ new ''not in catalog'' @ '' |'',
       ''| **total** | **'' @ commas (sum_list (map snd (most_common (map old_verdict rows)))) @ ''** | **''
         @ commas (sum_list (map snd (most_common (map sr_new_result rows)))) @ ''** |''])"

definition rule_of_missing :: "(string \<times> case_) list \<Rightarrow> string \<Rightarrow> string" where
  "rule_of_missing cases i = (case map_of cases i of None \<Rightarrow> [] | Some c \<Rightarrow> or_text (c_skip_reason c) ''applicable'')"

definition rescore_summary :: "scored_row list \<Rightarrow> (string \<times> case_) list \<Rightarrow> statuses \<Rightarrow> string list" where
  \<comment> \<open>\<open>summary_lines\<close>\<close>
  "rescore_summary rows cases today =
     (let fails = failed_before rows; real = real_problems rows; missing = not_in_old cases rows; apostrophe = [CHR 0x27] in
      [''# xmlconf verdict rules: the 2026-10-14 baseline re-scored'', [],
       ''Generated by [`rescore.py`](rescore.py); per case: [`cases.tsv`](cases.tsv).'', [],
       ''## 1. Old rules vs the runner'' @ apostrophe @ ''s rules, same observations'', [],
       ''The 2026-10-14 run observed '' @ commas (length rows) @ '' cases (workbench `xpact.exe`, assertions on).'', []]
      @ score_table rows
      @ [[], ''## 2. Where the '' @ commas (length fails) @ '' old failures go'', []]
      @ two_columns (''| Under the runner'' @ apostrophe @ ''s rules | Cases |'') (most_common (map sr_new_result fails))
      @ [[], ''By catalog type (old result -> new result):'', []]
      @ wide_table ''| Type | Old | New | Cases |'' ''|---|---|---|---|''
          (sorted_counts (map (\<lambda>r. [sr_type r, old_verdict r, sr_new_result r]) fails))
      @ [[], ''Why cases are skipped now:'', []]
      @ two_columns ''| Reason | Cases |'' (most_common (map sr_skip_reason (filter (\<lambda>r. sr_new_result r = ''skipped'') rows)))
      @ [[], ''## 3. The real problems of 2026-10-14 and today'', [],
         ''Cases that fail or crash even under the runner'' @ apostrophe @ ''s rules: **'' @ commas (length real) @ ''**.'', []]
      @ wide_table ''| Type | Observed 2026-10-14 | New result | Cases |'' ''|---|---|---|---|''
          (sorted_counts (map (\<lambda>r. [sr_type r, sr_observed r, sr_new_result r]) real))
      @ [[], ''Today (`run_w3c_conformance.py`, 2026-10-26) for those cases:'', []]
      @ wide_table ''| `Finalized` | `FinalizedAssertions` | Cases |'' ''|---|---|---|''
          (most_common (map (\<lambda>r. [sr_today_finalized r, sr_today_assertions r]) real))
      @ [[], ''## 4. Catalog cases the old runner did not run'', [],
         ''The catalog has '' @ commas (length cases) @ '' cases; the old run had '' @ commas (length rows) @ ''. ''
           @ commas (length missing) @ '' were not in it:'', []]
      @ two_columns (''| Runner'' @ apostrophe @ ''s rule for them | Cases |'') (most_common (map (rule_of_missing cases) missing))
      @ [[], ''## 5. Today'' @ apostrophe @ ''s runner, for comparison'', [],
         ''`FinalizedAssertions`, all 2,585 catalog cases, 2026-10-26:'', []]
      @ two_columns ''| Status | Cases |''
          (most_common (map snd (filter (\<lambda>((e, _), _). e = ''FinalizedAssertions'') today))))"

section \<open>Main\<close>

record rescore_host =
  rh_suite :: host
  rh_tree :: element
  rh_today :: "today_row list py"
  rh_baseline :: "baseline_row list py"
  rh_open :: "unit py" \<comment> \<open>\<open>cases.tsv\<close> for writing\<close>
  rh_write_summary :: "unit py"

datatype rescore_event =
    CasesOpened
  | ScoredCases "scored_row list"
  | RescoreSummary "string list"

type_synonym 'a rescore_run = "(rescore_event, 'a) act"

definition rescore_main :: "rescore_host \<Rightarrow> path \<Rightarrow> int rescore_run" where
  "rescore_main h suite_dir =
     bindA (pureA (load_catalog (rh_suite h) suite_dir (rh_tree h))) (\<lambda>loaded. let cases = keyed c_id loaded in
     bindA (pureA (rh_today h)) (\<lambda>today_rows. let today = today_statuses today_rows in
     bindA (pureA (rh_baseline h)) (\<lambda>baseline. let rows = score_rows baseline (map_of cases) today in
     bindA (pureA (rh_open h)) (\<lambda>_.
     bindA (emitA CasesOpened) (\<lambda>_.
     bindA (pureA (raise_if (rows = []) IndexError)) (\<lambda>_.
     bindA (emitA (ScoredCases rows)) (\<lambda>_.
     bindA (pureA (rh_write_summary h)) (\<lambda>_.
     bindA (emitA (RescoreSummary (rescore_summary rows cases today))) (\<lambda>_.
     pureA (Inr 0))))))))))"

end
