(* ===== verification/Rescore_Claims.thy ===== *)
theory Rescore_Claims
  imports Baseline_Rescore
begin

text \<open>Properties of the re-scored baseline.\<close>

definition NEW_RESULTS :: "string list" where
  "NEW_RESULTS = [''pass'', ''fail'', ''crash'', ''skipped'', ''not in catalog'']"

lemma new_results_distinct: "distinct NEW_RESULTS"
  by code_simp

lemma classify_in_results: "classify_observation row found \<in> set NEW_RESULTS"
  by (simp add: classify_observation_def NEW_RESULTS_def split: option.splits)

lemma classify_pass:
  "classify_observation row found = ''pass'' \<longleftrightarrow>
     (\<exists>c. found = Some c \<and> c_skip_reason c = [] \<and> \<not> is_crash row \<and> upper (bl_observed row) = c_expected c)"
  by (simp add: classify_observation_def split: option.splits)

definition passes_by :: "case_ list \<Rightarrow> baseline_row \<Rightarrow> bool" where
  \<comment> \<open>the catalog requires exactly the observed verdict, and the observation is no crash\<close>
  "passes_by loaded row = (\<not> is_crash row \<and> list_ex (\<lambda>c. c_id c = bl_id row \<and> c_skip_reason c = []
     \<and> py_in (c_expected c) [''ACCEPT'', ''REJECT''] \<and> upper (bl_observed row) = c_expected c) loaded)"

lemma keyed_cases: "distinct (map c_id loaded) \<Longrightarrow> map_of (keyed c_id loaded) i = Some c \<longleftrightarrow> c \<in> set loaded \<and> c_id c = i"
  by (subst keyed_id) (auto simp: comp_def)

lemma rescored_row:
  assumes "load_catalog h d tree = Inr loaded"
  shows "sr_id (score_row (map_of (keyed c_id loaded)) today row) = bl_id row
    \<and> (sr_new_result (score_row (map_of (keyed c_id loaded)) today row) = ''pass'') = passes_by loaded row"
proof -
  note inv = load_catalog_inv(1) [OF assms]
  then have "distinct (map c_id loaded)" by (simp add: catalog_inv_def)
  moreover have "\<forall>c \<in> set loaded. c_skip_reason c = [] \<longrightarrow> c_expected c \<in> {''ACCEPT'', ''REJECT''}"
    using inv by (simp add: catalog_inv_def good_case_def)
  ultimately show ?thesis
    by (auto simp: score_row_def Let_def classify_pass keyed_cases passes_by_def list_ex_iff py_in_def)
qed

lemma rescore_main_Inr:
  assumes "rescore_main h suite_dir = (evs, Inr n)"
  obtains loaded today_rows baseline where
    "load_catalog (rh_suite h) suite_dir (rh_tree h) = Inr loaded" "rh_baseline h = Inr baseline"
    "py_in (ScoredCases (score_rows baseline (map_of (keyed c_id loaded)) (today_statuses today_rows))) evs" "n = 0"
proof -
  from assms obtain loaded today_rows baseline where
    "load_catalog (rh_suite h) suite_dir (rh_tree h) = Inr loaded" "rh_baseline h = Inr baseline"
    "py_in (ScoredCases (score_rows baseline (map_of (keyed c_id loaded)) (today_statuses today_rows))) evs" "n = 0"
    unfolding rescore_main_def Let_def by (auto simp: bindA_Inr_iff raise_if_Inr_iff)
  from that [OF this] show thesis .
qed

text \<open>
  C28. Re-scoring loses and invents nothing: a returned run has one row for every observation in order, each with
  exactly one of the five results, so the results, like the verdicts of the old rules, add up to the number of
  observations; and a row passes exactly when the catalog has an applicable case of its identifier that requires the
  observed verdict and the observation is not a crash.
\<close>

theorem rescore_complete:
  assumes "rescore_main h suite_dir = (evs, Inr n)"
  shows "\<exists>loaded baseline rows. load_catalog (rh_suite h) suite_dir (rh_tree h) = Inr loaded \<and> rh_baseline h = Inr baseline
    \<and> py_in (ScoredCases rows) evs \<and> map sr_id rows = map bl_id baseline \<and> n = 0
    \<and> sum_list (map (\<lambda>k. count_if (\<lambda>r. sr_new_result r = k) rows) NEW_RESULTS) = length baseline
    \<and> sum_list (map snd (most_common (map old_verdict rows))) = length baseline
    \<and> map (\<lambda>r. sr_new_result r = ''pass'') rows = map (passes_by loaded) baseline"
  using assms
proof (rule rescore_main_Inr)
  fix loaded today_rows baseline
  let ?rows = "score_rows baseline (map_of (keyed c_id loaded)) (today_statuses today_rows)"
  assume l: "load_catalog (rh_suite h) suite_dir (rh_tree h) = Inr loaded" and b: "rh_baseline h = Inr baseline"
    and e: "py_in (ScoredCases ?rows) evs" and n: "n = 0"
  have ids: "map sr_id ?rows = map bl_id baseline" "map (\<lambda>r. sr_new_result r = ''pass'') ?rows = map (passes_by loaded) baseline"
    using rescored_row [OF l] by (simp_all add: score_rows_def comp_def)
  have "set (map sr_new_result ?rows) \<subseteq> set NEW_RESULTS"
    using classify_in_results by (auto simp: score_rows_def score_row_def Let_def)
  from sum_list_counts [OF new_results_distinct this]
  have "sum_list (map (\<lambda>k. count_if (\<lambda>r. sr_new_result r = k) ?rows) NEW_RESULTS) = length baseline"
    by (simp add: count_if_def filter_map comp_def score_rows_def)
  moreover have "sum_list (map snd (most_common (map old_verdict ?rows))) = length baseline"
    by (simp add: most_common_total score_rows_def)
  ultimately show ?thesis using l b e n ids by blast
qed

definition rescore_sample :: rescore_host where
  "rescore_sample = \<lparr>rh_suite = sample_host, rh_tree = sample_tree, rh_today = Inr [],
     rh_baseline = Inr [\<lparr>bl_id = ''t1'', bl_type = ''not-wf'', bl_entities = [], bl_observed = ''reject'', bl_expected = ''reject'',
         bl_result = ''Pass'', bl_message = ''syntax error''\<rparr>,
       \<lparr>bl_id = ''t2'', bl_type = ''valid'', bl_entities = ''none'', bl_observed = ''reject'', bl_expected = ''accept'',
         bl_result = ''Fail'', bl_message = ''Invariant violated''\<rparr>],
     rh_open = Inr (), rh_write_summary = Inr ()\<rparr>"

lemma rescore_sample_main: "\<exists>evs. rescore_main rescore_sample [''suite''] = (evs, Inr 0)"
  using sample_load
  by (simp add: rescore_main_def rescore_sample_def Let_def bindA_def pureA_def emitA_def score_rows_def raise_if_def)

theorem rescore_complete_witness:
  "\<exists>evs rows. py_in (ScoredCases rows) evs \<and> map sr_id rows = [''t1'', ''t2''] \<and> map (\<lambda>r. sr_new_result r = ''pass'') rows = [True, False]"
proof -
  obtain evs where "rescore_main rescore_sample [''suite''] = (evs, Inr 0)" using rescore_sample_main by blast
  from rescore_complete [OF this] obtain loaded baseline rows where
    l: "load_catalog (rh_suite rescore_sample) [''suite''] (rh_tree rescore_sample) = Inr loaded" "rh_baseline rescore_sample = Inr baseline"
    and r: "py_in (ScoredCases rows) evs" "map sr_id rows = map bl_id baseline" "map (\<lambda>r. sr_new_result r = ''pass'') rows = map (passes_by loaded) baseline"
    by blast
  have "loaded = sample_cases" using l(1) sample_load by (simp add: rescore_sample_def)
  moreover have "(case rh_baseline rescore_sample of Inl e \<Rightarrow> False | Inr b \<Rightarrow> map bl_id b = [''t1'', ''t2''] \<and> map (passes_by sample_cases) b = [True, False])"
    by code_simp
  ultimately have "py_in (ScoredCases rows) evs \<and> map sr_id rows = [''t1'', ''t2''] \<and> map (\<lambda>r. sr_new_result r = ''pass'') rows = [True, False]"
    using l(2) r by simp
  then show ?thesis by (intro exI)
qed

end
