(* ===== verification/Engine_Harness.thy ===== *)
theory Engine_Harness
  imports W3C_Catalog Report_Tables
begin

text \<open>
  The adapters of the issue harness, \<open>reports/issue-0154/tools/harness/engines.py\<close>: one document through
  Expat (\<open>pyexpat\<close>) or through xpact's C API (\<open>ctypes\<close>), recorded as the same list of events. A parser is
  what its library makes of it: feeding a piece of a document gives a tree of callbacks that ends with the parser fed or
  failed, and an external entity is a callback that offers a parser for the entity and waits for an answer. Texts are
  their UTF-8 bytes, so decoding is the identity. Entities may nest without a bound of the harness, so a parse
  has fuel for the depth of nesting; \<open>None\<close> is a parse that nests deeper.
\<close>

section \<open>Recorded events\<close>

datatype ev_value =
    NoneV
  | Str string
  | Num int
  | Items "ev_value list"

datatype harness_event =
    Chars string
  | Ev string "ev_value list"

datatype recorded =
    Pieces "string list" \<comment> \<open>text, the last piece first\<close>
  | Other string "ev_value list"

type_synonym recorder = "recorded list" \<comment> \<open>the last event first\<close>

fun rec_add :: "harness_event \<Rightarrow> recorder \<Rightarrow> recorder" where
  "rec_add (Chars s) (Pieces ps # es) = Pieces (s # ps) # es"
| "rec_add (Chars s) es = Pieces [s] # es"
| "rec_add (Ev kind args) es = Other kind args # es"

fun event_of_recorded :: "recorded \<Rightarrow> harness_event" where
  "event_of_recorded (Pieces ps) = Chars (concat (rev ps))"
| "event_of_recorded (Other kind args) = Ev kind args"

definition rec_events :: "recorder \<Rightarrow> harness_event list" where
  "rec_events r = map event_of_recorded (rev r)"

section \<open>Entities and pieces\<close>

record entity_host =
  eh_path :: "string \<Rightarrow> path" \<comment> \<open>\<open>Path(text)\<close>\<close>
  eh_str :: "path \<Rightarrow> string" \<comment> \<open>\<open>str(path)\<close>\<close>
  eh_resolve :: "path \<Rightarrow> path"
  eh_is_file :: "path \<Rightarrow> bool"
  eh_read :: "path \<Rightarrow> string"

definition system_id_refused :: "string option \<Rightarrow> bool" where
  "system_id_refused system_id = (case system_id of None \<Rightarrow> True | Some s \<Rightarrow>
     s = [] \<or> startswith s ''/'' \<or> startswith s [CHR 0x5C] \<or> py_in CHR '':'' s \<or> py_in CHR ''#'' s)"

definition resolve_entity :: "entity_host \<Rightarrow> string option \<Rightarrow> string option \<Rightarrow> string option \<Rightarrow> path option" where
  \<comment> \<open>\<open>resolve\<close>\<close>
  "resolve_entity h entity_root base system_id = (case (entity_root, system_id) of
      (Some origin, Some s) \<Rightarrow>
        if system_id_refused system_id then None
        else let base_dir = (case base of None \<Rightarrow> eh_path h origin | Some b \<Rightarrow> if b = [] then eh_path h origin else butlast (eh_path h b));
                 target = eh_resolve h (base_dir @ eh_path h s);
                 limit = eh_resolve h (eh_path h origin) in
          if \<not> startswith (lower (eh_str h target)) (lower (eh_str h limit)) then None
          else if eh_is_file h target then Some target else None
    | _ \<Rightarrow> None)"

datatype chunk_split =
    Whole
  | SplitText string
  | SplitAt int

definition cut_at :: "string \<Rightarrow> int \<Rightarrow> nat" where
  \<comment> \<open>the position a slice bound stands for\<close>
  "cut_at xs k = (if k < 0 then nat (int (length xs) + k) else min (nat k) (length xs))"

fun pieces_of :: "nat \<Rightarrow> string \<Rightarrow> string list" where
  \<comment> \<open>\<open>[data[i:i + n] for i in range(0, len(data), n)]\<close> for a positive step\<close>
  "pieces_of 0 xs = []"
| "pieces_of (Suc n) [] = []"
| "pieces_of (Suc n) (x # xs) = (x # take n xs) # pieces_of (Suc n) (drop n xs)"

definition two_parts :: "string \<Rightarrow> int \<Rightarrow> string list" where
  "two_parts xs k = [take (cut_at xs k) xs, drop (cut_at xs k) xs]"

definition chunks :: "string \<Rightarrow> chunk_split \<Rightarrow> string list py" where
  "chunks xs split = (case split of
      Whole \<Rightarrow> Inr [xs]
    | SplitText s \<Rightarrow>
        if s = ''byte'' then Inr (pieces_of 1 xs)
        else if startswith s ''every:'' then
          bindE (py_int (drop 6 s)) (\<lambda>n.
          bindE (raise_if (n = 0) (ValueError ''range() arg 3 must not be zero'')) (\<lambda>_.
          let parts = (if 0 < n then pieces_of (nat n) xs else []) in Inr (if parts \<noteq> [] then parts else [[]])))
        else bindE (py_int s) (\<lambda>k. Inr (two_parts xs k))
    | SplitAt k \<Rightarrow> Inr (two_parts xs k))"

section \<open>Callbacks\<close>

datatype model = Model int int "string option" "model list" \<comment> \<open>type, quantifier, name, children\<close>

datatype callback =
    StartElement string "string list"
  | EndElement string
  | CharacterData string
  | ProcessingInstruction string string
  | Comment string
  | StartCdata
  | EndCdata
  | XmlDecl "string option" "string option" int
  | StartDoctype string "string option" "string option" bool
  | EndDoctype
  | EntityDecl string bool "string option" "string option" "string option" "string option"
      \<comment> \<open>name, parameter entity, value, system, public, notation\<close>
  | NotationDecl string "string option" "string option"
  | AttlistDecl string string string "string option" bool
  | ElementDecl string model
  | SkippedEntity string bool
  | StartNamespace "string option" "string option"
  | EndNamespace "string option"

definition opt_value :: "string option \<Rightarrow> ev_value" where
  "opt_value s = (case s of None \<Rightarrow> NoneV | Some t \<Rightarrow> Str t)"

definition flag :: "bool \<Rightarrow> ev_value" where
  \<comment> \<open>\<open>int(bool(x))\<close>\<close>
  "flag b = Num (if b then 1 else 0)"

fun model_py :: "model \<Rightarrow> ev_value" where
  "model_py (Model t q name kids) = Items [Num t, Num q, opt_value name, Items (map model_py kids)]"

fun expat_event :: "callback \<Rightarrow> harness_event" where
  "expat_event (StartElement n a) = Ev ''start'' [Str n, Items (map Str a)]"
| "expat_event (EndElement n) = Ev ''end'' [Str n]"
| "expat_event (CharacterData s) = Chars s"
| "expat_event (ProcessingInstruction t d) = Ev ''pi'' [Str t, Str d]"
| "expat_event (Comment d) = Ev ''comment'' [Str d]"
| "expat_event StartCdata = Ev ''startcdata'' []"
| "expat_event EndCdata = Ev ''endcdata'' []"
| "expat_event (XmlDecl v e s) = Ev ''xmldecl'' [opt_value v, opt_value e, Num s]"
| "expat_event (StartDoctype n s pu h) = Ev ''startdoctype'' [Str n, opt_value s, opt_value pu, flag h]"
| "expat_event EndDoctype = Ev ''enddoctype'' []"
| "expat_event (EntityDecl n pe v s pu no) =
     Ev ''entitydecl'' [Str n, flag pe, opt_value v, opt_value s, opt_value pu, opt_value no]"
| "expat_event (NotationDecl n s pu) = Ev ''notationdecl'' [Str n, opt_value s, opt_value pu]"
| "expat_event (AttlistDecl el att ty df rq) = Ev ''attlistdecl'' [Str el, Str att, Str ty, opt_value df, flag rq]"
| "expat_event (ElementDecl n m) = Ev ''elementdecl'' [Str n, model_py m]"
| "expat_event (SkippedEntity n pe) = Ev ''skipped'' [Str n, flag pe]"
| "expat_event (StartNamespace pr u) = Ev ''startns'' [opt_value pr, opt_value u]"
| "expat_event (EndNamespace pr) = Ev ''endns'' [opt_value pr]"

text \<open>
  What C hands over: an array of attributes that ends with a null pointer, a text with its length in a longer buffer, a
  content model with the number of its children, flags as integers.
\<close>

datatype c_model = CModel int int "string option" nat "c_model list"

datatype c_callback =
    CStartElement string "string option list"
  | CEndElement string
  | CCharacterData string nat
  | CProcessingInstruction string string
  | CComment string
  | CStartCdata
  | CEndCdata
  | CXmlDecl "string option" "string option" int
  | CStartDoctype string "string option" "string option" int
  | CEndDoctype
  | CEntityDecl string int "string option" nat "string option" "string option" "string option" "string option"
      \<comment> \<open>name, parameter entity, value and its length, base, system, public, notation\<close>
  | CNotationDecl string "string option" "string option" "string option"
  | CAttlistDecl string string string "string option" int
  | CElementDecl string c_model
  | CSkippedEntity string int
  | CStartNamespace "string option" "string option"
  | CEndNamespace "string option"

fun read_array :: "string option list \<Rightarrow> string list" where
  \<comment> \<open>\<open>while atts[i] is not None\<close>\<close>
  "read_array (Some a # atts) = a # read_array atts"
| "read_array _ = []"

definition string_at :: "string \<Rightarrow> nat \<Rightarrow> string" where
  "string_at buffer n = take n buffer"

definition c_flag :: "int \<Rightarrow> ev_value" where
  "c_flag n = flag (n \<noteq> 0)"

fun model_c :: "c_model \<Rightarrow> ev_value" where
  "model_c (CModel t q name n kids) = Items [Num t, Num q, opt_value name, Items (take n (map model_c kids))]"

fun xpact_event :: "c_callback \<Rightarrow> harness_event" where
  "xpact_event (CStartElement n atts) = Ev ''start'' [Str n, Items (map Str (read_array atts))]"
| "xpact_event (CEndElement n) = Ev ''end'' [Str n]"
| "xpact_event (CCharacterData s n) = Chars (string_at s n)"
| "xpact_event (CProcessingInstruction t d) = Ev ''pi'' [Str t, Str d]"
| "xpact_event (CComment d) = Ev ''comment'' [Str d]"
| "xpact_event CStartCdata = Ev ''startcdata'' []"
| "xpact_event CEndCdata = Ev ''endcdata'' []"
| "xpact_event (CXmlDecl v e s) = Ev ''xmldecl'' [opt_value v, opt_value e, Num s]"
| "xpact_event (CStartDoctype n s pu hi) = Ev ''startdoctype'' [Str n, opt_value s, opt_value pu, c_flag hi]"
| "xpact_event CEndDoctype = Ev ''enddoctype'' []"
| "xpact_event (CEntityDecl n pe v vl b s pu no) = Ev ''entitydecl'' [Str n, c_flag pe,
     (case v of None \<Rightarrow> NoneV | Some buffer \<Rightarrow> Str (string_at buffer vl)), opt_value s, opt_value pu, opt_value no]"
| "xpact_event (CNotationDecl n b s pu) = Ev ''notationdecl'' [Str n, opt_value s, opt_value pu]"
| "xpact_event (CAttlistDecl el att ty df rq) = Ev ''attlistdecl'' [Str el, Str att, Str ty, opt_value df, c_flag rq]"
| "xpact_event (CElementDecl n m) = Ev ''elementdecl'' [Str n, model_c m]"
| "xpact_event (CSkippedEntity n pe) = Ev ''skipped'' [Str n, c_flag pe]"
| "xpact_event (CStartNamespace pr u) = Ev ''startns'' [opt_value pr, opt_value u]"
| "xpact_event (CEndNamespace pr) = Ev ''endns'' [opt_value pr]"

section \<open>Parsing\<close>

datatype ('cb, 'p) feed =
    Callback 'cb "('cb, 'p) feed"
  | External "string option" "string option" "'p option" "bool \<Rightarrow> ('cb, 'p) feed"
      \<comment> \<open>base, system identifier, a parser for the entity, and how it goes on after the answer\<close>
  | Fed 'p
  | Failed 'p

record ('cb, 'p) parser_library =
  pl_create :: "string option \<Rightarrow> bool \<Rightarrow> 'p" \<comment> \<open>encoding, namespaces\<close>
  pl_configure :: "'p \<Rightarrow> string option \<Rightarrow> bool \<Rightarrow> bool \<Rightarrow> 'p" \<comment> \<open>base, namespace handlers, external handler\<close>
  pl_amplification :: "'p \<Rightarrow> rat \<Rightarrow> 'p"
  pl_feed :: "'p \<Rightarrow> string \<Rightarrow> bool \<Rightarrow> ('cb, 'p) feed"
  pl_code :: "'p \<Rightarrow> int"
  pl_message :: "int \<Rightarrow> string"
  pl_line :: "'p \<Rightarrow> nat"
  pl_column :: "'p \<Rightarrow> nat"

record parse_options =
  po_path :: "string option"
  po_entity_root :: "string option"
  po_namespaces :: bool
  po_split :: chunk_split
  po_encoding :: "string option"
  po_external :: bool
  po_bare :: bool

record parse_result =
  pr_verdict :: string
  pr_error :: int
  pr_message :: string
  pr_line :: nat
  pr_column :: nat
  pr_events :: "harness_event list"

type_synonym 'p load = "string option \<Rightarrow> string option \<Rightarrow> 'p option \<Rightarrow> recorder \<Rightarrow> (bool \<times> recorder) option"

primrec drive :: "('cb \<Rightarrow> harness_event) \<Rightarrow> 'p load \<Rightarrow> ('cb, 'p) feed \<Rightarrow> recorder \<Rightarrow> (('p + 'p) \<times> recorder) option" where
  \<comment> \<open>one call of \<open>Parse\<close>: the parser, failed (\<open>Inl\<close>) or fed (\<open>Inr\<close>), and what was recorded\<close>
  "drive event load (Callback cb next_feed) r = drive event load next_feed (rec_add (event cb) r)"
| "drive event load (External base system_id child k) r = (case load base system_id child r of
      None \<Rightarrow> None | Some (ok, r') \<Rightarrow> drive event load (k ok) r')"
| "drive event load (Fed p) r = Some (Inr p, r)"
| "drive event load (Failed p) r = Some (Inl p, r)"

primrec load_external :: "nat \<Rightarrow> entity_host \<Rightarrow> ('cb \<Rightarrow> harness_event) \<Rightarrow> ('cb, 'p) parser_library \<Rightarrow> parse_options \<Rightarrow> 'p load" where
  "load_external 0 h event lib opts = (\<lambda>base system_id child r. None)"
| "load_external (Suc fuel) h event lib opts = (\<lambda>base system_id child r.
     case resolve_entity h (po_entity_root opts) base system_id of
       None \<Rightarrow> Some (False, r)
     | Some target \<Rightarrow>
         (case child of
            None \<Rightarrow> Some (False, r)
          | Some c \<Rightarrow>
              (case drive event (load_external fuel h event lib opts)
                  (pl_feed lib (pl_configure lib c (Some (eh_str h target)) (po_namespaces opts) (po_external opts)) (eh_read h target) True) r of
                 None \<Rightarrow> None
               | Some (Inl _, r') \<Rightarrow> Some (False, r')
               | Some (Inr _, r') \<Rightarrow> Some (True, r'))))"

definition accepted :: "recorder \<Rightarrow> parse_result" where
  "accepted r = \<lparr>pr_verdict = ''ACCEPT'', pr_error = 0, pr_message = [], pr_line = 0, pr_column = 0, pr_events = rec_events r\<rparr>"

definition rejected :: "('cb, 'p) parser_library \<Rightarrow> 'p \<Rightarrow> recorder \<Rightarrow> parse_result" where
  "rejected lib p r = \<lparr>pr_verdict = ''REJECT'', pr_error = pl_code lib p, pr_message = pl_message lib (pl_code lib p),
     pr_line = pl_line lib p, pr_column = pl_column lib p, pr_events = rec_events r\<rparr>"

definition configured :: "('cb, 'p) parser_library \<Rightarrow> parse_options \<Rightarrow> 'p \<Rightarrow> 'p" where
  "configured lib opts p = (if po_bare opts then p
     else pl_configure lib p (case po_path opts of None \<Rightarrow> None | Some b \<Rightarrow> if b = [] then None else Some b) (po_namespaces opts) (po_external opts))"

definition given_encoding :: "string option \<Rightarrow> string option" where
  "given_encoding e = (case e of None \<Rightarrow> None | Some s \<Rightarrow> if s = [] then None else Some s)"

fun feed_parts :: "('cb \<Rightarrow> harness_event) \<Rightarrow> 'p load \<Rightarrow> ('cb, 'p) parser_library \<Rightarrow> 'p \<Rightarrow> string list \<Rightarrow> recorder
    \<Rightarrow> (('p + 'p) \<times> recorder) option" where
  \<comment> \<open>xpact's loop: every part in turn, the last one final, until a part fails\<close>
  "feed_parts event load lib p [] r = Some (Inr p, r)"
| "feed_parts event load lib p (part # parts) r = (case drive event load (pl_feed lib p part (parts = [])) r of
      None \<Rightarrow> None
    | Some (Inl p', r') \<Rightarrow> Some (Inl p', r')
    | Some (Inr p', r') \<Rightarrow> feed_parts event load lib p' parts r')"

definition parse_xpact :: "nat \<Rightarrow> entity_host \<Rightarrow> (c_callback, 'p) parser_library \<Rightarrow> parse_options \<Rightarrow> rat option \<Rightarrow> string \<Rightarrow> parse_result py option" where
  "parse_xpact fuel h lib opts amplification document =
     (let created = pl_create lib (given_encoding (po_encoding opts)) (po_namespaces opts);
          limited = (case amplification of None \<Rightarrow> created | Some a \<Rightarrow> pl_amplification lib created a) in
      case chunks document (po_split opts) of
        Inl e \<Rightarrow> Some (Inl e)
      | Inr parts \<Rightarrow>
          (case feed_parts xpact_event (load_external fuel h xpact_event lib opts) lib (configured lib opts limited) (if parts = [] then [[]] else parts) [] of
             None \<Rightarrow> None
           | Some (Inl p, r) \<Rightarrow> Some (Inr (rejected lib p r))
           | Some (Inr p, r) \<Rightarrow> Some (Inr (accepted r))))"

fun feed_open :: "('cb \<Rightarrow> harness_event) \<Rightarrow> 'p load \<Rightarrow> ('cb, 'p) parser_library \<Rightarrow> 'p \<Rightarrow> string list \<Rightarrow> recorder
    \<Rightarrow> (('p + 'p) \<times> recorder) option" where
  \<comment> \<open>Expat's loop over all parts but the last: \<open>Parse(part, False)\<close>, which raises at an error\<close>
  "feed_open event load lib p [] r = Some (Inr p, r)"
| "feed_open event load lib p (part # parts) r = (case drive event load (pl_feed lib p part False) r of
      None \<Rightarrow> None
    | Some (Inl p', r') \<Rightarrow> Some (Inl p', r')
    | Some (Inr p', r') \<Rightarrow> feed_open event load lib p' parts r')"

definition parse_expat :: "nat \<Rightarrow> entity_host \<Rightarrow> (callback, 'p) parser_library \<Rightarrow> parse_options \<Rightarrow> string \<Rightarrow> parse_result py option" where
  "parse_expat fuel h lib opts document =
     (let p = configured lib opts (pl_create lib (po_encoding opts) (po_namespaces opts));
          load = load_external fuel h expat_event lib opts in
      case chunks document (po_split opts) of
        Inl e \<Rightarrow> Some (Inl e)
      | Inr parts \<Rightarrow>
          (case feed_open expat_event load lib p (butlast parts) [] of
             None \<Rightarrow> None
           | Some (Inl p', r) \<Rightarrow> Some (Inr (rejected lib p' r))
           | Some (Inr p', r) \<Rightarrow>
               (case drive expat_event load (pl_feed lib p' (if parts = [] then [] else last parts) True) r of
                  None \<Rightarrow> None
                | Some (Inl p', r') \<Rightarrow> Some (Inr (rejected lib p' r'))
                | Some (Inr p', r') \<Rightarrow> Some (Inr (accepted r')))))"

end
