(* ===== verification/Engine_Claims.thy ===== *)
theory Engine_Claims
  imports Engine_Harness
begin

text \<open>Properties of the parser adapters of the issue harness.\<close>

section \<open>The recorder\<close>

fun merge_chars :: "harness_event list \<Rightarrow> harness_event list" where
  \<comment> \<open>what the recorder is for: consecutive texts are one\<close>
  "merge_chars (Chars a # Chars b # es) = merge_chars (Chars (a @ b) # es)"
| "merge_chars (e # es) = e # merge_chars es"
| "merge_chars [] = []"

definition record_all :: "harness_event list \<Rightarrow> recorder" where
  "record_all es = fold rec_add es []"

definition no_text_pair :: "harness_event \<Rightarrow> harness_event \<Rightarrow> bool" where
  "no_text_pair e e' = (case (e, e') of (Chars a, Chars b) \<Rightarrow> False | _ \<Rightarrow> True)"

fun normal_events :: "harness_event list \<Rightarrow> bool" where
  "normal_events (e # e' # es) = (no_text_pair e e' \<and> normal_events (e' # es))"
| "normal_events _ = True"

lemma record_more:
  "rec_events (fold rec_add es (Pieces ps # r)) = rec_events r @ merge_chars (Chars (concat (rev ps)) # es)
   \<and> rec_events (fold rec_add es (Other k args # r)) = rec_events r @ Ev k args # merge_chars es"
proof (induction es arbitrary: ps k args r)
  case Nil
  show ?case by (simp add: rec_events_def)
next
  case (Cons e es)
  show ?case by (cases e) (simp_all add: Cons, simp_all add: rec_events_def)
qed

lemma record_merges: "rec_events (record_all es) = merge_chars es"
proof (cases es)
  case (Cons e es')
  then show ?thesis using record_more [of es'] by (cases e) (simp_all add: record_all_def, simp_all add: rec_events_def)
qed (simp add: record_all_def rec_events_def)

lemma no_text_pair_Ev: "no_text_pair e (Ev k args)" "no_text_pair (Ev k args) e"
  by (cases e; simp add: no_text_pair_def)+

lemma normal_events_Ev: "normal_events (Ev k args # es) = normal_events es"
  by (cases es) (simp_all add: no_text_pair_Ev)

lemma merge_normal: "normal_events (merge_chars es)"
  by (induction es rule: merge_chars.induct) (simp_all add: normal_events_Ev no_text_pair_Ev)

lemma merge_divided_now: "merge_chars (e # Chars a # Chars b # es') = merge_chars (e # Chars (a @ b) # es')"
  by (cases e) simp_all

lemma merge_divided: "merge_chars (es @ Chars a # Chars b # es') = merge_chars (es @ Chars (a @ b) # es')"
  by (induction es rule: merge_chars.induct) (simp_all add: merge_divided_now)

text \<open>
  What a recorder returns does not depend on how a parser divides text between calls: it is the list of the
  events with consecutive texts joined, no two texts in it are neighbours, and handing over a text in two parts
  changes nothing.
\<close>

theorem recorder_merges_text:
  "rec_events (record_all es) = merge_chars es \<and> normal_events (rec_events (record_all es))
   \<and> rec_events (record_all (before @ [Chars a, Chars b] @ after)) = rec_events (record_all (before @ [Chars (a @ b)] @ after))"
  by (simp add: record_merges merge_normal merge_divided)

section \<open>Pieces of a document\<close>

lemma pieces_of_concat: "0 < n \<Longrightarrow> concat (pieces_of n xs) = xs"
  by (induction n xs rule: pieces_of.induct) auto

lemma pieces_of_length: "list_all (\<lambda>p. length p \<le> n) (pieces_of n xs)"
  by (induction n xs rule: pieces_of.induct) auto

definition forward_split :: "chunk_split \<Rightarrow> bool" where
  \<comment> \<open>not an \<open>every:\<close> with a negative number\<close>
  "forward_split split = (case split of SplitText s \<Rightarrow>
       (if startswith s ''every:'' then (case py_int (drop 6 s) of Inr n \<Rightarrow> 0 \<le> n | Inl e \<Rightarrow> True) else True)
     | _ \<Rightarrow> True)"

text \<open>
  Cutting a document loses nothing: whatever the way of cutting, and wherever a cut lies, even outside the
  document or counted from its end, the parts put together are the document, except for \<open>every:\<close> with a
  negative number.
\<close>

theorem chunks_concat:
  assumes "chunks document split = Inr parts" "forward_split split"
  shows "concat parts = document"
proof (cases split)
  case (SplitText s)
  show ?thesis
  proof (cases "s = ''byte''")
    case True
    then show ?thesis using assms(1) pieces_of_concat [of 1 document] by (simp add: chunks_def SplitText)
  next
    case False
    show ?thesis
    proof (cases "startswith s ''every:''")
      case True
      with assms False obtain n where n: "py_int (drop 6 s) = Inr n" "n \<noteq> 0" "0 \<le> n"
        and p: "parts = (if pieces_of (nat n) document \<noteq> [] then pieces_of (nat n) document else [[]])"
        by (auto simp: chunks_def SplitText forward_split_def bindE_Inr_iff raise_if_Inr_iff Let_def split: if_splits)
      have "concat (pieces_of (nat n) document) = document" using n by (intro pieces_of_concat) simp
      then show ?thesis using p by (auto split: if_splits)
    next
      case False
      then show ?thesis using assms(1) \<open>s \<noteq> ''byte''\<close> by (auto simp: chunks_def SplitText bindE_Inr_iff two_parts_def)
    qed
  qed
qed (use assms(1) in \<open>auto simp: chunks_def two_parts_def\<close>)

theorem chunks_concat_witness:
  "chunks ''<a>b</a>'' (SplitText ''every:3'') = Inr [''<a>'', ''b</'', ''a>''] \<and> concat [''<a>'', ''b</'', ''a>''] = ''<a>b</a>''"
proof -
  have "chunks ''<a>b</a>'' (SplitText ''every:3'') = Inr [''<a>'', ''b</'', ''a>''] \<and> forward_split (SplitText ''every:3'')"
    by code_simp
  with chunks_concat [of "''<a>b</a>''"] show ?thesis by blast
qed

section \<open>Callbacks\<close>

text \<open>How C hands over a callback; \<open>junk\<close> is what follows a text in its buffer.\<close>

fun c_model_of :: "model \<Rightarrow> c_model" where
  "c_model_of (Model t q name kids) = CModel t q name (length kids) (map c_model_of kids)"

definition c_bool :: "bool \<Rightarrow> int" where
  "c_bool b = (if b then 1 else 0)"

fun c_view :: "string \<Rightarrow> callback \<Rightarrow> c_callback" where
  "c_view junk (StartElement n a) = CStartElement n (map Some a @ [None])"
| "c_view junk (EndElement n) = CEndElement n"
| "c_view junk (CharacterData s) = CCharacterData (s @ junk) (length s)"
| "c_view junk (ProcessingInstruction t d) = CProcessingInstruction t d"
| "c_view junk (Comment d) = CComment d"
| "c_view junk StartCdata = CStartCdata"
| "c_view junk EndCdata = CEndCdata"
| "c_view junk (XmlDecl v e s) = CXmlDecl v e s"
| "c_view junk (StartDoctype n s pu h) = CStartDoctype n s pu (c_bool h)"
| "c_view junk EndDoctype = CEndDoctype"
| "c_view junk (EntityDecl n pe v s pu no) = CEntityDecl n (c_bool pe) (map_option (\<lambda>t. t @ junk) v)
     (case v of None \<Rightarrow> 0 | Some t \<Rightarrow> length t) None s pu no"
| "c_view junk (NotationDecl n s pu) = CNotationDecl n None s pu"
| "c_view junk (AttlistDecl el att ty df rq) = CAttlistDecl el att ty df (c_bool rq)"
| "c_view junk (ElementDecl n m) = CElementDecl n (c_model_of m)"
| "c_view junk (SkippedEntity n pe) = CSkippedEntity n (c_bool pe)"
| "c_view junk (StartNamespace pr u) = CStartNamespace pr u"
| "c_view junk (EndNamespace pr) = CEndNamespace pr"

lemma read_array_terminated: "read_array (map Some a @ [None]) = a"
  by (induction a) simp_all

lemma c_flag_bool: "c_flag (c_bool b) = flag b"
  by (simp add: c_flag_def c_bool_def)

lemma model_c_of: "model_c (c_model_of m) = model_py m"
proof (induction m)
  case (Model t q name kids)
  then have "map (model_c \<circ> c_model_of) kids = map model_py kids" by simp
  then show ?case by (simp add: comp_def)
qed

lemma c_view_event: "xpact_event (c_view junk cb) = expat_event cb"
proof (cases cb)
  case (EntityDecl n pe v s pu no)
  then show ?thesis by (cases v) (simp_all add: c_flag_bool string_at_def opt_value_def)
qed (simp_all add: read_array_terminated c_flag_bool model_c_of string_at_def)

section \<open>The two adapters\<close>

definition c_library :: "string \<Rightarrow> (callback, 'p) parser_library \<Rightarrow> (c_callback, 'p) parser_library" where
  \<comment> \<open>the same parser, with its callbacks as C hands them over\<close>
  "c_library junk lib = \<lparr>pl_create = pl_create lib, pl_configure = pl_configure lib, pl_amplification = pl_amplification lib,
     pl_feed = (\<lambda>p part final. map_feed (c_view junk) id (pl_feed lib p part final)),
     pl_code = pl_code lib, pl_message = pl_message lib, pl_line = pl_line lib, pl_column = pl_column lib\<rparr>"

lemma drive_map:
  "drive event load (map_feed g id f) r = drive (\<lambda>cb. event (g cb)) load f r"
proof (induction f arbitrary: r)
  case (External base system_id c k)
  then show ?case by (simp add: option.map_ident split: option.splits)
qed simp_all

lemma drive_c:
  "drive xpact_event load (pl_feed (c_library junk lib) p part final) r = drive expat_event load (pl_feed lib p part final) r"
  by (simp add: c_library_def drive_map c_view_event)

lemma c_library_configure: "pl_configure (c_library junk lib) = pl_configure lib"
  by (simp add: c_library_def)

lemma load_external_c: "load_external fuel h xpact_event (c_library junk lib) opts = load_external fuel h expat_event lib opts"
proof (induction fuel)
  case (Suc fuel)
  show ?case unfolding load_external.simps Suc.IH drive_c c_library_configure ..
qed simp

lemma feed_parts_c: "feed_parts xpact_event load (c_library junk lib) p parts r = feed_parts expat_event load lib p parts r"
  by (induction parts arbitrary: p r) (simp_all add: drive_c split: option.splits sum.splits)

lemma feed_parts_open:
  "parts \<noteq> [] \<Longrightarrow> feed_parts event load lib p parts r = (case feed_open event load lib p (butlast parts) r of
      None \<Rightarrow> None
    | Some (Inl p', r') \<Rightarrow> Some (Inl p', r')
    | Some (Inr p', r') \<Rightarrow> drive event load (pl_feed lib p' (last parts) True) r')"
proof (induction parts arbitrary: p r)
  case (Cons part parts)
  show ?case
  proof (cases "parts = []")
    case True
    then show ?thesis by (auto split: option.splits sum.splits)
  next
    case False
    then show ?thesis by (simp add: Cons.IH split: option.splits sum.splits)
  qed
qed simp


section \<open>Entities that nest\<close>

primrec shrinks :: "('p \<Rightarrow> nat) \<Rightarrow> nat \<Rightarrow> ('cb, 'p) feed \<Rightarrow> bool" where
  \<comment> \<open>the entities a parser of rank \<open>n\<close> offers have smaller ranks, and its own does not grow\<close>
  "shrinks rank n (Callback cb f) = shrinks rank n f"
| "shrinks rank n (External base system_id c k) =
     ((case c of None \<Rightarrow> True | Some q \<Rightarrow> rank q < n) \<and> shrinks rank n (k True) \<and> shrinks rank n (k False))"
| "shrinks rank n (Fed p) = (rank p \<le> n)"
| "shrinks rank n (Failed p) = (rank p \<le> n)"

definition nesting_bounded :: "('p \<Rightarrow> nat) \<Rightarrow> ('cb, 'p) parser_library \<Rightarrow> bool" where
  "nesting_bounded rank lib = ((\<forall>p part final. shrinks rank (rank p) (pl_feed lib p part final))
     \<and> (\<forall>p base namespaces external. rank (pl_configure lib p base namespaces external) \<le> rank p))"

definition defined_below :: "('p \<Rightarrow> nat) \<Rightarrow> nat \<Rightarrow> 'p load \<Rightarrow> 'p load \<Rightarrow> bool" where
  \<comment> \<open>both loaders answer, and alike, for every entity of a rank below \<open>n\<close>\<close>
  "defined_below rank n load load' = (\<forall>base system_id c r. (case c of None \<Rightarrow> True | Some q \<Rightarrow> rank q < n) \<longrightarrow>
     (\<exists>ok r'. load base system_id c r = Some (ok, r') \<and> load' base system_id c r = Some (ok, r')))"

lemma defined_belowD:
  assumes "defined_below rank n load load'" "case c of None \<Rightarrow> True | Some q \<Rightarrow> rank q < n"
  obtains ok r' where "load base system_id c r = Some (ok, r')" "load' base system_id c r = Some (ok, r')"
  using assms unfolding defined_below_def by blast

lemma drive_defined:
  assumes "defined_below rank n load load'"
  shows "shrinks rank n f \<Longrightarrow> \<exists>p r'. rank p \<le> n
    \<and> (drive event load f r = Some (Inl p, r') \<and> drive event load' f r = Some (Inl p, r')
      \<or> drive event load f r = Some (Inr p, r') \<and> drive event load' f r = Some (Inr p, r'))"
proof (induction f arbitrary: r)
  case (External base system_id c k)
  then have "case c of None \<Rightarrow> True | Some q \<Rightarrow> rank q < n" by simp
  then obtain ok r1 where l: "load base system_id c r = Some (ok, r1)" "load' base system_id c r = Some (ok, r1)"
    by (rule defined_belowD [OF assms])
  have "shrinks rank n (k ok)" using External.prems by (cases ok) simp_all
  then show ?case using External.IH [of "k ok" r1] l by simp
qed simp_all

lemma load_external_defined:
  assumes "nesting_bounded rank lib"
  shows "n < fuel \<Longrightarrow> defined_below rank n (load_external fuel h event lib opts) (load_external (fuel + extra) h event lib opts)"
proof (induction fuel arbitrary: n)
  case (Suc fuel)
  show ?case unfolding defined_below_def
  proof (intro allI impI)
    fix base system_id c r
    assume c: "case c of None \<Rightarrow> True | Some q \<Rightarrow> rank q < n"
    show "\<exists>ok r'. load_external (Suc fuel) h event lib opts base system_id c r = Some (ok, r')
        \<and> load_external (Suc fuel + extra) h event lib opts base system_id c r = Some (ok, r')"
    proof (cases "resolve_entity h (po_entity_root opts) base system_id")
      case (Some target)
      show ?thesis
      proof (cases c)
        case c': (Some q)
        let ?q = "pl_configure lib q (Some (eh_str h target)) (po_namespaces opts) (po_external opts)"
        have "rank ?q \<le> rank q" using assms by (simp add: nesting_bounded_def)
        with c c' Suc.prems have "rank ?q < fuel" by simp
        moreover have "shrinks rank (rank ?q) (pl_feed lib ?q (eh_read h target) True)"
          using assms by (simp add: nesting_bounded_def)
        ultimately show ?thesis
          using drive_defined [OF Suc.IH, of "rank ?q" "pl_feed lib ?q (eh_read h target) True" event r]
          by (auto simp: Some c')
      qed (auto simp: Some)
    qed auto
  qed
qed simp

lemma shrinks_mono: "shrinks rank m f \<Longrightarrow> m \<le> n \<Longrightarrow> shrinks rank n f"
  by (induction f) (auto split: option.splits)

lemma feed_open_defined:
  assumes nested: "nesting_bounded rank lib" and load: "defined_below rank n load load'"
  shows "rank p \<le> n \<Longrightarrow> \<exists>q r'. rank q \<le> n
    \<and> (feed_open event load lib p parts r = Some (Inl q, r') \<and> feed_open event load' lib p parts r = Some (Inl q, r')
      \<or> feed_open event load lib p parts r = Some (Inr q, r') \<and> feed_open event load' lib p parts r = Some (Inr q, r'))"
proof (induction parts arbitrary: p r)
  case (Cons part parts)
  have "shrinks rank n (pl_feed lib p part False)"
    using nested Cons.prems by (auto simp: nesting_bounded_def intro: shrinks_mono)
  from drive_defined [OF load this, of event r] obtain q r1 where q: "rank q \<le> n"
    and d: "drive event load (pl_feed lib p part False) r = Some (Inl q, r1) \<and> drive event load' (pl_feed lib p part False) r = Some (Inl q, r1)
      \<or> drive event load (pl_feed lib p part False) r = Some (Inr q, r1) \<and> drive event load' (pl_feed lib p part False) r = Some (Inr q, r1)"
    by blast
  from d Cons.IH [OF q, of r1] q show ?case by auto
qed auto

text \<open>
  A parse ends: where the entities of a document nest to a bounded depth, fuel above the depth gives a result,
  and no more fuel changes it.
\<close>

theorem parse_returns:
  assumes "nesting_bounded rank lib" "rank (pl_create lib (po_encoding opts) (po_namespaces opts)) < fuel"
  shows "\<exists>res. \<forall>extra. parse_expat (fuel + extra) h lib opts document = Some res"
proof (cases "chunks document (po_split opts)")
  case (Inl e)
  then show ?thesis by (simp add: parse_expat_def Let_def)
next
  case (Inr parts)
  let ?p = "configured lib opts (pl_create lib (po_encoding opts) (po_namespaces opts))"
  let ?n = "rank ?p" and ?load = "load_external fuel h expat_event lib opts"
  have "?n \<le> rank (pl_create lib (po_encoding opts) (po_namespaces opts))"
    using assms(1) by (simp add: configured_def nesting_bounded_def)
  with assms(2) have n: "?n < fuel" by simp
  have "parse_expat (fuel + extra) h lib opts document = parse_expat fuel h lib opts document
      \<and> parse_expat fuel h lib opts document \<noteq> None" for extra
  proof -
    let ?load' = "load_external (fuel + extra) h expat_event lib opts"
    have load: "defined_below rank ?n ?load ?load'" by (rule load_external_defined [OF assms(1) n])
    obtain q r where q: "rank q \<le> ?n" and f:
        "feed_open expat_event ?load lib ?p (butlast parts) [] = Some (Inl q, r) \<and> feed_open expat_event ?load' lib ?p (butlast parts) [] = Some (Inl q, r)
       \<or> feed_open expat_event ?load lib ?p (butlast parts) [] = Some (Inr q, r) \<and> feed_open expat_event ?load' lib ?p (butlast parts) [] = Some (Inr q, r)"
      using feed_open_defined [OF assms(1) load order_refl, of expat_event "butlast parts" "[]"] by blast
    have "shrinks rank ?n (pl_feed lib q (if parts = [] then [] else last parts) True)"
      using assms(1) q by (auto simp: nesting_bounded_def intro: shrinks_mono)
    from drive_defined [OF load this, of expat_event r] f show ?thesis
      by (auto simp: parse_expat_def Let_def Inr)
  qed
  then show ?thesis by (metis not_None_eq)
qed

text \<open>
  A library to evaluate with: its parsers are counters, and the document \<open>n\<close> times the byte \<open>&\<close> refers to an
  entity as often as its parser's counter is positive.
\<close>

definition sample_library :: "(callback, nat) parser_library" where
  "sample_library = \<lparr>pl_create = (\<lambda>encoding namespaces. 2), pl_configure = (\<lambda>p base namespaces external. p),
     pl_amplification = (\<lambda>p a. p),
     pl_feed = (\<lambda>p part final. Callback (CharacterData part)
        (if p = 0 then Failed p else External None (Some ''e.ent'') (Some (p - 1)) (\<lambda>ok. Callback (CharacterData ''!'') (Fed p)))),
     pl_code = (\<lambda>p. 22), pl_message = (\<lambda>e. ''error in processing external entity reference''), pl_line = (\<lambda>p. 1), pl_column = (\<lambda>p. 0)\<rparr>"

definition sample_entity_host :: entity_host where
  "sample_entity_host = \<lparr>eh_path = split_on CHR ''/'', eh_str = as_posix,
     eh_resolve = (\<lambda>p. if p = [''suite'', ''..'', ''suite2'', ''x.ent''] then [''suite2'', ''x.ent''] else p),
     eh_is_file = (\<lambda>p. True), eh_read = (\<lambda>p. ''entity'')\<rparr>"

definition sample_options :: parse_options where
  "sample_options = \<lparr>po_path = Some ''suite/a.xml'', po_entity_root = Some ''suite'', po_namespaces = False, po_split = SplitAt 1,
     po_encoding = None, po_external = True, po_bare = False\<rparr>"

theorem parse_returns_witness:
  "\<exists>res. \<forall>extra. parse_expat (3 + extra) sample_entity_host sample_library sample_options ''doc'' = Some res"
proof (rule parse_returns [where rank = "\<lambda>p. p"])
  show "nesting_bounded (\<lambda>p. p) sample_library" by (auto simp: nesting_bounded_def sample_library_def)
  show "pl_create sample_library (po_encoding sample_options) (po_namespaces sample_options) < 3"
    by (simp add: sample_library_def)
qed


section \<open>Where an entity may lie\<close>

text \<open>
  The adapters load entities below their root only, says the module. The code compares the beginning of two texts,
  so a directory beside the root whose name begins with the root's is inside, too.
\<close>

lemma resolve_leaves_root:
  "resolve_entity sample_entity_host (Some ''suite'') None (Some ''../suite2/x.ent'') = Some [''suite2'', ''x.ent'']"
  by code_simp

lemma resolve_entity_Some:
  "resolve_entity h origin base s = Some target \<Longrightarrow> \<not> system_id_refused s \<and> eh_is_file h target
   \<and> (\<exists>limit. origin = Some limit \<and> startswith (lower (eh_str h target)) (lower (eh_str h (eh_resolve h (eh_path h limit)))))"
  by (auto simp: resolve_entity_def Let_def split: option.splits if_splits)

end
