(* ===== verification/Jenkins_Page.thy ===== *)
theory Jenkins_Page
  imports Jenkins_Reports
begin

text \<open>
  The HTML page of \<open>scripts/dual_jenkins_reports.py\<close>: \<open>svg\<close> and \<open>html_report\<close>, as UTF-8 text. Every text of a
  report goes through \<open>html.escape\<close>; the escaping is an argument of the inner definitions, so that the
  page can be compared with its own template. Two formats of numbers (\<open>str\<close> and \<open>.6g\<close> of a float) are
  parameters.
\<close>

section \<open>Escaping\<close>

definition html_char :: "char \<Rightarrow> string" where
  "html_char c = (if c = CHR ''&'' then ''&amp;'' else if c = CHR ''<'' then ''&lt;'' else if c = CHR ''>'' then ''&gt;''
     else if c = CHR 0x22 then ''&quot;'' else if c = CHR 0x27 then ''&#x27;'' else [c])"

definition html_escape :: "string \<Rightarrow> string" where
  \<comment> \<open>\<open>html.escape\<close>, quotation marks included\<close>
  "html_escape s = concat (map html_char s)"

definition escapable :: "json \<Rightarrow> string py" where
  \<comment> \<open>\<open>html.escape\<close> calls \<open>replace\<close>, which only texts have\<close>
  "escapable v = (case v of JStr s \<Rightarrow> Inr s | _ \<Rightarrow> Inl AttributeError)"

record page_formats =
  ph_str :: "rat \<Rightarrow> string" \<comment> \<open>\<open>str(x)\<close> of a float\<close>
  ph_general :: "rat \<Rightarrow> string" \<comment> \<open>\<open>format(x, ".6g")\<close>\<close>

section \<open>The plots\<close>

definition LABELS :: "string list" where
  "LABELS = [''xpact'', ''pinned Xpact-core'']"

definition COLORS :: "string list" where
  "COLORS = [''#0f766e'', ''#b45309'']"

definition max_list :: "rat list \<Rightarrow> rat py" where
  \<comment> \<open>\<open>max(values) or 1\<close>\<close>
  "max_list vs = (case vs of [] \<Rightarrow> Inl (ValueError ''max() arg is an empty sequence'')
     | x # xs \<Rightarrow> let m = fold max xs x in Inr (if m = 0 then 1 else m))"

definition quoted :: "string \<Rightarrow> string" where
  "quoted s = CHR 0x22 # s @ [CHR 0x22]"

definition svg_bar :: "(string \<Rightarrow> string) \<Rightarrow> page_formats \<Rightarrow> rat \<Rightarrow> nat \<times> string \<times> rat \<times> string \<Rightarrow> string list" where
  "svg_bar esc fm maximum = (\<lambda>(index, label, v, color).
     let y = 12 + index * 55; width = v / maximum * 430 in
     [''<text x='' @ quoted ''0'' @ '' y='' @ quoted (digits_of (y + 22)) @ ''>'' @ esc label @ ''</text>'',
      ''<rect x='' @ quoted ''175'' @ '' y='' @ quoted (digits_of y) @ '' width='' @ quoted (fixed 3 width)
        @ '' height='' @ quoted ''32'' @ '' fill='' @ quoted color @ ''/>'',
      ''<text x='' @ quoted (ph_str fm (185 + width)) @ '' y='' @ quoted (digits_of (y + 22)) @ ''>'' @ ph_general fm v @ ''</text>''])"

definition svg :: "(string \<Rightarrow> string) \<Rightarrow> page_formats \<Rightarrow> plot \<Rightarrow> string py" where
  "svg esc fm spec = bindE (max_list (sp_values spec)) (\<lambda>maximum.
     Inr (join [CHR 10]
       ([''<section><h2>'' @ esc (sp_title spec) @ ''</h2>'', ''<p>'' @ esc (sp_yaxis spec) @ ''</p>'',
         ''<svg viewBox='' @ quoted ''0 0 820 130'' @ '' role='' @ quoted ''img'' @ '' aria-label='' @ quoted (esc (sp_title spec)) @ ''>'']
        @ concat (map (svg_bar esc fm maximum) (enumerate 0 (zip LABELS (zip (sp_values spec) COLORS))))
        @ [''</svg></section>''])))"

section \<open>The page\<close>

definition page_head :: "string list" where
  "page_head =
    [''<!doctype html><html lang='' @ quoted ''en'' @ ''><head><meta charset='' @ quoted ''utf-8'' @ ''>'',
     ''<meta name='' @ quoted ''viewport'' @ '' content='' @ quoted ''width=device-width, initial-scale=1'' @ ''>'',
     ''<title>Dual implementation plots</title>'',
     ''<style>body{font:16px system-ui,sans-serif;max-width:1050px;margin:2rem auto;padding:0 1rem;color:#17252a}table{border-collapse:collapse;width:100%;margin:1rem 0}th,td{border:1px solid #ccd4d7;padding:.5rem;text-align:left}svg{width:100%;height:auto}code{overflow-wrap:anywhere}section{margin:2rem 0}p{line-height:1.5}</style>'',
     ''</head><body><h1>Dual implementation plots</h1>'']"

definition status_head :: "string list" where
  "status_head =
    [''<p>Windows x64; Eiffel finalized with assertions discarded. Assertion-enabled builds run directed controls only.</p>'',
     ''<table><tr><th>Lane</th><th>Status</th><th>Evidence or infrastructure error</th></tr>'']"

definition page_notes :: "string list" where
  "page_notes =
    [''</table>'',
     ''<p>Only xpact contributes to the Jenkins Test Result summary and its test pass/fail decision. Xpact-core remains comparison data in these plots and detailed artifacts.</p>'',
     ''<p>Catalog timing is normalized per 1,000 documents because calibration can change the iteration count. Throughput is the median of measured pairs. Both engines use no-op handlers; parser reset/reuse and process startup are timed. Core retains internal GC suspension/full collection; the caller requests no additional suspension.</p>'',
     ''<p>W3C plots show functional outcomes, including red completed campaigns. Wrong verdicts and process errors remain failures; exclusions are never passed. W3C elapsed times include fresh process startup and file I/O and are not compared here as parser throughput. No known-failure allowlist is applied.</p>'']"

definition page_foot :: "string list" where
  "page_foot = [''<p>Native DLLs, .NET, external entity processing and general event/canonical-output parity are outside these lanes.</p>'', ''</body></html>'']"

definition cell :: "string \<Rightarrow> string" where
  "cell s = ''<td>'' @ s @ ''</td>''"

definition table_row :: "string list \<Rightarrow> string" where
  "table_row cells = ''<tr>'' @ concat (map cell cells) @ ''</tr>''"

definition evidence_links :: "string \<Rightarrow> string" where
  "evidence_links lane = ''<a href='' @ quoted (lane @ ''/report.json'') @ ''>Report</a> '' @ [CHR 0xC2, CHR 0xB7]
     @ '' <a href='' @ quoted (lane @ ''/summary.md'') @ ''>Summary</a>''"

definition lane_line :: "(string \<Rightarrow> string) \<Rightarrow> json \<Rightarrow> (string \<times> json) list \<Rightarrow> string \<Rightarrow> string py" where
  "lane_line esc state lane_reports lane =
     bindE (bindE (j_item state ''lanes'') (\<lambda>lanes. j_item lanes lane)) (\<lambda>row.
     bindE (if map_of lane_reports lane \<noteq> None then Inr (evidence_links lane)
            else bindE (bindE (j_getd row ''error'' (JStr ''No completed campaign; no numeric values published.'')) escapable) (\<lambda>s. Inr (esc s))) (\<lambda>evidence.
     bindE (bindE (j_item row ''status'') escapable) (\<lambda>status.
     Inr (table_row [lane, esc status, evidence]))))"

definition subject_line :: "(string \<Rightarrow> string) \<Rightarrow> json \<Rightarrow> string list py" where
  "subject_line esc state = bindE (j_get state ''subject_summary'') (\<lambda>summary.
     if \<not> truthy summary then Inr []
     else bindE (bindE (j_item summary ''status'') escapable) (\<lambda>status.
       Inr [''<p>Jenkins xpact test status: <strong>'' @ esc status @ ''</strong>. <a href='' @ quoted ''xpact-summary.json'' @ ''>Test summary</a>.</p>'']))"

definition outcome_count :: "json \<Rightarrow> string \<Rightarrow> nat py" where
  "outcome_count row status = bindE (bindE (j_item row ''cases'') j_iter) (\<lambda>cases.
     bindE (mapE (\<lambda>c. bindE (j_item c ''status'') (\<lambda>s. Inr (py_eq s (JStr status)))) cases) (\<lambda>hits. Inr (length (filter id hits))))"

definition qualification_line :: "(string \<Rightarrow> string) \<Rightarrow> json \<Rightarrow> string py" where
  "qualification_line esc row =
     bindE (bindE (j_item row ''implementation'') escapable) (\<lambda>implementation.
     bindE (j_item row ''assertions'') (\<lambda>assertions.
     bindE (outcome_count row ''PASS'') (\<lambda>passed.
     bindE (outcome_count row ''FAIL'') (\<lambda>failed.
     bindE (bindE (j_getd row ''qualification_error'' (JStr [])) escapable) (\<lambda>problem.
     Inr (table_row [esc implementation, if truthy assertions then ''on'' else ''off'', digits_of passed, digits_of failed, esc problem]))))))"

definition code :: "string \<Rightarrow> string" where
  "code s = ''<code>'' @ s @ ''</code>''"

definition artifact_line :: "(string \<Rightarrow> string) \<Rightarrow> json \<Rightarrow> string \<Rightarrow> string py" where
  "artifact_line esc report engine =
     bindE (path_item report [''artifacts'', engine]) (\<lambda>artifact.
     bindE (bindE (path_item artifact [''source'', ''revision'']) escapable) (\<lambda>revision.
     bindE (bindE (j_item artifact ''executable_sha256'') escapable) (\<lambda>sha.
     bindE (bindE (j_item artifact ''gc_policy'') escapable) (\<lambda>policy.
     Inr (table_row [esc engine, code (esc revision), code (esc sha), esc policy])))))"

definition lane_section :: "(string \<Rightarrow> string) \<Rightarrow> string \<times> json \<Rightarrow> string list py" where
  "lane_section esc = (\<lambda>(lane, report).
     bindE (bindE (j_item report ''qualification'') j_iter) (\<lambda>rows.
     bindE (mapE (qualification_line esc) rows) (\<lambda>controls.
     bindE (mapE (artifact_line esc report) implementations) (\<lambda>artifacts.
     Inr ([''<h2>'' @ esc lane @ '' directed controls</h2>'',
           ''<table><tr><th>Implementation</th><th>Assertions</th><th>Passed</th><th>Failed</th><th>Control process/protocol error</th></tr>'']
          @ controls
          @ [''</table>'', ''<table><tr><th>Implementation</th><th>Source revision</th><th>Executable SHA-256</th><th>GC policy</th></tr>'']
          @ artifacts @ [''</table>''])))))"

definition page_with :: "(string \<Rightarrow> string) \<Rightarrow> page_formats \<Rightarrow> json \<Rightarrow> (string \<times> json) list \<Rightarrow> plot list \<Rightarrow> string py" where
  "page_with esc fm state lane_reports plots =
     bindE (bindE (j_item state ''build_id'') escapable) (\<lambda>build_id.
     bindE (bindE (j_item state ''status'') escapable) (\<lambda>status.
     bindE (mapE (lane_line esc state lane_reports) [''catalog'', ''w3c'']) (\<lambda>lanes.
     bindE (subject_line esc state) (\<lambda>subject.
     bindE (mapE (svg esc fm) plots) (\<lambda>drawn.
     bindE (mapE (lane_section esc) lane_reports) (\<lambda>sections.
     Inr (join [CHR 10] (page_head
         @ [''<p>Jenkins build: <code>'' @ esc build_id @ ''</code>. Comparison campaign status: <strong>'' @ esc status @ ''</strong>.</p>'']
         @ status_head @ lanes @ page_notes @ subject @ drawn @ concat sections @ page_foot) @ [CHR 10])))))))"

definition html_report :: "page_formats \<Rightarrow> json \<Rightarrow> (string \<times> json) list \<Rightarrow> plot list \<Rightarrow> string py" where
  "html_report = page_with html_escape"

definition page_published :: "page_formats \<Rightarrow> json \<Rightarrow> (string \<times> json) list \<Rightarrow> unit py" where
  \<comment> \<open>the rendering as the publication sees it: after the checks, and it may raise\<close>
  "page_published fm state lane_reports =
     bindE (collect_plots state lane_reports) (\<lambda>plots. bindE (html_report fm state lane_reports plots) (\<lambda>_. Inr ()))"

end
