(* ===== verification/Page_Claims.thy ===== *)
theory Page_Claims
  imports Jenkins_Page
begin

text \<open>Properties of the HTML page: nothing of a report becomes markup.\<close>

definition is_markup :: "char \<Rightarrow> bool" where
  "is_markup c = (c = CHR ''<'' \<or> c = CHR ''>'' \<or> c = CHR 0x22 \<or> c = CHR 0x27)"

definition markup :: "string \<Rightarrow> string" where
  "markup s = filter is_markup s"

definition blank :: "string \<Rightarrow> string" where
  "blank s = []"

lemma markup_simps [simp]:
  "markup [] = []" "markup (c # s) = (if is_markup c then c # markup s else markup s)" "markup (s @ t) = markup s @ markup t"
  by (simp_all add: markup_def)

lemma markup_concat: "markup (concat ss) = concat (map markup ss)"
  by (induction ss) simp_all

lemma html_char_plain: "markup (html_char c) = []"
  by (simp add: html_char_def is_markup_def)

lemma markup_escape [simp]: "markup (html_escape s) = []" "markup (blank s) = []"
  by (simp_all add: html_escape_def markup_concat html_char_plain comp_def blank_def)

lemma markup_join: "markup (join sep ss) = markup (join sep' ss')" if "map markup ss = map markup ss'" "markup sep = markup sep'"
  using that
proof (induction ss arbitrary: ss')
  case (Cons s ss)
  then obtain t ts where ts: "ss' = t # ts" "markup s = markup t" "map markup ss = map markup ts" by auto
  show ?case using Cons.IH [OF ts(3) Cons.prems(2)] ts Cons.prems(2) by (cases ss; cases ts) simp_all
qed simp

lemma map_sum_bind: "map_sum id g (bindE m f) = bindE m (\<lambda>x. map_sum id g (f x))"
  by (cases m) simp_all

text \<open>Two computations that raise alike and, where they return, return values alike under \<open>g\<close>.\<close>

lemma alike_bind:
  assumes "map_sum id g m = map_sum id g m'" "\<And>x y. g x = g y \<Longrightarrow> map_sum id h (f x) = map_sum id h (f' y)"
  shows "map_sum id h (bindE m f) = map_sum id h (bindE m' f')"
  using assms by (cases m; cases m') auto

lemma alike_same: "(\<And>x. map_sum id h (f x) = map_sum id h (f' x)) \<Longrightarrow> map_sum id h (bindE m f) = map_sum id h (bindE m f')"
  by (cases m) auto

lemma alike_map:
  "(\<And>x. map_sum id g (f x) = map_sum id g (f' x)) \<Longrightarrow> map_sum id (map g) (mapE f xs) = map_sum id (map g) (mapE f' xs)"
proof (induction xs)
  case (Cons x xs)
  show ?case unfolding mapE.simps
    by (rule alike_bind [OF Cons.prems], rule alike_bind [OF Cons.IH [OF Cons.prems]]) simp
qed simp

section \<open>Escaped and blanked\<close>

abbreviation same_markup :: "string py \<Rightarrow> string py \<Rightarrow> bool" where
  "same_markup m m' \<equiv> map_sum id markup m = map_sum id markup m'"

lemma markup_row: "map markup cells = map markup cells' \<Longrightarrow> markup (table_row cells) = markup (table_row cells')"
proof -
  have "markup (cell s) = markup ''<td>'' @ markup s @ markup ''</td>''" for s by (simp add: cell_def)
  then have "map markup (map cell cells) = map (\<lambda>m. markup ''<td>'' @ m @ markup ''</td>'') (map markup cells)" for cells
    by simp
  then show "map markup cells = map markup cells' \<Longrightarrow> markup (table_row cells) = markup (table_row cells')"
    by (simp only: table_row_def markup_simps markup_concat)
qed

lemma svg_bar_markup: "map markup (svg_bar html_escape fm m bar) = map markup (svg_bar blank fm m bar)"
  by (cases bar) (simp add: svg_bar_def Let_def quoted_def)

lemma svg_markup: "same_markup (svg html_escape fm spec) (svg blank fm spec)"
proof -
  have "map markup (concat (map (svg_bar html_escape fm m) bars)) = map markup (concat (map (svg_bar blank fm m) bars))" for m bars
    by (induction bars) (simp_all add: svg_bar_markup)
  then show ?thesis unfolding svg_def by (intro alike_same) (simp add: quoted_def, intro markup_join, simp_all)
qed

lemma lane_line_markup: "same_markup (lane_line html_escape state lane_reports lane) (lane_line blank state lane_reports lane)"
  unfolding lane_line_def
  by (intro alike_same alike_bind [where g = markup]) (simp_all add: alike_same markup_row)

lemma subject_line_markup: "map_sum id (map markup) (subject_line html_escape state) = map_sum id (map markup) (subject_line blank state)"
  unfolding subject_line_def by (intro alike_same) (auto intro!: alike_same)

lemma qualification_line_markup: "same_markup (qualification_line html_escape row) (qualification_line blank row)"
  unfolding qualification_line_def by (intro alike_same) (simp add: markup_row)

lemma artifact_line_markup: "same_markup (artifact_line html_escape report engine) (artifact_line blank report engine)"
  unfolding artifact_line_def by (intro alike_same) (simp add: markup_row code_def)

lemma lane_section_markup: "map_sum id (map markup) (lane_section html_escape lr) = map_sum id (map markup) (lane_section blank lr)"
proof (cases lr)
  case (Pair lane report)
  show ?thesis unfolding lane_section_def Pair prod.case
    by (intro alike_same alike_bind [OF alike_map [OF qualification_line_markup]] alike_bind [OF alike_map [OF artifact_line_markup]]) simp
qed


end
