(* ===== verification/Catalog_Summary.thy ===== *)
theory Catalog_Summary
  imports Dual_Catalog
begin

text \<open>
  The Markdown text of the catalog lane, \<open>summary_markdown\<close> of \<open>scripts/run_dual_catalog.py\<close>, as UTF-8. It is
  rendered after \<open>validate_comparison\<close>, whose numbers are finite and positive. \<open>fr\<close> is \<open>repr\<close> of a float.
\<close>

definition measured_number :: "json \<Rightarrow> rat py" where
  \<comment> \<open>a number that \<open>not_measured\<close> lets pass\<close>
  "measured_number v = (case v of JInt i \<Rightarrow> Inr (of_int i) | JBool b \<Rightarrow> Inr (of_bool b) | JFloat (Fin q) \<Rightarrow> Inr q | _ \<Rightarrow> Inl TypeError)"

definition measured_column :: "json list \<Rightarrow> string \<Rightarrow> rat list py" where
  "measured_column rows key = mapE (\<lambda>row. bindE (j_item row key) measured_number) rows"

definition summary_row :: "(fl \<Rightarrow> string) \<Rightarrow> json \<Rightarrow> json list \<Rightarrow> string \<times> string \<Rightarrow> string py" where
  "summary_row fr report rows = (\<lambda>(implementation, prefix).
     bindE (path_item report [''artifacts'', implementation]) (\<lambda>artifact.
     bindE (path_item artifact [''source'', ''revision'']) (\<lambda>revision.
     bindE (j_item artifact ''gc_policy'') (\<lambda>policy.
     bindE (measured_column rows (prefix @ ''ElapsedMs'')) (\<lambda>elapsed.
     bindE (measured_column rows (prefix @ ''MiBPerSecond'')) (\<lambda>rates.
     Inr (''| '' @ implementation @ '' | `'' @ py_str fr revision @ ''` | '' @ py_str fr policy @ '' | ''
       @ fixed 3 (median elapsed) @ '' | '' @ fixed 3 (median rates) @ '' |'')))))))"

definition summary_notes :: "string list" where
  "summary_notes =
    [[], ''Ratios above 1 favor core. This is an end-to-end implementation comparison:'',
     ''core disables GC internally and performs a full collection on final input; that cost is timed.'',
     ''The caller requests no additional GC suspension for either implementation.'',
     ''Parser reset/reuse and process startup are timed; compilation and qualification are excluded.'',
     ''Both use no-op handlers during timing. Observing-handler checks run before measurements.'', [],
     ''Raw alternating AB/BA pairs, calibration, executable hashes and all build manifests are retained.'',
     ''This gate covers the catalog and directed reuse/recovery checks, not general XML conformance.'', []]"

definition en_dash :: string where
  "en_dash = [CHR 0xE2, CHR 0x80, CHR 0x93]"

definition summary_markdown :: "(fl \<Rightarrow> string) \<Rightarrow> json \<Rightarrow> string py" where
  "summary_markdown fr report =
     bindE (j_item report ''comparison'') (\<lambda>comparison.
     bindE (j_item comparison ''results'') (\<lambda>results.
     bindE (bindE (j_first results) (\<lambda>row. j_item row ''Iterations'')) (\<lambda>documents.
     bindE (j_iter results) (\<lambda>rows.
     bindE (measured_column rows ''CandidateSpeedRatio'') (\<lambda>ratios.
     bindE (mapE (summary_row fr report rows) [(''xpact'', ''Baseline''), (''xpact-core'', ''Candidate'')]) (\<lambda>table.
     Inr (join [CHR 10]
       ([''# Dual catalog: finalized, assertions discarded'', [],
         ''Status: complete; both assertion configurations passed the scoped correctness gate.'', [],
         ''Workload: catalog-100-items, '' @ digits_of (length DOCUMENT) @ '' bytes, '' @ py_str fr documents @ '' documents per sample.'',
         [], ''| Implementation | Revision | GC policy | Median ms | Median MiB/s |'', ''|---|---|---|---:|---:|'']
        @ table
        @ [[], ''Median xpact time / core time: '' @ fixed 4 (median ratios) @ ''; pair range '' @ fixed 4 (Min (set ratios)) @ en_dash
             @ fixed 4 (Max (set ratios)) @ ''.'']
        @ summary_notes))))))))"

end
