(* ===== verification/Catalog_Summary_Claims.thy ===== *)
theory Catalog_Summary_Claims
  imports Catalog_Summary Catalog_Sample
begin

text \<open>The summary of a comparison that passed its checks is rendered.\<close>

lemma not_measured_False: "not_measured v = Inr False \<Longrightarrow> \<exists>q. measured_number v = Inr q \<and> 0 < q"
  by (cases v) (auto simp: not_measured_def measured_number_def of_bool_def split: fl.splits if_splits)

lemma check_row_measured:
  assumes "check_row (i, row) = Inr n" "key \<in> set MEASUREMENTS"
  shows "\<exists>v q. field row key = Some v \<and> measured_number v = Inr q \<and> 0 < q"
proof -
  have "forE (\<lambda>key. bindE (bindE (j_item row key) not_measured) (\<lambda>bad.
       raise_if bad (LaneError ''Comparison contains an invalid measurement''))) MEASUREMENTS = Inr ()"
    using assms(1) unfolding check_row_def prod.case by (elim bindE_InrE) simp
  then have "bindE (bindE (j_item row key) not_measured) (\<lambda>bad. raise_if bad (LaneError ''Comparison contains an invalid measurement'')) = Inr ()"
    using assms(2) unfolding forE_Inr_iff by (rule bspec)
  then obtain v where "field row key = Some v" "not_measured v = Inr False"
    by (elim bindE_InrE) (auto simp: raise_if_Inr_iff j_item_Inr_iff)
  then show ?thesis using not_measured_False by blast
qed

lemma measured_column_total:
  assumes "mapE check_row (enumerate n rows) = Inr ns" "key \<in> set MEASUREMENTS"
  shows "\<exists>qs. measured_column rows key = Inr qs \<and> length qs = length rows \<and> list_all (\<lambda>q. 0 < q) qs"
  using assms(1)
proof (induction rows arbitrary: n ns)
  case (Cons row rows)
  from Cons.prems obtain i js where i: "check_row (n, row) = Inr i" "mapE check_row (enumerate (Suc n) rows) = Inr js"
    by (auto simp: bindE_Inr_iff)
  from check_row_measured [OF i(1) assms(2)] Cons.IH [OF i(2)] show ?case
    by (auto simp: measured_column_def bindE_Inr_iff j_item_Inr_iff)
qed (simp add: measured_column_def)

lemma measurement_keys:
  "''CandidateSpeedRatio'' \<in> set MEASUREMENTS"
  "''Baseline'' @ ''ElapsedMs'' \<in> set MEASUREMENTS" "''Baseline'' @ ''MiBPerSecond'' \<in> set MEASUREMENTS"
  "''Candidate'' @ ''ElapsedMs'' \<in> set MEASUREMENTS" "''Candidate'' @ ''MiBPerSecond'' \<in> set MEASUREMENTS"
  by (simp_all add: MEASUREMENTS_def)

definition names_its_build :: "(string \<times> json) list \<Rightarrow> string \<Rightarrow> bool" where
  \<comment> \<open>an artifact with the two fields the summary names\<close>
  "names_its_build artifacts i = (case map_of artifacts i of None \<Rightarrow> False
     | Some a \<Rightarrow> (case path_item a [''source'', ''revision''] of Inl e \<Rightarrow> False | Inr v \<Rightarrow> True) \<and> field a ''gc_policy'' \<noteq> None)"

lemma path_item_pair: "path_item v [a, b] = bindE (j_item v a) (\<lambda>w. j_item w b)"
  by (simp add: path_item_def)

lemma summary_row_total:
  assumes "field report ''artifacts'' = Some (JObj artifacts)" "names_its_build artifacts i"
    "mapE check_row (enumerate n rows) = Inr ns" "prefix @ ''ElapsedMs'' \<in> set MEASUREMENTS" "prefix @ ''MiBPerSecond'' \<in> set MEASUREMENTS"
  shows "\<exists>line. summary_row fr report rows (i, prefix) = Inr line"
proof -
  from assms(2) obtain a revision policy where a: "map_of artifacts i = Some a" "path_item a [''source'', ''revision''] = Inr revision"
    "field a ''gc_policy'' = Some policy" by (auto simp: names_its_build_def split: option.splits sum.splits)
  have "path_item report [''artifacts'', i] = Inr a"
    using assms(1) a(1) by (simp add: path_item_pair bindE_Inr_iff j_item_Inr_iff field_def obj_lookup_def)
  with a measured_column_total [OF assms(3,4)] measured_column_total [OF assms(3,5)] show ?thesis
    by (auto simp: summary_row_def j_item_Inr_iff [THEN iffD2])
qed

lemma validated_rows:
  assumes "validate_comparison resolve_text comparison artifacts pairs = Inr ()"
  obtains results rows ns where "field comparison ''results'' = Some results" "j_iter results = Inr rows"
    "int (length rows) = pairs" "mapE check_row (enumerate 1 rows) = Inr ns"
proof -
  from assms obtain metadata workloads results summaries rows ns where
    "j_item comparison ''results'' = Inr results" "comparison_incomplete results summaries pairs = Inr False"
    "j_iter results = Inr rows" "mapE check_row (enumerate 1 rows) = Inr ns"
    unfolding validate_comparison_def by (elim bindE_InrE) (simp add: raise_if_Inr_iff)
  moreover from this have "int (length rows) = pairs"
    by (simp add: comparison_incomplete_def anyE_False_iff length_differs_def j_len_def)
  ultimately show thesis by (intro that) (simp_all add: j_item_Inr_iff)
qed

lemma check_row_object:
  assumes "check_row (n, row) = Inr i"
  obtains m where "row = JObj m"
proof -
  from assms have "row_mismatch (n, row) = Inr False"
    unfolding check_row_def prod.case by (elim bindE_InrE) (simp add: raise_if_Inr_iff)
  then have "item_ne row ''Workload'' ''catalog'' = Inr False" by (simp add: row_mismatch_def anyE_False_iff)
  then show thesis using that by (auto simp: item_ne_False_iff field_def split: json.splits)
qed

lemma first_row:
  assumes "j_iter results = Inr (row # rows)" "check_row (n, row) = Inr i"
  shows "j_first results = Inr row"
proof -
  obtain m where "row = JObj m" by (rule check_row_object [OF assms(2)])
  with assms(1) show ?thesis by (cases results) (auto simp: j_iter_def j_first_def)
qed

text \<open>
  A comparison that passed its checks is summarised: where \<open>validate_comparison\<close> accepted the comparison
  of at least one pair, and both artifacts name their revision and policy, \<open>summary_markdown\<close> returns a text, so
  it cannot turn a complete lane into a failed one.
\<close>

theorem catalog_summary_renders:
  assumes "validate_comparison resolve_text comparison artifacts pairs = Inr ()" "0 < pairs"
    "field report ''comparison'' = Some comparison" "field report ''artifacts'' = Some (JObj artifacts)"
    "names_its_build artifacts ''xpact''" "names_its_build artifacts ''xpact-core''"
  shows "\<exists>summary. summary_markdown fr report = Inr summary"
proof -
  from assms(1) obtain results rows ns where r: "field comparison ''results'' = Some results" "j_iter results = Inr rows"
    "int (length rows) = pairs" "mapE check_row (enumerate 1 rows) = Inr ns" by (rule validated_rows)
  from r(3) assms(2) obtain row rest where rows: "rows = row # rest" by (cases rows) auto
  from r(4) obtain i where i: "check_row (1, row) = Inr i" by (auto simp: rows bindE_Inr_iff)
  have "j_first results = Inr row" by (rule first_row [OF r(2) [unfolded rows] i])
  moreover obtain documents where "j_item row ''Iterations'' = Inr documents"
    using i unfolding check_row_def prod.case by (elim bindE_InrE) blast
  moreover obtain ratios where "measured_column rows ''CandidateSpeedRatio'' = Inr ratios"
    using measured_column_total [OF r(4) measurement_keys(1)] by blast
  moreover obtain own where "summary_row fr report rows (''xpact'', ''Baseline'') = Inr own"
    using summary_row_total [OF assms(4,5) r(4) measurement_keys(2,3)] by blast
  moreover obtain core where "summary_row fr report rows (''xpact-core'', ''Candidate'') = Inr core"
    using summary_row_total [OF assms(4,6) r(4) measurement_keys(4,5)] by blast
  ultimately show ?thesis using r(1,2) assms(3) unfolding summary_markdown_def
    by (simp only: j_item_Inr_iff [THEN iffD2] bindE_simps mapE.simps sum.inject) blast
qed

definition sample_summary_report :: json where
  "sample_summary_report = JObj [(''artifacts'', JObj (gt_artifacts sample_gate)), (''comparison'', comparison_json [] sample_comparison)]"

theorem catalog_summary_renders_witness: "\<exists>summary. summary_markdown (\<lambda>_. ''1.0'') sample_summary_report = Inr summary"
proof (rule catalog_summary_renders [where artifacts = "gt_artifacts sample_gate", OF sample_validated])
  show "names_its_build (gt_artifacts sample_gate) ''xpact''" "names_its_build (gt_artifacts sample_gate) ''xpact-core''" by code_simp+
qed (simp_all add: sample_summary_report_def field_def obj_lookup_def)

end
