(* ===== verification/W3C_Markdown.thy ===== *)
theory W3C_Markdown
  imports W3C_Report Report_Tables
begin

text \<open>
  The text of \<open>summary.md\<close> in \<open>write_reports\<close> of \<open>scripts/run_w3c_conformance.py\<close>: the table of the engines, the
  table of the lanes and the adjustments. \<open>fr\<close> is \<open>str\<close> of the elapsed time.
\<close>

definition W3C_SUITE_URL :: string where
  "W3C_SUITE_URL = ''https://www.w3.org/XML/Test/xmlts20130923.zip''"

definition LANE_MEANINGS :: "(string \<times> string) list" where
  "LANE_MEANINGS =
    [(''core'', ''the profile above''),
     (''legacy-names'', ''XML 1.0 editions 1-4: fourth-edition name tables (--legacy-names, as the native DLL parser uses); W3C verdict''),
     (''external-entities'', ''external entities loaded through the Expat-compatible DLL (child parsers, files below the suite root); W3C verdict, nonvalidating''),
     (''optional-error'', ''TYPE=error: the specification allows either verdict; only a crash, timeout or missing verdict fails''),
     (''xml-1.1'', ''XML 1.1 / Namespaces 1.1: no XML 1.0 verdict exists; only a crash, timeout or missing verdict fails'')]"

definition md_row :: "string list \<Rightarrow> string" where
  "md_row cells = ''| '' @ join '' | '' cells @ '' |''"

section \<open>Engines\<close>

definition summary_table_line :: "(rat \<Rightarrow> string) \<Rightarrow> bool \<Rightarrow> report_totals \<Rightarrow> string" where
  "summary_table_line fr robust m = md_row
     ([m_engine m, show_nat (m_total m), show_int (m_passed m)] @ (if robust then [show_nat (m_no_crash_only m)] else [])
      @ [show_nat (m_failed m), show_nat (m_errors m), show_nat (m_skipped m), show_nat (m_known m), show_nat (m_unexpected m),
         fr (m_elapsed_ms m)])"

definition engine_table :: "(rat \<Rightarrow> string) \<Rightarrow> report_totals list \<Rightarrow> string list" where
  "engine_table fr summaries =
     (if list_ex (\<lambda>m. m_no_crash_only m \<noteq> 0) summaries
      then [''| Engine | Cases | Passed (verdict checked) | No crash only | Failed | Errors | Skipped | Known | Unexpected | Elapsed ms |'',
            ''|---|---:|---:|---:|---:|---:|---:|---:|---:|---:|''] @ map (summary_table_line fr True) summaries
      else [''| Engine | Cases | Passed | Failed | Errors | Skipped | Known | Unexpected | Elapsed ms |'',
            ''|---|---:|---:|---:|---:|---:|---:|---:|---:|''] @ map (summary_table_line fr False) summaries)"

section \<open>Lanes\<close>

record lane_row =
  ln_engine :: string
  ln_lane :: string
  ln_judged :: string
  ln_cases :: nat
  ln_passed :: nat
  ln_failed :: nat
  ln_errors :: nat
  ln_skipped :: nat
  ln_accepted :: nat
  ln_rejected :: nat

definition rows_in :: "result list \<Rightarrow> string \<Rightarrow> string \<Rightarrow> result list" where
  "rows_in results engine lane = filter (\<lambda>r. r_engine r = engine \<and> r_lane r = lane) results"

definition lane_row_of :: "result list \<Rightarrow> string \<Rightarrow> string \<Rightarrow> lane_row" where
  "lane_row_of results engine lane =
     (let rows = rows_in results engine lane in
      \<lparr>ln_engine = engine, ln_lane = lane,
       ln_judged = (if rows \<noteq> [] \<and> list_all (\<lambda>r. r_expected r = ''ANY'') rows then ''no crash only'' else ''verdict''),
       ln_cases = length rows, ln_passed = status_count ''passed'' rows, ln_failed = status_count ''failed'' rows,
       ln_errors = status_count ''error'' rows, ln_skipped = status_count ''skipped'' rows,
       ln_accepted = count_if (\<lambda>r. r_actual r = ''ACCEPT'') rows, ln_rejected = count_if (\<lambda>r. r_actual r = ''REJECT'') rows\<rparr>)"

definition not_harness :: "result list \<Rightarrow> result list" where
  "not_harness results = filter (\<lambda>r. r_engine r \<noteq> ''harness'') results"

definition lanes_in :: "result list \<Rightarrow> string list" where
  "lanes_in results = fromkeys (map r_lane (not_harness results))"

definition lane_rows :: "result list \<Rightarrow> lane_row list" where
  "lane_rows results = concat (map (\<lambda>engine. map (lane_row_of results engine) (lanes_in results))
     (fromkeys (map r_engine (not_harness results))))"

definition lane_cells :: "lane_row \<Rightarrow> string list" where
  "lane_cells row = [ln_engine row, ln_lane row, ln_judged row, show_nat (ln_cases row), show_nat (ln_passed row), show_nat (ln_failed row),
     show_nat (ln_errors row), show_nat (ln_skipped row), show_nat (ln_accepted row), show_nat (ln_rejected row)]"

definition lanes_shown :: "result list \<Rightarrow> bool" where
  "lanes_shown results = list_ex (\<lambda>r. r_lane r \<noteq> ''core'' \<and> r_status r \<noteq> ''skipped'') results"

definition lane_note :: "string \<Rightarrow> string py" where
  "lane_note lane = bindE (py_item (map_of LANE_MEANINGS) lane) (\<lambda>meaning. Inr (''- `'' @ lane @ ''`: '' @ meaning))"

definition lane_table :: "result list \<Rightarrow> string list py" where
  "lane_table results =
     (if \<not> lanes_shown results then Inr []
      else bindE (mapE lane_note (lanes_in results)) (\<lambda>notes.
        Inr ([[], ''## Lanes (--all-cases)'', [],
              ''| Engine | Lane | Judged by | Cases | Passed | Failed | Errors | Skipped | Accepted | Rejected |'',
              ''|---|---|---|---:|---:|---:|---:|---:|---:|---:|'']
             @ map (md_row \<circ> lane_cells) (lane_rows results) @ [[]] @ notes)))"

section \<open>The text\<close>

definition adjustment_lines :: "(string \<times> string \<times> string \<times> string) list \<Rightarrow> string list" where
  "adjustment_lines adjustments =
     (if adjustments = [] then []
      else [[], ''Catalog expectations adjusted to the selected XML edition:'']
        @ map (\<lambda>(i, listed, expected, reason). ''- '' @ i @ '': catalog '' @ listed @ ''; profile '' @ expected @ ''. '' @ reason) adjustments)"

definition w3c_markdown :: "(rat \<Rightarrow> string) \<Rightarrow> result list \<Rightarrow> string py" where
  "w3c_markdown fr results =
     (let report = write_reports results in
      bindE (lane_table results) (\<lambda>lanes.
      Inr (join [CHR 10]
        ([''# W3C XML conformance'', [], ''Source: '' @ W3C_SUITE_URL, [], ''Profile: '' @ PROFILE, []]
         @ engine_table fr (rp_engines report) @ lanes @ adjustment_lines (rp_adjustments report)
         @ [[], ''Known counts failures and errors listed in the known-failures file; they are still parser gaps.'',
            ''Unexpected counts every other failure or error; any unexpected result fails the run.'',
            ''Elapsed time includes a fresh process and file read per executed case; it is not parser-only throughput.'',
            ''Skipped cases are excluded from conformance results. Canonical output comparisons are not implemented.'', []]))))"

section \<open>The lanes add up\<close>

lemma filter_in_lanes: "engine \<noteq> ''harness'' \<Longrightarrow> r \<in> set (rows_of engine results) \<Longrightarrow> r_lane r \<in> set (lanes_in results)"
  by (auto simp: lanes_in_def not_harness_def rows_of_def)

lemma rows_in_of: "rows_in results engine lane = filter (\<lambda>r. r_lane r = lane) (rows_of engine results)"
  by (simp add: rows_in_def rows_of_def conj_commute)

lemma sum_over_keys:
  assumes "distinct ks" "\<And>x. x \<in> set xs \<Longrightarrow> key x \<in> set ks"
  shows "sum_list (map (\<lambda>k. count_if p (filter (\<lambda>x. key x = k) xs)) ks) = count_if p xs"
proof -
  let ?ys = "map key (filter p xs)"
  have "count_if p (filter (\<lambda>x. key x = k) xs) = count_if (\<lambda>y. y = k) ?ys" for k
    by (induction xs) simp_all
  then have "sum_list (map (\<lambda>k. count_if p (filter (\<lambda>x. key x = k) xs)) ks) = length ?ys"
    using sum_list_counts [OF assms(1), of ?ys] assms(2) by (simp add: image_subset_iff)
  also have "\<dots> = count_if p xs" by (induction xs) simp_all
  finally show ?thesis .
qed

lemma lane_counts_sum:
  "engine \<noteq> ''harness'' \<Longrightarrow> sum_list (map (\<lambda>lane. count_if p (rows_in results engine lane)) (lanes_in results)) = count_if p (rows_of engine results)"
  unfolding rows_in_of by (rule sum_over_keys) (simp add: lanes_in_def, erule (1) filter_in_lanes)

lemma lane_lengths_sum:
  "engine \<noteq> ''harness'' \<Longrightarrow> sum_list (map (\<lambda>lane. length (rows_in results engine lane)) (lanes_in results)) = length (rows_of engine results)"
  using lane_counts_sum [of engine "\<lambda>r. True" results] by (simp add: count_if_def)

end
