(* ===== verification/W3C_Markdown_Claims.thy ===== *)
theory W3C_Markdown_Claims
  imports W3C_Markdown
begin

text \<open>Properties of the text of \<open>summary.md\<close>: it is rendered, and its table of lanes adds up to its table of engines.\<close>

definition rows_shown :: "result list \<Rightarrow> string \<Rightarrow> lane_row list" where
  "rows_shown results engine = filter (\<lambda>row. ln_engine row = engine) (lane_rows results)"

lemma concat_map_filter:
  assumes "\<And>k x. k \<in> set ks \<Longrightarrow> x \<in> set (f k) \<Longrightarrow> key x = k" "distinct ks"
  shows "filter (\<lambda>x. key x = k) (concat (map f ks)) = (if k \<in> set ks then f k else [])"
  using assms
proof (induction ks)
  case (Cons j ks)
  have j: "filter (\<lambda>x. key x = k) (f j) = (if k = j then f j else [])"
    using Cons.prems(1) [of j] by (auto simp: filter_empty_conv filter_id_conv)
  have "filter (\<lambda>x. key x = k) (concat (map f ks)) = (if k \<in> set ks then f k else [])"
    by (rule Cons.IH) (use Cons.prems in auto)
  with j Cons.prems(2) show ?case by auto
qed simp

lemma rows_shown_eq:
  "rows_shown results engine
     = (if engine \<in> r_engine ` set (not_harness results) then map (lane_row_of results engine) (lanes_in results) else [])"
proof -
  have "ln_engine row = k" if "row \<in> set (map (lane_row_of results k) (lanes_in results))" for row k
    using that by (auto simp: lane_row_of_def Let_def)
  then have "rows_shown results engine = (if engine \<in> set (fromkeys (map r_engine (not_harness results)))
      then map (lane_row_of results engine) (lanes_in results) else [])"
    unfolding rows_shown_def lane_rows_def by (intro concat_map_filter distinct_fromkeys)
  then show ?thesis by (simp only: set_fromkeys set_map)
qed

lemma no_rows: "engine \<noteq> ''harness'' \<Longrightarrow> engine \<notin> r_engine ` set (not_harness results) \<Longrightarrow> rows_of engine results = []"
  by (auto simp: rows_of_def not_harness_def filter_empty_conv)

lemma lane_row_sel:
  "ln_cases (lane_row_of results e l) = length (rows_in results e l)"
  "ln_passed (lane_row_of results e l) = status_count ''passed'' (rows_in results e l)"
  "ln_failed (lane_row_of results e l) = status_count ''failed'' (rows_in results e l)"
  "ln_errors (lane_row_of results e l) = status_count ''error'' (rows_in results e l)"
  "ln_skipped (lane_row_of results e l) = status_count ''skipped'' (rows_in results e l)"
  "ln_accepted (lane_row_of results e l) = count_if (\<lambda>r. r_actual r = ''ACCEPT'') (rows_in results e l)"
  "ln_rejected (lane_row_of results e l) = count_if (\<lambda>r. r_actual r = ''REJECT'') (rows_in results e l)"
  by (simp_all add: lane_row_of_def Let_def)

definition shown_sum :: "(lane_row \<Rightarrow> nat) \<Rightarrow> result list \<Rightarrow> string \<Rightarrow> nat" where
  "shown_sum column results engine = sum_list (map column (rows_shown results engine))"

lemma shown_sum_count:
  assumes "engine \<noteq> ''harness''" "\<And>lane. column (lane_row_of results engine lane) = count_if p (rows_in results engine lane)"
  shows "shown_sum column results engine = count_if p (rows_of engine results)"
proof (cases "engine \<in> r_engine ` set (not_harness results)")
  case True
  then show ?thesis using lane_counts_sum [OF assms(1), of p results]
    by (simp add: shown_sum_def rows_shown_eq comp_def assms(2))
next
  case False
  then show ?thesis using no_rows [OF assms(1)] by (simp add: shown_sum_def rows_shown_eq count_if_def)
qed

text \<open>
  C36. The two tables of \<open>summary.md\<close> agree: for every engine, the rows of the table of lanes add up to the engine's
  row of the table of engines, in cases, failures, errors, skipped cases, accepted and rejected documents; their passed
  cases are the passed ones and the ones that could only crash together.
\<close>

theorem lane_table_adds_up:
  assumes "engine \<noteq> ''harness''"
  shows "shown_sum ln_cases results engine = m_total (report_summary results engine)
    \<and> int (shown_sum ln_passed results engine) = m_passed (report_summary results engine) + int (m_no_crash_only (report_summary results engine))
    \<and> shown_sum ln_failed results engine = m_failed (report_summary results engine)
    \<and> shown_sum ln_errors results engine = m_errors (report_summary results engine)
    \<and> shown_sum ln_skipped results engine = m_skipped (report_summary results engine)
    \<and> shown_sum ln_accepted results engine = m_accepted (report_summary results engine)
    \<and> shown_sum ln_rejected results engine = m_rejected (report_summary results engine)"
proof -
  have "shown_sum ln_cases results engine = count_if (\<lambda>r. True) (rows_of engine results)"
    by (rule shown_sum_count [OF assms]) (simp add: lane_row_sel count_if_def)
  moreover have "shown_sum column results engine = status_count s (rows_of engine results)"
    if "\<And>lane. column (lane_row_of results engine lane) = status_count s (rows_in results engine lane)" for column s
    unfolding status_count_def by (rule shown_sum_count [OF assms]) (simp add: that status_count_def)
  moreover have "shown_sum ln_accepted results engine = count_if (\<lambda>r. r_actual r = ''ACCEPT'') (rows_of engine results)"
    "shown_sum ln_rejected results engine = count_if (\<lambda>r. r_actual r = ''REJECT'') (rows_of engine results)"
    by (rule shown_sum_count [OF assms], simp add: lane_row_sel)+
  ultimately show ?thesis by (simp add: report_summary_def Let_def lane_row_sel count_if_def)
qed

definition two_lanes :: "result list" where
  \<comment> \<open>a failed case of the profile and one whose lane accepts either verdict\<close>
  "two_lanes = map (\<lambda>(i, lane, expected, status).
     \<lparr>r_engine = ''xpact'', r_case_id = i, r_path = i, r_kind = ''not-wf'', r_expected = expected, r_actual = ''ACCEPT'', r_status = status,
      r_elapsed_ms = 1, r_message = [], r_known = [], r_exit_code = Some 0, r_lane = lane, r_catalog_expected = ''REJECT'',
      r_expectation_adjustment = []\<rparr>)
     [(''a'', ''core'', ''REJECT'', ''failed''), (''b'', ''xml-1.1'', ''ANY'', ''passed'')]"

theorem lane_table_adds_up_witness:
  "shown_sum ln_cases two_lanes ''xpact'' = 2 \<and> shown_sum ln_failed two_lanes ''xpact'' = 1 \<and> m_passed (report_summary two_lanes ''xpact'') = 0"
proof -
  have "m_total (report_summary two_lanes ''xpact'') = 2" "m_failed (report_summary two_lanes ''xpact'') = 1"
    "m_passed (report_summary two_lanes ''xpact'') = 0" by code_simp+
  then show ?thesis using lane_table_adds_up [of "''xpact''" two_lanes] by simp
qed

lemma case_lane_listed:
  assumes "case_lane attributes expected reason = Inr (lane, v)"
  shows "map_of LANE_MEANINGS lane \<noteq> None"
  using assms by (auto simp: case_lane_def out_of_profile_lane_def bindE_Inr_iff Let_def LANE_MEANINGS_def split: if_splits option.splits sum.splits)

lemma w3c_markdown_renders:
  assumes "list_all (\<lambda>r. map_of LANE_MEANINGS (r_lane r) \<noteq> None) (not_harness results)"
  shows "\<exists>summary. w3c_markdown fr results = Inr summary"
proof -
  have "\<exists>note. lane_note lane = Inr note" if "lane \<in> set (lanes_in results)" for lane
  proof -
    from that assms have "map_of LANE_MEANINGS lane \<noteq> None" by (auto simp: lanes_in_def list_all_iff)
    then obtain meaning where "map_of LANE_MEANINGS lane = Some meaning" by blast
    then show ?thesis by (simp add: lane_note_def)
  qed
  then have "mapE lane_note (lanes_in results) = Inr (map (\<lambda>lane. projr (lane_note lane)) (lanes_in results))"
    by (intro mapE_total) force
  then have "\<exists>lanes. lane_table results = Inr lanes" by (cases "lanes_shown results") (simp_all add: lane_table_def)
  then show ?thesis by (auto simp: w3c_markdown_def Let_def)
qed

end
