(* ===== verification/Harness_Tools.thy ===== *)
theory Harness_Tools
  imports Engine_Harness
begin

text \<open>
  What the issue harness does with recorded events and with its workers: James Clark's canonical form
  (\<open>canonical.py\<close>), the jobs that compare cuts of one document (\<open>worker.py\<close>), and the pool that gives jobs to a
  worker process and starts another one after a crash or a timeout (\<open>pool.py\<close>).
\<close>

section \<open>Canonical form\<close>

definition esc_char :: "char \<Rightarrow> string" where
  "esc_char c = (if c = CHR ''&'' then ''&amp;'' else if c = CHR ''<'' then ''&lt;'' else if c = CHR ''>'' then ''&gt;''
     else if c = CHR 0x22 then ''&quot;'' else if c = CHR 0x09 then ''&#9;'' else if c = CHR 0x0A then ''&#10;''
     else if c = CHR 0x0D then ''&#13;'' else [c])"

definition esc :: "string \<Rightarrow> string" where
  "esc s = concat (map esc_char s)"

fun ev_show :: "ev_value \<Rightarrow> string" where
  \<comment> \<open>a text or an absent one in a format\<close>
  "ev_show (Str s) = s"
| "ev_show NoneV = ''None''"
| "ev_show (Num n) = show_int n"
| "ev_show (Items vs) = ''['' @ join '', '' (map ev_show vs) @ '']''"

fun ev_truthy :: "ev_value \<Rightarrow> bool" where
  "ev_truthy (Str s) = (s \<noteq> [])"
| "ev_truthy NoneV = False"
| "ev_truthy (Num n) = (n \<noteq> 0)"
| "ev_truthy (Items vs) = (vs \<noteq> [])"

fun pairs_of :: "ev_value list \<Rightarrow> string list list" where
  \<comment> \<open>\<open>zip(ev[2][0::2], ev[2][1::2])\<close>, a pair as a list of two\<close>
  "pairs_of (k # v # rest) = [ev_show k, ev_show v] # pairs_of rest"
| "pairs_of _ = []"

definition canonical_attribute :: "string list \<Rightarrow> string" where
  "canonical_attribute kv = '' '' @ hd kv @ ''='' @ [CHR 0x22] @ esc (last kv) @ [CHR 0x22]"

definition start_text :: "string \<Rightarrow> ev_value list \<Rightarrow> string" where
  "start_text name attributes = ''<'' @ name @ concat (map canonical_attribute (sort (pairs_of attributes))) @ ''>''"

definition notation_text :: "string \<Rightarrow> ev_value \<Rightarrow> ev_value \<Rightarrow> string" where
  "notation_text name system public =
     (let q = (\<lambda>v. '' '' @ [CHR 0x27] @ ev_show v @ [CHR 0x27]) in
      if ev_truthy public \<and> ev_truthy system then ''<!NOTATION '' @ name @ '' PUBLIC'' @ q public @ q system @ ''>''
      else if ev_truthy public then ''<!NOTATION '' @ name @ '' PUBLIC'' @ q public @ ''>''
      else ''<!NOTATION '' @ name @ '' SYSTEM'' @ q system @ ''>'')"

record canon =
  cn_out :: "string list"
  cn_notations :: "(string \<times> string) list"
  cn_root :: "string option"
  cn_doctype_at :: nat

definition emit_part :: "string \<Rightarrow> canon \<Rightarrow> canon" where
  "emit_part part st = st\<lparr>cn_out := cn_out st @ [part]\<rparr>"

definition first_root :: "string \<Rightarrow> canon \<Rightarrow> canon" where
  "first_root name st = (case cn_root st of None \<Rightarrow> st\<lparr>cn_root := Some name\<rparr> | Some r \<Rightarrow> st)"

definition canon_event :: "string \<Rightarrow> ev_value list \<Rightarrow> canon \<Rightarrow> canon" where
  "canon_event kind args st =
     (if kind = ''start'' then
        (case args of [name, Items attributes] \<Rightarrow> emit_part (start_text (ev_show name) attributes) (first_root (ev_show name) st) | _ \<Rightarrow> st)
      else if kind = ''end'' then (case args of [name] \<Rightarrow> emit_part (''</'' @ ev_show name @ ''>'') st | _ \<Rightarrow> st)
      else if kind = ''pi'' then (case args of [t, d] \<Rightarrow> emit_part (''<?'' @ ev_show t @ '' '' @ ev_show d @ ''?>'') st | _ \<Rightarrow> st)
      else if kind = ''startdoctype'' then (case args of name # _ \<Rightarrow> first_root (ev_show name) st | _ \<Rightarrow> st)
      else if kind = ''enddoctype'' then st\<lparr>cn_doctype_at := length (cn_out st)\<rparr>
      else if kind = ''notationdecl'' then
        (case args of [name, system, public] \<Rightarrow>
           st\<lparr>cn_notations := AList.update (ev_show name) (notation_text (ev_show name) system public) (cn_notations st)\<rparr> | _ \<Rightarrow> st)
      else st)"

fun canon_step :: "harness_event \<Rightarrow> canon \<Rightarrow> canon" where
  "canon_step (Chars s) st = emit_part (esc s) st"
| "canon_step (Ev kind args) st = canon_event kind args st"

definition canon_start :: canon where
  "canon_start = \<lparr>cn_out = [], cn_notations = [], cn_root = None, cn_doctype_at = 0\<rparr>"

definition doctype_text :: "(string \<times> string) list \<Rightarrow> string option \<Rightarrow> string" where
  "doctype_text notations r = ''<!DOCTYPE '' @ (case r of None \<Rightarrow> ''None'' | Some n \<Rightarrow> n) @ '' ['' @ [CHR 0x0A]
     @ concat (map (\<lambda>k. the (map_of notations k) @ [CHR 0x0A]) (sort (map fst notations))) @ '']>'' @ [CHR 0x0A]"

definition canonical :: "harness_event list \<Rightarrow> string" where
  "canonical events =
     (let st = fold canon_step events canon_start; out = cn_out st; i = cn_doctype_at st in
      concat (if cn_notations st = [] then out
              else take i out @ [doctype_text (cn_notations st) (cn_root st)] @ drop i out))"

section \<open>Jobs that compare cuts\<close>

type_synonym outcome_key = "string \<times> int \<times> harness_event list"

definition job_key :: "parse_result \<Rightarrow> outcome_key" where
  "job_key r = (pr_verdict r, pr_error r, pr_events r)"

record split_report =
  sl_verdict :: string
  sl_error :: int
  sl_byte_same :: bool
  sl_byte_verdict :: string
  sl_bad :: "int list"

definition compare_splits :: "(chunk_split \<Rightarrow> parse_result) \<Rightarrow> nat \<Rightarrow> int \<Rightarrow> split_report" where
  \<comment> \<open>\<open>parse\<close> is the engine on the job's document, \<open>len\<close> the length of the document\<close>
  "compare_splits parse len limit =
     (let whole = parse Whole; byte = parse (SplitText ''byte'') in
      \<lparr>sl_verdict = pr_verdict whole, sl_error = pr_error whole, sl_byte_same = (job_key byte = job_key whole),
       sl_byte_verdict = pr_verdict byte,
       sl_bad = (if int len \<le> limit then filter (\<lambda>k. job_key (parse (SplitAt k)) \<noteq> job_key whole) [1..int len - 1] else [])\<rparr>)"

fun first_difference :: "'a list \<Rightarrow> 'a list \<Rightarrow> nat" where
  \<comment> \<open>\<open>next((k for ... if x != y), min(len(a), len(b)))\<close>\<close>
  "first_difference (x # xs) (y # ys) = (if x \<noteq> y then 0 else Suc (first_difference xs ys))"
| "first_difference _ _ = 0"

record explanation =
  xp_whole :: "string \<times> int \<times> string"
  xp_split :: "string \<times> int \<times> string"
  xp_events_equal :: bool
  xp_n_whole :: nat
  xp_n_split :: nat
  xp_at :: nat
  xp_ev_whole :: "harness_event list"
  xp_ev_split :: "harness_event list"

definition explain_split :: "(chunk_split \<Rightarrow> parse_result) \<Rightarrow> chunk_split \<Rightarrow> explanation" where
  \<comment> \<open>the events around the difference as events, where the job prints them as JSON\<close>
  "explain_split parse split =
     (let a = parse Whole; b = parse split; i = first_difference (pr_events a) (pr_events b) in
      \<lparr>xp_whole = (pr_verdict a, pr_error a, pr_message a), xp_split = (pr_verdict b, pr_error b, pr_message b),
       xp_events_equal = (pr_events a = pr_events b), xp_n_whole = length (pr_events a), xp_n_split = length (pr_events b),
       xp_at = i, xp_ev_whole = take 2 (drop i (pr_events a)), xp_ev_split = take 2 (drop i (pr_events b))\<rparr>)"

section \<open>The pool\<close>

datatype 'r reply =
    Line 'r \<comment> \<open>the parsed line\<close>
  | EndOfOutput int \<comment> \<open>the worker ended, with its exit code\<close>
  | Silent \<comment> \<open>nothing within the timeout\<close>
  | BrokenPipe int \<comment> \<open>writing the job failed; the exit code\<close>

record ('w, 'j, 'r) worker =
  wk_start :: 'w
  wk_ended :: "'w \<Rightarrow> bool" \<comment> \<open>\<open>poll() is not None\<close>\<close>
  wk_reply :: "'w \<Rightarrow> 'j \<Rightarrow> 'r reply \<times> 'w"

datatype 'r job_result =
    Result 'r
  | Crash int string
  | Timeout

definition hex_nibble :: "nat \<Rightarrow> char" where
  "hex_nibble n = ''0123456789ABCDEF'' ! n"

definition hex8 :: "int \<Rightarrow> string" where
  \<comment> \<open>\<open>0x{code & 0xFFFFFFFF:08X}\<close>\<close>
  "hex8 n = ''0x'' @ map (\<lambda>i. hex_nibble (nat (n mod 2 ^ 32 div 16 ^ i mod 16))) [7, 6, 5, 4, 3, 2, 1, 0]"

definition pool_run :: "('w, 'j, 'r) worker \<Rightarrow> 'w option \<Rightarrow> 'j \<Rightarrow> 'r job_result \<times> 'w option" where
  \<comment> \<open>\<open>Pool.run\<close>: the worker process, if any, before and after\<close>
  "pool_run wk proc job =
     (let w = (case proc of None \<Rightarrow> wk_start wk | Some w \<Rightarrow> if wk_ended wk w then wk_start wk else w) in
      case wk_reply wk w job of
        (Line r, w') \<Rightarrow> (Result r, Some w')
      | (EndOfOutput code, w') \<Rightarrow> (Crash code (hex8 code), None)
      | (BrokenPipe code, w') \<Rightarrow> (Crash code (hex8 code), None)
      | (Silent, w') \<Rightarrow> (Timeout, None))"

fun pool_jobs :: "('w, 'j, 'r) worker \<Rightarrow> 'w option \<Rightarrow> 'j list \<Rightarrow> 'r job_result list" where
  \<comment> \<open>a pool used for one job after another\<close>
  "pool_jobs wk proc [] = []"
| "pool_jobs wk proc (job # jobs) = (case pool_run wk proc job of (r, proc') \<Rightarrow> r # pool_jobs wk proc' jobs)"

end
