(* ===== verification/Harness_Claims.thy ===== *)
theory Harness_Claims
  imports Harness_Tools Engine_Claims "HOL-Library.Multiset" "HOL-Library.Sublist"
begin

text \<open>Properties of the canonical form, of the jobs that compare cuts, and of the pool.\<close>

section \<open>The canonical form\<close>

text \<open>
  What the form depends on: the text before and after the place of the document type, the notations and the root.
\<close>

record canon_view =
  cv_before :: string
  cv_after :: string
  cv_notations :: "(string \<times> string) list"
  cv_root :: "string option"

definition view_of_canon :: "canon \<Rightarrow> canon_view" where
  "view_of_canon st = \<lparr>cv_before = concat (take (cn_doctype_at st) (cn_out st)), cv_after = concat (drop (cn_doctype_at st) (cn_out st)),
     cv_notations = cn_notations st, cv_root = cn_root st\<rparr>"

definition placed :: "canon \<Rightarrow> bool" where
  "placed st = (cn_doctype_at st \<le> length (cn_out st))"

definition view_text :: "canon_view \<Rightarrow> string" where
  "view_text v = (if cv_notations v = [] then cv_before v @ cv_after v
     else cv_before v @ doctype_text (cv_notations v) (cv_root v) @ cv_after v)"

lemma canonical_view: "canonical es = view_text (view_of_canon (fold canon_step es canon_start))"
proof -
  have "concat (take i xs) @ concat (drop i xs) = concat xs" for i and xs :: "string list"
    by (simp flip: concat_append)
  then show ?thesis by (simp add: canonical_def view_text_def view_of_canon_def Let_def)
qed

definition view_part :: "string \<Rightarrow> canon_view \<Rightarrow> canon_view" where
  "view_part part v = v\<lparr>cv_after := cv_after v @ part\<rparr>"

definition view_first_root :: "string \<Rightarrow> canon_view \<Rightarrow> canon_view" where
  "view_first_root name v = (case cv_root v of None \<Rightarrow> v\<lparr>cv_root := Some name\<rparr> | Some r \<Rightarrow> v)"

fun view_step :: "harness_event \<Rightarrow> canon_view \<Rightarrow> canon_view" where
  "view_step (Chars s) v = view_part (esc s) v"
| "view_step (Ev kind args) v =
     (if kind = ''start'' then
        (case args of [name, Items attributes] \<Rightarrow> view_part (start_text (ev_show name) attributes) (view_first_root (ev_show name) v) | _ \<Rightarrow> v)
      else if kind = ''end'' then (case args of [name] \<Rightarrow> view_part (''</'' @ ev_show name @ ''>'') v | _ \<Rightarrow> v)
      else if kind = ''pi'' then (case args of [t, d] \<Rightarrow> view_part (''<?'' @ ev_show t @ '' '' @ ev_show d @ ''?>'') v | _ \<Rightarrow> v)
      else if kind = ''startdoctype'' then (case args of name # _ \<Rightarrow> view_first_root (ev_show name) v | _ \<Rightarrow> v)
      else if kind = ''enddoctype'' then v\<lparr>cv_before := cv_before v @ cv_after v, cv_after := []\<rparr>
      else if kind = ''notationdecl'' then
        (case args of [name, system, public] \<Rightarrow>
           v\<lparr>cv_notations := AList.update (ev_show name) (notation_text (ev_show name) system public) (cv_notations v)\<rparr> | _ \<Rightarrow> v)
      else v)"

lemma view_emit: "placed st \<Longrightarrow> view_of_canon (emit_part part st) = view_part part (view_of_canon st) \<and> placed (emit_part part st)"
  by (simp add: view_of_canon_def placed_def emit_part_def view_part_def)

lemma view_root: "view_of_canon (first_root name st) = view_first_root name (view_of_canon st) \<and> placed (first_root name st) = placed st"
  by (cases "cn_root st") (simp_all add: first_root_def view_first_root_def view_of_canon_def placed_def)

lemma view_doctype:
  "view_of_canon (st\<lparr>cn_doctype_at := length (cn_out st)\<rparr>) =
     (view_of_canon st)\<lparr>cv_before := cv_before (view_of_canon st) @ cv_after (view_of_canon st), cv_after := []\<rparr>
   \<and> placed (st\<lparr>cn_doctype_at := length (cn_out st)\<rparr>)"
  by (simp add: view_of_canon_def placed_def flip: concat_append)

lemma view_notation:
  "view_of_canon (st\<lparr>cn_notations := ns\<rparr>) = (view_of_canon st)\<lparr>cv_notations := ns\<rparr>" "placed (st\<lparr>cn_notations := ns\<rparr>) = placed st"
  "cn_notations st = cv_notations (view_of_canon st)"
  by (simp_all add: view_of_canon_def placed_def)

lemma view_event:
  "placed st \<Longrightarrow> view_of_canon (canon_event kind args st) = view_step (Ev kind args) (view_of_canon st) \<and> placed (canon_event kind args st)"
  unfolding canon_event_def view_step.simps
  by (simp add: view_emit view_root view_doctype view_notation split: list.splits ev_value.splits)

lemma view_refines:
  "placed st \<Longrightarrow> view_of_canon (canon_step e st) = view_step e (view_of_canon st) \<and> placed (canon_step e st)"
  by (cases e) (simp_all add: view_event view_emit)

lemma view_fold:
  "placed st \<Longrightarrow> view_of_canon (fold canon_step es st) = fold view_step es (view_of_canon st)"
  by (induction es arbitrary: st) (simp_all add: view_refines)

lemma esc_append: "esc (a @ b) = esc a @ esc b"
  by (simp add: esc_def)

lemma fold_merge_chars:
  assumes "\<And>a b s. f (Chars (a @ b)) s = f (Chars b) (f (Chars a) s)"
  shows "fold f (merge_chars es) s = fold f es s"
  by (induction es arbitrary: s rule: merge_chars.induct) (simp_all add: assms)

lemma canonical_merge: "canonical (merge_chars es) = canonical es"
proof -
  have "view_step (Chars (a @ b)) v = view_step (Chars b) (view_step (Chars a) v)" for a b v
    by (simp add: view_part_def esc_append)
  then have "fold view_step (merge_chars es) v = fold view_step es v" for v by (rule fold_merge_chars)
  then show ?thesis by (simp add: canonical_view view_fold placed_def canon_start_def)
qed

lemma sort_permuted: "mset xs = mset ys \<Longrightarrow> sort xs = (sort ys :: 'a :: linorder list)"
  by (metis sorted_list_of_multiset_mset)

text \<open>
  C22. The canonical form is one of the document, not of the parser that reported it: it is the same for the events as
  they came and as a recorder joined them, so for any division of text, and for any order in which an element's
  attributes are reported.
\<close>

theorem canonical_of_document:
  assumes "mset (pairs_of attributes) = mset (pairs_of reordered)"
  shows "canonical (rec_events (record_all es)) = canonical es
    \<and> canonical (before @ Ev ''start'' [name, Items attributes] # after)
      = canonical (before @ Ev ''start'' [name, Items reordered] # after)"
proof -
  have "canon_step (Ev ''start'' [name, Items attributes]) = canon_step (Ev ''start'' [name, Items reordered])"
    using sort_permuted [OF assms] by (simp add: fun_eq_iff canon_event_def start_text_def)
  then have "fold canon_step (before @ Ev ''start'' [name, Items attributes] # after) canon_start
      = fold canon_step (before @ Ev ''start'' [name, Items reordered] # after) canon_start" by simp
  then show ?thesis by (simp only: canonical_def record_merges canonical_merge [unfolded canonical_def])
qed

theorem canonical_of_document_witness:
  "canonical [Ev ''start'' [Str ''d'', Items [Str ''b'', Str ''<'', Str ''a'', Str ''1'']], Chars ''x'']
     = canonical [Ev ''start'' [Str ''d'', Items [Str ''a'', Str ''1'', Str ''b'', Str ''<'']], Chars ''x'']
   \<and> canonical [Ev ''start'' [Str ''d'', Items [Str ''b'', Str ''<'', Str ''a'', Str ''1'']], Chars ''x'']
     = ''<d a='' @ [CHR 0x22] @ ''1'' @ [CHR 0x22] @ '' b='' @ [CHR 0x22] @ ''&lt;'' @ [CHR 0x22] @ ''>x''"
proof
  have "mset (pairs_of [Str ''b'', Str ''<'', Str ''a'', Str ''1'']) = mset (pairs_of [Str ''a'', Str ''1'', Str ''b'', Str ''<''])"
    by (simp add: add_mset_commute)
  from canonical_of_document [OF this, of "[]" "[]" "Str ''d''" "[Chars ''x'']"] show
    "canonical [Ev ''start'' [Str ''d'', Items [Str ''b'', Str ''<'', Str ''a'', Str ''1'']], Chars ''x'']
     = canonical [Ev ''start'' [Str ''d'', Items [Str ''a'', Str ''1'', Str ''b'', Str ''<'']], Chars ''x'']" by simp
qed code_simp

section \<open>The first difference\<close>

lemma first_difference_prefix: "first_difference xs ys = length (longest_common_prefix xs ys)"
  by (induction xs ys rule: first_difference.induct) simp_all

section \<open>The pool\<close>

definition forgetful :: "('w, 'j, 'r) worker \<Rightarrow> bool" where
  \<comment> \<open>a worker that still runs answers as a fresh one\<close>
  "forgetful wk = (\<forall>w job. wk_ended wk w \<or> fst (wk_reply wk w job) = fst (wk_reply wk (wk_start wk) job))"

fun job_result_of :: "'r reply \<Rightarrow> 'r job_result" where
  "job_result_of (Line r) = Result r"
| "job_result_of (EndOfOutput code) = Crash code (hex8 code)"
| "job_result_of (BrokenPipe code) = Crash code (hex8 code)"
| "job_result_of Silent = Timeout"

definition fresh_result :: "('w, 'j, 'r) worker \<Rightarrow> 'j \<Rightarrow> 'r job_result" where
  "fresh_result wk job = job_result_of (fst (wk_reply wk (wk_start wk) job))"

lemma pool_run_result:
  assumes "forgetful wk"
  shows "fst (pool_run wk proc job) = fresh_result wk job"
proof -
  define w where "w = (case proc of None \<Rightarrow> wk_start wk | Some w \<Rightarrow> if wk_ended wk w then wk_start wk else w)"
  have "fst (wk_reply wk w job) = fst (wk_reply wk (wk_start wk) job)"
    using assms by (auto simp: forgetful_def w_def split: option.splits)
  moreover have "fst (pool_run wk proc job) = job_result_of (fst (wk_reply wk w job))"
    by (cases "wk_reply wk w job"; cases "fst (wk_reply wk w job)") (simp_all add: pool_run_def w_def)
  ultimately show ?thesis by (simp add: fresh_result_def)
qed


definition sample_worker :: "(nat, string, string) worker" where
  \<comment> \<open>ends at the job \<open>crash\<close>, hangs at \<open>hang\<close>, and counts the others\<close>
  "sample_worker = \<lparr>wk_start = 0, wk_ended = (\<lambda>n. n > 1000),
     wk_reply = (\<lambda>n job. (if job = ''crash'' then EndOfOutput (-1073741819) else if job = ''hang'' then Silent else Line job, n + 1))\<rparr>"


end
