(* ===== verification/Catalog_Entities.thy ===== *)
theory Catalog_Entities
  imports W3C_Catalog
begin

text \<open>
  The expansion of the catalog's entities in \<open>load_catalog\<close> of \<open>scripts/run_w3c_conformance.py\<close>: the Expat
  handlers that feed one tree builder from the root catalog and from every file it refers to. What a parser
  makes of a text is a parameter: a sequence of builder calls and of references, each with the parser for the entity,
  that ends well or with an exception. A reference may lead to a further one, so the expansion has fuel; \<open>None\<close>
  is an expansion that nests deeper.
\<close>

section \<open>Parsers and the builder\<close>

datatype ('b, 'p) tree_feed =
    Build 'b "('b, 'p) tree_feed" \<comment> \<open>a call of the builder\<close>
  | Reference string string 'p "('b, 'p) tree_feed" \<comment> \<open>base, system identifier, the parser of the entity\<close>
  | Parsed
  | Malformed exn

record ('b, 'p) catalog_parser =
  ce_create :: "string option \<Rightarrow> 'p" \<comment> \<open>\<open>ParserCreate(encoding)\<close>\<close>
  ce_base :: "'p \<Rightarrow> string \<Rightarrow> 'p" \<comment> \<open>\<open>SetBase\<close> and the handlers\<close>
  ce_parse :: "'p \<Rightarrow> string \<Rightarrow> ('b, 'p) tree_feed" \<comment> \<open>\<open>Parse(data, True)\<close>\<close>
  ce_read :: "path \<Rightarrow> string py"
  ce_close :: "'b list \<Rightarrow> element py" \<comment> \<open>\<open>builder.close()\<close> after these calls, the last one first\<close>

record 'b expansion =
  xn_calls :: "'b list" \<comment> \<open>the last call first\<close>
  xn_opened :: "path list" \<comment> \<open>the entities read so far, the last one first\<close>

type_synonym ('b, 'p) open_entity = "string \<Rightarrow> string \<Rightarrow> 'p \<Rightarrow> 'b expansion \<Rightarrow> 'b expansion py option"

primrec expand :: "('b, 'p) open_entity \<Rightarrow> ('b, 'p) tree_feed \<Rightarrow> 'b expansion \<Rightarrow> 'b expansion py option" where
  \<comment> \<open>one \<open>Parse\<close>; an exception of a handler ends it\<close>
  "expand entity (Build b rest) x = expand entity rest (x\<lparr>xn_calls := b # xn_calls x\<rparr>)"
| "expand entity (Reference base system_id child rest) x = (case entity base system_id child x of
      None \<Rightarrow> None
    | Some (Inl e) \<Rightarrow> Some (Inl e)
    | Some (Inr x') \<Rightarrow> expand entity rest x')"
| "expand entity Parsed x = Some (Inr x)"
| "expand entity (Malformed e) x = Some (Inl e)"

primrec external_entity :: "nat \<Rightarrow> host \<Rightarrow> ('b, 'p) catalog_parser \<Rightarrow> path \<Rightarrow> path list \<Rightarrow> ('b, 'p) open_entity" where
  \<comment> \<open>\<open>external\<close>; \<open>active\<close> are the entities being parsed\<close>
  "external_entity 0 h c limit active = (\<lambda>base system_id child x. None)"
| "external_entity (Suc fuel) h c limit active = (\<lambda>base system_id child x.
     case local_uri h limit base system_id of
       Inl e \<Rightarrow> Some (Inl e)
     | Inr target \<Rightarrow>
         if target \<in> set active then Some (Inl (ValueError (''Recursive catalog entity: '' @ as_posix target)))
         else (case ce_read c target of
             Inl e \<Rightarrow> Some (Inl e)
           | Inr content \<Rightarrow> expand (external_entity fuel h c limit (target # active))
               (ce_parse c (ce_base c child (as_uri h target)) content) (x\<lparr>xn_opened := target # xn_opened x\<rparr>)))"

definition expand_catalog :: "nat \<Rightarrow> host \<Rightarrow> ('b, 'p) catalog_parser \<Rightarrow> path \<Rightarrow> 'b expansion py option" where
  "expand_catalog fuel h c suite_dir =
     (let limit = resolve h suite_dir; catalog = limit @ [''xmlconf.xml''] in
      case ce_read c catalog of
        Inl e \<Rightarrow> Some (Inl e)
      | Inr content \<Rightarrow>
          let pinned_root = (file_sha256 h catalog = ROOT_CATALOG_SHA256);
              p = ce_base c (ce_create c (if pinned_root then Some ''ISO-8859-1'' else None)) (as_uri h catalog) in
          expand (external_entity fuel h c limit [catalog]) (ce_parse c p content) \<lparr>xn_calls = [], xn_opened = []\<rparr>)"

definition load_expanded :: "nat \<Rightarrow> host \<Rightarrow> ('b, 'p) catalog_parser \<Rightarrow> path \<Rightarrow> case_ list py option" where
  \<comment> \<open>\<open>load_catalog\<close> from the files of the suite\<close>
  "load_expanded fuel h c suite_dir = (case expand_catalog fuel h c suite_dir of
      None \<Rightarrow> None
    | Some m \<Rightarrow> Some (bindE m (\<lambda>x. bindE (ce_close c (xn_calls x)) (load_catalog h suite_dir))))"

end
