(* ===== verification/Entity_Claims.thy ===== *)
theory Entity_Claims
  imports Catalog_Entities
begin

text \<open>Properties of the expansion of the catalog: it ends, and it reads files of the suite only.\<close>

section \<open>Where it reads\<close>

definition opened_below :: "host \<Rightarrow> path \<Rightarrow> 'b expansion \<Rightarrow> bool" where
  "opened_below h limit x = list_all (\<lambda>p. is_relative_to p (resolve h limit)) (xn_opened x)"

definition keeps_below :: "host \<Rightarrow> path \<Rightarrow> ('b, 'p) open_entity \<Rightarrow> bool" where
  "keeps_below h limit entity = (\<forall>base system_id child x x'. entity base system_id child x = Some (Inr x') \<longrightarrow>
     opened_below h limit x \<longrightarrow> opened_below h limit x')"

lemma expand_below:
  assumes "keeps_below h limit entity"
  shows "expand entity f x = Some (Inr x') \<Longrightarrow> opened_below h limit x \<Longrightarrow> opened_below h limit x'"
proof (induction f arbitrary: x)
  case (Build b rest)
  then show ?case by (simp add: opened_below_def)
next
  case (Reference base system_id child rest)
  from Reference.prems(1) obtain x1 where x1: "entity base system_id child x = Some (Inr x1)" "expand entity rest x1 = Some (Inr x')"
    by (auto split: option.splits sum.splits)
  then have "opened_below h limit x1" using assms Reference.prems(2) unfolding keeps_below_def by blast
  with Reference.IH x1(2) show ?case by blast
qed simp_all

lemma external_entity_below: "keeps_below h limit (external_entity fuel h c limit active)"
proof (induction fuel arbitrary: active)
  case (Suc fuel)
  show ?case unfolding keeps_below_def
  proof (intro allI impI)
    fix base system_id child x x'
    assume r: "external_entity (Suc fuel) h c limit active base system_id child x = Some (Inr x')" and x: "opened_below h limit x"
    from r obtain target content where t: "local_uri h limit base system_id = Inr target"
      and e: "expand (external_entity fuel h c limit (target # active))
        (ce_parse c (ce_base c child (as_uri h target)) content) (x\<lparr>xn_opened := target # xn_opened x\<rparr>) = Some (Inr x')"
      by (auto split: sum.splits if_splits)
    have "opened_below h limit (x\<lparr>xn_opened := target # xn_opened x\<rparr>)"
      using x local_uri_contained [OF t] by (simp add: opened_below_def)
    from expand_below [OF Suc.IH e this] show "opened_below h limit x'" .
  qed
qed (simp add: keeps_below_def)

section \<open>It ends\<close>

definition readable_files :: "('b, 'p) catalog_parser \<Rightarrow> path list \<Rightarrow> bool" where
  \<comment> \<open>a list that has every file that can be read\<close>
  "readable_files c files = (\<forall>p. isl (ce_read c p) \<or> p \<in> set files)"

definition answers_alike :: "('b, 'p) open_entity \<Rightarrow> ('b, 'p) open_entity \<Rightarrow> bool" where
  "answers_alike entity entity' = (\<forall>base system_id child x. \<exists>m. entity base system_id child x = Some m \<and> entity' base system_id child x = Some m)"

lemma expand_alike:
  assumes "answers_alike entity entity'"
  shows "\<exists>m. expand entity f x = Some m \<and> expand entity' f x = Some m"
proof (induction f arbitrary: x)
  case (Reference base system_id child rest)
  obtain m where m: "entity base system_id child x = Some m" "entity' base system_id child x = Some m"
    using assms unfolding answers_alike_def by blast
  then show ?case using Reference.IH by (cases m) simp_all
qed simp_all

lemma external_entity_alike:
  assumes "readable_files c files"
  shows "card (set files - set active) < fuel \<Longrightarrow>
    answers_alike (external_entity fuel h c limit active) (external_entity (fuel + extra) h c limit active)"
proof (induction fuel arbitrary: active)
  case (Suc fuel)
  show ?case unfolding answers_alike_def
  proof (intro allI)
    fix base system_id child x
    show "\<exists>m. external_entity (Suc fuel) h c limit active base system_id child x = Some m
        \<and> external_entity (Suc fuel + extra) h c limit active base system_id child x = Some m"
    proof (cases "local_uri h limit base system_id")
      case (Inr target)
      show ?thesis
      proof (cases "target \<in> set active \<or> isl (ce_read c target)")
        case True
        then show ?thesis by (cases "ce_read c target") (auto simp: Inr)
      next
        case False
        then obtain content where read: "ce_read c target = Inr content" by (cases "ce_read c target") auto
        have "target \<in> set files - set active" using False assms by (auto simp: readable_files_def)
        then have "card (set files - set (target # active)) < card (set files - set active)"
          by (intro psubset_card_mono) auto
        with Suc.prems have "card (set files - set (target # active)) < fuel" by simp
        from expand_alike [OF Suc.IH [OF this]] show ?thesis using False by (simp add: Inr read)
      qed
    qed simp
  qed
qed simp

text \<open>
  C33. The expansion of the catalog ends and stays in the suite: whatever the files contain and however they refer to
  each other, fuel above the number of readable files gives a result that no more fuel changes, because an entity
  that is being parsed is refused; and every entity that was read lies below the suite directory.
\<close>

theorem catalog_expansion_ends:
  assumes "readable_files c files" "length files < fuel"
  shows "\<exists>m. (\<forall>extra. expand_catalog (fuel + extra) h c suite_dir = Some m)
    \<and> (case m of Inl e \<Rightarrow> True | Inr x \<Rightarrow> opened_below h (resolve h suite_dir) x)"
proof (cases "ce_read c (resolve h suite_dir @ [''xmlconf.xml''])")
  case (Inl e)
  then show ?thesis by (intro exI [of _ "Inl e"]) (simp add: expand_catalog_def Let_def)
next
  case (Inr content)
  let ?limit = "resolve h suite_dir"
  let ?feed = "ce_parse c (ce_base c (ce_create c (if file_sha256 h (?limit @ [''xmlconf.xml'']) = ROOT_CATALOG_SHA256
      then Some ''ISO-8859-1'' else None)) (as_uri h (?limit @ [''xmlconf.xml'']))) content"
  let ?start = "\<lparr>xn_calls = [], xn_opened = []\<rparr>"
  let ?entity = "\<lambda>extra. external_entity (fuel + extra) h c ?limit [?limit @ [''xmlconf.xml'']]"
  have run: "expand_catalog (fuel + extra) h c suite_dir = expand (?entity extra) ?feed ?start" for extra
    by (simp add: expand_catalog_def Let_def Inr)
  have "card (set files - set [?limit @ [''xmlconf.xml'']]) \<le> length files"
    by (meson card_Diff1_le card_length order_trans List.finite_set card_mono Diff_subset)
  with assms(2) have fuel: "card (set files - set [?limit @ [''xmlconf.xml'']]) < fuel" by simp
  have alike: "\<exists>m. expand (?entity 0) ?feed ?start = Some m \<and> expand (?entity extra) ?feed ?start = Some m" for extra
    using expand_alike [OF external_entity_alike [OF assms(1) fuel, of h ?limit extra], of ?feed ?start] by simp
  then obtain m where m: "expand (?entity 0) ?feed ?start = Some m" by blast
  have "expand (?entity extra) ?feed ?start = Some m" for extra using alike [of extra] m by simp
  moreover have "opened_below h ?limit x" if "m = Inr x" for x
    using expand_below [OF external_entity_below, of _ _ _ _ _ ?feed ?start x] m that by (simp add: opened_below_def)
  ultimately show ?thesis using run by (intro exI [of _ m]) (auto split: sum.split)
qed

definition entity_sample :: "(string, string) catalog_parser" where
  \<comment> \<open>a root catalog that refers to one file, which builds an element and refers to itself where it is asked to\<close>
  "entity_sample = \<lparr>ce_create = (\<lambda>encoding. []), ce_base = (\<lambda>p uri. p),
     ce_parse = (\<lambda>p content. if content = ''root'' then Reference ''suite'' ''a.xml'' [] Parsed
        else Build content (if content = ''loop'' then Reference ''suite'' ''a.xml'' [] Parsed else Parsed)),
     ce_read = (\<lambda>p. if p = [''suite'', ''xmlconf.xml''] then Inr ''root'' else if p = [''suite'', ''a.xml''] then Inr ''loop''
        else Inl (OSError ''no such file'')),
     ce_close = (\<lambda>calls. Inl TypeError)\<rparr>"

theorem catalog_expansion_ends_witness:
  "\<forall>extra. expand_catalog (3 + extra) sample_host entity_sample [''suite''] = Some (Inl (ValueError ''Recursive catalog entity: suite/a.xml''))"
proof -
  have "readable_files entity_sample [[''suite'', ''xmlconf.xml''], [''suite'', ''a.xml'']]"
    by (simp add: readable_files_def entity_sample_def)
  moreover have "length [[''suite'', ''xmlconf.xml''], [''suite'', ''a.xml'']] < 3" by simp
  ultimately obtain m where m: "\<forall>extra. expand_catalog (3 + extra) sample_host entity_sample [''suite''] = Some m"
    using catalog_expansion_ends by blast
  moreover have "expand_catalog 3 sample_host entity_sample [''suite''] = Some (Inl (ValueError ''Recursive catalog entity: suite/a.xml''))"
    by code_simp
  moreover have "expand_catalog 3 sample_host entity_sample [''suite''] = Some m" using m by (metis add_0_right)
  ultimately show ?thesis by simp
qed

end
