(* ===== verification/Spec2Isabelle.thy ===== *)
theory Spec2Isabelle
  imports W3C_Main_Claims W3C_Report Dual_W3C_Claims Jenkins_Claims Summary_Claims Build_Claims Paired_Claims Catalog_Claims Campaign_Claims Regression_Claims Wsl_Claims Compare_Claims Corpus_Claims Rescore_Claims Engine_Claims Page_Claims Catalog_Summary_Claims W3C_Markdown_Claims Harness_Claims Entity_Claims
begin

text \<open>
  The qualification harness of the xpact repository: the Python programs under \<open>scripts/\<close> that
  build the Eiffel XML parser xpact and the pinned implementation Xpact-core, run both against the W3C XML
  test suite and a catalog benchmark, and publish reports a Jenkins job acts on. The harness is
  what decides whether a parser is called conforming and which measurements are published, so its own
  correctness is: a good verdict is only given on evidence, a failure never leaves reports behind that look
  complete, and the programs agree on the files they exchange.

  \<^bold>\<open>The parts and how they interact.\<close>
  \<open>prepare_xpact_core.py\<close> fetches and verifies the pinned source of Xpact-core.
  \<open>build_implementations.py\<close> calls it and builds one executable per implementation, with a
  \<open>build.json\<close>. \<open>run_dual_w3c.py\<close> and \<open>run_dual_catalog.py\<close> are the two lanes: each
  builds both implementations in two assertion modes, runs directed controls on the executables, then
  executes the W3C catalog (with \<open>run_w3c_conformance.py\<close>) or measures alternating pairs of
  processes (with \<open>compare_eiffel_benchmarks.py\<close>), and writes its reports last.
  \<open>jenkins_xpact_summary.py\<close> turns the evidence about our own implementation into JUnit and a
  status, \<open>dual_jenkins_reports.py\<close> turns lane reports into plots, and \<open>run_dual_jenkins.py\<close>
  runs both lanes and both publishers as one campaign. \<open>run_dual_regression.py\<close> replays a corpus of
  inputs in several chunkings and a life cycle through both implementations and judges our own by expected
  verdicts and events. \<open>run_wsl_benchmarks.py\<close> builds and times the Eiffel benchmark and the distribution's
  C library under Linux.

  Around the harness stand the tools of finished investigations. Below \<open>student/results/\<close>,
  \<open>G01-corpus/make_manifest.py\<close> selects a corpus from the W3C catalog, \<open>expat-2.8.1/compare.py\<close> compares the
  recorded runs of two parser libraries, and \<open>xmlconf-verdicts/rescore.py\<close> judges an old run by the rules of
  today's runner. Below \<open>reports/issue-0154/tools/harness/\<close>, \<open>engines.py\<close> puts one document through Expat or
  through xpact's C interface, \<open>canonical.py\<close> turns the events into a canonical form, and \<open>worker.py\<close> and
  \<open>pool.py\<close> do so in processes that may crash.

  \<^bold>\<open>Conventions.\<close>
  A step that can raise has the type \<open>'a py = exn + 'a\<close> (\<open>Py_Prelude\<close>); a step with visible
  effects is a pair of the events it caused and its result (\<open>('ev, 'a) act\<close>), where an exception
  keeps the events before it; a loop with no bound of its own is a \<open>partial_function\<close> of the option
  monad, \<open>None\<close> being a run that does not end. Values read from JSON files are dynamically
  typed (\<open>Py_Value\<close>): indexing a value of the wrong shape raises what Python raises. Floats are the
  rationals they denote, infinities and NaN (\<open>Py_Number\<close>); rounding of float arithmetic is not
  modelled. Strings are lists of code points below 256; the few other
  characters of the texts for readers, and what the issue harness records, are their UTF-8 bytes. Everything outside the scripts is a
  field of a host record: the file system, processes, hashes, Git, the XML and URL libraries. Where a file can change
  while a script runs, the field is a function of the moment at which it is read. Removing a file is
  taken to succeed.

  \<^bold>\<open>Theories.\<close>
  \<^item> \<open>Py_Prelude\<close>, \<open>Py_Value\<close>, \<open>Py_Number\<close>: exceptions, sequencing, dictionaries and string
    methods of Python; JSON values; \<open>int\<close>, \<open>float\<close>, \<open>round\<close>, \<open>statistics.median\<close>.
  \<^item> \<open>Lane_Runner\<close>: traces of report files and of \<open>run.json\<close>, atomic and plain writes, the
    handler that clears reports, and the locale \<open>lane_contract\<close> (no report after an exception, all
    reports and the right status after a return), interpreted on the W3C lane and on the catalog lane.
  \<^item> \<open>W3C_Profile\<close>, \<open>W3C_Catalog\<close>, \<open>W3C_Run\<close>, \<open>W3C_Known\<close>, \<open>W3C_Main\<close>, \<open>W3C_Report\<close>:
    \<open>run_w3c_conformance.py\<close>. The profile rules of \<open>expectation\<close>; the walk over the parsed catalog
    with its path checks; \<open>run_case\<close>; the list of known failures; \<open>main\<close> and its exit status;
    JUnit, TSV and summary rows. Lemmas: a pass needs evidence, a catalog is complete and contained,
    the in-place loop over known failures equals its declarative reading, exit status 0 is trustworthy.
  \<^item> \<open>Dual_Lane\<close>: what both lanes share, the build gate and the protocol of the control executables,
    with the locale \<open>control_matrix\<close> (every control exactly once), interpreted on both validators.
  \<^item> \<open>Dual_W3C\<close>, \<open>Dual_W3C_Lane\<close>, \<open>Dual_W3C_Proofs\<close>, \<open>Dual_W3C_Sample\<close>, \<open>Dual_W3C_Claims\<close>:
    \<open>run_dual_w3c.py\<close>, from the suite snapshot over builds, controls and engines to the report.
  \<^item> \<open>Paired_Bench\<close>, \<open>Paired_Run\<close>, \<open>Paired_Proofs\<close>, \<open>Paired_Sample\<close>, \<open>Paired_Claims\<close>:
    \<open>compare_eiffel_benchmarks.py\<close>. \<open>calibrate\<close> is the only unbounded loop; it is proved to end
    within 32 rounds because the count doubles up to 2147483647, so \<open>main\<close> always returns.
  \<^item> \<open>Dual_Catalog\<close>, \<open>Catalog_Proofs\<close>, \<open>Catalog_Bridge\<close>, \<open>Catalog_Sample\<close>, \<open>Catalog_Claims\<close>:
    \<open>run_dual_catalog.py\<close>, calling the model of the paired benchmark, and that the plot publisher
    accepts what it reports.
  \<^item> \<open>Jenkins_Reports\<close>, \<open>Report_Bridge\<close>, \<open>Jenkins_Proofs\<close>, \<open>Jenkins_Claims\<close>:
    \<open>dual_jenkins_reports.py\<close>, which reports may be plotted and in which order files appear; and that
    the W3C lane's report is accepted.
  \<^item> \<open>Jenkins_Summary\<close>, \<open>Summary_Proofs\<close>, \<open>Summary_Bridge\<close>, \<open>Summary_Claims\<close>:
    \<open>jenkins_xpact_summary.py\<close>, and that it accepts the JUnit file of a returned lane.
  \<^item> \<open>Core_Dependency\<close>, \<open>Dependency_Claims\<close>: \<open>prepare_xpact_core.py\<close>.
  \<^item> \<open>Build_Implementations\<close>, \<open>Build_Main\<close>, \<open>Build_Claims\<close>: \<open>build_implementations.py\<close>, and
    that a finished build passes the gate of the lanes.
  \<^item> \<open>Campaign\<close>, \<open>Campaign_Proofs\<close>, \<open>Campaign_Claims\<close>: \<open>run_dual_jenkins.py\<close>, the lanes,
    summary and plots above run in sequence. It interprets \<open>lane_contract\<close> for the plots of completed lanes;
    the claims show that a campaign publishes all or nothing, that whatever the lanes do it goes on to the
    summary, and what exit status 0 means.
  \<^item> \<open>Regression\<close>, \<open>Regression_Proofs\<close>, \<open>Regression_Sample\<close>, \<open>Regression_Claims\<close>:
    \<open>run_dual_regression.py\<close>. One row per input and chunking and per life cycle step, the judgement of a
    trace as comparison with the expected verdict and events, and the exit status that depends on our own two
    configurations alone.
  \<^item> \<open>Wsl_Bench\<close>, \<open>Wsl_Build\<close>, \<open>Wsl_Run\<close>, \<open>Wsl_Proofs\<close>, \<open>Wsl_Sample\<close>,
    \<open>Wsl_Claims\<close>: \<open>run_wsl_benchmarks.py\<close>. Quoting and splitting of shell words, the environment of
    every command, fresh native executables, complete and correctly grouped rows, all reports or none.

  \<^item> \<open>Catalog_Entities\<close>, \<open>Entity_Claims\<close>: how \<open>load_catalog\<close> expands the root catalog through the files it
    refers to, before the walk of \<open>W3C_Catalog\<close>. The fuel counts nested files; it ends because a file that is being
    parsed is refused, so one more than the number of readable files is enough.
  \<^item> \<open>W3C_Markdown\<close>, \<open>W3C_Markdown_Claims\<close>; \<open>Catalog_Summary\<close>, \<open>Catalog_Summary_Claims\<close>; \<open>Jenkins_Page\<close>,
    \<open>Page_Claims\<close>: the texts for readers, \<open>summary.md\<close> of the conformance run and of the catalog lane, and the HTML
    page with its plots. Its table of lanes adds up, a checked comparison is always rendered, and no text of a
    report becomes markup.
  \<^item> \<open>Report_Tables\<close>: dictionaries made from rows, counters, numbers with thousands separators.
  \<^item> \<open>Expat_Compare\<close>, \<open>Compare_Claims\<close>: \<open>compare.py\<close>. Escaped bytes come back, divided text is no difference,
    the table and every number of the summary are exact.
  \<^item> \<open>Corpus_Manifest\<close>, \<open>Corpus_Run\<close>, \<open>Corpus_Claims\<close>: \<open>make_manifest.py\<close>, on the catalog model. The
    selection is even, bounded and without repetition, and a written manifest checks on a copy of the suite.
  \<^item> \<open>Baseline_Rescore\<close>, \<open>Rescore_Claims\<close>: \<open>rescore.py\<close>, one judged row per observation.
  \<^item> \<open>Engine_Harness\<close>, \<open>Engine_Claims\<close>: \<open>engines.py\<close>. A parser is a tree of callbacks, with fuel for the nesting
    of external entities; \<open>parse_returns\<close> gives the fuel that is enough. The two adapters are proved equal up
    to the way C hands over its arguments.
  \<^item> \<open>Harness_Tools\<close>, \<open>Harness_Claims\<close>: \<open>canonical.py\<close>, the comparing jobs of \<open>worker.py\<close>, and \<open>pool.py\<close>.

  \<^bold>\<open>Not modelled.\<close>
  The text the \<open>csv\<close>, \<open>json\<close> and XML libraries write, console output, \<open>argparse\<close> beyond the conversion of
  option values, downloads, and the times in file names. A lane model takes from its own texts only whether they could
  be written. Of the issue harness, the declarations of C types and functions, the plain job of the worker and its
  memory counter. The other scripts below \<open>reports/\<close> and \<open>student/\<close> print observations of single issues and decide
  nothing. The parser itself is written in Eiffel and C.
\<close>

end
